(* ===== verification/Prelude.thy ===== *)
theory Prelude
  imports Main "HOL-Library.Word" "HOL-Library.Char_ord" "HOL-Library.List_Lexorder"
    "HOL-Library.Multiset" "HOL-Library.Sublist"
begin

text \<open>
  The prelude of the development: the result type of a Go function that returns an
  \<^verbatim>\<open>error\<close> or panics, the combinator for \<^verbatim>\<open>if err != nil { return err }\<close>, the wrap-around
  of \<^verbatim>\<open>int64\<close>, and the list and map lemmas that the components share.
\<close>

named_theorems go_simps \<open>rewrite rules for sequencing Go calls\<close>
named_theorems frame_simps \<open>what an operation leaves unchanged\<close>

unbundle bit_operations_syntax

section \<open>Results of Go functions\<close>

text \<open>
  An error is a \<^verbatim>\<open>*CodedError\<close> (common/utils.go), the sentinel \<^verbatim>\<open>ErrFileNotFound\<close>
  (storage/transactions.go) or any other error value. Of a \<^verbatim>\<open>CodedError\<close> only the code is
  kept: its message is written to the log and never sent to a client.
\<close>

datatype goerr = Coded nat | ErrFileNotFound | Uncoded

datatype 'a go_result = Ok 'a | Err goerr | Panic

definition and_then ::
  "'a go_result \<times> 's \<Rightarrow> ('a \<Rightarrow> 's \<Rightarrow> 'b go_result \<times> 's) \<Rightarrow> 'b go_result \<times> 's" where
  "and_then r f =
     (case r of (Ok x, s) \<Rightarrow> f x s | (Err e, s) \<Rightarrow> (Err e, s) | (Panic, s) \<Rightarrow> (Panic, s))"

lemma and_then_simps [simp, go_simps]:
  "and_then (Ok x, s) f = f x s"
  "and_then (Err e, s) f = (Err e, s)"
  "and_then (Panic, s) f = (Panic, s)"
  by (simp_all add: and_then_def)

lemma and_then_OkE:
  assumes "and_then r f = (Ok y, t)"
  obtains x s where "r = (Ok x, s)" and "f x s = (Ok y, t)"
  using assms by (cases r; cases "fst r") (auto simp: and_then_def)

lemma and_then_keeps:
  assumes "P (snd r)" and "\<And>x s. P s \<Longrightarrow> P (snd (f x s))"
  shows "P (snd (and_then r f))"
  using assms by (cases r; cases "fst r") (auto simp: and_then_def)

lemma and_then_split_asm:
  "P (and_then r f) \<longleftrightarrow>
     \<not> ((\<exists>x s. r = (Ok x, s) \<and> \<not> P (f x s)) \<or> (\<exists>e s. r = (Err e, s) \<and> \<not> P (Err e, s))
        \<or> (\<exists>s. r = (Panic, s) \<and> \<not> P (Panic, s)))"
  by (cases r; cases "fst r") (auto simp: and_then_def)

lemma and_then_split:
  "P (and_then r f) \<longleftrightarrow>
     (\<forall>x s. r = (Ok x, s) \<longrightarrow> P (f x s)) \<and> (\<forall>e s. r = (Err e, s) \<longrightarrow> P (Err e, s))
     \<and> (\<forall>s. r = (Panic, s) \<longrightarrow> P (Panic, s))"
  by (cases r; cases "fst r") (auto simp: and_then_def)

section \<open>Signed 64-bit arithmetic\<close>

text \<open>The value an \<^verbatim>\<open>int64\<close> (or \<^verbatim>\<open>int\<close> on a 64-bit target) holds after an operation whose
  mathematical result is \<open>x\<close>.\<close>

definition i64 :: "int \<Rightarrow> int" where
  "i64 x = (x + 2 ^ 63) mod 2 ^ 64 - 2 ^ 63"

definition MaxInt64 :: int where
  "MaxInt64 = 2 ^ 63 - 1"

lemma i64_id: "- (2 ^ 63) \<le> x \<Longrightarrow> x \<le> MaxInt64 \<Longrightarrow> i64 x = x"
  by (simp add: i64_def MaxInt64_def)

lemma i64_range: "- (2 ^ 63) \<le> i64 x \<and> i64 x \<le> MaxInt64"
proof -
  have "0 \<le> (x + 2 ^ 63) mod 2 ^ 64" and "(x + 2 ^ 63) mod 2 ^ 64 < 2 ^ 64"
    by simp_all
  then show ?thesis by (simp add: i64_def MaxInt64_def)
qed

section \<open>Lists and maps\<close>

text \<open>The index of the first element that satisfies \<open>P\<close>, or the length.\<close>

fun first_index :: "('a \<Rightarrow> bool) \<Rightarrow> 'a list \<Rightarrow> nat" where
  "first_index P [] = 0"
| "first_index P (x # xs) = (if P x then 0 else Suc (first_index P xs))"

lemma first_index_le: "first_index P xs \<le> length xs"
  by (induction xs) auto

lemma first_index_less: "first_index P xs < length xs \<longleftrightarrow> (\<exists>x \<in> set xs. P x)"
  by (induction xs) auto

lemma first_index_holds: "first_index P xs < length xs \<Longrightarrow> P (xs ! first_index P xs)"
  by (induction xs) auto

lemma first_index_before: "i < first_index P xs \<Longrightarrow> \<not> P (xs ! i)"
  by (induction xs arbitrary: i) (auto split: if_splits simp: nth_Cons split: nat.splits)

lemma find_None_iff_filter: "List.find P xs = None \<longleftrightarrow> filter P xs = []"
  by (induction xs) auto

lemma find_Some_hd_filter: "List.find P xs = Some x \<longleftrightarrow> (\<exists>ys. filter P xs = x # ys)"
  by (induction xs) auto

lemma find_SomeD: "List.find P xs = Some x \<Longrightarrow> x \<in> set xs \<and> P x"
  by (induction xs) (auto split: if_splits)

lemma distinct_map_filter: "distinct (map f xs) \<Longrightarrow> distinct (map f (filter P xs))"
  by (induction xs) auto

lemma filter_unique_key:
  assumes "distinct (map f xs)" and "x \<in> set xs"
  shows "filter (\<lambda>y. f y = f x) xs = [x]"
  using assms
proof (induction xs)
  case Nil
  then show ?case by simp
next
  case (Cons a xs)
  show ?case
  proof (cases "a = x")
    case True
    with Cons.prems have "f x \<notin> f ` set xs" by simp
    then have "filter (\<lambda>y. f y = f x) xs = []"
      by (metis (mono_tags, lifting) filter_False imageI)
    with True show ?thesis by simp
  next
    case False
    with Cons show ?thesis by auto
  qed
qed

end
