(* ===== verification/Models.thy ===== *)
theory Models
  imports Prelude
begin

text \<open>
  The data of common/models.go: the structs as records (a field \<^verbatim>\<open>F\<close> of a struct \<^verbatim>\<open>S\<close> is
  \<open>S_F\<close>), their zero values, the permission bits and the error codes. A \<^verbatim>\<open>Snowflake\<close> is an
  \<^verbatim>\<open>int64\<close> that the code only compares, so it is an \<open>int\<close> here; permission sets are machine
  words of 64 bits, Go's \<^verbatim>\<open>int\<close>.
\<close>

type_synonym snowflake = int
type_synonym perms = "64 word"

definition SnowflakeNone :: snowflake where
  "SnowflakeNone = 0"

definition ProfileColorDefault :: int where
  "ProfileColorDefault = -1"

definition AvatarModifiedDefault :: int where
  "AvatarModifiedDefault = 0"

definition UserPresenceNone :: int where "UserPresenceNone = 0"

definition UserPresenceOffline :: int where "UserPresenceOffline = 1"

definition UserPresenceOnline :: int where "UserPresenceOnline = 2"

definition UserPresenceAway :: int where "UserPresenceAway = 3"

definition UserPresenceDoNotDisturb :: int where "UserPresenceDoNotDisturb = 4"

lemmas presence_defs = UserPresenceNone_def UserPresenceOffline_def UserPresenceOnline_def
  UserPresenceAway_def UserPresenceDoNotDisturb_def

record User =
  User_ID :: snowflake
  User_UserName :: string
  User_DisplayName :: string
  User_StatusMessage :: string
  User_ProfileMessage :: string
  User_ProfileColor :: int
  User_AvatarModified :: int
  User_Presence :: int
  User_Roles :: "snowflake list"
  User_PresenceSticky :: int

definition User_zero :: User where
  "User_zero = \<lparr>User_ID = 0, User_UserName = [], User_DisplayName = [], User_StatusMessage = [],
     User_ProfileMessage = [], User_ProfileColor = 0, User_AvatarModified = 0, User_Presence = 0,
     User_Roles = [], User_PresenceSticky = 0\<rparr>"

definition IsOnline :: "User \<Rightarrow> bool" where
  "IsOnline u \<longleftrightarrow> User_Presence u \<noteq> UserPresenceOffline"

section \<open>Permissions\<close>

text \<open>The constants \<^verbatim>\<open>1 << iota\<close>, in the order of the source.\<close>

definition perm_bit :: "nat \<Rightarrow> perms" where
  "perm_bit k = push_bit k 1"

definition PermissionAdministrator :: perms where "PermissionAdministrator = perm_bit 0"

definition PermissionInviteMembers :: perms where "PermissionInviteMembers = perm_bit 1"

definition PermissionSilenceMembers :: perms where "PermissionSilenceMembers = perm_bit 2"

definition PermissionKickMembers :: perms where "PermissionKickMembers = perm_bit 3"

definition PermissionBanMembers :: perms where "PermissionBanMembers = perm_bit 4"

definition PermissionSendMessages :: perms where "PermissionSendMessages = perm_bit 5"

definition PermissionAddReactions :: perms where "PermissionAddReactions = perm_bit 6"

definition PermissionEmbedLinks :: perms where "PermissionEmbedLinks = perm_bit 7"

definition PermissionUploadFiles :: perms where "PermissionUploadFiles = perm_bit 8"

definition PermissionMentionEveryone :: perms where "PermissionMentionEveryone = perm_bit 9"

definition PermissionChangeProfile :: perms where "PermissionChangeProfile = perm_bit 10"

definition PermissionViewChannel :: perms where "PermissionViewChannel = perm_bit 11"

definition PermissionReadMessageHistory :: perms where "PermissionReadMessageHistory = perm_bit 12"

definition PermissionManageProfiles :: perms where "PermissionManageProfiles = perm_bit 13"

definition PermissionManageMessages :: perms where "PermissionManageMessages = perm_bit 14"

definition PermissionManageChannels :: perms where "PermissionManageChannels = perm_bit 15"

definition PermissionManageRoles :: perms where "PermissionManageRoles = perm_bit 16"

definition PermissionManageEmojis :: perms where "PermissionManageEmojis = perm_bit 17"

definition PermissionDefault :: perms where
  "PermissionDefault = PermissionSendMessages OR PermissionAddReactions OR PermissionEmbedLinks
     OR PermissionUploadFiles OR PermissionChangeProfile OR PermissionViewChannel
     OR PermissionReadMessageHistory"

definition PermissionAll :: perms where
  "PermissionAll = 0x7FFFFFFF"

lemmas permission_defs = PermissionAdministrator_def PermissionInviteMembers_def
  PermissionSilenceMembers_def PermissionKickMembers_def PermissionBanMembers_def
  PermissionSendMessages_def PermissionAddReactions_def PermissionEmbedLinks_def
  PermissionUploadFiles_def PermissionMentionEveryone_def PermissionChangeProfile_def
  PermissionViewChannel_def PermissionReadMessageHistory_def PermissionManageProfiles_def
  PermissionManageMessages_def PermissionManageChannels_def PermissionManageRoles_def
  PermissionManageEmojis_def

text \<open>The test \<^verbatim>\<open>perms & P != 0\<close> of the code.\<close>

definition has_perm :: "perms \<Rightarrow> perms \<Rightarrow> bool" where
  "has_perm ps p \<longleftrightarrow> ps AND p \<noteq> 0"

lemma bit_perm_bit: "k < 64 \<Longrightarrow> bit (perm_bit k) n \<longleftrightarrow> n = k"
  by (auto simp: perm_bit_def bit_simps)

lemma has_perm_bit: "k < 64 \<Longrightarrow> has_perm ps (perm_bit k) \<longleftrightarrow> bit ps k"
proof -
  assume k: "k < 64"
  have "ps AND perm_bit k = (if bit ps k then perm_bit k else 0)"
    using k by (intro bit_word_eqI) (auto simp: bit_and_iff bit_perm_bit)
  moreover have "perm_bit k \<noteq> 0"
    using bit_perm_bit [OF k, of k] by auto
  ultimately show ?thesis by (simp add: has_perm_def)
qed

lemma has_perm_PermissionAll: "k < 31 \<Longrightarrow> has_perm PermissionAll (perm_bit k)"
proof -
  assume k: "k < 31"
  have "PermissionAll = mask 31"
    by (simp add: PermissionAll_def mask_eq_exp_minus_1)
  moreover have "bit (mask 31 :: perms) k"
    using k unfolding bit_mask_iff by simp
  ultimately have "bit PermissionAll k" by (simp only:)
  with k show ?thesis by (simp add: has_perm_bit)
qed

lemma has_perm_or: "has_perm (a OR b) p \<longleftrightarrow> has_perm a p \<or> has_perm b p"
  by (simp add: has_perm_def bit.conj_disj_distrib2 or_eq_0_iff)

lemma has_perm_0 [simp]: "\<not> has_perm 0 p"
  by (simp add: has_perm_def)

section \<open>Channels, roles, messages\<close>

datatype OverwriteType = OverwriteTypeRole | OverwriteTypeUser

record Overwrite =
  Overwrite_ID :: snowflake
  Overwrite_Type :: OverwriteType
  Overwrite_Allow :: perms
  Overwrite_Deny :: perms

record Channel =
  Channel_ID :: snowflake
  Channel_Type :: int
  Channel_Name :: string
  Channel_Description :: string
  Channel_Position :: int
  Channel_ParentID :: snowflake
  Channel_Overwrites :: "Overwrite list"

record Role =
  Role_ID :: snowflake
  Role_Name :: string
  Role_Color :: int
  Role_Position :: int
  Role_Permissions :: perms
  Role_Hoisted :: bool
  Role_Mentionable :: bool

record Emoji =
  Emoji_Name :: string
  Emoji_ID :: snowflake

record EmbedMedia =
  EmbedMedia_ID :: snowflake
  EmbedMedia_URL :: string
  EmbedMedia_Width :: int
  EmbedMedia_Height :: int
  EmbedMedia_MimeType :: string
  EmbedMedia_Preload :: string

record EmbedFooter =
  EmbedFooter_Text :: string
  EmbedFooter_Icon :: "EmbedMedia option"

record EmbedAuthor =
  EmbedAuthor_Name :: string
  EmbedAuthor_URL :: string
  EmbedAuthor_Icon :: "EmbedMedia option"

record EmbedProvider =
  EmbedProvider_Name :: string
  EmbedProvider_URL :: string

record EmbedField =
  EmbedField_Name :: string
  EmbedField_Value :: string
  EmbedField_Inline :: bool

definition EmbedTypeRich :: int where "EmbedTypeRich = 0"

definition EmbedTypeImage :: int where "EmbedTypeImage = 1"

definition EmbedTypeVideo :: int where "EmbedTypeVideo = 2"

record Embed =
  Embed_ID :: snowflake
  Embed_Type :: int
  Embed_URL :: string
  Embed_Title :: string
  Embed_Description :: string
  Embed_Color :: int
  Embed_Timestamp :: int
  Embed_Image :: "EmbedMedia option"
  Embed_Thumbnail :: "EmbedMedia option"
  Embed_Video :: "EmbedMedia option"
  Embed_Author :: "EmbedAuthor option"
  Embed_Provider :: "EmbedProvider option"
  Embed_Footer :: "EmbedFooter option"
  Embed_Fields :: "EmbedField list"

record Reaction =
  Reaction_EmojiID :: snowflake
  Reaction_Count :: int
  Reaction_Users :: "snowflake list"
  Reaction_Me :: bool

definition AttachmentTypeFile :: int where "AttachmentTypeFile = 0"

definition AttachmentTypeImage :: int where "AttachmentTypeImage = 1"

definition AttachmentTypeVideo :: int where "AttachmentTypeVideo = 2"

record Attachment =
  Attachment_ID :: snowflake
  Attachment_Filename :: string
  Attachment_Type :: int
  Attachment_MimeType :: string
  Attachment_Size :: int
  Attachment_Preload :: string
  Attachment_Width :: int
  Attachment_Height :: int

definition MessageTypeDefault :: int where "MessageTypeDefault = 0"

record Message =
  Message_ID :: snowflake
  Message_Type :: int
  Message_ChannelID :: snowflake
  Message_Timestamp :: int
  Message_Pinned :: bool
  Message_AuthorID :: snowflake
  Message_ReferenceID :: snowflake
  Message_Content :: string
  Message_EditedTimestamp :: int
  Message_Attachments :: "Attachment list"
  Message_Embeds :: "Embed list"
  Message_Reactions :: "Reaction list"
  Message_MentionedUsers :: "snowflake list"
  Message_MentionedRoles :: "snowflake list"
  Message_MentionedChannels :: "snowflake list"
  Message_EmbeddableURLs :: "string list"

definition Message_zero :: Message where
  "Message_zero = \<lparr>Message_ID = 0, Message_Type = 0, Message_ChannelID = 0, Message_Timestamp = 0,
     Message_Pinned = False, Message_AuthorID = 0, Message_ReferenceID = 0, Message_Content = [],
     Message_EditedTimestamp = 0, Message_Attachments = [], Message_Embeds = [],
     Message_Reactions = [], Message_MentionedUsers = [], Message_MentionedRoles = [],
     Message_MentionedChannels = [], Message_EmbeddableURLs = []\<rparr>"

record Settings =
  Settings_SiteName :: string
  Settings_LoginMessage :: string
  Settings_DefaultPermissions :: perms
  Settings_UsesEmail :: bool
  Settings_UsesInviteCodes :: bool
  Settings_UsesCaptcha :: bool
  Settings_UsesLoginCaptcha :: bool
  Settings_CaptchaSiteKey :: string
  Settings_CaptchaSecretKey :: string

section \<open>Error codes\<close>

definition ErrorCodeInternalError :: nat where "ErrorCodeInternalError = 0"

definition ErrorCodeInvalidRequest :: nat where "ErrorCodeInvalidRequest = 1"

definition ErrorCodeInvalidToken :: nat where "ErrorCodeInvalidToken = 2"

definition ErrorCodeInvalidCredentials :: nat where "ErrorCodeInvalidCredentials = 3"

definition ErrorCodeInvalidUsername :: nat where "ErrorCodeInvalidUsername = 4"

definition ErrorCodeTakenUsername :: nat where "ErrorCodeTakenUsername = 5"

definition ErrorCodeInvalidInviteCode :: nat where "ErrorCodeInvalidInviteCode = 6"

definition ErrorCodeInvalidCaptcha :: nat where "ErrorCodeInvalidCaptcha = 7"

definition ErrorCodeNoPermission :: nat where "ErrorCodeNoPermission = 8"

definition ErrorCodeConnectionClosing :: nat where "ErrorCodeConnectionClosing = 9"

lemmas error_code_defs = ErrorCodeInternalError_def ErrorCodeInvalidRequest_def
  ErrorCodeInvalidToken_def ErrorCodeInvalidCredentials_def ErrorCodeInvalidUsername_def
  ErrorCodeTakenUsername_def ErrorCodeInvalidInviteCode_def ErrorCodeInvalidCaptcha_def
  ErrorCodeNoPermission_def ErrorCodeConnectionClosing_def

end
