(* ===== verification/Environment.thy ===== *)
theory Environment
  imports Models
begin

text \<open>
  What the program gets from outside src/: the SQLite engine's failures, the snowflake
  generator, the clock, the random source, SHA-256, the title-casing library, the emoji
  table and the captcha service. They are fields of a record that every operation takes as its first argument, so each
  theorem holds for every behaviour of them that its hypotheses allow.

  An external value is read at a tick, the number of external interactions so far; every
  statement, generated id, clock reading and random text uses up one tick.
\<close>

text \<open>The reply of the captcha service: none, or a status code and the \<^verbatim>\<open>success\<close> member of the
  body, \<open>None\<close> when the body does not decode.\<close>

datatype captcha_reply = NoReply | Reply (reply_status: nat) (reply_success: "bool option")

record Env =
  \<comment> \<open>\<open>Some k\<close>: the \<open>k\<close>-th call of \<^verbatim>\<open>Step\<close> on this statement returns an error\<close>
  Env_step_error :: "nat \<Rightarrow> nat option"
  \<comment> \<open>the engine refuses the \<^verbatim>\<open>COMMIT\<close> and rolls back\<close>
  Env_commit_error :: "nat \<Rightarrow> bool"
  \<comment> \<open>\<^verbatim>\<open>node.Generate().Int64()\<close>\<close>
  Env_generate :: "nat \<Rightarrow> snowflake"
  \<comment> \<open>\<^verbatim>\<open>time.Now().UnixMilli()\<close>\<close>
  Env_now :: "nat \<Rightarrow> int"
  \<comment> \<open>\<^verbatim>\<open>rand.Text()\<close>\<close>
  Env_random :: "nat \<Rightarrow> string"
  \<comment> \<open>the hexadecimal SHA-256 digest\<close>
  Env_sha256 :: "string \<Rightarrow> string"
  \<comment> \<open>\<^verbatim>\<open>cases.Title(language.English, cases.NoLower).String\<close>\<close>
  Env_title :: "string \<Rightarrow> string"
  \<comment> \<open>the keys of \<^verbatim>\<open>emoji.IDToCodepoint\<close>\<close>
  Env_unicode_emoji :: "snowflake \<Rightarrow> bool"
  \<comment> \<open>the captcha service, asked with the site key, the secret key and the response\<close>
  Env_captcha :: "nat \<Rightarrow> string \<Rightarrow> string \<Rightarrow> string \<Rightarrow> captcha_reply"

text \<open>The documented behaviour of the engine when nothing goes wrong.\<close>

definition reliable :: "Env \<Rightarrow> bool" where
  "reliable E \<longleftrightarrow> Env_step_error E = (\<lambda>_. None) \<and> Env_commit_error E = (\<lambda>_. False)"

lemma reliableD [simp]:
  "reliable E \<Longrightarrow> Env_step_error E t = None"
  "reliable E \<Longrightarrow> Env_commit_error E t = False"
  by (simp_all add: reliable_def)

text \<open>The generator never repeats an id; ids grow with time.\<close>

definition generates_increasing :: "Env \<Rightarrow> bool" where
  "generates_increasing E \<longleftrightarrow> strict_mono (Env_generate E)"

text \<open>A concrete environment, for the witnesses: nothing fails, the ids are
  \<open>1000000, 1000001, \<dots>\<close>, the clock counts ticks, and the digest is the identity.\<close>

definition env0 :: Env where
  "env0 = \<lparr>Env_step_error = (\<lambda>_. None), Env_commit_error = (\<lambda>_. False),
     Env_generate = (\<lambda>t. 1000000 + int t), Env_now = (\<lambda>t. int t),
     Env_random = (\<lambda>t. replicate (Suc t) (CHR ''r'')), Env_sha256 = (\<lambda>s. s),
     Env_title = (\<lambda>s. s), Env_unicode_emoji = (\<lambda>e. e = 128512),
     Env_captcha = (\<lambda>t site secret response. Reply 200 (Some (response = ''pass'')))\<rparr>"

lemma env0_simps [simp]:
  "Env_step_error env0 t = None" "Env_commit_error env0 t = False"
  "Env_generate env0 t = 1000000 + int t" "Env_now env0 t = int t"
  "Env_random env0 t = replicate (Suc t) (CHR ''r'')" "Env_sha256 env0 s = s"
  "Env_title env0 s = s" "Env_unicode_emoji env0 e = (e = 128512)"
  "Env_captcha env0 t site secret response = Reply 200 (Some (response = ''pass''))"
  by (simp_all add: env0_def)

lemma env0_reliable: "reliable env0"
  by (simp add: reliable_def fun_eq_iff)

lemma env0_increasing: "generates_increasing env0"
  by (simp add: generates_increasing_def strict_mono_def)

end
