(* ===== verification/Database.thy ===== *)
theory Database
  imports Environment
begin

text \<open>
  The database of storage/sql/database_schema.sql: one record per table's rows, one list per
  table in the order of insertion. A query without \<^verbatim>\<open>ORDER BY\<close>, whose order SQL leaves open,
  returns the rows in that order here. \<^verbatim>\<open>NULL\<close> in a column the code can leave empty is \<open>None\<close>;
  columns the code never reads are left out. The theory holds the cascades of the schema's foreign keys and the integrity invariant \<open>db_ok\<close>: primary
  keys and unique columns hold, and every foreign key refers to a row.
\<close>

record UserRow =
  UserRow_id :: snowflake
  UserRow_user_name :: string
  UserRow_display_name :: string
  UserRow_presence :: int
  UserRow_status_message :: string
  UserRow_profile_message :: string
  UserRow_profile_color :: int
  UserRow_avatar_modified :: int
  UserRow_hash :: string
  UserRow_salt :: string
  UserRow_email :: "string option"
  UserRow_invite_code :: "string option"

record TokenRow =
  TokenRow_user_id :: snowflake
  TokenRow_token :: string
  TokenRow_created_at :: int
  TokenRow_last_used_at :: int

record ChannelRow =
  ChannelRow_id :: snowflake
  ChannelRow_type :: int
  ChannelRow_name :: string
  ChannelRow_description :: string
  ChannelRow_position :: int
  ChannelRow_parent_id :: "snowflake option"

record OverwriteRow =
  OverwriteRow_channel_id :: snowflake
  OverwriteRow_target_id :: snowflake
  OverwriteRow_allow :: perms
  OverwriteRow_deny :: perms

record MessageRow =
  MessageRow_id :: snowflake
  MessageRow_type :: int
  MessageRow_channel_id :: snowflake
  MessageRow_timestamp :: int
  MessageRow_pinned :: bool
  MessageRow_author_id :: snowflake
  MessageRow_reference_id :: "snowflake option"
  MessageRow_content :: string
  MessageRow_edited_timestamp :: "int option"

text \<open>A column pair \<^verbatim>\<open>x_url, x_id\<close> of an embed is written together or left \<^verbatim>\<open>NULL\<close>.\<close>

record EmbedRow =
  EmbedRow_id :: snowflake
  EmbedRow_message_id :: snowflake
  EmbedRow_type :: int
  EmbedRow_url :: string
  EmbedRow_title :: string
  EmbedRow_description :: string
  EmbedRow_color :: int
  EmbedRow_timestamp :: int
  EmbedRow_image :: "(string \<times> snowflake) option"
  EmbedRow_thumbnail :: "(string \<times> snowflake) option"
  EmbedRow_video :: "(string \<times> snowflake) option"
  EmbedRow_author :: "(string \<times> string) option"
  EmbedRow_author_icon :: "(string \<times> snowflake) option"
  EmbedRow_provider :: "(string \<times> string) option"
  EmbedRow_footer_text :: "string option"
  EmbedRow_footer_icon :: "(string \<times> snowflake) option"

record EmbedFieldRow =
  EmbedFieldRow_embed_id :: snowflake
  EmbedFieldRow_field :: EmbedField

record AttachmentRow =
  AttachmentRow_id :: snowflake
  AttachmentRow_message_id :: snowflake
  AttachmentRow_type :: int
  AttachmentRow_mimetype :: string
  AttachmentRow_filename :: string
  AttachmentRow_size :: int

record PreviewRow =
  PreviewRow_id :: snowflake
  PreviewRow_width :: int
  PreviewRow_height :: int
  PreviewRow_preload :: string

record ReactionRow =
  ReactionRow_emoji_id :: snowflake
  ReactionRow_message_id :: snowflake
  ReactionRow_user_id :: snowflake

record Database =
  DB_users :: "UserRow list"
  DB_roles :: "Role list"
  DB_user_roles :: "(snowflake \<times> snowflake) list"
  DB_user_tokens :: "TokenRow list"
  DB_channels :: "ChannelRow list"
  DB_channel_role_permissions :: "OverwriteRow list"
  DB_channel_user_permissions :: "OverwriteRow list"
  DB_emojis :: "Emoji list"
  DB_messages :: "MessageRow list"
  DB_message_user_mentions :: "(snowflake \<times> snowflake) list"
  DB_message_role_mentions :: "(snowflake \<times> snowflake) list"
  DB_message_channel_mentions :: "(snowflake \<times> snowflake) list"
  DB_embeds :: "EmbedRow list"
  DB_embed_fields :: "EmbedFieldRow list"
  DB_reactions :: "ReactionRow list"
  DB_attachments :: "AttachmentRow list"
  DB_settings :: "Settings option"
  DB_previews :: "PreviewRow list"

definition Database_empty :: Database where
  "Database_empty = \<lparr>DB_users = [], DB_roles = [], DB_user_roles = [], DB_user_tokens = [],
     DB_channels = [], DB_channel_role_permissions = [], DB_channel_user_permissions = [],
     DB_emojis = [], DB_messages = [], DB_message_user_mentions = [],
     DB_message_role_mentions = [], DB_message_channel_mentions = [], DB_embeds = [],
     DB_embed_fields = [], DB_reactions = [], DB_attachments = [], DB_settings = None,
     DB_previews = []\<rparr>"

section \<open>Keys\<close>

abbreviation user_ids :: "Database \<Rightarrow> snowflake set" where
  "user_ids db \<equiv> UserRow_id ` set (DB_users db)"

abbreviation role_ids :: "Database \<Rightarrow> snowflake set" where
  "role_ids db \<equiv> Role_ID ` set (DB_roles db)"

abbreviation channel_ids :: "Database \<Rightarrow> snowflake set" where
  "channel_ids db \<equiv> ChannelRow_id ` set (DB_channels db)"

abbreviation message_ids :: "Database \<Rightarrow> snowflake set" where
  "message_ids db \<equiv> MessageRow_id ` set (DB_messages db)"

abbreviation embed_ids :: "Database \<Rightarrow> snowflake set" where
  "embed_ids db \<equiv> EmbedRow_id ` set (DB_embeds db)"

section \<open>Cascading deletes\<close>

text \<open>\<^verbatim>\<open>ON DELETE CASCADE\<close> of \<^verbatim>\<open>embed_fields.embed_id\<close>.\<close>

definition delete_embed_row :: "snowflake \<Rightarrow> Database \<Rightarrow> Database" where
  "delete_embed_row eid db = db\<lparr>
     DB_embeds := filter (\<lambda>e. EmbedRow_id e \<noteq> eid) (DB_embeds db),
     DB_embed_fields := filter (\<lambda>f. EmbedFieldRow_embed_id f \<noteq> eid) (DB_embed_fields db)\<rparr>"

text \<open>Deleting a message row clears references to it (\<^verbatim>\<open>ON DELETE SET NULL\<close>) and deletes its
  mentions, embeds with their fields, reactions and attachments (\<^verbatim>\<open>ON DELETE CASCADE\<close>).\<close>

definition clear_reference :: "snowflake \<Rightarrow> MessageRow \<Rightarrow> MessageRow" where
  "clear_reference mid m =
     (if MessageRow_reference_id m = Some mid then m\<lparr>MessageRow_reference_id := None\<rparr> else m)"

definition delete_message_row :: "snowflake \<Rightarrow> Database \<Rightarrow> Database" where
  "delete_message_row mid db = db\<lparr>
     DB_messages := map (clear_reference mid)
       (filter (\<lambda>m. MessageRow_id m \<noteq> mid) (DB_messages db)),
     DB_message_user_mentions := filter (\<lambda>p. fst p \<noteq> mid) (DB_message_user_mentions db),
     DB_message_role_mentions := filter (\<lambda>p. fst p \<noteq> mid) (DB_message_role_mentions db),
     DB_message_channel_mentions := filter (\<lambda>p. fst p \<noteq> mid) (DB_message_channel_mentions db),
     DB_embed_fields := filter (\<lambda>f. \<forall>e \<in> set (DB_embeds db).
       EmbedRow_id e = EmbedFieldRow_embed_id f \<longrightarrow> EmbedRow_message_id e \<noteq> mid)
       (DB_embed_fields db),
     DB_embeds := filter (\<lambda>e. EmbedRow_message_id e \<noteq> mid) (DB_embeds db),
     DB_reactions := filter (\<lambda>r. ReactionRow_message_id r \<noteq> mid) (DB_reactions db),
     DB_attachments := filter (\<lambda>a. AttachmentRow_message_id a \<noteq> mid) (DB_attachments db)\<rparr>"

text \<open>Deleting a role deletes its memberships, channel overwrites and mentions.\<close>

definition delete_role_row :: "snowflake \<Rightarrow> Database \<Rightarrow> Database" where
  "delete_role_row rid db = db\<lparr>
     DB_roles := filter (\<lambda>r. Role_ID r \<noteq> rid) (DB_roles db),
     DB_user_roles := filter (\<lambda>p. snd p \<noteq> rid) (DB_user_roles db),
     DB_channel_role_permissions :=
       filter (\<lambda>p. OverwriteRow_target_id p \<noteq> rid) (DB_channel_role_permissions db),
     DB_message_role_mentions := filter (\<lambda>p. snd p \<noteq> rid) (DB_message_role_mentions db)\<rparr>"

section \<open>The integrity invariant\<close>

definition keys_ok :: "Database \<Rightarrow> bool" where
  "keys_ok db \<longleftrightarrow>
     distinct (map UserRow_id (DB_users db)) \<and>
     distinct (map UserRow_user_name (DB_users db)) \<and>
     distinct (map Role_ID (DB_roles db)) \<and>
     distinct (DB_user_roles db) \<and>
     distinct (map (\<lambda>t. (TokenRow_user_id t, TokenRow_token t)) (DB_user_tokens db)) \<and>
     distinct (map ChannelRow_id (DB_channels db)) \<and>
     distinct (map (\<lambda>p. (OverwriteRow_channel_id p, OverwriteRow_target_id p))
       (DB_channel_role_permissions db)) \<and>
     distinct (map (\<lambda>p. (OverwriteRow_channel_id p, OverwriteRow_target_id p))
       (DB_channel_user_permissions db)) \<and>
     distinct (map MessageRow_id (DB_messages db)) \<and>
     distinct (DB_message_user_mentions db) \<and>
     distinct (DB_message_role_mentions db) \<and>
     distinct (DB_message_channel_mentions db) \<and>
     distinct (map EmbedRow_id (DB_embeds db)) \<and>
     distinct (map (\<lambda>f. (EmbedFieldRow_embed_id f, EmbedField_Name (EmbedFieldRow_field f)))
       (DB_embed_fields db)) \<and>
     distinct (map Emoji_ID (DB_emojis db)) \<and>
     distinct (DB_reactions db) \<and>
     distinct (map AttachmentRow_id (DB_attachments db)) \<and>
     distinct (map PreviewRow_id (DB_previews db))"

text \<open>A foreign key: every row's column \<open>f\<close> is the key \<open>g\<close> of a row of the other table.\<close>

definition refers :: "('a \<Rightarrow> snowflake) \<Rightarrow> 'a list \<Rightarrow> ('b \<Rightarrow> snowflake) \<Rightarrow> 'b list \<Rightarrow> bool" where
  "refers f xs g ys \<longleftrightarrow> (\<forall>x \<in> set xs. f x \<in> g ` set ys)"

definition refers_opt ::
  "('a \<Rightarrow> snowflake option) \<Rightarrow> 'a list \<Rightarrow> ('b \<Rightarrow> snowflake) \<Rightarrow> 'b list \<Rightarrow> bool" where
  "refers_opt f xs g ys \<longleftrightarrow> (\<forall>x \<in> set xs. \<forall>k. f x = Some k \<longrightarrow> k \<in> g ` set ys)"

definition refs_ok :: "Database \<Rightarrow> bool" where
  "refs_ok db \<longleftrightarrow>
     refers fst (DB_user_roles db) UserRow_id (DB_users db) \<and>
     refers snd (DB_user_roles db) Role_ID (DB_roles db) \<and>
     refers TokenRow_user_id (DB_user_tokens db) UserRow_id (DB_users db) \<and>
     refers OverwriteRow_channel_id (DB_channel_role_permissions db)
       ChannelRow_id (DB_channels db) \<and>
     refers OverwriteRow_target_id (DB_channel_role_permissions db) Role_ID (DB_roles db) \<and>
     refers OverwriteRow_channel_id (DB_channel_user_permissions db)
       ChannelRow_id (DB_channels db) \<and>
     refers OverwriteRow_target_id (DB_channel_user_permissions db) UserRow_id (DB_users db) \<and>
     refers MessageRow_channel_id (DB_messages db) ChannelRow_id (DB_channels db) \<and>
     refers MessageRow_author_id (DB_messages db) UserRow_id (DB_users db) \<and>
     refers_opt ChannelRow_parent_id (DB_channels db) ChannelRow_id (DB_channels db) \<and>
     refers_opt MessageRow_reference_id (DB_messages db) MessageRow_id (DB_messages db) \<and>
     refers fst (DB_message_user_mentions db) MessageRow_id (DB_messages db) \<and>
     refers snd (DB_message_user_mentions db) UserRow_id (DB_users db) \<and>
     refers fst (DB_message_role_mentions db) MessageRow_id (DB_messages db) \<and>
     refers snd (DB_message_role_mentions db) Role_ID (DB_roles db) \<and>
     refers fst (DB_message_channel_mentions db) MessageRow_id (DB_messages db) \<and>
     refers snd (DB_message_channel_mentions db) ChannelRow_id (DB_channels db) \<and>
     refers EmbedRow_message_id (DB_embeds db) MessageRow_id (DB_messages db) \<and>
     refers EmbedFieldRow_embed_id (DB_embed_fields db) EmbedRow_id (DB_embeds db) \<and>
     refers ReactionRow_message_id (DB_reactions db) MessageRow_id (DB_messages db) \<and>
     refers ReactionRow_user_id (DB_reactions db) UserRow_id (DB_users db) \<and>
     refers AttachmentRow_message_id (DB_attachments db) MessageRow_id (DB_messages db)"

lemma refers_Nil [simp]: "refers f [] g ys" "refers_opt h [] g ys"
  by (simp_all add: refers_def refers_opt_def)

lemma refers_filter [intro]: "refers f xs g ys \<Longrightarrow> refers f (filter P xs) g ys"
  by (simp add: refers_def)

lemma refers_filter_key:
  "refers f xs g ys \<Longrightarrow> (\<And>x. P x \<Longrightarrow> f x \<noteq> k) \<Longrightarrow>
     refers f (filter P xs) g (filter (\<lambda>y. g y \<noteq> k) ys)"
  by (fastforce simp: refers_def)

lemma refers_append [simp]:
  "refers f (xs @ zs) g ys \<longleftrightarrow> refers f xs g ys \<and> refers f zs g ys"
  by (auto simp: refers_def)

lemma refers_Cons [simp]:
  "refers f (x # xs) g ys \<longleftrightarrow> f x \<in> g ` set ys \<and> refers f xs g ys"
  by (auto simp: refers_def)

lemma refers_grow [intro]: "refers f xs g ys \<Longrightarrow> refers f xs g (ys @ zs)"
  by (auto simp: refers_def)

lemma refers_keys_map:
  "(\<And>y. y \<in> set ys \<Longrightarrow> g (h y) = g y) \<Longrightarrow> refers f xs g (map h ys) \<longleftrightarrow> refers f xs g ys"
  by (force simp: refers_def image_image)

lemma refers_map: "refers f (map h xs) g ys \<longleftrightarrow> refers (\<lambda>x. f (h x)) xs g ys"
  by (simp add: refers_def)

definition db_ok :: "Database \<Rightarrow> bool" where
  "db_ok db \<longleftrightarrow> keys_ok db \<and> refs_ok db"

lemma db_ok_empty: "db_ok Database_empty"
  by (simp add: db_ok_def keys_ok_def refs_ok_def Database_empty_def)

lemma clear_reference_fields [simp]:
  "MessageRow_id (clear_reference mid m) = MessageRow_id m"
  "MessageRow_channel_id (clear_reference mid m) = MessageRow_channel_id m"
  "MessageRow_author_id (clear_reference mid m) = MessageRow_author_id m"
  by (simp_all add: clear_reference_def)

lemma clear_reference_Some:
  "MessageRow_reference_id (clear_reference mid m) = Some r \<longleftrightarrow>
     MessageRow_reference_id m = Some r \<and> r \<noteq> mid"
  by (auto simp: clear_reference_def)

lemma user_ids_delete_embed_row: "user_ids (delete_embed_row eid db) = user_ids db"
  by (simp add: delete_embed_row_def)

lemma user_ids_delete_message_row: "user_ids (delete_message_row mid db) = user_ids db"
  by (simp add: delete_message_row_def)

lemma user_ids_delete_role_row: "user_ids (delete_role_row rid db) = user_ids db"
  by (simp add: delete_role_row_def)

lemma keys_ok_delete_embed: "keys_ok db \<Longrightarrow> keys_ok (delete_embed_row eid db)"
  by (simp add: keys_ok_def delete_embed_row_def distinct_map_filter)

lemma refs_ok_delete_embed: "refs_ok db \<Longrightarrow> refs_ok (delete_embed_row eid db)"
  by (simp add: refs_ok_def delete_embed_row_def refers_filter refers_filter_key)

lemma db_ok_delete_embed: "db_ok db \<Longrightarrow> db_ok (delete_embed_row eid db)"
  by (simp add: db_ok_def keys_ok_delete_embed refs_ok_delete_embed)

lemma keys_ok_delete_message: "keys_ok db \<Longrightarrow> keys_ok (delete_message_row mid db)"
  by (simp add: keys_ok_def delete_message_row_def distinct_map_filter comp_def)

lemma references_delete_message:
  assumes "refers_opt MessageRow_reference_id ms MessageRow_id ms"
  shows "refers_opt MessageRow_reference_id
    (map (clear_reference mid) (filter (\<lambda>m. MessageRow_id m \<noteq> mid) ms)) MessageRow_id
    (map (clear_reference mid) (filter (\<lambda>m. MessageRow_id m \<noteq> mid) ms))"
  using assms by (fastforce simp: refers_opt_def clear_reference_Some image_image)

lemma fields_delete_message:
  assumes "refers EmbedFieldRow_embed_id fs EmbedRow_id es"
  shows "refers EmbedFieldRow_embed_id
    (filter (\<lambda>f. \<forall>e \<in> set es. EmbedRow_id e = EmbedFieldRow_embed_id f
       \<longrightarrow> EmbedRow_message_id e \<noteq> mid) fs)
    EmbedRow_id (filter (\<lambda>e. EmbedRow_message_id e \<noteq> mid) es)"
  using assms by (fastforce simp: refers_def)

lemma refs_ok_delete_message: "refs_ok db \<Longrightarrow> refs_ok (delete_message_row mid db)"
  by (simp only: refs_ok_def delete_message_row_def Database.select_convs Database.update_convs)
    (simp add: refers_filter refers_filter_key refers_map refers_keys_map
      references_delete_message fields_delete_message del: set_map set_filter map_map)

lemma db_ok_delete_message: "db_ok db \<Longrightarrow> db_ok (delete_message_row mid db)"
  by (simp add: db_ok_def keys_ok_delete_message refs_ok_delete_message)

lemma keys_ok_delete_role: "keys_ok db \<Longrightarrow> keys_ok (delete_role_row rid db)"
  by (simp add: keys_ok_def delete_role_row_def distinct_map_filter)

lemma refs_ok_delete_role: "refs_ok db \<Longrightarrow> refs_ok (delete_role_row rid db)"
  by (simp add: refs_ok_def delete_role_row_def refers_filter refers_filter_key)

lemma db_ok_delete_role: "db_ok db \<Longrightarrow> db_ok (delete_role_row rid db)"
  by (simp add: db_ok_def keys_ok_delete_role refs_ok_delete_role)

end
