(* ===== verification/Transactions.thy ===== *)
theory Transactions
  imports Database
begin

text \<open>
  storage/transactions.go, first half: the transaction object, running a prepared statement,
  and the data access of settings, users, roles, channels, emojis and tokens. A method
  \<^verbatim>\<open>func (tx *Transaction) M(args) (T, error)\<close> is a function \<open>M E args tx\<close> that returns the
  result and the transaction it leaves behind. SQL text becomes the query over the tables of
  \<open>Database\<close>; a statement that breaks a constraint, or that the engine refuses, is an error
  and leaves the tables as they were.
\<close>

section \<open>The transaction object\<close>

record Transaction =
  \<comment> \<open>the tables as the connection sees them\<close>
  Tx_db :: Database
  \<comment> \<open>\<^verbatim>\<open>tx.commit\<close>: the tables a rollback goes back to, \<open>None\<close> for \<^verbatim>\<open>nil\<close>\<close>
  Tx_commit :: "Database option"
  Tx_isWrite :: bool
  Tx_tick :: nat
  \<comment> \<open>the package variable \<^verbatim>\<open>txLastWrite\<close>\<close>
  Tx_lastWrite :: int

definition NewTransaction :: "Database \<Rightarrow> nat \<Rightarrow> int \<Rightarrow> Transaction" where
  "NewTransaction db t lw =
     \<lparr>Tx_db = db, Tx_commit = None, Tx_isWrite = False, Tx_tick = t, Tx_lastWrite = lw\<rparr>"

definition MarkAsWrite :: "Transaction \<Rightarrow> Transaction" where
  "MarkAsWrite tx = tx\<lparr>Tx_isWrite := True\<rparr>"

definition next_tick :: "Transaction \<Rightarrow> Transaction" where
  "next_tick tx = tx\<lparr>Tx_tick := Suc (Tx_tick tx)\<rparr>"

lemma next_tick_fields [simp]:
  "Tx_db (next_tick tx) = Tx_db tx" "Tx_commit (next_tick tx) = Tx_commit tx"
  "Tx_isWrite (next_tick tx) = Tx_isWrite tx" "Tx_lastWrite (next_tick tx) = Tx_lastWrite tx"
  "Tx_tick (next_tick tx) = Suc (Tx_tick tx)"
  by (simp_all add: next_tick_def)

lemma MarkAsWrite_fields [simp]:
  "Tx_db (MarkAsWrite tx) = Tx_db tx" "Tx_commit (MarkAsWrite tx) = Tx_commit tx"
  "Tx_isWrite (MarkAsWrite tx)" "Tx_lastWrite (MarkAsWrite tx) = Tx_lastWrite tx"
  "Tx_tick (MarkAsWrite tx) = Tx_tick tx"
  by (simp_all add: MarkAsWrite_def)

definition UpdateLastWrite :: "Env \<Rightarrow> Transaction \<Rightarrow> Transaction" where
  "UpdateLastWrite E tx =
     (let now = Env_now E (Tx_tick tx) in
      next_tick (if Tx_lastWrite tx < now then tx\<lparr>Tx_lastWrite := now\<rparr> else tx))"

definition Start :: "Transaction \<Rightarrow> Transaction" where
  "Start tx = (case Tx_commit tx of Some _ \<Rightarrow> tx | None \<Rightarrow> tx\<lparr>Tx_commit := Some (Tx_db tx)\<rparr>)"

text \<open>\<^verbatim>\<open>StartTimed\<close> also keeps a name and a start time, which only reach the log.\<close>

definition StartTimed :: "string \<Rightarrow> Transaction \<Rightarrow> Transaction" where
  "StartTimed name tx = Start tx"

text \<open>
  \<^verbatim>\<open>Commit(err)\<close>: the argument is \<open>True\<close> for a non-\<^verbatim>\<open>nil\<close> error. The end function of
  \<^verbatim>\<open>sqlitex.Transaction\<close> rolls back when it is given an error, and otherwise commits; when
  the engine refuses the commit it rolls back and reports that in \<^verbatim>\<open>noError\<close>, which the code
  does not look at.
\<close>

definition Commit :: "Env \<Rightarrow> bool \<Rightarrow> Transaction \<Rightarrow> Transaction" where
  "Commit E failed tx =
     (case Tx_commit tx of
        None \<Rightarrow> tx
      | Some saved \<Rightarrow>
          if failed then (next_tick tx)\<lparr>Tx_db := saved, Tx_commit := None\<rparr>
          else
            let tx1 = next_tick (if Env_commit_error E (Tx_tick tx)
                                 then tx\<lparr>Tx_db := saved\<rparr> else tx);
                tx2 = (if Tx_isWrite tx then UpdateLastWrite E tx1 else tx1)
            in tx2\<lparr>Tx_commit := None\<rparr>)"

definition Prepare ::
  "Transaction \<Rightarrow> (Transaction \<Rightarrow> 'a go_result \<times> Transaction) \<Rightarrow> 'a go_result \<times> Transaction" where
  "Prepare tx k = (if Tx_isWrite tx \<and> Tx_commit tx = None then (Panic, tx) else k tx)"

section \<open>Running statements\<close>

text \<open>Whether one of the first \<open>n\<close> calls of \<^verbatim>\<open>Step\<close> on the current statement fails.\<close>

definition step_fails :: "Env \<Rightarrow> Transaction \<Rightarrow> nat \<Rightarrow> bool" where
  "step_fails E tx n = (case Env_step_error E (Tx_tick tx) of Some k \<Rightarrow> k < n | None \<Rightarrow> False)"

text \<open>One call of \<^verbatim>\<open>Step\<close> on a query: the first row, if there is one.\<close>

definition step_row :: "Env \<Rightarrow> 'r list \<Rightarrow> Transaction \<Rightarrow> 'r option go_result \<times> Transaction" where
  "step_row E rows tx =
     (if step_fails E tx 1 then (Err Uncoded, next_tick tx)
      else (Ok (case rows of [] \<Rightarrow> None | r # _ \<Rightarrow> Some r), next_tick tx))"

text \<open>A loop of \<^verbatim>\<open>Step\<close> to the end that returns the error of a failing one.\<close>

definition step_rows :: "Env \<Rightarrow> 'r list \<Rightarrow> Transaction \<Rightarrow> 'r list go_result \<times> Transaction" where
  "step_rows E rows tx =
     (if step_fails E tx (Suc (length rows)) then (Err Uncoded, next_tick tx)
      else (Ok rows, next_tick tx))"

text \<open>
  The loop \<^verbatim>\<open>for hasRow, stepErr := stmt.Step(); hasRow; hasRow, stepErr = stmt.Step()\<close>: a
  failing \<^verbatim>\<open>Step\<close> returns no row, so the loop ends there without an error.
\<close>

definition step_rows_while ::
  "Env \<Rightarrow> 'r list \<Rightarrow> Transaction \<Rightarrow> 'r list go_result \<times> Transaction" where
  "step_rows_while E rows tx =
     (Ok (case Env_step_error E (Tx_tick tx) of Some k \<Rightarrow> take k rows | None \<Rightarrow> rows),
      next_tick tx)"

text \<open>\<^verbatim>\<open>Execute\<close> of a writing statement: \<open>upd\<close> is \<open>None\<close> when it breaks a constraint.\<close>

definition Execute ::
  "Env \<Rightarrow> (Database \<Rightarrow> Database option) \<Rightarrow> Transaction \<Rightarrow> unit go_result \<times> Transaction" where
  "Execute E upd tx =
     (if step_fails E tx 1 then (Err Uncoded, next_tick tx)
      else case upd (Tx_db tx) of
             None \<Rightarrow> (Err Uncoded, next_tick tx)
           | Some db \<Rightarrow> (Ok (), (next_tick tx)\<lparr>Tx_db := db\<rparr>))"

text \<open>\<^verbatim>\<open>NewError(code, err)\<close> around an error.\<close>

definition with_code :: "nat \<Rightarrow> 'a go_result \<times> Transaction \<Rightarrow> 'a go_result \<times> Transaction" where
  "with_code c r = (case r of (Err e, tx) \<Rightarrow> (Err (Coded c), tx) | _ \<Rightarrow> r)"

text \<open>\<^verbatim>\<open>if x, err := ...; err != nil { h } else { f }\<close>.\<close>

definition if_err ::
  "'a go_result \<times> Transaction \<Rightarrow> (goerr \<Rightarrow> Transaction \<Rightarrow> 'b go_result \<times> Transaction) \<Rightarrow>
   ('a \<Rightarrow> Transaction \<Rightarrow> 'b go_result \<times> Transaction) \<Rightarrow> 'b go_result \<times> Transaction" where
  "if_err r h f =
     (case r of (Ok x, tx) \<Rightarrow> f x tx | (Err e, tx) \<Rightarrow> h e tx | (Panic, tx) \<Rightarrow> (Panic, tx))"

lemma if_err_simps [simp, go_simps]:
  "if_err (Ok x, s) h f = f x s"
  "if_err (Err e, s) h f = h e s"
  "if_err (Panic, s) h f = (Panic, s)"
  by (simp_all add: if_err_def)

lemma with_code_simps [simp, go_simps]:
  "with_code c (Ok x, s) = (Ok x, s)"
  "with_code c (Err e, s) = (Err (Coded c), s)"
  "with_code c (Panic, s) = (Panic, s)"
  by (simp_all add: with_code_def)

definition generate_id :: "Env \<Rightarrow> Transaction \<Rightarrow> snowflake" where
  "generate_id E tx = Env_generate E (Tx_tick tx)"

section \<open>Settings\<close>

definition Initialize :: "Env \<Rightarrow> Transaction \<Rightarrow> unit go_result \<times> Transaction" where
  "Initialize E tx =
     Prepare (MarkAsWrite tx) (\<lambda>tx.
       if_err (Execute E (\<lambda>db. Some (case DB_settings db of
             Some _ \<Rightarrow> db
           | None \<Rightarrow> db\<lparr>DB_settings := Some \<lparr>Settings_SiteName = ''Clack'',
               Settings_LoginMessage = ''Welcome to Clack!'',
               Settings_DefaultPermissions = PermissionDefault, Settings_UsesEmail = False,
               Settings_UsesInviteCodes = False, Settings_UsesCaptcha = False,
               Settings_UsesLoginCaptcha = False, Settings_CaptchaSiteKey = [],
               Settings_CaptchaSecretKey = []\<rparr>\<rparr>)) tx)
         (\<lambda>e tx. (Panic, tx)) (\<lambda>_ tx. (Ok (), tx)))"

text \<open>The checkpoint pragma writes the log back into the database file: the tables are the
  same before and after.\<close>

definition Checkpoint :: "Env \<Rightarrow> Transaction \<Rightarrow> unit go_result \<times> Transaction" where
  "Checkpoint E tx =
     Prepare (MarkAsWrite tx) (\<lambda>tx.
       if_err (Execute E Some tx) (\<lambda>e tx. (Panic, tx)) (\<lambda>_ tx. (Ok (), tx)))"

definition GetSettings :: "Env \<Rightarrow> Transaction \<Rightarrow> Settings go_result \<times> Transaction" where
  "GetSettings E tx =
     Prepare tx (\<lambda>tx.
       and_then
         (with_code ErrorCodeInternalError
           (step_row E (case DB_settings (Tx_db tx) of None \<Rightarrow> [] | Some s \<Rightarrow> [s]) tx))
         (\<lambda>row tx. case row of
            None \<Rightarrow> (Err (Coded ErrorCodeInternalError), tx)
          | Some s \<Rightarrow> (Ok s, tx)))"

definition SetSettings :: "Env \<Rightarrow> Settings \<Rightarrow> Transaction \<Rightarrow> unit go_result \<times> Transaction" where
  "SetSettings E s tx =
     Prepare (MarkAsWrite tx) (\<lambda>tx.
       with_code ErrorCodeInternalError
         (Execute E (\<lambda>db. Some (case DB_settings db of
              None \<Rightarrow> db | Some _ \<Rightarrow> db\<lparr>DB_settings := Some s\<rparr>)) tx))"

section \<open>Users\<close>

definition user_of_row :: "UserRow \<times> snowflake option \<Rightarrow> User" where
  "user_of_row row = (case row of (u, r) \<Rightarrow>
     \<lparr>User_ID = UserRow_id u, User_UserName = UserRow_user_name u,
      User_DisplayName = UserRow_display_name u, User_StatusMessage = UserRow_status_message u,
      User_ProfileMessage = UserRow_profile_message u,
      User_ProfileColor = UserRow_profile_color u,
      User_AvatarModified = UserRow_avatar_modified u, User_Presence = UserPresenceNone,
      User_Roles = (case r of None \<Rightarrow> [] | Some rid \<Rightarrow> [rid]),
      User_PresenceSticky = UserRow_presence u\<rparr>)"

text \<open>The rows of \<^verbatim>\<open>users u LEFT JOIN user_roles r ON u.id = r.user_id\<close>.\<close>

definition user_join_row :: "Database \<Rightarrow> UserRow \<Rightarrow> (UserRow \<times> snowflake option) list" where
  "user_join_row db u =
     (case filter (\<lambda>p. fst p = UserRow_id u) (DB_user_roles db) of
        [] \<Rightarrow> [(u, None)]
      | ps \<Rightarrow> map (\<lambda>p. (u, Some (snd p))) ps)"

definition select_users :: "snowflake \<Rightarrow> Database \<Rightarrow> UserRow list" where
  "select_users key db =
     sort_key UserRow_id (filter (\<lambda>u. key \<noteq> 0 \<longrightarrow> UserRow_id u = key) (DB_users db))"

definition user_rows :: "snowflake \<Rightarrow> Database \<Rightarrow> (UserRow \<times> snowflake option) list" where
  "user_rows key db = concat (map (user_join_row db) (select_users key db))"

text \<open>The loop over the rows: \<open>users\<close> and \<open>currentUser\<close> are its variables.\<close>

fun group_users ::
  "User list \<Rightarrow> User option \<Rightarrow> (UserRow \<times> snowflake option) list \<Rightarrow> User list" where
  "group_users users None [] = users"
| "group_users users (Some cur) [] = users @ [cur]"
| "group_users users current (row # rows) =
     (let user = user_of_row row in
      case current of
        None \<Rightarrow> group_users users (Some user) rows
      | Some cur \<Rightarrow>
          if User_ID cur = User_ID user
          then group_users users (Some (cur\<lparr>User_Roles := User_Roles cur @ User_Roles user\<rparr>)) rows
          else group_users (users @ [cur]) (Some user) rows)"

definition QueryUsers :: "Env \<Rightarrow> snowflake \<Rightarrow> Transaction \<Rightarrow> User list go_result \<times> Transaction" where
  "QueryUsers E key tx =
     Prepare tx (\<lambda>tx.
       and_then (with_code ErrorCodeInternalError (step_rows E (user_rows key (Tx_db tx)) tx))
         (\<lambda>rows tx. (Ok (group_users [] None rows), tx)))"

definition GetUser :: "Env \<Rightarrow> snowflake \<Rightarrow> Transaction \<Rightarrow> User go_result \<times> Transaction" where
  "GetUser E key tx =
     and_then (QueryUsers E key tx)
       (\<lambda>users tx. case users of
          [] \<Rightarrow> (Err (Coded ErrorCodeInvalidRequest), tx)
        | u # _ \<Rightarrow> (Ok u, tx))"

definition GetAllUsers :: "Env \<Rightarrow> Transaction \<Rightarrow> User list go_result \<times> Transaction" where
  "GetAllUsers E tx = QueryUsers E 0 tx"

section \<open>Channels\<close>

type_synonym channel_row = "ChannelRow \<times> OverwriteRow option \<times> OverwriteRow option"

definition left_join :: "OverwriteRow list \<Rightarrow> OverwriteRow option list" where
  "left_join ps = (case ps of [] \<Rightarrow> [None] | _ \<Rightarrow> map Some ps)"

text \<open>The rows of \<^verbatim>\<open>channels LEFT JOIN channel_role_permissions LEFT JOIN
  channel_user_permissions\<close>.\<close>

definition channel_join_row :: "Database \<Rightarrow> ChannelRow \<Rightarrow> channel_row list" where
  "channel_join_row db c =
     (let of_channel = filter (\<lambda>p. OverwriteRow_channel_id p = ChannelRow_id c);
          crps = left_join (of_channel (DB_channel_role_permissions db));
          cups = left_join (of_channel (DB_channel_user_permissions db))
      in concat (map (\<lambda>crp. map (\<lambda>cup. (c, crp, cup)) cups) crps))"

definition select_channels :: "snowflake \<Rightarrow> Database \<Rightarrow> ChannelRow list" where
  "select_channels key db =
     sort_key ChannelRow_id (filter (\<lambda>c. key \<noteq> 0 \<longrightarrow> ChannelRow_id c = key) (DB_channels db))"

definition channel_rows :: "snowflake \<Rightarrow> Database \<Rightarrow> channel_row list" where
  "channel_rows key db = concat (map (channel_join_row db) (select_channels key db))"

definition overwrite_of :: "OverwriteType \<Rightarrow> OverwriteRow \<Rightarrow> Overwrite" where
  "overwrite_of ty p = \<lparr>Overwrite_ID = OverwriteRow_target_id p, Overwrite_Type = ty,
     Overwrite_Allow = OverwriteRow_allow p, Overwrite_Deny = OverwriteRow_deny p\<rparr>"

text \<open>The two \<^verbatim>\<open>if\<close>s on a row: an overwrite is kept unless one with its id was kept for this
  channel before; \<open>seen\<close> is the inner map \<^verbatim>\<open>currentPermissions[channel.ID]\<close>.\<close>

definition add_overwrite ::
  "OverwriteType \<Rightarrow> OverwriteRow option \<Rightarrow> Overwrite list \<times> snowflake set \<Rightarrow>
   Overwrite list \<times> snowflake set" where
  "add_overwrite ty p acc = (case (p, acc) of
       (None, _) \<Rightarrow> acc
     | (Some q, (ows, seen)) \<Rightarrow>
         let ow = overwrite_of ty q in
         if Overwrite_ID ow \<in> seen then acc
         else (ows @ [ow], insert (Overwrite_ID ow) seen))"

definition channel_of_row :: "ChannelRow \<Rightarrow> Overwrite list \<Rightarrow> Channel" where
  "channel_of_row c ows = \<lparr>Channel_ID = ChannelRow_id c, Channel_Type = ChannelRow_type c,
     Channel_Name = ChannelRow_name c, Channel_Description = ChannelRow_description c,
     Channel_Position = ChannelRow_position c,
     Channel_ParentID = (case ChannelRow_parent_id c of None \<Rightarrow> 0 | Some p \<Rightarrow> p),
     Channel_Overwrites = ows\<rparr>"

fun group_channels ::
  "Channel list \<Rightarrow> Channel option \<Rightarrow> (snowflake \<Rightarrow> snowflake set) \<Rightarrow> channel_row list \<Rightarrow>
   Channel list" where
  "group_channels channels None perms [] = channels"
| "group_channels channels (Some cur) perms [] = channels @ [cur]"
| "group_channels channels current perms ((c, crp, cup) # rows) =
     (let (ows, seen) = add_overwrite OverwriteTypeUser cup
            (add_overwrite OverwriteTypeRole crp ([], perms (ChannelRow_id c)));
          channel = channel_of_row c ows;
          perms' = perms(ChannelRow_id c := seen)
      in case current of
        None \<Rightarrow> group_channels channels (Some channel) perms' rows
      | Some cur \<Rightarrow>
          if Channel_ID cur = Channel_ID channel
          then group_channels channels
            (Some (cur\<lparr>Channel_Overwrites := Channel_Overwrites cur @ Channel_Overwrites channel\<rparr>))
            perms' rows
          else group_channels (channels @ [cur]) (Some channel) perms' rows)"

definition QueryChannels ::
  "Env \<Rightarrow> snowflake \<Rightarrow> Transaction \<Rightarrow> Channel list go_result \<times> Transaction" where
  "QueryChannels E key tx =
     Prepare tx (\<lambda>tx.
       and_then (with_code ErrorCodeInternalError (step_rows E (channel_rows key (Tx_db tx)) tx))
         (\<lambda>rows tx. (Ok (group_channels [] None (\<lambda>_. {}) rows), tx)))"

definition GetChannel :: "Env \<Rightarrow> snowflake \<Rightarrow> Transaction \<Rightarrow> Channel go_result \<times> Transaction" where
  "GetChannel E key tx =
     and_then (QueryChannels E key tx)
       (\<lambda>channels tx. case channels of
          [] \<Rightarrow> (Err (Coded ErrorCodeInvalidRequest), tx)
        | c # _ \<Rightarrow> (Ok c, tx))"

definition GetAllChannels :: "Env \<Rightarrow> Transaction \<Rightarrow> Channel list go_result \<times> Transaction" where
  "GetAllChannels E tx = QueryChannels E 0 tx"

definition GetChannelByMessage ::
  "Env \<Rightarrow> snowflake \<Rightarrow> Transaction \<Rightarrow> snowflake go_result \<times> Transaction" where
  "GetChannelByMessage E mid tx =
     Prepare tx (\<lambda>tx.
       and_then (step_row E (filter (\<lambda>m. MessageRow_id m = mid) (DB_messages (Tx_db tx))) tx)
         (\<lambda>row tx. case row of
            None \<Rightarrow> (Err (Coded ErrorCodeInvalidRequest), tx)
          | Some m \<Rightarrow> (Ok (MessageRow_channel_id m), tx)))"

definition insert_channel :: "ChannelRow \<Rightarrow> Database \<Rightarrow> Database option" where
  "insert_channel c db =
     (if ChannelRow_id c \<in> channel_ids db \<or>
         (\<exists>p \<in> set_option (ChannelRow_parent_id c). p \<notin> channel_ids db \<and> p \<noteq> ChannelRow_id c)
      then None else Some (db\<lparr>DB_channels := DB_channels db @ [c]\<rparr>))"

definition AddChannel ::
  "Env \<Rightarrow> string \<Rightarrow> int \<Rightarrow> string \<Rightarrow> int \<Rightarrow> snowflake \<Rightarrow> Transaction \<Rightarrow>
   snowflake go_result \<times> Transaction" where
  "AddChannel E name ty description position parentID tx =
     Prepare (MarkAsWrite tx) (\<lambda>tx.
       let channelID = generate_id E tx;
           row = \<lparr>ChannelRow_id = channelID, ChannelRow_type = ty, ChannelRow_name = name,
             ChannelRow_description = description, ChannelRow_position = position,
             ChannelRow_parent_id = (if parentID = 0 then None else Some parentID)\<rparr>
       in and_then (with_code ErrorCodeInternalError (Execute E (insert_channel row) (next_tick tx)))
            (\<lambda>_ tx. (Ok channelID, tx)))"

section \<open>Roles\<close>

definition role_rows :: "snowflake \<Rightarrow> Database \<Rightarrow> Role list" where
  "role_rows key db = sort_key Role_ID (filter (\<lambda>r. key \<noteq> 0 \<longrightarrow> Role_ID r = key) (DB_roles db))"

definition QueryRoles :: "Env \<Rightarrow> snowflake \<Rightarrow> Transaction \<Rightarrow> Role list go_result \<times> Transaction" where
  "QueryRoles E key tx =
     Prepare tx (\<lambda>tx.
       with_code ErrorCodeInternalError (step_rows E (role_rows key (Tx_db tx)) tx))"

definition GetRole :: "Env \<Rightarrow> snowflake \<Rightarrow> Transaction \<Rightarrow> Role go_result \<times> Transaction" where
  "GetRole E key tx =
     and_then (QueryRoles E key tx)
       (\<lambda>roles tx. case roles of
          [] \<Rightarrow> (Err (Coded ErrorCodeInvalidRequest), tx)
        | r # _ \<Rightarrow> (Ok r, tx))"

definition GetAllRoles :: "Env \<Rightarrow> Transaction \<Rightarrow> Role list go_result \<times> Transaction" where
  "GetAllRoles E tx = QueryRoles E 0 tx"

definition insert_role :: "Role \<Rightarrow> Database \<Rightarrow> Database option" where
  "insert_role r db =
     (if Role_ID r \<in> role_ids db then None else Some (db\<lparr>DB_roles := DB_roles db @ [r]\<rparr>))"

definition AddRole ::
  "Env \<Rightarrow> string \<Rightarrow> int \<Rightarrow> int \<Rightarrow> perms \<Rightarrow> bool \<Rightarrow> bool \<Rightarrow> Transaction \<Rightarrow>
   snowflake go_result \<times> Transaction" where
  "AddRole E name color position permissions hoisted mentionable tx =
     Prepare (MarkAsWrite tx) (\<lambda>tx.
       let roleID = generate_id E tx;
           row = \<lparr>Role_ID = roleID, Role_Name = name, Role_Color = color, Role_Position = position,
             Role_Permissions = permissions, Role_Hoisted = hoisted,
             Role_Mentionable = mentionable\<rparr>
       in and_then (with_code ErrorCodeInternalError (Execute E (insert_role row) (next_tick tx)))
            (\<lambda>_ tx. (Ok roleID, tx)))"

definition update_role :: "Role \<Rightarrow> Database \<Rightarrow> Database option" where
  "update_role r db =
     Some (db\<lparr>DB_roles := map (\<lambda>x. if Role_ID x = Role_ID r then r else x) (DB_roles db)\<rparr>)"

definition UpdateRole ::
  "Env \<Rightarrow> snowflake \<Rightarrow> string \<Rightarrow> int \<Rightarrow> int \<Rightarrow> perms \<Rightarrow> bool \<Rightarrow> bool \<Rightarrow> Transaction \<Rightarrow>
   unit go_result \<times> Transaction" where
  "UpdateRole E key name color position permissions hoisted mentionable tx =
     Prepare (MarkAsWrite tx) (\<lambda>tx.
       with_code ErrorCodeInternalError
         (Execute E (update_role \<lparr>Role_ID = key, Role_Name = name, Role_Color = color,
            Role_Position = position, Role_Permissions = permissions, Role_Hoisted = hoisted,
            Role_Mentionable = mentionable\<rparr>) tx))"

definition DeleteRole :: "Env \<Rightarrow> snowflake \<Rightarrow> Transaction \<Rightarrow> unit go_result \<times> Transaction" where
  "DeleteRole E key tx =
     Prepare (MarkAsWrite tx) (\<lambda>tx.
       with_code ErrorCodeInternalError (Execute E (\<lambda>db. Some (delete_role_row key db)) tx))"

definition insert_user_role :: "snowflake \<Rightarrow> snowflake \<Rightarrow> Database \<Rightarrow> Database option" where
  "insert_user_role uid rid db =
     (if (uid, rid) \<in> set (DB_user_roles db) \<or> uid \<notin> user_ids db \<or> rid \<notin> role_ids db then None
      else Some (db\<lparr>DB_user_roles := DB_user_roles db @ [(uid, rid)]\<rparr>))"

definition AddRoleToUser ::
  "Env \<Rightarrow> snowflake \<Rightarrow> snowflake \<Rightarrow> Transaction \<Rightarrow> unit go_result \<times> Transaction" where
  "AddRoleToUser E uid rid tx =
     Prepare (MarkAsWrite tx) (\<lambda>tx.
       with_code ErrorCodeInternalError (Execute E (insert_user_role uid rid) tx))"

definition delete_user_role :: "snowflake \<Rightarrow> snowflake \<Rightarrow> Database \<Rightarrow> Database" where
  "delete_user_role uid rid db =
     db\<lparr>DB_user_roles := filter (\<lambda>p. p \<noteq> (uid, rid)) (DB_user_roles db)\<rparr>"

definition DeleteRoleFromUser ::
  "Env \<Rightarrow> snowflake \<Rightarrow> snowflake \<Rightarrow> Transaction \<Rightarrow> unit go_result \<times> Transaction" where
  "DeleteRoleFromUser E uid rid tx =
     Prepare (MarkAsWrite tx) (\<lambda>tx.
       with_code ErrorCodeInternalError (Execute E (\<lambda>db. Some (delete_user_role uid rid db)) tx))"

section \<open>Emojis\<close>

definition emoji_rows :: "snowflake \<Rightarrow> Database \<Rightarrow> Emoji list" where
  "emoji_rows key db = sort_key Emoji_Name (filter (\<lambda>e. key \<noteq> 0 \<longrightarrow> Emoji_ID e = key) (DB_emojis db))"

definition QueryEmojis ::
  "Env \<Rightarrow> snowflake \<Rightarrow> Transaction \<Rightarrow> Emoji list go_result \<times> Transaction" where
  "QueryEmojis E key tx =
     Prepare tx (\<lambda>tx.
       with_code ErrorCodeInternalError (step_rows E (emoji_rows key (Tx_db tx)) tx))"

definition GetEmoji :: "Env \<Rightarrow> snowflake \<Rightarrow> Transaction \<Rightarrow> Emoji go_result \<times> Transaction" where
  "GetEmoji E key tx =
     and_then (QueryEmojis E key tx)
       (\<lambda>emjs tx. case emjs of
          [] \<Rightarrow> (Err (Coded ErrorCodeInvalidRequest), tx)
        | e # _ \<Rightarrow> (Ok e, tx))"

definition GetAllEmojis :: "Env \<Rightarrow> Transaction \<Rightarrow> Emoji list go_result \<times> Transaction" where
  "GetAllEmojis E tx = QueryEmojis E 0 tx"

definition ValidateEmoji :: "Env \<Rightarrow> snowflake \<Rightarrow> Transaction \<Rightarrow> bool go_result \<times> Transaction" where
  "ValidateEmoji E emojiID tx =
     (if Env_unicode_emoji E emojiID then (Ok True, tx)
      else if_err (GetEmoji E emojiID tx) (\<lambda>_ tx. (Ok False, tx)) (\<lambda>_ tx. (Ok True, tx)))"

section \<open>Tokens, login and registration\<close>

definition use_token :: "string \<Rightarrow> int \<Rightarrow> Database \<Rightarrow> Database" where
  "use_token token now db = db\<lparr>DB_user_tokens :=
     map (\<lambda>t. if TokenRow_token t = token then t\<lparr>TokenRow_last_used_at := now\<rparr> else t)
       (DB_user_tokens db)\<rparr>"

definition UseToken :: "Env \<Rightarrow> string \<Rightarrow> Transaction \<Rightarrow> unit go_result \<times> Transaction" where
  "UseToken E token tx =
     Prepare (MarkAsWrite tx) (\<lambda>tx.
       let now = Env_now E (Tx_tick tx) in
       with_code ErrorCodeInternalError
         (Execute E (\<lambda>db. Some (use_token token now db)) (next_tick tx)))"

definition Authenticate :: "Env \<Rightarrow> string \<Rightarrow> Transaction \<Rightarrow> snowflake go_result \<times> Transaction" where
  "Authenticate E token tx =
     Prepare tx (\<lambda>tx.
       and_then
         (with_code ErrorCodeInternalError
           (step_row E (filter (\<lambda>t. TokenRow_token t = token) (DB_user_tokens (Tx_db tx))) tx))
         (\<lambda>row tx. case row of
            None \<Rightarrow> (Err (Coded ErrorCodeInvalidToken), tx)
          | Some t \<Rightarrow> and_then (UseToken E token tx) (\<lambda>_ tx. (Ok (TokenRow_user_id t), tx))))"

definition insert_token :: "TokenRow \<Rightarrow> Database \<Rightarrow> Database option" where
  "insert_token t db =
     (if (TokenRow_user_id t, TokenRow_token t)
           \<in> (\<lambda>x. (TokenRow_user_id x, TokenRow_token x)) ` set (DB_user_tokens db)
         \<or> TokenRow_user_id t \<notin> user_ids db then None
      else Some (db\<lparr>DB_user_tokens := DB_user_tokens db @ [t]\<rparr>))"

text \<open>\<^verbatim>\<open>GetRandom256\<close> is two random texts; \<^verbatim>\<open>HashSha256\<close> hashes the data and the salt.\<close>

definition GetRandom256 :: "Env \<Rightarrow> nat \<Rightarrow> string" where
  "GetRandom256 E t = Env_random E t @ Env_random E (Suc t)"

definition HashSha256 :: "Env \<Rightarrow> string \<Rightarrow> string \<Rightarrow> string" where
  "HashSha256 E data salt = Env_sha256 E (data @ salt)"

definition AddToken :: "Env \<Rightarrow> snowflake \<Rightarrow> Transaction \<Rightarrow> string go_result \<times> Transaction" where
  "AddToken E userID tx =
     Prepare (MarkAsWrite tx) (\<lambda>tx.
       let token = GetRandom256 E (Tx_tick tx);
           tx = next_tick (next_tick tx);
           now = Env_now E (Tx_tick tx)
       in and_then
            (with_code ErrorCodeInternalError
              (Execute E (insert_token \<lparr>TokenRow_user_id = userID, TokenRow_token = token,
                 TokenRow_created_at = now, TokenRow_last_used_at = now\<rparr>) (next_tick tx)))
            (\<lambda>_ tx. (Ok token, tx)))"

definition Login ::
  "Env \<Rightarrow> string \<Rightarrow> string \<Rightarrow> Transaction \<Rightarrow> (snowflake \<times> string) go_result \<times> Transaction" where
  "Login E username password tx =
     Prepare tx (\<lambda>tx.
       and_then
         (with_code ErrorCodeInternalError
           (step_row E (filter (\<lambda>u. UserRow_user_name u = username) (DB_users (Tx_db tx))) tx))
         (\<lambda>row tx. case row of
            None \<Rightarrow> (Err (Coded ErrorCodeInvalidCredentials), tx)
          | Some u \<Rightarrow>
              if UserRow_hash u \<noteq> HashSha256 E password (UserRow_salt u)
              then (Err (Coded ErrorCodeInvalidCredentials), tx)
              else and_then (AddToken E (UserRow_id u) tx)
                     (\<lambda>token tx. (Ok (UserRow_id u, token), tx))))"

definition IsUsernameValid :: "Env \<Rightarrow> string \<Rightarrow> Transaction \<Rightarrow> bool go_result \<times> Transaction" where
  "IsUsernameValid E username tx =
     (if username = [] \<or> length username < 3 \<or> 32 < length username
      then (Err (Coded ErrorCodeInvalidUsername), tx)
      else Prepare tx (\<lambda>tx.
        and_then
          (with_code ErrorCodeInternalError
            (step_row E (filter (\<lambda>u. UserRow_user_name u = username) (DB_users (Tx_db tx))) tx))
          (\<lambda>row tx. case row of
             Some _ \<Rightarrow> (Err (Coded ErrorCodeTakenUsername), tx)
           | None \<Rightarrow> (Ok True, tx))))"

definition insert_user :: "UserRow \<Rightarrow> Database \<Rightarrow> Database option" where
  "insert_user u db =
     (if UserRow_id u \<in> user_ids db \<or> UserRow_user_name u \<in> UserRow_user_name ` set (DB_users db)
      then None else Some (db\<lparr>DB_users := DB_users db @ [u]\<rparr>))"

text \<open>The columns that the statement leaves out have the defaults of the schema.\<close>

definition AddUser ::
  "Env \<Rightarrow> string \<Rightarrow> string \<Rightarrow> string \<Rightarrow> string \<Rightarrow> string \<Rightarrow> Transaction \<Rightarrow>
   snowflake go_result \<times> Transaction" where
  "AddUser E userName hash salt inviteCode email tx =
     and_then (IsUsernameValid E userName tx) (\<lambda>_ tx.
       Prepare (MarkAsWrite tx) (\<lambda>tx.
         let userID = generate_id E tx;
             row = \<lparr>UserRow_id = userID, UserRow_user_name = userName,
               UserRow_display_name = userName, UserRow_presence = UserPresenceNone,
               UserRow_status_message = [], UserRow_profile_message = [],
               UserRow_profile_color = -1, UserRow_avatar_modified = 0,
               UserRow_hash = hash, UserRow_salt = salt,
               UserRow_email = (if email \<noteq> [] then Some email else None),
               UserRow_invite_code = (if inviteCode \<noteq> [] then Some inviteCode else None)\<rparr>
         in and_then (with_code ErrorCodeInternalError (Execute E (insert_user row) (next_tick tx)))
              (\<lambda>_ tx. (Ok userID, tx))))"

definition update_user :: "snowflake \<Rightarrow> (UserRow \<Rightarrow> UserRow) \<Rightarrow> Database \<Rightarrow> Database" where
  "update_user uid f db =
     db\<lparr>DB_users := map (\<lambda>u. if UserRow_id u = uid then f u else u) (DB_users db)\<rparr>"

definition set_profile_columns ::
  "string \<Rightarrow> string \<Rightarrow> string \<Rightarrow> int \<Rightarrow> int \<Rightarrow> UserRow \<Rightarrow> UserRow" where
  "set_profile_columns displayName statusMessage profileMessage profileColor avatarModified u =
     u\<lparr>UserRow_display_name := displayName, UserRow_status_message := statusMessage,
       UserRow_profile_message := profileMessage, UserRow_profile_color := profileColor,
       UserRow_avatar_modified := avatarModified\<rparr>"

definition SetUserProfile ::
  "Env \<Rightarrow> snowflake \<Rightarrow> string \<Rightarrow> string \<Rightarrow> string \<Rightarrow> int \<Rightarrow> int \<Rightarrow> Transaction \<Rightarrow>
   unit go_result \<times> Transaction" where
  "SetUserProfile E userID displayName statusMessage profileMessage profileColor avatarModified tx =
     Prepare (MarkAsWrite tx) (\<lambda>tx.
       with_code ErrorCodeInternalError
         (Execute E (\<lambda>db. Some (update_user userID (set_profile_columns displayName statusMessage
            profileMessage profileColor avatarModified) db)) tx))"

definition SetUserPresence ::
  "Env \<Rightarrow> snowflake \<Rightarrow> int \<Rightarrow> Transaction \<Rightarrow> unit go_result \<times> Transaction" where
  "SetUserPresence E userID presence tx =
     Prepare (MarkAsWrite tx) (\<lambda>tx.
       with_code ErrorCodeInternalError
         (Execute E (\<lambda>db. Some (update_user userID (\<lambda>u. u\<lparr>UserRow_presence := presence\<rparr>) db)) tx))"

definition Register ::
  "Env \<Rightarrow> string \<Rightarrow> string \<Rightarrow> string \<Rightarrow> string \<Rightarrow> Transaction \<Rightarrow>
   (User \<times> string) go_result \<times> Transaction" where
  "Register E username password email inviteCode tx =
     (let tx = MarkAsWrite tx;
          salt = Env_random E (Tx_tick tx);
          hash = HashSha256 E password salt
      in and_then (AddUser E username hash salt inviteCode email (next_tick tx)) (\<lambda>userID tx.
         and_then (with_code ErrorCodeInternalError
             (SetUserProfile E userID (Env_title E username) [] [] ProfileColorDefault
               AvatarModifiedDefault tx)) (\<lambda>_ tx.
         and_then (AddToken E userID tx) (\<lambda>token tx.
         and_then (with_code ErrorCodeInternalError (GetUser E userID tx)) (\<lambda>user tx.
           (Ok (user, token), tx))))))"

section \<open>What a transaction leaves unchanged\<close>

text \<open>
  The contract between the transaction object and the operations above it: a relation \<open>R\<close>
  between the transaction before and after that is reflexive and transitive and that neither a
  tick nor \<^verbatim>\<open>MarkAsWrite\<close> breaks holds across every read; if it also survives the updates that
  keep the database intact and delete no user, it holds across every write.
\<close>

definition store_update :: "(Database \<Rightarrow> Database option) \<Rightarrow> bool" where
  "store_update upd \<longleftrightarrow> (\<forall>db db'. db_ok db \<longrightarrow> upd db = Some db' \<longrightarrow>
     db_ok db' \<and> user_ids db \<subseteq> user_ids db')"

lemma store_updateI [intro]:
  "(\<And>db db'. db_ok db \<Longrightarrow> upd db = Some db' \<Longrightarrow> db_ok db') \<Longrightarrow>
   (\<And>db db'. upd db = Some db' \<Longrightarrow> user_ids db \<subseteq> user_ids db') \<Longrightarrow> store_update upd"
  by (simp add: store_update_def)

locale tx_frame =
  fixes R :: "Transaction \<Rightarrow> Transaction \<Rightarrow> bool"
  assumes R_refl [simp, intro!]: "R tx tx"
    and R_trans: "R t1 t2 \<Longrightarrow> R t2 t3 \<Longrightarrow> R t1 t3"
    and R_tick [simp, intro!]: "R tx (next_tick tx)"
    and R_mark [simp, intro!]: "R tx (MarkAsWrite tx)"
begin

lemma R_to_tick: "R t1 t2 \<Longrightarrow> R t1 (next_tick t2)"
  by (blast intro: R_trans)

lemma R_from_tick: "R (next_tick t1) t2 \<Longrightarrow> R t1 t2"
  by (blast intro: R_trans)

lemma R_from_mark: "R (MarkAsWrite t1) t2 \<Longrightarrow> R t1 t2"
  by (blast intro: R_trans)

lemma R_and_then:
  assumes "R tx (snd r)" and "\<And>x s. R s (snd (f x s))"
  shows "R tx (snd (and_then r f))"
  using assms by (cases r; cases "fst r") (auto intro: R_trans)

lemma R_if_err:
  assumes "R tx (snd r)" and "\<And>e s. R s (snd (h e s))" and "\<And>x s. R s (snd (f x s))"
  shows "R tx (snd (if_err r h f))"
  using assms by (cases r; cases "fst r") (auto intro: R_trans)

lemma R_with_code [simp]: "R tx (snd (with_code c r)) = R tx (snd r)"
  by (cases r; cases "fst r") auto

lemma R_Prepare: "(\<And>s. R s (snd (k s))) \<Longrightarrow> R tx (snd (Prepare tx k))"
  by (simp add: Prepare_def)

lemma R_step_row [simp, intro!]: "R tx (snd (step_row E rows tx))"
  by (simp add: step_row_def)

lemma R_step_rows [simp, intro!]: "R tx (snd (step_rows E rows tx))"
  by (simp add: step_rows_def)

lemma R_step_rows_while [simp, intro!]: "R tx (snd (step_rows_while E rows tx))"
  by (simp add: step_rows_while_def)

lemmas R_seq = R_and_then R_if_err R_Prepare

lemma R_GetSettings [simp, intro!]: "R tx (snd (GetSettings E tx))"
  unfolding GetSettings_def by (intro R_seq) (auto split: option.split)

lemma R_QueryUsers [simp, intro!]: "R tx (snd (QueryUsers E key tx))"
  unfolding QueryUsers_def by (intro R_seq) auto

lemma R_GetUser [simp, intro!]: "R tx (snd (GetUser E key tx))"
  unfolding GetUser_def by (intro R_seq) (auto split: list.split)

lemma R_GetAllUsers [simp, intro!]: "R tx (snd (GetAllUsers E tx))"
  by (simp add: GetAllUsers_def)

lemma R_QueryChannels [simp, intro!]: "R tx (snd (QueryChannels E key tx))"
  unfolding QueryChannels_def by (intro R_seq) auto

lemma R_GetChannel [simp, intro!]: "R tx (snd (GetChannel E key tx))"
  unfolding GetChannel_def by (intro R_seq) (auto split: list.split)

lemma R_GetAllChannels [simp, intro!]: "R tx (snd (GetAllChannels E tx))"
  by (simp add: GetAllChannels_def)

lemma R_GetChannelByMessage [simp, intro!]: "R tx (snd (GetChannelByMessage E mid tx))"
  unfolding GetChannelByMessage_def by (intro R_seq) (auto split: option.split)

lemma R_QueryRoles [simp, intro!]: "R tx (snd (QueryRoles E key tx))"
  unfolding QueryRoles_def by (intro R_seq) auto

lemma R_GetRole [simp, intro!]: "R tx (snd (GetRole E key tx))"
  unfolding GetRole_def by (intro R_seq) (auto split: list.split)

lemma R_GetAllRoles [simp, intro!]: "R tx (snd (GetAllRoles E tx))"
  by (simp add: GetAllRoles_def)

lemma R_QueryEmojis [simp, intro!]: "R tx (snd (QueryEmojis E key tx))"
  unfolding QueryEmojis_def by (intro R_seq) auto

lemma R_GetEmoji [simp, intro!]: "R tx (snd (GetEmoji E key tx))"
  unfolding GetEmoji_def by (intro R_seq) (auto split: list.split)

lemma R_GetAllEmojis [simp, intro!]: "R tx (snd (GetAllEmojis E tx))"
  by (simp add: GetAllEmojis_def)

lemma R_ValidateEmoji [simp, intro!]: "R tx (snd (ValidateEmoji E e tx))"
  by (auto simp: ValidateEmoji_def intro!: R_seq)

lemma R_IsUsernameValid [simp, intro!]: "R tx (snd (IsUsernameValid E username tx))"
  by (auto simp: IsUsernameValid_def intro!: R_seq split: option.split)

end

locale tx_write_frame = tx_frame +
  assumes R_update: "store_update upd \<Longrightarrow> upd (Tx_db tx) = Some db \<Longrightarrow> R tx (tx\<lparr>Tx_db := db\<rparr>)"
begin

lemma R_Execute: "store_update upd \<Longrightarrow> R tx (snd (Execute E upd tx))"
  by (auto simp: Execute_def split: option.split intro: R_trans [OF R_tick R_update])

lemma R_write:
  assumes "\<And>s. R s (snd (k s))"
  shows "R tx (snd (Prepare (MarkAsWrite tx) k))"
  using R_Prepare [OF assms] by (blast intro: R_trans)

end

section \<open>Every write keeps the database intact\<close>

lemma keys_ok_settings [simp]: "keys_ok (db\<lparr>DB_settings := s\<rparr>) = keys_ok db"
  by (simp add: keys_ok_def)

lemma refs_ok_settings [simp]: "refs_ok (db\<lparr>DB_settings := s\<rparr>) = refs_ok db"
  by (simp add: refs_ok_def)

lemma db_ok_settings [simp]: "db_ok (db\<lparr>DB_settings := s\<rparr>) = db_ok db"
  by (simp add: db_ok_def)

lemma store_update_Some [intro]: "(\<And>db. db_ok db \<Longrightarrow> db_ok (f db)) \<Longrightarrow> (\<And>db. user_ids db \<subseteq> user_ids (f db)) \<Longrightarrow>
     store_update (\<lambda>db. Some (f db))"
  by (auto simp: store_update_def)

lemma store_insert_channel [intro]: "store_update (insert_channel c)"
proof
  fix db db' assume "db_ok db" and "insert_channel c db = Some db'"
  then show "db_ok db'"
    by (auto simp: insert_channel_def db_ok_def keys_ok_def refs_ok_def refers_grow refers_opt_def
        split: if_splits)
next
  fix db db' assume "insert_channel c db = Some db'"
  then show "user_ids db \<subseteq> user_ids db'" by (auto simp: insert_channel_def split: if_splits)
qed

lemma store_insert_role [intro]: "store_update (insert_role r)"
  by (rule store_updateI) (auto simp: insert_role_def db_ok_def keys_ok_def refs_ok_def refers_grow split: if_splits)

lemma map_update_key:
  "(\<And>x. f (g x) = f x) \<Longrightarrow> map f (map (\<lambda>x. if P x then g x else x) xs) = map f xs"
  by (induction xs) auto

lemma refers_update_key:
  "(\<And>y. g (h y) = g y) \<Longrightarrow>
     refers f xs g (map (\<lambda>y. if P y then h y else y) ys) \<longleftrightarrow> refers f xs g ys"
  by (rule refers_keys_map) simp

lemma refers_update_row:
  "(\<And>x. f (h x) = f x) \<Longrightarrow>
     refers f (map (\<lambda>x. if P x then h x else x) xs) g ys \<longleftrightarrow> refers f xs g ys"
  by (simp add: refers_map if_distrib cong: if_cong)

lemma store_update_role [intro]: "store_update (update_role r)"
proof
  fix db db' assume ok: "db_ok db" and "update_role r db = Some db'"
  then have db': "db' = db\<lparr>DB_roles := map (\<lambda>x. if Role_ID x = Role_ID r then r else x) (DB_roles db)\<rparr>"
    by (simp add: update_role_def)
  have "map Role_ID (map (\<lambda>x. if Role_ID x = Role_ID r then r else x) (DB_roles db))
      = map Role_ID (DB_roles db)"
    by (induction "DB_roles db" rule: list.induct) auto
  with ok show "db_ok db'"
    by (simp add: db' db_ok_def keys_ok_def refs_ok_def refers_keys_map del: map_map)
next
  fix db db' assume "update_role r db = Some db'"
  then show "user_ids db \<subseteq> user_ids db'" by (auto simp: update_role_def)
qed

lemma store_delete_role [intro]: "store_update (\<lambda>db. Some (delete_role_row rid db))"
  by (rule store_update_Some) (simp_all add: db_ok_delete_role user_ids_delete_role_row)

lemma store_insert_user_role [intro]: "store_update (insert_user_role uid rid)"
  by (rule store_updateI) (auto simp: insert_user_role_def db_ok_def keys_ok_def refs_ok_def split: if_splits)

lemma store_delete_user_role [intro]: "store_update (\<lambda>db. Some (delete_user_role uid rid db))"
  by (rule store_updateI) (auto simp: delete_user_role_def db_ok_def keys_ok_def refs_ok_def refers_filter)

lemma store_use_token [intro]: "store_update (\<lambda>db. Some (use_token token now db))"
  by (rule store_update_Some)
    (simp_all add: use_token_def db_ok_def keys_ok_def refs_ok_def refers_update_row map_update_key
      del: map_map)

lemma store_insert_token [intro]: "store_update (insert_token t)"
  by (rule store_updateI) (auto simp: insert_token_def db_ok_def keys_ok_def refs_ok_def split: if_splits)

lemma store_insert_user [intro]: "store_update (insert_user u)"
  by (rule store_updateI) (auto simp: insert_user_def db_ok_def keys_ok_def refs_ok_def refers_grow split: if_splits)

lemma user_ids_update_user:
  "(\<And>u. UserRow_id (f u) = UserRow_id u) \<Longrightarrow> user_ids (update_user uid f db) = user_ids db"
  unfolding update_user_def set_map [symmetric]
  by (simp add: map_update_key del: map_map set_map)

lemma store_update_user:
  assumes "\<And>u. UserRow_id (f u) = UserRow_id u" and "\<And>u. UserRow_user_name (f u) = UserRow_user_name u"
  shows "store_update (\<lambda>db. Some (update_user uid f db))"
proof (rule store_update_Some)
  fix db assume "db_ok db"
  with assms show "db_ok (update_user uid f db)"
    by (simp add: update_user_def db_ok_def keys_ok_def refs_ok_def refers_update_key
        map_update_key del: map_map)
qed (simp add: assms(1) user_ids_update_user)

context tx_write_frame
begin

lemma R_Initialize [simp, intro!]: "R tx (snd (Initialize E tx))"
  unfolding Initialize_def
  by (intro R_write R_if_err R_Execute) (auto simp: store_update_def split: option.split)

lemma R_Checkpoint [simp, intro!]: "R tx (snd (Checkpoint E tx))"
  unfolding Checkpoint_def by (intro R_write R_if_err R_Execute) auto

lemma R_SetSettings [simp, intro!]: "R tx (snd (SetSettings E s tx))"
  unfolding SetSettings_def R_with_code
  by (intro R_write) (auto intro!: R_Execute simp: store_update_def split: option.split)

lemma R_AddChannel [simp, intro!]:
  "R tx (snd (AddChannel E name ty description position parentID tx))"
  unfolding AddChannel_def Let_def
  by (intro R_write R_and_then) (auto intro: R_from_tick R_Execute)

lemma R_AddRole [simp, intro!]:
  "R tx (snd (AddRole E name color position permissions hoisted mentionable tx))"
  unfolding AddRole_def Let_def
  by (intro R_write R_and_then) (auto intro: R_from_tick R_Execute)

lemma R_UpdateRole [simp, intro!]:
  "R tx (snd (UpdateRole E key name color position permissions hoisted mentionable tx))"
  unfolding UpdateRole_def by (intro R_write) (auto intro: R_Execute)

lemma R_DeleteRole [simp, intro!]: "R tx (snd (DeleteRole E key tx))"
  unfolding DeleteRole_def by (intro R_write) (auto intro: R_Execute)

lemma R_AddRoleToUser [simp, intro!]: "R tx (snd (AddRoleToUser E uid rid tx))"
  unfolding AddRoleToUser_def by (intro R_write) (auto intro: R_Execute)

lemma R_DeleteRoleFromUser [simp, intro!]: "R tx (snd (DeleteRoleFromUser E uid rid tx))"
  unfolding DeleteRoleFromUser_def by (intro R_write) (auto intro: R_Execute)

lemma R_UseToken [simp, intro!]: "R tx (snd (UseToken E token tx))"
  unfolding UseToken_def Let_def by (intro R_write) (auto intro: R_from_tick R_Execute)

lemma R_Authenticate [simp, intro!]: "R tx (snd (Authenticate E token tx))"
  unfolding Authenticate_def
  by (intro R_seq) (auto intro!: R_and_then split: option.split)

lemma R_AddToken [simp, intro!]: "R tx (snd (AddToken E userID tx))"
  unfolding AddToken_def Let_def
  by (intro R_write R_and_then)
    (auto intro: R_from_tick [OF R_from_tick [OF R_from_tick [OF R_Execute]]])

lemma R_Login [simp, intro!]: "R tx (snd (Login E username password tx))"
  unfolding Login_def
  by (intro R_seq) (auto intro!: R_and_then split: option.split)

lemma R_AddUser [simp, intro!]: "R tx (snd (AddUser E userName hash salt inviteCode email tx))"
  unfolding AddUser_def Let_def
  by (intro R_write R_and_then) (auto intro: R_from_tick R_Execute)

lemma R_SetUserProfile [simp, intro!]:
  "R tx (snd (SetUserProfile E userID dn sm pm pc am tx))"
  unfolding SetUserProfile_def
  by (intro R_write) (auto intro!: R_Execute store_update_user simp: set_profile_columns_def)

lemma R_SetUserPresence [simp, intro!]: "R tx (snd (SetUserPresence E userID presence tx))"
  unfolding SetUserPresence_def
  by (intro R_write) (auto intro!: R_Execute store_update_user)

lemma R_Register [simp, intro!]: "R tx (snd (Register E username password email inviteCode tx))"
  unfolding Register_def Let_def
  by (intro R_and_then)
    (simp_all add: R_from_mark [OF R_from_tick [OF R_AddUser]] del: next_tick_fields)

end

text \<open>The contract on the model's transactions: the integrity of the tables and of the saved
  snapshot, that no operation starts or ends the transaction it runs in, and that reads leave
  the tables alone.\<close>

definition tx_ok :: "Transaction \<Rightarrow> bool" where
  "tx_ok tx \<longleftrightarrow> db_ok (Tx_db tx) \<and> (\<forall>saved \<in> set_option (Tx_commit tx). db_ok saved)"

definition keeps_ok :: "Transaction \<Rightarrow> Transaction \<Rightarrow> bool" where
  "keeps_ok tx tx' \<longleftrightarrow> (tx_ok tx \<longrightarrow> tx_ok tx')"

definition same_scope :: "Transaction \<Rightarrow> Transaction \<Rightarrow> bool" where
  "same_scope tx tx' \<longleftrightarrow> Tx_commit tx' = Tx_commit tx \<and> Tx_lastWrite tx' = Tx_lastWrite tx"

definition same_tables :: "Transaction \<Rightarrow> Transaction \<Rightarrow> bool" where
  "same_tables tx tx' \<longleftrightarrow> Tx_db tx' = Tx_db tx \<and> same_scope tx tx'"

lemma tx_ok_step [simp]: "tx_ok (next_tick tx) = tx_ok tx" "tx_ok (MarkAsWrite tx) = tx_ok tx"
  by (simp_all add: tx_ok_def)

lemma tx_ok_update:
  "store_update upd \<Longrightarrow> upd (Tx_db tx) = Some db \<Longrightarrow> tx_ok tx \<Longrightarrow> tx_ok (tx\<lparr>Tx_db := db\<rparr>)"
  unfolding tx_ok_def store_update_def by simp blast

interpretation integrity: tx_write_frame keeps_ok
  unfolding keeps_ok_def by unfold_locales (simp_all add: tx_ok_update)

interpretation scope: tx_write_frame same_scope
  by unfold_locales (auto simp: same_scope_def)

interpretation reads: tx_frame same_tables
  by unfold_locales (auto simp: same_tables_def same_scope_def)

end
