(* ===== verification/Messages_Store.thy ===== *)
theory Messages_Store
  imports Transactions
begin

text \<open>
  storage/transactions.go, second half: messages with their mentions, embeds, attachments and
  previews, and reactions. A message read back is what the aggregating query of
  storage/sql/message_query.sql followed by \<^verbatim>\<open>json.Unmarshal\<close> yields; the query writes
  \<^verbatim>\<open>embed_fields.inline\<close> as a JSON number, which does not decode into a Go \<^verbatim>\<open>bool\<close>.
\<close>

section \<open>Reading messages\<close>

definition preview_row :: "Database \<Rightarrow> snowflake \<Rightarrow> PreviewRow option" where
  "preview_row db k = List.find (\<lambda>p. PreviewRow_id p = k) (DB_previews db)"

definition preview_width :: "Database \<Rightarrow> snowflake \<Rightarrow> int" where
  "preview_width db k = (case preview_row db k of None \<Rightarrow> 0 | Some p \<Rightarrow> PreviewRow_width p)"

definition preview_height :: "Database \<Rightarrow> snowflake \<Rightarrow> int" where
  "preview_height db k = (case preview_row db k of None \<Rightarrow> 0 | Some p \<Rightarrow> PreviewRow_height p)"

definition preview_preload :: "Database \<Rightarrow> snowflake \<Rightarrow> string" where
  "preview_preload db k = (case preview_row db k of None \<Rightarrow> [] | Some p \<Rightarrow> PreviewRow_preload p)"

definition message_attachments :: "Database \<Rightarrow> snowflake \<Rightarrow> Attachment list" where
  "message_attachments db mid =
     map (\<lambda>a. \<lparr>Attachment_ID = AttachmentRow_id a, Attachment_Filename = AttachmentRow_filename a,
         Attachment_Type = AttachmentRow_type a, Attachment_MimeType = AttachmentRow_mimetype a,
         Attachment_Size = AttachmentRow_size a,
         Attachment_Preload = preview_preload db (AttachmentRow_id a),
         Attachment_Width = preview_width db (AttachmentRow_id a),
         Attachment_Height = preview_height db (AttachmentRow_id a)\<rparr>)
       (filter (\<lambda>a. AttachmentRow_message_id a = mid) (DB_attachments db))"

definition media_of_columns :: "Database \<Rightarrow> (string \<times> snowflake) option \<Rightarrow> EmbedMedia option" where
  "media_of_columns db cols = (case cols of None \<Rightarrow> None
     | Some (url, k) \<Rightarrow> Some \<lparr>EmbedMedia_ID = k, EmbedMedia_URL = url,
         EmbedMedia_Width = preview_width db k, EmbedMedia_Height = preview_height db k,
         EmbedMedia_MimeType = [], EmbedMedia_Preload = preview_preload db k\<rparr>)"

definition embed_of_row :: "Database \<Rightarrow> EmbedRow \<Rightarrow> Embed" where
  "embed_of_row db e =
     \<lparr>Embed_ID = EmbedRow_id e, Embed_Type = EmbedRow_type e, Embed_URL = EmbedRow_url e,
      Embed_Title = EmbedRow_title e, Embed_Description = EmbedRow_description e,
      Embed_Color = EmbedRow_color e, Embed_Timestamp = EmbedRow_timestamp e,
      Embed_Image = media_of_columns db (EmbedRow_image e),
      Embed_Thumbnail = media_of_columns db (EmbedRow_thumbnail e),
      Embed_Video = media_of_columns db (EmbedRow_video e),
      Embed_Author = (case (EmbedRow_author e, EmbedRow_author_icon e) of
          (None, None) \<Rightarrow> None
        | (None, Some icon) \<Rightarrow> Some \<lparr>EmbedAuthor_Name = [], EmbedAuthor_URL = [],
            EmbedAuthor_Icon = media_of_columns db (Some icon)\<rparr>
        | (Some (name, url), icon) \<Rightarrow> Some \<lparr>EmbedAuthor_Name = name, EmbedAuthor_URL = url,
            EmbedAuthor_Icon = media_of_columns db icon\<rparr>),
      Embed_Provider = (case EmbedRow_provider e of None \<Rightarrow> None
        | Some (name, url) \<Rightarrow> Some \<lparr>EmbedProvider_Name = name, EmbedProvider_URL = url\<rparr>),
      Embed_Footer = (case (EmbedRow_footer_text e, EmbedRow_footer_icon e) of
          (None, None) \<Rightarrow> None
        | (None, Some icon) \<Rightarrow> Some \<lparr>EmbedFooter_Text = [],
            EmbedFooter_Icon = media_of_columns db (Some icon)\<rparr>
        | (Some txt, icon) \<Rightarrow> Some \<lparr>EmbedFooter_Text = txt,
            EmbedFooter_Icon = media_of_columns db icon\<rparr>),
      Embed_Fields = []\<rparr>"

definition embed_rows :: "Database \<Rightarrow> snowflake \<Rightarrow> EmbedRow list" where
  "embed_rows db mid = filter (\<lambda>e. EmbedRow_message_id e = mid) (DB_embeds db)"

text \<open>Whether the \<^verbatim>\<open>embeds\<close> column decodes: no embed has a field.\<close>

definition embeds_decode :: "Database \<Rightarrow> snowflake \<Rightarrow> bool" where
  "embeds_decode db mid \<longleftrightarrow>
     (\<forall>e \<in> set (embed_rows db mid). \<forall>f \<in> set (DB_embed_fields db).
        EmbedFieldRow_embed_id f \<noteq> EmbedRow_id e)"

definition reaction_of :: "Database \<Rightarrow> snowflake \<Rightarrow> snowflake \<Rightarrow> Reaction" where
  "reaction_of db mid emj =
     (let users = map ReactionRow_user_id (filter (\<lambda>r. ReactionRow_message_id r = mid \<and>
            ReactionRow_emoji_id r = emj) (DB_reactions db))
      in \<lparr>Reaction_EmojiID = emj, Reaction_Count = int (length users), Reaction_Users = users,
          Reaction_Me = False\<rparr>)"

text \<open>The reactions grouped by emoji, by the row of each emoji's first reaction.\<close>

definition message_reactions :: "Database \<Rightarrow> snowflake \<Rightarrow> Reaction list" where
  "message_reactions db mid =
     map (reaction_of db mid) (rev (remdups (rev (map ReactionRow_emoji_id
       (filter (\<lambda>r. ReactionRow_message_id r = mid) (DB_reactions db))))))"

definition mentions_of :: "(snowflake \<times> snowflake) list \<Rightarrow> snowflake \<Rightarrow> snowflake list" where
  "mentions_of ps mid = map snd (filter (\<lambda>p. fst p = mid) ps)"

definition message_of_row :: "Database \<Rightarrow> MessageRow \<Rightarrow> Message" where
  "message_of_row db m =
     \<lparr>Message_ID = MessageRow_id m, Message_Type = MessageRow_type m,
      Message_ChannelID = MessageRow_channel_id m, Message_Timestamp = MessageRow_timestamp m,
      Message_Pinned = MessageRow_pinned m, Message_AuthorID = MessageRow_author_id m,
      Message_ReferenceID = (case MessageRow_reference_id m of None \<Rightarrow> 0 | Some r \<Rightarrow> r),
      Message_Content = MessageRow_content m,
      Message_EditedTimestamp = (case MessageRow_edited_timestamp m of None \<Rightarrow> 0 | Some t \<Rightarrow> t),
      Message_Attachments = message_attachments db (MessageRow_id m),
      Message_Embeds = map (embed_of_row db) (embed_rows db (MessageRow_id m)),
      Message_Reactions = message_reactions db (MessageRow_id m),
      Message_MentionedUsers = mentions_of (DB_message_user_mentions db) (MessageRow_id m),
      Message_MentionedRoles = mentions_of (DB_message_role_mentions db) (MessageRow_id m),
      Message_MentionedChannels = mentions_of (DB_message_channel_mentions db) (MessageRow_id m),
      Message_EmbeddableURLs = []\<rparr>"

text \<open>The loop over the rows of the query; a row whose JSON does not decode ends it.\<close>

fun decode_messages :: "Database \<Rightarrow> Message list \<Rightarrow> MessageRow list \<Rightarrow> Message list go_result" where
  "decode_messages db messages [] = Ok messages"
| "decode_messages db messages (m # rows) =
     (if embeds_decode db (MessageRow_id m)
      then decode_messages db (messages @ [message_of_row db m]) rows
      else Err Uncoded)"

definition QueryMessages ::
  "Env \<Rightarrow> MessageRow list \<Rightarrow> Transaction \<Rightarrow> Message list go_result \<times> Transaction" where
  "QueryMessages E rows tx =
     and_then (step_rows_while E rows tx) (\<lambda>rows tx. (decode_messages (Tx_db tx) [] rows, tx))"

text \<open>\<^verbatim>\<open>LIMIT ?\<close> of SQL: a negative limit is no limit.\<close>

definition sql_limit :: "int \<Rightarrow> 'a list \<Rightarrow> 'a list" where
  "sql_limit n xs = (if n < 0 then xs else take (nat n) xs)"

text \<open>The rows that the query for an anchor selects, in its order.\<close>

definition anchor_rows ::
  "snowflake \<Rightarrow> snowflake \<Rightarrow> int \<Rightarrow> bool \<Rightarrow> Database \<Rightarrow> MessageRow list" where
  "anchor_rows channelID anchorID limit before db =
     (let rows = sort_key MessageRow_id
            (filter (\<lambda>m. MessageRow_channel_id m = channelID) (DB_messages db))
      in if anchorID \<noteq> 0 then
           if before
           then sql_limit limit (rev (filter (\<lambda>m. MessageRow_id m < anchorID) rows))
           else sql_limit limit (filter (\<lambda>m. anchorID < MessageRow_id m) rows)
         else sql_limit limit (rev rows))"

definition GetMessagesByAnchor ::
  "Env \<Rightarrow> snowflake \<Rightarrow> snowflake \<Rightarrow> int \<Rightarrow> bool \<Rightarrow> Transaction \<Rightarrow>
   Message list go_result \<times> Transaction" where
  "GetMessagesByAnchor E channelID anchorID limit before tx =
     Prepare tx (\<lambda>tx.
       and_then (QueryMessages E (anchor_rows channelID anchorID limit before (Tx_db tx)) tx)
         (\<lambda>messages tx. (Ok (if anchorID = 0 \<or> before then rev messages else messages), tx)))"

fun get_messages_loop ::
  "Env \<Rightarrow> bool \<Rightarrow> Message list \<Rightarrow> snowflake list \<Rightarrow> Transaction \<Rightarrow>
   Message list go_result \<times> Transaction" where
  "get_messages_loop E required messages [] tx = (Ok messages, tx)"
| "get_messages_loop E required messages (mid # ids) tx =
     and_then
       (QueryMessages E (filter (\<lambda>m. MessageRow_id m = mid) (DB_messages (Tx_db tx))) tx)
       (\<lambda>parsed tx. case parsed of
          [] \<Rightarrow> if required then (Err Uncoded, tx) else get_messages_loop E required messages ids tx
        | m # _ \<Rightarrow> get_messages_loop E required (messages @ [m]) ids tx)"

definition GetMessages ::
  "Env \<Rightarrow> snowflake list \<Rightarrow> bool \<Rightarrow> Transaction \<Rightarrow> Message list go_result \<times> Transaction" where
  "GetMessages E ids required tx = Prepare tx (get_messages_loop E required [] ids)"

definition GetMessage :: "Env \<Rightarrow> snowflake \<Rightarrow> Transaction \<Rightarrow> Message go_result \<times> Transaction" where
  "GetMessage E mid tx =
     and_then (GetMessages E [mid] True tx)
       (\<lambda>messages tx. case messages of [] \<Rightarrow> (Ok Message_zero, tx) | m # _ \<Rightarrow> (Ok m, tx))"

section \<open>Attachments and embeds\<close>

definition insert_preview :: "PreviewRow \<Rightarrow> Database \<Rightarrow> Database option" where
  "insert_preview p db =
     (if PreviewRow_id p \<in> PreviewRow_id ` set (DB_previews db) then None
      else Some (db\<lparr>DB_previews := DB_previews db @ [p]\<rparr>))"

definition AddPreviews ::
  "Env \<Rightarrow> snowflake \<Rightarrow> int \<Rightarrow> int \<Rightarrow> string \<Rightarrow> Transaction \<Rightarrow> unit go_result \<times> Transaction" where
  "AddPreviews E key width height preload tx =
     Prepare (MarkAsWrite tx) (\<lambda>tx.
       with_code ErrorCodeInternalError
         (Execute E (insert_preview \<lparr>PreviewRow_id = key, PreviewRow_width = width,
            PreviewRow_height = height, PreviewRow_preload = preload\<rparr>) tx))"

definition insert_attachment :: "AttachmentRow \<Rightarrow> Database \<Rightarrow> Database option" where
  "insert_attachment a db =
     (if AttachmentRow_id a \<in> AttachmentRow_id ` set (DB_attachments db) \<or>
         AttachmentRow_message_id a \<notin> message_ids db then None
      else Some (db\<lparr>DB_attachments := DB_attachments db @ [a]\<rparr>))"

definition AddAttachment ::
  "Env \<Rightarrow> snowflake \<Rightarrow> Attachment \<Rightarrow> Transaction \<Rightarrow> unit go_result \<times> Transaction" where
  "AddAttachment E messageID attachment tx =
     Prepare (MarkAsWrite tx) (\<lambda>tx.
       and_then
         (with_code ErrorCodeInternalError
           (Execute E (insert_attachment \<lparr>AttachmentRow_id = Attachment_ID attachment,
              AttachmentRow_message_id = messageID, AttachmentRow_type = Attachment_Type attachment,
              AttachmentRow_mimetype = Attachment_MimeType attachment,
              AttachmentRow_filename = Attachment_Filename attachment,
              AttachmentRow_size = Attachment_Size attachment\<rparr>) tx))
         (\<lambda>_ tx.
           if Attachment_Preload attachment \<noteq> []
           then with_code ErrorCodeInternalError
             (AddPreviews E (Attachment_ID attachment) (Attachment_Width attachment)
               (Attachment_Height attachment) (Attachment_Preload attachment) tx)
           else (Ok (), tx)))"

definition GetAttachment ::
  "Env \<Rightarrow> snowflake \<Rightarrow> snowflake \<Rightarrow> string \<Rightarrow> Transaction \<Rightarrow> Attachment go_result \<times> Transaction" where
  "GetAttachment E messageID attachmentID filename tx =
     Prepare tx (\<lambda>tx.
       and_then
         (with_code ErrorCodeInternalError
           (step_row E (filter (\<lambda>a. AttachmentRow_message_id a = messageID \<and>
              AttachmentRow_id a = attachmentID \<and> AttachmentRow_filename a = filename)
              (DB_attachments (Tx_db tx))) tx))
         (\<lambda>row tx. case row of
            None \<Rightarrow> (Err (Coded ErrorCodeInvalidRequest), tx)
          | Some a \<Rightarrow> (Ok \<lparr>Attachment_ID = AttachmentRow_id a,
              Attachment_Filename = AttachmentRow_filename a,
              Attachment_Type = AttachmentRow_type a,
              Attachment_MimeType = AttachmentRow_mimetype a, Attachment_Size = 0,
              Attachment_Preload = preview_preload (Tx_db tx) (AttachmentRow_id a),
              Attachment_Width = preview_width (Tx_db tx) (AttachmentRow_id a),
              Attachment_Height = preview_height (Tx_db tx) (AttachmentRow_id a)\<rparr>, tx)))"

definition media_columns :: "EmbedMedia option \<Rightarrow> (string \<times> snowflake) option" where
  "media_columns m = (case m of None \<Rightarrow> None | Some x \<Rightarrow> Some (EmbedMedia_URL x, EmbedMedia_ID x))"

definition row_of_embed :: "snowflake \<Rightarrow> snowflake \<Rightarrow> Embed \<Rightarrow> EmbedRow" where
  "row_of_embed embedID messageID e =
     \<lparr>EmbedRow_id = embedID, EmbedRow_message_id = messageID, EmbedRow_type = Embed_Type e,
      EmbedRow_url = Embed_URL e, EmbedRow_title = Embed_Title e,
      EmbedRow_description = Embed_Description e, EmbedRow_color = Embed_Color e,
      EmbedRow_timestamp = Embed_Timestamp e, EmbedRow_image = media_columns (Embed_Image e),
      EmbedRow_thumbnail = media_columns (Embed_Thumbnail e),
      EmbedRow_video = media_columns (Embed_Video e),
      EmbedRow_author = (case Embed_Author e of None \<Rightarrow> None
        | Some a \<Rightarrow> Some (EmbedAuthor_Name a, EmbedAuthor_URL a)),
      EmbedRow_author_icon = (case Embed_Author e of None \<Rightarrow> None
        | Some a \<Rightarrow> media_columns (EmbedAuthor_Icon a)),
      EmbedRow_provider = (case Embed_Provider e of None \<Rightarrow> None
        | Some p \<Rightarrow> Some (EmbedProvider_Name p, EmbedProvider_URL p)),
      EmbedRow_footer_text = (case Embed_Footer e of None \<Rightarrow> None
        | Some f \<Rightarrow> Some (EmbedFooter_Text f)),
      EmbedRow_footer_icon = (case Embed_Footer e of None \<Rightarrow> None
        | Some f \<Rightarrow> media_columns (EmbedFooter_Icon f))\<rparr>"

definition insert_embed :: "EmbedRow \<Rightarrow> Database \<Rightarrow> Database option" where
  "insert_embed e db =
     (if EmbedRow_id e \<in> embed_ids db \<or> EmbedRow_message_id e \<notin> message_ids db then None
      else Some (db\<lparr>DB_embeds := DB_embeds db @ [e]\<rparr>))"

definition insert_embed_field :: "snowflake \<Rightarrow> EmbedField \<Rightarrow> Database \<Rightarrow> Database option" where
  "insert_embed_field embedID f db =
     (if (embedID, EmbedField_Name f) \<in> (\<lambda>x. (EmbedFieldRow_embed_id x,
           EmbedField_Name (EmbedFieldRow_field x))) ` set (DB_embed_fields db)
         \<or> embedID \<notin> embed_ids db then None
      else Some (db\<lparr>DB_embed_fields := DB_embed_fields db @
        [\<lparr>EmbedFieldRow_embed_id = embedID, EmbedFieldRow_field = f\<rparr>]\<rparr>))"

text \<open>A loop \<^verbatim>\<open>for _, x := range xs { if err := f(x); err != nil { return err } }\<close>.\<close>

fun for_each ::
  "('a \<Rightarrow> 's \<Rightarrow> unit go_result \<times> 's) \<Rightarrow> 'a list \<Rightarrow> 's \<Rightarrow> unit go_result \<times> 's" where
  "for_each f [] s = (Ok (), s)"
| "for_each f (x # xs) s = and_then (f x s) (\<lambda>_. for_each f xs)"

definition add_embed_preview ::
  "Env \<Rightarrow> EmbedMedia option \<Rightarrow> Transaction \<Rightarrow> unit go_result \<times> Transaction" where
  "add_embed_preview E media tx = (case media of
       None \<Rightarrow> (Ok (), tx)
     | Some m \<Rightarrow> with_code ErrorCodeInternalError
         (AddPreviews E (EmbedMedia_ID m) (EmbedMedia_Width m) (EmbedMedia_Height m)
           (EmbedMedia_Preload m) tx))"

definition add_embed_field ::
  "Env \<Rightarrow> snowflake \<Rightarrow> EmbedField \<Rightarrow> Transaction \<Rightarrow> unit go_result \<times> Transaction" where
  "add_embed_field E embedID f tx =
     Prepare tx (\<lambda>tx.
       with_code ErrorCodeInternalError (Execute E (insert_embed_field embedID f) tx))"

definition AddEmbed ::
  "Env \<Rightarrow> snowflake \<Rightarrow> Embed \<Rightarrow> Transaction \<Rightarrow> unit go_result \<times> Transaction" where
  "AddEmbed E messageID emb tx =
     (let tx = MarkAsWrite tx;
          fresh = (Embed_ID emb = 0);
          embedID = (if fresh then generate_id E tx else Embed_ID emb)
      in Prepare (if fresh then next_tick tx else tx) (\<lambda>tx.
        and_then
          (with_code ErrorCodeInternalError
            (Execute E (insert_embed (row_of_embed embedID messageID emb)) tx)) (\<lambda>_ tx.
        and_then (for_each (add_embed_field E embedID) (Embed_Fields emb) tx) (\<lambda>_ tx.
        and_then (add_embed_preview E (Embed_Image emb) tx) (\<lambda>_ tx.
        and_then (add_embed_preview E (Embed_Thumbnail emb) tx) (\<lambda>_ tx.
        add_embed_preview E (Embed_Video emb) tx))))))"

definition DeleteEmbeds ::
  "Env \<Rightarrow> snowflake list \<Rightarrow> Transaction \<Rightarrow> unit go_result \<times> Transaction" where
  "DeleteEmbeds E embedIDs tx =
     Prepare (MarkAsWrite tx)
       (for_each (\<lambda>eid tx. with_code ErrorCodeInternalError
          (Execute E (\<lambda>db. Some (delete_embed_row eid db)) tx)) embedIDs)"

section \<open>Mentions\<close>

definition delete_user_mentions :: "snowflake \<Rightarrow> Database \<Rightarrow> Database" where
  "delete_user_mentions mid db =
     db\<lparr>DB_message_user_mentions := filter (\<lambda>p. fst p \<noteq> mid) (DB_message_user_mentions db)\<rparr>"

definition delete_role_mentions :: "snowflake \<Rightarrow> Database \<Rightarrow> Database" where
  "delete_role_mentions mid db =
     db\<lparr>DB_message_role_mentions := filter (\<lambda>p. fst p \<noteq> mid) (DB_message_role_mentions db)\<rparr>"

definition delete_channel_mentions :: "snowflake \<Rightarrow> Database \<Rightarrow> Database" where
  "delete_channel_mentions mid db =
     db\<lparr>DB_message_channel_mentions := filter (\<lambda>p. fst p \<noteq> mid) (DB_message_channel_mentions db)\<rparr>"

definition insert_user_mention :: "snowflake \<Rightarrow> snowflake \<Rightarrow> Database \<Rightarrow> Database option" where
  "insert_user_mention mid k db =
     (if (mid, k) \<in> set (DB_message_user_mentions db) \<or> mid \<notin> message_ids db \<or> k \<notin> user_ids db
      then None
      else Some (db\<lparr>DB_message_user_mentions := DB_message_user_mentions db @ [(mid, k)]\<rparr>))"

definition insert_role_mention :: "snowflake \<Rightarrow> snowflake \<Rightarrow> Database \<Rightarrow> Database option" where
  "insert_role_mention mid k db =
     (if (mid, k) \<in> set (DB_message_role_mentions db) \<or> mid \<notin> message_ids db \<or> k \<notin> role_ids db
      then None
      else Some (db\<lparr>DB_message_role_mentions := DB_message_role_mentions db @ [(mid, k)]\<rparr>))"

definition insert_channel_mention :: "snowflake \<Rightarrow> snowflake \<Rightarrow> Database \<Rightarrow> Database option" where
  "insert_channel_mention mid k db =
     (if (mid, k) \<in> set (DB_message_channel_mentions db) \<or> mid \<notin> message_ids db
         \<or> k \<notin> channel_ids db then None
      else Some (db\<lparr>DB_message_channel_mentions := DB_message_channel_mentions db @ [(mid, k)]\<rparr>))"

definition run_write ::
  "Env \<Rightarrow> (Database \<Rightarrow> Database option) \<Rightarrow> Transaction \<Rightarrow> unit go_result \<times> Transaction" where
  "run_write E upd tx = with_code ErrorCodeInternalError (Execute E upd tx)"

definition SetMessageMentions ::
  "Env \<Rightarrow> snowflake \<Rightarrow> snowflake list \<Rightarrow> snowflake list \<Rightarrow> snowflake list \<Rightarrow> Transaction \<Rightarrow>
   unit go_result \<times> Transaction" where
  "SetMessageMentions E mid mentionedUsers mentionedRoles mentionedChannels tx =
     Prepare (MarkAsWrite tx) (\<lambda>tx.
       and_then (run_write E (\<lambda>db. Some (delete_user_mentions mid db)) tx) (\<lambda>_ tx.
       and_then (run_write E (\<lambda>db. Some (delete_role_mentions mid db)) tx) (\<lambda>_ tx.
       and_then (run_write E (\<lambda>db. Some (delete_channel_mentions mid db)) tx) (\<lambda>_ tx.
       and_then (for_each (\<lambda>k. run_write E (insert_user_mention mid k)) mentionedUsers tx) (\<lambda>_ tx.
       and_then (for_each (\<lambda>k. run_write E (insert_role_mention mid k)) mentionedRoles tx) (\<lambda>_ tx.
       for_each (\<lambda>k. run_write E (insert_channel_mention mid k)) mentionedChannels tx))))))"

section \<open>Writing messages\<close>

text \<open>\<^verbatim>\<open>INSERT OR REPLACE\<close>: a row with the same id is deleted first, with what cascades from it.\<close>

definition replace_message :: "MessageRow \<Rightarrow> Database \<Rightarrow> Database option" where
  "replace_message m db =
     (let db' = (if MessageRow_id m \<in> message_ids db then delete_message_row (MessageRow_id m) db
                 else db)
      in if MessageRow_channel_id m \<notin> channel_ids db' \<or> MessageRow_author_id m \<notin> user_ids db' \<or>
            (\<exists>r \<in> set_option (MessageRow_reference_id m).
               r \<notin> message_ids db' \<and> r \<noteq> MessageRow_id m)
         then None else Some (db'\<lparr>DB_messages := DB_messages db' @ [m]\<rparr>))"

definition row_of_message :: "Message \<Rightarrow> MessageRow" where
  "row_of_message m =
     \<lparr>MessageRow_id = Message_ID m, MessageRow_type = Message_Type m,
      MessageRow_channel_id = Message_ChannelID m, MessageRow_timestamp = Message_Timestamp m,
      MessageRow_pinned = False, MessageRow_author_id = Message_AuthorID m,
      MessageRow_reference_id = (if Message_ReferenceID m \<noteq> 0 then Some (Message_ReferenceID m)
         else None),
      MessageRow_content = Message_Content m, MessageRow_edited_timestamp = None\<rparr>"

text \<open>The result of \<^verbatim>\<open>SetMessageMentions\<close> is dropped, but what it wrote stays.\<close>

definition AddMessage :: "Env \<Rightarrow> Message \<Rightarrow> Transaction \<Rightarrow> unit go_result \<times> Transaction" where
  "AddMessage E message tx =
     and_then (GetUser E (Message_AuthorID message) tx) (\<lambda>_ tx.
       Prepare (MarkAsWrite tx) (\<lambda>tx.
         and_then
           (with_code ErrorCodeInternalError
             (Execute E (replace_message (row_of_message message)) tx)) (\<lambda>_ tx.
         and_then
           (if_err (SetMessageMentions E (Message_ID message) (Message_MentionedUsers message)
                (Message_MentionedRoles message) (Message_MentionedChannels message) tx)
              (\<lambda>e tx. (Ok (), tx)) (\<lambda>_ tx. (Ok (), tx))) (\<lambda>_ tx.
         and_then
           (for_each (AddEmbed E (Message_ID message)) (Message_Embeds message) tx) (\<lambda>_ tx.
         for_each (AddAttachment E (Message_ID message)) (Message_Attachments message) tx)))))"

definition set_content :: "snowflake \<Rightarrow> string \<Rightarrow> int \<Rightarrow> Database \<Rightarrow> Database" where
  "set_content mid content now db = db\<lparr>DB_messages :=
     map (\<lambda>m. if MessageRow_id m = mid
          then m\<lparr>MessageRow_content := content, MessageRow_edited_timestamp := Some now\<rparr> else m)
       (DB_messages db)\<rparr>"

definition SetMessageContent ::
  "Env \<Rightarrow> snowflake \<Rightarrow> string \<Rightarrow> Transaction \<Rightarrow> unit go_result \<times> Transaction" where
  "SetMessageContent E mid content tx =
     Prepare (MarkAsWrite tx) (\<lambda>tx.
       let now = Env_now E (Tx_tick tx) in
       run_write E (\<lambda>db. Some (set_content mid content now db)) (next_tick tx))"

definition SetMessage ::
  "Env \<Rightarrow> snowflake \<Rightarrow> string \<Rightarrow> snowflake list \<Rightarrow> snowflake list \<Rightarrow> snowflake list \<Rightarrow>
   snowflake list \<Rightarrow> Transaction \<Rightarrow> unit go_result \<times> Transaction" where
  "SetMessage E mid content mentionedUsers mentionedRoles mentionedChannels deletedEmbeds tx =
     and_then (DeleteEmbeds E deletedEmbeds (MarkAsWrite tx)) (\<lambda>_ tx.
     and_then (SetMessageContent E mid content tx) (\<lambda>_ tx.
     SetMessageMentions E mid mentionedUsers mentionedRoles mentionedChannels tx))"

definition DeleteMessage :: "Env \<Rightarrow> snowflake \<Rightarrow> Transaction \<Rightarrow> unit go_result \<times> Transaction" where
  "DeleteMessage E mid tx =
     Prepare (MarkAsWrite tx) (run_write E (\<lambda>db. Some (delete_message_row mid db)))"

section \<open>Reactions\<close>

definition insert_reaction :: "ReactionRow \<Rightarrow> Database \<Rightarrow> Database option" where
  "insert_reaction r db =
     (if r \<in> set (DB_reactions db) \<or> ReactionRow_message_id r \<notin> message_ids db
         \<or> ReactionRow_user_id r \<notin> user_ids db then None
      else Some (db\<lparr>DB_reactions := DB_reactions db @ [r]\<rparr>))"

definition delete_reaction :: "ReactionRow \<Rightarrow> Database \<Rightarrow> Database" where
  "delete_reaction r db = db\<lparr>DB_reactions := filter (\<lambda>x. x \<noteq> r) (DB_reactions db)\<rparr>"

definition reaction_row :: "snowflake \<Rightarrow> snowflake \<Rightarrow> snowflake \<Rightarrow> ReactionRow" where
  "reaction_row messageID userID emojiID = \<lparr>ReactionRow_emoji_id = emojiID,
     ReactionRow_message_id = messageID, ReactionRow_user_id = userID\<rparr>"

definition when_emoji ::
  "Env \<Rightarrow> snowflake \<Rightarrow> (Transaction \<Rightarrow> 'a go_result \<times> Transaction) \<Rightarrow> Transaction \<Rightarrow>
   'a go_result \<times> Transaction" where
  "when_emoji E emojiID k tx =
     and_then (ValidateEmoji E emojiID tx)
       (\<lambda>valid tx. if \<not> valid then (Err (Coded ErrorCodeInvalidRequest), tx) else k tx)"

definition AddReaction ::
  "Env \<Rightarrow> snowflake \<Rightarrow> snowflake \<Rightarrow> snowflake \<Rightarrow> Transaction \<Rightarrow> unit go_result \<times> Transaction" where
  "AddReaction E messageID userID emojiID tx =
     when_emoji E emojiID (\<lambda>tx. Prepare tx
       (run_write E (insert_reaction (reaction_row messageID userID emojiID)))) (MarkAsWrite tx)"

definition DeleteReaction ::
  "Env \<Rightarrow> snowflake \<Rightarrow> snowflake \<Rightarrow> snowflake \<Rightarrow> Transaction \<Rightarrow> unit go_result \<times> Transaction" where
  "DeleteReaction E messageID userID emojiID tx =
     when_emoji E emojiID (\<lambda>tx. Prepare tx
       (run_write E (\<lambda>db. Some (delete_reaction (reaction_row messageID userID emojiID) db))))
       (MarkAsWrite tx)"

definition reaction_rows :: "snowflake \<Rightarrow> snowflake \<Rightarrow> Database \<Rightarrow> ReactionRow list" where
  "reaction_rows messageID emojiID db =
     filter (\<lambda>r. ReactionRow_message_id r = messageID \<and> ReactionRow_emoji_id r = emojiID)
       (DB_reactions db)"

definition GetReactionCount ::
  "Env \<Rightarrow> snowflake \<Rightarrow> snowflake \<Rightarrow> Transaction \<Rightarrow> int go_result \<times> Transaction" where
  "GetReactionCount E messageID emojiID tx =
     when_emoji E emojiID (\<lambda>tx. Prepare tx (\<lambda>tx.
       and_then
         (with_code ErrorCodeInternalError
           (step_row E [int (length (reaction_rows messageID emojiID (Tx_db tx)))] tx))
         (\<lambda>row tx. case row of None \<Rightarrow> (Ok 0, tx) | Some n \<Rightarrow> (Ok n, tx)))) tx"

definition GetReactionUsers ::
  "Env \<Rightarrow> snowflake \<Rightarrow> snowflake \<Rightarrow> Transaction \<Rightarrow> snowflake list go_result \<times> Transaction" where
  "GetReactionUsers E messageID emojiID tx =
     when_emoji E emojiID (\<lambda>tx. Prepare tx (\<lambda>tx.
       and_then (step_rows_while E (reaction_rows messageID emojiID (Tx_db tx)) tx)
         (\<lambda>rows tx. (Ok (map ReactionRow_user_id rows), tx)))) tx"

section \<open>External media\<close>

definition url_column :: "(string \<times> snowflake) option \<Rightarrow> string" where
  "url_column c = (case c of None \<Rightarrow> [] | Some (url, _) \<Rightarrow> url)"

definition IsURLAllowed ::
  "Env \<Rightarrow> snowflake \<Rightarrow> string \<Rightarrow> Transaction \<Rightarrow> bool go_result \<times> Transaction" where
  "IsURLAllowed E embedID requestedURL tx =
     Prepare tx (\<lambda>tx.
       and_then (step_row E (filter (\<lambda>e. EmbedRow_id e = embedID) (DB_embeds (Tx_db tx))) tx)
         (\<lambda>row tx. case row of
            None \<Rightarrow> (Err ErrFileNotFound, tx)
          | Some e \<Rightarrow> (Ok (url_column (EmbedRow_image e) = requestedURL \<or>
              url_column (EmbedRow_thumbnail e) = requestedURL \<or>
              url_column (EmbedRow_video e) = requestedURL \<or>
              url_column (EmbedRow_author_icon e) = requestedURL \<or>
              url_column (EmbedRow_footer_icon e) = requestedURL), tx)))"

section \<open>Integrity\<close>

lemma store_insert_preview [intro]: "store_update (insert_preview p)"
  by (rule store_updateI)
    (auto simp: insert_preview_def db_ok_def keys_ok_def refs_ok_def split: if_splits)

lemma store_insert_attachment [intro]: "store_update (insert_attachment a)"
  by (rule store_updateI)
    (auto simp: insert_attachment_def db_ok_def keys_ok_def refs_ok_def split: if_splits)

lemma store_insert_embed [intro]: "store_update (insert_embed e)"
  by (rule store_updateI)
    (auto simp: insert_embed_def db_ok_def keys_ok_def refs_ok_def refers_grow split: if_splits)

lemma store_insert_embed_field [intro]: "store_update (insert_embed_field k f)"
  by (rule store_updateI)
    (auto simp: insert_embed_field_def db_ok_def keys_ok_def refs_ok_def split: if_splits)

lemma store_delete_embed [intro]: "store_update (\<lambda>db. Some (delete_embed_row k db))"
  by (rule store_update_Some) (simp_all add: db_ok_delete_embed user_ids_delete_embed_row)

lemma store_delete_message [intro]: "store_update (\<lambda>db. Some (delete_message_row mid db))"
  by (rule store_update_Some) (simp_all add: db_ok_delete_message user_ids_delete_message_row)

lemma store_delete_mentions [intro]:
  "store_update (\<lambda>db. Some (delete_user_mentions mid db))"
  "store_update (\<lambda>db. Some (delete_role_mentions mid db))"
  "store_update (\<lambda>db. Some (delete_channel_mentions mid db))"
  by (rule store_update_Some; simp add: delete_user_mentions_def delete_role_mentions_def
    delete_channel_mentions_def db_ok_def keys_ok_def refs_ok_def refers_filter)+

lemma store_insert_mentions [intro]:
  "store_update (insert_user_mention mid k)"
  "store_update (insert_role_mention mid k)"
  "store_update (insert_channel_mention mid k)"
  by (rule store_updateI; auto simp: insert_user_mention_def insert_role_mention_def
    insert_channel_mention_def db_ok_def keys_ok_def refs_ok_def split: if_splits)+

lemma store_replace_message [intro]: "store_update (replace_message m)"
proof
  fix db db' assume ok: "db_ok db" and upd: "replace_message m db = Some db'"
  define db1 where "db1 = (if MessageRow_id m \<in> message_ids db
    then delete_message_row (MessageRow_id m) db else db)"
  have ok1: "db_ok db1" using ok by (simp add: db1_def db_ok_delete_message)
  have new: "MessageRow_id m \<notin> message_ids db1"
    by (auto simp: db1_def delete_message_row_def)
  from upd have "db' = db1\<lparr>DB_messages := DB_messages db1 @ [m]\<rparr>"
    and "MessageRow_channel_id m \<in> channel_ids db1" and "MessageRow_author_id m \<in> user_ids db1"
    and "\<forall>r \<in> set_option (MessageRow_reference_id m). r \<in> message_ids db1 \<or> r = MessageRow_id m"
    by (auto simp: replace_message_def Let_def db1_def [symmetric] split: if_splits)
  with ok1 new show "db_ok db'"
    by (auto simp: db_ok_def keys_ok_def refs_ok_def refers_grow refers_opt_def)
next
  fix db db' assume "replace_message m db = Some db'"
  then show "user_ids db \<subseteq> user_ids db'"
    by (auto simp: replace_message_def Let_def delete_message_row_def split: if_splits)
qed

lemma refers_opt_update:
  assumes "\<And>x. f (h x) = f x" and "\<And>x. g (h x) = g x"
  shows "refers_opt f (map (\<lambda>x. if P x then h x else x) xs) g (map (\<lambda>x. if P x then h x else x) xs)
    \<longleftrightarrow> refers_opt f xs g xs"
proof -
  have "f (if P x then h x else x) = f x" and "g (if P x then h x else x) = g x" for x
    using assms by simp_all
  then show ?thesis by (simp add: refers_opt_def image_image del: if_image_distrib)
qed

lemma store_set_content [intro]: "store_update (\<lambda>db. Some (set_content mid content now db))"
  by (rule store_update_Some)
    (simp_all add: set_content_def db_ok_def keys_ok_def refs_ok_def map_update_key refers_update_row
      refers_update_key refers_opt_update del: map_map)

lemma store_insert_reaction [intro]: "store_update (insert_reaction r)"
  by (rule store_updateI)
    (auto simp: insert_reaction_def db_ok_def keys_ok_def refs_ok_def split: if_splits)

lemma store_delete_reaction [intro]: "store_update (\<lambda>db. Some (delete_reaction r db))"
  by (rule store_update_Some)
    (simp_all add: delete_reaction_def db_ok_def keys_ok_def refs_ok_def refers_filter)

section \<open>What the operations leave unchanged\<close>

context tx_frame
begin

lemma R_for_each: "(\<And>x s. R s (snd (f x s))) \<Longrightarrow> R tx (snd (for_each f xs tx))"
  by (induction xs arbitrary: tx) (auto intro!: R_and_then)

lemma R_QueryMessages [simp, intro!]: "R tx (snd (QueryMessages E rows tx))"
  unfolding QueryMessages_def by (intro R_seq) auto

lemma R_GetMessagesByAnchor [simp, intro!]:
  "R tx (snd (GetMessagesByAnchor E channelID anchorID limit before tx))"
  unfolding GetMessagesByAnchor_def by (intro R_seq) auto

lemma R_get_messages_loop [simp, intro!]:
  "R tx (snd (get_messages_loop E required messages ids tx))"
  by (induction ids arbitrary: messages tx) (auto intro!: R_and_then split: list.split)

lemma R_GetMessages [simp, intro!]: "R tx (snd (GetMessages E ids required tx))"
  unfolding GetMessages_def by (intro R_seq) auto

lemma R_GetMessage [simp, intro!]: "R tx (snd (GetMessage E mid tx))"
  unfolding GetMessage_def by (intro R_seq) (auto split: list.split)

lemma R_GetAttachment [simp, intro!]:
  "R tx (snd (GetAttachment E messageID attachmentID filename tx))"
  unfolding GetAttachment_def by (intro R_seq) (auto split: option.split)

lemma R_when_emoji: "(\<And>s. R s (snd (k s))) \<Longrightarrow> R tx (snd (when_emoji E e k tx))"
  unfolding when_emoji_def by (intro R_seq) auto

lemma R_GetReactionCount [simp, intro!]: "R tx (snd (GetReactionCount E messageID emojiID tx))"
  unfolding GetReactionCount_def by (intro R_when_emoji R_seq) (auto split: option.split)

lemma R_GetReactionUsers [simp, intro!]: "R tx (snd (GetReactionUsers E messageID emojiID tx))"
  unfolding GetReactionUsers_def by (intro R_when_emoji R_seq) auto

lemma R_IsURLAllowed [simp, intro!]: "R tx (snd (IsURLAllowed E embedID requestedURL tx))"
  unfolding IsURLAllowed_def by (intro R_seq) (auto split: option.split)

end

context tx_write_frame
begin

lemma R_run_write: "store_update upd \<Longrightarrow> R tx (snd (run_write E upd tx))"
  by (simp add: run_write_def R_Execute)

lemma R_AddPreviews [simp, intro!]: "R tx (snd (AddPreviews E key width height preload tx))"
  unfolding AddPreviews_def by (intro R_write) (auto intro: R_Execute)

lemma R_AddAttachment [simp, intro!]: "R tx (snd (AddAttachment E messageID attachment tx))"
  unfolding AddAttachment_def
  by (intro R_write R_and_then) (auto intro: R_Execute)

lemma R_add_embed_preview [simp, intro!]: "R tx (snd (add_embed_preview E media tx))"
  by (simp add: add_embed_preview_def split: option.split)

lemma R_add_embed_field [simp, intro!]: "R tx (snd (add_embed_field E embedID f tx))"
  unfolding add_embed_field_def by (intro R_seq) (auto intro: R_Execute)

lemma R_AddEmbed [simp, intro!]: "R tx (snd (AddEmbed E messageID emb tx))"
proof -
  have body: "R tx (snd (Prepare (if c then next_tick tx else tx) k))"
    if "\<And>s. R s (snd (k s))" for c tx and k :: "Transaction \<Rightarrow> unit go_result \<times> Transaction"
    using that by (auto intro: R_from_tick R_Prepare)
  show ?thesis
    unfolding AddEmbed_def Let_def
    by (rule R_from_mark, rule body, intro R_and_then) (auto intro: R_Execute R_for_each)
qed

lemma R_DeleteEmbeds [simp, intro!]: "R tx (snd (DeleteEmbeds E embedIDs tx))"
  unfolding DeleteEmbeds_def by (intro R_write R_for_each) (auto intro: R_Execute)

lemma R_SetMessageMentions [simp, intro!]: "R tx (snd (SetMessageMentions E mid us rs cs tx))"
  unfolding SetMessageMentions_def
  by (intro R_write R_and_then R_for_each R_run_write) auto

lemma R_AddMessage [simp, intro!]: "R tx (snd (AddMessage E message tx))"
  unfolding AddMessage_def
  by (intro R_and_then R_write R_if_err R_for_each) (auto intro: R_Execute)

lemma R_SetMessageContent [simp, intro!]: "R tx (snd (SetMessageContent E mid content tx))"
  unfolding SetMessageContent_def Let_def
  by (intro R_write) (auto intro: R_from_tick R_run_write)

lemma R_SetMessage [simp, intro!]: "R tx (snd (SetMessage E mid content us rs cs es tx))"
  unfolding SetMessage_def by (intro R_and_then) (auto intro: R_from_mark)

lemma R_DeleteMessage [simp, intro!]: "R tx (snd (DeleteMessage E mid tx))"
  unfolding DeleteMessage_def by (intro R_write R_run_write) auto

lemma R_AddReaction [simp, intro!]: "R tx (snd (AddReaction E messageID userID emojiID tx))"
  unfolding AddReaction_def
  by (rule R_from_mark, intro R_when_emoji R_Prepare R_run_write) auto

lemma R_DeleteReaction [simp, intro!]: "R tx (snd (DeleteReaction E messageID userID emojiID tx))"
  unfolding DeleteReaction_def
  by (rule R_from_mark, intro R_when_emoji R_Prepare R_run_write) auto

end

end
