(* ===== verification/Permissions.thy ===== *)
theory Permissions
  imports Messages_Store
begin

text \<open>
  Effective permissions: \<^verbatim>\<open>GetPermissionsByUser\<close>, \<^verbatim>\<open>GetPermissionsByMessage\<close> and
  \<^verbatim>\<open>GetPermissionsByChannel\<close> of storage/transactions.go. The loop over a channel's overwrites
  and the final masking are the same text in chat/index.go, so they are definitions of their
  own here, characterised bit by bit in the second section.
\<close>

section \<open>Overwrites\<close>

definition overwrite_applies :: "snowflake \<Rightarrow> snowflake list \<Rightarrow> Overwrite \<Rightarrow> bool" where
  "overwrite_applies uid roles ow =
     (case Overwrite_Type ow of
        OverwriteTypeRole \<Rightarrow> Overwrite_ID ow \<in> set roles
      | OverwriteTypeUser \<Rightarrow> Overwrite_ID ow = uid)"

fun apply_overwrites ::
  "snowflake \<Rightarrow> snowflake list \<Rightarrow> Overwrite list \<Rightarrow> perms \<times> perms \<Rightarrow> perms \<times> perms" where
  "apply_overwrites uid roles [] acc = acc"
| "apply_overwrites uid roles (ow # ows) (allow, deny) =
     apply_overwrites uid roles ows
       (if overwrite_applies uid roles ow
        then (allow OR Overwrite_Allow ow, deny OR Overwrite_Deny ow) else (allow, deny))"

text \<open>\<^verbatim>\<open>permissions := allow & (^deny)\<close> and the test of the administrator bit.\<close>

definition mask_permissions :: "perms \<times> perms \<Rightarrow> perms" where
  "mask_permissions acc = (case acc of (allow, deny) \<Rightarrow>
     let permissions = allow AND NOT deny in
     if has_perm permissions PermissionAdministrator then PermissionAll else permissions)"

section \<open>The functions of the transaction\<close>

fun add_role_permissions ::
  "Env \<Rightarrow> snowflake list \<Rightarrow> perms \<Rightarrow> Transaction \<Rightarrow> perms go_result \<times> Transaction" where
  "add_role_permissions E [] allow tx = (Ok allow, tx)"
| "add_role_permissions E (rid # rids) allow tx =
     if_err (GetRole E rid tx)
       (\<lambda>e tx. add_role_permissions E rids allow tx)
       (\<lambda>role tx. add_role_permissions E rids (allow OR Role_Permissions role) tx)"

text \<open>The user is a pointer: \<^verbatim>\<open>nil\<close> when the settings cannot be read, the zero user when the
  user cannot.\<close>

definition GetPermissionsByUser ::
  "Env \<Rightarrow> snowflake \<Rightarrow> Transaction \<Rightarrow> (perms \<times> User option) go_result \<times> Transaction" where
  "GetPermissionsByUser E userID tx =
     if_err (GetSettings E tx) (\<lambda>e tx. (Ok (0, None), tx)) (\<lambda>settings tx.
     if_err (GetUser E userID tx) (\<lambda>e tx. (Ok (0, Some User_zero), tx)) (\<lambda>user tx.
     and_then (add_role_permissions E (User_Roles user) (Settings_DefaultPermissions settings) tx)
       (\<lambda>allow tx.
         (Ok (if has_perm allow PermissionAdministrator then PermissionAll else allow, Some user),
          tx))))"

definition GetPermissionsByChannel ::
  "Env \<Rightarrow> snowflake \<Rightarrow> snowflake \<Rightarrow> Transaction \<Rightarrow> perms go_result \<times> Transaction" where
  "GetPermissionsByChannel E userID channelID tx =
     and_then (GetPermissionsByUser E userID tx) (\<lambda>(allow, user) tx.
       if channelID \<noteq> 0 then
         if_err (GetChannel E channelID tx)
           (\<lambda>e tx. (Ok (mask_permissions (allow, 0)), tx))
           (\<lambda>channel tx. case user of
              None \<Rightarrow> if Channel_Overwrites channel = []
                then (Ok (mask_permissions (allow, 0)), tx) else (Panic, tx)
            | Some u \<Rightarrow> (Ok (mask_permissions (apply_overwrites (User_ID u) (User_Roles u)
                (Channel_Overwrites channel) (allow, 0))), tx))
       else (Ok (mask_permissions (allow, 0)), tx))"

definition GetPermissionsByMessage ::
  "Env \<Rightarrow> snowflake \<Rightarrow> snowflake \<Rightarrow> Transaction \<Rightarrow> perms go_result \<times> Transaction" where
  "GetPermissionsByMessage E userID messageID tx =
     if_err (GetChannelByMessage E messageID tx) (\<lambda>e tx. (Ok 0, tx))
       (\<lambda>channelID tx. GetPermissionsByChannel E userID channelID tx)"

context tx_frame
begin

lemma R_add_role_permissions [simp, intro!]: "R tx (snd (add_role_permissions E rids allow tx))"
  by (induction rids arbitrary: allow tx) (auto intro!: R_if_err)

lemma R_GetPermissionsByUser [simp, intro!]: "R tx (snd (GetPermissionsByUser E userID tx))"
  unfolding GetPermissionsByUser_def by (intro R_seq) auto

lemma R_GetPermissionsByChannel [simp, intro!]:
  "R tx (snd (GetPermissionsByChannel E userID channelID tx))"
  unfolding GetPermissionsByChannel_def
  by (intro R_seq) (auto intro!: R_if_err split: option.split)

lemma R_GetPermissionsByMessage [simp, intro!]:
  "R tx (snd (GetPermissionsByMessage E userID messageID tx))"
  unfolding GetPermissionsByMessage_def by (intro R_seq) auto

end

section \<open>Bit by bit\<close>

lemma bit_apply_overwrites:
  "bit (fst (apply_overwrites uid roles ows (allow, deny))) n \<longleftrightarrow>
     bit allow n \<or> (\<exists>ow \<in> set ows. overwrite_applies uid roles ow \<and> bit (Overwrite_Allow ow) n)"
  "bit (snd (apply_overwrites uid roles ows (allow, deny))) n \<longleftrightarrow>
     bit deny n \<or> (\<exists>ow \<in> set ows. overwrite_applies uid roles ow \<and> bit (Overwrite_Deny ow) n)"
  by (induction ows arbitrary: allow deny) (auto simp: bit_or_iff)

lemma bit_mask_permissions:
  assumes "n < 64"
  shows "bit (mask_permissions (allow, deny)) n \<longleftrightarrow>
    (if bit allow 0 \<and> \<not> bit deny 0 then n < 31 else bit allow n \<and> \<not> bit deny n)"
proof -
  have all: "bit PermissionAll n \<longleftrightarrow> n < 31"
  proof -
    have "PermissionAll = mask 31" by (simp add: PermissionAll_def mask_eq_exp_minus_1)
    moreover have "bit (mask 31 :: perms) n \<longleftrightarrow> n < 31"
      using assms unfolding bit_mask_iff by simp
    ultimately show ?thesis by (simp only:)
  qed
  show ?thesis
    using assms
    by (simp add: mask_permissions_def Let_def PermissionAdministrator_def has_perm_bit all
      bit_and_iff bit_not_iff)
qed

text \<open>What the permissions in a channel are meant to be: the administrator, by the base
  permissions or by an overwrite and not denied, has all of them; everybody else has what the
  base permissions or an overwrite allow and no overwrite denies.\<close>

definition allowed_bit :: "perms \<Rightarrow> snowflake \<Rightarrow> snowflake list \<Rightarrow> Overwrite list \<Rightarrow> nat \<Rightarrow> bool" where
  "allowed_bit base uid roles ows n \<longleftrightarrow>
     (bit base n \<or> (\<exists>ow \<in> set ows. overwrite_applies uid roles ow \<and> bit (Overwrite_Allow ow) n)) \<and>
     \<not> (\<exists>ow \<in> set ows. overwrite_applies uid roles ow \<and> bit (Overwrite_Deny ow) n)"

lemma bit_channel_permissions:
  assumes "n < 64"
  shows "bit (mask_permissions (apply_overwrites uid roles ows (base, 0))) n \<longleftrightarrow>
    (if allowed_bit base uid roles ows 0 then n < 31 else allowed_bit base uid roles ows n)"
proof -
  obtain allow deny where acc: "apply_overwrites uid roles ows (base, 0) = (allow, deny)"
    by fastforce
  have "bit allow k \<longleftrightarrow> bit base k \<or>
      (\<exists>ow \<in> set ows. overwrite_applies uid roles ow \<and> bit (Overwrite_Allow ow) k)"
    and "bit deny k \<longleftrightarrow> (\<exists>ow \<in> set ows. overwrite_applies uid roles ow \<and> bit (Overwrite_Deny ow) k)"
    for k
    using bit_apply_overwrites [of uid roles ows base 0 k] by (simp_all add: acc)
  then show ?thesis
    by (simp only: acc bit_mask_permissions [OF assms] allowed_bit_def)
qed

lemma bit_fold_or:
  "bit (fold (\<lambda>x a. a OR f x) xs (a :: perms)) n \<longleftrightarrow> bit a n \<or> (\<exists>x \<in> set xs. bit (f x) n)"
  by (induction xs arbitrary: a) (auto simp: bit_or_iff)

end
