(* ===== verification/Accounts.thy ===== *)
theory Accounts
  imports Permissions
begin

text \<open>
  What the reading operations of the store return when the engine does not fail: users with
  their roles, channels with their overwrites, roles, and the permissions computed from them;
  and what login, registration and authentication guarantee.
\<close>

section \<open>Statements that do not fail\<close>

lemma step_fails_reliable [simp]: "reliable E \<Longrightarrow> \<not> step_fails E tx n"
  by (simp add: step_fails_def)

lemma step_rows_reliable [simp]: "reliable E \<Longrightarrow> step_rows E rows tx = (Ok rows, next_tick tx)"
  by (simp add: step_rows_def)

lemma step_rows_while_reliable [simp]:
  "reliable E \<Longrightarrow> step_rows_while E rows tx = (Ok rows, next_tick tx)"
  by (simp add: step_rows_while_def)

lemma step_row_reliable [simp]:
  "reliable E \<Longrightarrow>
     step_row E rows tx = (Ok (case rows of [] \<Rightarrow> None | r # _ \<Rightarrow> Some r), next_tick tx)"
  by (simp add: step_row_def)

lemma Execute_reliable [simp]:
  "reliable E \<Longrightarrow> Execute E upd tx =
     (case upd (Tx_db tx) of None \<Rightarrow> (Err Uncoded, next_tick tx)
      | Some db \<Rightarrow> (Ok (), (next_tick tx)\<lparr>Tx_db := db\<rparr>))"
  by (simp add: Execute_def)

text \<open>A transaction in which statements may run: none is marked as a write outside one.\<close>

definition tx_open :: "Transaction \<Rightarrow> bool" where
  "tx_open tx \<longleftrightarrow> Tx_commit tx \<noteq> None \<or> \<not> Tx_isWrite tx"

lemma tx_open_next [simp]: "tx_open (next_tick tx) = tx_open tx"
  by (simp add: tx_open_def)

lemma Prepare_open [simp]: "tx_open tx \<Longrightarrow> Prepare tx k = k tx"
  by (auto simp: Prepare_def tx_open_def)

section \<open>Users\<close>

definition roles_of_user :: "Database \<Rightarrow> snowflake \<Rightarrow> snowflake list" where
  "roles_of_user db uid = map snd (filter (\<lambda>p. fst p = uid) (DB_user_roles db))"

definition user_view :: "Database \<Rightarrow> UserRow \<Rightarrow> User" where
  "user_view db u = (user_of_row (u, None))\<lparr>User_Roles := roles_of_user db (UserRow_id u)\<rparr>"

lemma User_ID_user_of_row [simp]: "User_ID (user_of_row (u, r)) = UserRow_id u"
  by (simp add: user_of_row_def)

lemma User_ID_user_view [simp]: "User_ID (user_view db u) = UserRow_id u"
  by (simp add: user_view_def)

lemma group_users_block:
  assumes "User_ID cur = UserRow_id u"
  shows "group_users users (Some cur) (map (\<lambda>p. (u, Some (snd p))) ps @ rest) =
    group_users users (Some (cur\<lparr>User_Roles := User_Roles cur @ map snd ps\<rparr>)) rest"
  using assms
  by (induction ps arbitrary: cur) (simp_all add: user_of_row_def)

lemma group_users_first:
  assumes "current = None \<or> (\<exists>cur. current = Some cur \<and> User_ID cur \<noteq> UserRow_id u)"
  shows "group_users users current (user_join_row db u @ rest) =
    group_users (users @ (case current of None \<Rightarrow> [] | Some cur \<Rightarrow> [cur]))
      (Some (user_view db u)) rest"
proof (cases "filter (\<lambda>p. fst p = UserRow_id u) (DB_user_roles db)")
  case Nil
  with assms show ?thesis
    by (auto simp: user_join_row_def user_view_def roles_of_user_def user_of_row_def)
next
  case (Cons p ps)
  have view: "user_view db u = (user_of_row (u, Some (snd p)))\<lparr>User_Roles := snd p # map snd ps\<rparr>"
    by (simp add: user_view_def roles_of_user_def Cons user_of_row_def)
  from Cons have "user_join_row db u =
      (u, Some (snd p)) # map (\<lambda>p. (u, Some (snd p))) ps"
    by (simp add: user_join_row_def)
  with assms show ?thesis
    by (auto simp: group_users_block view) (simp_all add: user_of_row_def)
qed

lemma group_users_rows:
  assumes "distinct (map UserRow_id us)"
    and "\<And>cur. current = Some cur \<Longrightarrow> User_ID cur \<notin> UserRow_id ` set us"
  shows "group_users users current (concat (map (user_join_row db) us)) =
    users @ (case current of None \<Rightarrow> [] | Some cur \<Rightarrow> [cur]) @ map (user_view db) us"
  using assms
proof (induction us arbitrary: users current)
  case Nil
  then show ?case by (cases current) simp_all
next
  case (Cons u us)
  have "group_users users current (concat (map (user_join_row db) (u # us))) =
      group_users (users @ (case current of None \<Rightarrow> [] | Some cur \<Rightarrow> [cur]))
        (Some (user_view db u)) (concat (map (user_join_row db) us))"
    using Cons.prems(2) by (cases current) (simp_all add: group_users_first)
  moreover have "group_users (users @ (case current of None \<Rightarrow> [] | Some cur \<Rightarrow> [cur]))
        (Some (user_view db u)) (concat (map (user_join_row db) us)) =
      (users @ (case current of None \<Rightarrow> [] | Some cur \<Rightarrow> [cur])) @ [user_view db u] @
        map (user_view db) us"
    using Cons.prems(1) by (subst Cons.IH) auto
  ultimately show ?case by simp
qed

text \<open>What \<^verbatim>\<open>WHERE id = $id ORDER BY id\<close>, with the condition left out for the id 0, selects.\<close>

lemma mset_map_sort_key: "mset (map f (sort_key g xs)) = mset (map f xs)"
  by simp

lemma distinct_map_sort_key [simp]: "distinct (map f (sort_key g xs)) = distinct (map f xs)"
  by (metis mset_map_sort_key mset_eq_imp_distinct_iff)

lemma select_by_key:
  assumes "distinct (map f xs)" and "key \<noteq> 0"
  shows "sort_key f (filter (\<lambda>x. key \<noteq> 0 \<longrightarrow> f x = key) xs) =
    (case List.find (\<lambda>x. f x = key) xs of None \<Rightarrow> [] | Some x \<Rightarrow> [x])"
proof (cases "List.find (\<lambda>x. f x = key) xs")
  case None
  then have "filter (\<lambda>x. f x = key) xs = []" by (simp add: find_None_iff_filter)
  with None assms(2) show ?thesis by simp
next
  case (Some x)
  then have x: "x \<in> set xs" and "f x = key" by (auto dest: find_SomeD)
  then have "filter (\<lambda>y. f y = key) xs = [x]"
    using filter_unique_key [OF assms(1) x] by simp
  with assms(2) Some show ?thesis by simp
qed

lemma find_key_iff:
  assumes "distinct (map f xs)"
  shows "List.find (\<lambda>x. f x = key) xs = Some x \<longleftrightarrow> x \<in> set xs \<and> f x = key"
proof
  assume "List.find (\<lambda>x. f x = key) xs = Some x"
  then show "x \<in> set xs \<and> f x = key" by (rule find_SomeD)
next
  assume x: "x \<in> set xs \<and> f x = key"
  then have "filter (\<lambda>y. f y = key) xs = [x]"
    using filter_unique_key [OF assms, of x] by auto
  then show "List.find (\<lambda>x. f x = key) xs = Some x"
    by (auto simp: find_Some_hd_filter)
qed

lemma find_key_None: "List.find (\<lambda>x. f x = key) xs = None \<longleftrightarrow> key \<notin> f ` set xs"
  by (auto simp: find_None_iff)

lemma QueryUsers_result:
  assumes "reliable E" and "tx_open tx" and "keys_ok (Tx_db tx)"
  shows "QueryUsers E key tx =
    (Ok (map (user_view (Tx_db tx)) (select_users key (Tx_db tx))), next_tick tx)"
proof -
  have "distinct (map UserRow_id (select_users key (Tx_db tx)))"
    using assms(3) unfolding select_users_def keys_ok_def by (simp add: distinct_map_filter)
  from group_users_rows [OF this, of None "[]"] show ?thesis
    using assms by (simp add: QueryUsers_def user_rows_def)
qed

definition user_row :: "Database \<Rightarrow> snowflake \<Rightarrow> UserRow option" where
  "user_row db uid = List.find (\<lambda>u. UserRow_id u = uid) (DB_users db)"

lemma GetUser_result:
  assumes "reliable E" and "tx_open tx" and "keys_ok (Tx_db tx)" and "key \<noteq> 0"
  shows "GetUser E key tx =
    (case user_row (Tx_db tx) key of
       None \<Rightarrow> (Err (Coded ErrorCodeInvalidRequest), next_tick tx)
     | Some u \<Rightarrow> (Ok (user_view (Tx_db tx) u), next_tick tx))"
proof -
  have "select_users key (Tx_db tx) =
      (case user_row (Tx_db tx) key of None \<Rightarrow> [] | Some x \<Rightarrow> [x])"
    using assms(3,4) unfolding select_users_def user_row_def
    by (intro select_by_key) (simp_all add: keys_ok_def)
  then show ?thesis
    using assms by (simp add: GetUser_def QueryUsers_result split: option.split)
qed

section \<open>Channels\<close>

fun block_overwrites ::
  "snowflake set \<Rightarrow> (OverwriteRow option \<times> OverwriteRow option) list \<Rightarrow>
   Overwrite list \<times> snowflake set" where
  "block_overwrites seen [] = ([], seen)"
| "block_overwrites seen ((crp, cup) # rows) =
     (let (ows, seen) = add_overwrite OverwriteTypeUser cup
            (add_overwrite OverwriteTypeRole crp ([], seen));
          (ows', seen) = block_overwrites seen rows
      in (ows @ ows', seen))"

definition candidates :: "(OverwriteRow option \<times> OverwriteRow option) list \<Rightarrow> Overwrite set" where
  "candidates rows =
     {overwrite_of OverwriteTypeRole p | p. \<exists>cup. (Some p, cup) \<in> set rows} \<union>
     {overwrite_of OverwriteTypeUser p | p. \<exists>crp. (crp, Some p) \<in> set rows}"

lemma candidates_Nil [simp]: "candidates [] = {}"
  by (simp add: candidates_def)

lemma candidates_Cons [simp]:
  "candidates ((crp, cup) # rows) =
     overwrite_of OverwriteTypeRole ` set_option crp \<union> overwrite_of OverwriteTypeUser ` set_option cup
     \<union> candidates rows"
  by (auto simp: candidates_def)

lemma add_overwrite_set:
  assumes "inj_on Overwrite_ID (C \<union> overwrite_of ty ` set_option p)"
    and "set ows = {c \<in> C. Overwrite_ID c \<notin> seen0}" and "seen = seen0 \<union> Overwrite_ID ` C"
    and "add_overwrite ty p (ows, seen) = (ows', seen')"
  shows "set ows' = {c \<in> C \<union> overwrite_of ty ` set_option p. Overwrite_ID c \<notin> seen0}"
    and "seen' = seen0 \<union> Overwrite_ID ` (C \<union> overwrite_of ty ` set_option p)"
  using assms
  by (cases p; auto simp: add_overwrite_def Let_def inj_on_def split: if_splits)+

lemma block_overwrites_seen:
  "snd (block_overwrites seen rows) = seen \<union> Overwrite_ID ` candidates rows"
  by (induction seen rows rule: block_overwrites.induct)
    (auto simp: add_overwrite_def Let_def split: prod.splits option.splits if_splits)

lemma split_by_id:
  "inj_on f (X \<union> Y) \<Longrightarrow>
     {c \<in> X. f c \<notin> S} \<union> {c \<in> Y. f c \<notin> S \<union> f ` X} = {c \<in> X \<union> Y. f c \<notin> S}"
  by (auto simp: inj_on_def)

text \<open>With different ids for different overwrites, none is lost.\<close>

lemma block_overwrites_set:
  assumes "inj_on Overwrite_ID (candidates rows)"
  shows "set (fst (block_overwrites seen rows)) = {c \<in> candidates rows. Overwrite_ID c \<notin> seen}"
  using assms
proof (induction seen rows rule: block_overwrites.induct)
  case (1 seen)
  then show ?case by simp
next
  case (2 seen crp cup rows)
  let ?A = "overwrite_of OverwriteTypeRole ` set_option crp"
  let ?B = "overwrite_of OverwriteTypeUser ` set_option cup"
  obtain ows1 seen1 where a1: "add_overwrite OverwriteTypeRole crp ([], seen) = (ows1, seen1)"
    by fastforce
  obtain ows2 seen2 where a2: "add_overwrite OverwriteTypeUser cup (ows1, seen1) = (ows2, seen2)"
    by fastforce
  have inj: "inj_on Overwrite_ID (?A \<union> ?B \<union> candidates rows)"
    using 2(2) by simp
  have injA: "inj_on Overwrite_ID ?A" and injAB: "inj_on Overwrite_ID (?A \<union> ?B)"
    using inj by (auto intro: inj_on_subset)
  have s1: "set ows1 = {c \<in> ?A. Overwrite_ID c \<notin> seen}" and seen1: "seen1 = seen \<union> Overwrite_ID ` ?A"
    using add_overwrite_set [of "{}", OF _ _ _ a1, where ?seen0.0 = seen] injA by simp_all
  have s2: "set ows2 = {c \<in> ?A \<union> ?B. Overwrite_ID c \<notin> seen}"
    and seen2: "seen2 = seen \<union> Overwrite_ID ` (?A \<union> ?B)"
    using add_overwrite_set [OF injAB s1 seen1 a2] by simp_all
  have "set (fst (block_overwrites seen2 rows)) = {c \<in> candidates rows. Overwrite_ID c \<notin> seen2}"
    using 2(1) [OF refl, of ows2 seen2] a1 a2 inj by (auto intro: inj_on_subset)
  moreover have "fst (block_overwrites seen ((crp, cup) # rows)) = ows2 @ fst (block_overwrites seen2 rows)"
    by (simp add: a1 a2 split: prod.split)
  moreover have "candidates ((crp, cup) # rows) = (?A \<union> ?B) \<union> candidates rows" by simp
  ultimately show ?case
    by (simp only: set_append s2 seen2 split_by_id [OF inj])
qed

definition overwrite_pairs ::
  "Database \<Rightarrow> ChannelRow \<Rightarrow> (OverwriteRow option \<times> OverwriteRow option) list" where
  "overwrite_pairs db c =
     (let of_channel = filter (\<lambda>p. OverwriteRow_channel_id p = ChannelRow_id c)
      in concat (map (\<lambda>crp. map (Pair crp) (left_join (of_channel (DB_channel_user_permissions db))))
           (left_join (of_channel (DB_channel_role_permissions db)))))"

lemma channel_join_row_pairs:
  "channel_join_row db c = map (Pair c) (overwrite_pairs db c)"
  by (simp add: channel_join_row_def overwrite_pairs_def Let_def map_concat comp_def)

lemma overwrite_pairs_not_Nil: "overwrite_pairs db c \<noteq> []"
  by (auto simp: overwrite_pairs_def left_join_def Let_def split: list.split)

definition channel_view :: "Database \<Rightarrow> ChannelRow \<Rightarrow> Channel" where
  "channel_view db c = channel_of_row c (fst (block_overwrites {} (overwrite_pairs db c)))"

lemma Channel_ID_view [simp]:
  "Channel_ID (channel_of_row c ows) = ChannelRow_id c" "Channel_ID (channel_view db c) = ChannelRow_id c"
  by (simp_all add: channel_of_row_def channel_view_def)

lemma group_channels_block:
  assumes "Channel_ID cur = ChannelRow_id c"
  shows "group_channels channels (Some cur) perms (map (Pair c) rows @ rest) =
    (case block_overwrites (perms (ChannelRow_id c)) rows of (ows, seen) \<Rightarrow>
       group_channels channels (Some (cur\<lparr>Channel_Overwrites := Channel_Overwrites cur @ ows\<rparr>))
         (perms(ChannelRow_id c := seen)) rest)"
  using assms
proof (induction rows arbitrary: cur perms)
  case Nil
  have "(\<lambda>a. if a = ChannelRow_id c then perms (ChannelRow_id c) else perms a) = perms"
    by (rule ext) simp
  with Nil show ?case by simp
next
  case (Cons row rows)
  then show ?case
    by (cases row)
      (auto simp: Let_def channel_of_row_def fun_upd_def cong: if_cong split: prod.splits)
qed

lemma group_channels_first:
  assumes "current = None \<or> (\<exists>cur. current = Some cur \<and> Channel_ID cur \<noteq> ChannelRow_id c)"
    and "perms (ChannelRow_id c) = {}"
  shows "\<exists>seen. group_channels channels current perms (channel_join_row db c @ rest) =
    group_channels (channels @ (case current of None \<Rightarrow> [] | Some cur \<Rightarrow> [cur]))
      (Some (channel_view db c)) (perms(ChannelRow_id c := seen)) rest"
proof (cases "overwrite_pairs db c")
  case Nil
  then show ?thesis by (simp add: overwrite_pairs_not_Nil)
next
  case (Cons row rows)
  obtain crp cup where row: "row = (crp, cup)" by fastforce
  show ?thesis
    using assms
    by (auto simp: channel_join_row_pairs Cons row Let_def group_channels_block channel_view_def
        channel_of_row_def split: prod.splits)
qed

lemma group_channels_rows:
  assumes "distinct (map ChannelRow_id cs)" and "\<forall>c \<in> set cs. perms (ChannelRow_id c) = {}"
    and "\<And>cur. current = Some cur \<Longrightarrow> Channel_ID cur \<notin> ChannelRow_id ` set cs"
  shows "group_channels channels current perms (concat (map (channel_join_row db) cs)) =
    channels @ (case current of None \<Rightarrow> [] | Some cur \<Rightarrow> [cur]) @ map (channel_view db) cs"
  using assms
proof (induction cs arbitrary: channels current perms)
  case Nil
  then show ?case by (cases current) simp_all
next
  case (Cons c cs)
  have "current = None \<or> (\<exists>cur. current = Some cur \<and> Channel_ID cur \<noteq> ChannelRow_id c)"
    using Cons.prems(3) by (cases current) auto
  from group_channels_first [OF this, of perms channels db "concat (map (channel_join_row db) cs)"]
  obtain seen where first: "group_channels channels current perms
      (channel_join_row db c @ concat (map (channel_join_row db) cs)) =
    group_channels (channels @ (case current of None \<Rightarrow> [] | Some cur \<Rightarrow> [cur]))
      (Some (channel_view db c)) (perms(ChannelRow_id c := seen))
      (concat (map (channel_join_row db) cs))"
    using Cons.prems(2) by auto
  have "group_channels (channels @ (case current of None \<Rightarrow> [] | Some cur \<Rightarrow> [cur]))
      (Some (channel_view db c)) (perms(ChannelRow_id c := seen))
      (concat (map (channel_join_row db) cs)) =
    (channels @ (case current of None \<Rightarrow> [] | Some cur \<Rightarrow> [cur])) @ [channel_view db c] @
      map (channel_view db) cs"
    using Cons.prems(1,2) by (subst Cons.IH) (auto simp: image_iff)
  with first show ?case by simp
qed

lemma QueryChannels_result:
  assumes "reliable E" and "tx_open tx" and "keys_ok (Tx_db tx)"
  shows "QueryChannels E key tx =
    (Ok (map (channel_view (Tx_db tx)) (select_channels key (Tx_db tx))), next_tick tx)"
proof -
  have "distinct (map ChannelRow_id (select_channels key (Tx_db tx)))"
    using assms(3) unfolding select_channels_def keys_ok_def by (simp add: distinct_map_filter)
  from group_channels_rows [OF this, of "\<lambda>_. {}" None "[]"] show ?thesis
    using assms by (simp add: QueryChannels_def channel_rows_def)
qed

definition channel_row :: "Database \<Rightarrow> snowflake \<Rightarrow> ChannelRow option" where
  "channel_row db cid = List.find (\<lambda>c. ChannelRow_id c = cid) (DB_channels db)"

lemma GetChannel_result:
  assumes "reliable E" and "tx_open tx" and "keys_ok (Tx_db tx)" and "key \<noteq> 0"
  shows "GetChannel E key tx =
    (case channel_row (Tx_db tx) key of
       None \<Rightarrow> (Err (Coded ErrorCodeInvalidRequest), next_tick tx)
     | Some c \<Rightarrow> (Ok (channel_view (Tx_db tx) c), next_tick tx))"
proof -
  have "select_channels key (Tx_db tx) =
      (case channel_row (Tx_db tx) key of None \<Rightarrow> [] | Some x \<Rightarrow> [x])"
    using assms(3,4) unfolding select_channels_def channel_row_def
    by (intro select_by_key) (simp_all add: keys_ok_def)
  then show ?thesis
    using assms by (simp add: GetChannel_def QueryChannels_result split: option.split)
qed

section \<open>Roles\<close>

definition role_row :: "Database \<Rightarrow> snowflake \<Rightarrow> Role option" where
  "role_row db rid = List.find (\<lambda>r. Role_ID r = rid) (DB_roles db)"

lemma GetRole_result:
  assumes "reliable E" and "tx_open tx" and "keys_ok (Tx_db tx)" and "key \<noteq> 0"
  shows "GetRole E key tx =
    (case role_row (Tx_db tx) key of
       None \<Rightarrow> (Err (Coded ErrorCodeInvalidRequest), next_tick tx)
     | Some r \<Rightarrow> (Ok r, next_tick tx))"
proof -
  have "role_rows key (Tx_db tx) =
      (case role_row (Tx_db tx) key of None \<Rightarrow> [] | Some x \<Rightarrow> [x])"
    using assms(3,4) unfolding role_rows_def role_row_def
    by (intro select_by_key) (simp_all add: keys_ok_def)
  then show ?thesis
    using assms by (simp add: GetRole_def QueryRoles_def split: option.split)
qed

end
