(* ===== verification/GoMaps.thy ===== *)
theory GoMaps
  imports Prelude "HOL-Library.AList"
begin

text \<open>
  A Go \<^verbatim>\<open>map\<close> keyed by snowflakes, session names or other keys: an association list with
  distinct keys. A \<^verbatim>\<open>range\<close> over a map visits the keys in an order of the runtime's choosing: a
  function \<open>visit\<close> that permutes the list of keys. The locale \<open>keyed_store\<close> is what the
  components that keep such a map rely on.
\<close>

type_synonym ('k, 'v) gomap = "('k \<times> 'v) list"

abbreviation get :: "('k, 'v) gomap \<Rightarrow> 'k \<Rightarrow> 'v option" where
  "get m \<equiv> map_of m"

definition put :: "'k \<Rightarrow> 'v \<Rightarrow> ('k, 'v) gomap \<Rightarrow> ('k, 'v) gomap" where
  "put k v m = AList.update k v m"

definition del :: "'k \<Rightarrow> ('k, 'v) gomap \<Rightarrow> ('k, 'v) gomap" where
  "del k m = AList.delete k m"

definition keys :: "('k, 'v) gomap \<Rightarrow> 'k list" where
  "keys m = map fst m"

definition gomap_ok :: "('k, 'v) gomap \<Rightarrow> bool" where
  "gomap_ok m \<longleftrightarrow> distinct (keys m)"

text \<open>The zero value for a missing key: a \<^verbatim>\<open>nil\<close> slice.\<close>

definition get_slice :: "('k, 'v list) gomap \<Rightarrow> 'k \<Rightarrow> 'v list" where
  "get_slice m k = (case get m k of None \<Rightarrow> [] | Some xs \<Rightarrow> xs)"

definition permutes_keys :: "('k list \<Rightarrow> 'k list) \<Rightarrow> bool" where
  "permutes_keys visit \<longleftrightarrow> (\<forall>ks. mset (visit ks) = mset ks)"

lemma permutes_keys_set [simp]: "permutes_keys visit \<Longrightarrow> set (visit ks) = set ks"
  by (metis permutes_keys_def set_mset_mset)

lemma permutes_keys_distinct [simp]: "permutes_keys visit \<Longrightarrow> distinct (visit ks) = distinct ks"
  by (metis permutes_keys_def mset_eq_imp_distinct_iff)

lemma permutes_keys_id [simp]: "permutes_keys (\<lambda>ks. ks)" "permutes_keys rev"
  by (simp_all add: permutes_keys_def)

lemma get_put [simp]: "get (put k v m) = (get m)(k \<mapsto> v)"
  by (simp add: put_def update_conv')

lemma get_del [simp]: "get (del k m) = (get m)(k := None)"
  by (simp add: del_def delete_conv')

lemma set_keys: "set (keys m) = dom (get m)"
  by (simp add: keys_def dom_map_of_conv_image_fst)

lemma keys_put: "keys (put k v m) = (if k \<in> set (keys m) then keys m else keys m @ [k])"
  by (simp add: keys_def put_def update_keys)

lemma set_keys_put [simp]: "set (keys (put k v m)) = insert k (set (keys m))"
  by (auto simp: keys_put)

lemma set_keys_del [simp]: "set (keys (del k m)) = set (keys m) - {k}"
  by (auto simp: set_keys)

lemma gomap_ok_Nil [simp]: "gomap_ok []"
  by (simp add: gomap_ok_def keys_def)

lemma gomap_ok_put [simp, intro]: "gomap_ok m \<Longrightarrow> gomap_ok (put k v m)"
  by (simp add: gomap_ok_def keys_def put_def distinct_update)

lemma gomap_ok_del [simp, intro]: "gomap_ok m \<Longrightarrow> gomap_ok (del k m)"
  by (simp add: gomap_ok_def keys_def del_def distinct_delete)

lemma get_slice_put [simp]: "get_slice (put k v m) j = (if j = k then v else get_slice m j)"
  by (simp add: get_slice_def)

lemma get_in_keys: "get m k = Some v \<Longrightarrow> k \<in> set (keys m)"
  by (auto simp: set_keys)

lemma get_keys_iff: "(k \<in> set (keys m)) = (get m k \<noteq> None)"
  by (auto simp: set_keys)

lemma get_slice_keys: "x \<in> set (get_slice m k) \<Longrightarrow> k \<in> set (keys m)"
  by (cases "get m k") (auto simp: get_slice_def get_keys_iff)

section \<open>The interface\<close>

locale keyed_store =
  fixes lookup :: "'m \<Rightarrow> 'k \<Rightarrow> 'v option"
    and insert_at :: "'k \<Rightarrow> 'v \<Rightarrow> 'm \<Rightarrow> 'm"
    and remove :: "'k \<Rightarrow> 'm \<Rightarrow> 'm"
  assumes lookup_insert: "lookup (insert_at k v m) j = (if j = k then Some v else lookup m j)"
    and lookup_remove: "lookup (remove k m) j = (if j = k then None else lookup m j)"
begin

text \<open>Take an entry out, if it is there.\<close>

definition pop_entry :: "'k \<Rightarrow> 'm \<Rightarrow> 'v option \<times> 'm" where
  "pop_entry k m = (lookup m k, (case lookup m k of None \<Rightarrow> m | Some _ \<Rightarrow> remove k m))"

lemma pop_absent: "lookup (snd (pop_entry k m)) k = None"
  by (simp add: pop_entry_def lookup_remove split: option.split)

lemma pop_once: "fst (pop_entry k (snd (pop_entry k m))) = None"
  using pop_absent by (simp add: pop_entry_def [of k "snd (pop_entry k m)"])

lemma pop_other: "j \<noteq> k \<Longrightarrow> lookup (snd (pop_entry k m)) j = lookup m j"
  by (simp add: pop_entry_def lookup_remove split: option.split)

lemma pop_inserted: "fst (pop_entry k (insert_at k v m)) = Some v"
  by (simp add: pop_entry_def lookup_insert)

lemma pop_inserted_other:
  "j \<noteq> k \<Longrightarrow> fst (pop_entry j (insert_at k v m)) = fst (pop_entry j m)"
  by (simp add: pop_entry_def lookup_insert)

end

interpretation go_map: keyed_store map_of put del
  by unfold_locales simp_all

end
