(* ===== verification/UserIndex.thy ===== *)
theory UserIndex
  imports Permissions GoMaps
begin

text \<open>
  chat/index.go: the in-memory index of users, roles and channels, the computed rank, hoist and
  permissions of each user, and the sorted and grouped list of users with the ranges of it that
  changed. The index's lock makes each method atomic, so a method is a function from index to
  index. Where the code would dereference a \<^verbatim>\<open>nil\<close> \<^verbatim>\<open>*UserInfo\<close> the result is \<open>None\<close>. The
  argument \<open>visit\<close> is the order in which the runtime visits the keys of a map.
\<close>

section \<open>State\<close>

record UserInfo =
  UserInfo_Rank :: int
  UserInfo_Hoist :: snowflake
  UserInfo_Permissions :: perms

definition UserInfo_zero :: UserInfo where
  "UserInfo_zero = \<lparr>UserInfo_Rank = 0, UserInfo_Hoist = 0, UserInfo_Permissions = 0\<rparr>"

datatype SortEntry = SortEntry (SortEntry_ID: snowflake) (SortEntry_Key: string)

text \<open>The comparison given to \<^verbatim>\<open>slices.SortFunc\<close>: by key, then by id.\<close>

instantiation SortEntry :: linorder
begin

definition less_eq_SortEntry :: "SortEntry \<Rightarrow> SortEntry \<Rightarrow> bool" where
  "less_eq_SortEntry a b \<longleftrightarrow> SortEntry_Key a < SortEntry_Key b \<or>
     SortEntry_Key a = SortEntry_Key b \<and> SortEntry_ID a \<le> SortEntry_ID b"

definition less_SortEntry :: "SortEntry \<Rightarrow> SortEntry \<Rightarrow> bool" where
  "less_SortEntry a b \<longleftrightarrow> SortEntry_Key a < SortEntry_Key b \<or>
     SortEntry_Key a = SortEntry_Key b \<and> SortEntry_ID a < SortEntry_ID b"

instance
  by standard (auto simp: less_eq_SortEntry_def less_SortEntry_def SortEntry.expand)

end

record IndexRange =
  IndexRange_From :: int
  IndexRange_To :: int

definition index_range :: "int \<Rightarrow> int \<Rightarrow> IndexRange" where
  "index_range a b = \<lparr>IndexRange_From = a, IndexRange_To = b\<rparr>"

lemma index_range_simps [simp]:
  "IndexRange_From (index_range a b) = a" "IndexRange_To (index_range a b) = b"
  by (simp_all add: index_range_def)

definition Overlaps :: "IndexRange \<Rightarrow> IndexRange \<Rightarrow> bool" where
  "Overlaps a b \<longleftrightarrow>
     (if IndexRange_To a \<le> IndexRange_From a \<or> IndexRange_To b \<le> IndexRange_From b then False
      else IndexRange_From a < IndexRange_To b \<and> IndexRange_From b < IndexRange_To a)"

type_synonym groups = "(snowflake, snowflake list) gomap"

record UserList =
  UserList_GroupOrder :: "snowflake list"
  UserList_Groups :: groups
  UserList_View :: "snowflake list"

record Index =
  Index_Users :: "(snowflake, User) gomap"
  Index_UserInfos :: "(snowflake, UserInfo) gomap"
  Index_Roles :: "(snowflake, Role) gomap"
  Index_Channels :: "(snowflake, Channel) gomap"
  Index_List :: UserList
  Index_Settings :: Settings
  Index_Stale :: bool
  Index_Changes :: "IndexRange list"

section \<open>Ranks, hoists and permissions\<close>

text \<open>The loop over the roles: rank, the position and id of the hoisting role, permissions.\<close>

fun info_loop ::
  "(snowflake, Role) gomap \<Rightarrow> snowflake list \<Rightarrow> int \<times> int \<times> snowflake \<times> perms \<Rightarrow>
   int \<times> int \<times> snowflake \<times> perms" where
  "info_loop roles [] acc = acc"
| "info_loop roles (rid # rids) (rank, hoistRank, hoist, ps) =
     (case get roles rid of
        None \<Rightarrow> info_loop roles rids (rank, hoistRank, hoist, ps)
      | Some role \<Rightarrow>
          let rank = (if Role_Position role < rank then Role_Position role else rank);
              (hoistRank, hoist) =
                (if Role_Hoisted role \<and> Role_Position role < hoistRank
                 then (Role_Position role, Role_ID role) else (hoistRank, hoist))
          in info_loop roles rids (rank, hoistRank, hoist, ps OR Role_Permissions role))"

definition computeUserInfo :: "Index \<Rightarrow> User \<Rightarrow> UserInfo" where
  "computeUserInfo ix u =
     (case info_loop (Index_Roles ix) (User_Roles u)
             (MaxInt64, MaxInt64, 0, Settings_DefaultPermissions (Index_Settings ix)) of
        (rank, _, hoist, ps) \<Rightarrow>
          \<lparr>UserInfo_Rank = rank, UserInfo_Hoist = hoist,
           UserInfo_Permissions = (if has_perm ps PermissionAdministrator then PermissionAll else ps)\<rparr>)"

definition processUser :: "User \<Rightarrow> User" where
  "processUser user = user\<lparr>User_Presence := UserPresenceOffline\<rparr>"

section \<open>Building the index\<close>

definition or_panic ::
  "'a go_result \<times> Transaction \<Rightarrow> ('a \<Rightarrow> Transaction \<Rightarrow> 'b go_result \<times> Transaction) \<Rightarrow>
   'b go_result \<times> Transaction" where
  "or_panic r f = if_err r (\<lambda>e tx. (Panic, tx)) f"

definition PopulateIndex :: "Env \<Rightarrow> Index \<Rightarrow> Transaction \<Rightarrow> Index go_result \<times> Transaction" where
  "PopulateIndex E ix tx =
     or_panic (GetSettings E (Start tx)) (\<lambda>settings tx.
     or_panic (GetAllRoles E tx) (\<lambda>roles tx.
     or_panic (GetAllChannels E tx) (\<lambda>channels tx.
     or_panic (GetAllUsers E tx) (\<lambda>users tx.
       (Ok (ix\<lparr>Index_Settings := settings,
          Index_Roles := fold (\<lambda>r. put (Role_ID r) r) roles [],
          Index_Channels := fold (\<lambda>c. put (Channel_ID c) c) channels [],
          Index_Users := fold (\<lambda>u. put (User_ID u) (processUser u)) users [],
          Index_UserInfos := fold (\<lambda>u. put (User_ID u) UserInfo_zero) users []\<rparr>),
        Commit E False tx)))))"

text \<open>The indices that worker \<open>w\<close> of eight takes: \<open>w, w + 8, \<dots>\<close>.\<close>

function worker_loop :: "nat \<Rightarrow> nat \<Rightarrow> nat list" where
  "worker_loop idx totalIDs = (if idx < totalIDs then idx # worker_loop (idx + 8) totalIDs else [])"
  by pat_completeness auto

termination by (relation "measure (\<lambda>(idx, totalIDs). totalIDs - idx)") auto

declare worker_loop.simps [simp del]

definition worker_step :: "snowflake list \<Rightarrow> nat \<Rightarrow> Index \<Rightarrow> Index" where
  "worker_step ids idx ix =
     (let key = ids ! idx in
      case get (Index_Users ix) key of
        None \<Rightarrow> ix
      | Some user \<Rightarrow> ix\<lparr>Index_UserInfos := put key (computeUserInfo ix user) (Index_UserInfos ix)\<rparr>)"

text \<open>The workers write the infos of different users, so they run one after the other here.\<close>

definition UpdateUserInfos :: "(snowflake list \<Rightarrow> snowflake list) \<Rightarrow> Index \<Rightarrow> Index" where
  "UpdateUserInfos visit ix =
     (let ids = visit (keys (Index_UserInfos ix)) in
      fold (\<lambda>w. fold (worker_step ids) (worker_loop w (length ids))) [0..<8] ix)"

section \<open>The user list\<close>

definition getUserGroup :: "User \<Rightarrow> UserInfo \<Rightarrow> snowflake" where
  "getUserGroup u ui =
     (if UserInfo_Hoist ui \<noteq> 0 then UserInfo_Hoist ui
      else if IsOnline u then UserPresenceOnline else UserPresenceOffline)"

definition role_position :: "Index \<Rightarrow> snowflake \<Rightarrow> int" where
  "role_position ix rid =
     (case get (Index_Roles ix) rid of None \<Rightarrow> 0 | Some r \<Rightarrow> Role_Position r)"

definition role_hoisted :: "Index \<Rightarrow> snowflake \<Rightarrow> bool" where
  "role_hoisted ix rid =
     (case get (Index_Roles ix) rid of None \<Rightarrow> False | Some r \<Rightarrow> Role_Hoisted r)"

definition group_order :: "(snowflake list \<Rightarrow> snowflake list) \<Rightarrow> Index \<Rightarrow> snowflake list" where
  "group_order visit ix =
     sort_key (role_position ix) (filter (role_hoisted ix) (visit (keys (Index_Roles ix))))
     @ [UserPresenceOnline, UserPresenceOffline]"

fun fill_groups :: "Index \<Rightarrow> snowflake list \<Rightarrow> groups \<Rightarrow> groups option" where
  "fill_groups ix [] groups = Some groups"
| "fill_groups ix (uid # uids) groups =
     (case get (Index_Users ix) uid of
        None \<Rightarrow> fill_groups ix uids groups
      | Some u \<Rightarrow>
          (case get (Index_UserInfos ix) uid of
             None \<Rightarrow> None
           | Some ui \<Rightarrow>
               let group = getUserGroup u ui in
               fill_groups ix uids (put group (get_slice groups group @ [uid]) groups)))"

definition display_name :: "Index \<Rightarrow> snowflake \<Rightarrow> string" where
  "display_name ix uid =
     (case get (Index_Users ix) uid of None \<Rightarrow> [] | Some u \<Rightarrow> User_DisplayName u)"

definition sort_entry :: "Index \<Rightarrow> snowflake \<Rightarrow> SortEntry" where
  "sort_entry ix uid = SortEntry uid (display_name ix uid)"

definition sort_group :: "Index \<Rightarrow> snowflake list \<Rightarrow> snowflake list" where
  "sort_group ix uids = map SortEntry_ID (sort (map (sort_entry ix) uids))"

definition view_of :: "snowflake list \<Rightarrow> groups \<Rightarrow> snowflake list" where
  "view_of order groups = concat (map (\<lambda>gid. gid # get_slice groups gid) order)"

text \<open>The loop that collects the ranges in which the old view differs from the new one.\<close>

fun diff_loop ::
  "snowflake list \<Rightarrow> snowflake list \<Rightarrow> nat \<Rightarrow> nat option \<Rightarrow> IndexRange list \<Rightarrow>
   IndexRange list \<times> nat option" where
  "diff_loop [] new idx start changes = (changes, start)"
| "diff_loop (v # old) new idx start changes =
     (if new = [] \<or> hd new \<noteq> v
      then diff_loop old (tl new) (Suc idx)
             (case start of None \<Rightarrow> Some idx | Some s \<Rightarrow> Some s) changes
      else case start of
             None \<Rightarrow> diff_loop old (tl new) (Suc idx) None changes
           | Some s \<Rightarrow> diff_loop old (tl new) (Suc idx) None
               (changes @ [index_range (int s) (int idx)]))"

definition view_changes :: "snowflake list \<Rightarrow> snowflake list \<Rightarrow> IndexRange list" where
  "view_changes old new =
     (case diff_loop old new 0 None [] of
        (changes, Some s) \<Rightarrow> changes @ [index_range (int s) (int (length old))]
      | (changes, None) \<Rightarrow>
          if length old < length new
          then changes @ [index_range (int (length old)) (int (length old))] else changes)"

definition UpdateUserList :: "(snowflake list \<Rightarrow> snowflake list) \<Rightarrow> Index \<Rightarrow> Index option" where
  "UpdateUserList visit ix =
     (let order = group_order visit ix;
          empty = fold (\<lambda>gid. put gid []) order []
      in case fill_groups ix (visit (keys (Index_Users ix))) empty of
           None \<Rightarrow> None
         | Some filled \<Rightarrow>
             let groups = fold (\<lambda>gid g. put gid (sort_group ix (get_slice g gid)) g) order filled;
                 view = view_of order groups
             in Some (ix\<lparr>Index_List := \<lparr>UserList_GroupOrder = order, UserList_Groups = groups,
                    UserList_View = view\<rparr>,
                  Index_Stale := False,
                  Index_Changes := Index_Changes ix @
                    view_changes (UserList_View (Index_List ix)) view\<rparr>))"

definition SortUserList :: "(snowflake list \<Rightarrow> snowflake list) \<Rightarrow> Index \<Rightarrow> Index option" where
  "SortUserList visit ix = UpdateUserList visit ix"

definition Build ::
  "Env \<Rightarrow> (snowflake list \<Rightarrow> snowflake list) \<Rightarrow> Index \<Rightarrow> Transaction \<Rightarrow>
   Index go_result \<times> Transaction" where
  "Build E visit ix tx =
     and_then (PopulateIndex E ix tx) (\<lambda>ix tx.
       case SortUserList visit (UpdateUserInfos visit ix) of
         None \<Rightarrow> (Panic, tx)
       | Some ix \<Rightarrow> (Ok ix, tx))"

text \<open>\<^verbatim>\<open>sort.Search\<close> of the standard library: binary search for the first index with \<open>f\<close>.\<close>

function search_loop :: "(nat \<Rightarrow> bool) \<Rightarrow> nat \<Rightarrow> nat \<Rightarrow> nat" where
  "search_loop f i j =
     (if i < j then
        let h = (i + j) div 2 in
        if \<not> f h then search_loop f (h + 1) j else search_loop f i h
      else i)"
  by pat_completeness auto

termination by (relation "measure (\<lambda>(f, i, j). j - i)") auto

declare search_loop.simps [simp del]

definition sort_Search :: "nat \<Rightarrow> (nat \<Rightarrow> bool) \<Rightarrow> nat" where
  "sort_Search n f = search_loop f 0 n"

definition index_of :: "snowflake \<Rightarrow> snowflake list \<Rightarrow> int" where
  "index_of key xs =
     (if key \<in> set xs then int (first_index (\<lambda>x. x = key) xs) else -1)"

definition comes_before :: "Index \<Rightarrow> User \<Rightarrow> snowflake \<Rightarrow> snowflake \<Rightarrow> bool" where
  "comes_before ix user key other =
     (if User_DisplayName user \<noteq> display_name ix other
      then User_DisplayName user < display_name ix other else key < other)"

definition RepositionUser ::
  "(snowflake list \<Rightarrow> snowflake list) \<Rightarrow> snowflake \<Rightarrow> Index \<Rightarrow> Index option" where
  "RepositionUser visit key ix =
     (case get (Index_Users ix) key of
        None \<Rightarrow> Some ix
      | Some user \<Rightarrow>
          let ul = Index_List ix; groups = UserList_Groups ul in
          (case List.find (\<lambda>gid. key \<in> set (get_slice groups gid)) (visit (keys groups)) of
             None \<Rightarrow> Some ix
           | Some old_group \<Rightarrow>
               (case get (Index_UserInfos ix) key of
                  None \<Rightarrow> None
                | Some ui \<Rightarrow>
                    let old = get_slice groups old_group;
                        pos = first_index (\<lambda>u. u = key) old;
                        groups = put old_group (take pos old @ drop (Suc pos) old) groups;
                        new_group = getUserGroup user ui;
                        new = get_slice groups new_group;
                        new_pos = sort_Search (length new) (\<lambda>j. comes_before ix user key (new ! j));
                        groups = put new_group (take new_pos new @ key # drop new_pos new) groups;
                        old_view_pos = index_of key (UserList_View ul);
                        view = view_of (UserList_GroupOrder ul) groups;
                        new_view_pos = index_of key view;
                        ix' = ix\<lparr>Index_List := ul\<lparr>UserList_Groups := groups, UserList_View := view\<rparr>\<rparr>
                    in if new_view_pos = -1 then Some ix'
                       else Some (ix'\<lparr>Index_Changes := Index_Changes ix @
                         [index_range (min old_view_pos new_view_pos)
                            (max old_view_pos new_view_pos + 1)]\<rparr>))))"

definition PopAllChanges :: "Index \<Rightarrow> IndexRange list \<times> Index" where
  "PopAllChanges ix = (Index_Changes ix, ix\<lparr>Index_Changes := []\<rparr>)"

definition ClampInt :: "int \<Rightarrow> int \<Rightarrow> int \<Rightarrow> int" where
  "ClampInt value lo hi = (if value < lo then lo else if hi < value then hi else value)"

record UserListGroup =
  UserListGroup_ID :: snowflake
  UserListGroup_Count :: int

record UserListResponse =
  UserListResponse_Start :: int
  UserListResponse_End :: int
  UserListResponse_Slice :: "snowflake list"
  UserListResponse_Groups :: "UserListGroup list"

definition GetUserListSlice :: "Index \<Rightarrow> int \<Rightarrow> int \<Rightarrow> int \<Rightarrow> UserListResponse" where
  "GetUserListSlice ix start_req end_req limit =
     (let view = UserList_View (Index_List ix);
          totalIDs = int (length view);
          start = ClampInt start_req 0 totalIDs;
          stop = ClampInt end_req start totalIDs;
          stop = (if 0 < limit \<and> limit < stop - start then start + limit else stop)
      in \<lparr>UserListResponse_Start = start, UserListResponse_End = stop,
          UserListResponse_Slice = drop (nat start) (take (nat stop) view),
          UserListResponse_Groups =
            map (\<lambda>gid. \<lparr>UserListGroup_ID = gid, UserListGroup_Count =
                int (length (get_slice (UserList_Groups (Index_List ix)) gid))\<rparr>)
              (UserList_GroupOrder (Index_List ix))\<rparr>)"

section \<open>Users, roles and channels\<close>

definition index_GetUser :: "Index \<Rightarrow> snowflake \<Rightarrow> User option" where
  "index_GetUser ix key = get (Index_Users ix) key"

definition index_GetUsers :: "Index \<Rightarrow> snowflake list \<Rightarrow> User list" where
  "index_GetUsers ix ids = List.map_filter (get (Index_Users ix)) ids"

definition set_user :: "User \<Rightarrow> Index \<Rightarrow> Index" where
  "set_user user ix = ix\<lparr>
     Index_Users := put (User_ID user) (processUser user) (Index_Users ix),
     Index_UserInfos := put (User_ID user) (computeUserInfo ix user) (Index_UserInfos ix)\<rparr>"

definition index_AddUser :: "User \<Rightarrow> Index \<Rightarrow> User \<times> Index" where
  "index_AddUser user ix = (processUser user, (set_user user ix)\<lparr>Index_Stale := True\<rparr>)"

definition index_UpdateUser ::
  "(snowflake list \<Rightarrow> snowflake list) \<Rightarrow> User \<Rightarrow> Index \<Rightarrow> (User \<times> Index) option" where
  "index_UpdateUser visit user ix =
     (case RepositionUser visit (User_ID user) (set_user user ix) of
        None \<Rightarrow> None
      | Some ix \<Rightarrow> Some (processUser user, ix))"

definition index_DeleteUser :: "snowflake \<Rightarrow> Index \<Rightarrow> Index" where
  "index_DeleteUser key ix = ix\<lparr>Index_Users := del key (Index_Users ix),
     Index_UserInfos := del key (Index_UserInfos ix), Index_Stale := True\<rparr>"

definition index_GetRole :: "Index \<Rightarrow> snowflake \<Rightarrow> Role option" where
  "index_GetRole ix key = get (Index_Roles ix) key"

definition index_GetAllRoles :: "(snowflake list \<Rightarrow> snowflake list) \<Rightarrow> Index \<Rightarrow> Role list" where
  "index_GetAllRoles visit ix =
     List.map_filter (get (Index_Roles ix)) (visit (keys (Index_Roles ix)))"

definition index_AddRole :: "Role \<Rightarrow> Index \<Rightarrow> Index" where
  "index_AddRole role ix =
     ix\<lparr>Index_Roles := put (Role_ID role) role (Index_Roles ix), Index_Stale := True\<rparr>"

definition index_UpdateRole :: "Role \<Rightarrow> Index \<Rightarrow> Index" where
  "index_UpdateRole role ix =
     ix\<lparr>Index_Roles := put (Role_ID role) role (Index_Roles ix), Index_Stale := True\<rparr>"

definition index_DeleteRole :: "snowflake \<Rightarrow> Index \<Rightarrow> Index" where
  "index_DeleteRole key ix =
     ix\<lparr>Index_Roles := del key (Index_Roles ix), Index_Stale := True\<rparr>"

definition index_GetChannel :: "Index \<Rightarrow> snowflake \<Rightarrow> Channel option" where
  "index_GetChannel ix key = get (Index_Channels ix) key"

definition index_GetAllChannels ::
  "(snowflake list \<Rightarrow> snowflake list) \<Rightarrow> Index \<Rightarrow> Channel list" where
  "index_GetAllChannels visit ix =
     List.map_filter (get (Index_Channels ix)) (visit (keys (Index_Channels ix)))"

definition index_AddChannel :: "Channel \<Rightarrow> Index \<Rightarrow> Index" where
  "index_AddChannel channel ix =
     ix\<lparr>Index_Channels := put (Channel_ID channel) channel (Index_Channels ix),
       Index_Stale := True\<rparr>"

definition index_UpdateChannel :: "Channel \<Rightarrow> Index \<Rightarrow> Index" where
  "index_UpdateChannel channel ix =
     ix\<lparr>Index_Channels := put (Channel_ID channel) channel (Index_Channels ix),
       Index_Stale := True\<rparr>"

definition index_DeleteChannel :: "snowflake \<Rightarrow> Index \<Rightarrow> Index" where
  "index_DeleteChannel key ix =
     ix\<lparr>Index_Channels := del key (Index_Channels ix), Index_Stale := True\<rparr>"

section \<open>Permissions from the index\<close>

definition index_GetPermissionsByUser :: "Index \<Rightarrow> snowflake \<Rightarrow> perms" where
  "index_GetPermissionsByUser ix userID =
     (case get (Index_UserInfos ix) userID of None \<Rightarrow> 0 | Some ui \<Rightarrow> UserInfo_Permissions ui)"

definition index_GetPermissionsByChannel :: "Index \<Rightarrow> snowflake \<Rightarrow> snowflake \<Rightarrow> perms" where
  "index_GetPermissionsByChannel ix userID channelID =
     (let allow = index_GetPermissionsByUser ix userID in
      case index_GetUser ix userID of
        None \<Rightarrow> 0
      | Some user \<Rightarrow>
          mask_permissions
            (if channelID \<noteq> 0 then
               case index_GetChannel ix channelID of
                 None \<Rightarrow> (allow, 0)
               | Some channel \<Rightarrow> apply_overwrites (User_ID user) (User_Roles user)
                   (Channel_Overwrites channel) (allow, 0)
             else (allow, 0)))"

end
