(* ===== verification/Access.thy ===== *)
theory Access
  imports Accounts UserIndex
begin

text \<open>
  Who may do what: the permissions that the store computes are exactly those that the tables
  grant (\<open>granted\<close>, \<open>denied\<close>), and the index, once built from the same tables, gives every user
  the same permissions in every channel.
\<close>

section \<open>The specification over the tables\<close>

definition role_grants :: "Database \<Rightarrow> snowflake \<Rightarrow> nat \<Rightarrow> bool" where
  "role_grants db uid n \<longleftrightarrow>
     (\<exists>s \<in> set_option (DB_settings db). bit (Settings_DefaultPermissions s) n) \<or>
     (\<exists>r \<in> set (DB_roles db). (uid, Role_ID r) \<in> set (DB_user_roles db) \<and>
        bit (Role_Permissions r) n)"

text \<open>What the roles of a user give: everything to an administrator.\<close>

definition base_grants :: "Database \<Rightarrow> snowflake \<Rightarrow> nat \<Rightarrow> bool" where
  "base_grants db uid n \<longleftrightarrow> (if role_grants db uid 0 then n < 31 else role_grants db uid n)"

definition overwrite_rows :: "Database \<Rightarrow> snowflake \<Rightarrow> snowflake \<Rightarrow> OverwriteRow set" where
  "overwrite_rows db uid cid =
     {p \<in> set (DB_channel_role_permissions db). OverwriteRow_channel_id p = cid \<and>
        (uid, OverwriteRow_target_id p) \<in> set (DB_user_roles db)} \<union>
     {p \<in> set (DB_channel_user_permissions db). OverwriteRow_channel_id p = cid \<and>
        OverwriteRow_target_id p = uid}"

definition channel_grants :: "Database \<Rightarrow> snowflake \<Rightarrow> snowflake \<Rightarrow> nat \<Rightarrow> bool" where
  "channel_grants db uid cid n \<longleftrightarrow>
     (base_grants db uid n \<or> (\<exists>p \<in> overwrite_rows db uid cid. bit (OverwriteRow_allow p) n)) \<and>
     \<not> (\<exists>p \<in> overwrite_rows db uid cid. bit (OverwriteRow_deny p) n)"

definition permits :: "Database \<Rightarrow> snowflake \<Rightarrow> snowflake \<Rightarrow> nat \<Rightarrow> bool" where
  "permits db uid cid n \<longleftrightarrow>
     (if channel_grants db uid cid 0 then n < 31 else channel_grants db uid cid n)"

text \<open>Ids are snowflakes, far above the small numbers that the code reserves (0 for none, 1 and 2
  for the groups of the user list), and a user and a role never share one.\<close>

definition ids_ok :: "Database \<Rightarrow> bool" where
  "ids_ok db \<longleftrightarrow> (\<forall>k \<in> user_ids db \<union> role_ids db \<union> channel_ids db. 2 < k) \<and>
     user_ids db \<inter> role_ids db = {}"

lemma ids_ok_zero: "ids_ok db \<Longrightarrow> 0 \<notin> user_ids db \<and> 0 \<notin> role_ids db \<and> 0 \<notin> channel_ids db"
  unfolding ids_ok_def by (metis UnCI not_numeral_less_zero)

section \<open>Overwrites read back\<close>

lemma set_left_join: "set (left_join ps) = (if ps = [] then {None} else Some ` set ps)"
  by (cases ps) (simp_all add: left_join_def)

lemma candidates_pairs:
  "candidates (overwrite_pairs db c) =
     overwrite_of OverwriteTypeRole ` {p \<in> set (DB_channel_role_permissions db).
       OverwriteRow_channel_id p = ChannelRow_id c} \<union>
     overwrite_of OverwriteTypeUser ` {p \<in> set (DB_channel_user_permissions db).
       OverwriteRow_channel_id p = ChannelRow_id c}"
proof -
  define rs where "rs = filter (\<lambda>p. OverwriteRow_channel_id p = ChannelRow_id c)
    (DB_channel_role_permissions db)"
  define us where "us = filter (\<lambda>p. OverwriteRow_channel_id p = ChannelRow_id c)
    (DB_channel_user_permissions db)"
  have "set (overwrite_pairs db c) = set (left_join rs) \<times> set (left_join us)"
    by (auto simp: overwrite_pairs_def Let_def rs_def us_def)
  then have "candidates (overwrite_pairs db c) =
      overwrite_of OverwriteTypeRole ` set rs \<union> overwrite_of OverwriteTypeUser ` set us"
    by (auto simp: candidates_def set_left_join)
  then show ?thesis by (simp add: rs_def us_def)
qed

lemma Overwrite_fields [simp]:
  "Overwrite_ID (overwrite_of ty p) = OverwriteRow_target_id p"
  "Overwrite_Type (overwrite_of ty p) = ty"
  "Overwrite_Allow (overwrite_of ty p) = OverwriteRow_allow p"
  "Overwrite_Deny (overwrite_of ty p) = OverwriteRow_deny p"
  by (simp_all add: overwrite_of_def)

lemma inj_overwrites:
  assumes "inj_on OverwriteRow_target_id R" and "inj_on OverwriteRow_target_id U"
    and "OverwriteRow_target_id ` R \<inter> OverwriteRow_target_id ` U = {}"
  shows "inj_on Overwrite_ID
    (overwrite_of OverwriteTypeRole ` R \<union> overwrite_of OverwriteTypeUser ` U)"
proof (rule inj_onI)
  fix x y
  assume x: "x \<in> overwrite_of OverwriteTypeRole ` R \<union> overwrite_of OverwriteTypeUser ` U"
    and y: "y \<in> overwrite_of OverwriteTypeRole ` R \<union> overwrite_of OverwriteTypeUser ` U"
    and eq: "Overwrite_ID x = Overwrite_ID y"
  from x y eq assms show "x = y"
    by (elim UnE imageE) (auto dest: inj_onD)
qed

lemma inj_target:
  "distinct (map (\<lambda>p. (OverwriteRow_channel_id p, OverwriteRow_target_id p)) ps) \<Longrightarrow>
     inj_on OverwriteRow_target_id {p \<in> set ps. OverwriteRow_channel_id p = cid}"
  by (auto simp: distinct_map inj_on_def)

lemma inj_candidates:
  assumes "db_ok db" and "ids_ok db"
  shows "inj_on Overwrite_ID (candidates (overwrite_pairs db c))"
  unfolding candidates_pairs
proof (rule inj_overwrites)
  show "inj_on OverwriteRow_target_id {p \<in> set (DB_channel_role_permissions db).
      OverwriteRow_channel_id p = ChannelRow_id c}"
    and "inj_on OverwriteRow_target_id {p \<in> set (DB_channel_user_permissions db).
      OverwriteRow_channel_id p = ChannelRow_id c}"
    using assms(1) by (simp_all add: db_ok_def keys_ok_def inj_target)
  have disjoint: "A \<subseteq> R \<Longrightarrow> B \<subseteq> U \<Longrightarrow> U \<inter> R = {} \<Longrightarrow> A \<inter> B = {}" for A B R U :: "snowflake set"
    by blast
  have "OverwriteRow_target_id ` {p \<in> set (DB_channel_role_permissions db).
      OverwriteRow_channel_id p = ChannelRow_id c} \<subseteq> role_ids db"
    and "OverwriteRow_target_id ` {p \<in> set (DB_channel_user_permissions db).
      OverwriteRow_channel_id p = ChannelRow_id c} \<subseteq> user_ids db"
    using assms(1) by (auto simp: db_ok_def refs_ok_def refers_def)
  then show "OverwriteRow_target_id ` {p \<in> set (DB_channel_role_permissions db).
      OverwriteRow_channel_id p = ChannelRow_id c} \<inter> OverwriteRow_target_id `
      {p \<in> set (DB_channel_user_permissions db). OverwriteRow_channel_id p = ChannelRow_id c} = {}"
    by (rule disjoint) (use assms(2) in \<open>simp add: ids_ok_def\<close>)
qed

lemma set_channel_overwrites:
  assumes "db_ok db" and "ids_ok db"
  shows "set (Channel_Overwrites (channel_view db c)) =
    overwrite_of OverwriteTypeRole ` {p \<in> set (DB_channel_role_permissions db).
      OverwriteRow_channel_id p = ChannelRow_id c} \<union>
    overwrite_of OverwriteTypeUser ` {p \<in> set (DB_channel_user_permissions db).
      OverwriteRow_channel_id p = ChannelRow_id c}"
  using block_overwrites_set [OF inj_candidates [OF assms, of c], where seen = "{}"]
  unfolding candidates_pairs [symmetric] by (simp add: channel_view_def channel_of_row_def)

lemma applying_overwrites:
  assumes "db_ok db" and "ids_ok db" and "set roles = {r. (uid, r) \<in> set (DB_user_roles db)}"
  shows "(\<exists>ow \<in> set (Channel_Overwrites (channel_view db c)).
      overwrite_applies uid roles ow \<and> P (Overwrite_Allow ow) (Overwrite_Deny ow)) \<longleftrightarrow>
    (\<exists>p \<in> overwrite_rows db uid (ChannelRow_id c). P (OverwriteRow_allow p) (OverwriteRow_deny p))"
  unfolding set_channel_overwrites [OF assms(1,2)] overwrite_rows_def
  unfolding bex_Un bex_simps overwrite_applies_def using assms(3) by simp

lemma set_roles_of_user: "set (roles_of_user db uid) = {r. (uid, r) \<in> set (DB_user_roles db)}"
  by (auto simp: roles_of_user_def image_iff)

text \<open>The masked result of the loop over a channel's overwrites, against the specification.\<close>

lemma permits_channel_view:
  assumes "db_ok db" and "ids_ok db" and "ChannelRow_id c = cid" and "n < 64"
    and base: "\<And>k. k < 64 \<Longrightarrow> bit allow k \<longleftrightarrow> base_grants db uid k"
  shows "bit (mask_permissions (apply_overwrites uid (roles_of_user db uid)
      (Channel_Overwrites (channel_view db c)) (allow, 0))) n \<longleftrightarrow> permits db uid cid n"
proof -
  have "allowed_bit allow uid (roles_of_user db uid) (Channel_Overwrites (channel_view db c)) k \<longleftrightarrow>
      channel_grants db uid cid k" if "k < 64" for k
    using applying_overwrites [OF assms(1,2) set_roles_of_user, where uid = uid and c = c
        and P = "\<lambda>a d. bit a k"]
      applying_overwrites [OF assms(1,2) set_roles_of_user, where uid = uid and c = c
        and P = "\<lambda>a d. bit d k"]
      base [OF that] assms(3)
    by (simp add: allowed_bit_def channel_grants_def)
  with assms(4) show ?thesis
    by (simp add: bit_channel_permissions permits_def)
qed

text \<open>Without a channel row there is no overwrite row either.\<close>

lemma permits_no_channel:
  assumes "refs_ok db" and "cid \<notin> channel_ids db" and "n < 64"
    and base: "\<And>k. k < 64 \<Longrightarrow> bit allow k \<longleftrightarrow> base_grants db uid k"
  shows "bit (mask_permissions (allow, 0)) n \<longleftrightarrow> permits db uid cid n"
proof -
  have "overwrite_rows db uid cid = {}"
    using assms(1,2) by (auto simp: overwrite_rows_def refs_ok_def refers_def)
  with assms(3) base show ?thesis
    by (simp add: bit_mask_permissions permits_def channel_grants_def)
qed

section \<open>The store\<close>

lemma reads_tables:
  "same_tables tx tx' \<Longrightarrow> Tx_db tx' = Tx_db tx \<and> Tx_commit tx' = Tx_commit tx"
  by (simp add: same_tables_def same_scope_def)

lemma next_tick_update [simp]: "(next_tick tx)\<lparr>Tx_tick := t\<rparr> = tx\<lparr>Tx_tick := t\<rparr>"
  by (simp add: next_tick_def)

lemma add_role_permissions_result:
  assumes "reliable E" and "tx_open tx" and "keys_ok (Tx_db tx)" and "0 \<notin> set rids"
  shows "\<exists>t. add_role_permissions E rids allow tx =
    (Ok (fold (\<lambda>r a. a OR Role_Permissions r) (List.map_filter (role_row (Tx_db tx)) rids) allow),
     tx\<lparr>Tx_tick := t\<rparr>)"
  using assms
proof (induction rids arbitrary: allow tx)
  case Nil
  show ?case by (rule exI [of _ "Tx_tick tx"]) (simp add: map_filter_simps)
next
  case (Cons rid rids)
  have "rid \<noteq> 0" using Cons.prems by auto
  with Cons.prems have "GetRole E rid tx =
      (case role_row (Tx_db tx) rid of None \<Rightarrow> (Err (Coded ErrorCodeInvalidRequest), next_tick tx)
       | Some r \<Rightarrow> (Ok r, next_tick tx))"
    by (intro GetRole_result) auto
  with Cons.prems Cons.IH [of "next_tick tx"] show ?case
    by (auto simp: map_filter_simps split: option.split)
qed

lemma user_row_view:
  assumes "distinct (map UserRow_id (DB_users db))"
  shows "user_row db uid = Some u \<longleftrightarrow> u \<in> set (DB_users db) \<and> UserRow_id u = uid"
  unfolding user_row_def by (rule find_key_iff) (rule assms)

lemma role_row_iff:
  assumes "distinct (map Role_ID (DB_roles db))"
  shows "role_row db rid = Some r \<longleftrightarrow> r \<in> set (DB_roles db) \<and> Role_ID r = rid"
  unfolding role_row_def by (rule find_key_iff) (rule assms)

lemma set_map_filter: "set (List.map_filter f xs) = {y. \<exists>x \<in> set xs. f x = Some y}"
  by (induction xs) (auto simp: map_filter_simps split: option.split)

definition base_permissions :: "Database \<Rightarrow> Settings \<Rightarrow> snowflake \<Rightarrow> perms" where
  "base_permissions db s uid =
     (let a = fold (\<lambda>r a. a OR Role_Permissions r)
            (List.map_filter (role_row db) (roles_of_user db uid)) (Settings_DefaultPermissions s)
      in if has_perm a PermissionAdministrator then PermissionAll else a)"

lemma bit_PermissionAll: "n < 64 \<Longrightarrow> bit PermissionAll n \<longleftrightarrow> n < 31"
  using bit_mask_permissions [of n 1 0]
  by (simp add: mask_permissions_def Let_def PermissionAdministrator_def perm_bit_def
    has_perm_def)

lemma bit_base_permissions:
  assumes "keys_ok db" and "DB_settings db = Some s" and "n < 64"
  shows "bit (base_permissions db s uid) n \<longleftrightarrow> base_grants db uid n"
proof -
  define a where "a = fold (\<lambda>r a. a OR Role_Permissions r)
    (List.map_filter (role_row db) (roles_of_user db uid)) (Settings_DefaultPermissions s)"
  have "distinct (map Role_ID (DB_roles db))" using assms(1) by (simp add: keys_ok_def)
  then have "bit a k \<longleftrightarrow> role_grants db uid k" for k
    by (auto simp: a_def bit_fold_or role_grants_def assms(2) set_map_filter set_roles_of_user
      role_row_iff)
  with assms(3) show ?thesis
    by (simp add: base_permissions_def a_def [symmetric] base_grants_def has_perm_bit
      PermissionAdministrator_def bit_PermissionAll)
qed

lemma GetPermissionsByUser_result:
  assumes "reliable E" and "tx_open tx" and "db_ok (Tx_db tx)" and "ids_ok (Tx_db tx)"
    and "DB_settings (Tx_db tx) = Some s" and "user_row (Tx_db tx) uid = Some u" and "uid \<noteq> 0"
  shows "\<exists>t. GetPermissionsByUser E uid tx =
    (Ok (base_permissions (Tx_db tx) s uid, Some (user_view (Tx_db tx) u)), tx\<lparr>Tx_tick := t\<rparr>)"
proof -
  let ?db = "Tx_db tx" and ?tx = "next_tick (next_tick tx)"
  have keys: "keys_ok ?db" using assms(3) by (simp add: db_ok_def)
  have uid: "UserRow_id u = uid"
    using assms(6) keys by (simp add: user_row_view keys_ok_def)
  have "0 \<notin> set (roles_of_user ?db uid)"
    using assms(3) ids_ok_zero [OF assms(4)]
    by (auto simp: set_roles_of_user db_ok_def refs_ok_def refers_def)
  then obtain t where "add_role_permissions E (roles_of_user ?db uid)
      (Settings_DefaultPermissions s) ?tx =
    (Ok (fold (\<lambda>r a. a OR Role_Permissions r) (List.map_filter (role_row ?db)
       (roles_of_user ?db uid)) (Settings_DefaultPermissions s)), ?tx\<lparr>Tx_tick := t\<rparr>)"
    using add_role_permissions_result [of E ?tx "roles_of_user ?db uid"] assms keys by auto
  moreover have "GetSettings E tx = (Ok s, next_tick tx)"
    using assms by (simp add: GetSettings_def)
  moreover have "GetUser E uid (next_tick tx) = (Ok (user_view ?db u), ?tx)"
    using assms keys by (subst GetUser_result) auto
  ultimately show ?thesis
    by (auto simp: GetPermissionsByUser_def user_view_def uid base_permissions_def Let_def)
qed

lemma GetPermissionsByChannel_result:
  assumes "reliable E" and "tx_open tx" and "db_ok (Tx_db tx)" and "ids_ok (Tx_db tx)"
    and "DB_settings (Tx_db tx) = Some s" and "user_row (Tx_db tx) uid = Some u"
  shows "fst (GetPermissionsByChannel E uid cid tx) =
    Ok (mask_permissions
      (case channel_row (Tx_db tx) cid of
         None \<Rightarrow> (base_permissions (Tx_db tx) s uid, 0)
       | Some c \<Rightarrow> apply_overwrites uid (roles_of_user (Tx_db tx) uid)
           (Channel_Overwrites (channel_view (Tx_db tx) c))
           (base_permissions (Tx_db tx) s uid, 0)))"
proof -
  let ?db = "Tx_db tx"
  have keys: "keys_ok ?db" using assms(3) by (simp add: db_ok_def)
  have u: "u \<in> set (DB_users ?db)" "UserRow_id u = uid"
    using assms(6) keys by (simp_all add: user_row_view keys_ok_def)
  then have "uid \<noteq> 0" using ids_ok_zero [OF assms(4)] by auto
  from GetPermissionsByUser_result [OF assms this] obtain t where
    user: "GetPermissionsByUser E uid tx =
      (Ok (base_permissions ?db s uid, Some (user_view ?db u)), tx\<lparr>Tx_tick := t\<rparr>)" ..
  have none: "channel_row ?db 0 = None"
    using ids_ok_zero [OF assms(4)] by (auto simp: channel_row_def find_None_iff)
  have open_t: "tx_open (tx\<lparr>Tx_tick := t\<rparr>)" using assms(2) by (simp add: tx_open_def)
  show ?thesis
  proof (cases "cid = 0")
    case True
    then show ?thesis by (simp add: GetPermissionsByChannel_def user none)
  next
    case False
    with assms(1) open_t keys have "GetChannel E cid (tx\<lparr>Tx_tick := t\<rparr>) =
        (case channel_row ?db cid of
           None \<Rightarrow> (Err (Coded ErrorCodeInvalidRequest), next_tick (tx\<lparr>Tx_tick := t\<rparr>))
         | Some c \<Rightarrow> (Ok (channel_view ?db c), next_tick (tx\<lparr>Tx_tick := t\<rparr>)))"
      by (simp add: GetChannel_result split: option.split)
    with False u(2) show ?thesis
      by (simp add: GetPermissionsByChannel_def user user_view_def user_of_row_def
          split: option.split)
  qed
qed

lemma channel_row_view:
  assumes "distinct (map ChannelRow_id (DB_channels db))"
  shows "channel_row db cid = Some c \<longleftrightarrow> c \<in> set (DB_channels db) \<and> ChannelRow_id c = cid"
  unfolding channel_row_def by (rule find_key_iff) (rule assms)

lemma permits_masked:
  assumes "db_ok db" and "ids_ok db" and "DB_settings db = Some s" and "n < 64"
  shows "bit (mask_permissions
      (case channel_row db cid of
         None \<Rightarrow> (base_permissions db s uid, 0)
       | Some c \<Rightarrow> apply_overwrites uid (roles_of_user db uid)
           (Channel_Overwrites (channel_view db c)) (base_permissions db s uid, 0))) n
    \<longleftrightarrow> permits db uid cid n"
proof (cases "channel_row db cid")
  case None
  then have "cid \<notin> channel_ids db" by (auto simp: channel_row_def find_None_iff)
  with None assms permits_no_channel [of db cid n "base_permissions db s uid" uid] show ?thesis
    by (simp add: db_ok_def bit_base_permissions)
next
  case (Some c)
  then have "ChannelRow_id c = cid"
    using assms(1) by (simp add: channel_row_view db_ok_def keys_ok_def)
  with Some assms permits_channel_view [of db c cid n "base_permissions db s uid" uid] show ?thesis
    by (simp add: db_ok_def bit_base_permissions)
qed

section \<open>The index\<close>

lemma get_fold_put:
  "get (fold (\<lambda>x. put (f x) (g x)) xs m) k =
     (case List.find (\<lambda>x. f x = k) (rev xs) of None \<Rightarrow> get m k | Some x \<Rightarrow> Some (g x))"
proof (induction xs rule: rev_induct)
  case Nil
  then show ?case by simp
next
  case (snoc x xs)
  then show ?case by simp
qed

lemma find_key_perm:
  assumes "distinct (map f xs)" and "mset ys = mset xs"
  shows "List.find (\<lambda>x. f x = k) ys = List.find (\<lambda>x. f x = k) xs"
proof -
  have ys: "distinct (map f ys)" and set: "set ys = set xs"
    using assms by (metis mset_eq_imp_distinct_iff mset_map, metis mset_eq_setD)
  show ?thesis
  proof (cases "List.find (\<lambda>x. f x = k) xs")
    case None
    then have "List.find (\<lambda>x. f x = k) ys = None" by (simp add: find_None_iff set)
    with None show ?thesis by simp
  next
    case (Some x)
    then have "List.find (\<lambda>x. f x = k) ys = Some x"
      by (simp add: find_key_iff [OF assms(1)] find_key_iff [OF ys] set)
    with Some show ?thesis by simp
  qed
qed

lemma get_fold_put_distinct:
  assumes "distinct (map f xs)"
  shows "get (fold (\<lambda>x. put (f x) (g x)) xs []) k = map_option g (List.find (\<lambda>x. f x = k) xs)"
proof -
  have "List.find (\<lambda>x. f x = k) (rev xs) = List.find (\<lambda>x. f x = k) xs"
    by (rule find_key_perm) (simp_all add: assms)
  then show ?thesis by (simp add: get_fold_put split: option.split)
qed

lemma gomap_ok_fold_put: "gomap_ok m \<Longrightarrow> gomap_ok (fold (\<lambda>x. put (f x) (g x)) xs m)"
  by (induction xs arbitrary: m) simp_all

lemma info_loop_permissions:
  "(case info_loop roles rids (rank, hr, h, ps) of (rank, hr, h, ps) \<Rightarrow> ps) =
     fold (\<lambda>r a. a OR Role_Permissions r) (List.map_filter (get roles) rids) ps"
  by (induction rids arbitrary: rank hr h ps)
    (auto simp: map_filter_simps Let_def split: option.split)

lemma worker_next:
  "(idx \<le> i \<and> i mod 8 = idx mod 8) = (i = idx \<or> idx + 8 \<le> i \<and> i mod 8 = idx mod (8 :: nat))"
proof -
  have "i = idx \<or> idx + 8 \<le> i" if "idx \<le> i" and "i mod 8 = idx mod 8"
  proof -
    from that have "8 dvd i - idx" by (metis mod_eq_dvd_iff_nat)
    then obtain k where "i - idx = 8 * k" by (rule dvdE)
    with that(1) show ?thesis by (cases k) auto
  qed
  then show ?thesis by auto
qed

lemma in_worker_loop: "i \<in> set (worker_loop idx n) \<longleftrightarrow> idx \<le> i \<and> i < n \<and> i mod 8 = idx mod 8"
proof (induction idx n rule: worker_loop.induct)
  case (1 idx n)
  show ?case
  proof (cases "idx < n")
    case True
    then have "i \<in> set (worker_loop idx n) \<longleftrightarrow> i = idx \<or> i \<in> set (worker_loop (idx + 8) n)"
      by (simp add: worker_loop.simps [of idx n])
    with 1 [OF True] True worker_next [of idx i] show ?thesis by auto
  next
    case False
    then show ?thesis by (auto simp: worker_loop.simps [of idx n])
  qed
qed

text \<open>The eight workers together take every index.\<close>

lemma workers_cover: "set (concat (map (\<lambda>w. worker_loop w n) [0..<8])) = {..<n}"
proof -
  have "i \<in> (\<Union>w \<in> {0..<8}. set (worker_loop w n)) \<longleftrightarrow> i < n" for i
  proof
    assume "i < n"
    then have "i \<in> set (worker_loop (i mod 8) n)" by (simp add: in_worker_loop)
    moreover have "i mod 8 \<in> {0..<8}" by simp
    ultimately show "i \<in> (\<Union>w \<in> {0..<8}. set (worker_loop w n))" by blast
  qed (auto simp: in_worker_loop)
  then show ?thesis by auto
qed

lemma fold_workers:
  "fold (\<lambda>w. fold (f :: nat \<Rightarrow> 'a \<Rightarrow> 'a) (g w)) ws x = fold f (concat (map g ws)) x"
  by (induction ws arbitrary: x) simp_all

lemma computeUserInfo_cong:
  "Index_Roles ix = Index_Roles ix' \<Longrightarrow> Index_Settings ix = Index_Settings ix' \<Longrightarrow>
     computeUserInfo ix u = computeUserInfo ix' u"
  by (simp add: computeUserInfo_def)

lemma fold_worker_step:
  "fold (worker_step ids) idxs ix = ix\<lparr>Index_UserInfos :=
     Index_UserInfos (fold (worker_step ids) idxs ix)\<rparr>"
  "get (Index_UserInfos (fold (worker_step ids) idxs ix)) key =
     (case get (Index_Users ix) key of
        None \<Rightarrow> get (Index_UserInfos ix) key
      | Some u \<Rightarrow> if \<exists>i \<in> set idxs. ids ! i = key then Some (computeUserInfo ix u)
          else get (Index_UserInfos ix) key)"
proof (induction idxs arbitrary: ix)
  case Nil
  {
    case 1
    then show ?case by simp
  next
    case 2
    then show ?case by (simp split: option.split)
  }
next
  case (Cons i idxs)
  {
    case 1
    show ?case
      using Cons.IH(1) [of "worker_step ids i ix"]
      by (simp add: worker_step_def Let_def split: option.splits)
  next
    case 2
    have "computeUserInfo (worker_step ids i ix) u = computeUserInfo ix u"
      and "Index_Users (worker_step ids i ix) = Index_Users ix" for u
      by (auto simp: worker_step_def Let_def intro: computeUserInfo_cong split: option.split)
    then show ?case
      using Cons.IH(2) [of "worker_step ids i ix"]
      by (auto simp: worker_step_def Let_def split: option.split)
  }
qed

lemma gomap_ok_worker_step:
  "gomap_ok (Index_UserInfos ix) \<Longrightarrow> gomap_ok (Index_UserInfos (fold (worker_step ids) idxs ix))"
  by (induction idxs arbitrary: ix) (auto simp: worker_step_def Let_def split: option.split)

lemma gomap_ok_UpdateUserInfos:
  "gomap_ok (Index_UserInfos ix) \<Longrightarrow> gomap_ok (Index_UserInfos (UpdateUserInfos visit ix))"
  unfolding UpdateUserInfos_def Let_def fold_workers by (rule gomap_ok_worker_step)

lemma UpdateUserInfos_result:
  assumes "permutes_keys visit"
  shows "UpdateUserInfos visit ix = ix\<lparr>Index_UserInfos := Index_UserInfos (UpdateUserInfos visit ix)\<rparr>"
    and "get (Index_UserInfos (UpdateUserInfos visit ix)) key =
      (case get (Index_UserInfos ix) key of
         None \<Rightarrow> None
       | Some ui \<Rightarrow> (case get (Index_Users ix) key of
           None \<Rightarrow> Some ui | Some u \<Rightarrow> Some (computeUserInfo ix u)))"
proof -
  let ?ids = "visit (keys (Index_UserInfos ix))"
  have U: "UpdateUserInfos visit ix =
      fold (worker_step ?ids) (concat (map (\<lambda>w. worker_loop w (length ?ids)) [0..<8])) ix"
    unfolding UpdateUserInfos_def Let_def fold_workers ..
  show "UpdateUserInfos visit ix = ix\<lparr>Index_UserInfos := Index_UserInfos (UpdateUserInfos visit ix)\<rparr>"
    unfolding U by (rule fold_worker_step(1))
  have "(\<exists>i \<in> {..<length ?ids}. ?ids ! i = key) \<longleftrightarrow> key \<in> set ?ids"
    by (auto simp: in_set_conv_nth)
  then show "get (Index_UserInfos (UpdateUserInfos visit ix)) key =
      (case get (Index_UserInfos ix) key of
         None \<Rightarrow> None
       | Some ui \<Rightarrow> (case get (Index_Users ix) key of
           None \<Rightarrow> Some ui | Some u \<Rightarrow> Some (computeUserInfo ix u)))"
    unfolding U fold_worker_step(2) workers_cover
    using assms by (auto simp: get_keys_iff split: option.split)
qed

end
