(* ===== verification/UserLists.thy ===== *)
theory UserLists
  imports UserIndex
begin

text \<open>
  The sorted and grouped user list: rebuilding it, moving one user in it, and the ranges of it
  that a change touches. \<open>list_ok\<close> is the specification: every group holds exactly its members
  in the order of \<open>SortEntry\<close>, and the view is the groups one after the other.
\<close>

section \<open>Changed ranges\<close>

definition covered :: "IndexRange list \<Rightarrow> int \<Rightarrow> bool" where
  "covered rs p \<longleftrightarrow> (\<exists>r \<in> set rs. IndexRange_From r \<le> p \<and> p < IndexRange_To r)"

lemma covered_append [simp]: "covered (xs @ ys) p \<longleftrightarrow> covered xs p \<or> covered ys p"
  by (auto simp: covered_def)

lemma covered_simps [simp]: "\<not> covered [] p" "covered [index_range a b] p \<longleftrightarrow> a \<le> p \<and> p < b"
  by (simp_all add: covered_def)

definition differs :: "snowflake list \<Rightarrow> snowflake list \<Rightarrow> nat \<Rightarrow> bool" where
  "differs old new p \<longleftrightarrow> p < length old \<and> (length new \<le> p \<or> new ! p \<noteq> old ! p)"

lemma differs_Cons:
  "differs (v # old) new p \<longleftrightarrow>
     (case p of 0 \<Rightarrow> new = [] \<or> hd new \<noteq> v | Suc q \<Rightarrow> differs old (tl new) q)"
  by (cases new; cases p) (auto simp: differs_def)

lemma differs_step:
  "int idx \<le> p \<and> differs (v # old) new (nat p - idx) \<longleftrightarrow>
     p = int idx \<and> (new = [] \<or> hd new \<noteq> v) \<or>
     int (Suc idx) \<le> p \<and> differs old (tl new) (nat p - Suc idx)"
proof (cases "int (Suc idx) \<le> p")
  case True
  then have "nat p - idx = Suc (nat p - Suc idx)" by linarith
  with True show ?thesis by (simp add: differs_Cons)
next
  case False
  then show ?thesis by (cases "p = int idx") (simp_all add: differs_Cons)
qed

lemma diff_loop_covered:
  assumes "case start of None \<Rightarrow> True | Some s \<Rightarrow> s < idx"
    and "diff_loop old new idx start changes = (changes', start')"
  shows "covered (changes' @ (case start' of None \<Rightarrow> []
      | Some s \<Rightarrow> [index_range (int s) (int (idx + length old))])) p \<longleftrightarrow>
    covered changes p \<or> (case start of None \<Rightarrow> False | Some s \<Rightarrow> int s \<le> p \<and> p < int idx) \<or>
    (int idx \<le> p \<and> differs old new (nat p - idx))"
  using assms
proof (induction old new idx start changes rule: diff_loop.induct)
  case (1 new idx start changes)
  then show ?case by (auto simp: differs_def split: option.splits)
next
  case (2 v old new idx start changes)
  have split: "covered changes p \<or> (case start of None \<Rightarrow> False | Some s \<Rightarrow> int s \<le> p \<and> p < int idx) \<or>
      (int idx \<le> p \<and> differs (v # old) new (nat p - idx)) \<longleftrightarrow>
    covered changes p \<or> (case start of None \<Rightarrow> False | Some s \<Rightarrow> int s \<le> p \<and> p < int idx) \<or>
      p = int idx \<and> (new = [] \<or> hd new \<noteq> v) \<or>
      int (Suc idx) \<le> p \<and> differs old (tl new) (nat p - Suc idx)"
    unfolding differs_step by blast
  have len: "idx + length (v # old) = Suc idx + length old" by simp
  show ?case
  proof (cases "new = [] \<or> hd new \<noteq> v")
    case True
    let ?s = "case start of None \<Rightarrow> Some idx | Some s \<Rightarrow> Some s"
    have "diff_loop old (tl new) (Suc idx) ?s changes = (changes', start')"
      using True 2(5) by simp
    moreover have "case ?s of None \<Rightarrow> True | Some s \<Rightarrow> s < Suc idx"
      using 2(4) by (auto split: option.splits)
    ultimately show ?thesis
      unfolding split len using 2(1) [OF True] True 2(4) by (cases start) auto
  next
    case False
    show ?thesis
    proof (cases start)
      case None
      have "diff_loop old (tl new) (Suc idx) None changes = (changes', start')"
        using False None 2(5) by simp
      then show ?thesis
        unfolding split len using 2(2) [OF False None] False None by auto
    next
      case (Some s)
      have "diff_loop old (tl new) (Suc idx) None (changes @ [index_range (int s) (int idx)])
          = (changes', start')"
        using False Some 2(5) by simp
      then show ?thesis
        unfolding split len using 2(3) [OF False Some] False Some by auto
    qed
  qed
qed

lemma covered_view_changes: "covered (view_changes old new) p \<longleftrightarrow> 0 \<le> p \<and> differs old new (nat p)"
proof -
  obtain changes start where loop: "diff_loop old new 0 None [] = (changes, start)"
    by fastforce
  have "covered (view_changes old new) p = covered (changes @ (case start of None \<Rightarrow> []
      | Some s \<Rightarrow> [index_range (int s) (int (0 + length old))])) p"
    by (auto simp: view_changes_def loop split: option.split)
  with diff_loop_covered [OF _ loop, of p] show ?thesis by simp
qed

section \<open>Binary search\<close>

lemma search_loop_bounds:
  assumes "i \<le> j"
    and "\<And>a b. a \<le> b \<Longrightarrow> b < n \<Longrightarrow> f a \<Longrightarrow> f b" and "j \<le> n"
    and "\<And>a. a < i \<Longrightarrow> \<not> f a" and "\<And>a. j \<le> a \<Longrightarrow> a < n \<Longrightarrow> f a"
  shows "search_loop f i j \<le> n \<and> (\<forall>a < search_loop f i j. \<not> f a) \<and>
    (\<forall>a. search_loop f i j \<le> a \<and> a < n \<longrightarrow> f a)"
  using assms
proof (induction f i j rule: search_loop.induct)
  case (1 f i j)
  show ?case
  proof (cases "i < j")
    case False
    then have "search_loop f i j = i" by (simp add: search_loop.simps [of f i j])
    moreover have "i = j" using False 1(3) by simp
    ultimately show ?thesis using 1(4-7) by auto
  next
    case True
    define h where "h = (i + j) div 2"
    have h: "i \<le> h" "h < j" using True by (auto simp: h_def)
    show ?thesis
    proof (cases "f h")
      case False
      have "\<And>a. a < h + 1 \<Longrightarrow> \<not> f a"
        using False 1(4) h(2) 1(5) by (metis Suc_eq_plus1 less_Suc_eq_le order_less_le_trans)
      with 1(1) [OF True h_def False] 1(4-7) h show ?thesis
        by (simp add: search_loop.simps [of f i j] True Let_def h_def [symmetric] False)
    next
      case fh: True
      have "\<And>a. h \<le> a \<Longrightarrow> a < n \<Longrightarrow> f a" using fh 1(4) by blast
      with 1(2) [OF True h_def] fh 1(4-7) h show ?thesis
        by (simp add: search_loop.simps [of f i j] True Let_def h_def [symmetric] fh)
    qed
  qed
qed

text \<open>In a list sorted by a linear order, the search finds where an element belongs.\<close>

lemma insort_at:
  assumes "sorted xs" and "p \<le> length xs" and "\<And>a. a < p \<Longrightarrow> xs ! a < x"
    and "\<And>a. p \<le> a \<Longrightarrow> a < length xs \<Longrightarrow> x < xs ! a"
  shows "take p xs @ x # drop p xs = insort x (xs :: 'a :: linorder list)"
  using assms
proof (induction xs arbitrary: p)
  case Nil
  then show ?case by simp
next
  case (Cons y xs)
  show ?case
  proof (cases p)
    case 0
    with Cons.prems(4) [of 0] show ?thesis by (simp add: order_less_imp_le)
  next
    case (Suc q)
    have "y < x" using Cons.prems(3) [of 0] Suc by simp
    moreover have "xs ! a < x" if "a < q" for a
      using Cons.prems(3) [of "Suc a"] that Suc by simp
    moreover have "x < xs ! a" if "q \<le> a" and "a < length xs" for a
      using Cons.prems(4) [of "Suc a"] that Suc by simp
    ultimately have "y < x" and "take q xs @ x # drop q xs = insort x xs"
      using Cons.prems(1,2) Suc by (auto intro!: Cons.IH)
    then show ?thesis using Suc by (simp add: not_le [symmetric])
  qed
qed

lemma search_insort:
  assumes "sorted xs" and "x \<notin> set (xs :: 'a :: linorder list)"
  shows "take (sort_Search (length xs) (\<lambda>j. x < xs ! j)) xs @ x #
    drop (sort_Search (length xs) (\<lambda>j. x < xs ! j)) xs = insort x xs"
proof -
  have mono: "x < xs ! b" if "a \<le> b" and "b < length xs" and "x < xs ! a" for a b
    using sorted_nth_mono [OF assms(1) that(1,2)] that(3) by simp
  define p where "p = sort_Search (length xs) (\<lambda>j. x < xs ! j)"
  have "p \<le> length xs \<and> (\<forall>a < p. \<not> x < xs ! a) \<and> (\<forall>a. p \<le> a \<and> a < length xs \<longrightarrow> x < xs ! a)"
    unfolding p_def sort_Search_def by (rule search_loop_bounds) (use mono in auto)
  then have p: "p \<le> length xs" and below: "\<And>a. a < p \<Longrightarrow> \<not> x < xs ! a"
    and above: "\<And>a. p \<le> a \<Longrightarrow> a < length xs \<Longrightarrow> x < xs ! a"
    by blast+
  have "xs ! a < x" if "a < p" for a
  proof -
    have "xs ! a \<in> set xs" using that p by simp
    then have "xs ! a \<noteq> x" using assms(2) by metis
    with below [OF that] show ?thesis by simp
  qed
  then show ?thesis
    unfolding p_def [symmetric] by (rule insort_at [OF assms(1) p _ above])
qed

section \<open>Groups and their members\<close>

definition user_group :: "Index \<Rightarrow> snowflake \<Rightarrow> snowflake option" where
  "user_group ix uid =
     (case (get (Index_Users ix) uid, get (Index_UserInfos ix) uid) of
        (Some u, Some ui) \<Rightarrow> Some (getUserGroup u ui)
      | _ \<Rightarrow> None)"

definition members :: "Index \<Rightarrow> snowflake \<Rightarrow> snowflake set" where
  "members ix gid = {uid. user_group ix uid = Some gid}"

definition group_members :: "Index \<Rightarrow> snowflake \<Rightarrow> snowflake list" where
  "group_members ix gid =
     map SortEntry_ID (sorted_list_of_set (sort_entry ix ` members ix gid))"

lemma user_group_user: "user_group ix uid = Some gid \<Longrightarrow> uid \<in> set (keys (Index_Users ix))"
  by (auto simp: user_group_def get_keys_iff split: option.splits)

lemma finite_members [simp]: "finite (members ix gid)"
  by (rule finite_subset [of _ "set (keys (Index_Users ix))"])
    (auto simp: members_def user_group_user)

lemma sort_entry_inject [simp]: "sort_entry ix a = sort_entry ix b \<longleftrightarrow> a = b"
  by (auto simp: sort_entry_def)

lemma SortEntry_ID_sort_entry [simp]: "SortEntry_ID (sort_entry ix a) = a"
  by (simp add: sort_entry_def)

lemma set_group_members [simp]: "set (group_members ix gid) = members ix gid"
  by (simp add: group_members_def image_image)

lemma distinct_entry_ids:
  "xs \<subseteq> range (sort_entry ix) \<Longrightarrow> finite xs \<Longrightarrow>
     distinct (map SortEntry_ID (sorted_list_of_set xs))"
  using inj_on_subset [of SortEntry_ID "range (sort_entry ix)" xs]
  by (auto simp: distinct_map inj_on_def)

lemma distinct_group_members [simp]: "distinct (group_members ix gid)"
  unfolding group_members_def by (rule distinct_entry_ids) auto

lemma sort_group_members:
  assumes "distinct uids" and "set uids = members ix gid"
  shows "sort_group ix uids = group_members ix gid"
proof -
  have "distinct (map (sort_entry ix) uids)"
    using assms(1) by (simp add: distinct_map inj_on_def)
  then have "sorted_list_of_set (set (map (sort_entry ix) uids)) = sort (map (sort_entry ix) uids)"
    by (simp only: sorted_list_of_set_sort_remdups distinct_remdups_id)
  then show ?thesis
    by (simp add: sort_group_def group_members_def assms(2))
qed

definition infos_cover :: "Index \<Rightarrow> bool" where
  "infos_cover ix \<longleftrightarrow> set (keys (Index_Users ix)) \<subseteq> set (keys (Index_UserInfos ix))"

lemma fill_groups_result:
  assumes "infos_cover ix" and "set uids \<subseteq> set (keys (Index_Users ix))"
  shows "\<exists>g. fill_groups ix uids groups = Some g \<and>
    (\<forall>gid. get_slice g gid =
       get_slice groups gid @ filter (\<lambda>uid. user_group ix uid = Some gid) uids)"
  using assms(2)
proof (induction uids arbitrary: groups)
  case Nil
  then show ?case by simp
next
  case (Cons uid uids)
  then have "uid \<in> set (keys (Index_Users ix))" and "uid \<in> set (keys (Index_UserInfos ix))"
    using assms(1) by (auto simp: infos_cover_def)
  then obtain u ui where u: "get (Index_Users ix) uid = Some u"
    and ui: "get (Index_UserInfos ix) uid = Some ui"
    unfolding get_keys_iff by blast
  then have group: "user_group ix uid = Some (getUserGroup u ui)" by (simp add: user_group_def)
  let ?groups = "put (getUserGroup u ui) (get_slice groups (getUserGroup u ui) @ [uid]) groups"
  obtain g where "fill_groups ix uids ?groups = Some g" and "\<And>gid. get_slice g gid =
      get_slice ?groups gid @ filter (\<lambda>uid. user_group ix uid = Some gid) uids"
    using Cons.IH [of ?groups] Cons.prems by auto
  with group u ui show ?case by (simp add: Let_def)
qed

lemma get_slice_keys2: "x \<in> set (get_slice m k) \<Longrightarrow> k \<in> set (keys m)"
  by (cases "get m k") (auto simp: get_slice_def get_keys_iff)

lemma get_slice_Nil [simp]: "get_slice [] gid = []"
  by (simp add: get_slice_def)

lemma get_slice_fold_put:
  "get_slice (fold (\<lambda>gid. put gid []) order g) gid = (if gid \<in> set order then [] else get_slice g gid)"
  by (induction order arbitrary: g) auto

lemma get_slice_fold_sort:
  assumes "distinct order"
  shows "get_slice (fold (\<lambda>gid g. put gid (f (get_slice g gid)) g) order g) gid =
    (if gid \<in> set order then f (get_slice g gid) else get_slice g gid)"
  using assms by (induction order arbitrary: g) auto

section \<open>Rebuilding the list\<close>

text \<open>Snowflakes are never the ids 1 and 2 of the groups of users without a hoist, and an id is
  not both a role's and a user's.\<close>

definition maps_ok :: "Index \<Rightarrow> bool" where
  "maps_ok ix \<longleftrightarrow>
     gomap_ok (Index_Users ix) \<and> gomap_ok (Index_Roles ix) \<and> gomap_ok (Index_UserInfos ix) \<and>
     set (keys (Index_UserInfos ix)) = set (keys (Index_Users ix)) \<and>
     (\<forall>uid u. get (Index_Users ix) uid = Some u \<longrightarrow> User_ID u = uid) \<and>
     (\<forall>rid r. get (Index_Roles ix) rid = Some r \<longrightarrow> Role_ID r = rid) \<and>
     {0, UserPresenceOnline, UserPresenceOffline} \<inter> set (keys (Index_Roles ix)) = {} \<and>
     set (keys (Index_Users ix)) \<inter>
       ({UserPresenceOnline, UserPresenceOffline} \<union> set (keys (Index_Roles ix))) = {}"

definition hoists_valid :: "Index \<Rightarrow> bool" where
  "hoists_valid ix \<longleftrightarrow>
     (\<forall>uid ui. get (Index_UserInfos ix) uid = Some ui \<longrightarrow>
        UserInfo_Hoist ui = 0 \<or> role_hoisted ix (UserInfo_Hoist ui))"

definition hoisted_roles :: "Index \<Rightarrow> snowflake set" where
  "hoisted_roles ix = {rid. role_hoisted ix rid}"

lemma role_hoisted_key: "role_hoisted ix rid \<Longrightarrow> rid \<in> set (keys (Index_Roles ix))"
  by (auto simp: role_hoisted_def get_keys_iff split: option.splits)

lemma presence_ids [simp]: "UserPresenceOnline = 2" "UserPresenceOffline = 1"
  by (simp_all add: presence_defs)

lemma group_order_set:
  "permutes_keys visit \<Longrightarrow> set (group_order visit ix) =
     hoisted_roles ix \<union> {UserPresenceOnline, UserPresenceOffline}"
  by (auto simp: group_order_def hoisted_roles_def role_hoisted_key)

lemma group_order_distinct:
  assumes "permutes_keys visit" and "maps_ok ix"
  shows "distinct (group_order visit ix)"
  using assms by (auto simp: group_order_def maps_ok_def gomap_ok_def)

lemma user_group_in_order:
  assumes "hoists_valid ix" and "user_group ix uid = Some gid"
  shows "gid \<in> hoisted_roles ix \<union> {UserPresenceOnline, UserPresenceOffline}"
  using assms
  by (auto simp: user_group_def getUserGroup_def hoists_valid_def hoisted_roles_def
    split: option.splits if_splits)

text \<open>The specification of the list.\<close>

definition list_ok :: "Index \<Rightarrow> bool" where
  "list_ok ix \<longleftrightarrow> (let l = Index_List ix; order = UserList_GroupOrder l in
     distinct order \<and>
     set order = hoisted_roles ix \<union> {UserPresenceOnline, UserPresenceOffline} \<and>
     sorted (map (role_position ix) (filter (role_hoisted ix) order)) \<and>
     drop (length order - 2) order = [UserPresenceOnline, UserPresenceOffline] \<and>
     (\<forall>gid. get_slice (UserList_Groups l) gid = group_members ix gid) \<and>
     UserList_View l = view_of order (UserList_Groups l))"

lemma list_update_simps [simp]:
  "user_group (ix\<lparr>Index_List := l\<rparr>) = user_group ix"
  "user_group (ix\<lparr>Index_Stale := b\<rparr>) = user_group ix"
  "user_group (ix\<lparr>Index_Changes := c\<rparr>) = user_group ix"
  "sort_entry (ix\<lparr>Index_List := l\<rparr>) = sort_entry ix"
  "sort_entry (ix\<lparr>Index_Stale := b\<rparr>) = sort_entry ix"
  "sort_entry (ix\<lparr>Index_Changes := c\<rparr>) = sort_entry ix"
  "role_position (ix\<lparr>Index_List := l\<rparr>) = role_position ix"
  "role_position (ix\<lparr>Index_Stale := b\<rparr>) = role_position ix"
  "role_position (ix\<lparr>Index_Changes := c\<rparr>) = role_position ix"
  "role_hoisted (ix\<lparr>Index_List := l\<rparr>) = role_hoisted ix"
  "role_hoisted (ix\<lparr>Index_Stale := b\<rparr>) = role_hoisted ix"
  "role_hoisted (ix\<lparr>Index_Changes := c\<rparr>) = role_hoisted ix"
  by (simp_all add: fun_eq_iff user_group_def sort_entry_def display_name_def role_position_def
    role_hoisted_def)

lemma list_update_members [simp]:
  "group_members (ix\<lparr>Index_List := l\<rparr>) = group_members ix"
  "group_members (ix\<lparr>Index_Stale := b\<rparr>) = group_members ix"
  "group_members (ix\<lparr>Index_Changes := c\<rparr>) = group_members ix"
  "hoisted_roles (ix\<lparr>Index_List := l\<rparr>) = hoisted_roles ix"
  "hoisted_roles (ix\<lparr>Index_Stale := b\<rparr>) = hoisted_roles ix"
  "hoisted_roles (ix\<lparr>Index_Changes := c\<rparr>) = hoisted_roles ix"
  by (simp_all add: fun_eq_iff group_members_def members_def hoisted_roles_def)

lemma members_filter:
  "set (filter (\<lambda>uid. user_group ix uid = Some gid) (visit (keys (Index_Users ix)))) = members ix gid"
  if "permutes_keys visit"
  using that by (auto simp: members_def user_group_user)

lemma group_order_shape:
  assumes "permutes_keys visit" and "maps_ok ix" and "order = group_order visit ix"
  shows "distinct order"
    and "set order = hoisted_roles ix \<union> {UserPresenceOnline, UserPresenceOffline}"
    and "sorted (map (role_position ix) (filter (role_hoisted ix) order))"
    and "drop (length order - 2) order = [UserPresenceOnline, UserPresenceOffline]"
proof -
  have no: "\<not> role_hoisted ix 1" "\<not> role_hoisted ix 2"
    using assms(2) role_hoisted_key [of ix 1] role_hoisted_key [of ix 2]
    by (auto simp: maps_ok_def)
  show "distinct order" and "set order = hoisted_roles ix \<union> {UserPresenceOnline, UserPresenceOffline}"
    using assms by (simp_all add: group_order_distinct group_order_set)
  have "filter (role_hoisted ix) order =
      sort_key (role_position ix) (filter (role_hoisted ix) (visit (keys (Index_Roles ix))))"
    using no by (simp add: assms(3) group_order_def filter_sort)
  then show "sorted (map (role_position ix) (filter (role_hoisted ix) order))"
    by simp
  show "drop (length order - 2) order = [UserPresenceOnline, UserPresenceOffline]"
    by (simp add: assms(3) group_order_def)
qed

lemma UpdateUserList_groups:
  assumes "permutes_keys visit" and "maps_ok ix"
  shows "\<exists>groups. UpdateUserList visit ix = Some (ix\<lparr>
      Index_List := \<lparr>UserList_GroupOrder = group_order visit ix, UserList_Groups = groups,
        UserList_View = view_of (group_order visit ix) groups\<rparr>,
      Index_Stale := False,
      Index_Changes := Index_Changes ix @ view_changes (UserList_View (Index_List ix))
        (view_of (group_order visit ix) groups)\<rparr>) \<and>
    (\<forall>gid. set (get_slice groups gid) = members ix gid) \<and>
    (\<forall>gid \<in> set (group_order visit ix). get_slice groups gid = group_members ix gid)"
proof -
  let ?order = "group_order visit ix"
  let ?uids = "visit (keys (Index_Users ix))"
  have cover: "infos_cover ix" using assms(2) by (simp add: infos_cover_def maps_ok_def)
  obtain g where g: "fill_groups ix ?uids (fold (\<lambda>gid. put gid []) ?order []) = Some g"
    and slices: "\<And>gid. get_slice g gid = filter (\<lambda>uid. user_group ix uid = Some gid) ?uids"
    using fill_groups_result [OF cover, of ?uids "fold (\<lambda>gid. put gid []) ?order []"] assms(1)
    by (auto simp: get_slice_fold_put)
  define groups where
    "groups = fold (\<lambda>gid g. put gid (sort_group ix (get_slice g gid)) g) ?order g"
  have "distinct ?uids" using assms(1,2) by (simp add: maps_ok_def gomap_ok_def)
  then have sorted: "sort_group ix (get_slice g gid) = group_members ix gid" for gid
    unfolding slices by (intro sort_group_members members_filter assms(1)) simp
  have slice: "get_slice groups gid =
      (if gid \<in> set ?order then group_members ix gid else get_slice g gid)" for gid
    unfolding groups_def get_slice_fold_sort [OF group_order_distinct [OF assms]] by (simp add: sorted)
  have "set (get_slice groups gid) = members ix gid" for gid
    using members_filter [OF assms(1), of ix gid] by (simp add: slice slices)
  with slice show ?thesis
    by (intro exI [of _ groups]) (simp add: UpdateUserList_def Let_def g groups_def)
qed

lemma UpdateUserList_result:
  assumes "permutes_keys visit" and "maps_ok ix" and "hoists_valid ix"
  shows "\<exists>groups. UpdateUserList visit ix = Some (ix\<lparr>
      Index_List := \<lparr>UserList_GroupOrder = group_order visit ix, UserList_Groups = groups,
        UserList_View = view_of (group_order visit ix) groups\<rparr>,
      Index_Stale := False,
      Index_Changes := Index_Changes ix @ view_changes (UserList_View (Index_List ix))
        (view_of (group_order visit ix) groups)\<rparr>) \<and>
    (\<forall>gid. get_slice groups gid = group_members ix gid)"
proof -
  from UpdateUserList_groups [OF assms(1,2)] obtain groups where
    up: "UpdateUserList visit ix = Some (ix\<lparr>
      Index_List := \<lparr>UserList_GroupOrder = group_order visit ix, UserList_Groups = groups,
        UserList_View = view_of (group_order visit ix) groups\<rparr>,
      Index_Stale := False,
      Index_Changes := Index_Changes ix @ view_changes (UserList_View (Index_List ix))
        (view_of (group_order visit ix) groups)\<rparr>)"
    and slices: "\<And>gid. set (get_slice groups gid) = members ix gid"
      "\<And>gid. gid \<in> set (group_order visit ix) \<Longrightarrow> get_slice groups gid = group_members ix gid"
    by blast
  have "get_slice groups gid = group_members ix gid" for gid
  proof (cases "gid \<in> set (group_order visit ix)")
    case False
    then have "members ix gid = {}"
      using user_group_in_order [OF assms(3)] group_order_set [OF assms(1)]
      by (auto simp: members_def)
    with slices(1) [of gid] show ?thesis by (simp add: group_members_def)
  qed (rule slices(2))
  with up show ?thesis by blast
qed

lemma list_ok_rebuilt:
  assumes "permutes_keys visit" and "maps_ok ix" and "hoists_valid ix"
    and "UpdateUserList visit ix = Some ix'"
  shows "list_ok ix'"
proof -
  obtain groups where ix': "ix' = ix\<lparr>
      Index_List := \<lparr>UserList_GroupOrder = group_order visit ix, UserList_Groups = groups,
        UserList_View = view_of (group_order visit ix) groups\<rparr>,
      Index_Stale := False,
      Index_Changes := Index_Changes ix @ view_changes (UserList_View (Index_List ix))
        (view_of (group_order visit ix) groups)\<rparr>"
    and slices: "\<forall>gid. get_slice groups gid = group_members ix gid"
    using UpdateUserList_result [OF assms(1-3)] assms(4) by auto
  show ?thesis
    using group_order_shape [OF assms(1,2) refl] slices
    by (simp add: ix' list_ok_def Let_def)
qed

section \<open>The view\<close>

lemma set_view_of: "set (view_of order groups) = set order \<union> (\<Union>gid \<in> set order. set (get_slice groups gid))"
  by (auto simp: view_of_def)

lemma distinct_view_of:
  assumes "distinct order" and "\<And>gid. gid \<in> set order \<Longrightarrow> distinct (get_slice groups gid)"
    and "\<And>g h. g \<noteq> h \<Longrightarrow> set (get_slice groups g) \<inter> set (get_slice groups h) = {}"
    and "\<And>g. set (get_slice groups g) \<inter> K = {}" and "set order \<subseteq> K"
  shows "distinct (view_of order groups)"
  using assms(1,2,5)
proof (induction order)
  case Nil
  then show ?case by (simp add: view_of_def)
next
  case (Cons g order)
  have view: "view_of (g # order) groups = g # get_slice groups g @ view_of order groups"
    by (simp add: view_of_def)
  have "x \<notin> set (view_of order groups)" if "x \<in> set (get_slice groups g)" for x
  proof -
    have "x \<notin> set order" using that Cons.prems(3) assms(4) [of g] by auto
    moreover have "x \<notin> set (get_slice groups h)" if "h \<in> set order" for h
      using that Cons.prems(1) assms(3) [of g h] \<open>x \<in> set (get_slice groups g)\<close> by auto
    ultimately show ?thesis unfolding set_view_of by auto
  qed
  moreover have "g \<notin> set (get_slice groups g)" and "g \<notin> set (view_of order groups)"
    using Cons.prems assms(4) unfolding set_view_of by auto
  ultimately show ?case
    using Cons by (auto simp: view)
qed

lemma members_disjoint: "g \<noteq> h \<Longrightarrow> members ix g \<inter> members ix h = {}"
  by (auto simp: members_def)

lemma disjoint_subset: "A \<inter> K = {} \<Longrightarrow> B \<subseteq> A \<Longrightarrow> B \<inter> K = {}"
  by blast

lemma disjoint_superset: "B \<subseteq> K \<Longrightarrow> A \<inter> K = {} \<Longrightarrow> A \<inter> B = {}"
  by blast

text \<open>No group heading is a user.\<close>

lemma members_no_heading:
  assumes "maps_ok ix"
  shows "members ix g \<inter> (hoisted_roles ix \<union> {UserPresenceOnline, UserPresenceOffline}) = {}"
proof -
  let ?K = "hoisted_roles ix \<union> {UserPresenceOnline, UserPresenceOffline}"
  have "?K \<subseteq> {UserPresenceOnline, UserPresenceOffline} \<union> set (keys (Index_Roles ix))"
    by (auto simp: hoisted_roles_def role_hoisted_key)
  moreover have "set (keys (Index_Users ix)) \<inter>
      ({UserPresenceOnline, UserPresenceOffline} \<union> set (keys (Index_Roles ix))) = {}"
    using assms(1) unfolding maps_ok_def by (elim conjE)
  ultimately have "set (keys (Index_Users ix)) \<inter> ?K = {}" by (rule disjoint_superset)
  moreover have "members ix g \<subseteq> set (keys (Index_Users ix))"
    using user_group_user unfolding members_def by blast
  ultimately show ?thesis by (rule disjoint_subset)
qed

text \<open>Every user is in the view exactly once, between the headings of the groups.\<close>

lemma view_contents:
  assumes "maps_ok ix" and "hoists_valid ix" and "list_ok ix"
  shows "distinct (UserList_View (Index_List ix))"
    and "set (UserList_View (Index_List ix)) =
      set (UserList_GroupOrder (Index_List ix)) \<union> set (keys (Index_Users ix))"
proof -
  let ?l = "Index_List ix" and ?K = "hoisted_roles ix \<union> {UserPresenceOnline, UserPresenceOffline}"
  have l: "distinct (UserList_GroupOrder ?l)" "set (UserList_GroupOrder ?l) = ?K"
    "\<And>gid. get_slice (UserList_Groups ?l) gid = group_members ix gid"
    "UserList_View ?l = view_of (UserList_GroupOrder ?l) (UserList_Groups ?l)"
    using assms(3) by (simp_all add: list_ok_def Let_def)
  have "members ix g \<inter> ?K = {}" for g
    by (rule members_no_heading [OF assms(1)])
  then show "distinct (UserList_View ?l)"
    unfolding l(4) using l(1,2)
    by (intro distinct_view_of [where K = ?K]) (simp_all add: l(3) members_disjoint)
  have "\<exists>gid \<in> ?K. uid \<in> members ix gid" if "uid \<in> set (keys (Index_Users ix))" for uid
  proof -
    have "uid \<in> set (keys (Index_UserInfos ix))" using that assms(1) by (simp add: maps_ok_def)
    with that obtain u ui where "get (Index_Users ix) uid = Some u"
      and "get (Index_UserInfos ix) uid = Some ui"
      unfolding get_keys_iff by blast
    then have "user_group ix uid = Some (getUserGroup u ui)" by (simp add: user_group_def)
    with user_group_in_order [OF assms(2) this] show ?thesis
      unfolding members_def by blast
  qed
  then show "set (UserList_View ?l) = set (UserList_GroupOrder ?l) \<union> set (keys (Index_Users ix))"
    unfolding l(4) set_view_of l(2) l(3) set_group_members
    by (auto simp: members_def dest: user_group_user)
qed

section \<open>Moving one user\<close>

lemma remove_first:
  assumes "distinct xs"
  shows "take (first_index (\<lambda>x. x = k) xs) xs @ drop (Suc (first_index (\<lambda>x. x = k) xs)) xs
    = filter (\<lambda>x. x \<noteq> k) xs"
  using assms by (induction xs) (auto intro: filter_True [symmetric])

lemma sorted_list_of_set_Collect:
  fixes S :: "'a :: linorder set"
  assumes "finite S"
  shows "filter P (sorted_list_of_set S) = sorted_list_of_set {x \<in> S. P x}"
proof (rule sorted_distinct_set_unique)
  show "sorted (filter P (sorted_list_of_set S))"
    by (rule sorted_filter [where f = "\<lambda>x. x", simplified]) simp
qed (use assms in auto)

definition others :: "Index \<Rightarrow> snowflake \<Rightarrow> snowflake \<Rightarrow> SortEntry list" where
  "others ix key gid = sorted_list_of_set (sort_entry ix ` (members ix gid - {key}))"

lemma group_members_without:
  "filter (\<lambda>x. x \<noteq> key) (group_members ix gid) = map SortEntry_ID (others ix key gid)"
proof -
  have "{e \<in> sort_entry ix ` members ix gid. SortEntry_ID e \<noteq> key} =
      sort_entry ix ` (members ix gid - {key})" by auto
  then show ?thesis
    by (simp add: group_members_def others_def filter_map comp_def sorted_list_of_set_Collect)
qed

lemma group_members_with:
  assumes "key \<in> members ix gid"
  shows "group_members ix gid = map SortEntry_ID (insort (sort_entry ix key) (others ix key gid))"
proof -
  have "sort_entry ix ` members ix gid =
      insert (sort_entry ix key) (sort_entry ix ` (members ix gid - {key}))"
    using assms by auto
  moreover have "sort_entry ix key \<notin> sort_entry ix ` (members ix gid - {key})"
    by (auto dest: arg_cong [where f = SortEntry_ID])
  ultimately show ?thesis
    by (simp add: group_members_def others_def sorted_list_of_set_insert)
qed

lemma group_members_lacking:
  "key \<notin> members ix gid \<Longrightarrow> group_members ix gid = map SortEntry_ID (others ix key gid)"
  by (simp add: group_members_def others_def)

lemma search_loop_cong:
  "(\<And>a. i \<le> a \<Longrightarrow> a < j \<Longrightarrow> f a = g a) \<Longrightarrow> search_loop f i j = search_loop g i j"
proof (induction f i j rule: search_loop.induct)
  case (1 f i j)
  show ?case
  proof (cases "i < j")
    case True
    define h where "h = (i + j) div 2"
    have h: "i \<le> h" "h < j" using True by (auto simp: h_def)
    then have "f h = g h" using 1(3) by simp
    with 1(1,2) [OF True h_def] 1(3) h show ?thesis
      by (simp add: search_loop.simps [of _ i j] True Let_def h_def [symmetric])
  next
    case False
    then show ?thesis by (simp add: search_loop.simps [of _ i j])
  qed
qed

lemma comes_before_less:
  "display_name ix key = User_DisplayName user \<Longrightarrow>
     comes_before ix user key other \<longleftrightarrow> sort_entry ix key < sort_entry ix other"
  by (auto simp: comes_before_def sort_entry_def less_SortEntry_def)

lemma insert_by_search:
  fixes ix :: Index and user :: User and key gid :: snowflake
  assumes "display_name ix key = User_DisplayName user"
  defines "xs \<equiv> map SortEntry_ID (others ix key gid)"
  defines "p \<equiv> sort_Search (length xs) (\<lambda>j. comes_before ix user key (xs ! j))"
  shows "take p xs @ key # drop p xs =
    map SortEntry_ID (insort (sort_entry ix key) (others ix key gid))"
proof -
  let ?es = "others ix key gid"
  have in_range: "set ?es \<subseteq> range (sort_entry ix)" by (auto simp: others_def)
  have "sort_entry ix (xs ! j) = ?es ! j" if "j < length ?es" for j
  proof -
    from in_range nth_mem [OF that] obtain a where "?es ! j = sort_entry ix a" by blast
    with that show ?thesis by (simp add: xs_def)
  qed
  then have before: "comes_before ix user key (xs ! j) = (sort_entry ix key < ?es ! j)"
    if "j < length ?es" for j
    using that by (simp add: comes_before_less [OF assms(1)])
  have len: "length xs = length ?es" by (simp add: xs_def)
  have p: "p = sort_Search (length ?es) (\<lambda>j. sort_entry ix key < ?es ! j)"
    unfolding p_def sort_Search_def len by (rule search_loop_cong) (rule before)
  have "sort_entry ix key \<notin> set ?es"
    by (auto simp: others_def dest: arg_cong [where f = SortEntry_ID])
  then have "take p ?es @ sort_entry ix key # drop p ?es = insort (sort_entry ix key) ?es"
    unfolding p by (intro search_insort) (simp_all add: others_def)
  then have "map SortEntry_ID (take p ?es @ sort_entry ix key # drop p ?es) =
      map SortEntry_ID (insort (sort_entry ix key) ?es)" by simp
  then show ?thesis by (simp add: xs_def take_map drop_map)
qed

lemma find_unique:
  assumes "x \<in> set xs" and "P x" and "\<And>y. P y \<Longrightarrow> y = x"
  shows "List.find P xs = Some x"
proof (cases "List.find P xs")
  case None
  with assms(1,2) show ?thesis by (auto simp: find_None_iff)
next
  case (Some y)
  with assms(3) show ?thesis by (auto dest: find_SomeD)
qed

text \<open>Positions at which two lists differ that agree up to where one element is.\<close>

lemma split_at_index:
  assumes "k \<in> set xs" and "distinct xs"
  shows "xs = take (nat (index_of k xs)) xs @ k # drop (Suc (nat (index_of k xs))) xs"
    and "filter (\<lambda>x. x \<noteq> k) xs = take (nat (index_of k xs)) xs @ drop (Suc (nat (index_of k xs))) xs"
    and "nat (index_of k xs) < length xs"
proof -
  let ?p = "first_index (\<lambda>x. x = k) xs"
  have "?p < length xs" using assms(1) by (auto simp: first_index_less)
  moreover from first_index_holds [OF this] have "xs ! ?p = k" .
  ultimately have "xs = take ?p xs @ k # drop (Suc ?p) xs" and "?p < length xs"
    using id_take_nth_drop [of ?p xs] by simp_all
  moreover have p: "nat (index_of k xs) = ?p" using assms(1) by (simp add: index_of_def)
  ultimately show "xs = take (nat (index_of k xs)) xs @ k # drop (Suc (nat (index_of k xs))) xs"
    and "nat (index_of k xs) < length xs"
    by (simp_all only: p)
  show "filter (\<lambda>x. x \<noteq> k) xs = take (nat (index_of k xs)) xs @ drop (Suc (nat (index_of k xs))) xs"
    using assms by (simp add: index_of_def remove_first)
qed

lemma nth_insert_at:
  assumes "a \<le> length r" and "i < Suc (length r)"
  shows "(take a r @ k # drop a r) ! i = (if i < a then r ! i else if i = a then k else r ! (i - 1))"
proof (cases "i \<le> a")
  case True
  with assms show ?thesis by (auto simp: nth_append)
next
  case False
  then obtain d where "i = Suc (a + d)" by (metis less_imp_Suc_add not_le)
  with assms show ?thesis by (simp add: nth_append)
qed

lemma moved_range:
  assumes "distinct xs" and "distinct ys" and "k \<in> set xs" and "k \<in> set ys"
    and "filter (\<lambda>x. x \<noteq> k) xs = filter (\<lambda>x. x \<noteq> k) ys" and "differs xs ys p"
  shows "min (index_of k xs) (index_of k ys) \<le> int p \<and>
    int p < max (index_of k xs) (index_of k ys) + 1"
proof -
  define a where "a = nat (index_of k xs)"
  define b where "b = nat (index_of k ys)"
  have ab: "index_of k xs = int a" "index_of k ys = int b"
    using assms(3,4) by (simp_all add: a_def b_def index_of_def)
  note xs = split_at_index [OF assms(3,1), folded a_def]
  note ys = split_at_index [OF assms(4,2), folded b_def]
  define r where "r = filter (\<lambda>x. x \<noteq> k) xs"
  have rx: "r = take a xs @ drop (Suc a) xs" using xs(2) by (simp add: r_def)
  have ry: "r = take b ys @ drop (Suc b) ys" using ys(2) by (simp add: r_def assms(5))
  have len: "length xs = Suc (length r)" "length ys = Suc (length r)" "a \<le> length r" "b \<le> length r"
    using arg_cong [OF rx, of length] arg_cong [OF ry, of length] xs(3) ys(3) by auto
  have ra: "take a xs = take a r" "drop (Suc a) xs = drop a r"
    using rx xs(3) by simp_all
  have rb: "take b ys = take b r" "drop (Suc b) ys = drop b r"
    using ry ys(3) by simp_all
  have nx: "xs ! i = (if i < a then r ! i else if i = a then k else r ! (i - 1))"
    and ny: "ys ! i = (if i < b then r ! i else if i = b then k else r ! (i - 1))"
    if "i < Suc (length r)" for i
    using nth_insert_at [OF len(3) that, of k] nth_insert_at [OF len(4) that, of k] xs(1) ys(1)
    by (simp_all only: ra rb)
  have p: "p < Suc (length r)" "xs ! p \<noteq> ys ! p"
    using assms(6) len by (auto simp: differs_def)
  have "min a b \<le> p \<and> p \<le> max a b"
    using p(2) nx [OF p(1)] ny [OF p(1)] by (auto split: if_splits)
  then show ?thesis by (auto simp: ab)
qed

lemma info_loop_hoist:
  assumes "\<forall>rid r. get roles rid = Some r \<longrightarrow> Role_ID r = rid"
    and "h = 0 \<or> (\<exists>r. get roles h = Some r \<and> Role_Hoisted r)"
    and "info_loop roles rids (rank, hr, h, ps) = (rank', hr', h', ps')"
  shows "h' = 0 \<or> (\<exists>r. get roles h' = Some r \<and> Role_Hoisted r)"
  using assms
proof (induction rids arbitrary: rank hr h ps)
  case Nil
  then show ?case by simp
next
  case (Cons rid rids)
  show ?case
  proof (cases "get roles rid")
    case None
    with Cons show ?thesis by simp
  next
    case (Some role)
    let ?h = "if Role_Hoisted role \<and> Role_Position role < hr then Role_ID role else h"
    have "?h = 0 \<or> (\<exists>r. get roles ?h = Some r \<and> Role_Hoisted r)"
      using Cons.prems(1,2) Some by auto
    with Cons.IH [OF Cons.prems(1) this] Cons.prems(3) Some show ?thesis
      by (simp add: Let_def split: if_splits)
  qed
qed

lemma computeUserInfo_hoist:
  assumes "\<forall>rid r. get (Index_Roles ix) rid = Some r \<longrightarrow> Role_ID r = rid"
  shows "UserInfo_Hoist (computeUserInfo ix u) = 0 \<or>
    role_hoisted ix (UserInfo_Hoist (computeUserInfo ix u))"
proof -
  obtain rank hr h ps where loop: "info_loop (Index_Roles ix) (User_Roles u)
      (MaxInt64, MaxInt64, 0, Settings_DefaultPermissions (Index_Settings ix)) = (rank, hr, h, ps)"
    by (cases "info_loop (Index_Roles ix) (User_Roles u)
      (MaxInt64, MaxInt64, 0, Settings_DefaultPermissions (Index_Settings ix))") auto
  have "h = 0 \<or> (\<exists>r. get (Index_Roles ix) h = Some r \<and> Role_Hoisted r)"
    by (rule info_loop_hoist [OF assms _ loop]) simp
  with loop show ?thesis
    by (auto simp: computeUserInfo_def role_hoisted_def)
qed

lemma processUser_fields [simp]:
  "User_ID (processUser u) = User_ID u" "User_DisplayName (processUser u) = User_DisplayName u"
  "User_Roles (processUser u) = User_Roles u"
  by (simp_all add: processUser_def)

lemma set_user_other:
  assumes "uid \<noteq> User_ID user"
  shows "user_group (set_user user ix) uid = user_group ix uid"
    and "sort_entry (set_user user ix) uid = sort_entry ix uid"
  using assms by (simp_all add: user_group_def sort_entry_def display_name_def set_user_def)

lemma set_user_roles [simp]:
  "role_hoisted (set_user user ix) = role_hoisted ix"
  "role_position (set_user user ix) = role_position ix"
  "hoisted_roles (set_user user ix) = hoisted_roles ix"
  "Index_List (set_user user ix) = Index_List ix"
  "Index_Changes (set_user user ix) = Index_Changes ix"
  by (simp_all add: fun_eq_iff set_user_def role_hoisted_def role_position_def hoisted_roles_def)

lemma maps_ok_set_user:
  assumes "maps_ok ix" and "User_ID user \<in> set (keys (Index_Users ix))"
  shows "maps_ok (set_user user ix)"
  using assms unfolding maps_ok_def set_user_def by (auto simp: insert_absorb)

lemma hoists_valid_set_user:
  assumes "maps_ok ix" and "hoists_valid ix"
  shows "hoists_valid (set_user user ix)"
  using assms computeUserInfo_hoist [of ix user]
  unfolding hoists_valid_def set_user_roles by (auto simp: set_user_def maps_ok_def)

lemma others_set_user:
  "others (set_user user ix) (User_ID user) gid = others ix (User_ID user) gid"
proof -
  have "members (set_user user ix) gid - {User_ID user} = members ix gid - {User_ID user}"
    by (auto simp: members_def set_user_other)
  moreover have "sort_entry (set_user user ix) ` (members ix gid - {User_ID user}) =
      sort_entry ix ` (members ix gid - {User_ID user})"
    by (rule image_cong) (simp_all add: set_user_other)
  ultimately show ?thesis by (simp add: others_def)
qed

lemma user_group_set_user:
  "user_group (set_user user ix) (User_ID user) =
     Some (getUserGroup (processUser user) (computeUserInfo ix user))"
  by (simp add: user_group_def set_user_def)

lemma index_of_present: "k \<in> set xs \<Longrightarrow> index_of k xs \<noteq> -1"
  by (simp add: index_of_def)

text \<open>The groups after the user has been taken out of the old one and put into the new one.\<close>

lemma moved_groups:
  fixes ix0 :: Index and user :: User and groups :: groups
  defines "key \<equiv> User_ID user" and "ix \<equiv> set_user user ix0"
  assumes slices: "\<And>gid. get_slice groups gid = group_members ix0 gid"
    and old_group: "user_group ix0 key = Some old_group"
    and new_group: "user_group ix key = Some new_group"
    and g1: "g1 = put old_group (filter (\<lambda>x. x \<noteq> key) (get_slice groups old_group)) groups"
    and g2: "g2 = put new_group
      (map SortEntry_ID (insort (sort_entry ix key) (others ix key new_group))) g1"
  shows "get_slice g1 gid = map SortEntry_ID (others ix key gid)"
    and "get_slice g2 gid = group_members ix gid"
proof -
  have not_member: "key \<notin> members ix0 gid" if "gid \<noteq> old_group" for gid
    using that old_group by (simp add: members_def)
  show s1: "get_slice g1 gid = map SortEntry_ID (others ix key gid)" for gid
  proof (cases "gid = old_group")
    case True
    then show ?thesis
      using group_members_without [of key ix0 old_group]
      by (simp add: g1 slices others_set_user [of user ix0, folded key_def ix_def])
  next
    case False
    then show ?thesis
      using group_members_lacking [OF not_member [OF False]]
      by (simp add: g1 slices others_set_user [of user ix0, folded key_def ix_def])
  qed
  have "key \<notin> members ix gid" if "gid \<noteq> new_group"
    using that new_group by (simp add: members_def)
  moreover have "key \<in> members ix new_group" using new_group by (simp add: members_def)
  ultimately show "get_slice g2 gid = group_members ix gid"
    using group_members_with [of key ix new_group] group_members_lacking [of key ix gid]
    by (simp add: g2 s1)
qed

lemma view_of_cong:
  "(\<And>gid. get_slice g gid = get_slice h gid) \<Longrightarrow> view_of order g = view_of order h"
  by (simp add: view_of_def)

lemma filter_view_of:
  assumes "key \<notin> set order"
  shows "filter (\<lambda>x. x \<noteq> key) (view_of order groups) =
    concat (map (\<lambda>gid. gid # filter (\<lambda>x. x \<noteq> key) (get_slice groups gid)) order)"
  using assms by (induction order) (auto simp: view_of_def)

lemma UpdateUser_result:
  assumes visit: "permutes_keys visit" and maps: "maps_ok ix0" and hoists: "hoists_valid ix0"
    and list: "list_ok ix0" and user: "User_ID user \<in> set (keys (Index_Users ix0))"
  shows "\<exists>ix' c. index_UpdateUser visit user ix0 = Some (processUser user, ix') \<and>
    list_ok ix' \<and> maps_ok ix' \<and> hoists_valid ix' \<and> Index_Changes ix' = Index_Changes ix0 @ [c] \<and>
    (\<forall>p. differs (UserList_View (Index_List ix0)) (UserList_View (Index_List ix')) p \<longrightarrow>
       covered [c] (int p))"
proof -
  define key where "key = User_ID user"
  define ix where "ix = set_user user ix0"
  define l where "l = Index_List ix0"
  have ix: "maps_ok ix" "hoists_valid ix"
    using maps_ok_set_user [OF maps user] hoists_valid_set_user [OF maps hoists]
    by (simp_all add: ix_def)
  have l: "distinct (UserList_GroupOrder l)"
    "set (UserList_GroupOrder l) = hoisted_roles ix0 \<union> {UserPresenceOnline, UserPresenceOffline}"
    "\<And>gid. get_slice (UserList_Groups l) gid = group_members ix0 gid"
    "UserList_View l = view_of (UserList_GroupOrder l) (UserList_Groups l)"
    using list by (simp_all add: list_ok_def Let_def l_def)
  have "key \<in> set (keys (Index_UserInfos ix0))" using user maps by (simp add: maps_ok_def key_def)
  with user obtain u0 ui0 where "get (Index_Users ix0) key = Some u0"
    and "get (Index_UserInfos ix0) key = Some ui0"
    unfolding get_keys_iff key_def by blast
  then obtain old_group where old: "user_group ix0 key = Some old_group"
    by (simp add: user_group_def)
  have infos: "get (Index_Users ix) key = Some (processUser user)"
    "get (Index_UserInfos ix) key = Some (computeUserInfo ix0 user)"
    by (simp_all add: ix_def key_def set_user_def)
  define new_group where "new_group = getUserGroup (processUser user) (computeUserInfo ix0 user)"
  have new: "user_group ix key = Some new_group"
    by (simp add: ix_def key_def new_group_def user_group_set_user)
  define g1 where "g1 = put old_group
    (filter (\<lambda>x. x \<noteq> key) (get_slice (UserList_Groups l) old_group)) (UserList_Groups l)"
  define g2 where "g2 = put new_group
    (map SortEntry_ID (insort (sort_entry ix key) (others ix key new_group))) g1"
  note moved = moved_groups [OF l(3) old [unfolded key_def] new [unfolded key_def ix_def],
      folded key_def ix_def, OF g1_def g2_def]
  have "key \<in> set (get_slice (UserList_Groups l) gid) \<longleftrightarrow> gid = old_group" for gid
    using old by (auto simp: l(3) members_def)
  moreover have "old_group \<in> set (keys (UserList_Groups l))"
    using calculation [of old_group] by (auto intro: get_slice_keys2)
  ultimately have find: "List.find (\<lambda>gid. key \<in> set (get_slice (UserList_Groups l) gid))
      (visit (keys (UserList_Groups l))) = Some old_group"
    using visit by (intro find_unique) auto
  define view where "view = view_of (UserList_GroupOrder l) g2"
  define ix' where "ix' = ix\<lparr>Index_List := l\<lparr>UserList_Groups := g2, UserList_View := view\<rparr>\<rparr>"
  have display: "display_name ix key = User_DisplayName (processUser user)"
    by (simp add: display_name_def infos)
  have ok': "list_ok ix'"
    using list moved(2) unfolding list_ok_def ix'_def view_def Let_def l_def [symmetric]
    by (simp add: ix_def)
  have maps': "maps_ok ix'" and hoists': "hoists_valid ix'"
    using ix by (simp_all add: ix'_def maps_ok_def hoists_valid_def)
  have "UserList_View (Index_List ix') = view" by (simp add: ix'_def)
  with view_contents [OF maps' hoists' ok'] infos(1) have view: "distinct view" "key \<in> set view"
    by (auto simp: ix'_def get_keys_iff)
  from view_contents [OF maps hoists list] user
  have view0: "distinct (UserList_View l)" "key \<in> set (UserList_View l)"
    by (auto simp: l_def key_def)
  define c where "c = index_range (min (index_of key (UserList_View l)) (index_of key view))
    (max (index_of key (UserList_View l)) (index_of key view) + 1)"
  have removed: "take (first_index (\<lambda>x. x = key) (get_slice (UserList_Groups l) old_group))
      (get_slice (UserList_Groups l) old_group) @
      drop (Suc (first_index (\<lambda>x. x = key) (get_slice (UserList_Groups l) old_group)))
      (get_slice (UserList_Groups l) old_group) =
      filter (\<lambda>x. x \<noteq> key) (get_slice (UserList_Groups l) old_group)"
    by (rule remove_first) (simp add: l(3))
  have list_ix: "Index_List ix = l" by (simp add: ix_def l_def)
  have "RepositionUser visit key ix = Some (ix'\<lparr>Index_Changes := Index_Changes ix @ [c]\<rparr>)"
    using find infos index_of_present [OF view(2)] insert_by_search [OF display, of new_group]
    by (simp add: RepositionUser_def Let_def list_ix removed
      g1_def [symmetric] new_group_def [symmetric] moved(1) g2_def [symmetric]
      view_def [symmetric] c_def ix'_def del: get_slice_put)
  then have result: "index_UpdateUser visit user ix0 =
      Some (processUser user, ix'\<lparr>Index_Changes := Index_Changes ix @ [c]\<rparr>)"
    by (simp add: index_UpdateUser_def key_def ix_def)
  have "filter (\<lambda>x. x \<noteq> key) (UserList_View l) = filter (\<lambda>x. x \<noteq> key) view"
  proof -
    have "hoisted_roles ix0 \<subseteq> set (keys (Index_Roles ix0))"
      by (auto simp: hoisted_roles_def role_hoisted_key)
    moreover have "key \<notin> {UserPresenceOnline, UserPresenceOffline} \<union> set (keys (Index_Roles ix0))"
      using user maps unfolding maps_ok_def key_def by blast
    ultimately have "key \<notin> set (UserList_GroupOrder l)" using l(2) by auto
    note filtered = filter_view_of [OF this]
    show ?thesis
      unfolding l(4) view_def filtered l(3) moved(2) group_members_without
      by (simp add: ix_def key_def others_set_user)
  qed
  then have moves: "covered [c] (int p)" if "differs (UserList_View l) view p" for p
    using moved_range [OF view0(1) view(1) view0(2) view(2) _ that] by (simp add: c_def)
  show ?thesis
    using result ok' maps' hoists' moves
    by (intro exI [of _ "ix'\<lparr>Index_Changes := Index_Changes ix @ [c]\<rparr>"] exI [of _ c])
      (simp add: list_ok_def maps_ok_def hoists_valid_def Let_def ix'_def ix_def l_def)
qed

end
