(* ===== verification/Index_Sync.thy ===== *)
theory Index_Sync
  imports Access UserLists
begin

text \<open>
  Building the index from the database (\<^verbatim>\<open>Index.Build\<close>): what the index then holds, and that it
  gives every user the permissions that the store computes.
\<close>

definition index_user :: "Database \<Rightarrow> UserRow \<Rightarrow> User" where
  "index_user db u = processUser (user_view db u)"

text \<open>The index mirrors the tables, and every info is up to date.\<close>

definition synced :: "Database \<Rightarrow> Index \<Rightarrow> bool" where
  "synced db ix \<longleftrightarrow>
     DB_settings db = Some (Index_Settings ix) \<and>
     (\<forall>rid. get (Index_Roles ix) rid = role_row db rid) \<and>
     (\<forall>cid. get (Index_Channels ix) cid = map_option (channel_view db) (channel_row db cid)) \<and>
     (\<forall>uid. get (Index_Users ix) uid = map_option (index_user db) (user_row db uid)) \<and>
     (\<forall>uid. get (Index_UserInfos ix) uid =
        map_option (\<lambda>u. computeUserInfo ix (index_user db u)) (user_row db uid))"

lemma tx_open_Start [simp]: "tx_open (Start tx)"
  by (simp add: tx_open_def Start_def split: option.split)

lemma Tx_db_Start [simp]: "Tx_db (Start tx) = Tx_db tx"
  by (simp add: Start_def split: option.split)

lemma mset_select_all:
  "mset (select_users 0 db) = mset (DB_users db)"
  "mset (select_channels 0 db) = mset (DB_channels db)"
  "mset (role_rows 0 db) = mset (DB_roles db)"
  by (simp_all add: select_users_def select_channels_def role_rows_def)

lemma find_map_key: "List.find (\<lambda>x. f x = k) (map g xs) = map_option g (List.find (\<lambda>x. f (g x) = k) xs)"
  by (induction xs) auto

lemma GetAllUsers_result:
  assumes "reliable E" and "tx_open tx" and "keys_ok (Tx_db tx)"
  shows "GetAllUsers E tx =
    (Ok (map (user_view (Tx_db tx)) (select_users 0 (Tx_db tx))), next_tick tx)"
  using assms by (simp add: GetAllUsers_def QueryUsers_result)

lemma GetAllChannels_result:
  assumes "reliable E" and "tx_open tx" and "keys_ok (Tx_db tx)"
  shows "GetAllChannels E tx =
    (Ok (map (channel_view (Tx_db tx)) (select_channels 0 (Tx_db tx))), next_tick tx)"
  using assms by (simp add: GetAllChannels_def QueryChannels_result)

lemma GetAllRoles_result:
  assumes "reliable E" and "tx_open tx"
  shows "GetAllRoles E tx = (Ok (role_rows 0 (Tx_db tx)), next_tick tx)"
  using assms by (simp add: GetAllRoles_def QueryRoles_def)

text \<open>The maps that the loops of \<^verbatim>\<open>PopulateIndex\<close> fill.\<close>

lemma populated_maps:
  assumes "keys_ok db"
  shows "get (fold (\<lambda>r. put (Role_ID r) r) (role_rows 0 db) []) rid = role_row db rid"
    and "get (fold (\<lambda>c. put (Channel_ID c) c) (map (channel_view db) (select_channels 0 db)) []) cid
      = map_option (channel_view db) (channel_row db cid)"
    and "get (fold (\<lambda>u. put (User_ID u) (processUser u)) (map (user_view db) (select_users 0 db)) [])
      uid = map_option (index_user db) (user_row db uid)"
    and "get (fold (\<lambda>u. put (User_ID u) x) (map (user_view db) (select_users 0 db)) []) uid =
      map_option (\<lambda>_. x) (user_row db uid)"
proof -
  note ms = mset_select_all [of db]
  have d: "distinct (map Role_ID (DB_roles db))" "distinct (map ChannelRow_id (DB_channels db))"
    "distinct (map UserRow_id (DB_users db))"
    using assms by (simp_all add: keys_ok_def)
  have d': "distinct (map Role_ID (role_rows 0 db))"
    "distinct (map Channel_ID (map (channel_view db) (select_channels 0 db)))"
    "distinct (map User_ID (map (user_view db) (select_users 0 db)))"
    using d by (simp_all add: role_rows_def select_channels_def select_users_def comp_def)
  note finds = find_key_perm [OF d(1) ms(3)] find_key_perm [OF d(2) ms(2)]
    find_key_perm [OF d(3) ms(1)]
  show "get (fold (\<lambda>r. put (Role_ID r) r) (role_rows 0 db) []) rid = role_row db rid"
    by (simp add: get_fold_put_distinct [OF d'(1), of "\<lambda>r. r"] finds role_row_def option.map_ident)
  show "get (fold (\<lambda>c. put (Channel_ID c) c) (map (channel_view db) (select_channels 0 db)) []) cid
      = map_option (channel_view db) (channel_row db cid)"
    by (simp add: get_fold_put_distinct [OF d'(2), of "\<lambda>c. c"] find_map_key finds channel_row_def
      option.map_ident)
  show "get (fold (\<lambda>u. put (User_ID u) (processUser u)) (map (user_view db) (select_users 0 db)) [])
      uid = map_option (index_user db) (user_row db uid)"
    by (simp add: get_fold_put_distinct [OF d'(3)] find_map_key finds user_row_def
      option.map_comp comp_def index_user_def [abs_def])
  show "get (fold (\<lambda>u. put (User_ID u) x) (map (user_view db) (select_users 0 db)) []) uid =
      map_option (\<lambda>_. x) (user_row db uid)"
    by (simp add: get_fold_put_distinct [OF d'(3)] find_map_key finds user_row_def
      option.map_comp comp_def)
qed

lemma PopulateIndex_result:
  assumes "reliable E" and "db_ok (Tx_db tx)" and "DB_settings (Tx_db tx) = Some s"
  shows "\<exists>tx' ix1. PopulateIndex E ix tx = (Ok ix1, tx') \<and> Index_Settings ix1 = s \<and>
    (\<forall>rid. get (Index_Roles ix1) rid = role_row (Tx_db tx) rid) \<and>
    (\<forall>cid. get (Index_Channels ix1) cid =
       map_option (channel_view (Tx_db tx)) (channel_row (Tx_db tx) cid)) \<and>
    (\<forall>uid. get (Index_Users ix1) uid =
       map_option (index_user (Tx_db tx)) (user_row (Tx_db tx) uid)) \<and>
    (\<forall>uid. get (Index_UserInfos ix1) uid =
       map_option (\<lambda>_. UserInfo_zero) (user_row (Tx_db tx) uid)) \<and>
    gomap_ok (Index_Users ix1) \<and> gomap_ok (Index_Roles ix1) \<and> gomap_ok (Index_UserInfos ix1)"
proof -
  have keys: "keys_ok (Tx_db tx)" using assms(2) by (simp add: db_ok_def)
  have "GetSettings E (Start tx) = (Ok s, next_tick (Start tx))"
    using assms by (simp add: GetSettings_def)
  then show ?thesis
    using assms(1) keys populated_maps(1-3) [OF keys] populated_maps(4) [OF keys, of UserInfo_zero]
    by (simp add: PopulateIndex_def or_panic_def GetAllRoles_result GetAllChannels_result
      GetAllUsers_result gomap_ok_fold_put)
qed

text \<open>After the infos are computed, the index mirrors the tables and its maps are consistent.\<close>

lemma role_row_SomeD: "role_row db rid = Some r \<Longrightarrow> r \<in> set (DB_roles db) \<and> Role_ID r = rid"
  by (auto simp: role_row_def dest: find_SomeD)

lemma user_row_SomeD: "user_row db uid = Some u \<Longrightarrow> u \<in> set (DB_users db) \<and> UserRow_id u = uid"
  by (auto simp: user_row_def dest: find_SomeD)

lemma computed_index:
  assumes "permutes_keys visit" and "db_ok db" and "ids_ok db"
    and settings: "DB_settings db = Some (Index_Settings ix1)"
    and roles: "\<forall>rid. get (Index_Roles ix1) rid = role_row db rid"
    and channels: "\<forall>cid. get (Index_Channels ix1) cid =
       map_option (channel_view db) (channel_row db cid)"
    and users: "\<forall>uid. get (Index_Users ix1) uid = map_option (index_user db) (user_row db uid)"
    and infos: "\<forall>uid. get (Index_UserInfos ix1) uid = map_option (\<lambda>_. UserInfo_zero) (user_row db uid)"
    and maps: "gomap_ok (Index_Users ix1)" "gomap_ok (Index_Roles ix1)" "gomap_ok (Index_UserInfos ix1)"
  defines "ix2 \<equiv> UpdateUserInfos visit ix1"
  shows "synced db ix2 \<and> maps_ok ix2 \<and> hoists_valid ix2"
proof -
  obtain m where ix2: "ix2 = ix1\<lparr>Index_UserInfos := m\<rparr>"
    using UpdateUserInfos_result(1) [OF assms(1), of ix1] unfolding ix2_def by metis
  have m: "get m uid = map_option (\<lambda>u. computeUserInfo ix1 (index_user db u)) (user_row db uid)" for uid
    using UpdateUserInfos_result(2) [OF assms(1), of ix1 uid] users infos
    unfolding ix2_def [symmetric] by (auto simp: ix2 split: option.split)
  have same: "computeUserInfo ix2 = computeUserInfo ix1"
    by (rule ext) (rule computeUserInfo_cong; simp add: ix2)
  have synced: "synced db ix2"
    unfolding synced_def same using settings roles channels users m by (simp add: ix2)
  have "gomap_ok m" using gomap_ok_UpdateUserInfos [OF maps(3), of visit] ix2 by (simp add: ix2_def)
  moreover have "set (keys m) = set (keys (Index_Users ix1))"
    by (auto simp: set_keys dom_def m users)
  moreover have "User_ID u = uid" if "get (Index_Users ix1) uid = Some u" for uid u
    using that users by (auto simp: index_user_def dest: user_row_SomeD)
  moreover have "Role_ID r = rid" if "get (Index_Roles ix1) rid = Some r" for rid r
    using that roles by (auto dest: role_row_SomeD)
  moreover have rids: "set (keys (Index_Roles ix1)) \<subseteq> role_ids db"
    using roles by (force simp: set_keys dest: role_row_SomeD)
  moreover have uids: "set (keys (Index_Users ix1)) \<subseteq> user_ids db"
    using users by (force simp: set_keys dest: user_row_SomeD)
  moreover have "{0, UserPresenceOnline, UserPresenceOffline} \<inter> set (keys (Index_Roles ix1)) = {}"
    and "set (keys (Index_Users ix1)) \<inter>
      ({UserPresenceOnline, UserPresenceOffline} \<union> set (keys (Index_Roles ix1))) = {}"
  proof -
    have big: "2 < k" if "k \<in> user_ids db \<or> k \<in> role_ids db" for k
      using that assms(3) unfolding ids_ok_def by blast
    have "user_ids db \<inter> role_ids db = {}" using assms(3) by (simp add: ids_ok_def)
    with rids uids have apart: "set (keys (Index_Users ix1)) \<inter> set (keys (Index_Roles ix1)) = {}"
      by blast
    have "2 < k" if "k \<in> set (keys (Index_Roles ix1))" for k using that rids big by blast
    then show "{0, UserPresenceOnline, UserPresenceOffline} \<inter> set (keys (Index_Roles ix1)) = {}"
      by fastforce
    have "2 < k" if "k \<in> set (keys (Index_Users ix1))" for k using that uids big by blast
    then have "{UserPresenceOnline, UserPresenceOffline} \<inter> set (keys (Index_Users ix1)) = {}"
      by fastforce
    with apart show "set (keys (Index_Users ix1)) \<inter>
        ({UserPresenceOnline, UserPresenceOffline} \<union> set (keys (Index_Roles ix1))) = {}"
      by blast
  qed
  ultimately have "maps_ok ix2" using maps(1,2) unfolding maps_ok_def ix2 by simp
  moreover have "hoists_valid ix2"
  proof -
    have "\<forall>rid r. get (Index_Roles ix2) rid = Some r \<longrightarrow> Role_ID r = rid"
      using roles by (auto simp: ix2 dest: role_row_SomeD)
    then show ?thesis
      using computeUserInfo_hoist [of ix2] synced
      unfolding hoists_valid_def synced_def by auto
  qed
  ultimately show ?thesis using synced by simp
qed

lemma synced_list:
  "synced db (ix\<lparr>Index_List := l, Index_Stale := b, Index_Changes := c\<rparr>) = synced db ix"
proof -
  have "computeUserInfo (ix\<lparr>Index_List := l, Index_Stale := b, Index_Changes := c\<rparr>)
      = computeUserInfo ix"
    by (rule ext) (rule computeUserInfo_cong; simp)
  then show ?thesis by (simp add: synced_def)
qed

lemma Build_result:
  assumes "reliable E" and "permutes_keys visit" and "db_ok (Tx_db tx)" and "ids_ok (Tx_db tx)"
    and "DB_settings (Tx_db tx) \<noteq> None"
  shows "\<exists>ix' tx'. Build E visit ix tx = (Ok ix', tx') \<and> synced (Tx_db tx) ix' \<and>
    maps_ok ix' \<and> hoists_valid ix' \<and> list_ok ix' \<and> \<not> Index_Stale ix'"
proof -
  obtain s where s: "DB_settings (Tx_db tx) = Some s" using assms(5) by blast
  from PopulateIndex_result [OF assms(1,3) s, of ix] obtain tx' ix1 where
    pop: "PopulateIndex E ix tx = (Ok ix1, tx')" and ix1:
      "DB_settings (Tx_db tx) = Some (Index_Settings ix1)"
      "\<forall>rid. get (Index_Roles ix1) rid = role_row (Tx_db tx) rid"
      "\<forall>cid. get (Index_Channels ix1) cid =
         map_option (channel_view (Tx_db tx)) (channel_row (Tx_db tx) cid)"
      "\<forall>uid. get (Index_Users ix1) uid =
         map_option (index_user (Tx_db tx)) (user_row (Tx_db tx) uid)"
      "\<forall>uid. get (Index_UserInfos ix1) uid =
         map_option (\<lambda>_. UserInfo_zero) (user_row (Tx_db tx) uid)"
      "gomap_ok (Index_Users ix1)" "gomap_ok (Index_Roles ix1)" "gomap_ok (Index_UserInfos ix1)"
    using s by auto
  define ix2 where "ix2 = UpdateUserInfos visit ix1"
  have ix2: "synced (Tx_db tx) ix2" "maps_ok ix2" "hoists_valid ix2"
    using computed_index [OF assms(2-4) ix1] by (simp_all add: ix2_def)
  from UpdateUserList_result [OF assms(2) ix2(2,3)] obtain groups where
    up: "UpdateUserList visit ix2 = Some (ix2\<lparr>
      Index_List := \<lparr>UserList_GroupOrder = group_order visit ix2, UserList_Groups = groups,
        UserList_View = view_of (group_order visit ix2) groups\<rparr>,
      Index_Stale := False,
      Index_Changes := Index_Changes ix2 @ view_changes (UserList_View (Index_List ix2))
        (view_of (group_order visit ix2) groups)\<rparr>)" by blast
  have "list_ok (the (UpdateUserList visit ix2))"
    by (rule list_ok_rebuilt [OF assms(2) ix2(2,3)]) (simp add: up)
  with up pop ix2 show ?thesis
    by (simp add: Build_def SortUserList_def ix2_def [symmetric] synced_list maps_ok_def
      hoists_valid_def)
qed

section \<open>Agreement of the two permission checks\<close>

lemma computed_permissions:
  assumes "synced db ix" and "user_row db uid = Some u"
  shows "index_GetPermissionsByUser ix uid = base_permissions db (Index_Settings ix) uid"
proof -
  have roles: "get (Index_Roles ix) = role_row db" using assms(1) by (auto simp: synced_def)
  have "User_Roles (index_user db u) = roles_of_user db uid"
    using assms(2) by (auto simp: index_user_def user_view_def dest: user_row_SomeD)
  moreover obtain rank hr h ps where loop: "info_loop (Index_Roles ix) (roles_of_user db uid)
      (MaxInt64, MaxInt64, 0, Settings_DefaultPermissions (Index_Settings ix)) = (rank, hr, h, ps)"
    by (cases "info_loop (Index_Roles ix) (roles_of_user db uid)
      (MaxInt64, MaxInt64, 0, Settings_DefaultPermissions (Index_Settings ix))") auto
  moreover have "ps = fold (\<lambda>r a. a OR Role_Permissions r)
      (List.map_filter (role_row db) (roles_of_user db uid))
      (Settings_DefaultPermissions (Index_Settings ix))"
    using info_loop_permissions [of "Index_Roles ix" "roles_of_user db uid" MaxInt64 MaxInt64 0
        "Settings_DefaultPermissions (Index_Settings ix)"]
    by (simp add: loop roles)
  ultimately show ?thesis
    using assms by (simp add: index_GetPermissionsByUser_def synced_def computeUserInfo_def
      base_permissions_def Let_def)
qed

lemma synced_permissions:
  assumes "synced db ix" and "db_ok db" and "ids_ok db" and "user_row db uid = Some u"
  shows "index_GetPermissionsByChannel ix uid cid =
    mask_permissions
      (case channel_row db cid of
         None \<Rightarrow> (base_permissions db (Index_Settings ix) uid, 0)
       | Some c \<Rightarrow> apply_overwrites uid (roles_of_user db uid)
           (Channel_Overwrites (channel_view db c))
           (base_permissions db (Index_Settings ix) uid, 0))"
proof -
  have "get (Index_Users ix) uid = Some (index_user db u)"
    and "get (Index_Channels ix) cid = map_option (channel_view db) (channel_row db cid)"
    using assms(1,4) by (simp_all add: synced_def)
  moreover have "channel_row db 0 = None"
    using ids_ok_zero [OF assms(3)] by (auto simp: channel_row_def find_None_iff)
  moreover have "User_ID (index_user db u) = uid" "User_Roles (index_user db u) = roles_of_user db uid"
    using assms(4) by (auto simp: index_user_def user_view_def user_of_row_def dest: user_row_SomeD)
  ultimately show ?thesis
    by (auto simp: index_GetPermissionsByChannel_def Let_def index_GetUser_def index_GetChannel_def
      computed_permissions [OF assms(1,4)] split: option.split)
qed

end
