(* ===== verification/Index_Properties.thy ===== *)
theory Index_Properties
  imports Index_Sync
begin

text \<open>
  The properties of the permissions and of the user list, each with a witness on the example
  below: two users, one of them with a hoisted role that an overwrite of a channel names.
\<close>

section \<open>An example\<close>

definition example_user :: "snowflake \<Rightarrow> string \<Rightarrow> UserRow" where
  "example_user k name = \<lparr>UserRow_id = k, UserRow_user_name = name, UserRow_display_name = name,
     UserRow_presence = 0, UserRow_status_message = [], UserRow_profile_message = [],
     UserRow_profile_color = -1, UserRow_avatar_modified = 0, UserRow_hash = ''secret'',
     UserRow_salt = [], UserRow_email = None, UserRow_invite_code = None\<rparr>"

definition example_role :: Role where
  "example_role = \<lparr>Role_ID = 20, Role_Name = ''mods'', Role_Color = 0, Role_Position = 1,
     Role_Permissions = PermissionManageMessages, Role_Hoisted = True, Role_Mentionable = False\<rparr>"

definition example_settings :: Settings where
  "example_settings = \<lparr>Settings_SiteName = ''Clack'', Settings_LoginMessage = [],
     Settings_DefaultPermissions = PermissionDefault, Settings_UsesEmail = False,
     Settings_UsesInviteCodes = False, Settings_UsesCaptcha = False,
     Settings_UsesLoginCaptcha = False, Settings_CaptchaSiteKey = [],
     Settings_CaptchaSecretKey = []\<rparr>"

definition example_channel :: ChannelRow where
  "example_channel = \<lparr>ChannelRow_id = 30, ChannelRow_type = 0, ChannelRow_name = ''general'',
     ChannelRow_description = [], ChannelRow_position = 0, ChannelRow_parent_id = None\<rparr>"

definition example_db :: Database where
  "example_db = Database_empty\<lparr>
     DB_users := [example_user 10 ''ann'', example_user 11 ''bob''],
     DB_roles := [example_role], DB_user_roles := [(10, 20)],
     DB_channels := [example_channel],
     DB_channel_role_permissions := [\<lparr>OverwriteRow_channel_id = 30, OverwriteRow_target_id = 20,
       OverwriteRow_allow = PermissionMentionEveryone, OverwriteRow_deny = PermissionSendMessages\<rparr>],
     DB_settings := Some example_settings\<rparr>"

definition example_tx :: Transaction where
  "example_tx = NewTransaction example_db 0 0"

lemma example_db_simps [simp]:
  "DB_users example_db = [example_user 10 ''ann'', example_user 11 ''bob'']"
  "DB_roles example_db = [example_role]" "DB_user_roles example_db = [(10, 20)]"
  "DB_channels example_db = [example_channel]" "DB_settings example_db = Some example_settings"
  "UserRow_id (example_user k name) = k" "UserRow_user_name (example_user k name) = name"
  "Role_ID example_role = 20" "ChannelRow_id example_channel = 30"
  by (simp_all add: example_db_def Database_empty_def example_user_def example_role_def
    example_channel_def)

lemma example_ok: "db_ok example_db" "ids_ok example_db"
  by (simp_all add: db_ok_def keys_ok_def refs_ok_def refers_def refers_opt_def ids_ok_def
    example_db_def Database_empty_def example_user_def example_role_def example_channel_def)

lemma example_tx_simps [simp]:
  "tx_open example_tx" "Tx_db example_tx = example_db" "Tx_commit example_tx = None"
  by (simp_all add: example_tx_def NewTransaction_def tx_open_def)

definition example_index :: Index where
  "example_index = \<lparr>Index_Users = [], Index_UserInfos = [], Index_Roles = [], Index_Channels = [],
     Index_List = \<lparr>UserList_GroupOrder = [], UserList_Groups = [], UserList_View = []\<rparr>,
     Index_Settings = example_settings, Index_Stale = False, Index_Changes = []\<rparr>"

section \<open>Permissions\<close>

text \<open>C1: The permissions that the store computes for a user in a channel are bit for bit those
  that the tables grant: default permissions and roles, the channel's overwrites for the user
  and the user's roles, denials over allowances, and everything for an administrator.\<close>

theorem store_permissions_exact:
  assumes "reliable E" and "tx_open tx" and "db_ok (Tx_db tx)" and "ids_ok (Tx_db tx)"
    and "DB_settings (Tx_db tx) \<noteq> None" and "uid \<in> user_ids (Tx_db tx)" and "n < 64"
  shows "\<exists>p. fst (GetPermissionsByChannel E uid cid tx) = Ok p \<and>
    (bit p n \<longleftrightarrow> permits (Tx_db tx) uid cid n)"
proof -
  obtain s where s: "DB_settings (Tx_db tx) = Some s" using assms(5) by blast
  obtain u where u: "user_row (Tx_db tx) uid = Some u"
    using assms(6) by (cases "user_row (Tx_db tx) uid") (auto simp: user_row_def find_None_iff)
  show ?thesis
    using GetPermissionsByChannel_result [OF assms(1-4) s u, of cid]
      permits_masked [OF assms(3,4) s assms(7), of uid cid]
    by simp
qed

theorem store_permissions_exact_witness:
  "\<exists>p. fst (GetPermissionsByChannel env0 10 30 example_tx) = Ok p \<and>
     (bit p 5 \<longleftrightarrow> permits example_db 10 30 5)"
  using store_permissions_exact [of env0 example_tx 10 5 30]
  by (simp add: env0_reliable example_ok)

text \<open>C2: After the index is built from a database, its permission check, which the relay uses,
  returns for every user and every channel exactly the word that the store's check returns.\<close>

theorem index_permissions_agree:
  assumes "reliable E" and "tx_open tx" and "permutes_keys visit"
    and "db_ok (Tx_db tx)" and "ids_ok (Tx_db tx)" and "DB_settings (Tx_db tx) \<noteq> None"
    and "uid \<in> user_ids (Tx_db tx)"
  shows "\<exists>ix' tx'. Build E visit ix tx = (Ok ix', tx') \<and>
    fst (GetPermissionsByChannel E uid cid tx) = Ok (index_GetPermissionsByChannel ix' uid cid)"
proof -
  from Build_result [OF assms(1,3,4,5,6), of ix] obtain ix' tx' where
    build: "Build E visit ix tx = (Ok ix', tx')" and sync: "synced (Tx_db tx) ix'"
    by blast
  then have s: "DB_settings (Tx_db tx) = Some (Index_Settings ix')" by (simp add: synced_def)
  obtain u where u: "user_row (Tx_db tx) uid = Some u"
    using assms(7) by (cases "user_row (Tx_db tx) uid") (auto simp: user_row_def find_None_iff)
  show ?thesis
    using build GetPermissionsByChannel_result [OF assms(1,2,4,5) s u, of cid]
      synced_permissions [OF sync assms(4,5) u, of cid]
    by simp
qed

theorem index_permissions_agree_witness:
  "\<exists>ix' tx'. Build env0 rev example_index example_tx = (Ok ix', tx') \<and>
     fst (GetPermissionsByChannel env0 10 30 example_tx) =
       Ok (index_GetPermissionsByChannel ix' 10 30)"
  using index_permissions_agree [of env0 example_tx rev 10 example_index 30]
  by (simp add: env0_reliable example_ok)

section \<open>The user list\<close>

text \<open>Whose group a rebuilt list shows.\<close>

lemma shown_group:
  assumes "permutes_keys visit" and "get (Index_Users ix) uid = Some u"
    and "get (Index_UserInfos ix) uid = Some ui"
  shows "(\<exists>gid \<in> set (group_order visit ix). uid \<in> members ix gid) \<longleftrightarrow>
    UserInfo_Hoist ui = 0 \<or> role_hoisted ix (UserInfo_Hoist ui) \<or>
    UserInfo_Hoist ui \<in> {UserPresenceOnline, UserPresenceOffline}"
  by (auto simp: group_order_set [OF assms(1)] members_def user_group_def assms(2,3) getUserGroup_def
      hoisted_roles_def)

text \<open>C3: Rebuilding the user list of an index whose maps belong together (\<^verbatim>\<open>maps_ok\<close>: every user has
  an entry with its permissions and hoist, and no id is used twice) never panics. The groups are
  the hoisted roles, by position, and then online and offline. The view shows the heading of each
  group followed by the group's users, sorted by display name and id, and nothing twice. Shown are
  the users without a hoist, and those whose hoist is still a hoisted role: the rebuild works with
  the hoists computed earlier, so a user whose hoist is a role that was deleted or un-hoisted since
  is in no group that is shown and is missing from the view. When all hoists are valid, as
  after \<^verbatim>\<open>Build\<close>, the view shows every user.\<close>

theorem rebuilt_list_correct:
  assumes "permutes_keys visit" and "maps_ok ix"
  shows "\<exists>ix'. UpdateUserList visit ix = Some ix' \<and> \<not> Index_Stale ix' \<and>
    (let order = UserList_GroupOrder (Index_List ix'); view = UserList_View (Index_List ix') in
      distinct order \<and> set order = hoisted_roles ix \<union> {UserPresenceOnline, UserPresenceOffline} \<and>
      sorted (map (role_position ix) (filter (role_hoisted ix) order)) \<and>
      drop (length order - 2) order = [UserPresenceOnline, UserPresenceOffline] \<and>
      view = concat (map (\<lambda>gid. gid # group_members ix gid) order) \<and> distinct view \<and>
      (\<forall>uid u ui. get (Index_Users ix) uid = Some u \<and> get (Index_UserInfos ix) uid = Some ui \<longrightarrow>
         (uid \<in> set view \<longleftrightarrow> UserInfo_Hoist ui = 0 \<or> role_hoisted ix (UserInfo_Hoist ui) \<or>
            UserInfo_Hoist ui \<in> {UserPresenceOnline, UserPresenceOffline})) \<and>
      (hoists_valid ix \<longrightarrow> list_ok ix' \<and> set view = set order \<union> set (keys (Index_Users ix))))"
proof -
  let ?order = "group_order visit ix" and ?K = "hoisted_roles ix \<union> {UserPresenceOnline, UserPresenceOffline}"
  from UpdateUserList_groups [OF assms] obtain groups where
    up: "UpdateUserList visit ix = Some (ix\<lparr>
      Index_List := \<lparr>UserList_GroupOrder = ?order, UserList_Groups = groups,
        UserList_View = view_of ?order groups\<rparr>,
      Index_Stale := False,
      Index_Changes := Index_Changes ix @ view_changes (UserList_View (Index_List ix)) (view_of ?order groups)\<rparr>)"
      (is "_ = Some ?ix")
    and slices: "\<And>gid. set (get_slice groups gid) = members ix gid"
      "\<And>gid. gid \<in> set ?order \<Longrightarrow> get_slice groups gid = group_members ix gid"
    by blast
  note order = group_order_shape [OF assms refl]
  have view: "view_of ?order groups = concat (map (\<lambda>gid. gid # group_members ix gid) ?order)"
    unfolding view_of_def by (rule arg_cong [where f = concat]) (simp add: slices(2))
  have distinct: "distinct (view_of ?order groups)"
    using order(1,2) members_no_heading [OF assms(2)]
    by (intro distinct_view_of [where K = ?K]) (simp_all add: slices members_disjoint)
  have shown: "uid \<in> set (view_of ?order groups) \<longleftrightarrow> UserInfo_Hoist ui = 0 \<or>
      role_hoisted ix (UserInfo_Hoist ui) \<or> UserInfo_Hoist ui \<in> {UserPresenceOnline, UserPresenceOffline}"
    if user: "get (Index_Users ix) uid = Some u" "get (Index_UserInfos ix) uid = Some ui" for uid u ui
  proof -
    have "uid \<in> members ix (getUserGroup u ui)" using user by (simp add: members_def user_group_def)
    then have "uid \<notin> set ?order" using members_no_heading [OF assms(2)] order(2) by blast
    then show ?thesis
      using shown_group [OF assms(1) user] by (simp add: set_view_of slices(1))
  qed
  have all: "list_ok ?ix" "set (view_of ?order groups) = set ?order \<union> set (keys (Index_Users ix))"
    if valid: "hoists_valid ix"
  proof -
    show ok: "list_ok ?ix" by (rule list_ok_rebuilt [OF assms valid up])
    have "role_hoisted ?ix = role_hoisted ix" by simp
    then have "maps_ok ?ix" "hoists_valid ?ix" using assms(2) valid by (simp_all add: maps_ok_def hoists_valid_def)
    from view_contents(2) [OF this ok] show "set (view_of ?order groups) = set ?order \<union> set (keys (Index_Users ix))"
      by simp
  qed
  show ?thesis
    using up order view distinct shown all
    by (intro exI [of _ ?ix]) (simp add: Let_def)
qed

definition example_built :: Index where
  "example_built = example_index\<lparr>
     Index_Users := [(10, index_user example_db (example_user 10 ''ann'')),
       (11, index_user example_db (example_user 11 ''bob''))],
     Index_Roles := [(20, example_role)],
     Index_UserInfos := [(10, \<lparr>UserInfo_Rank = 1, UserInfo_Hoist = 20, UserInfo_Permissions = 0\<rparr>),
       (11, \<lparr>UserInfo_Rank = MaxInt64, UserInfo_Hoist = 0, UserInfo_Permissions = 0\<rparr>)]\<rparr>"

lemma example_built_simps:
  "keys (Index_Users example_built) = [10, 11]" "keys (Index_Roles example_built) = [20]"
  "keys (Index_UserInfos example_built) = [10, 11]"
  by (simp_all add: example_built_def keys_def)

lemma example_built_ok: "maps_ok example_built" "hoists_valid example_built"
proof -
  show "maps_ok example_built"
    unfolding maps_ok_def gomap_ok_def example_built_simps
    by (simp add: example_built_def index_user_def)
  show "hoists_valid example_built"
    by (simp add: hoists_valid_def role_hoisted_def example_built_def example_role_def)
qed

text \<open>The role 20, ann's hoist, is no longer hoisted: ann is gone from the view.\<close>

definition example_unhoisted :: Index where
  "example_unhoisted = example_built\<lparr>Index_Roles := [(20, example_role\<lparr>Role_Hoisted := False\<rparr>)]\<rparr>"

lemma example_unhoisted_simps:
  "get (Index_Users example_unhoisted) = get (Index_Users example_built)"
  "get (Index_UserInfos example_unhoisted) = get (Index_UserInfos example_built)"
  "role_hoisted example_unhoisted rid = False" "maps_ok example_unhoisted"
proof -
  have "keys (Index_Roles example_unhoisted) = [20]" by (simp add: example_unhoisted_def keys_def)
  moreover have "Index_Users example_unhoisted = Index_Users example_built"
    "Index_UserInfos example_unhoisted = Index_UserInfos example_built"
    by (simp_all add: example_unhoisted_def)
  moreover have "\<forall>rid r. get (Index_Roles example_unhoisted) rid = Some r \<longrightarrow> Role_ID r = rid"
    by (simp add: example_unhoisted_def example_role_def)
  ultimately show "maps_ok example_unhoisted"
    using example_built_ok(1) unfolding maps_ok_def gomap_ok_def by (simp add: example_built_simps)
qed (simp_all add: example_unhoisted_def role_hoisted_def split: option.split)

theorem rebuilt_list_correct_witness:
  "\<exists>ix'. UpdateUserList rev example_unhoisted = Some ix' \<and>
     10 \<notin> set (UserList_View (Index_List ix')) \<and> 11 \<in> set (UserList_View (Index_List ix'))"
proof -
  from rebuilt_list_correct [of rev example_unhoisted] obtain ix' where
    "UpdateUserList rev example_unhoisted = Some ix'"
    and shown: "\<And>uid u ui. get (Index_Users example_built) uid = Some u \<Longrightarrow>
      get (Index_UserInfos example_built) uid = Some ui \<Longrightarrow>
      uid \<in> set (UserList_View (Index_List ix')) \<longleftrightarrow> UserInfo_Hoist ui = 0 \<or>
        UserInfo_Hoist ui \<in> {UserPresenceOnline, UserPresenceOffline}"
    by (auto simp: Let_def example_unhoisted_simps)
  moreover have "10 \<notin> set (UserList_View (Index_List ix'))" "11 \<in> set (UserList_View (Index_List ix'))"
    by (simp_all add: shown example_built_def)
  ultimately show ?thesis by blast
qed

text \<open>C4: Updating one user in a correct list leaves a correct list: the user is moved from the old
  group to the right place of the new one by binary search, nothing else moves, and the one range
  that is reported covers every position at which the view has changed.\<close>

theorem updated_user_list_correct:
  assumes "permutes_keys visit" and "maps_ok ix" and "hoists_valid ix" and "list_ok ix"
    and "User_ID user \<in> set (keys (Index_Users ix))"
  shows "\<exists>ix' c. index_UpdateUser visit user ix = Some (processUser user, ix') \<and>
    list_ok ix' \<and> maps_ok ix' \<and> hoists_valid ix' \<and>
    Index_Changes ix' = Index_Changes ix @ [c] \<and>
    {p. differs (UserList_View (Index_List ix)) (UserList_View (Index_List ix')) p}
      \<subseteq> {p. covered [c] (int p)}"
proof -
  from UpdateUser_result [OF assms] obtain ix' c
    where "index_UpdateUser visit user ix = Some (processUser user, ix')"
      and "list_ok ix'" and "maps_ok ix'" and "hoists_valid ix'"
      and "Index_Changes ix' = Index_Changes ix @ [c]"
      and "\<forall>p. differs (UserList_View (Index_List ix)) (UserList_View (Index_List ix')) p \<longrightarrow>
        covered [c] (int p)"
    by blast
  then show ?thesis by (intro exI [of _ ix'] exI [of _ c]) auto
qed

definition example_listed :: Index where
  "example_listed = the (UpdateUserList rev example_built)"

lemma example_listed_ok:
  "list_ok example_listed" "maps_ok example_listed" "hoists_valid example_listed"
  "set (keys (Index_Users example_listed)) = {10, 11}"
proof -
  from UpdateUserList_result [OF permutes_keys_id(2) example_built_ok] obtain ix' where
    up: "UpdateUserList rev example_built = Some ix'"
    and fields: "Index_Users ix' = Index_Users example_built"
      "Index_Roles ix' = Index_Roles example_built"
      "Index_UserInfos ix' = Index_UserInfos example_built"
    by auto
  have "role_hoisted ix' = role_hoisted example_built"
    by (simp add: fun_eq_iff role_hoisted_def fields)
  then show "maps_ok example_listed" and "hoists_valid example_listed"
    and "set (keys (Index_Users example_listed)) = {10, 11}"
    using example_built_ok fields
    by (auto simp: example_listed_def up maps_ok_def hoists_valid_def example_built_simps)
  show "list_ok example_listed"
    using list_ok_rebuilt [OF permutes_keys_id(2) example_built_ok up]
    by (simp add: example_listed_def up)
qed

theorem updated_user_list_correct_witness:
  "\<exists>ix' c. index_UpdateUser rev (User_zero\<lparr>User_ID := 10, User_DisplayName := ''zoe''\<rparr>)
       example_listed = Some (processUser (User_zero\<lparr>User_ID := 10, User_DisplayName := ''zoe''\<rparr>), ix')
     \<and> list_ok ix' \<and> Index_Changes ix' = Index_Changes example_listed @ [c]"
  using updated_user_list_correct [of rev example_listed
      "User_zero\<lparr>User_ID := 10, User_DisplayName := ''zoe''\<rparr>"]
  by (auto simp: example_listed_ok)

text \<open>The rebuilt view does not depend on the order in which the runtime visits the maps, as
  long as no two hoisted roles share a position.\<close>

lemma group_order_unique:
  assumes "permutes_keys v1" and "permutes_keys v2" and "inj_on (role_position ix) (hoisted_roles ix)"
  shows "group_order v1 ix = group_order v2 ix"
proof -
  let ?xs = "\<lambda>v. filter (role_hoisted ix) (v (keys (Index_Roles ix)))"
  have "mset (?xs v1) = mset (?xs v2)"
    using assms(1,2) by (metis mset_filter permutes_keys_def)
  moreover have "inj_on (role_position ix) (set (?xs v1))"
    using assms(3) by (rule inj_on_subset) (auto simp: hoisted_roles_def)
  ultimately have "sort_key (role_position ix) (?xs v1) = sort_key (role_position ix) (?xs v2)"
    by (intro sort_key_inj_key_eq) simp_all
  then show ?thesis by (simp add: group_order_def)
qed

theorem rebuilt_list_deterministic:
  assumes "permutes_keys v1" and "permutes_keys v2" and "maps_ok ix" and "hoists_valid ix"
    and "inj_on (role_position ix) (hoisted_roles ix)"
  shows "map_option (\<lambda>i. (UserList_View (Index_List i), Index_Changes i)) (UpdateUserList v1 ix) =
    map_option (\<lambda>i. (UserList_View (Index_List i), Index_Changes i)) (UpdateUserList v2 ix)"
proof -
  from UpdateUserList_result [OF assms(1,3,4)] obtain g1 where
    "UpdateUserList v1 ix = Some (ix\<lparr>
      Index_List := \<lparr>UserList_GroupOrder = group_order v1 ix, UserList_Groups = g1,
        UserList_View = view_of (group_order v1 ix) g1\<rparr>, Index_Stale := False,
      Index_Changes := Index_Changes ix @ view_changes (UserList_View (Index_List ix))
        (view_of (group_order v1 ix) g1)\<rparr>)"
    and s1: "\<And>gid. get_slice g1 gid = group_members ix gid" by blast
  moreover from UpdateUserList_result [OF assms(2,3,4)] obtain g2 where
    "UpdateUserList v2 ix = Some (ix\<lparr>
      Index_List := \<lparr>UserList_GroupOrder = group_order v2 ix, UserList_Groups = g2,
        UserList_View = view_of (group_order v2 ix) g2\<rparr>, Index_Stale := False,
      Index_Changes := Index_Changes ix @ view_changes (UserList_View (Index_List ix))
        (view_of (group_order v2 ix) g2)\<rparr>)"
    and s2: "\<And>gid. get_slice g2 gid = group_members ix gid" by blast
  moreover have "view_of (group_order v1 ix) g1 = view_of (group_order v2 ix) g2"
    using group_order_unique [OF assms(1,2,5)] by (simp add: view_of_cong s1 s2)
  ultimately show ?thesis by simp
qed

theorem rebuilt_list_deterministic_witness:
  "map_option (\<lambda>i. (UserList_View (Index_List i), Index_Changes i))
       (UpdateUserList (\<lambda>ks. ks) example_built) =
     map_option (\<lambda>i. (UserList_View (Index_List i), Index_Changes i))
       (UpdateUserList rev example_built)"
proof (rule rebuilt_list_deterministic)
  have "hoisted_roles example_built \<subseteq> {20}"
    by (auto simp: hoisted_roles_def role_hoisted_def example_built_def split: if_splits)
  then show "inj_on (role_position example_built) (hoisted_roles example_built)"
    by (rule inj_on_subset [rotated]) simp
qed (simp_all add: example_built_ok)

text \<open>The ranges that a rebuild reports cover a position exactly when the old view has an
  entry there that the new view has not.\<close>

theorem changed_ranges_exact:
  "covered (view_changes old new) p \<longleftrightarrow> 0 \<le> p \<and> differs old new (nat p)"
  by (rule covered_view_changes)

text \<open>Two ranges overlap exactly when they have a position in common.\<close>

theorem overlaps_common_position:
  "Overlaps a b \<longleftrightarrow>
     (\<exists>p. IndexRange_From a \<le> p \<and> p < IndexRange_To a \<and>
          IndexRange_From b \<le> p \<and> p < IndexRange_To b)"
proof
  assume "Overlaps a b"
  then have "IndexRange_From a < IndexRange_To a" "IndexRange_From b < IndexRange_To b"
    "IndexRange_From a < IndexRange_To b" "IndexRange_From b < IndexRange_To a"
    by (simp_all add: Overlaps_def split: if_splits)
  then show "\<exists>p. IndexRange_From a \<le> p \<and> p < IndexRange_To a \<and>
      IndexRange_From b \<le> p \<and> p < IndexRange_To b"
    by (intro exI [of _ "max (IndexRange_From a) (IndexRange_From b)"]) auto
qed (auto simp: Overlaps_def)

lemma ClampInt_bounds: "lo \<le> hi \<Longrightarrow> lo \<le> ClampInt v lo hi \<and> ClampInt v lo hi \<le> hi"
  by (simp add: ClampInt_def)

text \<open>Whatever range a client asks for, the slice it is sent is the part of the view between
  the clamped bounds, and no longer than the limit.\<close>

theorem user_list_slice_bounds:
  assumes "r = GetUserListSlice ix a b limit" and "view = UserList_View (Index_List ix)"
  shows "0 \<le> UserListResponse_Start r \<and> UserListResponse_Start r \<le> UserListResponse_End r \<and>
    UserListResponse_End r \<le> int (length view) \<and>
    UserListResponse_Slice r = take (nat (UserListResponse_End r - UserListResponse_Start r))
      (drop (nat (UserListResponse_Start r)) view) \<and>
    int (length (UserListResponse_Slice r)) =
      UserListResponse_End r - UserListResponse_Start r \<and>
    (limit \<le> 0 \<or> UserListResponse_End r - UserListResponse_Start r \<le> limit)"
proof -
  define n where "n = int (length view)"
  define s where "s = ClampInt a 0 n"
  define m where "m = ClampInt b s n"
  define e where "e = (if 0 < limit \<and> limit < m - s then s + limit else m)"
  have s: "0 \<le> s" "s \<le> n" using ClampInt_bounds [of 0 n a] by (simp_all add: s_def n_def)
  then have m: "s \<le> m" "m \<le> n" using ClampInt_bounds [of s n b] by (simp_all add: m_def)
  then have e: "s \<le> e" "e \<le> n" "limit \<le> 0 \<or> e - s \<le> limit"
    by (auto simp: e_def)
  have r: "UserListResponse_Start r = s" "UserListResponse_End r = e"
    "UserListResponse_Slice r = drop (nat s) (take (nat e) view)"
    by (simp_all add: assms GetUserListSlice_def Let_def s_def m_def e_def n_def)
  show ?thesis
    using s e unfolding r n_def by (simp add: drop_take nat_diff_distrib)
qed

theorem user_list_slice_bounds_witness:
  "UserListResponse_End (GetUserListSlice example_index (-3) 7 2) \<le> 0"
  using user_list_slice_bounds [of "GetUserListSlice example_index (-3) 7 2" example_index "-3" 7 2
      "[]"]
  by (simp add: example_index_def)

end
