(* ===== verification/Snowflakes.thy ===== *)
theory Snowflakes
  imports Models
begin

text \<open>
  common/snowflake/snowflake.go: ids on the wire. \<^verbatim>\<open>MarshalJSON\<close> writes a decimal string;
  \<^verbatim>\<open>UnmarshalJSON\<close> takes a decimal string or a number. \<^verbatim>\<open>strconv.FormatInt\<close> and
  \<^verbatim>\<open>strconv.ParseInt\<close> with base 10 and 64 bits are the standard library's.
\<close>

section \<open>Decimal numbers\<close>

definition digit_char :: "nat \<Rightarrow> char" where
  "digit_char d = char_of (48 + d)"

definition digit_value :: "char \<Rightarrow> nat" where
  "digit_value c = of_char c - 48"

definition is_digit :: "char \<Rightarrow> bool" where
  "is_digit c \<longleftrightarrow> 48 \<le> (of_char c :: nat) \<and> (of_char c :: nat) \<le> 57"

fun format_nat :: "nat \<Rightarrow> string" where
  "format_nat n = (if n < 10 then [digit_char n] else format_nat (n div 10) @ [digit_char (n mod 10)])"

declare format_nat.simps [simp del]

definition parse_digits :: "string \<Rightarrow> nat" where
  "parse_digits s = fold (\<lambda>c acc. acc * 10 + digit_value c) s 0"

definition FormatInt :: "int \<Rightarrow> string" where
  "FormatInt n = (if n < 0 then CHR ''-'' # format_nat (nat (- n)) else format_nat (nat n))"

text \<open>\<^verbatim>\<open>ParseInt(s, 10, 64)\<close>: an optional sign, at least one digit, and the range of \<^verbatim>\<open>int64\<close>.\<close>

definition ParseInt :: "string \<Rightarrow> int option" where
  "ParseInt s =
     (let (neg, ds) = (case s of [] \<Rightarrow> (False, [])
            | c # cs \<Rightarrow> if c = CHR ''-'' then (True, cs) else if c = CHR ''+'' then (False, cs)
                else (False, c # cs))
      in if ds = [] \<or> \<not> list_all is_digit ds then None
         else let n = (if neg then - int (parse_digits ds) else int (parse_digits ds))
              in if - (2 ^ 63) \<le> n \<and> n \<le> MaxInt64 then Some n else None)"

lemma digit_char_simps [simp]:
  "d < 10 \<Longrightarrow> is_digit (digit_char d)" "d < 10 \<Longrightarrow> digit_value (digit_char d) = d"
  by (simp_all add: is_digit_def digit_char_def digit_value_def)

lemma parse_digits_append:
  "parse_digits (s @ [c]) = parse_digits s * 10 + digit_value c"
  by (simp add: parse_digits_def)

lemma parse_format_nat: "parse_digits (format_nat n) = n"
proof (induction n rule: format_nat.induct)
  case (1 n)
  show ?case
  proof (cases "n < 10")
    case True
    then show ?thesis by (simp add: format_nat.simps [of n] parse_digits_def)
  next
    case False
    with 1 show ?thesis by (simp add: format_nat.simps [of n] parse_digits_append)
  qed
qed

lemma format_nat_digits: "list_all is_digit (format_nat n) \<and> format_nat n \<noteq> []"
proof (induction n rule: format_nat.induct)
  case (1 n)
  then show ?case by (cases "n < 10") (simp_all add: format_nat.simps [of n])
qed

lemma sign_not_digit: "\<not> is_digit (CHR ''-'')" "\<not> is_digit (CHR ''+'')"
  by (simp_all add: is_digit_def)

lemma ParseInt_digits:
  assumes "list_all is_digit ds" and "ds \<noteq> []"
  shows "ParseInt ds = (if int (parse_digits ds) \<le> MaxInt64 then Some (int (parse_digits ds)) else None)"
    and "ParseInt (CHR ''-'' # ds) =
      (if int (parse_digits ds) \<le> 2 ^ 63 then Some (- int (parse_digits ds)) else None)"
proof -
  obtain c cs where ds: "ds = c # cs" using assms(2) by (cases ds) auto
  then have "c \<noteq> CHR ''-''" "c \<noteq> CHR ''+''" using assms(1) sign_not_digit by auto
  then show "ParseInt ds =
      (if int (parse_digits ds) \<le> MaxInt64 then Some (int (parse_digits ds)) else None)"
    using assms by (simp add: ParseInt_def ds Let_def)
  show "ParseInt (CHR ''-'' # ds) =
      (if int (parse_digits ds) \<le> 2 ^ 63 then Some (- int (parse_digits ds)) else None)"
    using assms by (simp add: ParseInt_def Let_def MaxInt64_def)
qed

lemma ParseInt_FormatInt:
  assumes "- (2 ^ 63) \<le> n" and "n \<le> MaxInt64"
  shows "ParseInt (FormatInt n) = Some n"
  using assms ParseInt_digits [of "format_nat (nat n)"] ParseInt_digits [of "format_nat (nat (- n))"]
    format_nat_digits [of "nat n"] format_nat_digits [of "nat (- n)"]
  by (simp add: FormatInt_def parse_format_nat)

lemma ParseInt_range: "ParseInt s = Some n \<Longrightarrow> - (2 ^ 63) \<le> n \<and> n \<le> MaxInt64"
  unfolding ParseInt_def Let_def by (auto split: prod.splits if_splits)

section \<open>JSON values\<close>

text \<open>A decoded document. A number that is not an integer literal decodes into no Go integer, so
  its value does not matter. An object keeps its members in order.\<close>

datatype json =
    JNull
  | JBool bool
  | JInt int
  | JReal
  | JStr string
  | JArr "json list"
  | JObj "(string \<times> json) list"

definition Snowflake_MarshalJSON :: "snowflake \<Rightarrow> json" where
  "Snowflake_MarshalJSON s = JStr (FormatInt s)"

definition fits_int64 :: "int \<Rightarrow> bool" where
  "fits_int64 n \<longleftrightarrow> - (2 ^ 63) \<le> n \<and> n \<le> MaxInt64"

text \<open>\<^verbatim>\<open>null\<close> decodes into the string variable without an error and leaves it empty, which is then
  no number.\<close>

definition Snowflake_UnmarshalJSON :: "json \<Rightarrow> snowflake option" where
  "Snowflake_UnmarshalJSON j = (case j of
       JStr s \<Rightarrow> ParseInt s
     | JNull \<Rightarrow> ParseInt []
     | JInt n \<Rightarrow> if fits_int64 n then Some n else None
     | _ \<Rightarrow> None)"

section \<open>The library of ids\<close>

text \<open>github.com/bwmarrin/snowflake is a parameter: how it takes an id apart, and its parser. The
  generator is \<open>Env_generate\<close>.\<close>

record snowflake_library =
  Lib_Time :: "int \<Rightarrow> int"
  Lib_Node :: "int \<Rightarrow> int"
  Lib_Step :: "int \<Rightarrow> int"
  Lib_ParseString :: "string \<Rightarrow> int option"

definition Parse :: "snowflake_library \<Rightarrow> snowflake \<Rightarrow> int \<times> int \<times> int" where
  "Parse L s = (Lib_Time L s, Lib_Node L s, Lib_Step L s)"

definition IsValid :: "snowflake_library \<Rightarrow> string \<Rightarrow> bool" where
  "IsValid L s = (case Lib_ParseString L s of None \<Rightarrow> False | Some _ \<Rightarrow> True)"

end
