(* ===== verification/Events.thy ===== *)
theory Events
  imports Snowflakes UserIndex
begin

text \<open>
  chat/events.go: the types of events, the requests with the decoding of their JSON, and the
  payloads of the events the server sends. A request is decoded the way \<^verbatim>\<open>encoding/json\<close> does
  it: members are matched by name, exactly or else up to the folding of letters, unknown ones are
  skipped, \<^verbatim>\<open>null\<close> leaves a field as it is,
        later members overwrite earlier ones, and a value of
  the wrong type is an error.
\<close>

section \<open>Event types\<close>

definition EventTypeErrorResponse :: int where "EventTypeErrorResponse = 0"

definition EventTypeSettingsResponse :: int where "EventTypeSettingsResponse = 1"

definition EventTypeOverviewResponse :: int where "EventTypeOverviewResponse = 2"

definition EventTypeMessagesRequest :: int where "EventTypeMessagesRequest = 3"

definition EventTypeMessagesResponse :: int where "EventTypeMessagesResponse = 4"

definition EventTypeUsersRequest :: int where "EventTypeUsersRequest = 5"

definition EventTypeUsersResponse :: int where "EventTypeUsersResponse = 6"

definition EventTypeUserListRequest :: int where "EventTypeUserListRequest = 7"

definition EventTypeUserListResponse :: int where "EventTypeUserListResponse = 8"

definition EventTypeMessageSendRequest :: int where "EventTypeMessageSendRequest = 9"

definition EventTypeMessageSendResponse :: int where "EventTypeMessageSendResponse = 10"

definition EventTypeMessageAdd :: int where "EventTypeMessageAdd = 11"

definition EventTypeMessageUpdate :: int where "EventTypeMessageUpdate = 12"

definition EventTypeMessageDelete :: int where "EventTypeMessageDelete = 13"

definition EventTypeMessageDeleteBulk :: int where "EventTypeMessageDeleteBulk = 14"

definition EventTypeMessageReactionAdd :: int where "EventTypeMessageReactionAdd = 15"

definition EventTypeMessageReactionDelete :: int where "EventTypeMessageReactionDelete = 16"

definition EventTypeMessageReactionDeleteAll :: int where "EventTypeMessageReactionDeleteAll = 17"

definition EventTypeMessageReactionDeleteEmoji :: int where "EventTypeMessageReactionDeleteEmoji = 18"

definition EventTypeMessageReactionUsersRequest :: int where "EventTypeMessageReactionUsersRequest = 19"

definition EventTypeMessageReactionUsersResponse :: int where "EventTypeMessageReactionUsersResponse = 20"

definition EventTypeChannelAdd :: int where "EventTypeChannelAdd = 21"

definition EventTypeChannelUpdate :: int where "EventTypeChannelUpdate = 22"

definition EventTypeChannelDelete :: int where "EventTypeChannelDelete = 23"

definition EventTypeChannelPinsUpdate :: int where "EventTypeChannelPinsUpdate = 24"

definition EventTypeRoleAdd :: int where "EventTypeRoleAdd = 25"

definition EventTypeRoleUpdate :: int where "EventTypeRoleUpdate = 26"

definition EventTypeRoleDelete :: int where "EventTypeRoleDelete = 27"

definition EventTypeUserAdd :: int where "EventTypeUserAdd = 28"

definition EventTypeUserDelete :: int where "EventTypeUserDelete = 29"

definition EventTypeUserUpdate :: int where "EventTypeUserUpdate = 30"

definition EventTypeUserPresence :: int where "EventTypeUserPresence = 31"

definition EventTypeUserTyping :: int where "EventTypeUserTyping = 32"

definition EventTypeLoginRequest :: int where "EventTypeLoginRequest = 33"

definition EventTypeTokenResponse :: int where "EventTypeTokenResponse = 34"

definition EventTypeLogoutRequest :: int where "EventTypeLogoutRequest = 35"

definition EventTypeRegisterRequest :: int where "EventTypeRegisterRequest = 36"

definition EventTypeUploadSlot :: int where "EventTypeUploadSlot = 37"

definition EventTypeUserRoleAdd :: int where "EventTypeUserRoleAdd = 38"

definition EventTypeUserRoleDelete :: int where "EventTypeUserRoleDelete = 39"

lemmas event_type_defs = EventTypeErrorResponse_def EventTypeSettingsResponse_def
  EventTypeOverviewResponse_def EventTypeMessagesRequest_def
  EventTypeMessagesResponse_def EventTypeUsersRequest_def
  EventTypeUsersResponse_def EventTypeUserListRequest_def
  EventTypeUserListResponse_def EventTypeMessageSendRequest_def
  EventTypeMessageSendResponse_def EventTypeMessageAdd_def
  EventTypeMessageUpdate_def EventTypeMessageDelete_def
  EventTypeMessageDeleteBulk_def EventTypeMessageReactionAdd_def
  EventTypeMessageReactionDelete_def EventTypeMessageReactionDeleteAll_def
  EventTypeMessageReactionDeleteEmoji_def EventTypeMessageReactionUsersRequest_def
  EventTypeMessageReactionUsersResponse_def EventTypeChannelAdd_def
  EventTypeChannelUpdate_def EventTypeChannelDelete_def
  EventTypeChannelPinsUpdate_def EventTypeRoleAdd_def
  EventTypeRoleUpdate_def EventTypeRoleDelete_def
  EventTypeUserAdd_def EventTypeUserDelete_def
  EventTypeUserUpdate_def EventTypeUserPresence_def
  EventTypeUserTyping_def EventTypeLoginRequest_def
  EventTypeTokenResponse_def EventTypeLogoutRequest_def
  EventTypeRegisterRequest_def EventTypeUploadSlot_def
  EventTypeUserRoleAdd_def EventTypeUserRoleDelete_def

section \<open>Decoding structs\<close>

text \<open>The folding of member names: ASCII letters to lower case,
        the Kelvin sign to \<^verbatim>\<open>k\<close> and the
  long s to \<^verbatim>\<open>s\<close>.\<close>

definition fold_char :: "char \<Rightarrow> char" where
  "fold_char c = (let n = of_char c :: nat in if 65 \<le> n \<and> n \<le> 90 then char_of (n + 32) else c)"

fun fold_name :: "string \<Rightarrow> string" where
  "fold_name [] = []"
| "fold_name (c # cs) =
     (if c = CHR 0xE2 \<and> take 2 cs = [CHR 0x84, CHR 0xAA] then CHR ''k'' # fold_name (drop 2 cs)
      else if c = CHR 0xC5 \<and> take 1 cs = [CHR 0xBF] then CHR ''s'' # fold_name (drop 1 cs)
      else fold_char c # fold_name cs)"

type_synonym 'r setters = "(string \<times> (json \<Rightarrow> 'r \<Rightarrow> 'r option)) list"

definition find_setter :: "'r setters \<Rightarrow> string \<Rightarrow> (json \<Rightarrow> 'r \<Rightarrow> 'r option) option" where
  "find_setter fs k =
     (case List.find (\<lambda>f. fst f = k) fs of
        Some f \<Rightarrow> Some (snd f)
      | None \<Rightarrow> map_option snd (List.find (\<lambda>f. fold_name (fst f) = fold_name k) fs))"

fun decode_members :: "'r setters \<Rightarrow> (string \<times> json) list \<Rightarrow> 'r \<Rightarrow> 'r option" where
  "decode_members fs [] r = Some r"
| "decode_members fs ((k, v) # kvs) r =
     (case find_setter fs k of
        None \<Rightarrow> decode_members fs kvs r
      | Some setter \<Rightarrow> (case setter v r of None \<Rightarrow> None | Some r \<Rightarrow> decode_members fs kvs r))"

definition decode_struct :: "'r setters \<Rightarrow> json \<Rightarrow> 'r \<Rightarrow> 'r option" where
  "decode_struct fs j r =
     (case j of JNull \<Rightarrow> Some r | JObj kvs \<Rightarrow> decode_members fs kvs r | _ \<Rightarrow> None)"

text \<open>\<^verbatim>\<open>json.Unmarshal(msg.Data,
        &req)\<close>; data that is missing is an error.\<close>

definition Unmarshal :: "'r setters \<Rightarrow> 'r \<Rightarrow> json option \<Rightarrow> 'r option" where
  "Unmarshal fs zero data = (case data of None \<Rightarrow> None | Some j \<Rightarrow> decode_struct fs j zero)"

definition set_int :: "((int \<Rightarrow> int) \<Rightarrow> 'r \<Rightarrow> 'r) \<Rightarrow> json \<Rightarrow> 'r \<Rightarrow> 'r option" where
  "set_int upd v r = (case v of JNull \<Rightarrow> Some r
     | JInt n \<Rightarrow> if fits_int64 n then Some (upd (\<lambda>_. n) r) else None | _ \<Rightarrow> None)"

definition set_perms :: "((perms \<Rightarrow> perms) \<Rightarrow> 'r \<Rightarrow> 'r) \<Rightarrow> json \<Rightarrow> 'r \<Rightarrow> 'r option" where
  "set_perms upd v r = (case v of JNull \<Rightarrow> Some r
     | JInt n \<Rightarrow> if fits_int64 n then Some (upd (\<lambda>_. word_of_int n) r) else None | _ \<Rightarrow> None)"

definition set_string :: "((string \<Rightarrow> string) \<Rightarrow> 'r \<Rightarrow> 'r) \<Rightarrow> json \<Rightarrow> 'r \<Rightarrow> 'r option" where
  "set_string upd v r = (case v of JNull \<Rightarrow> Some r | JStr s \<Rightarrow> Some (upd (\<lambda>_. s) r) | _ \<Rightarrow> None)"

definition set_bool :: "((bool \<Rightarrow> bool) \<Rightarrow> 'r \<Rightarrow> 'r) \<Rightarrow> json \<Rightarrow> 'r \<Rightarrow> 'r option" where
  "set_bool upd v r = (case v of JNull \<Rightarrow> Some r | JBool b \<Rightarrow> Some (upd (\<lambda>_. b) r) | _ \<Rightarrow> None)"

definition set_snowflake ::
  "((snowflake \<Rightarrow> snowflake) \<Rightarrow> 'r \<Rightarrow> 'r) \<Rightarrow> json \<Rightarrow> 'r \<Rightarrow> 'r option" where
  "set_snowflake upd v r = map_option (\<lambda>k. upd (\<lambda>_. k) r) (Snowflake_UnmarshalJSON v)"

definition set_snowflakes ::
  "((snowflake list \<Rightarrow> snowflake list) \<Rightarrow> 'r \<Rightarrow> 'r) \<Rightarrow> json \<Rightarrow> 'r \<Rightarrow> 'r option" where
  "set_snowflakes upd v r = (case v of JNull \<Rightarrow> Some (upd (\<lambda>_. []) r)
     | JArr js \<Rightarrow> map_option (\<lambda>ks. upd (\<lambda>_. ks) r) (those (map Snowflake_UnmarshalJSON js))
     | _ \<Rightarrow> None)"

section \<open>Requests\<close>

text \<open>\<^verbatim>\<open>UnknownEvent\<close>: the payload is still undecoded,
        and may be missing.\<close>

record UnknownEvent =
  UnknownEvent_Type :: int
  UnknownEvent_Seq :: string
  UnknownEvent_Data :: "json option"

definition Role_zero :: Role where
  "Role_zero = \<lparr>Role_ID = 0, Role_Name = [], Role_Color = 0, Role_Position = 0,
     Role_Permissions = 0, Role_Hoisted = False, Role_Mentionable = False\<rparr>"

definition role_setters :: "Role setters" where
  "role_setters =
     [(''id'', set_snowflake Role_ID_update), (''name'', set_string Role_Name_update),
      (''color'', set_int Role_Color_update), (''position'', set_int Role_Position_update),
      (''permissions'', set_perms Role_Permissions_update),
      (''hoisted'', set_bool Role_Hoisted_update),
      (''mentionable'', set_bool Role_Mentionable_update)]"

record LoginRequest =
  LoginRequest_Username :: string
  LoginRequest_Password :: string
  LoginRequest_CaptchaResponse :: string

definition decode_LoginRequest :: "json option \<Rightarrow> LoginRequest option" where
  "decode_LoginRequest = Unmarshal
     [(''username'', set_string LoginRequest_Username_update),
      (''password'', set_string LoginRequest_Password_update),
      (''captchaResponse'', set_string LoginRequest_CaptchaResponse_update)]
     \<lparr>LoginRequest_Username = [], LoginRequest_Password = [],
        LoginRequest_CaptchaResponse = []\<rparr>"

record RegisterRequest =
  RegisterRequest_Username :: string
  RegisterRequest_Password :: string
  RegisterRequest_Email :: string
  RegisterRequest_InviteCode :: string
  RegisterRequest_CaptchaResponse :: string

definition decode_RegisterRequest :: "json option \<Rightarrow> RegisterRequest option" where
  "decode_RegisterRequest = Unmarshal
     [(''username'', set_string RegisterRequest_Username_update),
      (''password'', set_string RegisterRequest_Password_update),
      (''email'', set_string RegisterRequest_Email_update),
      (''inviteCode'', set_string RegisterRequest_InviteCode_update),
      (''captchaResponse'', set_string RegisterRequest_CaptchaResponse_update)]
     \<lparr>RegisterRequest_Username = [], RegisterRequest_Password = [],
        RegisterRequest_Email = [], RegisterRequest_InviteCode = [],
        RegisterRequest_CaptchaResponse = []\<rparr>"

record MessagesRequest =
  MessagesRequest_ChannelID :: snowflake
  MessagesRequest_Before :: snowflake
  MessagesRequest_After :: snowflake
  MessagesRequest_Limit :: int

definition decode_MessagesRequest :: "json option \<Rightarrow> MessagesRequest option" where
  "decode_MessagesRequest = Unmarshal
     [(''channel'', set_snowflake MessagesRequest_ChannelID_update),
      (''before'', set_snowflake MessagesRequest_Before_update),
      (''after'', set_snowflake MessagesRequest_After_update),
      (''limit'', set_int MessagesRequest_Limit_update)]
     \<lparr>MessagesRequest_ChannelID = 0, MessagesRequest_Before = 0,
        MessagesRequest_After = 0, MessagesRequest_Limit = 0\<rparr>"

record UsersRequest =
  UsersRequest_Users :: "snowflake list"

definition decode_UsersRequest :: "json option \<Rightarrow> UsersRequest option" where
  "decode_UsersRequest = Unmarshal
     [(''users'', set_snowflakes UsersRequest_Users_update)]
     \<lparr>UsersRequest_Users = []\<rparr>"

record UserListRequest =
  UserListRequest_Start :: int
  UserListRequest_End :: int

definition decode_UserListRequest :: "json option \<Rightarrow> UserListRequest option" where
  "decode_UserListRequest = Unmarshal
     [(''start'', set_int UserListRequest_Start_update),
      (''end'', set_int UserListRequest_End_update)]
     \<lparr>UserListRequest_Start = 0, UserListRequest_End = 0\<rparr>"

record MessageSendRequest =
  MessageSendRequest_ChannelID :: snowflake
  MessageSendRequest_Content :: string
  MessageSendRequest_ReferenceID :: snowflake
  MessageSendRequest_AttachmentCount :: int

definition decode_MessageSendRequest :: "json option \<Rightarrow> MessageSendRequest option" where
  "decode_MessageSendRequest = Unmarshal
     [(''channel'', set_snowflake MessageSendRequest_ChannelID_update),
      (''content'', set_string MessageSendRequest_Content_update),
      (''reference'', set_snowflake MessageSendRequest_ReferenceID_update),
      (''attachmentCount'', set_int MessageSendRequest_AttachmentCount_update)]
     \<lparr>MessageSendRequest_ChannelID = 0, MessageSendRequest_Content = [],
        MessageSendRequest_ReferenceID = 0, MessageSendRequest_AttachmentCount = 0\<rparr>"

record MessageDeleteRequest =
  MessageDeleteRequest_MessageID :: snowflake

definition decode_MessageDeleteRequest :: "json option \<Rightarrow> MessageDeleteRequest option" where
  "decode_MessageDeleteRequest = Unmarshal
     [(''message'', set_snowflake MessageDeleteRequest_MessageID_update)]
     \<lparr>MessageDeleteRequest_MessageID = 0\<rparr>"

record MessageUpdateRequest =
  MessageUpdateRequest_MessageID :: snowflake
  MessageUpdateRequest_Content :: string

definition decode_MessageUpdateRequest :: "json option \<Rightarrow> MessageUpdateRequest option" where
  "decode_MessageUpdateRequest = Unmarshal
     [(''message'', set_snowflake MessageUpdateRequest_MessageID_update),
      (''content'', set_string MessageUpdateRequest_Content_update)]
     \<lparr>MessageUpdateRequest_MessageID = 0, MessageUpdateRequest_Content = []\<rparr>"

record ReactionAddRequest =
  ReactionAddRequest_MessageID :: snowflake
  ReactionAddRequest_EmojiID :: snowflake

definition decode_ReactionAddRequest :: "json option \<Rightarrow> ReactionAddRequest option" where
  "decode_ReactionAddRequest = Unmarshal
     [(''message'', set_snowflake ReactionAddRequest_MessageID_update),
      (''emoji'', set_snowflake ReactionAddRequest_EmojiID_update)]
     \<lparr>ReactionAddRequest_MessageID = 0, ReactionAddRequest_EmojiID = 0\<rparr>"

record ReactionDeleteRequest =
  ReactionDeleteRequest_MessageID :: snowflake
  ReactionDeleteRequest_EmojiID :: snowflake

definition decode_ReactionDeleteRequest :: "json option \<Rightarrow> ReactionDeleteRequest option" where
  "decode_ReactionDeleteRequest = Unmarshal
     [(''message'', set_snowflake ReactionDeleteRequest_MessageID_update),
      (''emoji'', set_snowflake ReactionDeleteRequest_EmojiID_update)]
     \<lparr>ReactionDeleteRequest_MessageID = 0, ReactionDeleteRequest_EmojiID = 0\<rparr>"

record ReactionUsersRequest =
  ReactionUsersRequest_MessageID :: snowflake
  ReactionUsersRequest_EmojiID :: snowflake

definition decode_ReactionUsersRequest :: "json option \<Rightarrow> ReactionUsersRequest option" where
  "decode_ReactionUsersRequest = Unmarshal
     [(''message'', set_snowflake ReactionUsersRequest_MessageID_update),
      (''emoji'', set_snowflake ReactionUsersRequest_EmojiID_update)]
     \<lparr>ReactionUsersRequest_MessageID = 0, ReactionUsersRequest_EmojiID = 0\<rparr>"

record UserUpdateRequest =
  UserUpdateRequest_UserID :: snowflake
  UserUpdateRequest_DisplayName :: string
  UserUpdateRequest_StatusMessage :: string
  UserUpdateRequest_ProfileMessage :: string
  UserUpdateRequest_ProfileColor :: int
  UserUpdateRequest_AvatarModified :: int
  UserUpdateRequest_SetName :: bool
  UserUpdateRequest_SetProfile :: bool
  UserUpdateRequest_SetAvatar :: bool

definition decode_UserUpdateRequest :: "json option \<Rightarrow> UserUpdateRequest option" where
  "decode_UserUpdateRequest = Unmarshal
     [(''user'', set_snowflake UserUpdateRequest_UserID_update),
      (''displayName'', set_string UserUpdateRequest_DisplayName_update),
      (''statusMessage'', set_string UserUpdateRequest_StatusMessage_update),
      (''profileMessage'', set_string UserUpdateRequest_ProfileMessage_update),
      (''profileColor'', set_int UserUpdateRequest_ProfileColor_update),
      (''avatarModified'', set_int UserUpdateRequest_AvatarModified_update),
      (''setName'', set_bool UserUpdateRequest_SetName_update),
      (''setProfile'', set_bool UserUpdateRequest_SetProfile_update),
      (''setAvatar'', set_bool UserUpdateRequest_SetAvatar_update)]
     \<lparr>UserUpdateRequest_UserID = 0, UserUpdateRequest_DisplayName = [],
        UserUpdateRequest_StatusMessage = [], UserUpdateRequest_ProfileMessage = [],
        UserUpdateRequest_ProfileColor = 0, UserUpdateRequest_AvatarModified = 0,
        UserUpdateRequest_SetName = False, UserUpdateRequest_SetProfile = False,
        UserUpdateRequest_SetAvatar = False\<rparr>"

record RoleAddRequest =
  RoleAddRequest_Name :: string
  RoleAddRequest_Color :: int
  RoleAddRequest_Position :: int
  RoleAddRequest_Permissions :: perms
  RoleAddRequest_Hoisted :: bool
  RoleAddRequest_Mentionable :: bool

definition decode_RoleAddRequest :: "json option \<Rightarrow> RoleAddRequest option" where
  "decode_RoleAddRequest = Unmarshal
     [(''name'', set_string RoleAddRequest_Name_update),
      (''color'', set_int RoleAddRequest_Color_update),
      (''position'', set_int RoleAddRequest_Position_update),
      (''permissions'', set_perms RoleAddRequest_Permissions_update),
      (''hoisted'', set_bool RoleAddRequest_Hoisted_update),
      (''mentionable'', set_bool RoleAddRequest_Mentionable_update)]
     \<lparr>RoleAddRequest_Name = [], RoleAddRequest_Color = 0, RoleAddRequest_Position = 0,
        RoleAddRequest_Permissions = 0, RoleAddRequest_Hoisted = False,
        RoleAddRequest_Mentionable = False\<rparr>"

record RoleUpdateRequest =
  RoleUpdateRequest_Role :: Role

definition decode_RoleUpdateRequest :: "json option \<Rightarrow> RoleUpdateRequest option" where
  "decode_RoleUpdateRequest = Unmarshal
     [(''role'',
        (\<lambda>v r. map_option (\<lambda>x. r\<lparr>RoleUpdateRequest_Role := x\<rparr>)
         (decode_struct role_setters v (RoleUpdateRequest_Role r))))]
     \<lparr>RoleUpdateRequest_Role = Role_zero\<rparr>"

record RoleDeleteRequest =
  RoleDeleteRequest_RoleID :: snowflake

definition decode_RoleDeleteRequest :: "json option \<Rightarrow> RoleDeleteRequest option" where
  "decode_RoleDeleteRequest = Unmarshal
     [(''role'', set_snowflake RoleDeleteRequest_RoleID_update)]
     \<lparr>RoleDeleteRequest_RoleID = 0\<rparr>"

record UserRoleAddRequest =
  UserRoleAddRequest_UserID :: snowflake
  UserRoleAddRequest_RoleID :: snowflake

definition decode_UserRoleAddRequest :: "json option \<Rightarrow> UserRoleAddRequest option" where
  "decode_UserRoleAddRequest = Unmarshal
     [(''user'', set_snowflake UserRoleAddRequest_UserID_update),
      (''role'', set_snowflake UserRoleAddRequest_RoleID_update)]
     \<lparr>UserRoleAddRequest_UserID = 0, UserRoleAddRequest_RoleID = 0\<rparr>"

record UserRoleDeleteRequest =
  UserRoleDeleteRequest_UserID :: snowflake
  UserRoleDeleteRequest_RoleID :: snowflake

definition decode_UserRoleDeleteRequest :: "json option \<Rightarrow> UserRoleDeleteRequest option" where
  "decode_UserRoleDeleteRequest = Unmarshal
     [(''user'', set_snowflake UserRoleDeleteRequest_UserID_update),
      (''role'', set_snowflake UserRoleDeleteRequest_RoleID_update)]
     \<lparr>UserRoleDeleteRequest_UserID = 0, UserRoleDeleteRequest_RoleID = 0\<rparr>"

section \<open>Events sent\<close>

text \<open>The message text of an \<^verbatim>\<open>ErrorResponse\<close> is never filled in by the server.\<close>

record ErrorResponse =
  ErrorResponse_Code :: nat
  ErrorResponse_Request :: int

record SettingsResponse =
  SettingsResponse_SiteName :: string
  SettingsResponse_LoginMessage :: string
  SettingsResponse_DefaultPermissions :: perms
  SettingsResponse_Authenticated :: bool
  SettingsResponse_UsesEmail :: bool
  SettingsResponse_UsesInviteCodes :: bool
  SettingsResponse_UsesCaptcha :: bool
  SettingsResponse_UsesLoginCaptcha :: bool
  SettingsResponse_CaptchSiteKey :: string

record OverviewResponse =
  OverviewResponse_You :: User
  OverviewResponse_Users :: "User list"
  OverviewResponse_Channels :: "Channel list"
  OverviewResponse_Roles :: "Role list"
  OverviewResponse_UserList :: UserListResponse

record MessagesResponse =
  MessagesResponse_ChannelID :: snowflake
  MessagesResponse_Before :: snowflake
  MessagesResponse_After :: snowflake
  MessagesResponse_Limit :: int
  MessagesResponse_Messages :: "Message list"
  MessagesResponse_References :: "Message list"

record MessageAddEvent =
  MessageAddEvent_Message :: Message
  MessageAddEvent_Reference :: Message
  MessageAddEvent_Author :: User

record ReactionEvent =
  ReactionEvent_MessageID :: snowflake
  ReactionEvent_UserID :: snowflake
  ReactionEvent_EmojiID :: snowflake

record ReactionUsersResponse =
  ReactionUsersResponse_MessageID :: snowflake
  ReactionUsersResponse_EmojiID :: snowflake
  ReactionUsersResponse_Users :: "snowflake list"

datatype EventData =
    ErrorResponse ErrorResponse
  | SettingsResponse SettingsResponse
  | OverviewResponse OverviewResponse
  | TokenResponse string
  | MessagesResponse MessagesResponse
  | UsersResponse "User list"
  | UserListResponse UserListResponse
  | MessageSendResponse snowflake
  | MessageUploadSlot snowflake
  | MessageAddEvent MessageAddEvent
  | MessageUpdateEvent Message
  | MessageDeleteEvent snowflake
  | ReactionAddEvent ReactionEvent
  | ReactionDeleteEvent ReactionEvent
  | ReactionUsersResponse ReactionUsersResponse
  | UserAddEvent User
  | UserUpdateEvent User
  | UserDeleteEvent snowflake
  | RoleAddEvent Role
  | RoleUpdateEvent Role
  | RoleDeleteEvent snowflake

record Event =
  Event_Type :: int
  Event_Seq :: string
  Event_Data :: EventData

definition event :: "int \<Rightarrow> EventData \<Rightarrow> Event" where
  "event ty d = \<lparr>Event_Type = ty, Event_Seq = [], Event_Data = d\<rparr>"

lemma event_simps [simp]: "Event_Type (event ty d) = ty" "Event_Data (event ty d) = d"
  by (simp_all add: event_def)

section \<open>Types and payloads\<close>

text \<open>The type that the code gives an event with a payload, and the events that have it.\<close>

fun payload_type :: "EventData \<Rightarrow> int" where
  "payload_type (ErrorResponse _) = EventTypeErrorResponse"
| "payload_type (SettingsResponse _) = EventTypeSettingsResponse"
| "payload_type (OverviewResponse _) = EventTypeOverviewResponse"
| "payload_type (TokenResponse _) = EventTypeTokenResponse"
| "payload_type (MessagesResponse _) = EventTypeMessagesResponse"
| "payload_type (UsersResponse _) = EventTypeUsersResponse"
| "payload_type (UserListResponse _) = EventTypeUserListResponse"
| "payload_type (MessageSendResponse _) = EventTypeMessageSendResponse"
| "payload_type (MessageUploadSlot _) = EventTypeUploadSlot"
| "payload_type (MessageAddEvent _) = EventTypeMessageAdd"
| "payload_type (MessageUpdateEvent _) = EventTypeMessageUpdate"
| "payload_type (MessageDeleteEvent _) = EventTypeMessageDelete"
| "payload_type (ReactionAddEvent _) = EventTypeMessageReactionAdd"
| "payload_type (ReactionDeleteEvent _) = EventTypeMessageReactionDelete"
| "payload_type (ReactionUsersResponse _) = EventTypeMessageReactionUsersResponse"
| "payload_type (UserAddEvent _) = EventTypeUserAdd"
| "payload_type (UserUpdateEvent _) = EventTypeUserUpdate"
| "payload_type (UserDeleteEvent _) = EventTypeUserDelete"
| "payload_type (RoleAddEvent _) = EventTypeRoleAdd"
| "payload_type (RoleUpdateEvent _) = EventTypeRoleUpdate"
| "payload_type (RoleDeleteEvent _) = EventTypeRoleDelete"

definition typed :: "Event \<Rightarrow> bool" where
  "typed ev \<longleftrightarrow> Event_Type ev = payload_type (Event_Data ev)"

lemma typed_event [simp]:
  "typed (event ty d) \<longleftrightarrow> ty = payload_type d" "typed (ev\<lparr>Event_Seq := s\<rparr>) = typed ev"
  by (simp_all add: typed_def)

end
