(* ===== verification/Gateway.thy ===== *)
theory Gateway
  imports Events Index_Sync
begin

text \<open>
  chat/gateway.go, chat/relay.go and chat/captcha.go: the gateway with its connections, pending
  uploads and index, what a connection writes, the relay of events to the other connections,
  and the captcha check. The state of the process is the record \<open>World\<close>. A connection object is
  named by a number, its address; the events written to the web sockets are kept in order, and
  a goroutine that was started and has not run yet is a \<open>Task\<close>. A mutex makes the code it
  guards atomic; a handler is one function here, from its first read to its last relay. What comes
  of other goroutines between the commit of a handler and its change of the index is in
  Publications and Concurrent_Steps.
\<close>

section \<open>State\<close>

record GatewayConnection =
  \<comment> \<open>\<^verbatim>\<open>ws != nil\<close>\<close>
  Conn_ws :: bool
  Conn_queue :: "Event list"
  Conn_userID :: snowflake
  Conn_token :: string
  Conn_session :: string
  Conn_seq :: string
  Conn_request :: int
  Conn_closing :: bool
  Conn_lastUserListRange :: IndexRange

text \<open>The two types that the code stores in \<^verbatim>\<open>requestData\<close>.\<close>

datatype RequestData = PendingMessage Message | PendingUserUpdate UserUpdateRequest

record PendingRequest =
  Pending_slotID :: snowflake
  Pending_requestType :: int
  Pending_requestData :: RequestData
  Pending_seq :: string
  Pending_session :: string

record Gateway =
  Gateway_connections :: "(string, nat) gomap"
  Gateway_pending :: "(snowflake, PendingRequest) gomap"
  Gateway_index :: Index

text \<open>The goroutines that handlers start: the two relays, and fetching the embeds of a message.\<close>

datatype Task =
    RelayTask Event
  | RelayByChannelTask Event snowflake
  | EmbedTask nat snowflake "string list"

record World =
  W_db :: Database
  W_tick :: nat
  W_lastWrite :: int
  W_gw :: Gateway
  W_conns :: "(nat, GatewayConnection) gomap"
  \<comment> \<open>the events that were given to \<^verbatim>\<open>writeEvent\<close>, with the connection\<close>
  W_out :: "(nat \<times> Event) list"
  \<comment> \<open>those of them that the web socket took\<close>
  W_wire :: "(nat \<times> Event) list"
  \<comment> \<open>the connections whose web socket takes no more messages\<close>
  W_dead :: "nat list"
  W_tasks :: "Task list"
  W_usedCaptchas :: "(string, int) gomap"
  W_usedCaptchasLastCleaned :: int
  \<comment> \<open>the connections whose goroutine panicked\<close>
  W_panicked :: "nat list"
  \<comment> \<open>how often a database connection was lost or given back inside a transaction\<close>
  W_leaked :: nat

abbreviation W_index :: "World \<Rightarrow> Index" where
  "W_index w \<equiv> Gateway_index (W_gw w)"

definition Connection_zero :: GatewayConnection where
  "Connection_zero = \<lparr>Conn_ws = False, Conn_queue = [], Conn_userID = 0, Conn_token = [],
     Conn_session = [], Conn_seq = [], Conn_request = 0, Conn_closing = False,
     Conn_lastUserListRange = index_range 0 0\<rparr>"

text \<open>The fields behind a connection's address.\<close>

definition conn_of :: "World \<Rightarrow> nat \<Rightarrow> GatewayConnection" where
  "conn_of w cid = (case get (W_conns w) cid of None \<Rightarrow> Connection_zero | Some c \<Rightarrow> c)"

definition set_conn :: "nat \<Rightarrow> (GatewayConnection \<Rightarrow> GatewayConnection) \<Rightarrow> World \<Rightarrow> World" where
  "set_conn cid f w = w\<lparr>W_conns := put cid (f (conn_of w cid)) (W_conns w)\<rparr>"

definition set_gw :: "(Gateway \<Rightarrow> Gateway) \<Rightarrow> World \<Rightarrow> World" where
  "set_gw f w = w\<lparr>W_gw := f (W_gw w)\<rparr>"

definition set_index :: "Index \<Rightarrow> World \<Rightarrow> World" where
  "set_index ix = set_gw (\<lambda>g. g\<lparr>Gateway_index := ix\<rparr>)"

definition tick_world :: "World \<Rightarrow> World" where
  "tick_world w = w\<lparr>W_tick := Suc (W_tick w)\<rparr>"

lemma conn_of_set_conn [simp]:
  "conn_of (set_conn cid f w) k = (if k = cid then f (conn_of w cid) else conn_of w k)"
  by (simp add: conn_of_def set_conn_def)

lemma set_conn_fields [simp]:
  "W_db (set_conn cid f w) = W_db w" "W_tick (set_conn cid f w) = W_tick w"
  "W_lastWrite (set_conn cid f w) = W_lastWrite w" "W_gw (set_conn cid f w) = W_gw w"
  "W_out (set_conn cid f w) = W_out w" "W_wire (set_conn cid f w) = W_wire w"
  "W_dead (set_conn cid f w) = W_dead w" "W_tasks (set_conn cid f w) = W_tasks w"
  "W_usedCaptchas (set_conn cid f w) = W_usedCaptchas w"
  "W_usedCaptchasLastCleaned (set_conn cid f w) = W_usedCaptchasLastCleaned w"
  "W_panicked (set_conn cid f w) = W_panicked w" "W_leaked (set_conn cid f w) = W_leaked w"
  by (simp_all add: set_conn_def)

lemma set_gw_fields [simp]:
  "W_db (set_gw g w) = W_db w" "W_tick (set_gw g w) = W_tick w"
  "W_lastWrite (set_gw g w) = W_lastWrite w" "W_gw (set_gw g w) = g (W_gw w)"
  "W_conns (set_gw g w) = W_conns w" "conn_of (set_gw g w) k = conn_of w k"
  "W_out (set_gw g w) = W_out w" "W_wire (set_gw g w) = W_wire w"
  "W_dead (set_gw g w) = W_dead w" "W_tasks (set_gw g w) = W_tasks w"
  "W_usedCaptchas (set_gw g w) = W_usedCaptchas w"
  "W_usedCaptchasLastCleaned (set_gw g w) = W_usedCaptchasLastCleaned w"
  "W_panicked (set_gw g w) = W_panicked w" "W_leaked (set_gw g w) = W_leaked w"
  by (simp_all add: set_gw_def conn_of_def)

lemma tick_world_fields [simp]:
  "W_db (tick_world w) = W_db w" "W_tick (tick_world w) = Suc (W_tick w)"
  "W_lastWrite (tick_world w) = W_lastWrite w" "W_gw (tick_world w) = W_gw w"
  "W_conns (tick_world w) = W_conns w" "conn_of (tick_world w) k = conn_of w k"
  "W_out (tick_world w) = W_out w" "W_wire (tick_world w) = W_wire w"
  "W_dead (tick_world w) = W_dead w" "W_tasks (tick_world w) = W_tasks w"
  "W_usedCaptchas (tick_world w) = W_usedCaptchas w"
  "W_usedCaptchasLastCleaned (tick_world w) = W_usedCaptchasLastCleaned w"
  "W_panicked (tick_world w) = W_panicked w" "W_leaked (tick_world w) = W_leaked w"
  by (simp_all add: tick_world_def conn_of_def)

section \<open>Connections and pending uploads\<close>

definition AddConnection :: "nat \<Rightarrow> World \<Rightarrow> World" where
  "AddConnection cid w = set_gw (\<lambda>g. g\<lparr>Gateway_connections :=
     put (Conn_session (conn_of w cid)) cid (Gateway_connections g)\<rparr>) w"

definition RemoveConnection :: "nat \<Rightarrow> World \<Rightarrow> World" where
  "RemoveConnection cid w = set_gw (\<lambda>g. g\<lparr>Gateway_connections :=
     del (Conn_session (conn_of w cid)) (Gateway_connections g)\<rparr>) w"

definition GetConnection :: "string \<Rightarrow> World \<Rightarrow> nat option" where
  "GetConnection session w = get (Gateway_connections (W_gw w)) session"

definition PushPendingRequest :: "PendingRequest \<Rightarrow> snowflake \<Rightarrow> World \<Rightarrow> World" where
  "PushPendingRequest req slot =
     set_gw (\<lambda>g. g\<lparr>Gateway_pending := put slot req (Gateway_pending g)\<rparr>)"

definition PopPendingRequest :: "snowflake \<Rightarrow> World \<Rightarrow> PendingRequest option \<times> World" where
  "PopPendingRequest slot w =
     (case get (Gateway_pending (W_gw w)) slot of
        Some req \<Rightarrow>
          (Some req, set_gw (\<lambda>g. g\<lparr>Gateway_pending := del slot (Gateway_pending g)\<rparr>) w)
      | None \<Rightarrow> (None, w))"

section \<open>Writing events\<close>

text \<open>\<^verbatim>\<open>writeEvent\<close> gives up when the socket yields no writer: once a write has failed or the socket
  was closed, it yields none any more.\<close>

definition writeEvent :: "Event \<Rightarrow> nat \<Rightarrow> World \<Rightarrow> World" where
  "writeEvent msg cid w =
     (let w = w\<lparr>W_out := W_out w @ [(cid, msg)]\<rparr> in
      if cid \<in> set (W_dead w) then w else w\<lparr>W_wire := W_wire w @ [(cid, msg)]\<rparr>)"

definition Write :: "Event \<Rightarrow> nat \<Rightarrow> World \<Rightarrow> World" where
  "Write msg cid w = writeEvent (msg\<lparr>Event_Seq := Conn_seq (conn_of w cid)\<rparr>) cid w"

definition WriteUnsolicited :: "Event \<Rightarrow> nat \<Rightarrow> World \<Rightarrow> World" where
  "WriteUnsolicited msg cid w = writeEvent msg cid w"

lemma writeEvent_fields [simp]:
  "W_db (writeEvent m cid w) = W_db w" "W_tick (writeEvent m cid w) = W_tick w"
  "W_lastWrite (writeEvent m cid w) = W_lastWrite w" "W_gw (writeEvent m cid w) = W_gw w"
  "W_conns (writeEvent m cid w) = W_conns w" "conn_of (writeEvent m cid w) k = conn_of w k"
  "W_out (writeEvent m cid w) = W_out w @ [(cid, m)]" "W_tasks (writeEvent m cid w) = W_tasks w"
  "W_usedCaptchas (writeEvent m cid w) = W_usedCaptchas w"
  "W_usedCaptchasLastCleaned (writeEvent m cid w) = W_usedCaptchasLastCleaned w"
  "W_panicked (writeEvent m cid w) = W_panicked w" "W_leaked (writeEvent m cid w) = W_leaked w"
  "W_dead (writeEvent m cid w) = W_dead w"
  "W_wire (writeEvent m cid w) = W_wire w @ (if cid \<in> set (W_dead w) then [] else [(cid, m)])"
  by (simp_all add: writeEvent_def conn_of_def Let_def)

lemma Write_fields [simp]:
  "W_db (Write m cid w) = W_db w" "W_tick (Write m cid w) = W_tick w"
  "W_lastWrite (Write m cid w) = W_lastWrite w" "W_gw (Write m cid w) = W_gw w"
  "W_conns (Write m cid w) = W_conns w" "conn_of (Write m cid w) k = conn_of w k"
  "W_out (Write m cid w) = W_out w @ [(cid, m\<lparr>Event_Seq := Conn_seq (conn_of w cid)\<rparr>)]"
  "W_tasks (Write m cid w) = W_tasks w" "W_usedCaptchas (Write m cid w) = W_usedCaptchas w"
  "W_usedCaptchasLastCleaned (Write m cid w) = W_usedCaptchasLastCleaned w"
  "W_panicked (Write m cid w) = W_panicked w" "W_leaked (Write m cid w) = W_leaked w"
  "W_dead (Write m cid w) = W_dead w"
  "W_wire (Write m cid w) = W_wire w @ (if cid \<in> set (W_dead w) then []
     else [(cid, m\<lparr>Event_Seq := Conn_seq (conn_of w cid)\<rparr>)])"
  by (simp_all add: Write_def)

text \<open>The socket takes no more messages: the client is gone or the network failed, or the process
  closed the socket (\<^verbatim>\<open>ws.Close\<close>) or announced the end (\<^verbatim>\<open>WriteControl\<close> of a close message, after
  which the socket yields no writer).\<close>

definition shut_socket :: "nat \<Rightarrow> World \<Rightarrow> World" where
  "shut_socket cid w = w\<lparr>W_dead := List.insert cid (W_dead w)\<rparr>"

lemma shut_socket_fields [simp]:
  "W_db (shut_socket cid w) = W_db w" "W_tick (shut_socket cid w) = W_tick w"
  "W_lastWrite (shut_socket cid w) = W_lastWrite w" "W_gw (shut_socket cid w) = W_gw w"
  "W_conns (shut_socket cid w) = W_conns w" "conn_of (shut_socket cid w) k = conn_of w k"
  "W_out (shut_socket cid w) = W_out w" "W_wire (shut_socket cid w) = W_wire w"
  "W_dead (shut_socket cid w) = List.insert cid (W_dead w)"
  "W_tasks (shut_socket cid w) = W_tasks w" "W_usedCaptchas (shut_socket cid w) = W_usedCaptchas w"
  "W_usedCaptchasLastCleaned (shut_socket cid w) = W_usedCaptchasLastCleaned w"
  "W_panicked (shut_socket cid w) = W_panicked w" "W_leaked (shut_socket cid w) = W_leaked w"
  by (simp_all add: shut_socket_def conn_of_def)

text \<open>\<^verbatim>\<open>Close\<close>, which the write loop of a connection calls when the process shuts down: it announces the
  end and gives the client some time to answer, or closes the socket when one of the two fails.
  \<open>announced\<close> and \<open>deadline\<close> tell whether they succeed.\<close>

definition conn_Close :: "bool \<Rightarrow> bool \<Rightarrow> nat \<Rightarrow> World \<Rightarrow> unit go_result \<times> World" where
  "conn_Close announced deadline cid w =
     (if \<not> announced then (Err Uncoded, shut_socket cid w)
      else let w = shut_socket cid w in
           if \<not> deadline then (Err Uncoded, shut_socket cid w) else (Ok (), w))"

lemma conn_Close_shuts: "snd (conn_Close announced deadline cid w) = shut_socket cid w"
  by (simp add: conn_Close_def Let_def shut_socket_def)

section \<open>What reaches the sockets\<close>

text \<open>No socket was shut, and each one that takes messages took what was written to it.\<close>

definition wired :: "World \<Rightarrow> World \<Rightarrow> bool" where
  "wired w w' \<longleftrightarrow> W_dead w' = W_dead w \<and> (\<exists>out. W_out w' = W_out w @ out \<and>
     W_wire w' = W_wire w @ filter (\<lambda>(k, ev). k \<notin> set (W_dead w)) out)"

lemma wired_quiet: "W_dead w' = W_dead w \<Longrightarrow> W_out w' = W_out w \<Longrightarrow> W_wire w' = W_wire w \<Longrightarrow> wired w w'"
  by (simp add: wired_def)

lemma wired_refl [simp, intro!]: "wired w w"
  by (simp add: wired_def)

lemma wired_trans: "wired w w1 \<Longrightarrow> wired w1 w2 \<Longrightarrow> wired w w2"
  by (auto simp: wired_def)

lemma wired_write [simp, intro]:
  "wired w v \<Longrightarrow> wired w (writeEvent m cid v)" "wired w v \<Longrightarrow> wired w (Write m cid v)"
  by (auto simp: wired_def)

lemma wired_same [simp]:
  "wired w (set_conn cid f v) = wired w v" "wired w (set_gw g v) = wired w v"
  "wired w (tick_world v) = wired w v" "wired w (v\<lparr>W_db := db\<rparr>) = wired w v"
  "wired w (v\<lparr>W_tick := n\<rparr>) = wired w v" "wired w (v\<lparr>W_lastWrite := t\<rparr>) = wired w v"
  "wired w (v\<lparr>W_tasks := ts\<rparr>) = wired w v" "wired w (v\<lparr>W_panicked := ps\<rparr>) = wired w v"
  "wired w (v\<lparr>W_leaked := l\<rparr>) = wired w v" "wired w (v\<lparr>W_usedCaptchas := us\<rparr>) = wired w v"
  "wired w (v\<lparr>W_conns := cs\<rparr>) = wired w v"
  by (simp_all add: wired_def)

text \<open>\<^verbatim>\<open>HandleError\<close> of chat/handlers.go.\<close>

definition error_code :: "goerr \<Rightarrow> nat" where
  "error_code e = (case e of Coded c \<Rightarrow> c | _ \<Rightarrow> ErrorCodeInternalError)"

definition error_event :: "goerr \<Rightarrow> int \<Rightarrow> Event" where
  "error_event e request = event EventTypeErrorResponse
     (ErrorResponse \<lparr>ErrorResponse_Code = error_code e, ErrorResponse_Request = request\<rparr>)"

definition HandleError :: "goerr \<Rightarrow> nat \<Rightarrow> World \<Rightarrow> World" where
  "HandleError e cid w = Write (error_event e (Conn_request (conn_of w cid))) cid w"

section \<open>Relaying\<close>

definition Connected :: "GatewayConnection \<Rightarrow> bool" where
  "Connected c \<longleftrightarrow> Conn_ws c \<and> \<not> Conn_closing c"

definition Authenticated :: "GatewayConnection \<Rightarrow> bool" where
  "Authenticated c \<longleftrightarrow> Conn_token c \<noteq> [] \<and> Conn_userID c \<noteq> 0"

text \<open>The capacity that \<^verbatim>\<open>HandleGatewayConnection\<close> gives the channel.\<close>

definition queue_capacity :: nat where
  "queue_capacity = 16"

definition conn_Relay :: "Event \<Rightarrow> nat \<Rightarrow> World \<Rightarrow> World" where
  "conn_Relay ev cid w =
     (let c = conn_of w cid in
      if queue_capacity \<le> length (Conn_queue c) then w
      else if \<not> Connected c \<or> \<not> Authenticated c then w
      else set_conn cid (\<lambda>c. c\<lparr>Conn_queue := Conn_queue c @ [ev]\<rparr>) w)"

definition go :: "Task \<Rightarrow> World \<Rightarrow> World" where
  "go task w = w\<lparr>W_tasks := W_tasks w @ [task]\<rparr>"

lemma go_fields [simp]:
  "W_db (go m w) = W_db w" "W_tick (go m w) = W_tick w"
  "W_lastWrite (go m w) = W_lastWrite w" "W_gw (go m w) = W_gw w"
  "W_conns (go m w) = W_conns w" "conn_of (go m w) k = conn_of w k"
  "W_out (go m w) = W_out w" "W_wire (go m w) = W_wire w"
  "W_dead (go m w) = W_dead w" "W_tasks (go m w) = W_tasks w @ [m]"
  "W_usedCaptchas (go m w) = W_usedCaptchas w"
  "W_usedCaptchasLastCleaned (go m w) = W_usedCaptchasLastCleaned w"
  "W_panicked (go m w) = W_panicked w" "W_leaked (go m w) = W_leaked w"
  "wired v (go m w) = wired v w"
  by (simp_all add: go_def conn_of_def)

definition gw_Relay :: "Event \<Rightarrow> World \<Rightarrow> World" where
  "gw_Relay ev = go (RelayTask ev)"

definition gw_RelayByChannel :: "Event \<Rightarrow> snowflake \<Rightarrow> World \<Rightarrow> World" where
  "gw_RelayByChannel ev channelID = go (RelayByChannelTask ev channelID)"

text \<open>The bodies of the two goroutines.\<close>

definition run_Relay :: "(string list \<Rightarrow> string list) \<Rightarrow> Event \<Rightarrow> World \<Rightarrow> World" where
  "run_Relay visit ev w =
     (let conns = Gateway_connections (W_gw w) in
      fold (\<lambda>s w. case get conns s of None \<Rightarrow> w | Some cid \<Rightarrow> conn_Relay ev cid w)
        (visit (keys conns)) w)"

definition relay_to_viewer :: "Event \<Rightarrow> snowflake \<Rightarrow> nat \<Rightarrow> World \<Rightarrow> World" where
  "relay_to_viewer ev channelID cid w =
     (let c = conn_of w cid in
      if \<not> Authenticated c then w
      else let perms = index_GetPermissionsByChannel (W_index w) (Conn_userID c) channelID in
           if \<not> has_perm perms PermissionViewChannel then w else conn_Relay ev cid w)"

definition run_RelayByChannel ::
  "(string list \<Rightarrow> string list) \<Rightarrow> Event \<Rightarrow> snowflake \<Rightarrow> World \<Rightarrow> World" where
  "run_RelayByChannel visit ev channelID w =
     (let conns = Gateway_connections (W_gw w) in
      fold (\<lambda>s w. case get conns s of None \<Rightarrow> w | Some cid \<Rightarrow> relay_to_viewer ev channelID cid w)
        (visit (keys conns)) w)"

section \<open>The events that handlers relay\<close>

definition OnMessageAdd :: "MessageAddEvent \<Rightarrow> World \<Rightarrow> World" where
  "OnMessageAdd msg = gw_RelayByChannel (event EventTypeMessageAdd (MessageAddEvent msg))
     (Message_ChannelID (MessageAddEvent_Message msg))"

definition OnMessageDelete :: "snowflake \<Rightarrow> snowflake \<Rightarrow> World \<Rightarrow> World" where
  "OnMessageDelete mid channelID =
     gw_RelayByChannel (event EventTypeMessageDelete (MessageDeleteEvent mid)) channelID"

definition OnMessageUpdate :: "Message \<Rightarrow> World \<Rightarrow> World" where
  "OnMessageUpdate msg = gw_RelayByChannel (event EventTypeMessageUpdate (MessageUpdateEvent msg))
     (Message_ChannelID msg)"

definition OnReactionAdd :: "ReactionEvent \<Rightarrow> snowflake \<Rightarrow> World \<Rightarrow> World" where
  "OnReactionAdd msg channelID =
     gw_RelayByChannel (event EventTypeMessageReactionAdd (ReactionAddEvent msg)) channelID"

definition OnReactionDelete :: "ReactionEvent \<Rightarrow> snowflake \<Rightarrow> World \<Rightarrow> World" where
  "OnReactionDelete msg channelID =
     gw_RelayByChannel (event EventTypeMessageReactionDelete (ReactionDeleteEvent msg)) channelID"

definition OnUserAdd :: "User \<Rightarrow> World \<Rightarrow> World" where
  "OnUserAdd user = gw_Relay (event EventTypeUserAdd (UserAddEvent user))"

definition OnUserDelete :: "snowflake \<Rightarrow> World \<Rightarrow> World" where
  "OnUserDelete uid = gw_Relay (event EventTypeUserDelete (UserDeleteEvent uid))"

definition OnUserUpdate :: "User \<Rightarrow> World \<Rightarrow> World" where
  "OnUserUpdate user = gw_Relay (event EventTypeUserUpdate (UserUpdateEvent user))"

definition OnRoleAdd :: "Role \<Rightarrow> World \<Rightarrow> World" where
  "OnRoleAdd role = gw_Relay (event EventTypeRoleAdd (RoleAddEvent role))"

definition OnRoleDelete :: "snowflake \<Rightarrow> World \<Rightarrow> World" where
  "OnRoleDelete rid = gw_Relay (event EventTypeRoleDelete (RoleDeleteEvent rid))"

definition OnRoleUpdate :: "Role \<Rightarrow> World \<Rightarrow> World" where
  "OnRoleUpdate role = gw_Relay (event EventTypeRoleUpdate (RoleUpdateEvent role))"

lemmas relay_defs = gw_Relay_def gw_RelayByChannel_def OnMessageAdd_def OnMessageDelete_def
  OnMessageUpdate_def OnReactionAdd_def OnReactionDelete_def OnUserAdd_def OnUserDelete_def
  OnUserUpdate_def OnRoleAdd_def OnRoleDelete_def OnRoleUpdate_def

section \<open>Background loops\<close>

text \<open>One iteration of the loop that rebuilds a stale user list; \<open>None\<close> is a panic.\<close>

definition refresh_user_list ::
  "(snowflake list \<Rightarrow> snowflake list) \<Rightarrow> World \<Rightarrow> World option" where
  "refresh_user_list visit w =
     (if Index_Stale (W_index w)
      then map_option (\<lambda>ix. set_index ix w) (UpdateUserList visit (W_index w)) else Some w)"

text \<open>One iteration of the loop that pushes the changed ranges of the user list: a connection is
  sent its slice once, whatever the number of changes that overlap it.\<close>

definition push_to :: "IndexRange list \<Rightarrow> nat \<Rightarrow> World \<Rightarrow> World" where
  "push_to changes cid w =
     (let last = Conn_lastUserListRange (conn_of w cid) in
      if list_ex (Overlaps last) changes
      then Write (event EventTypeUserListResponse (UserListResponse
             (GetUserListSlice (W_index w) (IndexRange_From last) (IndexRange_To last) 128))) cid w
      else w)"

definition push_changes :: "(string list \<Rightarrow> string list) \<Rightarrow> World \<Rightarrow> World" where
  "push_changes visit w =
     (case PopAllChanges (W_index w) of
        (changes, ix) \<Rightarrow>
          let w = set_index ix w; conns = Gateway_connections (W_gw w) in
          if changes = [] then w
          else fold (\<lambda>s w. case get conns s of None \<Rightarrow> w | Some cid \<Rightarrow> push_to changes cid w)
                 (visit (keys conns)) w)"

text \<open>The goroutine that writes what was queued for a connection.\<close>

definition drain :: "nat \<Rightarrow> World \<Rightarrow> World" where
  "drain cid w =
     (case Conn_queue (conn_of w cid) of
        [] \<Rightarrow> w
      | ev # evs \<Rightarrow> WriteUnsolicited ev cid (set_conn cid (\<lambda>c. c\<lparr>Conn_queue := evs\<rparr>) w))"

section \<open>Captchas\<close>

text \<open>\<^verbatim>\<open>hCaptchaVerify\<close> of chat/captcha.go. The clock is read before the table is cleaned and
  again when the response is entered.\<close>

definition fiveMinutes :: int where
  "fiveMinutes = 5 * 60 * 1000"

definition clean_captchas :: "int \<Rightarrow> int \<Rightarrow> (string, int) gomap \<Rightarrow> (string, int) gomap" where
  "clean_captchas last_cleaned now used =
     (if last_cleaned + fiveMinutes * 5 < now
      then filter (\<lambda>(r, t). \<not> fiveMinutes < now - t) used else used)"

definition captcha_verdict :: "captcha_reply \<Rightarrow> bool go_result" where
  "captcha_verdict reply =
     (case reply of
        NoReply \<Rightarrow> Err (Coded ErrorCodeInternalError)
      | Reply status success \<Rightarrow>
          if status \<noteq> 200 then Err (Coded ErrorCodeInternalError)
          else (case success of
                  None \<Rightarrow> Err (Coded ErrorCodeInternalError)
                | Some ok \<Rightarrow> if ok then Ok True else Err (Coded ErrorCodeInvalidCaptcha)))"

definition hCaptchaVerify ::
  "Env \<Rightarrow> string \<Rightarrow> string \<Rightarrow> string \<Rightarrow> World \<Rightarrow> bool go_result \<times> World" where
  "hCaptchaVerify E response site_key secret_key w =
     (let now = Env_now E (W_tick w);
          used = clean_captchas (W_usedCaptchasLastCleaned w) now (W_usedCaptchas w);
          w = (tick_world w)\<lparr>W_usedCaptchas := used\<rparr>
      in if get used response \<noteq> None then (Err (Coded ErrorCodeInvalidCaptcha), w)
         else
           let w = (tick_world w)\<lparr>W_usedCaptchas := put response (Env_now E (W_tick w)) used\<rparr>
           in (captcha_verdict (Env_captcha E (W_tick w) site_key secret_key response),
               tick_world w))"

section \<open>Authentication\<close>

definition OnAuthentication :: "Env \<Rightarrow> snowflake \<Rightarrow> string \<Rightarrow> nat \<Rightarrow> World \<Rightarrow> World" where
  "OnAuthentication E userID token cid w =
     AddConnection cid (tick_world (tick_world
       (set_conn cid (\<lambda>c. c\<lparr>Conn_userID := userID, Conn_token := token,
          Conn_session := GetRandom256 E (W_tick w)\<rparr>) w)))"

text \<open>A transaction on a database connection taken from the pool; how it ends, and what is left
  of one that a panic or an early return abandons: its changes are never committed.\<close>

definition begin_tx :: "World \<Rightarrow> Transaction" where
  "begin_tx w = NewTransaction (W_db w) (W_tick w) (W_lastWrite w)"

definition store_tx :: "Transaction \<Rightarrow> World \<Rightarrow> World" where
  "store_tx tx w = w\<lparr>W_db := Tx_db tx, W_tick := Tx_tick tx, W_lastWrite := Tx_lastWrite tx\<rparr>"

definition end_tx :: "Env \<Rightarrow> bool \<Rightarrow> Transaction \<Rightarrow> World \<Rightarrow> World" where
  "end_tx E failed tx w = store_tx (Commit E failed tx) w"

definition leak_tx :: "Transaction \<Rightarrow> World \<Rightarrow> World" where
  "leak_tx tx w = w\<lparr>W_tick := Tx_tick tx, W_leaked := Suc (W_leaked w)\<rparr>"

definition panic :: "nat \<Rightarrow> World \<Rightarrow> World" where
  "panic cid w = w\<lparr>W_panicked := W_panicked w @ [cid]\<rparr>"

definition panic_tx :: "nat \<Rightarrow> Transaction \<Rightarrow> World \<Rightarrow> World" where
  "panic_tx cid tx w = panic cid (leak_tx tx w)"

text \<open>A call on the transaction of a handler, with what the handler does with an error and with
  the result.\<close>

definition tx_call ::
  "nat \<Rightarrow> World \<Rightarrow> 'a go_result \<times> Transaction \<Rightarrow> (goerr \<Rightarrow> Transaction \<Rightarrow> World) \<Rightarrow>
   ('a \<Rightarrow> Transaction \<Rightarrow> World) \<Rightarrow> World" where
  "tx_call cid w r h f =
     (case r of (Ok x, tx) \<Rightarrow> f x tx | (Err e, tx) \<Rightarrow> h e tx | (Panic, tx) \<Rightarrow> panic_tx cid tx w)"

lemma tx_call_simps [simp, go_simps]:
  "tx_call cid w (Ok x, tx) h f = f x tx"
  "tx_call cid w (Err e, tx) h f = h e tx"
  "tx_call cid w (Panic, tx) h f = panic_tx cid tx w"
  by (simp_all add: tx_call_def)

definition TryAuthenticate :: "Env \<Rightarrow> string \<Rightarrow> nat \<Rightarrow> World \<Rightarrow> World" where
  "TryAuthenticate E token cid w =
     tx_call cid w (Authenticate E token (Start (begin_tx w)))
       (\<lambda>e tx. HandleError e cid (end_tx E True tx w))
       (\<lambda>userID tx. OnAuthentication E userID token cid (end_tx E False tx w))"

end
