(* ===== verification/Ingest.thy ===== *)
theory Ingest
  imports Snowflakes
begin

text \<open>
  chat/ingest.go: mentions and URLs in the text of a message. The regular expressions are
  scanners here: \<^verbatim>\<open>FindAllStringSubmatch\<close> takes the leftmost match, and goes on behind it. Text
  is a list of bytes of well-formed UTF-8, as the JSON decoder leaves it.
\<close>

section \<open>Mentions\<close>

text \<open>The digits and the rest of a mention after its prefix, \<^verbatim>\<open>([0-9]+)>\<close>.\<close>

definition match_digits :: "string \<Rightarrow> (string \<times> string) option" where
  "match_digits s =
     (let ds = takeWhile is_digit s; rest = dropWhile is_digit s in
      if ds \<noteq> [] \<and> rest \<noteq> [] \<and> hd rest = CHR ''>'' then Some (ds, tl rest) else None)"

definition strip_prefix :: "string \<Rightarrow> string \<Rightarrow> string option" where
  "strip_prefix p s = (if take (length p) s = p then Some (drop (length p) s) else None)"

definition match_mention :: "string \<Rightarrow> string \<Rightarrow> (string \<times> string) option" where
  "match_mention p s = (case strip_prefix p s of None \<Rightarrow> None | Some t \<Rightarrow> match_digits t)"

lemma match_digits_length: "match_digits s = Some (ds, rest) \<Longrightarrow> length rest < length s"
proof -
  assume m: "match_digits s = Some (ds, rest)"
  then have "rest = tl (dropWhile is_digit s)" and "dropWhile is_digit s \<noteq> []"
    by (auto simp: match_digits_def Let_def split: if_splits)
  then show ?thesis
    by (metis diff_Suc_less le_less_trans length_dropWhile_le length_greater_0_conv length_tl
      less_le_trans diff_less zero_less_one)
qed

lemma match_mention_length: "match_mention p s = Some (ds, rest) \<Longrightarrow> length rest < length s"
  by (auto simp: match_mention_def strip_prefix_def split: option.splits if_splits
    dest!: match_digits_length)

function find_mentions :: "string \<Rightarrow> string \<Rightarrow> string list" where
  "find_mentions p s =
     (case match_mention p s of
        Some (ds, rest) \<Rightarrow> ds # find_mentions p rest
      | None \<Rightarrow> (case s of [] \<Rightarrow> [] | _ # t \<Rightarrow> find_mentions p t))"
  by pat_completeness auto

termination
  by (relation "measure (\<lambda>(p, s). length s)") (auto dest: match_mention_length)

declare find_mentions.simps [simp del]

text \<open>A number that does not fit into an \<^verbatim>\<open>int64\<close> is skipped.\<close>

definition mentioned_ids :: "string \<Rightarrow> string \<Rightarrow> snowflake list" where
  "mentioned_ids p content = List.map_filter ParseInt (find_mentions p content)"

section \<open>URLs\<close>

definition is_space :: "char \<Rightarrow> bool" where
  "is_space c \<longleftrightarrow> c \<in> {CHR '' '', CHR 0x09, CHR 0x0A, CHR 0x0C, CHR 0x0D}"

definition url_char :: "char \<Rightarrow> bool" where
  "url_char c \<longleftrightarrow> \<not> is_space c \<and> c \<noteq> CHR ''<''"

definition url_last :: "char \<Rightarrow> bool" where
  "url_last c \<longleftrightarrow> url_char c \<and> c \<notin> set ''.,:;)]'' \<and> c \<noteq> CHR 0x22 \<and> c \<noteq> CHR 0x27"

definition continuation_byte :: "char \<Rightarrow> bool" where
  "continuation_byte c \<longleftrightarrow> 128 \<le> (of_char c :: nat) \<and> (of_char c :: nat) < 192"

text \<open>How much of the run of non-blank characters the greedy match \<^verbatim>\<open>[^\s<]+\<close> followed by a last
  character takes: up to the last position \<open>k\<close> that may end a URL and has a character before it.\<close>

definition url_end :: "string \<Rightarrow> nat option" where
  "url_end run =
     (case filter (\<lambda>k. url_last (run ! k) \<and>
              list_ex (\<lambda>j. \<not> continuation_byte (run ! j)) [1..<Suc k]) [1..<length run] of
        [] \<Rightarrow> None | ks \<Rightarrow> Some (Suc (last ks)))"

definition url_prefix :: "string \<Rightarrow> (string \<times> string) option" where
  "url_prefix s =
     (case strip_prefix ''https://'' s of
        Some t \<Rightarrow> Some (''https://'', t)
      | None \<Rightarrow> (case strip_prefix ''http://'' s of Some t \<Rightarrow> Some (''http://'', t) | None \<Rightarrow> None))"

definition match_url :: "string \<Rightarrow> (string \<times> string) option" where
  "match_url s =
     (case url_prefix s of
        None \<Rightarrow> None
      | Some (p, t) \<Rightarrow>
          (case url_end (takeWhile url_char t) of
             None \<Rightarrow> None
           | Some k \<Rightarrow> Some (p @ take k t, drop k t)))"

lemma strip_prefix_length: "strip_prefix p s = Some t \<Longrightarrow> length t + length p = length s"
proof -
  assume "strip_prefix p s = Some t"
  then have "take (length p) s = p" and "t = drop (length p) s"
    by (simp_all add: strip_prefix_def split: if_splits)
  moreover from this(1) have "length p \<le> length s" by (metis length_take min.cobounded1)
  ultimately show ?thesis by simp
qed

lemma url_prefix_length: "url_prefix s = Some (p, t) \<Longrightarrow> length t < length s"
  by (auto simp: url_prefix_def split: option.splits dest!: strip_prefix_length)

lemma match_url_length: "match_url s = Some (u, rest) \<Longrightarrow> length rest < length s"
  by (auto simp: match_url_def split: option.splits dest!: url_prefix_length)

function find_urls :: "string \<Rightarrow> string list" where
  "find_urls s =
     (case match_url s of
        Some (u, rest) \<Rightarrow> u # find_urls rest
      | None \<Rightarrow> (case s of [] \<Rightarrow> [] | _ # t \<Rightarrow> find_urls t))"
  by pat_completeness auto

termination
  by (relation "measure length") (auto dest: match_url_length)

declare find_urls.simps [simp del]

definition ParseMessageContent ::
  "string \<Rightarrow> snowflake list \<times> snowflake list \<times> snowflake list \<times> string list" where
  "ParseMessageContent content =
     (mentioned_ids ''<@'' content, mentioned_ids ''<@&'' content, mentioned_ids ''<#'' content,
      find_urls content)"

section \<open>What is found\<close>

lemma match_digits_SomeD:
  assumes "match_digits s = Some (ds, rest)"
  shows "s = ds @ CHR ''>'' # rest" and "list_all is_digit ds" and "ds \<noteq> []"
proof -
  from assms have ds: "ds = takeWhile is_digit s" "ds \<noteq> []"
    and rest: "dropWhile is_digit s \<noteq> []" "hd (dropWhile is_digit s) = CHR ''>''"
      "rest = tl (dropWhile is_digit s)"
    by (auto simp: match_digits_def Let_def split: if_splits)
  have "s = takeWhile is_digit s @ dropWhile is_digit s" by simp
  also have "dropWhile is_digit s = CHR ''>'' # rest" using rest by (metis list.collapse)
  finally show "s = ds @ CHR ''>'' # rest" by (simp only: ds(1))
  show "list_all is_digit ds" unfolding ds(1) list_all_iff by (auto dest: set_takeWhileD)
  show "ds \<noteq> []" by (rule ds(2))
qed

lemma strip_prefix_SomeD: "strip_prefix p s = Some t \<Longrightarrow> s = p @ t"
  by (metis append_take_drop_id option.discI option.inject strip_prefix_def)

lemma match_mention_SomeD:
  assumes "match_mention p s = Some (ds, rest)"
  shows "s = p @ ds @ CHR ''>'' # rest \<and> list_all is_digit ds \<and> ds \<noteq> []"
proof -
  from assms obtain t where "strip_prefix p s = Some t" and t: "match_digits t = Some (ds, rest)"
    by (auto simp: match_mention_def split: option.splits)
  then have "s = p @ t" by (simp add: strip_prefix_SomeD)
  with match_digits_SomeD [OF t] show ?thesis by simp
qed

text \<open>Every mention found stands in the text, between its prefix and \<^verbatim>\<open>>\<close>.\<close>

lemma find_mentions_sound:
  "ds \<in> set (find_mentions p s) \<Longrightarrow>
     list_all is_digit ds \<and> ds \<noteq> [] \<and> sublist (p @ ds @ [CHR ''>'']) s"
proof (induction p s rule: find_mentions.induct)
  case (1 p s)
  show ?case
  proof (cases "match_mention p s")
    case None
    with 1(3) have "ds \<in> set (case s of [] \<Rightarrow> [] | _ # t \<Rightarrow> find_mentions p t)"
      by (simp add: find_mentions.simps [of p s])
    with 1(1) [OF None] show ?thesis by (cases s) (auto simp: sublist_Cons_right)
  next
    case (Some m)
    obtain ds' rest where m: "m = (ds', rest)" by fastforce
    with Some have s: "s = p @ ds' @ CHR ''>'' # rest \<and> list_all is_digit ds' \<and> ds' \<noteq> []"
      by (simp add: match_mention_SomeD)
    then have pre: "s = (p @ ds' @ [CHR ''>'']) @ rest" by simp
    from 1(3) Some m consider "ds = ds'" | "ds \<in> set (find_mentions p rest)"
      by (auto simp: find_mentions.simps [of p s])
    then show ?thesis
    proof cases
      case 1
      with s pre show ?thesis by (metis prefixI prefix_imp_sublist)
    next
      case 2
      with 1(2) [OF Some] m have "list_all is_digit ds \<and> ds \<noteq> [] \<and>
          sublist (p @ ds @ [CHR ''>'']) rest" by simp
      with pre show ?thesis by (metis sublist_append)
    qed
  qed
qed

lemma mentioned_ids_sound:
  assumes "k \<in> set (mentioned_ids p content)"
  shows "0 \<le> k \<and> k \<le> MaxInt64 \<and>
    (\<exists>ds. ParseInt ds = Some k \<and> sublist (p @ ds @ [CHR ''>'']) content)"
proof -
  from assms obtain ds where ds: "ds \<in> set (find_mentions p content)" and k: "ParseInt ds = Some k"
    by (auto simp: mentioned_ids_def List.map_filter_def)
  from find_mentions_sound [OF ds] have d: "list_all is_digit ds" "ds \<noteq> []"
    and sub: "sublist (p @ ds @ [CHR ''>'']) content" by simp_all
  from ParseInt_digits(1) [OF d] k have "0 \<le> k \<and> k \<le> MaxInt64" by (auto split: if_splits)
  with k sub show ?thesis by blast
qed

definition url_ok :: "string \<Rightarrow> bool" where
  "url_ok u \<longleftrightarrow> (\<exists>p t. u = p @ t \<and> (p = ''http://'' \<or> p = ''https://'') \<and> 2 \<le> length t \<and>
     list_all url_char t \<and> url_last (last t))"

lemma url_end_SomeD:
  assumes "url_end run = Some k"
  shows "2 \<le> k \<and> k \<le> length run \<and> url_last (run ! (k - 1))"
proof -
  define ks where "ks = filter (\<lambda>k. url_last (run ! k) \<and>
    list_ex (\<lambda>j. \<not> continuation_byte (run ! j)) [1..<Suc k]) [1..<length run]"
  have "url_end run = (case ks of [] \<Rightarrow> None | ks \<Rightarrow> Some (Suc (last ks)))"
    unfolding url_end_def ks_def ..
  with assms have "ks \<noteq> []" and k: "k = Suc (last ks)" by (cases ks; simp)+
  from last_in_set [OF this(1)] have "last ks \<in> {1..<length run}" and "url_last (run ! last ks)"
    unfolding ks_def by (simp_all del: upt_Suc)
  with k show ?thesis by simp
qed

lemma match_url_SomeD:
  assumes "match_url s = Some (u, rest)"
  shows "s = u @ rest \<and> url_ok u"
proof -
  from assms obtain p t k where p: "url_prefix s = Some (p, t)"
    and k: "url_end (takeWhile url_char t) = Some k" and u: "u = p @ take k t" "rest = drop k t"
    by (auto simp: match_url_def split: option.splits)
  from p have s: "s = p @ t" and pp: "p = ''http://'' \<or> p = ''https://''"
    by (auto simp: url_prefix_def split: option.splits dest: strip_prefix_SomeD)
  let ?run = "takeWhile url_char t"
  from url_end_SomeD [OF k] have k: "2 \<le> k" "k \<le> length ?run" "url_last (?run ! (k - 1))" by simp_all
  have take: "take k t = take k ?run"
    using k(2) by (metis append_eq_conv_conj takeWhile_dropWhile_id take_append take_all_iff
      diff_is_0_eq' append_Nil2 take0)
  then have "list_all url_char (take k t)"
    by (auto simp: list_all_iff dest!: in_set_takeD set_takeWhileD)
  moreover have "length (take k t) = k" using k(2) take by simp
  moreover have "last (take k t) = ?run ! (k - 1)"
    using k unfolding take by (subst last_conv_nth) auto
  ultimately have "url_ok u"
    unfolding url_ok_def using u(1) pp k by (intro exI [of _ p] exI [of _ "take k t"]) auto
  with s u show ?thesis by simp
qed

lemma find_urls_sound: "u \<in> set (find_urls s) \<Longrightarrow> url_ok u \<and> sublist u s"
proof (induction s rule: find_urls.induct)
  case (1 s)
  show ?case
  proof (cases "match_url s")
    case None
    with 1(3) have "u \<in> set (case s of [] \<Rightarrow> [] | _ # t \<Rightarrow> find_urls t)"
      by (simp add: find_urls.simps [of s])
    with 1(1) [OF None] show ?thesis by (cases s) (auto simp: sublist_Cons_right)
  next
    case (Some m)
    obtain u' rest where m: "m = (u', rest)" by fastforce
    with Some have s: "s = u' @ rest" "url_ok u'" using match_url_SomeD by auto
    from 1(3) Some m consider "u = u'" | "u \<in> set (find_urls rest)"
      by (auto simp: find_urls.simps [of s])
    then show ?thesis
    proof cases
      case 1
      with s show ?thesis by (metis prefixI prefix_imp_sublist)
    next
      case 2
      with 1(2) [OF Some] m have "url_ok u \<and> sublist u rest" by simp
      with s show ?thesis by (metis sublist_append)
    qed
  qed
qed

end
