(* ===== verification/Handlers.thy ===== *)
theory Handlers
  imports Gateway Ingest
begin

text \<open>
  chat/handlers.go: one function per handler of a request, with the guards, the transaction and
  the early returns of the code. A handler takes the connection's address, the request and the
  world, and gives the world after it. Three paths return without \<^verbatim>\<open>Commit\<close>, which leaves the
  database connection inside its transaction: they are the ones that use \<open>leak_tx\<close>.
\<close>

section \<open>Combinators\<close>

text \<open>\<^verbatim>\<open>if err := json.Unmarshal(msg.Data, &req); err != nil\<close>.\<close>

definition decoded :: "nat \<Rightarrow> World \<Rightarrow> 'r option \<Rightarrow> ('r \<Rightarrow> World) \<Rightarrow> World" where
  "decoded cid w r f =
     (case r of None \<Rightarrow> HandleError (Coded ErrorCodeInvalidRequest) cid w | Some req \<Rightarrow> f req)"

lemma decoded_simps [simp]:
  "decoded cid w None f = HandleError (Coded ErrorCodeInvalidRequest) cid w"
  "decoded cid w (Some req) f = f req"
  by (simp_all add: decoded_def)

text \<open>\<^verbatim>\<open>tx.Commit(err); c.HandleError(e)\<close>.\<close>

definition refuse :: "Env \<Rightarrow> bool \<Rightarrow> goerr \<Rightarrow> nat \<Rightarrow> World \<Rightarrow> Transaction \<Rightarrow> World" where
  "refuse E failed e cid w tx = HandleError e cid (end_tx E failed tx w)"

text \<open>A call whose \<^verbatim>\<open>Go\<close> type has no error, on the transaction \<open>r\<close> ran on.\<close>

definition tx_value ::
  "nat \<Rightarrow> World \<Rightarrow> 'a go_result \<times> Transaction \<Rightarrow> ('a \<Rightarrow> Transaction \<Rightarrow> World) \<Rightarrow> World" where
  "tx_value cid w r f = tx_call cid w r (\<lambda>e tx. panic_tx cid tx w) f"

definition user_perms :: "Env \<Rightarrow> snowflake \<Rightarrow> Transaction \<Rightarrow> perms go_result \<times> Transaction" where
  "user_perms E userID tx =
     and_then (GetPermissionsByUser E userID tx) (\<lambda>(perms, user) tx. (Ok perms, tx))"

section \<open>Settings, login, registration\<close>

definition settings_event :: "Settings \<Rightarrow> bool \<Rightarrow> Event" where
  "settings_event s authenticated = event EventTypeSettingsResponse (SettingsResponse
     \<lparr>SettingsResponse_SiteName = Settings_SiteName s,
      SettingsResponse_LoginMessage = Settings_LoginMessage s,
      SettingsResponse_DefaultPermissions = Settings_DefaultPermissions s,
      SettingsResponse_Authenticated = authenticated,
      SettingsResponse_UsesEmail = Settings_UsesEmail s,
      SettingsResponse_UsesInviteCodes = Settings_UsesInviteCodes s,
      SettingsResponse_UsesCaptcha = Settings_UsesCaptcha s,
      SettingsResponse_UsesLoginCaptcha = Settings_UsesLoginCaptcha s,
      SettingsResponse_CaptchSiteKey = Settings_CaptchaSiteKey s\<rparr>)"

definition HandleSettingsRequest :: "Env \<Rightarrow> nat \<Rightarrow> World \<Rightarrow> World" where
  "HandleSettingsRequest E cid w =
     tx_call cid w (GetSettings E (Start (begin_tx w)))
       (\<lambda>e tx. refuse E True e cid w tx)
       (\<lambda>settings tx.
          let w = end_tx E False tx w in
          Write (settings_event settings (Authenticated (conn_of w cid))) cid w)"

definition token_event :: "string \<Rightarrow> Event" where
  "token_event token = event EventTypeTokenResponse (TokenResponse token)"

text \<open>The captcha check inside an open transaction: on failure the handler returns and leaves
  the transaction open.\<close>

definition with_captcha ::
  "Env \<Rightarrow> bool \<Rightarrow> string \<Rightarrow> Settings \<Rightarrow> nat \<Rightarrow> World \<Rightarrow> Transaction \<Rightarrow>
   (World \<Rightarrow> Transaction \<Rightarrow> World) \<Rightarrow> World" where
  "with_captcha E needed response settings cid w tx k =
     (if needed then
        case hCaptchaVerify E response (Settings_CaptchaSiteKey settings)
               (Settings_CaptchaSecretKey settings) (w\<lparr>W_tick := Tx_tick tx\<rparr>) of
          (Ok _, w) \<Rightarrow> k w (tx\<lparr>Tx_tick := W_tick w\<rparr>)
        | (Err e, w) \<Rightarrow> HandleError e cid (leak_tx (tx\<lparr>Tx_tick := W_tick w\<rparr>) w)
        | (Panic, w) \<Rightarrow> panic_tx cid (tx\<lparr>Tx_tick := W_tick w\<rparr>) w
      else k w tx)"

definition HandleLoginRequest :: "Env \<Rightarrow> nat \<Rightarrow> UnknownEvent \<Rightarrow> World \<Rightarrow> World" where
  "HandleLoginRequest E cid msg w =
     decoded cid w (decode_LoginRequest (UnknownEvent_Data msg)) (\<lambda>req.
     tx_call cid w (GetSettings E (Start (begin_tx w)))
       (\<lambda>e tx. refuse E True e cid w tx)
       (\<lambda>settings tx.
     with_captcha E (Settings_UsesLoginCaptcha settings) (LoginRequest_CaptchaResponse req)
       settings cid w tx (\<lambda>w tx.
     tx_call cid w (Login E (LoginRequest_Username req) (LoginRequest_Password req) tx)
       (\<lambda>e tx. refuse E True e cid w tx)
       (\<lambda>(userID, token) tx.
     Write (token_event token) cid
       (OnAuthentication E userID token cid (end_tx E False tx w))))))"

definition HandleRegisterRequest :: "Env \<Rightarrow> nat \<Rightarrow> UnknownEvent \<Rightarrow> World \<Rightarrow> World" where
  "HandleRegisterRequest E cid msg w =
     decoded cid w (decode_RegisterRequest (UnknownEvent_Data msg)) (\<lambda>req.
     tx_call cid w (GetSettings E (Start (begin_tx w)))
       (\<lambda>e tx. refuse E True e cid w tx)
       (\<lambda>settings tx.
     with_captcha E (Settings_UsesCaptcha settings) (RegisterRequest_CaptchaResponse req)
       settings cid w tx (\<lambda>w tx.
     tx_call cid w (Register E (RegisterRequest_Username req) (RegisterRequest_Password req)
         (RegisterRequest_Email req) (RegisterRequest_InviteCode req) tx)
       (\<lambda>e tx. refuse E True e cid w tx)
       (\<lambda>(user, token) tx.
     let w = end_tx E False tx w;
         w = set_index (snd (index_AddUser user (W_index w))) w;
         w = OnAuthentication E (User_ID user) token cid w
     in OnUserAdd user (Write (token_event token) cid w)))))"

section \<open>Reading requests\<close>

definition UpdateLastUserListRequest :: "int \<Rightarrow> int \<Rightarrow> nat \<Rightarrow> World \<Rightarrow> World" where
  "UpdateLastUserListRequest start stop cid =
     set_conn cid (\<lambda>c. c\<lparr>Conn_lastUserListRange := index_range start stop\<rparr>)"

definition HandleOverviewRequest ::
  "Env \<Rightarrow> (snowflake list \<Rightarrow> snowflake list) \<Rightarrow> nat \<Rightarrow> World \<Rightarrow> World" where
  "HandleOverviewRequest E visit cid w =
     (let w = UpdateLastUserListRequest 0 20 cid w;
          ix = W_index w;
          userList = GetUserListSlice ix 0 20 20;
          users = List.map_filter (index_GetUser ix) (UserListResponse_Slice userList);
          roles = index_GetAllRoles visit ix;
          overview = (\<lambda>channels tx.
            let you = (case index_GetUser ix (Conn_userID (conn_of w cid)) of
                         None \<Rightarrow> User_zero | Some u \<Rightarrow> u)
            in Write (event EventTypeOverviewResponse (OverviewResponse
                 \<lparr>OverviewResponse_You = you, OverviewResponse_Users = users,
                  OverviewResponse_Channels = channels, OverviewResponse_Roles = roles,
                  OverviewResponse_UserList = userList\<rparr>)) cid (end_tx E False tx w))
      in tx_call cid w (GetAllChannels E (Start (begin_tx w)))
           (\<lambda>e tx. overview [] tx) overview)"

text \<open>A query whose error the handler overwrites with a later one; \<open>zero\<close> is its result then.\<close>

definition ignore_err ::
  "'a \<Rightarrow> 'a go_result \<times> Transaction \<Rightarrow> ('a \<Rightarrow> Transaction \<Rightarrow> 'b go_result \<times> Transaction) \<Rightarrow>
   'b go_result \<times> Transaction" where
  "ignore_err zero r f = if_err r (\<lambda>e tx. f zero tx) f"

definition messages_around ::
  "Env \<Rightarrow> MessagesRequest \<Rightarrow> Transaction \<Rightarrow> Message list go_result \<times> Transaction" where
  "messages_around E req tx =
     (let channelID = MessagesRequest_ChannelID req; limit = MessagesRequest_Limit req in
      ignore_err []
        (GetMessagesByAnchor E channelID (MessagesRequest_Before req) limit True tx)
        (\<lambda>before tx.
      ignore_err Message_zero (GetMessage E (MessagesRequest_Before req) tx)
        (\<lambda>anchor tx.
      and_then
        (GetMessagesByAnchor E channelID (MessagesRequest_After req) limit False tx)
        (\<lambda>after tx. (Ok (before @ [anchor] @ after), tx)))))"

definition requested_messages ::
  "Env \<Rightarrow> MessagesRequest \<Rightarrow> Transaction \<Rightarrow> Message list go_result \<times> Transaction" where
  "requested_messages E req tx =
     (let channelID = MessagesRequest_ChannelID req; limit = MessagesRequest_Limit req;
          before = MessagesRequest_Before req; after = MessagesRequest_After req
      in if before \<noteq> 0 \<and> after \<noteq> 0 then messages_around E req tx
         else if before \<noteq> 0 then GetMessagesByAnchor E channelID before limit True tx
         else if after \<noteq> 0 then GetMessagesByAnchor E channelID after limit False tx
         else GetMessagesByAnchor E channelID 0 limit True tx)"

definition reference_ids :: "Message list \<Rightarrow> snowflake list" where
  "reference_ids msgs = filter (\<lambda>k. k \<noteq> 0) (map Message_ReferenceID msgs)"

definition get_references ::
  "Env \<Rightarrow> Message list \<Rightarrow> Transaction \<Rightarrow> Message list go_result \<times> Transaction" where
  "get_references E msgs tx =
     (if reference_ids msgs \<noteq> [] then GetMessages E (reference_ids msgs) False tx
      else (Ok [], tx))"

definition HandleMessagesRequest :: "Env \<Rightarrow> nat \<Rightarrow> UnknownEvent \<Rightarrow> World \<Rightarrow> World" where
  "HandleMessagesRequest E cid msg w =
     decoded cid w (decode_MessagesRequest (UnknownEvent_Data msg)) (\<lambda>req.
     let tx = Start (begin_tx w) in
     if MessagesRequest_Before req \<noteq> 0 \<and> MessagesRequest_After req \<noteq> 0
        \<and> MessagesRequest_Before req \<noteq> MessagesRequest_After req
     then HandleError (Coded ErrorCodeInvalidRequest) cid (leak_tx tx w)
     else
       tx_call cid w (requested_messages E req tx)
         (\<lambda>e tx. refuse E False e cid w tx)
         (\<lambda>msgs tx.
       tx_call cid w (get_references E msgs tx)
         (\<lambda>e tx. refuse E False e cid w tx)
         (\<lambda>references tx.
       Write (event EventTypeMessagesResponse (MessagesResponse
         \<lparr>MessagesResponse_ChannelID = MessagesRequest_ChannelID req,
          MessagesResponse_Before = MessagesRequest_Before req,
          MessagesResponse_After = MessagesRequest_After req,
          MessagesResponse_Limit = MessagesRequest_Limit req,
          MessagesResponse_Messages = msgs,
          MessagesResponse_References = references\<rparr>)) cid (end_tx E False tx w))))"

definition HandleUsersRequest :: "nat \<Rightarrow> UnknownEvent \<Rightarrow> World \<Rightarrow> World" where
  "HandleUsersRequest cid msg w =
     decoded cid w (decode_UsersRequest (UnknownEvent_Data msg)) (\<lambda>req.
     Write (event EventTypeUsersResponse
       (UsersResponse (index_GetUsers (W_index w) (UsersRequest_Users req)))) cid w)"

definition HandleUserListRequest :: "nat \<Rightarrow> UnknownEvent \<Rightarrow> World \<Rightarrow> World" where
  "HandleUserListRequest cid msg w =
     decoded cid w (decode_UserListRequest (UnknownEvent_Data msg)) (\<lambda>req.
     let w = UpdateLastUserListRequest (UserListRequest_Start req) (UserListRequest_End req) cid w
     in Write (event EventTypeUserListResponse (UserListResponse
          (GetUserListSlice (W_index w) (UserListRequest_Start req) (UserListRequest_End req)
            128))) cid w)"

section \<open>Messages\<close>

text \<open>The part of \<^verbatim>\<open>FinalizeMessageSendRequest\<close> inside the transaction: the stored message and
  the one it refers to.\<close>

definition store_message ::
  "Env \<Rightarrow> Message \<Rightarrow> Transaction \<Rightarrow> (Message \<times> Message) go_result \<times> Transaction" where
  "store_message E rawMessage tx =
     and_then (AddMessage E rawMessage tx) (\<lambda>_ tx.
     and_then (GetMessage E (Message_ID rawMessage) tx) (\<lambda>message tx.
     let message = message\<lparr>Message_EmbeddableURLs := Message_EmbeddableURLs rawMessage\<rparr> in
     if Message_ReferenceID message \<noteq> 0 then
       ignore_err Message_zero (GetMessage E (Message_ReferenceID message) tx)
         (\<lambda>reference tx. (Ok (message, reference), tx))
     else (Ok (message, Message_zero), tx)))"

text \<open>Every error of \<^verbatim>\<open>FinalizeMessageSendRequest\<close> is handled by its callers in the same way:
  the handler ends with \<^verbatim>\<open>c.HandleError(err)\<close>.\<close>

definition FinalizeMessageSendRequest ::
  "Env \<Rightarrow> Message \<Rightarrow> string \<Rightarrow> nat \<Rightarrow> World \<Rightarrow> World" where
  "FinalizeMessageSendRequest E rawMessage seq cid w =
     tx_call cid w (store_message E rawMessage (Start (begin_tx w)))
       (\<lambda>e tx. refuse E True e cid w tx)
       (\<lambda>(message, reference) tx.
          let w = end_tx E False tx w;
              w = Write ((event EventTypeMessageSendResponse
                    (MessageSendResponse (Message_ID message)))\<lparr>Event_Seq := seq\<rparr>) cid w;
              user = (case index_GetUser (W_index w) (Message_AuthorID message) of
                        None \<Rightarrow> User_zero | Some u \<Rightarrow> u);
              w = OnMessageAdd \<lparr>MessageAddEvent_Message = message,
                    MessageAddEvent_Reference = reference, MessageAddEvent_Author = user\<rparr> w
          in if Message_EmbeddableURLs message \<noteq> []
             then go (EmbedTask cid (Message_ID message) (Message_EmbeddableURLs message)) w
             else w)"

definition upload_slot_event :: "snowflake \<Rightarrow> string \<Rightarrow> Event" where
  "upload_slot_event slotID seq =
     (event EventTypeUploadSlot (MessageUploadSlot slotID))\<lparr>Event_Seq := seq\<rparr>"

text \<open>Reserving an upload slot for a request.\<close>

definition reserve_slot ::
  "Env \<Rightarrow> int \<Rightarrow> RequestData \<Rightarrow> UnknownEvent \<Rightarrow> nat \<Rightarrow> World \<Rightarrow> World" where
  "reserve_slot E ty data msg cid w =
     (let slotID = Env_generate E (W_tick w);
          w = tick_world w;
          pending = \<lparr>Pending_slotID = slotID, Pending_requestType = ty,
            Pending_requestData = data, Pending_seq = UnknownEvent_Seq msg,
            Pending_session = Conn_session (conn_of w cid)\<rparr>
      in Write (upload_slot_event slotID (Pending_seq pending)) cid
           (PushPendingRequest pending slotID w))"

definition new_message ::
  "Env \<Rightarrow> MessageSendRequest \<Rightarrow> snowflake \<Rightarrow> bool \<Rightarrow> World \<Rightarrow> Message \<times> World" where
  "new_message E req author canEmbedLinks w =
     (case ParseMessageContent (MessageSendRequest_Content req) of
        (users, roles, channels, urls) \<Rightarrow>
          (Message_zero\<lparr>Message_ID := Env_generate E (W_tick w), Message_AuthorID := author,
             Message_ChannelID := MessageSendRequest_ChannelID req,
             Message_Content := MessageSendRequest_Content req,
             Message_Type := MessageTypeDefault,
             Message_Timestamp := Env_now E (Suc (W_tick w)),
             Message_ReferenceID := MessageSendRequest_ReferenceID req,
             Message_MentionedUsers := users, Message_MentionedRoles := roles,
             Message_MentionedChannels := channels,
             Message_EmbeddableURLs := (if canEmbedLinks then urls else [])\<rparr>,
           tick_world (tick_world w)))"

text \<open>The permissions are read outside a transaction.\<close>

definition HandleMessageSendRequest :: "Env \<Rightarrow> nat \<Rightarrow> UnknownEvent \<Rightarrow> World \<Rightarrow> World" where
  "HandleMessageSendRequest E cid msg w =
     decoded cid w (decode_MessageSendRequest (UnknownEvent_Data msg)) (\<lambda>req.
     let author = Conn_userID (conn_of w cid) in
     tx_value cid w
       (GetPermissionsByChannel E author (MessageSendRequest_ChannelID req) (begin_tx w))
       (\<lambda>perms tx.
     let w = store_tx tx w;
         canSendMessages = has_perm perms PermissionSendMessages;
         canEmbedLinks = has_perm perms PermissionEmbedLinks;
         canUploadFiles = has_perm perms PermissionUploadFiles
     in if \<not> canSendMessages then HandleError (Coded ErrorCodeNoPermission) cid w
        else if \<not> canUploadFiles \<and> 0 < MessageSendRequest_AttachmentCount req
        then HandleError (Coded ErrorCodeNoPermission) cid w
        else
          case new_message E req author canEmbedLinks w of
            (full, w) \<Rightarrow>
              if 0 < MessageSendRequest_AttachmentCount req
              then reserve_slot E EventTypeMessageSendRequest (PendingMessage full) msg cid w
              else FinalizeMessageSendRequest E full (UnknownEvent_Seq msg) cid w))"

text \<open>\<^verbatim>\<open>HandleMessageUpdateRequest\<close>: the embeds whose URL is no longer there, and the URLs that
  have no embed yet.\<close>

definition deleted_embeds :: "Embed list \<Rightarrow> string list \<Rightarrow> snowflake list" where
  "deleted_embeds embeds urls =
     map Embed_ID (filter (\<lambda>e. Embed_URL e \<notin> set urls) embeds)"

definition added_urls :: "Embed list \<Rightarrow> string list \<Rightarrow> string list" where
  "added_urls embeds urls = filter (\<lambda>u. u \<notin> Embed_URL ` set embeds) urls"

definition HandleMessageUpdateRequest :: "Env \<Rightarrow> nat \<Rightarrow> UnknownEvent \<Rightarrow> World \<Rightarrow> World" where
  "HandleMessageUpdateRequest E cid msg w =
     decoded cid w (decode_MessageUpdateRequest (UnknownEvent_Data msg)) (\<lambda>req.
     let me = Conn_userID (conn_of w cid); mid = MessageUpdateRequest_MessageID req;
         content = MessageUpdateRequest_Content req in
     tx_call cid w (GetMessage E mid (Start (begin_tx w)))
       (\<lambda>e tx. refuse E True (Coded ErrorCodeInvalidRequest) cid w tx)
       (\<lambda>full tx.
     if Message_AuthorID full \<noteq> me then refuse E False (Coded ErrorCodeNoPermission) cid w tx
     else
       tx_value cid w (GetPermissionsByChannel E me (Message_ChannelID full) tx)
         (\<lambda>perms tx.
       case ParseMessageContent content of
         (users, roles, channels, urls) \<Rightarrow>
           let added = added_urls (Message_Embeds full) urls in
           tx_call cid w (SetMessage E mid content users roles channels
               (deleted_embeds (Message_Embeds full) urls) tx)
             (\<lambda>e tx. refuse E True e cid w tx)
             (\<lambda>_ tx.
           tx_call cid w (GetMessage E mid tx)
             (\<lambda>e tx. refuse E True e cid w tx)
             (\<lambda>full tx.
           let w = end_tx E False tx w;
               w = OnMessageUpdate (full\<lparr>Message_EmbeddableURLs := added\<rparr>) w
           in if has_perm perms PermissionEmbedLinks then go (EmbedTask cid mid added) w
              else w)))))"

definition HandleMessageDeleteRequest :: "Env \<Rightarrow> nat \<Rightarrow> UnknownEvent \<Rightarrow> World \<Rightarrow> World" where
  "HandleMessageDeleteRequest E cid msg w =
     decoded cid w (decode_MessageDeleteRequest (UnknownEvent_Data msg)) (\<lambda>req.
     let me = Conn_userID (conn_of w cid); mid = MessageDeleteRequest_MessageID req in
     tx_call cid w (GetMessage E mid (Start (begin_tx w)))
       (\<lambda>e tx. refuse E True (Coded ErrorCodeInvalidRequest) cid w tx)
       (\<lambda>msgRow tx.
     let channelID = Message_ChannelID msgRow;
         delete = (\<lambda>tx. tx_call cid w (DeleteMessage E mid tx)
           (\<lambda>e tx. refuse E True e cid w tx)
           (\<lambda>_ tx. OnMessageDelete mid channelID (end_tx E False tx w)))
     in if Message_AuthorID msgRow \<noteq> me then
          tx_value cid w (GetPermissionsByChannel E me channelID tx)
            (\<lambda>perms tx.
              if \<not> has_perm perms PermissionManageMessages
              then refuse E True (Coded ErrorCodeNoPermission) cid w tx
              else delete tx)
        else delete tx))"

section \<open>Reactions\<close>

definition reaction_event :: "snowflake \<Rightarrow> snowflake \<Rightarrow> snowflake \<Rightarrow> ReactionEvent" where
  "reaction_event mid uid emoji = \<lparr>ReactionEvent_MessageID = mid, ReactionEvent_UserID = uid,
     ReactionEvent_EmojiID = emoji\<rparr>"

definition HandleMessageReactionAddRequest ::
  "Env \<Rightarrow> nat \<Rightarrow> UnknownEvent \<Rightarrow> World \<Rightarrow> World" where
  "HandleMessageReactionAddRequest E cid msg w =
     decoded cid w (decode_ReactionAddRequest (UnknownEvent_Data msg)) (\<lambda>req.
     let me = Conn_userID (conn_of w cid); mid = ReactionAddRequest_MessageID req;
         emoji = ReactionAddRequest_EmojiID req in
     tx_value cid w (GetPermissionsByMessage E me mid (Start (begin_tx w)))
       (\<lambda>perms tx.
     tx_call cid w (GetChannelByMessage E mid tx)
       (\<lambda>e tx. refuse E True (Coded ErrorCodeInvalidRequest) cid w tx)
       (\<lambda>channelID tx.
     tx_call cid w (GetReactionCount E mid emoji tx)
       (\<lambda>e tx. refuse E True e cid w tx)
       (\<lambda>count tx.
     if count = 0 \<and> \<not> has_perm perms PermissionAddReactions
     then refuse E True (Coded ErrorCodeNoPermission) cid w tx
     else
       tx_call cid w (AddReaction E mid me emoji tx)
         (\<lambda>e tx. refuse E True e cid w tx)
         (\<lambda>_ tx. OnReactionAdd (reaction_event mid me emoji) channelID
                  (end_tx E False tx w))))))"

definition HandleMessageReactionDeleteRequest ::
  "Env \<Rightarrow> nat \<Rightarrow> UnknownEvent \<Rightarrow> World \<Rightarrow> World" where
  "HandleMessageReactionDeleteRequest E cid msg w =
     decoded cid w (decode_ReactionDeleteRequest (UnknownEvent_Data msg)) (\<lambda>req.
     let me = Conn_userID (conn_of w cid); mid = ReactionDeleteRequest_MessageID req;
         emoji = ReactionDeleteRequest_EmojiID req in
     tx_call cid w (GetChannelByMessage E mid (Start (begin_tx w)))
       (\<lambda>e tx. refuse E True (Coded ErrorCodeInvalidRequest) cid w tx)
       (\<lambda>channelID tx.
     tx_call cid w (DeleteReaction E mid me emoji tx)
       (\<lambda>e tx. refuse E True e cid w tx)
       (\<lambda>_ tx. OnReactionDelete (reaction_event mid me emoji) channelID
                (end_tx E False tx w))))"

definition HandleMessageReactionUsersRequest ::
  "Env \<Rightarrow> nat \<Rightarrow> UnknownEvent \<Rightarrow> World \<Rightarrow> World" where
  "HandleMessageReactionUsersRequest E cid msg w =
     decoded cid w (decode_ReactionUsersRequest (UnknownEvent_Data msg)) (\<lambda>req.
     let mid = ReactionUsersRequest_MessageID req; emoji = ReactionUsersRequest_EmojiID req in
     tx_call cid w (GetReactionUsers E mid emoji (Start (begin_tx w)))
       (\<lambda>e tx. refuse E True e cid w tx)
       (\<lambda>users tx. Write (event EventTypeMessageReactionUsersResponse (ReactionUsersResponse
            \<lparr>ReactionUsersResponse_MessageID = mid, ReactionUsersResponse_EmojiID = emoji,
             ReactionUsersResponse_Users = users\<rparr>)) cid (end_tx E False tx w)))"

section \<open>Profiles\<close>

text \<open>\<^verbatim>\<open>index.UpdateUser\<close> and the relay of the updated user. \<open>visit\<close> is the order of the map
  iteration that looks for the user's group.\<close>

definition publish_user ::
  "(snowflake list \<Rightarrow> snowflake list) \<Rightarrow> nat \<Rightarrow> User \<Rightarrow> World \<Rightarrow> World" where
  "publish_user visit cid user w =
     (case index_UpdateUser visit user (W_index w) of
        None \<Rightarrow> panic cid w
      | Some (user, ix) \<Rightarrow> OnUserUpdate user (set_index ix w))"

definition FinalizeUserUpdateRequest ::
  "Env \<Rightarrow> (snowflake list \<Rightarrow> snowflake list) \<Rightarrow> UserUpdateRequest \<Rightarrow> nat \<Rightarrow> World \<Rightarrow> World" where
  "FinalizeUserUpdateRequest E visit req cid w =
     (let me = Conn_userID (conn_of w cid) in
      tx_call cid w (SetUserProfile E me (UserUpdateRequest_DisplayName req)
          (UserUpdateRequest_StatusMessage req) (UserUpdateRequest_ProfileMessage req)
          (UserUpdateRequest_ProfileColor req) (UserUpdateRequest_AvatarModified req)
          (Start (begin_tx w)))
        (\<lambda>e tx. refuse E True e cid w tx)
        (\<lambda>_ tx.
      tx_call cid w (GetUser E me tx)
        (\<lambda>e tx. refuse E True e cid w tx)
        (\<lambda>user tx. publish_user visit cid user (end_tx E False tx w))))"

text \<open>What a user may set in the profile of someone else without being an administrator.\<close>

definition may_reset :: "UserUpdateRequest \<Rightarrow> User \<Rightarrow> bool" where
  "may_reset req user \<longleftrightarrow>
     \<not> (UserUpdateRequest_SetAvatar req
        \<and> UserUpdateRequest_AvatarModified req \<noteq> AvatarModifiedDefault) \<and>
     (UserUpdateRequest_SetProfile req \<longrightarrow>
        (UserUpdateRequest_StatusMessage req = []
           \<or> UserUpdateRequest_StatusMessage req = User_StatusMessage user) \<and>
        (UserUpdateRequest_ProfileMessage req = []
           \<or> UserUpdateRequest_ProfileMessage req = User_ProfileMessage user) \<and>
        (UserUpdateRequest_ProfileColor req = ProfileColorDefault
           \<or> UserUpdateRequest_ProfileColor req = User_ProfileColor user))"

definition may_update :: "snowflake \<Rightarrow> perms \<Rightarrow> UserUpdateRequest \<Rightarrow> User \<Rightarrow> bool" where
  "may_update me perms req user \<longleftrightarrow>
     (if User_ID user = me then has_perm perms PermissionChangeProfile
      else has_perm perms PermissionManageProfiles \<and>
           (has_perm perms PermissionAdministrator \<or> may_reset req user))"

text \<open>The fields that the request does not set keep the user's values.\<close>

definition fill_update :: "UserUpdateRequest \<Rightarrow> User \<Rightarrow> UserUpdateRequest" where
  "fill_update req user =
     (let req = (if UserUpdateRequest_SetName req then req
                 else req\<lparr>UserUpdateRequest_DisplayName := User_DisplayName user\<rparr>);
          req = (if UserUpdateRequest_SetProfile req then req
                 else req\<lparr>UserUpdateRequest_StatusMessage := User_StatusMessage user,
                          UserUpdateRequest_ProfileMessage := User_ProfileMessage user,
                          UserUpdateRequest_ProfileColor := User_ProfileColor user\<rparr>)
      in if UserUpdateRequest_SetAvatar req then req
         else req\<lparr>UserUpdateRequest_AvatarModified := User_AvatarModified user\<rparr>)"

text \<open>The transaction ends before the permissions are looked at.\<close>

definition HandleUserUpdateRequest ::
  "Env \<Rightarrow> (snowflake list \<Rightarrow> snowflake list) \<Rightarrow> nat \<Rightarrow> UnknownEvent \<Rightarrow> World \<Rightarrow> World" where
  "HandleUserUpdateRequest E visit cid msg w =
     decoded cid w (decode_UserUpdateRequest (UnknownEvent_Data msg)) (\<lambda>req.
     let me = Conn_userID (conn_of w cid) in
     tx_call cid w (GetUser E (UserUpdateRequest_UserID req) (Start (begin_tx w)))
       (\<lambda>e tx. tx_value cid w (user_perms E me tx)
          (\<lambda>perms tx. refuse E False (Coded ErrorCodeInvalidRequest) cid w tx))
       (\<lambda>user tx. tx_value cid w (user_perms E me tx)
          (\<lambda>perms tx.
            if \<not> may_update me perms req user
            then refuse E False (Coded ErrorCodeNoPermission) cid w tx
            else
              let w = end_tx E False tx w; req = fill_update req user in
              if UserUpdateRequest_SetAvatar req \<and> UserUpdateRequest_AvatarModified req \<noteq> 0
              then reserve_slot E EventTypeUserUpdate (PendingUserUpdate req) msg cid w
              else FinalizeUserUpdateRequest E visit req cid w)))"

section \<open>Roles\<close>

text \<open>The guard of the five role handlers.\<close>

definition with_manage_roles ::
  "Env \<Rightarrow> nat \<Rightarrow> World \<Rightarrow> (Transaction \<Rightarrow> World) \<Rightarrow> World" where
  "with_manage_roles E cid w k =
     tx_value cid w (user_perms E (Conn_userID (conn_of w cid)) (Start (begin_tx w)))
       (\<lambda>perms tx.
         if \<not> has_perm perms PermissionManageRoles
         then refuse E False (Coded ErrorCodeNoPermission) cid w tx else k tx)"

definition HandleRoleAddRequest :: "Env \<Rightarrow> nat \<Rightarrow> UnknownEvent \<Rightarrow> World \<Rightarrow> World" where
  "HandleRoleAddRequest E cid msg w =
     decoded cid w (decode_RoleAddRequest (UnknownEvent_Data msg)) (\<lambda>req.
     with_manage_roles E cid w (\<lambda>tx.
     tx_call cid w (AddRole E (RoleAddRequest_Name req) (RoleAddRequest_Color req)
         (RoleAddRequest_Position req) (RoleAddRequest_Permissions req)
         (RoleAddRequest_Hoisted req) (RoleAddRequest_Mentionable req) tx)
       (\<lambda>e tx. refuse E True e cid w tx)
       (\<lambda>roleID tx.
     tx_call cid w (GetRole E roleID tx)
       (\<lambda>e tx. refuse E True e cid w tx)
       (\<lambda>role tx.
     let w = end_tx E False tx w in
     OnRoleAdd role (set_index (index_AddRole role (W_index w)) w)))))"

definition HandleRoleUpdateRequest :: "Env \<Rightarrow> nat \<Rightarrow> UnknownEvent \<Rightarrow> World \<Rightarrow> World" where
  "HandleRoleUpdateRequest E cid msg w =
     decoded cid w (decode_RoleUpdateRequest (UnknownEvent_Data msg)) (\<lambda>req.
     with_manage_roles E cid w (\<lambda>tx.
     let role = RoleUpdateRequest_Role req in
     tx_call cid w (UpdateRole E (Role_ID role) (Role_Name role) (Role_Color role)
         (Role_Position role) (Role_Permissions role) (Role_Hoisted role)
         (Role_Mentionable role) tx)
       (\<lambda>e tx. refuse E True e cid w tx)
       (\<lambda>_ tx.
     tx_call cid w (GetRole E (Role_ID role) tx)
       (\<lambda>e tx. refuse E True e cid w tx)
       (\<lambda>role tx.
     let w = end_tx E False tx w in
     OnRoleUpdate role (set_index (index_UpdateRole role (W_index w)) w)))))"

definition HandleRoleDeleteRequest :: "Env \<Rightarrow> nat \<Rightarrow> UnknownEvent \<Rightarrow> World \<Rightarrow> World" where
  "HandleRoleDeleteRequest E cid msg w =
     decoded cid w (decode_RoleDeleteRequest (UnknownEvent_Data msg)) (\<lambda>req.
     let rid = RoleDeleteRequest_RoleID req in
     with_manage_roles E cid w (\<lambda>tx.
     tx_call cid w (DeleteRole E rid tx)
       (\<lambda>e tx. refuse E True e cid w tx)
       (\<lambda>_ tx.
     let w = end_tx E False tx w in
     OnRoleDelete rid (set_index (index_DeleteRole rid (W_index w)) w))))"

text \<open>\<^verbatim>\<open>ComputeEffectiveRank\<close>: the least position of the user's roles; the cache is shared by the
  calls of one handler.\<close>

fun effective_rank_loop ::
  "Env \<Rightarrow> snowflake list \<Rightarrow> int \<Rightarrow> (snowflake, int) gomap \<Rightarrow> Transaction \<Rightarrow>
   (int \<times> (snowflake, int) gomap) go_result \<times> Transaction" where
  "effective_rank_loop E [] rank cache tx = (Ok (rank, cache), tx)"
| "effective_rank_loop E (rid # rids) rank cache tx =
     (case get cache rid of
        Some pos \<Rightarrow> effective_rank_loop E rids (if pos < rank then pos else rank) cache tx
      | None \<Rightarrow>
          if_err (GetRole E rid tx)
            (\<lambda>e tx. if e = Coded ErrorCodeInvalidRequest
                    then effective_rank_loop E rids rank cache tx else (Err e, tx))
            (\<lambda>role tx. effective_rank_loop E rids
               (if Role_Position role < rank then Role_Position role else rank)
               (put rid (Role_Position role) cache) tx))"

definition ComputeEffectiveRank ::
  "Env \<Rightarrow> User \<Rightarrow> (snowflake, int) gomap \<Rightarrow> Transaction \<Rightarrow>
   (int \<times> (snowflake, int) gomap) go_result \<times> Transaction" where
  "ComputeEffectiveRank E user cache tx =
     effective_rank_loop E (User_Roles user) MaxInt64 cache tx"

text \<open>What \<^verbatim>\<open>HandleUserRoleAddRequest\<close> and \<^verbatim>\<open>HandleUserRoleDeleteRequest\<close> have in common: the
  guards, with the membership that makes the request a no-op, and the change they make.\<close>

definition change_user_role ::
  "Env \<Rightarrow> (snowflake list \<Rightarrow> snowflake list) \<Rightarrow> snowflake \<Rightarrow> snowflake \<Rightarrow> (bool \<Rightarrow> bool) \<Rightarrow>
   (Transaction \<Rightarrow> unit go_result \<times> Transaction) \<Rightarrow> nat \<Rightarrow> World \<Rightarrow> World" where
  "change_user_role E visit uid rid nothing_to_do change cid w =
     (let me = Conn_userID (conn_of w cid);
          fail = (\<lambda>e tx. refuse E True e cid w tx);
          deny = (\<lambda>tx. refuse E False (Coded ErrorCodeNoPermission) cid w tx)
      in with_manage_roles E cid w (\<lambda>tx.
         tx_call cid w (GetUser E uid tx) fail (\<lambda>targetUser tx.
         tx_call cid w (GetRole E rid tx) fail (\<lambda>role tx.
         if nothing_to_do (Role_ID role \<in> set (User_Roles targetUser)) then end_tx E False tx w
         else
         tx_call cid w (GetUser E me tx) fail (\<lambda>actorUser tx.
         tx_call cid w (ComputeEffectiveRank E actorUser [(Role_ID role, Role_Position role)] tx)
           fail (\<lambda>(actorRank, cache) tx.
         tx_call cid w (ComputeEffectiveRank E targetUser cache tx) fail (\<lambda>(targetRank, cache) tx.
         if uid \<noteq> me \<and> targetRank \<le> actorRank then deny tx
         else if Role_Position role \<le> actorRank then deny tx
         else
         tx_call cid w (change tx) fail (\<lambda>_ tx.
         tx_call cid w (GetUser E uid tx) fail (\<lambda>updatedUser tx.
         publish_user visit cid updatedUser (end_tx E False tx w))))))))))"

definition HandleUserRoleAddRequest ::
  "Env \<Rightarrow> (snowflake list \<Rightarrow> snowflake list) \<Rightarrow> nat \<Rightarrow> UnknownEvent \<Rightarrow> World \<Rightarrow> World" where
  "HandleUserRoleAddRequest E visit cid msg w =
     decoded cid w (decode_UserRoleAddRequest (UnknownEvent_Data msg)) (\<lambda>req.
     change_user_role E visit (UserRoleAddRequest_UserID req) (UserRoleAddRequest_RoleID req)
       (\<lambda>hasRole. hasRole)
       (AddRoleToUser E (UserRoleAddRequest_UserID req) (UserRoleAddRequest_RoleID req)) cid w)"

definition HandleUserRoleDeleteRequest ::
  "Env \<Rightarrow> (snowflake list \<Rightarrow> snowflake list) \<Rightarrow> nat \<Rightarrow> UnknownEvent \<Rightarrow> World \<Rightarrow> World" where
  "HandleUserRoleDeleteRequest E visit cid msg w =
     decoded cid w (decode_UserRoleDeleteRequest (UnknownEvent_Data msg)) (\<lambda>req.
     change_user_role E visit (UserRoleDeleteRequest_UserID req)
       (UserRoleDeleteRequest_RoleID req) (\<lambda>hasRole. \<not> hasRole)
       (DeleteRoleFromUser E (UserRoleDeleteRequest_UserID req)
         (UserRoleDeleteRequest_RoleID req)) cid w)"

section \<open>Embedding URLs\<close>

text \<open>\<^verbatim>\<open>TryEmbedURLs\<close>. Fetching a URL (\<^verbatim>\<open>GetEmbedFromURL\<close>, chat/embed.go) is the argument
  \<open>get_embed\<close>: the embed, \<^verbatim>\<open>nil\<close>, an error or a panic.\<close>

fun embed_loop ::
  "Env \<Rightarrow> (snowflake \<Rightarrow> string \<Rightarrow> Embed option go_result) \<Rightarrow> snowflake \<Rightarrow> string list \<Rightarrow>
   Transaction \<Rightarrow> unit go_result \<times> Transaction" where
  "embed_loop E get_embed mid [] tx = (Ok (), tx)"
| "embed_loop E get_embed mid (url # urls) tx =
     (case get_embed mid url of
        Panic \<Rightarrow> (Panic, tx)
      | Err e \<Rightarrow> embed_loop E get_embed mid urls tx
      | Ok None \<Rightarrow> embed_loop E get_embed mid urls tx
      | Ok (Some emb) \<Rightarrow>
          and_then (AddEmbed E mid (emb\<lparr>Embed_ID := generate_id E tx\<rparr>) (next_tick tx))
            (\<lambda>_ tx. embed_loop E get_embed mid urls tx))"

definition TryEmbedURLs ::
  "Env \<Rightarrow> (snowflake \<Rightarrow> string \<Rightarrow> Embed option go_result) \<Rightarrow> snowflake \<Rightarrow> string list \<Rightarrow> nat \<Rightarrow>
   World \<Rightarrow> World" where
  "TryEmbedURLs E get_embed mid urls cid w =
     tx_call cid w (embed_loop E get_embed mid urls (Start (begin_tx w)))
       (\<lambda>e tx. refuse E True e cid w tx)
       (\<lambda>_ tx.
     tx_call cid w (GetMessage E mid tx)
       (\<lambda>e tx. refuse E True e cid w tx)
       (\<lambda>message tx. OnMessageUpdate message (end_tx E False tx w)))"

end
