(* ===== verification/Process.thy ===== *)
theory Process
  imports Handlers
begin

text \<open>
  The rest of chat/gateway.go: reading a frame, the dispatch of a request by its type, the life of
  a connection, uploads, and the start of the gateway; and the process as a state machine, whose
  steps are the frames of clients, the uploads, the goroutines that handlers started, and the
  background loops.
\<close>

section \<open>Frames\<close>

text \<open>A frame as the JSON decoder leaves it: \<open>None\<close> when reading from the web socket or decoding
  failed.\<close>

definition decode_UnknownEvent :: "json option \<Rightarrow> UnknownEvent option" where
  "decode_UnknownEvent = Unmarshal
     [(''type'', set_int UnknownEvent_Type_update),
      (''seq'', set_string UnknownEvent_Seq_update),
      (''data'', (\<lambda>v r. Some (r\<lparr>UnknownEvent_Data := Some v\<rparr>)))]
     \<lparr>UnknownEvent_Type = 0, UnknownEvent_Seq = [], UnknownEvent_Data = None\<rparr>"

definition Read :: "json option \<Rightarrow> nat \<Rightarrow> World \<Rightarrow> UnknownEvent option" where
  "Read frame cid w = (if \<not> Conn_ws (conn_of w cid) then None else decode_UnknownEvent frame)"

section \<open>Dispatch\<close>

text \<open>The two \<^verbatim>\<open>switch\<close> statements of \<^verbatim>\<open>Process\<close>. \<open>visit\<close> is the order in which the runtime visits
  the keys of a map of snowflakes.\<close>

definition process_guest :: "Env \<Rightarrow> nat \<Rightarrow> UnknownEvent \<Rightarrow> World \<Rightarrow> World" where
  "process_guest E cid msg w =
     (let ty = UnknownEvent_Type msg in
      if ty = EventTypeLoginRequest then HandleLoginRequest E cid msg w
      else if ty = EventTypeRegisterRequest then HandleRegisterRequest E cid msg w
      else HandleError (Coded ErrorCodeInvalidToken) cid w)"

definition process_member ::
  "Env \<Rightarrow> (snowflake list \<Rightarrow> snowflake list) \<Rightarrow> nat \<Rightarrow> UnknownEvent \<Rightarrow> World \<Rightarrow> World" where
  "process_member E visit cid msg w =
     (let ty = UnknownEvent_Type msg in
      if ty = EventTypeMessagesRequest then HandleMessagesRequest E cid msg w
      else if ty = EventTypeUsersRequest then HandleUsersRequest cid msg w
      else if ty = EventTypeUserListRequest then HandleUserListRequest cid msg w
      else if ty = EventTypeMessageSendRequest then HandleMessageSendRequest E cid msg w
      else if ty = EventTypeMessageUpdate then HandleMessageUpdateRequest E cid msg w
      else if ty = EventTypeMessageDelete then HandleMessageDeleteRequest E cid msg w
      else if ty = EventTypeMessageReactionAdd then HandleMessageReactionAddRequest E cid msg w
      else if ty = EventTypeMessageReactionDelete
      then HandleMessageReactionDeleteRequest E cid msg w
      else if ty = EventTypeMessageReactionUsersRequest
      then HandleMessageReactionUsersRequest E cid msg w
      else if ty = EventTypeUserUpdate then HandleUserUpdateRequest E visit cid msg w
      else if ty = EventTypeRoleAdd then HandleRoleAddRequest E cid msg w
      else if ty = EventTypeRoleUpdate then HandleRoleUpdateRequest E cid msg w
      else if ty = EventTypeRoleDelete then HandleRoleDeleteRequest E cid msg w
      else if ty = EventTypeUserRoleAdd then HandleUserRoleAddRequest E visit cid msg w
      else if ty = EventTypeUserRoleDelete then HandleUserRoleDeleteRequest E visit cid msg w
      else HandleError (Coded ErrorCodeInvalidRequest) cid w)"

definition note_request :: "UnknownEvent \<Rightarrow> nat \<Rightarrow> World \<Rightarrow> World" where
  "note_request msg cid = set_conn cid (\<lambda>c. c\<lparr>Conn_seq := UnknownEvent_Seq msg,
     Conn_request := UnknownEvent_Type msg\<rparr>)"

definition Process ::
  "Env \<Rightarrow> (snowflake list \<Rightarrow> snowflake list) \<Rightarrow> json option \<Rightarrow> nat \<Rightarrow> World \<Rightarrow> World" where
  "Process E visit frame cid w =
     (case Read frame cid w of
        None \<Rightarrow> set_conn cid (\<lambda>c. c\<lparr>Conn_closing := True\<rparr>) w
      | Some msg \<Rightarrow>
          let w = note_request msg cid w in
          if \<not> Authenticated (conn_of w cid) then process_guest E cid msg w
          else process_member E visit cid msg w)"

section \<open>The life of a connection\<close>

definition Introduction ::
  "Env \<Rightarrow> (snowflake list \<Rightarrow> snowflake list) \<Rightarrow> string \<Rightarrow> nat \<Rightarrow> World \<Rightarrow> World" where
  "Introduction E visit token cid w =
     (let w1 = (if token \<noteq> [] then TryAuthenticate E token cid w else w) in
      if cid \<in> set (W_panicked w1) then w1
      else
        let w2 = HandleSettingsRequest E cid w1 in
        if cid \<in> set (W_panicked w2) then w2
        else if Authenticated (conn_of w2 cid) then HandleOverviewRequest E visit cid w2 else w2)"

text \<open>The loop of \<^verbatim>\<open>Run\<close> over the frames of a client, each with the order of map iterations while
  it is processed; it ends when the connection closes or its goroutine panics.\<close>

fun run_loop ::
  "Env \<Rightarrow> ((snowflake list \<Rightarrow> snowflake list) \<times> json option) list \<Rightarrow> nat \<Rightarrow> World \<Rightarrow> World" where
  "run_loop E [] cid w = w"
| "run_loop E ((visit, frame) # frames) cid w =
     (if Conn_closing (conn_of w cid) \<or> cid \<in> set (W_panicked w) then w
      else run_loop E frames cid (Process E visit frame cid w))"

definition new_connection :: "string \<Rightarrow> GatewayConnection" where
  "new_connection session = \<lparr>Conn_ws = True, Conn_queue = [], Conn_userID = 0, Conn_token = [],
     Conn_session = session, Conn_seq = [], Conn_request = 0, Conn_closing = False,
     Conn_lastUserListRange = index_range 0 0\<rparr>"

definition open_connection :: "Env \<Rightarrow> nat \<Rightarrow> World \<Rightarrow> World" where
  "open_connection E cid w =
     tick_world (tick_world (set_conn cid (\<lambda>_. new_connection (GetRandom256 E (W_tick w))) w))"

definition HandleGatewayConnection ::
  "Env \<Rightarrow> (snowflake list \<Rightarrow> snowflake list) \<Rightarrow> string \<Rightarrow>
   ((snowflake list \<Rightarrow> snowflake list) \<times> json option) list \<Rightarrow> nat \<Rightarrow> World \<Rightarrow> World" where
  "HandleGatewayConnection E visit token frames cid w =
     shut_socket cid (run_loop E frames cid
       (Introduction E visit token cid (open_connection E cid w)))"

section \<open>Uploads\<close>

text \<open>The parts of a multipart body. The text of a metadata part is given as the JSON value it
  holds, \<open>None\<close> when it holds none.\<close>

datatype UploadPart =
    PartError
  | MetadataError
  | MetadataPart "json option"
  | FilePart string
  | OtherPart

record FileMetadata =
  FileMetadata_Filename :: string
  FileMetadata_Size :: int

definition FileMetadata_zero :: FileMetadata where
  "FileMetadata_zero = \<lparr>FileMetadata_Filename = [], FileMetadata_Size = 0\<rparr>"

definition decode_FileMetadata :: "json option \<Rightarrow> FileMetadata \<Rightarrow> FileMetadata option" where
  "decode_FileMetadata data r = Unmarshal
     [(''filename'', set_string FileMetadata_Filename_update),
      (''size'', set_int FileMetadata_Size_update)] r data"

text \<open>\<^verbatim>\<open>ReadFiles\<close>: the callback gets the metadata text last read and a reader of at most
  \<^verbatim>\<open>metadata.Size\<close> bytes of the part. Every error it returns is a new one that only quotes the
  error it had.\<close>

fun ReadFiles ::
  "(json option \<Rightarrow> string \<Rightarrow> 's \<Rightarrow> unit go_result \<times> 's) \<Rightarrow> json option \<Rightarrow> FileMetadata \<Rightarrow>
   UploadPart list \<Rightarrow> 's \<Rightarrow> unit go_result \<times> 's" where
  "ReadFiles callback rawMetadata metadata [] s = (Ok (), s)"
| "ReadFiles callback rawMetadata metadata (PartError # parts) s = (Err Uncoded, s)"
| "ReadFiles callback rawMetadata metadata (MetadataError # parts) s = (Err Uncoded, s)"
| "ReadFiles callback rawMetadata metadata (MetadataPart raw # parts) s =
     (case decode_FileMetadata raw metadata of
        None \<Rightarrow> (Err Uncoded, s)
      | Some metadata \<Rightarrow> ReadFiles callback raw metadata parts s)"
| "ReadFiles callback rawMetadata metadata (FilePart content # parts) s =
     (case callback rawMetadata (take (nat (FileMetadata_Size metadata)) content) s of
        (Ok _, s) \<Rightarrow> ReadFiles callback rawMetadata metadata parts s
      | (Err _, s) \<Rightarrow> (Err Uncoded, s)
      | (Panic, s) \<Rightarrow> (Panic, s))"
| "ReadFiles callback rawMetadata metadata (OtherPart # parts) s =
     ReadFiles callback rawMetadata metadata parts s"

text \<open>What storage/files.go does with a file is an argument: \<open>store_file\<close> gives the attachment of a
  message id, an attachment id, a filename and the content.\<close>

type_synonym file_store =
  "snowflake \<Rightarrow> snowflake \<Rightarrow> string \<Rightarrow> string \<Rightarrow> Attachment go_result"

definition attach_file ::
  "Env \<Rightarrow> file_store \<Rightarrow> json option \<Rightarrow> string \<Rightarrow> Message \<times> World \<Rightarrow>
   unit go_result \<times> (Message \<times> World)" where
  "attach_file E store_file raw content = (\<lambda>(message, w).
     (case Unmarshal
             [(''filename'', set_string FileMetadata_Filename_update),
              (''size'', set_int FileMetadata_Size_update),
              (''spoilered'', (\<lambda>v r. set_bool (\<lambda>f r. r) v r))] FileMetadata_zero raw of
        None \<Rightarrow> (Err Uncoded, (message, w))
      | Some parsed \<Rightarrow>
          (case store_file (Message_ID message) (Env_generate E (W_tick w))
                  (FileMetadata_Filename parsed) content of
             Err e \<Rightarrow> (Err e, (message, tick_world w))
           | Panic \<Rightarrow> (Panic, (message, tick_world w))
           | Ok attachment \<Rightarrow>
               (Ok (), (message\<lparr>Message_Attachments := Message_Attachments message @ [attachment]\<rparr>,
                  tick_world w)))))"

definition HandleMessageSendUpload ::
  "Env \<Rightarrow> file_store \<Rightarrow> Message \<Rightarrow> PendingRequest \<Rightarrow> UploadPart list \<Rightarrow> nat \<Rightarrow> World \<Rightarrow> World" where
  "HandleMessageSendUpload E store_file message pending parts cid w =
     (let message = message\<lparr>Message_ID := Env_generate E (W_tick w)\<rparr>; w = tick_world w in
      case ReadFiles (attach_file E store_file) None FileMetadata_zero parts (message, w) of
        (Panic, (message, w)) \<Rightarrow> panic cid w
      | (Err e, (message, w)) \<Rightarrow> HandleError e cid w
      | (Ok _, (message, w)) \<Rightarrow>
          FinalizeMessageSendRequest E message (Pending_seq pending) cid w)"

text \<open>\<^verbatim>\<open>HandleUserUpdateUpload\<close>: the result of storing the avatar is not looked at, and after an
  error the profile is updated all the same. \<open>store_avatar\<close> tells whether storing panics.\<close>

definition HandleUserUpdateUpload ::
  "Env \<Rightarrow> (snowflake list \<Rightarrow> snowflake list) \<Rightarrow> (snowflake \<Rightarrow> int \<Rightarrow> string \<Rightarrow> unit go_result) \<Rightarrow>
   UserUpdateRequest \<Rightarrow> PendingRequest \<Rightarrow> UploadPart list \<Rightarrow> nat \<Rightarrow> World \<Rightarrow> World" where
  "HandleUserUpdateUpload E visit store_avatar req pending parts cid w =
     (let modified = Env_now E (W_tick w);
          req = req\<lparr>UserUpdateRequest_AvatarModified := modified\<rparr>;
          w = tick_world w
      in case ReadFiles (\<lambda>raw content w.
                 (case store_avatar (UserUpdateRequest_UserID req) modified content of
                    Panic \<Rightarrow> (Panic, w) | _ \<Rightarrow> (Ok (), w)))
              None FileMetadata_zero parts w of
           (Panic, w) \<Rightarrow> panic cid w
         | (Err e, w) \<Rightarrow> FinalizeUserUpdateRequest E visit req cid (HandleError e cid w)
         | (Ok _, w) \<Rightarrow> FinalizeUserUpdateRequest E visit req cid w)"

text \<open>The upload runs in a goroutine of its own, so a panic there does not end the goroutine of
  the connection. A type assertion that does not hold panics.\<close>

definition upload_result :: "World \<Rightarrow> World \<Rightarrow> unit go_result \<times> World" where
  "upload_result w w' =
     (if W_panicked w' = W_panicked w then (Ok (), w')
      else (Panic, w'\<lparr>W_panicked := W_panicked w\<rparr>))"

definition HandleGatewayUpload ::
  "Env \<Rightarrow> (snowflake list \<Rightarrow> snowflake list) \<Rightarrow> file_store \<Rightarrow>
   (snowflake \<Rightarrow> int \<Rightarrow> string \<Rightarrow> unit go_result) \<Rightarrow> snowflake \<Rightarrow> UploadPart list \<Rightarrow> World \<Rightarrow>
   unit go_result \<times> World" where
  "HandleGatewayUpload E visit store_file store_avatar slotID parts w =
     (case PopPendingRequest slotID w of
        (None, w) \<Rightarrow> (Err Uncoded, w)
      | (Some pending, w) \<Rightarrow>
          (case GetConnection (Pending_session pending) w of
             None \<Rightarrow> (Err Uncoded, w)
           | Some cid \<Rightarrow>
               if Pending_requestType pending = EventTypeMessageSendRequest then
                 (case Pending_requestData pending of
                    PendingMessage message \<Rightarrow> upload_result w
                      (HandleMessageSendUpload E store_file message pending parts cid w)
                  | _ \<Rightarrow> (Panic, w))
               else if Pending_requestType pending = EventTypeUserUpdate then
                 (case Pending_requestData pending of
                    PendingUserUpdate req \<Rightarrow> upload_result w
                      (HandleUserUpdateUpload E visit store_avatar req pending parts cid w)
                  | _ \<Rightarrow> (Panic, w))
               else (Ok (), w)))"

section \<open>Starting\<close>

definition Index_empty :: Index where
  "Index_empty = \<lparr>Index_Users = [], Index_UserInfos = [], Index_Roles = [], Index_Channels = [],
     Index_List = \<lparr>UserList_GroupOrder = [], UserList_Groups = [], UserList_View = []\<rparr>,
     Index_Settings = \<lparr>Settings_SiteName = [], Settings_LoginMessage = [],
       Settings_DefaultPermissions = 0, Settings_UsesEmail = False,
       Settings_UsesInviteCodes = False, Settings_UsesCaptcha = False,
       Settings_UsesLoginCaptcha = False, Settings_CaptchaSiteKey = [],
       Settings_CaptchaSecretKey = []\<rparr>,
     Index_Stale = False, Index_Changes = []\<rparr>"

text \<open>The world when the process starts on a database, before and after \<^verbatim>\<open>StartGateway\<close>.\<close>

definition initial_world :: "Database \<Rightarrow> nat \<Rightarrow> int \<Rightarrow> World" where
  "initial_world db t started = \<lparr>W_db = db, W_tick = t, W_lastWrite = 0,
     W_gw = \<lparr>Gateway_connections = [], Gateway_pending = [], Gateway_index = Index_empty\<rparr>,
     W_conns = [], W_out = [], W_wire = [], W_dead = [], W_tasks = [], W_usedCaptchas = [],
     W_usedCaptchasLastCleaned = started, W_panicked = [], W_leaked = 0\<rparr>"

definition StartGateway ::
  "Env \<Rightarrow> (snowflake list \<Rightarrow> snowflake list) \<Rightarrow> World \<Rightarrow> World option" where
  "StartGateway E visit w =
     (case Build E visit (W_index w) (begin_tx w) of
        (Ok ix, tx) \<Rightarrow> Some (set_index ix (store_tx tx w))
      | _ \<Rightarrow> None)"

section \<open>The process as a state machine\<close>

text \<open>Running a goroutine; a panic in it ends the process, so there is no world after it.\<close>

definition run_task ::
  "Env \<Rightarrow> (snowflake \<Rightarrow> string \<Rightarrow> Embed option go_result) \<Rightarrow> (string list \<Rightarrow> string list) \<Rightarrow>
   Task \<Rightarrow> World \<Rightarrow> World option" where
  "run_task E get_embed visit task w =
     (case task of
        RelayTask ev \<Rightarrow> Some (run_Relay visit ev w)
      | RelayByChannelTask ev channelID \<Rightarrow> Some (run_RelayByChannel visit ev channelID w)
      | EmbedTask cid mid urls \<Rightarrow>
          let w' = TryEmbedURLs E get_embed mid urls cid w in
          if W_panicked w' = W_panicked w then Some w' else None)"

inductive step :: "Env \<Rightarrow> World \<Rightarrow> World \<Rightarrow> bool" for E where
  step_connect: "cid \<notin> set (keys (W_conns w)) \<Longrightarrow> permutes_keys visit \<Longrightarrow>
    step E w (Introduction E visit token cid (open_connection E cid w))"
| step_frame: "cid \<in> set (keys (W_conns w)) \<Longrightarrow> \<not> Conn_closing (conn_of w cid) \<Longrightarrow>
    cid \<notin> set (W_panicked w) \<Longrightarrow> permutes_keys visit \<Longrightarrow>
    step E w (Process E visit frame cid w)"
| step_upload: "permutes_keys visit \<Longrightarrow>
    HandleGatewayUpload E visit store_file store_avatar slotID parts w = (r, w') \<Longrightarrow>
    step E w w'"
| step_task: "W_tasks w = before @ task # after \<Longrightarrow> permutes_keys visit \<Longrightarrow>
    run_task E get_embed visit task (w\<lparr>W_tasks := before @ after\<rparr>) = Some w' \<Longrightarrow>
    step E w w'"
| step_refresh: "permutes_keys visit \<Longrightarrow> refresh_user_list visit w = Some w' \<Longrightarrow> step E w w'"
| step_push: "permutes_keys visit \<Longrightarrow> step E w (push_changes visit w)"
| step_drain: "cid \<in> set (keys (W_conns w)) \<Longrightarrow> step E w (drain cid w)"
| step_shut: "cid \<in> set (keys (W_conns w)) \<Longrightarrow> step E w (shut_socket cid w)"

text \<open>The worlds that the process can be in when it starts on a database that holds its
  constraints.\<close>

inductive reachable :: "Env \<Rightarrow> World \<Rightarrow> bool" for E where
  reachable_start: "db_ok db \<Longrightarrow> permutes_keys visit \<Longrightarrow>
    StartGateway E visit (initial_world db t started) = Some w \<Longrightarrow> reachable E w"
| reachable_step: "reachable E w \<Longrightarrow> step E w w' \<Longrightarrow> reachable E w'"

end
