(* ===== verification/Serving.thy ===== *)
theory Serving
  imports Process
begin

text \<open>
  What serving a request can do to the world. A handler either refuses the request, which means
  one error event to its own connection and nothing else, or makes progress: it may change the
  database within its invariant, the index and the pending uploads, start goroutines, and write
  events other than errors to its own connection. Every handler of a logged-in connection is one
  of the two, and neither touches the other connections or who the connection is logged in as.
\<close>

section \<open>Refusal and progress\<close>

text \<open>What a handler cannot change of a connection.\<close>

definition identity ::
  "GatewayConnection \<Rightarrow> bool \<times> Event list \<times> snowflake \<times> string \<times> string \<times> bool" where
  "identity c = (Conn_ws c, Conn_queue c, Conn_userID c, Conn_token c, Conn_session c,
     Conn_closing c)"

definition conns_kept :: "World \<Rightarrow> World \<Rightarrow> bool" where
  "conns_kept w w' \<longleftrightarrow> (\<forall>k. identity (conn_of w' k) = identity (conn_of w k))"

definition is_error :: "Event \<Rightarrow> bool" where
  "is_error ev \<longleftrightarrow> Event_Type ev = EventTypeErrorResponse"

definition pending_ok :: "Gateway \<Rightarrow> bool" where
  "pending_ok g \<longleftrightarrow> (\<forall>slot req. get (Gateway_pending g) slot = Some req \<longrightarrow>
     Pending_slotID req = slot \<and>
     (case Pending_requestData req of
        PendingMessage m \<Rightarrow> Pending_requestType req = EventTypeMessageSendRequest
      | PendingUserUpdate r \<Rightarrow> Pending_requestType req = EventTypeUserUpdate))"

definition typed_task :: "Task \<Rightarrow> bool" where
  "typed_task task \<longleftrightarrow> (case task of RelayTask ev \<Rightarrow> typed ev
     | RelayByChannelTask ev _ \<Rightarrow> typed ev | EmbedTask _ _ _ \<Rightarrow> True)"

lemma typed_task_simps [simp]:
  "typed_task (RelayTask ev) = typed ev" "typed_task (RelayByChannelTask ev ch) = typed ev"
  "typed_task (EmbedTask k mid urls)"
  by (simp_all add: typed_task_def)

text \<open>An event that is no error and has the payload of its type.\<close>

definition plain :: "Event \<Rightarrow> bool" where
  "plain ev \<longleftrightarrow> \<not> is_error ev \<and> typed ev"

text \<open>Only what no client sees: ticks, the captcha table, leaked database connections, panics.\<close>

definition idle :: "World \<Rightarrow> World \<Rightarrow> bool" where
  "idle w w' \<longleftrightarrow> W_db w' = W_db w \<and> W_gw w' = W_gw w \<and> W_tasks w' = W_tasks w \<and>
     W_out w' = W_out w \<and> W_wire w' = W_wire w \<and> W_dead w' = W_dead w \<and> conns_kept w w'"

definition refused :: "nat \<Rightarrow> World \<Rightarrow> World \<Rightarrow> bool" where
  "refused cid w w' \<longleftrightarrow> W_db w' = W_db w \<and> W_gw w' = W_gw w \<and> W_tasks w' = W_tasks w \<and>
     (\<exists>ev. is_error ev \<and> typed ev \<and> W_out w' = W_out w @ [(cid, ev)]) \<and> wired w w' \<and>
     conns_kept w w'"

text \<open>Events other than errors, written to one connection.\<close>

definition answers :: "nat \<Rightarrow> (nat \<times> Event) list \<Rightarrow> bool" where
  "answers cid out \<longleftrightarrow> (\<forall>(k, ev) \<in> set out. k = cid \<and> plain ev)"

definition progress :: "nat \<Rightarrow> World \<Rightarrow> World \<Rightarrow> bool" where
  "progress cid w w' \<longleftrightarrow>
     (db_ok (W_db w) \<longrightarrow> db_ok (W_db w') \<and> user_ids (W_db w) \<subseteq> user_ids (W_db w')) \<and>
     Gateway_connections (W_gw w') = Gateway_connections (W_gw w) \<and>
     (pending_ok (W_gw w) \<longrightarrow> pending_ok (W_gw w')) \<and>
     (list_all typed_task (W_tasks w) \<longrightarrow> list_all typed_task (W_tasks w')) \<and>
     (\<exists>out. W_out w' = W_out w @ out \<and> answers cid out) \<and> wired w w' \<and>
     conns_kept w w'"

definition served :: "nat \<Rightarrow> World \<Rightarrow> World \<Rightarrow> bool" where
  "served cid w w' \<longleftrightarrow> refused cid w w' \<or> progress cid w w'"

lemma conns_kept_refl [simp]: "conns_kept w w"
  by (simp add: conns_kept_def)

lemma conns_kept_trans: "conns_kept w w1 \<Longrightarrow> conns_kept w1 w2 \<Longrightarrow> conns_kept w w2"
  by (simp add: conns_kept_def)

lemma conns_kept_same: "W_conns w' = W_conns w \<Longrightarrow> conns_kept w w'"
  by (simp add: conns_kept_def conn_of_def)

lemma conns_kept_set_conn:
  "(\<And>c. identity (f c) = identity c) \<Longrightarrow> conns_kept w (set_conn cid f w)"
  by (simp add: conns_kept_def)

lemma idle_refl [simp]: "idle w w"
  by (simp add: idle_def)

lemma idle_trans: "idle w w1 \<Longrightarrow> idle w1 w2 \<Longrightarrow> idle w w2"
  unfolding idle_def by (metis conns_kept_trans)

lemma idle_wired: "idle w w1 \<Longrightarrow> wired w w1" "idle w w1 \<Longrightarrow> wired w1 w2 \<Longrightarrow> wired w w2"
  by (auto simp: idle_def wired_def)

lemma idle_refused: "idle w w1 \<Longrightarrow> refused cid w1 w2 \<Longrightarrow> refused cid w w2"
  using idle_wired(2) [of w w1 w2] unfolding idle_def refused_def conns_kept_def by simp

lemma idle_progress: "idle w w1 \<Longrightarrow> progress cid w1 w2 \<Longrightarrow> progress cid w w2"
  using idle_wired(2) [of w w1 w2] unfolding idle_def progress_def conns_kept_def by simp

lemma idle_served: "idle w w1 \<Longrightarrow> served cid w1 w2 \<Longrightarrow> served cid w w2"
  unfolding served_def by (metis idle_refused idle_progress)

lemma answers_simps [simp]:
  "answers cid []" "answers cid (xs @ ys) \<longleftrightarrow> answers cid xs \<and> answers cid ys"
  by (auto simp: answers_def)

lemma progress_refl: "progress cid w w"
  by (simp add: progress_def)

lemma progress_trans:
  assumes "progress cid w w1" and "progress cid w1 w2"
  shows "progress cid w w2"
proof -
  obtain xs ys where "W_out w1 = W_out w @ xs" "answers cid xs"
      "W_out w2 = W_out w1 @ ys" "answers cid ys"
    using assms unfolding progress_def by blast
  then have "W_out w2 = W_out w @ (xs @ ys) \<and> answers cid (xs @ ys)" by simp
  then have "\<exists>out. W_out w2 = W_out w @ out \<and> answers cid out" by (rule exI)
  moreover have "db_ok (W_db w) \<longrightarrow> db_ok (W_db w2) \<and> user_ids (W_db w) \<subseteq> user_ids (W_db w2)"
    using assms unfolding progress_def by (meson order_trans)
  moreover have "wired w w2"
    using assms unfolding progress_def by (blast intro: wired_trans)
  ultimately show ?thesis
    using assms unfolding progress_def conns_kept_def by simp
qed

lemma idle_to_progress: "idle w w' \<Longrightarrow> progress cid w w'"
  using idle_progress [OF _ progress_refl] .

lemma progress_served: "progress cid w w' \<Longrightarrow> served cid w w'"
  by (simp add: served_def)

lemma idle_to_served: "idle w w' \<Longrightarrow> served cid w w'"
  by (rule progress_served [OF idle_to_progress])

text \<open>The building blocks of the handlers.\<close>

lemma is_error_event [simp]: "is_error (event ty d) = (ty = EventTypeErrorResponse)"
  by (simp add: is_error_def)

lemma is_error_seq [simp]: "is_error (ev\<lparr>Event_Seq := s\<rparr>) = is_error ev"
  by (simp add: is_error_def)

lemma is_error_error [simp]: "is_error (error_event e r)" "typed (error_event e r)"
  by (simp_all add: error_event_def)

lemma plain_event [simp]:
  "plain (event ty d) \<longleftrightarrow> ty \<noteq> EventTypeErrorResponse \<and> ty = payload_type d"
  "plain (ev\<lparr>Event_Seq := s\<rparr>) = plain ev"
  by (simp_all add: plain_def)

lemma refused_HandleError: "idle w w' \<Longrightarrow> refused cid w (HandleError e cid w')"
  using idle_wired(1) [of w w'] unfolding refused_def idle_def
  by (simp add: HandleError_def conns_kept_def)

lemma served_HandleError: "idle w w' \<Longrightarrow> served cid w (HandleError e cid w')"
  by (simp add: served_def refused_HandleError)

lemma progress_Write: "plain ev \<Longrightarrow> progress cid w (Write ev cid w)"
  unfolding progress_def
  by (auto intro!: conns_kept_same simp: answers_def)

lemma progress_go: "typed_task task \<Longrightarrow> progress cid w (go task w)"
  unfolding progress_def by (auto intro!: conns_kept_same exI [of _ "[]"])

lemma progress_set_index: "progress cid w (set_index ix w)"
  unfolding progress_def set_index_def
  by (auto intro!: conns_kept_same simp: pending_ok_def answers_def)

lemma progress_set_conn:
  "(\<And>c. identity (f c) = identity c) \<Longrightarrow> progress cid w (set_conn k f w)"
  by (rule idle_to_progress) (simp add: idle_def conns_kept_set_conn)

lemma idle_tick_world [simp]: "idle w (tick_world w)"
  by (simp add: idle_def conns_kept_same)

lemma progress_push_pending:
  assumes "Pending_slotID req = slot"
    and "case Pending_requestData req of
      PendingMessage m \<Rightarrow> Pending_requestType req = EventTypeMessageSendRequest
    | PendingUserUpdate r \<Rightarrow> Pending_requestType req = EventTypeUserUpdate"
  shows "progress cid w (PushPendingRequest req slot w)"
  using assms unfolding progress_def PushPendingRequest_def
  by (auto intro!: conns_kept_same simp: pending_ok_def answers_def)

section \<open>Transactions within a handler\<close>

definition in_tx :: "World \<Rightarrow> Transaction \<Rightarrow> bool" where
  "in_tx w tx \<longleftrightarrow> Tx_commit tx = Some (W_db w) \<and>
     (db_ok (W_db w) \<longrightarrow> db_ok (Tx_db tx) \<and> user_ids (W_db w) \<subseteq> user_ids (Tx_db tx))"

definition reading :: "World \<Rightarrow> Transaction \<Rightarrow> bool" where
  "reading w tx \<longleftrightarrow> in_tx w tx \<and> Tx_db tx = W_db w"

definition extends_tx :: "Transaction \<Rightarrow> Transaction \<Rightarrow> bool" where
  "extends_tx tx tx' \<longleftrightarrow> (\<forall>w. in_tx w tx \<longrightarrow> in_tx w tx')"

definition reads_tx :: "Transaction \<Rightarrow> Transaction \<Rightarrow> bool" where
  "reads_tx tx tx' \<longleftrightarrow> (\<forall>w. reading w tx \<longrightarrow> reading w tx')"

lemma in_tx_step [simp]:
  "in_tx w (next_tick tx) = in_tx w tx" "in_tx w (MarkAsWrite tx) = in_tx w tx"
  by (simp_all add: in_tx_def)

lemma reading_step [simp]:
  "reading w (next_tick tx) = reading w tx" "reading w (MarkAsWrite tx) = reading w tx"
  by (simp_all add: reading_def)

lemma in_tx_tick [simp]: "in_tx w (tx\<lparr>Tx_tick := t\<rparr>) = in_tx w tx"
  by (simp add: in_tx_def)

lemma in_tx_update:
  assumes "store_update upd" and "upd (Tx_db tx) = Some db" and "in_tx w tx"
  shows "in_tx w (tx\<lparr>Tx_db := db\<rparr>)"
proof -
  have "db_ok (Tx_db tx) \<Longrightarrow> db_ok db \<and> user_ids (Tx_db tx) \<subseteq> user_ids db"
    using assms(1,2) unfolding store_update_def by blast
  with assms(3) show ?thesis unfolding in_tx_def by simp (meson order_trans)
qed

interpretation open_tx: tx_write_frame extends_tx
  unfolding extends_tx_def by unfold_locales (auto intro: in_tx_update)

interpretation read_tx: tx_frame reads_tx
  unfolding reads_tx_def by unfold_locales auto

lemma reading_in_tx: "reading w tx \<Longrightarrow> in_tx w tx"
  by (simp add: reading_def)

lemma reading_begin [simp]: "reading w (Start (begin_tx w))" "in_tx w (Start (begin_tx w))"
  by (simp_all add: reading_def in_tx_def Start_def begin_tx_def NewTransaction_def)

lemma in_tx_idle: "idle w w' \<Longrightarrow> in_tx w tx \<Longrightarrow> in_tx w' tx"
  by (simp add: idle_def in_tx_def)

lemma W_db_end_tx:
  "in_tx w tx \<Longrightarrow> W_db (end_tx E failed tx w) =
     (if failed \<or> Env_commit_error E (Tx_tick tx) then W_db w else Tx_db tx)"
  by (simp add: end_tx_def store_tx_def Commit_def in_tx_def UpdateLastWrite_def Let_def
      split: if_splits)

lemma end_tx_fields [simp]:
  "W_gw (end_tx E failed tx w) = W_gw w" "W_conns (end_tx E failed tx w) = W_conns w"
  "conn_of (end_tx E failed tx w) k = conn_of w k"
  "W_out (end_tx E failed tx w) = W_out w" "W_tasks (end_tx E failed tx w) = W_tasks w"
  "W_usedCaptchas (end_tx E failed tx w) = W_usedCaptchas w"
  "W_panicked (end_tx E failed tx w) = W_panicked w"
  "W_leaked (end_tx E failed tx w) = W_leaked w" "W_wire (end_tx E failed tx w) = W_wire w"
  "W_dead (end_tx E failed tx w) = W_dead w" "wired v (end_tx E failed tx w) = wired v w"
  by (simp_all add: end_tx_def store_tx_def conn_of_def)

lemma idle_rollback: "in_tx w tx \<Longrightarrow> idle w (end_tx E True tx w)"
  by (simp add: idle_def W_db_end_tx conns_kept_same)

lemma idle_read_only: "reading w tx \<Longrightarrow> idle w (end_tx E failed tx w)"
  by (auto simp: idle_def W_db_end_tx reading_in_tx conns_kept_same) (simp_all add: reading_def)

lemma progress_commit: "in_tx w tx \<Longrightarrow> progress cid w (end_tx E failed tx w)"
  unfolding progress_def
  by (auto simp: W_db_end_tx answers_def intro!: conns_kept_same) (auto simp: in_tx_def)

lemma idle_leak [simp]: "idle w (leak_tx tx w)"
  by (simp add: idle_def leak_tx_def conns_kept_same)

lemma idle_panic [simp]: "idle w (panic cid w)"
  by (simp add: idle_def panic_def conns_kept_same)

lemma idle_panic_tx [simp]: "idle w (panic_tx cid tx w)"
  unfolding panic_tx_def by (rule idle_trans [OF idle_leak idle_panic])

lemma served_refuse: "in_tx w tx \<Longrightarrow> served cid w (refuse E True e cid w tx)"
  by (simp add: refuse_def served_HandleError idle_rollback)

lemma served_deny: "reading w tx \<Longrightarrow> served cid w (refuse E False e cid w tx)"
  by (simp add: refuse_def served_HandleError idle_read_only)

lemma served_panic [simp, intro!]: "served cid w (panic_tx cid' tx w)"
  by (simp add: idle_to_served)

section \<open>Rules for calls\<close>

lemma tx_call_writing:
  assumes "extends_tx tx (snd r)" and "in_tx w tx"
    and "\<And>e tx'. in_tx w tx' \<Longrightarrow> served cid w (h e tx')"
    and "\<And>x tx'. in_tx w tx' \<Longrightarrow> served cid w (f x tx')"
  shows "served cid w (tx_call k w r h f)"
proof -
  obtain x tx' where r: "r = (x, tx')" by (cases r)
  with assms(1,2) have "in_tx w tx'" by (simp add: extends_tx_def)
  with r assms(3,4) show ?thesis by (cases x) simp_all
qed

text \<open>A reading call, in whatever state the transaction is.\<close>

lemma tx_call_reading:
  assumes "extends_tx tx (snd r)" and "reads_tx tx (snd r)" and "in_tx w tx"
    and "\<And>e tx'. in_tx w tx' \<Longrightarrow> reading w tx \<longrightarrow> reading w tx' \<Longrightarrow> served cid w (h e tx')"
    and "\<And>x tx'. in_tx w tx' \<Longrightarrow> reading w tx \<longrightarrow> reading w tx' \<Longrightarrow> served cid w (f x tx')"
  shows "served cid w (tx_call k w r h f)"
proof -
  obtain x tx' where r: "r = (x, tx')" by (cases r)
  with assms(1-3) have "in_tx w tx'" and "reading w tx \<longrightarrow> reading w tx'"
    by (simp_all add: extends_tx_def reads_tx_def)
  with r assms(4,5) show ?thesis by (cases x) simp_all
qed

lemma tx_value_reading:
  assumes "extends_tx tx (snd r)" and "reads_tx tx (snd r)" and "in_tx w tx"
    and "\<And>x tx'. in_tx w tx' \<Longrightarrow> reading w tx \<longrightarrow> reading w tx' \<Longrightarrow> served cid w (f x tx')"
  shows "served cid w (tx_value k w r f)"
  unfolding tx_value_def using assms by (intro tx_call_reading) simp_all

lemma served_decoded:
  assumes "\<And>req. served cid w (f req)"
  shows "served cid w (decoded cid w r f)"
  using assms by (cases r) (simp_all add: served_HandleError)

text \<open>What a handler does after its transaction, one step at a time.\<close>

lemma progress_steps:
  "typed_task task \<Longrightarrow> progress cid w w' \<Longrightarrow> progress cid w (go task w')"
  "progress cid w w' \<Longrightarrow> progress cid w (set_index ix w')"
  "progress cid w w' \<Longrightarrow> progress cid w (tick_world w')"
  "progress cid w w' \<Longrightarrow> progress cid w (panic k w')"
  by (auto intro: progress_trans [OF _ progress_go] progress_trans [OF _ progress_set_index]
      progress_trans [OF _ idle_to_progress])

lemma progress_then_Write:
  "plain ev \<Longrightarrow> progress cid w w' \<Longrightarrow> progress cid w (Write ev cid w')"
  by (rule progress_trans [OF _ progress_Write])

lemmas progress_intros = progress_steps progress_then_Write progress_commit

section \<open>The handlers of a logged-in connection\<close>

lemma user_perms_frames [simp, intro!]:
  "extends_tx tx (snd (user_perms E uid tx))" "reads_tx tx (snd (user_perms E uid tx))"
  unfolding user_perms_def
  by (intro open_tx.R_and_then open_tx.R_GetPermissionsByUser; simp add: split_beta)
    (intro read_tx.R_and_then read_tx.R_GetPermissionsByUser; simp add: split_beta)

end
