(* ===== verification/Handlers_Serving.thy ===== *)
theory Handlers_Serving
  imports Serving
begin

text \<open>
  Every handler of a logged-in connection either refuses its request or makes progress
  (\<open>served\<close>), whatever fails in the engine.
\<close>

lemmas reading_calls =
  tx_call_reading [OF open_tx.R_GetSettings read_tx.R_GetSettings]
  tx_call_reading [OF open_tx.R_GetMessage read_tx.R_GetMessage]
  tx_call_reading [OF open_tx.R_GetUser read_tx.R_GetUser]
  tx_call_reading [OF open_tx.R_GetRole read_tx.R_GetRole]
  tx_call_reading [OF open_tx.R_GetAllChannels read_tx.R_GetAllChannels]
  tx_call_reading [OF open_tx.R_GetChannelByMessage read_tx.R_GetChannelByMessage]
  tx_call_reading [OF open_tx.R_GetReactionCount read_tx.R_GetReactionCount]
  tx_call_reading [OF open_tx.R_GetReactionUsers read_tx.R_GetReactionUsers]
  tx_value_reading [OF user_perms_frames]
  tx_value_reading [OF open_tx.R_GetPermissionsByChannel read_tx.R_GetPermissionsByChannel]
  tx_value_reading [OF open_tx.R_GetPermissionsByMessage read_tx.R_GetPermissionsByMessage]

lemmas writing_calls =
  tx_call_writing [OF open_tx.R_SetMessage] tx_call_writing [OF open_tx.R_DeleteMessage]
  tx_call_writing [OF open_tx.R_AddReaction] tx_call_writing [OF open_tx.R_DeleteReaction]
  tx_call_writing [OF open_tx.R_SetUserProfile] tx_call_writing [OF open_tx.R_AddRole]
  tx_call_writing [OF open_tx.R_UpdateRole] tx_call_writing [OF open_tx.R_DeleteRole]

lemmas served_leaves = progress_steps [THEN progress_served]
  progress_then_Write [THEN progress_served] progress_commit [THEN progress_served]

lemmas serving_intros = served_decoded reading_calls writing_calls served_refuse served_leaves
  progress_intros

lemma served_settings: "served cid w (HandleSettingsRequest E cid w)"
  unfolding HandleSettingsRequest_def Let_def settings_event_def
  by (intro reading_calls served_refuse served_leaves progress_intros reading_begin)
    (simp_all add: event_type_defs)

lemma served_MessageDelete: "served cid w (HandleMessageDeleteRequest E cid msg w)"
  unfolding HandleMessageDeleteRequest_def Let_def relay_defs
  by (intro served_decoded reading_calls reading_begin served_refuse; clarsimp)
    (auto intro!: serving_intros)

lemma served_MessageUpdate: "served cid w (HandleMessageUpdateRequest E cid msg w)"
  unfolding HandleMessageUpdateRequest_def Let_def relay_defs
  by (auto intro!: serving_intros served_deny split: prod.split)

lemma served_ReactionAdd: "served cid w (HandleMessageReactionAddRequest E cid msg w)"
  unfolding HandleMessageReactionAddRequest_def Let_def relay_defs
  by (auto intro!: serving_intros)

lemma served_ReactionDelete: "served cid w (HandleMessageReactionDeleteRequest E cid msg w)"
  unfolding HandleMessageReactionDeleteRequest_def Let_def relay_defs
  by (auto intro!: serving_intros)

lemma served_ReactionUsers: "served cid w (HandleMessageReactionUsersRequest E cid msg w)"
  unfolding HandleMessageReactionUsersRequest_def Let_def
  by (auto intro!: serving_intros simp: event_type_defs)

lemma served_Users: "served cid w (HandleUsersRequest cid msg w)"
  unfolding HandleUsersRequest_def
  by (auto intro!: served_decoded served_leaves progress_refl simp: event_type_defs)

lemma progress_UpdateLast: "progress cid w (UpdateLastUserListRequest a b k w)"
  unfolding UpdateLastUserListRequest_def by (rule progress_set_conn) (simp add: identity_def)

lemma served_UserList: "served cid w (HandleUserListRequest cid msg w)"
  unfolding HandleUserListRequest_def Let_def
  by (auto intro!: served_decoded served_leaves progress_UpdateLast
      simp: event_type_defs)

section \<open>Sending messages, profiles and roles\<close>

lemma store_message_frame [simp, intro!]: "extends_tx tx (snd (store_message E m tx))"
  unfolding store_message_def ignore_err_def Let_def
  by (intro open_tx.R_and_then; auto intro!: open_tx.R_seq)

lemma FinalizeMessageSend_served: "served cid w (FinalizeMessageSendRequest E m seq cid w)"
  unfolding FinalizeMessageSendRequest_def Let_def relay_defs
  by (rule tx_call_writing [OF store_message_frame])
    (auto intro!: serving_intros simp: event_type_defs)

lemma reserve_slot_progress:
  assumes "case data of PendingMessage m \<Rightarrow> ty = EventTypeMessageSendRequest
    | PendingUserUpdate r \<Rightarrow> ty = EventTypeUserUpdate"
  shows "progress cid w (reserve_slot E ty data msg cid w)"
  unfolding reserve_slot_def Let_def
  by (rule progress_then_Write,
      simp add: upload_slot_event_def event_type_defs,
      rule progress_trans [OF idle_to_progress [OF idle_tick_world]],
      rule progress_push_pending) (use assms in \<open>auto split: RequestData.splits\<close>)

lemma store_tx_reading: "Tx_db tx = W_db w \<Longrightarrow> idle w (store_tx tx w)"
  by (simp add: idle_def store_tx_def conns_kept_same)

lemma served_MessageSend: "served cid w (HandleMessageSendRequest E cid msg w)"
proof -
  have new: "snd (new_message E req a l v) = tick_world (tick_world v)" for req a l v
    by (cases "ParseMessageContent (MessageSendRequest_Content req)") (simp add: new_message_def)
  have reserve: "served cid v (reserve_slot E EventTypeMessageSendRequest (PendingMessage full)
      msg cid v)" for full v
    by (rule progress_served, rule reserve_slot_progress) simp
  have idle: "idle w (tick_world (tick_world (store_tx tx w)))" if "Tx_db tx = W_db w" for tx
    by (intro idle_trans [OF _ idle_tick_world] store_tx_reading that)
  have tables: "Tx_db (snd (GetPermissionsByChannel E a ch (begin_tx w))) = W_db w" for a ch
    using reads.R_GetPermissionsByChannel [of "begin_tx w" E a ch]
    by (simp add: same_tables_def begin_tx_def NewTransaction_def)
  show ?thesis
    unfolding HandleMessageSendRequest_def Let_def tx_value_def
  proof (rule served_decoded)
    fix req :: MessageSendRequest
    let ?r = "GetPermissionsByChannel E (Conn_userID (conn_of w cid))
      (MessageSendRequest_ChannelID req) (begin_tx w)"
    obtain x tx where r: "?r = (x, tx)" by (cases ?r)
    with tables have tx: "Tx_db tx = W_db w" by (metis snd_conv)
    show "served cid w (tx_call cid w ?r (\<lambda>e tx. panic_tx cid tx w) (\<lambda>perms tx.
      if \<not> has_perm perms PermissionSendMessages
      then HandleError (Coded ErrorCodeNoPermission) cid (store_tx tx w)
      else if \<not> has_perm perms PermissionUploadFiles \<and> 0 < MessageSendRequest_AttachmentCount req
      then HandleError (Coded ErrorCodeNoPermission) cid (store_tx tx w)
      else case new_message E req (Conn_userID (conn_of w cid))
             (has_perm perms PermissionEmbedLinks) (store_tx tx w) of (full, w) \<Rightarrow>
        if 0 < MessageSendRequest_AttachmentCount req
        then reserve_slot E EventTypeMessageSendRequest (PendingMessage full) msg cid w
        else FinalizeMessageSendRequest E full (UnknownEvent_Seq msg) cid w))"
      unfolding r using idle [OF tx]
      by (cases x) (auto simp: case_prod_beta' new intro: served_HandleError
          store_tx_reading [OF tx] idle_served reserve FinalizeMessageSend_served)
  qed
qed

lemma progress_publish:
  "progress cid w w' \<Longrightarrow> progress cid w (publish_user visit cid user w')"
  by (auto simp: publish_user_def relay_defs intro!: progress_intros split: option.split prod.split)

lemma FinalizeUserUpdate_served: "served cid w (FinalizeUserUpdateRequest E visit req cid w)"
  unfolding FinalizeUserUpdateRequest_def Let_def
  by (auto intro!: serving_intros progress_served [OF progress_publish])

lemma served_RoleAdd: "served cid w (HandleRoleAddRequest E cid msg w)"
  unfolding HandleRoleAddRequest_def with_manage_roles_def Let_def relay_defs
  by (auto intro!: serving_intros served_deny)

lemma served_RoleUpdate: "served cid w (HandleRoleUpdateRequest E cid msg w)"
  unfolding HandleRoleUpdateRequest_def with_manage_roles_def Let_def relay_defs
  by (auto intro!: serving_intros served_deny)

lemma served_RoleDelete: "served cid w (HandleRoleDeleteRequest E cid msg w)"
  unfolding HandleRoleDeleteRequest_def with_manage_roles_def Let_def relay_defs
  by (auto intro!: serving_intros served_deny)

lemma served_UserUpdate: "served cid w (HandleUserUpdateRequest E visit cid msg w)"
  unfolding HandleUserUpdateRequest_def Let_def
  by (auto intro!: served_decoded reading_calls served_deny
      idle_served [OF idle_read_only FinalizeUserUpdate_served]
      idle_served [OF idle_read_only progress_served [OF reserve_slot_progress]])

lemma effective_rank_frames [simp, intro!]:
  "extends_tx tx (snd (effective_rank_loop E rids rank cache tx))"
  "reads_tx tx (snd (effective_rank_loop E rids rank cache tx))"
  by (induction rids arbitrary: rank cache tx)
    (auto split: option.split intro!: open_tx.R_if_err read_tx.R_if_err)

lemma ComputeEffectiveRank_frames [simp, intro!]:
  "extends_tx tx (snd (ComputeEffectiveRank E user cache tx))"
  "reads_tx tx (snd (ComputeEffectiveRank E user cache tx))"
  by (simp_all add: ComputeEffectiveRank_def)

lemma served_change_user_role:
  assumes "\<And>tx. extends_tx tx (snd (change tx))"
  shows "served cid w (change_user_role E visit uid rid nothing_to_do change cid w)"
  unfolding change_user_role_def with_manage_roles_def Let_def
  by (auto intro!: reading_calls served_refuse served_deny served_leaves
      tx_call_reading [OF ComputeEffectiveRank_frames] tx_call_writing [OF assms]
      progress_publish [THEN progress_served] progress_commit)

lemma served_UserRoleAdd: "served cid w (HandleUserRoleAddRequest E visit cid msg w)"
  unfolding HandleUserRoleAddRequest_def
  by (intro served_decoded served_change_user_role open_tx.R_AddRoleToUser)

lemma served_UserRoleDelete: "served cid w (HandleUserRoleDeleteRequest E visit cid msg w)"
  unfolding HandleUserRoleDeleteRequest_def
  by (intro served_decoded served_change_user_role open_tx.R_DeleteRoleFromUser)

lemma requested_messages_frames [simp, intro!]:
  "extends_tx tx (snd (requested_messages E req tx))"
  "reads_tx tx (snd (requested_messages E req tx))"
  unfolding requested_messages_def messages_around_def ignore_err_def Let_def
  by (auto intro!: open_tx.R_seq read_tx.R_seq)

lemma get_references_frames [simp, intro!]:
  "extends_tx tx (snd (get_references E msgs tx))" "reads_tx tx (snd (get_references E msgs tx))"
  unfolding get_references_def
  by (auto intro!: open_tx.R_GetMessages read_tx.R_GetMessages)

lemma served_Messages: "served cid w (HandleMessagesRequest E cid msg w)"
  unfolding HandleMessagesRequest_def Let_def
  by (auto intro!: served_decoded served_HandleError served_deny served_leaves progress_commit
      tx_call_reading [OF requested_messages_frames] tx_call_reading [OF get_references_frames]
      simp: event_type_defs)

lemma process_member_served: "served cid w (process_member E visit cid msg w)"
  by (simp add: process_member_def Let_def served_HandleError served_Messages served_Users
      served_UserList served_MessageSend served_MessageUpdate served_MessageDelete
      served_ReactionAdd served_ReactionDelete served_ReactionUsers served_UserUpdate
      served_RoleAdd served_RoleUpdate served_RoleDelete served_UserRoleAdd served_UserRoleDelete)

section \<open>Introduction, embeds and uploads\<close>

lemma overview_progress: "progress cid w (HandleOverviewRequest E visit cid w)"
proof -
  let ?w = "UpdateLastUserListRequest 0 20 cid w"
  obtain x tx where r: "GetAllChannels E (Start (begin_tx ?w)) = (x, tx)"
    by (cases "GetAllChannels E (Start (begin_tx ?w))")
  then have tx: "in_tx ?w tx"
    using open_tx.R_GetAllChannels [of "Start (begin_tx ?w)" E] by (simp add: extends_tx_def)
  have "progress cid ?w (HandleOverviewRequest E visit cid w)"
    unfolding HandleOverviewRequest_def Let_def r
    by (cases x) (simp_all add: progress_then_Write progress_commit tx idle_to_progress
        event_type_defs)
  then show ?thesis by (rule progress_trans [OF progress_UpdateLast])
qed

lemma embed_loop_frame [simp, intro!]: "extends_tx tx (snd (embed_loop E get_embed mid urls tx))"
proof (induction urls arbitrary: tx)
  case (Cons url urls)
  have "extends_tx tx (snd (and_then
      (AddEmbed E mid (emb\<lparr>Embed_ID := generate_id E tx\<rparr>) (next_tick tx))
      (\<lambda>_ tx. embed_loop E get_embed mid urls tx)))" for emb
    by (intro open_tx.R_and_then open_tx.R_from_tick [OF open_tx.R_AddEmbed] Cons.IH)
  then show ?case using Cons.IH by (auto split: go_result.split option.split)
qed simp

lemma TryEmbedURLs_served: "served cid w (TryEmbedURLs E get_embed mid urls cid w)"
  unfolding TryEmbedURLs_def Let_def relay_defs
  by (rule tx_call_writing [OF embed_loop_frame]) (auto intro!: serving_intros)

end
