(* ===== verification/Reachability.thy ===== *)
theory Reachability
  imports Handlers_Serving
begin

text \<open>
  What holds of every world the process can reach: the tables keep their constraints, no queue
  holds more than its capacity, every pending upload has data of the type its request says, and
  the user that a connection is logged in as exists.
\<close>

section \<open>Logging in\<close>

lemma step_row_found:
  "step_row E rows tx = (Ok (Some r), tx') \<Longrightarrow> r \<in> set rows"
  by (auto simp: step_row_def split: if_splits list.splits)

lemma Prepare_Ok: "Prepare tx k = (Ok x, tx') \<Longrightarrow> k tx = (Ok x, tx')"
  by (simp add: Prepare_def split: if_splits)

lemma with_code_Ok: "with_code c r = (Ok x, tx) \<Longrightarrow> r = (Ok x, tx)"
  by (cases r; cases "fst r") (auto simp: with_code_def)

lemma Login_user:
  assumes "Login E username password tx = (Ok (uid, token), tx')"
  shows "uid \<in> user_ids (Tx_db tx)"
  using assms unfolding Login_def
  by (auto dest!: Prepare_Ok with_code_Ok step_row_found elim!: and_then_OkE
      split: option.splits if_splits)

lemma Authenticate_user:
  assumes "Authenticate E token tx = (Ok uid, tx')" and "db_ok (Tx_db tx)"
  shows "uid \<in> user_ids (Tx_db tx)"
  using assms unfolding Authenticate_def
  by (fastforce dest!: Prepare_Ok with_code_Ok step_row_found elim!: and_then_OkE
      simp: db_ok_def refs_ok_def refers_def split: option.splits)

lemma group_users_ids:
  "User_ID ` set (group_users users current rows) \<subseteq>
     User_ID ` set users \<union> User_ID ` set_option current \<union> (UserRow_id \<circ> fst) ` set rows"
proof (induction users current rows rule: group_users.induct)
  case (3 users cur row rows)
  then show ?case by (cases row) (auto split: option.splits simp: user_of_row_def Let_def)
qed (auto simp: user_of_row_def)

lemma user_join_row_fst: "r \<in> set (user_join_row db u) \<Longrightarrow> fst r = u"
  by (auto simp: user_join_row_def split: list.splits)

lemma user_rows_ids: "(UserRow_id \<circ> fst) ` set (user_rows key db) \<subseteq> user_ids db"
  by (auto simp: user_rows_def select_users_def dest!: user_join_row_fst)

lemma GetUser_rows:
  assumes "GetUser E key tx = (Ok user, tx')"
  shows "User_ID user \<in> (UserRow_id \<circ> fst) ` set (user_rows key (Tx_db tx))"
    and "Tx_db tx' = Tx_db tx"
proof -
  obtain users tx1 where q: "QueryUsers E key tx = (Ok users, tx1)" and "user \<in> set users"
      and tx': "tx' = tx1"
    using assms unfolding GetUser_def by (auto elim!: and_then_OkE split: list.splits)
  have "users = group_users [] None (user_rows key (Tx_db tx))"
    using q unfolding QueryUsers_def
    by (auto dest!: Prepare_Ok with_code_Ok elim!: and_then_OkE simp: step_rows_def
        split: if_splits)
  with \<open>user \<in> set users\<close> show "User_ID user \<in> (UserRow_id \<circ> fst) ` set (user_rows key (Tx_db tx))"
    using group_users_ids [of "[]" None] by fastforce
  show "Tx_db tx' = Tx_db tx"
    using reads.R_QueryUsers [of tx E key] q tx' by (simp add: same_tables_def)
qed

lemma GetUser_exists:
  assumes "GetUser E key tx = (Ok user, tx')"
  shows "User_ID user \<in> user_ids (Tx_db tx')"
  using GetUser_rows [OF assms] user_rows_ids by fastforce

lemma GetUser_id:
  assumes "GetUser E key tx = (Ok user, tx')" and "key \<noteq> 0"
  shows "User_ID user = key"
  using GetUser_rows(1) [OF assms(1)] assms(2)
  by (auto simp: user_rows_def select_users_def dest!: user_join_row_fst)

lemma Register_user:
  assumes "Register E username password email inviteCode tx = (Ok (user, token), tx')"
  shows "User_ID user \<in> user_ids (Tx_db tx')"
  using assms unfolding Register_def Let_def
  by (auto elim!: and_then_OkE dest!: with_code_Ok dest: GetUser_exists)

text \<open>The engine never refuses a \<^verbatim>\<open>COMMIT\<close>.\<close>

definition commits :: "Env \<Rightarrow> bool" where
  "commits E \<longleftrightarrow> (\<forall>t. \<not> Env_commit_error E t)"

text \<open>What a successful login does: one connection gets the identity of a user that exists.\<close>

definition signs_in :: "Env \<Rightarrow> nat \<Rightarrow> World \<Rightarrow> World \<Rightarrow> bool" where
  "signs_in E cid w w' \<longleftrightarrow>
     (db_ok (W_db w) \<longrightarrow> db_ok (W_db w') \<and> user_ids (W_db w) \<subseteq> user_ids (W_db w') \<and>
        (commits E \<longrightarrow> Conn_userID (conn_of w' cid) \<in> user_ids (W_db w'))) \<and>
     (pending_ok (W_gw w) \<longrightarrow> pending_ok (W_gw w')) \<and>
     (list_all typed_task (W_tasks w) \<longrightarrow> list_all typed_task (W_tasks w')) \<and>
     (\<exists>out. W_out w' = W_out w @ out \<and> answers cid out) \<and> wired w w' \<and>
     Conn_queue (conn_of w' cid) = Conn_queue (conn_of w cid) \<and>
     (\<forall>k. k \<noteq> cid \<longrightarrow> identity (conn_of w' k) = identity (conn_of w k))"

lemma OnAuthentication_fields [simp]:
  "W_db (OnAuthentication E uid token cid w) = W_db w"
  "W_out (OnAuthentication E uid token cid w) = W_out w"
  "wired v (OnAuthentication E uid token cid w) = wired v w"
  "W_tasks (OnAuthentication E uid token cid w) = W_tasks w"
  "Gateway_pending (W_gw (OnAuthentication E uid token cid w)) = Gateway_pending (W_gw w)"
  "conn_of (OnAuthentication E uid token cid w) k = (if k = cid
     then (conn_of w cid)\<lparr>Conn_userID := uid, Conn_token := token,
       Conn_session := GetRandom256 E (W_tick w)\<rparr>
     else conn_of w k)"
  by (simp_all add: OnAuthentication_def AddConnection_def)

lemma OnAuthentication_signs_in:
  assumes "progress cid w w1" and "commits E \<Longrightarrow> db_ok (W_db w) \<Longrightarrow> uid \<in> user_ids (W_db w1)"
  shows "signs_in E cid w (OnAuthentication E uid token cid w1)"
proof -
  have kept: "identity (conn_of w1 k) = identity (conn_of w k)" for k
    using assms(1) by (simp add: progress_def conns_kept_def)
  then have "Conn_queue (conn_of w1 cid) = Conn_queue (conn_of w cid)"
    by (simp add: identity_def)
  moreover have "pending_ok (W_gw (OnAuthentication E uid token cid w1)) = pending_ok (W_gw w1)"
    by (simp add: pending_ok_def)
  moreover have "db_ok (W_db w) \<longrightarrow> db_ok (W_db w1) \<and> user_ids (W_db w) \<subseteq> user_ids (W_db w1)"
    "pending_ok (W_gw w) \<longrightarrow> pending_ok (W_gw w1)"
    "list_all typed_task (W_tasks w) \<longrightarrow> list_all typed_task (W_tasks w1)"
    "\<exists>out. W_out w1 = W_out w @ out \<and> answers cid out" "wired w w1"
    using assms(1) by (simp_all add: progress_def)
  ultimately show ?thesis
    using kept assms(2) unfolding signs_in_def by simp
qed

lemma signs_in_then:
  assumes "signs_in E cid w w1" and "progress cid w1 w2"
  shows "signs_in E cid w w2"
proof -
  have same: "identity (conn_of w2 k) = identity (conn_of w1 k)" for k
    using assms(2) by (simp add: progress_def conns_kept_def)
  then have fields: "Conn_userID (conn_of w2 k) = Conn_userID (conn_of w1 k)"
    "Conn_queue (conn_of w2 k) = Conn_queue (conn_of w1 k)" for k
    by (simp_all add: identity_def)
  have db: "db_ok (W_db w1) \<Longrightarrow> db_ok (W_db w2)"
    "db_ok (W_db w1) \<Longrightarrow> user_ids (W_db w1) \<subseteq> user_ids (W_db w2)"
    and pending: "pending_ok (W_gw w1) \<Longrightarrow> pending_ok (W_gw w2)"
    and tasks: "list_all typed_task (W_tasks w1) \<Longrightarrow> list_all typed_task (W_tasks w2)"
    using assms(2) by (simp_all add: progress_def)
  obtain xs ys where "W_out w1 = W_out w @ xs" "answers cid xs"
      "W_out w2 = W_out w1 @ ys" "answers cid ys"
    using assms unfolding progress_def signs_in_def by blast
  then have "\<exists>out. W_out w2 = W_out w @ out \<and> answers cid out"
    by (intro exI [of _ "xs @ ys"]) simp
  moreover have "wired w w2"
    using assms unfolding progress_def signs_in_def by (blast intro: wired_trans)
  ultimately show ?thesis
    using assms(1) db pending tasks unfolding signs_in_def same fields
    by (meson order_trans subsetD)
qed

lemma idle_signs_in:
  assumes "idle w w1" and "signs_in E cid w1 w2"
  shows "signs_in E cid w w2"
proof -
  have "identity (conn_of w1 k) = identity (conn_of w k)" for k
    using assms(1) by (simp add: idle_def conns_kept_def)
  moreover from this have "Conn_queue (conn_of w1 k) = Conn_queue (conn_of w k)" for k
    by (simp add: identity_def)
  moreover have "W_db w1 = W_db w" "W_gw w1 = W_gw w" "W_out w1 = W_out w" "W_tasks w1 = W_tasks w"
    using assms(1) by (simp_all add: idle_def)
  moreover have "wired w w2"
    using idle_wired(2) [OF assms(1)] assms(2) by (simp add: signs_in_def)
  ultimately show ?thesis using assms(2) unfolding signs_in_def by metis
qed

definition guest_served :: "Env \<Rightarrow> nat \<Rightarrow> World \<Rightarrow> World \<Rightarrow> bool" where
  "guest_served E cid w w' \<longleftrightarrow> served cid w w' \<or> signs_in E cid w w'"

lemma TryAuthenticate_guest: "guest_served E cid w (TryAuthenticate E token cid w)"
proof -
  let ?r = "Authenticate E token (Start (begin_tx w))"
  obtain x tx where r: "?r = (x, tx)" by (cases ?r)
  have tx: "in_tx w tx"
    using open_tx.R_Authenticate [of "Start (begin_tx w)" E token] r
    by (simp add: extends_tx_def)
  show ?thesis
  proof (cases x)
    case (Ok uid)
    have "W_db w = Tx_db (Start (begin_tx w))" using reading_begin(1) [of w]
      by (simp add: reading_def)
    with Ok r have "db_ok (W_db w) \<Longrightarrow> uid \<in> user_ids (W_db w)"
      by (metis Authenticate_user)
    moreover have "progress cid w (end_tx E False tx w)" using tx by (rule progress_commit)
    ultimately show ?thesis
      using Ok r OnAuthentication_signs_in [of cid w "end_tx E False tx w" E uid token]
      by (auto simp: TryAuthenticate_def guest_served_def progress_def)
  next
    case (Err e)
    with r tx show ?thesis
      by (simp add: TryAuthenticate_def guest_served_def served_HandleError idle_rollback)
  next
    case Panic
    with r show ?thesis by (simp add: TryAuthenticate_def guest_served_def)
  qed
qed

lemma captcha_idle: "idle w (snd (hCaptchaVerify E response site secret w))"
  by (simp add: hCaptchaVerify_def Let_def idle_def conns_kept_def conn_of_def tick_world_def)

lemma with_captcha_guest:
  assumes "reading w tx"
    and "\<And>w1 tx1. idle w w1 \<Longrightarrow> reading w1 tx1 \<Longrightarrow> guest_served E cid w1 (k w1 tx1)"
  shows "guest_served E cid w (with_captcha E needed response settings cid w tx k)"
proof (cases needed)
  case True
  let ?w = "w\<lparr>W_tick := Tx_tick tx\<rparr>"
  obtain x w1 where r: "hCaptchaVerify E response (Settings_CaptchaSiteKey settings)
      (Settings_CaptchaSecretKey settings) ?w = (x, w1)" by fastforce
  have "idle w ?w" by (simp add: idle_def conns_kept_same)
  with captcha_idle [of ?w E response] r have w1: "idle w w1"
    by (metis idle_trans snd_conv)
  then have "reading w1 (tx\<lparr>Tx_tick := t\<rparr>)" for t
    using assms(1) by (simp add: reading_def in_tx_def idle_def)
  with w1 assms(2) have "guest_served E cid w (k w1 (tx\<lparr>Tx_tick := W_tick w1\<rparr>))"
    unfolding guest_served_def by (meson idle_served idle_signs_in)
  moreover have "served cid w (HandleError e cid (leak_tx tx' w1))" for e tx'
    by (intro served_HandleError idle_trans [OF w1 idle_leak])
  moreover have "served cid w (panic_tx cid tx' w1)" for tx'
    by (intro idle_to_served idle_trans [OF w1 idle_panic_tx])
  ultimately show ?thesis
    using True r by (cases x) (simp_all add: with_captcha_def guest_served_def)
next
  case False
  with assms show ?thesis by (simp add: with_captcha_def)
qed

lemma guest_decoded:
  "(\<And>req. guest_served E cid w (f req)) \<Longrightarrow> guest_served E cid w (decoded cid w r f)"
  by (cases r) (simp_all add: guest_served_def served_HandleError)

lemma served_guest: "served cid w w' \<Longrightarrow> guest_served E cid w w'"
  by (simp add: guest_served_def)

text \<open>A call of a guest's handler: the rules for calls, with the result at hand.\<close>

lemma tx_call_guest:
  assumes "extends_tx tx (snd r)" and "in_tx w tx"
    and "\<And>e tx'. in_tx w tx' \<Longrightarrow> served cid w (h e tx')"
    and "\<And>x tx'. r = (Ok x, tx') \<Longrightarrow> in_tx w tx' \<Longrightarrow> guest_served E cid w (f x tx')"
  shows "guest_served E cid w (tx_call k w r h f)"
proof -
  obtain x tx' where r: "r = (x, tx')" by (cases r)
  with assms(1,2) have "in_tx w tx'" by (simp add: extends_tx_def)
  with r assms(3,4) show ?thesis by (cases x) (simp_all add: served_guest)
qed

lemma settings_guest:
  assumes "\<And>settings tx. reading w tx \<Longrightarrow> guest_served E cid w (f settings tx)"
  shows "guest_served E cid w (tx_call cid w (GetSettings E (Start (begin_tx w)))
    (\<lambda>e tx. refuse E True e cid w tx) f)"
proof -
  let ?r = "GetSettings E (Start (begin_tx w))"
  have "reading w (snd ?r)"
    using read_tx.R_GetSettings [of "Start (begin_tx w)" E] by (simp add: reads_tx_def)
  then show ?thesis
    using assms by (intro tx_call_guest [OF open_tx.R_GetSettings])
      (auto intro: served_refuse)
qed

lemma Login_guest: "guest_served E cid w (HandleLoginRequest E cid msg w)"
proof -
  have login: "guest_served E cid v (tx_call cid v (Login E u p tx)
      (\<lambda>e tx. refuse E True e cid v tx)
      (\<lambda>(uid, token) tx. Write (token_event token) cid
        (OnAuthentication E uid token cid (end_tx E False tx v))))"
    if "reading v tx" for v u p tx
  proof (rule tx_call_guest [OF open_tx.R_Login reading_in_tx [OF that] served_refuse])
    fix x tx' assume ok: "Login E u p tx = (Ok x, tx')" and tx': "in_tx v tx'"
    obtain uid token where x: "x = (uid, token)" by (cases x)
    from ok x that have "uid \<in> user_ids (W_db v)"
      by (metis Login_user reading_def)
    moreover have prog: "progress cid v (end_tx E False tx' v)" using tx' by (rule progress_commit)
    ultimately have "signs_in E cid v (OnAuthentication E uid token cid (end_tx E False tx' v))"
      by (intro OnAuthentication_signs_in [OF prog]) (auto simp: progress_def)
    moreover have "progress cid v1 (Write (token_event token) cid v1)" for v1
      by (rule progress_Write) (simp add: token_event_def event_type_defs)
    ultimately have "signs_in E cid v (Write (token_event token) cid
        (OnAuthentication E uid token cid (end_tx E False tx' v)))"
      by (rule signs_in_then)
    then show "guest_served E cid v ((\<lambda>(uid, token) tx. Write (token_event token) cid
        (OnAuthentication E uid token cid (end_tx E False tx v))) x tx')"
      by (simp add: guest_served_def x)
  qed
  show ?thesis
    unfolding HandleLoginRequest_def
    by (intro guest_decoded settings_guest with_captcha_guest login; assumption)
qed

lemma Register_guest: "guest_served E cid w (HandleRegisterRequest E cid msg w)"
proof -
  define finish where "finish v user token tx =
      (let v = end_tx E False tx v;
           v = set_index (snd (index_AddUser user (W_index v))) v;
           v = OnAuthentication E (User_ID user) token cid v
       in OnUserAdd user (Write (token_event token) cid v))" for v user token tx
  have register: "guest_served E cid v (tx_call cid v (Register E u p em code tx)
      (\<lambda>e tx. refuse E True e cid v tx) (\<lambda>(user, token) tx. finish v user token tx))"
    if "reading v tx" for v u p em code tx
  proof (rule tx_call_guest [OF open_tx.R_Register reading_in_tx [OF that] served_refuse])
    fix x tx' assume ok: "Register E u p em code tx = (Ok x, tx')" and tx': "in_tx v tx'"
    obtain user token where x: "x = (user, token)" by (cases x)
    let ?v = "end_tx E False tx' v"
    let ?v = "set_index (snd (index_AddUser user (W_index ?v))) ?v"
    have prog: "progress cid v ?v" by (intro progress_intros tx')
    have "commits E \<Longrightarrow> W_db ?v = Tx_db tx'"
      using tx' by (simp add: set_index_def W_db_end_tx commits_def)
    with ok x have "signs_in E cid v (OnAuthentication E (User_ID user) token cid ?v)"
      by (intro OnAuthentication_signs_in [OF prog]) (metis Register_user)
    moreover have "progress cid v1 (OnUserAdd user (Write (token_event token) cid v1))" for v1
      unfolding relay_defs
      by (intro progress_steps progress_Write) (simp_all add: token_event_def event_type_defs)
    ultimately have "signs_in E cid v (OnUserAdd user (Write (token_event token) cid
        (OnAuthentication E (User_ID user) token cid ?v)))"
      by (rule signs_in_then)
    then show "guest_served E cid v ((\<lambda>(user, token) tx. finish v user token tx) x tx')"
      by (simp add: guest_served_def x finish_def Let_def)
  qed
  show ?thesis
    unfolding HandleRegisterRequest_def
    by (intro guest_decoded settings_guest with_captcha_guest register [unfolded finish_def];
        assumption)
qed

lemma process_guest_served: "guest_served E cid w (process_guest E cid msg w)"
  by (simp add: process_guest_def Let_def Login_guest Register_guest served_guest
      served_HandleError)

section \<open>The invariants\<close>

text \<open>Every event that was written, is queued or waits to be relayed has the payload of its type.\<close>

definition typed_world :: "World \<Rightarrow> bool" where
  "typed_world w \<longleftrightarrow> list_all (typed \<circ> snd) (W_out w) \<and> list_all typed_task (W_tasks w) \<and>
     (\<forall>k. list_all typed (Conn_queue (conn_of w k)))"

definition world_ok :: "World \<Rightarrow> bool" where
  "world_ok w \<longleftrightarrow> db_ok (W_db w) \<and> pending_ok (W_gw w) \<and> typed_world w \<and>
     (\<forall>k. length (Conn_queue (conn_of w k)) \<le> queue_capacity)"

definition users_exist :: "World \<Rightarrow> bool" where
  "users_exist w \<longleftrightarrow> (\<forall>k. Conn_userID (conn_of w k) \<noteq> 0 \<longrightarrow>
     Conn_userID (conn_of w k) \<in> user_ids (W_db w))"

definition world_inv :: "Env \<Rightarrow> World \<Rightarrow> bool" where
  "world_inv E w \<longleftrightarrow> world_ok w \<and> (commits E \<longrightarrow> users_exist w)"

lemmas world_inv_defs = world_inv_def world_ok_def users_exist_def typed_world_def

lemma identityD:
  assumes "conns_kept w w'"
  shows "Conn_queue (conn_of w' k) = Conn_queue (conn_of w k)"
    and "Conn_userID (conn_of w' k) = Conn_userID (conn_of w k)"
    and "Conn_token (conn_of w' k) = Conn_token (conn_of w k)"
  using assms by (simp_all add: conns_kept_def identity_def)

lemma typed_answers: "answers cid out \<Longrightarrow> list_all (typed \<circ> snd) out"
  by (auto simp: answers_def plain_def list_all_iff)

lemma served_world_inv: "served cid w w' \<Longrightarrow> world_inv E w \<Longrightarrow> world_inv E w'"
  unfolding served_def refused_def progress_def world_inv_defs
  by (auto simp: identityD typed_answers)

lemma progress_world_inv: "progress cid w w' \<Longrightarrow> world_inv E w \<Longrightarrow> world_inv E w'"
  by (rule served_world_inv [OF progress_served])

lemma signs_in_world_inv:
  assumes "signs_in E cid w w'" and "world_inv E w"
  shows "world_inv E w'"
proof -
  have "Conn_queue (conn_of w' k) = Conn_queue (conn_of w k)"
    and "k \<noteq> cid \<Longrightarrow> Conn_userID (conn_of w' k) = Conn_userID (conn_of w k)" for k
    using assms(1) by (cases "k = cid"; force simp: signs_in_def identity_def)+
  with assms show ?thesis
    unfolding world_inv_defs signs_in_def by (auto simp: typed_answers; metis subsetD)
qed

lemma guest_world_inv: "guest_served E cid w w' \<Longrightarrow> world_inv E w \<Longrightarrow> world_inv E w'"
  unfolding guest_served_def using served_world_inv signs_in_world_inv by blast

section \<open>Every step keeps the invariants\<close>

lemma Introduction_inv:
  assumes "world_inv E w"
  shows "world_inv E (Introduction E visit token cid w)"
proof -
  have "world_inv E (TryAuthenticate E token cid v)" if "world_inv E v" for v
    using guest_world_inv [OF TryAuthenticate_guest that] .
  moreover have "world_inv E (HandleSettingsRequest E cid v)" if "world_inv E v" for v
    using served_world_inv [OF served_settings that] .
  moreover have "world_inv E (HandleOverviewRequest E visit cid v)" if "world_inv E v" for v
    using progress_world_inv [OF overview_progress that] .
  ultimately show ?thesis using assms by (simp add: Introduction_def Let_def)
qed

lemma open_connection_inv: "world_inv E w \<Longrightarrow> world_inv E (open_connection E cid w)"
  by (simp add: open_connection_def world_inv_defs
      new_connection_def)

lemma note_request_inv: "world_inv E w \<Longrightarrow> world_inv E (note_request msg cid w)"
  by (simp add: note_request_def world_inv_defs)

lemma Process_inv:
  assumes "world_inv E w"
  shows "world_inv E (Process E visit frame cid w)"
proof -
  have "world_inv E (set_conn cid (\<lambda>c. c\<lparr>Conn_closing := True\<rparr>) w)"
    using assms by (simp add: world_inv_defs)
  then show ?thesis
    using note_request_inv [OF assms]
    by (auto simp: Process_def Let_def split: option.split
        intro: guest_world_inv [OF process_guest_served] served_world_inv [OF process_member_served])
qed

lemma ReadFiles_keeps:
  assumes "\<And>raw content s. P s \<Longrightarrow> P (snd (callback raw content s))" and "P s"
  shows "P (snd (ReadFiles callback raw metadata parts s))"
  using assms(2)
proof (induction parts arbitrary: raw metadata s)
  case (Cons part parts)
  show ?case
  proof (cases part)
    case (FilePart content)
    let ?r = "callback raw (take (nat (FileMetadata_Size metadata)) content) s"
    have "P (snd ?r)" using assms(1) Cons.prems by blast
    with FilePart Cons.IH show ?thesis
      by (cases ?r; cases "fst ?r") auto
  qed (use Cons in \<open>auto split: option.split\<close>)
qed simp

lemma panicked_inv [simp]: "world_inv E (w\<lparr>W_panicked := ps\<rparr>) = world_inv E w"
  by (simp add: world_inv_defs conn_of_def)

lemma upload_result_inv: "world_inv E w' \<Longrightarrow> world_inv E (snd (upload_result w w'))"
  by (simp add: upload_result_def)

lemma idle_world_inv: "idle w w' \<Longrightarrow> world_inv E w \<Longrightarrow> world_inv E w'"
  by (rule served_world_inv [OF idle_to_served])

lemma attach_file_idle:
  "idle w (snd s) \<Longrightarrow> idle w (snd (snd (attach_file E store_file raw content s)))"
  by (cases s) (auto simp: attach_file_def intro: idle_trans [OF _ idle_tick_world]
      split: option.split go_result.split)

lemma MessageSendUpload_served:
  "served cid w (HandleMessageSendUpload E store_file message pending parts cid w)"
proof -
  let ?m = "message\<lparr>Message_ID := Env_generate E (W_tick w)\<rparr>"
  let ?r = "ReadFiles (attach_file E store_file) None FileMetadata_zero parts (?m, tick_world w)"
  obtain x m v where r: "?r = (x, (m, v))" by (metis surj_pair)
  have "idle w (snd (snd ?r))"
    by (rule ReadFiles_keeps [where P = "\<lambda>s. idle w (snd s)"]) (simp_all add: attach_file_idle)
  then have v: "idle w v" by (simp add: r)
  show ?thesis
    unfolding HandleMessageSendUpload_def Let_def r
    by (cases x) (auto intro: idle_served [OF v FinalizeMessageSend_served]
        served_HandleError [OF v] idle_to_served idle_trans [OF v idle_panic])
qed

lemma UserUpdateUpload_inv:
  assumes "world_inv E w"
  shows "world_inv E (HandleUserUpdateUpload E visit store_avatar req pending parts cid w)"
proof -
  have finish: "world_inv E (FinalizeUserUpdateRequest E visit r cid v)"
    if "world_inv E v" for r v
    using served_world_inv [OF FinalizeUserUpdate_served that] .
  have kept: "world_inv E (snd (ReadFiles (\<lambda>raw content w. (case f content of Panic \<Rightarrow> (Panic, w)
      | _ \<Rightarrow> (Ok (), w))) None FileMetadata_zero parts (tick_world w)))"
    for f :: "string \<Rightarrow> unit go_result"
    by (rule ReadFiles_keeps)
      (auto split: go_result.split intro: idle_world_inv [OF idle_tick_world assms])
  have err: "world_inv E (HandleError e cid v)" if "world_inv E v" for e v
    using served_world_inv [OF served_HandleError [OF idle_refl] that] .
  have pan: "world_inv E (panic cid v)" if "world_inv E v" for v
    using idle_world_inv [OF idle_panic that] .
  show ?thesis
    using kept [of "store_avatar (UserUpdateRequest_UserID req) (Env_now E (W_tick w))"]
    unfolding HandleUserUpdateUpload_def Let_def
    by (auto split: prod.split go_result.split intro!: finish err pan)
qed

lemma PopPendingRequest_inv:
  "world_inv E w \<Longrightarrow> world_inv E (snd (PopPendingRequest slot w))"
  by (auto simp: PopPendingRequest_def world_inv_defs pending_ok_def
      split: option.split)

lemma HandleGatewayUpload_inv:
  assumes "world_inv E w"
  shows "world_inv E (snd (HandleGatewayUpload E visit store_file store_avatar slot parts w))"
proof -
  obtain p v where r: "PopPendingRequest slot w = (p, v)" by fastforce
  with PopPendingRequest_inv [OF assms, of slot] have v: "world_inv E v" by simp
  show ?thesis
    unfolding HandleGatewayUpload_def r
    using v served_world_inv [OF MessageSendUpload_served v] UserUpdateUpload_inv [OF v]
    by (auto split: option.split RequestData.split intro!: upload_result_inv)
qed

lemma fold_keeps: "(\<And>x v. P v \<Longrightarrow> P (f x v)) \<Longrightarrow> P w \<Longrightarrow> P (fold f xs w)"
  by (induction xs arbitrary: w) auto

lemma conn_Relay_inv: "typed ev \<Longrightarrow> world_inv E w \<Longrightarrow> world_inv E (conn_Relay ev cid w)"
  by (auto simp: conn_Relay_def Let_def world_inv_defs)

lemma relay_to_viewer_inv: "typed ev \<Longrightarrow> world_inv E w \<Longrightarrow> world_inv E (relay_to_viewer ev ch cid w)"
  by (simp add: relay_to_viewer_def Let_def conn_Relay_inv)

lemma run_Relay_inv: "typed ev \<Longrightarrow> world_inv E w \<Longrightarrow> world_inv E (run_Relay visit ev w)"
  unfolding run_Relay_def Let_def
  by (erule fold_keeps [rotated]) (simp add: conn_Relay_inv split: option.split)

lemma run_RelayByChannel_inv: "typed ev \<Longrightarrow> world_inv E w \<Longrightarrow> world_inv E (run_RelayByChannel visit ev ch w)"
  unfolding run_RelayByChannel_def Let_def
  by (erule fold_keeps [rotated]) (simp add: relay_to_viewer_inv split: option.split)

lemma set_index_inv: "world_inv E w \<Longrightarrow> world_inv E (set_index ix w)"
  by (rule progress_world_inv [OF progress_set_index])

lemma push_to_inv: "world_inv E w \<Longrightarrow> world_inv E (push_to changes cid w)"
  by (auto simp: push_to_def Let_def event_type_defs
      intro: progress_world_inv [OF progress_Write])

lemma push_changes_inv: "world_inv E w \<Longrightarrow> world_inv E (push_changes visit w)"
  unfolding push_changes_def Let_def
  by (auto split: prod.split option.split intro!: fold_keeps [where P = "world_inv E"] set_index_inv push_to_inv)

lemma drain_inv: "world_inv E w \<Longrightarrow> world_inv E (drain cid w)"
proof (cases "Conn_queue (conn_of w cid)")
  case (Cons ev evs)
  moreover assume inv: "world_inv E w"
  moreover from inv Cons have "Suc (length evs) \<le> queue_capacity"
    unfolding world_inv_def world_ok_def by (metis length_Cons)
  moreover from inv have "list_all typed (Conn_queue (conn_of w cid))"
    by (simp add: world_inv_defs)
  ultimately show ?thesis
    by (simp add: drain_def WriteUnsolicited_def world_inv_defs)
qed (simp add: drain_def)

lemma run_task_inv:
  assumes "world_inv E w" and "typed_task task" and "run_task E get_embed visit task w = Some w'"
  shows "world_inv E w'"
  using assms(2,3) served_world_inv [OF TryEmbedURLs_served assms(1)]
    run_Relay_inv [OF _ assms(1)] run_RelayByChannel_inv [OF _ assms(1)]
  by (auto simp: run_task_def Let_def split: Task.splits if_splits)

lemma tasks_inv:
  assumes "world_inv E w" and "W_tasks w = before @ task # after"
  shows "typed_task task" and "world_inv E (w\<lparr>W_tasks := before @ after\<rparr>)"
  using assms by (simp_all add: world_inv_defs conn_of_def)

lemma refresh_inv:
  "world_inv E w \<Longrightarrow> refresh_user_list visit w = Some w' \<Longrightarrow> world_inv E w'"
  by (auto simp: refresh_user_list_def set_index_inv split: if_splits)

lemma shut_socket_inv: "world_inv E w \<Longrightarrow> world_inv E (shut_socket cid w)"
  by (simp add: world_inv_defs)

lemma step_inv: "step E w w' \<Longrightarrow> world_inv E w \<Longrightarrow> world_inv E w'"
proof (induction rule: step.induct)
  case (step_upload visit store_file store_avatar slotID parts w r w')
  then show ?case by (metis HandleGatewayUpload_inv snd_conv)
next
  case (step_task w before task after visit get_embed w')
  then show ?case by (metis run_task_inv tasks_inv)
qed (simp_all add: Introduction_inv open_connection_inv Process_inv refresh_inv push_changes_inv
    drain_inv shut_socket_inv)

lemma or_panic_OkE:
  assumes "or_panic r f = (Ok y, t)"
  obtains x s where "r = (Ok x, s)" and "f x s = (Ok y, t)"
  using assms by (cases r; cases "fst r") (auto simp: or_panic_def)

lemma Build_tables:
  assumes "Build E visit ix tx = (Ok ix', tx')" and "Tx_commit tx = None"
  shows "Tx_db tx' = Tx_db tx"
proof -
  obtain ix1 where "PopulateIndex E ix tx = (Ok ix1, tx')"
    using assms(1) unfolding Build_def by (auto elim!: and_then_OkE split: option.splits)
  then obtain r1 t1 r2 t2 r3 t3 r4 t4 where calls:
      "GetSettings E (Start tx) = (r1, t1)" "GetAllRoles E t1 = (r2, t2)"
      "GetAllChannels E t2 = (r3, t3)" "GetAllUsers E t3 = (r4, t4)"
    and tx': "tx' = Commit E False t4"
    unfolding PopulateIndex_def by (auto elim!: or_panic_OkE)
  have "same_tables (Start tx) t1" "same_tables t1 t2" "same_tables t2 t3" "same_tables t3 t4"
    using reads.R_GetSettings [of "Start tx" E] reads.R_GetAllRoles [of t1 E]
      reads.R_GetAllChannels [of t2 E] reads.R_GetAllUsers [of t3 E] by (simp_all add: calls)
  then have "Tx_db t4 = Tx_db tx" "Tx_commit t4 = Some (Tx_db tx)"
    using assms(2) by (simp_all add: same_tables_def same_scope_def Start_def)
  then show ?thesis by (simp add: tx' Commit_def UpdateLastWrite_def Let_def)
qed

lemma StartGateway_inv:
  assumes "db_ok db" and "StartGateway E visit (initial_world db t started) = Some w"
  shows "world_inv E w"
proof -
  obtain ix tx where b: "Build E visit Index_empty (begin_tx (initial_world db t started)) = (Ok ix, tx)"
    and w: "w = set_index ix (store_tx tx (initial_world db t started))"
    using assms(2) unfolding StartGateway_def
    by (auto simp: initial_world_def split: prod.splits go_result.splits)
  from Build_tables [OF b] have "Tx_db tx = db"
    by (simp add: begin_tx_def NewTransaction_def initial_world_def)
  then show ?thesis
    using assms(1) by (simp add: w store_tx_def initial_world_def set_index_def world_inv_defs
        pending_ok_def conn_of_def Connection_zero_def)
qed

theorem reachable_inv: "reachable E w \<Longrightarrow> world_inv E w"
  by (induction rule: reachable.induct) (blast intro: StartGateway_inv step_inv)+

end
