(* ===== verification/Authorization.thy ===== *)
theory Authorization
  imports Reachability
begin

text \<open>
  What the handlers check before they change anything, when the engine does not fail: the
  permissions that the store computes are those that the tables grant (\<open>permits\<close>), ranks are the
  least position of a user's roles, and a message is looked up by its id.
\<close>

section \<open>Results of the reads of a handler\<close>

lemma begin_tx_fields [simp]:
  "Tx_db (begin_tx w) = W_db w" "Tx_commit (begin_tx w) = None"
  "Tx_isWrite (begin_tx w) = False" "Tx_tick (begin_tx w) = W_tick w"
  "Tx_db (Start (begin_tx w)) = W_db w" "Tx_commit (Start (begin_tx w)) = Some (W_db w)"
  "tx_open (begin_tx w)" "tx_open (Start (begin_tx w))" "Tx_isWrite (Start (begin_tx w)) = False"
  "Tx_tick (Start (begin_tx w)) = W_tick w"
  by (simp_all add: Start_def begin_tx_def NewTransaction_def tx_open_def)

lemma reading_open: "reading w tx \<Longrightarrow> tx_open tx"
  by (simp add: reading_def in_tx_def tx_open_def)

lemma reading_tables: "reading w tx \<Longrightarrow> Tx_db tx = W_db w"
  by (simp add: reading_def)

lemma reading_call: "reads_tx tx (snd r) \<Longrightarrow> reading w tx \<Longrightarrow> r = (x, tx') \<Longrightarrow> reading w tx'"
  by (simp add: reads_tx_def)

text \<open>The user of a request and the tables it meets.\<close>

definition orderly :: "Env \<Rightarrow> World \<Rightarrow> snowflake \<Rightarrow> bool" where
  "orderly E w uid \<longleftrightarrow> reliable E \<and> db_ok (W_db w) \<and> ids_ok (W_db w) \<and>
     DB_settings (W_db w) \<noteq> None \<and> uid \<in> user_ids (W_db w)"

lemma user_row_exists: "uid \<in> user_ids db \<Longrightarrow> \<exists>u. user_row db uid = Some u"
  by (cases "user_row db uid") (auto simp: user_row_def find_None_iff)

lemma channel_permissions_exact:
  assumes "reliable E" and "tx_open tx" and "db_ok (Tx_db tx)" and "ids_ok (Tx_db tx)"
    and "DB_settings (Tx_db tx) \<noteq> None" and "uid \<in> user_ids (Tx_db tx)"
  shows "\<exists>p tx'. GetPermissionsByChannel E uid ch tx = (Ok p, tx') \<and>
    (\<forall>n < 64. bit p n \<longleftrightarrow> permits (Tx_db tx) uid ch n)"
proof -
  obtain s where s: "DB_settings (Tx_db tx) = Some s" using assms(5) by blast
  obtain u where u: "user_row (Tx_db tx) uid = Some u" using user_row_exists [OF assms(6)] by blast
  obtain p tx' where r: "GetPermissionsByChannel E uid ch tx = (p, tx')" by fastforce
  then show ?thesis
    using GetPermissionsByChannel_result [OF assms(1-4) s u, of ch]
      permits_masked [OF assms(3,4) s, of _ uid ch] by auto
qed

lemma channel_permission_check:
  assumes "orderly E w uid" and "reading w tx"
  obtains p tx' where "GetPermissionsByChannel E uid ch tx = (Ok p, tx')" and "reading w tx'"
    and "\<And>n. n < 64 \<Longrightarrow> has_perm p (perm_bit n) \<longleftrightarrow> permits (W_db w) uid ch n"
proof -
  have db: "Tx_db tx = W_db w" using assms(2) by (rule reading_tables)
  obtain p tx' where r: "GetPermissionsByChannel E uid ch tx = (Ok p, tx')"
    and p: "\<forall>n < 64. bit p n \<longleftrightarrow> permits (W_db w) uid ch n"
    using channel_permissions_exact [of E tx uid ch] assms(1) reading_open [OF assms(2)]
    by (auto simp: orderly_def db)
  moreover have "reading w tx'"
    by (rule reading_call [OF read_tx.R_GetPermissionsByChannel assms(2) r])
  ultimately show thesis by (intro that) (auto simp: has_perm_bit)
qed

lemma user_permission_check:
  assumes "orderly E w uid" and "reading w tx"
  obtains p tx' where "user_perms E uid tx = (Ok p, tx')" and "reading w tx'"
    and "\<And>n. n < 64 \<Longrightarrow> has_perm p (perm_bit n) \<longleftrightarrow> base_grants (W_db w) uid n"
proof -
  have db: "Tx_db tx = W_db w" using assms(2) by (rule reading_tables)
  have uid: "uid \<noteq> 0" using assms(1) ids_ok_zero unfolding orderly_def by metis
  obtain s u where s: "DB_settings (W_db w) = Some s" and u: "user_row (W_db w) uid = Some u"
    using assms(1) user_row_exists [of uid "W_db w"] unfolding orderly_def by blast
  have ok: "reliable E" "db_ok (W_db w)" "ids_ok (W_db w)"
    using assms(1) by (simp_all add: orderly_def)
  obtain t where r: "user_perms E uid tx = (Ok (base_permissions (W_db w) s uid), tx\<lparr>Tx_tick := t\<rparr>)"
    using GetPermissionsByUser_result [of E tx s uid u] reading_open [OF assms(2)] ok s u uid
    by (auto simp: db user_perms_def)
  show thesis
  proof (rule that [OF r])
    show "reading w (tx\<lparr>Tx_tick := t\<rparr>)" by (rule reading_call [OF user_perms_frames(2) assms(2) r])
    show "has_perm (base_permissions (W_db w) s uid) (perm_bit n) \<longleftrightarrow> base_grants (W_db w) uid n"
      if "n < 64" for n
      using bit_base_permissions [OF _ s that] ok that
      by (simp add: has_perm_bit db_ok_def)
  qed
qed

section \<open>Looking a message up\<close>

definition message_row :: "Database \<Rightarrow> snowflake \<Rightarrow> MessageRow option" where
  "message_row db mid = List.find (\<lambda>m. MessageRow_id m = mid) (DB_messages db)"

lemma message_row_iff:
  "keys_ok db \<Longrightarrow> message_row db mid = Some m \<longleftrightarrow> m \<in> set (DB_messages db) \<and> MessageRow_id m = mid"
  unfolding message_row_def keys_ok_def by (intro find_key_iff) simp

lemma filter_find:
  assumes "distinct (map f xs)"
  shows "filter (\<lambda>x. f x = k) xs = (case List.find (\<lambda>x. f x = k) xs of None \<Rightarrow> [] | Some x \<Rightarrow> [x])"
proof (cases "List.find (\<lambda>x. f x = k) xs")
  case (Some x)
  then have "x \<in> set xs" "f x = k" by (auto dest: find_SomeD)
  then show ?thesis using filter_unique_key [OF assms, of x] Some by auto
next
  case None
  then have "filter (\<lambda>x. f x = k) xs = []" by (simp add: find_None_iff_filter)
  with None show ?thesis by simp
qed

lemma GetMessage_result:
  assumes "reliable E" and "tx_open tx" and "keys_ok (Tx_db tx)"
  shows "GetMessage E mid tx =
    (case message_row (Tx_db tx) mid of
       None \<Rightarrow> (Err Uncoded, next_tick tx)
     | Some m \<Rightarrow> (if embeds_decode (Tx_db tx) mid then Ok (message_of_row (Tx_db tx) m)
                   else Err Uncoded, next_tick tx))"
proof -
  have "filter (\<lambda>m. MessageRow_id m = mid) (DB_messages (Tx_db tx)) =
      (case message_row (Tx_db tx) mid of None \<Rightarrow> [] | Some m \<Rightarrow> [m])"
    using assms(3) unfolding message_row_def by (intro filter_find) (simp add: keys_ok_def)
  moreover have "MessageRow_id m = mid" if "message_row (Tx_db tx) mid = Some m" for m
    using that assms(3) by (simp add: message_row_iff)
  ultimately show ?thesis
    using assms(1,2)
    by (auto simp: GetMessage_def GetMessages_def QueryMessages_def split: option.split)
qed

text \<open>Whatever fails, a message that is found is the row with its id.\<close>

lemma decode_messages_Ok:
  "decode_messages db ms rows = Ok ms' \<Longrightarrow> ms' = ms @ map (message_of_row db) rows"
  by (induction db ms rows rule: decode_messages.induct) (auto split: if_splits)

lemma QueryMessages_Ok:
  assumes "QueryMessages E rows tx = (Ok ms, tx')"
  shows "\<exists>k. ms = map (message_of_row (Tx_db tx)) (take k rows) \<and> Tx_db tx' = Tx_db tx"
proof -
  define rows' where "rows' = (case Env_step_error E (Tx_tick tx) of None \<Rightarrow> rows
    | Some k \<Rightarrow> take k rows)"
  have "decode_messages (Tx_db tx) [] rows' = Ok ms" "tx' = next_tick tx"
    using assms by (simp_all add: QueryMessages_def step_rows_while_def rows'_def)
  then have "ms = map (message_of_row (Tx_db tx)) rows'" "Tx_db tx' = Tx_db tx"
    by (auto dest: decode_messages_Ok)
  moreover have "\<exists>k. rows' = take k rows"
    by (cases "Env_step_error E (Tx_tick tx)")
      (auto simp: rows'_def intro: exI [of _ "length rows"])
  ultimately show ?thesis by blast
qed

lemma GetMessage_Ok:
  assumes "GetMessage E mid tx = (Ok m, tx')"
  shows "\<exists>row \<in> set (DB_messages (Tx_db tx)). MessageRow_id row = mid \<and>
    m = message_of_row (Tx_db tx) row"
proof -
  let ?rows = "filter (\<lambda>m. MessageRow_id m = mid) (DB_messages (Tx_db tx))"
  obtain ms tx1 where "QueryMessages E ?rows tx = (Ok (m # ms), tx1)"
    using assms unfolding GetMessage_def GetMessages_def
    by (auto elim!: and_then_OkE dest!: Prepare_Ok split: list.splits if_splits)
  from QueryMessages_Ok [OF this]
  obtain k where k: "m # ms = map (message_of_row (Tx_db tx)) (take k ?rows)" by (elim exE conjE)
  then obtain row where "row \<in> set (take k ?rows)" "m = message_of_row (Tx_db tx) row"
    by (cases "take k ?rows") auto
  moreover from this(1) have "row \<in> set ?rows" by (rule in_set_takeD)
  ultimately show ?thesis by auto
qed

section \<open>Deleting a message\<close>

lemma DeleteMessage_result:
  assumes "reliable E" and "Tx_commit tx \<noteq> None"
  shows "DeleteMessage E mid tx =
    (Ok (), (next_tick (MarkAsWrite tx))\<lparr>Tx_db := delete_message_row mid (Tx_db tx)\<rparr>)"
  using assms by (simp add: DeleteMessage_def Prepare_def run_write_def)

text \<open>Who may delete a message: its author, and who may manage messages in its channel.\<close>

definition may_delete :: "Database \<Rightarrow> snowflake \<Rightarrow> snowflake \<Rightarrow> bool" where
  "may_delete db uid mid \<longleftrightarrow>
     (case message_row db mid of
        None \<Rightarrow> False
      | Some m \<Rightarrow> embeds_decode db mid \<and>
          (MessageRow_author_id m = uid \<or> permits db uid (MessageRow_channel_id m) 14))"

lemma W_db_committed:
  "reliable E \<Longrightarrow> Tx_commit tx = Some saved \<Longrightarrow> W_db (end_tx E False tx w) = Tx_db tx"
  by (simp add: end_tx_def store_tx_def Commit_def UpdateLastWrite_def Let_def)

lemma refuse_fields [simp]:
  "W_tasks (refuse E failed e cid w tx) = W_tasks w" "W_gw (refuse E failed e cid w tx) = W_gw w"
  by (simp_all add: refuse_def HandleError_def)

lemma W_db_refuse: "in_tx w tx \<Longrightarrow> W_db (refuse E True e cid w tx) = W_db w"
  by (simp add: refuse_def HandleError_def W_db_end_tx)

lemma HandleMessageDeleteRequest_result:
  assumes "orderly E w (Conn_userID (conn_of w cid))"
    and "decode_MessageDeleteRequest (UnknownEvent_Data msg) = Some req"
    and "mid = MessageDeleteRequest_MessageID req"
  defines "w' \<equiv> HandleMessageDeleteRequest E cid msg w"
  shows "if may_delete (W_db w) (Conn_userID (conn_of w cid)) mid
    then W_db w' = delete_message_row mid (W_db w) \<and> W_out w' = W_out w \<and>
      (\<exists>m. message_row (W_db w) mid = Some m \<and> W_tasks w' = W_tasks w @
         [RelayByChannelTask (event EventTypeMessageDelete (MessageDeleteEvent mid))
            (MessageRow_channel_id m)])
    else W_db w' = W_db w \<and> W_tasks w' = W_tasks w \<and>
      (\<exists>ev. is_error ev \<and> W_out w' = W_out w @ [(cid, ev)])"
proof -
  let ?me = "Conn_userID (conn_of w cid)" and ?tx = "Start (begin_tx w)"
  have E: "reliable E" and keys: "keys_ok (W_db w)"
    using assms(1) by (simp_all add: orderly_def db_ok_def)
  have refused: "refused cid w (refuse E True e cid w tx)" if "in_tx w tx" for e tx
    using that by (simp add: refuse_def refused_HandleError idle_rollback)
  show ?thesis
  proof (cases "message_row (W_db w) mid")
    case None
    then have "w' = refuse E True (Coded ErrorCodeInvalidRequest) cid w (next_tick ?tx)"
      using assms(2,3) E keys
      by (simp add: w'_def HandleMessageDeleteRequest_def GetMessage_result)
    then show ?thesis using None refused [of "next_tick ?tx"]
      by (auto simp: may_delete_def refused_def)
  next
    case (Some m)
    let ?ch = "MessageRow_channel_id m"
    have fields: "Message_AuthorID (message_of_row (W_db w) m) = MessageRow_author_id m"
      "Message_ChannelID (message_of_row (W_db w) m) = ?ch"
      by (simp_all add: message_of_row_def)
    have get: "GetMessage E mid ?tx = (if embeds_decode (W_db w) mid
        then Ok (message_of_row (W_db w) m) else Err Uncoded, next_tick ?tx)"
      using E keys Some by (simp add: GetMessage_result)
    define delete where "delete tx = tx_call cid w (DeleteMessage E mid tx)
      (\<lambda>e tx. refuse E True e cid w tx)
      (\<lambda>_ tx. OnMessageDelete mid ?ch (end_tx E False tx w))" for tx
    have deleted: "W_db (delete tx) = delete_message_row mid (W_db w) \<and>
      W_out (delete tx) = W_out w \<and> W_tasks (delete tx) = W_tasks w @
        [RelayByChannelTask (event EventTypeMessageDelete (MessageDeleteEvent mid)) ?ch]"
      if "reading w tx" for tx
    proof -
      have "Tx_commit tx = Some (W_db w)" "Tx_db tx = W_db w"
        using that by (simp_all add: reading_def in_tx_def)
      with E show ?thesis
        by (simp add: delete_def DeleteMessage_result relay_defs W_db_committed)
    qed
    show ?thesis
    proof (cases "embeds_decode (W_db w) mid")
      case False
      then have "w' = refuse E True (Coded ErrorCodeInvalidRequest) cid w (next_tick ?tx)"
        using assms(2,3) get by (simp add: w'_def HandleMessageDeleteRequest_def)
      then show ?thesis using Some False refused [of "next_tick ?tx"]
        by (auto simp: may_delete_def refused_def)
    next
      case True
      show ?thesis
      proof (cases "MessageRow_author_id m = ?me")
        case True
        then have "w' = delete (next_tick ?tx)"
          using assms(2,3) get \<open>embeds_decode (W_db w) mid\<close>
          by (simp add: w'_def HandleMessageDeleteRequest_def fields delete_def Let_def)
        with deleted [of "next_tick ?tx"] True Some \<open>embeds_decode (W_db w) mid\<close> show ?thesis
          by (simp add: may_delete_def)
      next
        case False
        obtain p tx' where r: "GetPermissionsByChannel E ?me ?ch (next_tick ?tx) = (Ok p, tx')"
          and tx': "reading w tx'"
          and p: "\<And>n. n < 64 \<Longrightarrow> has_perm p (perm_bit n) \<longleftrightarrow> permits (W_db w) ?me ?ch n"
          using channel_permission_check [OF assms(1), of "next_tick ?tx"] by auto
        have "w' = (if permits (W_db w) ?me ?ch 14 then delete tx'
            else refuse E True (Coded ErrorCodeNoPermission) cid w tx')"
          using assms(2,3) get \<open>embeds_decode (W_db w) mid\<close> False r p [of 14]
          by (simp add: w'_def HandleMessageDeleteRequest_def fields delete_def Let_def
              tx_value_def PermissionManageMessages_def)
        with deleted [OF tx'] refused [OF reading_in_tx [OF tx']] False Some
          \<open>embeds_decode (W_db w) mid\<close> show ?thesis
          by (auto simp: may_delete_def refused_def)
      qed
    qed
  qed
qed

section \<open>Editing a message\<close>

lemma tx_call_reads:
  assumes "reads_tx tx (snd r)" and "reading w tx"
    and "\<And>e tx'. r = (Err e, tx') \<Longrightarrow> reading w tx' \<Longrightarrow> P (h e tx')"
    and "\<And>x tx'. r = (Ok x, tx') \<Longrightarrow> reading w tx' \<Longrightarrow> P (f x tx')"
    and "\<And>tx'. r = (Panic, tx') \<Longrightarrow> P (panic_tx k tx' w)"
  shows "P (tx_call k w r h f)"
proof -
  obtain x tx' where r: "r = (x, tx')" by (cases r)
  with assms(1,2) have "reading w tx'" by (simp add: reads_tx_def)
  with r assms(3-5) show ?thesis by (cases x) simp_all
qed

lemma W_db_panic_tx [simp]: "W_db (panic_tx k tx w) = W_db w"
  using idle_panic_tx [of w k tx] by (simp add: idle_def)

lemma W_db_deny: "reading w tx \<Longrightarrow> W_db (refuse E failed e cid w tx) = W_db w"
  using idle_read_only [of w tx E failed] by (simp add: refuse_def HandleError_def idle_def)

lemma HandleMessageUpdateRequest_author:
  assumes "decode_MessageUpdateRequest (UnknownEvent_Data msg) = Some req"
    and "W_db (HandleMessageUpdateRequest E cid msg w) \<noteq> W_db w"
  shows "\<exists>m \<in> set (DB_messages (W_db w)).
    MessageRow_id m = MessageUpdateRequest_MessageID req \<and>
    MessageRow_author_id m = Conn_userID (conn_of w cid)"
proof (rule ccontr)
  assume other: "\<not> ?thesis"
  have "W_db (HandleMessageUpdateRequest E cid msg w) = W_db w"
    unfolding HandleMessageUpdateRequest_def Let_def assms(1) decoded_simps
  proof (rule tx_call_reads [OF read_tx.R_GetMessage reading_begin(1)])
    fix full tx'
    assume "GetMessage E (MessageUpdateRequest_MessageID req) (Start (begin_tx w)) = (Ok full, tx')"
      and tx': "reading w tx'"
    from GetMessage_Ok [OF this(1)] other
    have "Message_AuthorID full \<noteq> Conn_userID (conn_of w cid)"
      by (auto simp: message_of_row_def)
    then show "W_db (if Message_AuthorID full \<noteq> Conn_userID (conn_of w cid)
        then refuse E False (Coded ErrorCodeNoPermission) cid w tx' else v) = W_db w" for v
      by (simp add: W_db_deny [OF tx'])
  qed (simp_all add: W_db_deny)
  with assms(2) show False ..
qed

section \<open>Managing roles\<close>

lemma with_manage_roles_denied:
  assumes "orderly E w (Conn_userID (conn_of w cid))"
    and "\<not> base_grants (W_db w) (Conn_userID (conn_of w cid)) 16"
  shows "refused cid w (with_manage_roles E cid w k)"
proof -
  obtain p tx' where r: "user_perms E (Conn_userID (conn_of w cid)) (Start (begin_tx w)) = (Ok p, tx')"
    and tx': "reading w tx'"
    and "\<And>n. n < 64 \<Longrightarrow> has_perm p (perm_bit n) \<longleftrightarrow>
      base_grants (W_db w) (Conn_userID (conn_of w cid)) n"
    using user_permission_check [OF assms(1) reading_begin(1)] by metis
  with assms(2) have "\<not> has_perm p PermissionManageRoles"
    by (simp add: PermissionManageRoles_def)
  then show ?thesis
    by (simp add: with_manage_roles_def tx_value_def r refuse_def refused_HandleError
        idle_read_only [OF tx'])
qed

lemma with_manage_roles_allowed:
  assumes "orderly E w (Conn_userID (conn_of w cid))"
    and "base_grants (W_db w) (Conn_userID (conn_of w cid)) 16"
  obtains tx where "reading w tx" and "\<And>k. with_manage_roles E cid w k = k tx"
proof -
  obtain p tx' where r: "user_perms E (Conn_userID (conn_of w cid)) (Start (begin_tx w)) = (Ok p, tx')"
    and tx': "reading w tx'"
    and "\<And>n. n < 64 \<Longrightarrow> has_perm p (perm_bit n) \<longleftrightarrow>
      base_grants (W_db w) (Conn_userID (conn_of w cid)) n"
    using user_permission_check [OF assms(1) reading_begin(1)] by metis
  with assms(2) have "has_perm p PermissionManageRoles"
    by (simp add: PermissionManageRoles_def)
  with r that [OF tx'] show thesis by (simp add: with_manage_roles_def tx_value_def)
qed

lemma role_requests_denied:
  assumes "orderly E w (Conn_userID (conn_of w cid))"
    and "\<not> base_grants (W_db w) (Conn_userID (conn_of w cid)) 16"
    and "UnknownEvent_Type msg \<in> {EventTypeRoleAdd, EventTypeRoleUpdate, EventTypeRoleDelete,
      EventTypeUserRoleAdd, EventTypeUserRoleDelete}"
  shows "refused cid w (process_member E visit cid msg w)"
proof -
  note denied = with_manage_roles_denied [OF assms(1,2)]
  have decoded: "(\<And>req. refused cid w (f req)) \<Longrightarrow> refused cid w (decoded cid w r f)"
    for r :: "'r option" and f
    by (cases r) (simp_all add: refused_HandleError)
  show ?thesis
    using assms(3)
    by (auto simp: process_member_def event_type_defs HandleRoleAddRequest_def
        HandleRoleUpdateRequest_def HandleRoleDeleteRequest_def HandleUserRoleAddRequest_def
        HandleUserRoleDeleteRequest_def change_user_role_def Let_def intro!: decoded denied)
qed

end
