(* ===== verification/Gateway_Examples.thy ===== *)
theory Gateway_Examples
  imports Authorization Index_Properties
begin

text \<open>
  A run of the process on the example database, for the witnesses: it starts, a client connects,
  logs in, and asks for a message with an attachment; every world of the run is reachable.
\<close>

section \<open>An example\<close>

definition example_world :: World where
  "example_world = the (StartGateway env0 (\<lambda>ks. ks) (initial_world example_db 0 0))"

lemma example_start:
  "StartGateway env0 (\<lambda>ks. ks) (initial_world example_db 0 0) = Some example_world"
  "W_db example_world = example_db" "W_conns example_world = []" "W_panicked example_world = []"
  "Gateway_pending (W_gw example_world) = []" "Gateway_connections (W_gw example_world) = []"
  "W_out example_world = []" "W_tasks example_world = []"
proof -
  let ?w = "initial_world example_db 0 0"
  have w: "Tx_db (begin_tx ?w) = example_db" "Tx_commit (begin_tx ?w) = None"
    by (simp_all add: begin_tx_def NewTransaction_def initial_world_def)
  then obtain ix tx where b: "Build env0 (\<lambda>ks. ks) (W_index ?w) (begin_tx ?w) = (Ok ix, tx)"
    using Build_result [of env0 "\<lambda>ks. ks" "begin_tx ?w" "W_index ?w"]
    by (auto simp: env0_reliable example_ok)
  then have "StartGateway env0 (\<lambda>ks. ks) ?w = Some (set_index ix (store_tx tx ?w))"
    by (simp add: StartGateway_def)
  moreover have "Tx_db tx = example_db" using Build_tables [OF b] w by simp
  ultimately show "StartGateway env0 (\<lambda>ks. ks) ?w = Some example_world"
    "W_db example_world = example_db" "W_conns example_world = []" "W_panicked example_world = []"
    "Gateway_pending (W_gw example_world) = []" "Gateway_connections (W_gw example_world) = []"
    "W_out example_world = []" "W_tasks example_world = []"
    by (simp_all add: example_world_def set_index_def store_tx_def initial_world_def)
qed

lemma example_reachable: "reachable env0 example_world"
  using reachable_start [OF example_ok(1) permutes_keys_id(1) example_start(1)] .

definition example_connected :: World where
  "example_connected = Introduction env0 (\<lambda>ks. ks) [] 0 (open_connection env0 0 example_world)"

lemma connected_reachable: "reachable env0 example_connected"
  unfolding example_connected_def
  by (rule reachable_step [OF example_reachable step_connect])
    (simp_all add: example_start keys_def)

definition example_login :: json where
  "example_login = JObj [(''type'', JInt 33), (''seq'', JStr ''7''),
     (''data'', JObj [(''username'', JStr ''ann''), (''password'', JStr ''secret'')])]"

definition example_logged_in :: World where
  "example_logged_in = Process env0 (\<lambda>ks. ks) (Some example_login) 0 example_connected"

lemma GetSettings_open:
  "reliable E \<Longrightarrow> tx_open tx \<Longrightarrow> DB_settings (Tx_db tx) = Some s \<Longrightarrow>
     GetSettings E tx = (Ok s, next_tick tx)"
  by (simp add: GetSettings_def)

lemma connected_fields:
  "W_db example_connected = example_db"
  "conn_of example_connected 0 = new_connection (GetRandom256 env0 (W_tick example_world))"
  "keys (W_conns example_connected) = [0]" "W_panicked example_connected = []"
  "Gateway_pending (W_gw example_connected) = []"
  "W_out example_connected = [(0, settings_event example_settings False)]"
proof -
  let ?w = "open_connection env0 0 example_world"
  have w: "W_db ?w = example_db" "W_panicked ?w = []"
    "conn_of ?w 0 = new_connection (GetRandom256 env0 (W_tick example_world))"
    "keys (W_conns ?w) = [0]" "Gateway_pending (W_gw ?w) = []" "W_out ?w = []"
    by (simp_all add: open_connection_def example_start set_conn_def tick_world_def put_def
        keys_def conn_of_def)
  have s: "GetSettings env0 (Start (begin_tx ?w)) =
      (Ok example_settings, next_tick (Start (begin_tx ?w)))"
    by (rule GetSettings_open) (simp_all add: env0_reliable w)
  have e: "example_connected = HandleSettingsRequest env0 0 ?w"
    using w by (simp add: example_connected_def Introduction_def Let_def HandleSettingsRequest_def
        s Authenticated_def new_connection_def)
  show "W_db example_connected = example_db"
    "conn_of example_connected 0 = new_connection (GetRandom256 env0 (W_tick example_world))"
    "keys (W_conns example_connected) = [0]" "W_panicked example_connected = []"
    "Gateway_pending (W_gw example_connected) = []"
    "W_out example_connected = [(0, settings_event example_settings False)]"
    by (simp_all add: e w HandleSettingsRequest_def s Let_def W_db_end_tx new_connection_def
        Authenticated_def settings_event_def event_def)
qed

lemma example_login_decoded:
  "decode_UnknownEvent (Some example_login) = Some \<lparr>UnknownEvent_Type = EventTypeLoginRequest,
     UnknownEvent_Seq = ''7'', UnknownEvent_Data =
       Some (JObj [(''username'', JStr ''ann''), (''password'', JStr ''secret'')])\<rparr>"
  "decode_LoginRequest (Some (JObj [(''username'', JStr ''ann''), (''password'', JStr ''secret'')])) =
     Some \<lparr>LoginRequest_Username = ''ann'', LoginRequest_Password = ''secret'',
       LoginRequest_CaptchaResponse = []\<rparr>"
  by (simp_all add: decode_UnknownEvent_def decode_LoginRequest_def Unmarshal_def example_login_def
      decode_struct_def find_setter_def set_int_def set_string_def fits_int64_def MaxInt64_def
      EventTypeLoginRequest_def)

lemma AddToken_reliable:
  assumes "reliable E" and "Tx_commit tx = Some db" and "uid \<in> user_ids (Tx_db tx)"
    and "uid \<notin> TokenRow_user_id ` set (DB_user_tokens (Tx_db tx))"
  shows "\<exists>tx' t. AddToken E uid tx = (Ok (GetRandom256 E (Tx_tick tx)), tx') \<and>
    Tx_commit tx' = Some db \<and> Tx_db tx' = (Tx_db tx)\<lparr>DB_user_tokens := DB_user_tokens (Tx_db tx) @ [t]\<rparr>"
  using assms by (auto simp: AddToken_def Prepare_def insert_token_def Let_def)

lemma example_logged_in_fields:
  "Conn_userID (conn_of example_logged_in 0) = 10"
  "Authenticated (conn_of example_logged_in 0)"
  "\<exists>t. W_db example_logged_in = example_db\<lparr>DB_user_tokens := [t]\<rparr>"
  "Conn_closing (conn_of example_logged_in 0) = False" "Conn_ws (conn_of example_logged_in 0)"
  "keys (W_conns example_logged_in) = [0]" "W_panicked example_logged_in = []"
  "Gateway_pending (W_gw example_logged_in) = []"
  "\<exists>token. token \<noteq> [] \<and> W_out example_logged_in = W_out example_connected @
     [(0, (token_event token)\<lparr>Event_Seq := ''7''\<rparr>)]"
proof -
  define msg where "msg = \<lparr>UnknownEvent_Type = EventTypeLoginRequest, UnknownEvent_Seq = ''7'',
    UnknownEvent_Data = Some (JObj [(''username'', JStr ''ann''), (''password'', JStr ''secret'')])\<rparr>"
  define w where "w = note_request msg 0 example_connected"
  let ?tx = "next_tick (Start (begin_tx w))"
  have db: "W_db w = example_db" by (simp add: w_def note_request_def connected_fields)
  have s: "GetSettings env0 (Start (begin_tx w)) = (Ok example_settings, ?tx)"
    by (rule GetSettings_open) (simp_all add: env0_reliable db)
  have "\<exists>tx' t. AddToken env0 10 (next_tick ?tx) =
      (Ok (GetRandom256 env0 (Tx_tick (next_tick ?tx))), tx') \<and>
      Tx_commit tx' = Some example_db \<and> Tx_db tx' = (Tx_db (next_tick ?tx))\<lparr>DB_user_tokens :=
        DB_user_tokens (Tx_db (next_tick ?tx)) @ [t]\<rparr>"
    by (rule AddToken_reliable)
      (simp_all add: env0_reliable db example_db_def Database_empty_def example_user_def)
  then obtain token tx' t where "AddToken env0 10 (next_tick ?tx) = (Ok token, tx')" "token \<noteq> []"
      and tx': "Tx_commit tx' = Some example_db" "Tx_db tx' = example_db\<lparr>DB_user_tokens := [t]\<rparr>"
    by (auto simp: GetRandom256_def db example_db_def Database_empty_def)
  then have login: "Login env0 ''ann'' ''secret'' ?tx = (Ok (10, token), tx')"
    by (simp add: Login_def db env0_reliable HashSha256_def example_user_def)
  have "example_logged_in = HandleLoginRequest env0 0 msg w"
    by (simp add: example_logged_in_def Process_def Read_def example_login_decoded connected_fields
        new_connection_def process_guest_def w_def msg_def note_request_def Authenticated_def)
  also have "\<dots> = Write (token_event token) 0 (OnAuthentication env0 10 token 0
      (end_tx env0 False tx' w))"
    by (simp add: HandleLoginRequest_def msg_def example_login_decoded s with_captcha_def login
        example_settings_def)
  finally have e: "example_logged_in = Write (token_event token) 0
    (OnAuthentication env0 10 token 0 (end_tx env0 False tx' w))" .
  show "Conn_userID (conn_of example_logged_in 0) = 10"
    "Authenticated (conn_of example_logged_in 0)"
    "\<exists>t. W_db example_logged_in = example_db\<lparr>DB_user_tokens := [t]\<rparr>"
    "Conn_closing (conn_of example_logged_in 0) = False" "Conn_ws (conn_of example_logged_in 0)"
    using \<open>token \<noteq> []\<close> tx'
    by (auto simp add: e Authenticated_def w_def note_request_def connected_fields
        new_connection_def W_db_committed env0_reliable)
  show "keys (W_conns example_logged_in) = [0]" "W_panicked example_logged_in = []"
    "Gateway_pending (W_gw example_logged_in) = []"
    by (simp_all add: e OnAuthentication_def AddConnection_def w_def note_request_def
        connected_fields set_conn_def keys_put)
  show "\<exists>token. token \<noteq> [] \<and> W_out example_logged_in = W_out example_connected @
     [(0, (token_event token)\<lparr>Event_Seq := ''7''\<rparr>)]"
    using \<open>token \<noteq> []\<close> by (intro exI [of _ token]) (simp add: e w_def note_request_def msg_def)
qed

lemma logged_in_reachable: "reachable env0 example_logged_in"
  unfolding example_logged_in_def
  by (rule reachable_step [OF connected_reachable step_frame])
    (simp_all add: connected_fields new_connection_def)

text \<open>The logged-in client asks to send a message with an attachment outside any channel.\<close>

definition example_send :: json where
  "example_send = JObj [(''type'', JInt 9), (''data'', JObj [(''attachmentCount'', JInt 1)])]"

definition example_upload :: World where
  "example_upload = Process env0 (\<lambda>ks. ks) (Some example_send) 0 example_logged_in"

lemma example_send_decoded:
  "decode_UnknownEvent (Some example_send) = Some \<lparr>UnknownEvent_Type = EventTypeMessageSendRequest,
     UnknownEvent_Seq = [], UnknownEvent_Data = Some (JObj [(''attachmentCount'', JInt 1)])\<rparr>"
  "decode_MessageSendRequest (Some (JObj [(''attachmentCount'', JInt 1)])) =
     Some \<lparr>MessageSendRequest_ChannelID = 0, MessageSendRequest_Content = [],
       MessageSendRequest_ReferenceID = 0, MessageSendRequest_AttachmentCount = 1\<rparr>"
  by (simp_all add: decode_UnknownEvent_def decode_MessageSendRequest_def Unmarshal_def
      example_send_def decode_struct_def find_setter_def set_int_def set_string_def fits_int64_def
      MaxInt64_def EventTypeMessageSendRequest_def)

lemma example_permits:
  "permits (example_db\<lparr>DB_user_tokens := ts\<rparr>) 10 0 5" "permits (example_db\<lparr>DB_user_tokens := ts\<rparr>) 10 0 8"
  by (simp_all add: permits_def channel_grants_def base_grants_def role_grants_def overwrite_rows_def example_role_def
      example_db_def Database_empty_def example_settings_def PermissionDefault_def permission_defs
      bit_or_iff bit_perm_bit)

lemma upload_reachable: "reachable env0 example_upload"
  unfolding example_upload_def
  by (rule reachable_step [OF logged_in_reachable step_frame])
    (simp_all add: example_logged_in_fields)

lemma example_upload_pending:
  "\<exists>slot req. get (Gateway_pending (W_gw example_upload)) slot = Some req"
proof -
  obtain t where db: "W_db example_logged_in = example_db\<lparr>DB_user_tokens := [t]\<rparr>"
    using example_logged_in_fields(3) by blast
  define msg where "msg = \<lparr>UnknownEvent_Type = EventTypeMessageSendRequest, UnknownEvent_Seq = [],
    UnknownEvent_Data = Some (JObj [(''attachmentCount'', JInt 1)])\<rparr>"
  define w where "w = note_request msg 0 example_logged_in"
  have w: "W_db w = example_db\<lparr>DB_user_tokens := [t]\<rparr>" "Conn_userID (conn_of w 0) = 10"
    by (simp_all add: w_def note_request_def db example_logged_in_fields)
  have ok: "db_ok (W_db w)" using reachable_inv [OF logged_in_reachable] db
    by (simp add: w world_inv_def world_ok_def)
  have ids: "ids_ok (W_db w)" using example_ok(2) by (simp add: w ids_ok_def)
  have s: "DB_settings (W_db w) = Some example_settings" by (simp add: w)
  have "10 \<in> user_ids (W_db w)" by (simp add: w)
  then obtain p tx where r: "GetPermissionsByChannel env0 10 0 (begin_tx w) = (Ok p, tx)"
    and p: "\<forall>n < 64. bit p n \<longleftrightarrow> permits (W_db w) 10 0 n"
    using channel_permissions_exact [of env0 "begin_tx w" 10 0] ok ids s by (auto simp: env0_reliable)
  have p: "bit p 5" "bit p 8"
    using p example_permits [of "[t]"] by (simp_all add: w)
  have perms: "has_perm p PermissionSendMessages" "has_perm p PermissionUploadFiles"
    using p by (simp_all add: PermissionSendMessages_def PermissionUploadFiles_def has_perm_bit)
  have e: "example_upload = HandleMessageSendRequest env0 0 msg w"
    by (simp add: example_upload_def Process_def Read_def example_send_decoded
        example_logged_in_fields process_member_def w_def msg_def note_request_def
        Authenticated_def event_type_defs example_logged_in_fields(2) [unfolded Authenticated_def])
  obtain a b c d where "ParseMessageContent [] = (a, b, c, d)" by (metis prod.collapse)
  then have "\<exists>k v m. Gateway_pending (W_gw example_upload) = put k v m"
    using r perms w
    by (auto simp: e HandleMessageSendRequest_def msg_def example_send_decoded tx_value_def
        new_message_def reserve_slot_def PushPendingRequest_def Let_def)
  then show ?thesis by auto
qed

end
