(* ===== verification/Gateway_Properties.thy ===== *)
theory Gateway_Properties
  imports Gateway_Examples
begin

text \<open>
  The properties of the gateway and of the requests it serves.
\<close>

section \<open>Invariants of the process\<close>



text \<open>C9: If the engine never refuses a \<^verbatim>\<open>COMMIT\<close>, the user that a connection is logged in as is a
  row of the table of users in every reachable world.\<close>

theorem reachable_user_exists:
  assumes "reachable E w" and "commits E" and "Authenticated (conn_of w cid)"
  shows "Conn_userID (conn_of w cid) \<in> user_ids (W_db w)"
  using reachable_inv [OF assms(1)] assms(2,3)
  by (simp add: world_inv_def users_exist_def Authenticated_def)

theorem reachable_user_exists_witness: "10 \<in> user_ids (W_db example_logged_in)"
  using reachable_user_exists [OF logged_in_reachable, of 0]
  by (simp add: example_logged_in_fields commits_def)

text \<open>C10: Every pending upload is stored under its own slot id, and its data has the type that
  its request type tells the upload handler to assert.\<close>

theorem reachable_uploads_typed:
  assumes "reachable E w" and "get (Gateway_pending (W_gw w)) slot = Some req"
  shows "Pending_slotID req = slot \<and>
    ((\<exists>m. Pending_requestData req = PendingMessage m
        \<and> Pending_requestType req = EventTypeMessageSendRequest) \<or>
     (\<exists>r. Pending_requestData req = PendingUserUpdate r
        \<and> Pending_requestType req = EventTypeUserUpdate))"
  using reachable_inv [OF assms(1)] assms(2)
  unfolding world_inv_def world_ok_def pending_ok_def
  by (cases "Pending_requestData req") fastforce+

theorem reachable_uploads_typed_witness:
  "\<exists>slot req. get (Gateway_pending (W_gw example_upload)) slot = Some req \<and>
     Pending_slotID req = slot"
  using example_upload_pending reachable_uploads_typed [OF upload_reachable] by blast

section \<open>What a request can do\<close>

lemma Process_outcome:
  "guest_served E cid (note_request msg cid w) (Process E visit frame cid w)"
  if "Read frame cid w = Some msg"
  using that process_guest_served served_guest [OF process_member_served]
  by (simp add: Process_def Let_def)

lemma guest_denied:
  assumes "\<not> Authenticated (conn_of w cid)" and "Read frame cid w = Some msg"
    and "UnknownEvent_Type msg \<notin> {EventTypeLoginRequest, EventTypeRegisterRequest}"
  shows "Process E visit frame cid w =
    HandleError (Coded ErrorCodeInvalidToken) cid (note_request msg cid w)"
  using assms by (simp add: Process_def Let_def process_guest_def note_request_def Authenticated_def)

text \<open>C8: Serving a frame writes only to the connection that sent it, and if one of the events
  written is an error then the database, the gateway with its index and pending uploads, and
  the goroutines to run are what they were: a request that is refused has no effect.\<close>

theorem refused_request_no_effect:
  "\<exists>out. W_out (Process E visit frame cid w) = W_out w @ out \<and> (\<forall>(k, ev) \<in> set out. k = cid) \<and>
     ((\<exists>(k, ev) \<in> set out. is_error ev) \<longrightarrow>
        W_db (Process E visit frame cid w) = W_db w \<and>
        W_gw (Process E visit frame cid w) = W_gw w \<and>
        W_tasks (Process E visit frame cid w) = W_tasks w)"
proof (cases "Read frame cid w")
  case None
  then show ?thesis by (simp add: Process_def)
next
  case (Some msg)
  let ?w = "Process E visit frame cid w" and ?v = "note_request msg cid w"
  have v: "W_out ?v = W_out w" "W_db ?v = W_db w" "W_gw ?v = W_gw w" "W_tasks ?v = W_tasks w"
    by (simp_all add: note_request_def)
  have ok: ?thesis if "W_out ?w = W_out ?v @ out" and "answers cid out" for out
    using that unfolding v answers_def by (intro exI [of _ out]) (auto simp: plain_def)
  from Process_outcome [OF Some, of E visit] consider "refused cid ?v ?w"
    | "progress cid ?v ?w" | "signs_in E cid ?v ?w"
    by (auto simp: guest_served_def served_def)
  then show ?thesis
  proof cases
    case 1
    then obtain ev where "W_out ?w = W_out w @ [(cid, ev)]" and "W_db ?w = W_db w"
        "W_gw ?w = W_gw w" "W_tasks ?w = W_tasks w" unfolding refused_def v by blast
    then show ?thesis by (intro exI [of _ "[(cid, ev)]"]) simp
  next
    case 2
    with ok show ?thesis unfolding progress_def by blast
  next
    case 3
    with ok show ?thesis unfolding signs_in_def by blast
  qed
qed

theorem refused_request_no_effect_witness:
  "W_db (Process env0 (\<lambda>ks. ks) (Some example_send) 0 example_connected) = W_db example_connected"
proof -
  have "W_out (Process env0 (\<lambda>ks. ks) (Some example_send) 0 example_connected) =
      W_out example_connected @ [(0, event EventTypeErrorResponse (ErrorResponse
        \<lparr>ErrorResponse_Code = ErrorCodeInvalidToken,
         ErrorResponse_Request = EventTypeMessageSendRequest\<rparr>))]"
    by (subst guest_denied [OF _ _, where msg = "\<lparr>UnknownEvent_Type = EventTypeMessageSendRequest,
        UnknownEvent_Seq = [], UnknownEvent_Data = Some (JObj [(''attachmentCount'', JInt 1)])\<rparr>"])
      (simp_all add: Read_def connected_fields new_connection_def
        Authenticated_def example_send_decoded event_type_defs HandleError_def note_request_def
        error_event_def error_code_def event_def)
  then show ?thesis
    using refused_request_no_effect [of env0 "\<lambda>ks. ks" "Some example_send" 0 example_connected]
    by (auto simp: is_error_def event_def)
qed

text \<open>C14: A frame changes the user, the token and the session of no connection but the one that
  sent it, and not even of that one once it is logged in.\<close>

theorem identity_is_stable:
  assumes "k \<noteq> cid \<or> Authenticated (conn_of w cid)"
  shows "Conn_userID (conn_of (Process E visit frame cid w) k) = Conn_userID (conn_of w k) \<and>
    Conn_token (conn_of (Process E visit frame cid w) k) = Conn_token (conn_of w k) \<and>
    Conn_session (conn_of (Process E visit frame cid w) k) = Conn_session (conn_of w k)"
proof (cases "Read frame cid w")
  case None
  then show ?thesis by (simp add: Process_def)
next
  case (Some msg)
  let ?w = "Process E visit frame cid w" and ?v = "note_request msg cid w"
  have kept: "identity (conn_of ?v k) = identity (conn_of w k)"
    by (simp add: note_request_def identity_def)
  have "identity (conn_of ?w k) = identity (conn_of ?v k)"
  proof (cases "Authenticated (conn_of w cid)")
    case True
    then have "?w = process_member E visit cid msg ?v"
      using Some by (simp add: Process_def Let_def note_request_def Authenticated_def)
    with process_member_served [of cid ?v E visit msg] show ?thesis
      by (auto simp: served_def refused_def progress_def conns_kept_def)
  next
    case False
    with assms have "k \<noteq> cid" by simp
    with Process_outcome [OF Some, of E visit] show ?thesis
      by (auto simp: guest_served_def served_def refused_def progress_def signs_in_def
          conns_kept_def)
  qed
  with kept show ?thesis by (simp add: identity_def)
qed

theorem identity_is_stable_witness:
  "Conn_userID (conn_of example_upload 0) = 10"
  using identity_is_stable [of 0 0 example_logged_in env0 "\<lambda>ks. ks" "Some example_send"]
  by (simp add: example_upload_def example_logged_in_fields)

text \<open>C15: A connection that is not logged in can only log in or register: any other request is
  answered by the error code for an invalid token, and changes nothing else.\<close>

theorem guests_must_log_in:
  assumes "\<not> Authenticated (conn_of w cid)" and "Read frame cid w = Some msg"
    and "UnknownEvent_Type msg \<notin> {EventTypeLoginRequest, EventTypeRegisterRequest}"
  shows "W_db (Process E visit frame cid w) = W_db w \<and> W_gw (Process E visit frame cid w) = W_gw w \<and>
    W_tasks (Process E visit frame cid w) = W_tasks w \<and>
    W_out (Process E visit frame cid w) = W_out w @ [(cid, \<lparr>Event_Type = EventTypeErrorResponse,
      Event_Seq = UnknownEvent_Seq msg, Event_Data = ErrorResponse
        \<lparr>ErrorResponse_Code = ErrorCodeInvalidToken,
         ErrorResponse_Request = UnknownEvent_Type msg\<rparr>\<rparr>)]"
  by (simp add: guest_denied [OF assms] HandleError_def note_request_def error_event_def
      error_code_def event_def)

theorem guests_must_log_in_witness:
  "W_out (Process env0 (\<lambda>ks. ks) (Some example_send) 0 example_connected) =
     W_out example_connected @ [(0, \<lparr>Event_Type = 0, Event_Seq = [], Event_Data = ErrorResponse
       \<lparr>ErrorResponse_Code = 2, ErrorResponse_Request = 9\<rparr>\<rparr>)]"
  using guests_must_log_in [of example_connected 0 "Some example_send" _ env0 "\<lambda>ks. ks"]
  by (simp add: Read_def connected_fields new_connection_def Authenticated_def
      example_send_decoded event_type_defs error_code_defs)

end

