(* ===== verification/Delivery.thy ===== *)
theory Delivery
  imports Reachability
begin

text \<open>
  What relaying does to the queues of the connections, and what becomes of a queued event: the
  two goroutines of chat/relay.go touch nothing but queues, they give every connection they reach
  as much as its queue can hold, and an event that is queued is written to the web socket once
  the write loop of its connection (\<^verbatim>\<open>Run\<close> of chat/gateway.go) has come round often enough,
  whatever else the process does meanwhile, unless the socket stops taking messages.
\<close>

section \<open>Queues\<close>

abbreviation queue_of :: "World \<Rightarrow> nat \<Rightarrow> Event list" where
  "queue_of w cid \<equiv> Conn_queue (conn_of w cid)"

text \<open>What a relay changes: the queues, and nothing else.\<close>

definition queues_only :: "World \<Rightarrow> World \<Rightarrow> bool" where
  "queues_only w w' \<longleftrightarrow> w'\<lparr>W_conns := W_conns w\<rparr> = w \<and>
     (\<forall>k. (conn_of w' k)\<lparr>Conn_queue := queue_of w k\<rparr> = conn_of w k)"

lemma queues_only_refl [simp]: "queues_only w w"
  by (simp add: queues_only_def)

lemma queues_only_trans:
  assumes "queues_only w w1" and "queues_only w1 w2"
  shows "queues_only w w2"
proof -
  have "w2\<lparr>W_conns := W_conns w\<rparr> = (w2\<lparr>W_conns := W_conns w1\<rparr>)\<lparr>W_conns := W_conns w\<rparr>"
    by simp
  moreover have "(conn_of w2 k)\<lparr>Conn_queue := queue_of w k\<rparr> =
      ((conn_of w2 k)\<lparr>Conn_queue := queue_of w1 k\<rparr>)\<lparr>Conn_queue := queue_of w k\<rparr>" for k
    by simp
  ultimately show ?thesis using assms unfolding queues_only_def by simp
qed

lemma queues_only_gw:
  assumes "queues_only w w'"
  shows "W_gw w' = W_gw w" and "W_out w' = W_out w" and "W_wire w' = W_wire w" and "W_dead w' = W_dead w"
proof -
  have w: "w = w'\<lparr>W_conns := W_conns w\<rparr>" using assms unfolding queues_only_def by simp
  show "W_gw w' = W_gw w" "W_out w' = W_out w" "W_wire w' = W_wire w" "W_dead w' = W_dead w"
    by (subst w, simp)+
qed

lemma queues_only_conn:
  assumes "queues_only w w'"
  shows "Conn_userID (conn_of w' k) = Conn_userID (conn_of w k)"
    and "Connected (conn_of w' k) = Connected (conn_of w k)"
    and "Authenticated (conn_of w' k) = Authenticated (conn_of w k)"
proof -
  have "(conn_of w' k)\<lparr>Conn_queue := queue_of w k\<rparr> = conn_of w k"
    using assms by (simp add: queues_only_def)
  then show "Conn_userID (conn_of w' k) = Conn_userID (conn_of w k)"
    "Connected (conn_of w' k) = Connected (conn_of w k)"
    "Authenticated (conn_of w' k) = Authenticated (conn_of w k)"
    unfolding Connected_def Authenticated_def
    by (metis GatewayConnection.select_convs GatewayConnection.surjective
        GatewayConnection.update_convs(2))+
qed

section \<open>Relaying\<close>

text \<open>A queue that is offered the same event several times takes what fits.\<close>

definition offered :: "nat \<Rightarrow> Event \<Rightarrow> Event list \<Rightarrow> Event list" where
  "offered n ev queue = queue @ replicate (min n (queue_capacity - length queue)) ev"

lemma offered_0 [simp]: "offered 0 ev queue = queue"
  by (simp add: offered_def)

lemma offered_Suc:
  "offered (Suc n) ev queue = offered n ev
     (if queue_capacity \<le> length queue then queue else queue @ [ev])"
  by (auto simp: offered_def min_def replicate_append_same Suc_diff_le
      simp flip: replicate_Suc replicate_append_same)

text \<open>Who is to receive an event, as the two goroutines test it.\<close>

definition takes_events :: "World \<Rightarrow> nat \<Rightarrow> bool" where
  "takes_events w cid \<longleftrightarrow> Connected (conn_of w cid) \<and> Authenticated (conn_of w cid)"

definition sees_channel :: "World \<Rightarrow> snowflake \<Rightarrow> nat \<Rightarrow> bool" where
  "sees_channel w ch cid \<longleftrightarrow> has_perm
     (index_GetPermissionsByChannel (W_index w) (Conn_userID (conn_of w cid)) ch)
     PermissionViewChannel"

lemma conn_Relay_queues:
  "queues_only w (conn_Relay ev k w)"
  "queue_of (conn_Relay ev k w) cid =
     (if cid = k \<and> takes_events w cid then offered 1 ev (queue_of w cid) else queue_of w cid)"
proof -
  have "queues_only w (set_conn k (\<lambda>c. c\<lparr>Conn_queue := q\<rparr>) w)" for q
    unfolding queues_only_def by (rule conjI, simp add: set_conn_def, simp)
  then show "queues_only w (conn_Relay ev k w)"
    by (simp add: conn_Relay_def Let_def set_conn_def)
  show "queue_of (conn_Relay ev k w) cid =
     (if cid = k \<and> takes_events w cid then offered 1 ev (queue_of w cid) else queue_of w cid)"
    by (simp add: conn_Relay_def Let_def takes_events_def offered_Suc [of 0, simplified])
qed

lemma relay_to_viewer_queues:
  "queues_only w (relay_to_viewer ev ch k w)"
  "queue_of (relay_to_viewer ev ch k w) cid =
     (if cid = k \<and> takes_events w cid \<and> sees_channel w ch cid
      then offered 1 ev (queue_of w cid) else queue_of w cid)"
  by (auto simp: relay_to_viewer_def Let_def conn_Relay_queues takes_events_def sees_channel_def)

text \<open>How many sessions the gateway knows a connection under: it enters a connection under a new
  name at each login, and takes none out.\<close>

definition sessions_of :: "World \<Rightarrow> nat \<Rightarrow> nat" where
  "sessions_of w cid = length (filter (\<lambda>s. get (Gateway_connections (W_gw w)) s = Some cid)
     (keys (Gateway_connections (W_gw w))))"

text \<open>The loop of both goroutines, with the body and its test as arguments.\<close>

lemma relay_loop:
  fixes conns :: "(string, nat) gomap" and body :: "nat \<Rightarrow> World \<Rightarrow> World"
  assumes body: "\<And>k v. queues_only v (body k v)"
    "\<And>k v. queue_of (body k v) cid =
       (if cid = k \<and> test v cid then offered 1 ev (queue_of v cid) else queue_of v cid)"
    and test: "\<And>v v'. queues_only v v' \<Longrightarrow> test v' cid = test v cid"
  shows "queues_only w (fold (\<lambda>s w. case get conns s of None \<Rightarrow> w | Some k \<Rightarrow> body k w) names w) \<and>
    queue_of (fold (\<lambda>s w. case get conns s of None \<Rightarrow> w | Some k \<Rightarrow> body k w) names w) cid =
    (if test w cid then offered (length (filter (\<lambda>s. get conns s = Some cid) names)) ev (queue_of w cid)
     else queue_of w cid)"
proof (induction names arbitrary: w)
  case Nil
  then show ?case by simp
next
  case (Cons s names)
  define loop where "loop = fold (\<lambda>s w. case get conns s of None \<Rightarrow> w | Some k \<Rightarrow> body k w)"
  define v where "v = (case get conns s of None \<Rightarrow> w | Some k \<Rightarrow> body k w)"
  define n where "n = length (filter (\<lambda>s. get conns s = Some cid) names)"
  have loop: "loop (s # names) w = loop names v" by (simp add: loop_def v_def)
  have v: "queues_only w v" using body(1) by (simp add: v_def split: option.split)
  have ih: "queues_only v (loop names v)" "queue_of (loop names v) cid =
      (if test w cid then offered n ev (queue_of v cid) else queue_of v cid)"
    using Cons.IH [of v] test [OF v] by (simp_all add: loop_def n_def)
  have q: "queue_of v cid = (if get conns s = Some cid \<and> test w cid
      then offered 1 ev (queue_of w cid) else queue_of w cid)"
    by (auto simp: v_def body(2) split: option.split)
  have count: "length (filter (\<lambda>s. get conns s = Some cid) (s # names)) =
      (if get conns s = Some cid then Suc n else n)"
    by (simp add: n_def)
  have twice: "offered n ev (offered (Suc 0) ev queue) = offered (Suc n) ev queue" for queue
    by (simp add: offered_Suc [of n] offered_Suc [of 0, simplified])
  have "queues_only w (loop (s # names) w)"
    unfolding loop using queues_only_trans [OF v ih(1)] .
  moreover have "queue_of (loop (s # names) w) cid =
      (if test w cid then offered (length (filter (\<lambda>s. get conns s = Some cid) (s # names))) ev
         (queue_of w cid) else queue_of w cid)"
    unfolding loop ih(2) count q by (simp add: twice)
  ultimately show ?case by (simp only: loop_def)
qed

lemma visited_sessions:
  assumes "permutes_keys visit"
  shows "length (filter P (visit ks)) = length (filter P ks)"
proof -
  have "mset (filter P (visit ks)) = mset (filter P ks)"
    using assms by (simp add: permutes_keys_def)
  then show ?thesis by (metis size_mset)
qed

lemma run_Relay_queues:
  assumes "permutes_keys visit"
  shows "queues_only w (run_Relay visit ev w) \<and> queue_of (run_Relay visit ev w) cid =
    (if takes_events w cid then offered (sessions_of w cid) ev (queue_of w cid)
     else queue_of w cid)"
proof -
  have "takes_events v' cid = takes_events v cid" if "queues_only v v'" for v v'
    by (simp add: takes_events_def queues_only_conn [OF that])
  with relay_loop [of "conn_Relay ev" cid takes_events ev] show ?thesis
    by (simp add: run_Relay_def Let_def conn_Relay_queues visited_sessions [OF assms]
        sessions_of_def)
qed

lemma run_RelayByChannel_queues:
  assumes "permutes_keys visit"
  shows "queues_only w (run_RelayByChannel visit ev ch w) \<and>
    queue_of (run_RelayByChannel visit ev ch w) cid =
      (if takes_events w cid \<and> sees_channel w ch cid
       then offered (sessions_of w cid) ev (queue_of w cid) else queue_of w cid)"
proof -
  let ?test = "\<lambda>v cid. takes_events v cid \<and> sees_channel v ch cid"
  have "?test v' cid = ?test v cid" if "queues_only v v'" for v v'
    by (simp add: takes_events_def sees_channel_def queues_only_conn [OF that]
        queues_only_gw [OF that])
  with relay_loop [of "relay_to_viewer ev ch" cid ?test ev] show ?thesis
    by (simp add: run_RelayByChannel_def Let_def relay_to_viewer_queues visited_sessions [OF assms]
        sessions_of_def)
qed

section \<open>Every step keeps the order of a queue\<close>

text \<open>A step that adds events at the end of the queue of a connection, and writes events to the
  sockets.\<close>

definition appends :: "nat \<Rightarrow> World \<Rightarrow> World \<Rightarrow> bool" where
  "appends cid w w' \<longleftrightarrow> (\<exists>evs. queue_of w' cid = queue_of w cid @ evs) \<and> wired w w'"

lemma appends_refl [simp]: "appends cid w w"
  by (simp add: appends_def)

lemma appends_trans: "appends cid w w1 \<Longrightarrow> appends cid w1 w2 \<Longrightarrow> appends cid w w2"
  by (auto simp: appends_def intro: wired_trans)

lemma appends_Write [simp]: "appends cid w (Write ev k w)"
  by (simp add: appends_def)

lemma kept_queue: "conns_kept w w' \<Longrightarrow> queue_of w' k = queue_of w k"
  by (simp add: identityD)

lemma idle_appends: "idle w w' \<Longrightarrow> appends cid w w'"
  using kept_queue [of w w' cid] idle_wired(1) [of w w'] by (auto simp: idle_def appends_def)

lemma progress_appends: "progress k w w' \<Longrightarrow> appends cid w w'"
  using kept_queue [of w w' cid] by (auto simp: progress_def appends_def)

lemma served_appends: "served k w w' \<Longrightarrow> appends cid w w'"
  using kept_queue [of w w' cid]
  by (auto simp: served_def refused_def intro: progress_appends) (auto simp: appends_def)

lemma signs_in_appends: "signs_in E k w w' \<Longrightarrow> appends cid w w'"
  by (cases "k = cid") (force simp: signs_in_def appends_def identity_def)+

lemma guest_appends: "guest_served E k w w' \<Longrightarrow> appends cid w w'"
  by (auto simp: guest_served_def intro: served_appends signs_in_appends)

lemma queues_only_appends:
  assumes "queues_only w w'"
    and "queue_of w' cid = queue_of w cid \<or> (\<exists>n ev. queue_of w' cid = offered n ev (queue_of w cid))"
  shows "appends cid w w'"
  using wired_quiet [OF queues_only_gw(4,2,3) [OF assms(1)]] assms(2) by (auto simp: appends_def offered_def)

lemma Introduction_appends: "appends cid w (Introduction E visit token k w)"
proof -
  define w1 where "w1 = (if token \<noteq> [] then TryAuthenticate E token k w else w)"
  define w2 where "w2 = HandleSettingsRequest E k w1"
  have w1: "appends cid w w1"
    by (simp add: w1_def guest_appends [OF TryAuthenticate_guest])
  then have w2: "appends cid w w2"
    unfolding w2_def by (rule appends_trans) (rule served_appends [OF served_settings])
  then have w3: "appends cid w (HandleOverviewRequest E visit k w2)"
    by (rule appends_trans) (rule progress_appends [OF overview_progress])
  show ?thesis
    unfolding Introduction_def Let_def w1_def [symmetric] w2_def [symmetric]
    by (simp add: w1 w2 w3)
qed

lemma Process_appends: "appends cid w (Process E visit frame k w)"
proof (cases "Read frame k w")
  case None
  then show ?thesis by (simp add: Process_def appends_def)
next
  case (Some msg)
  have "appends cid w (note_request msg k w)" by (simp add: note_request_def appends_def)
  moreover have "guest_served E k (note_request msg k w) (Process E visit frame k w)"
    using Some process_guest_served served_guest [OF process_member_served]
    by (simp add: Process_def Let_def)
  ultimately show ?thesis by (blast intro: appends_trans guest_appends)
qed

lemma fold_appends:
  assumes "\<And>x v. appends cid v (f x v)"
  shows "appends cid w (fold f xs w)"
  by (induction xs arbitrary: w) (auto intro: appends_trans [OF assms])

lemma push_changes_appends: "appends cid w (push_changes visit w)"
proof -
  have "appends cid w (set_index ix w)" for ix by (simp add: set_index_def appends_def)
  moreover have "appends cid v (push_to changes k v)" for changes k v
    by (simp add: push_to_def Let_def)
  ultimately show ?thesis
    unfolding push_changes_def Let_def
    by (auto split: prod.split option.split intro!: appends_trans [OF _ fold_appends])
qed

lemma UserUpdateUpload_appends:
  "appends cid w (HandleUserUpdateUpload E visit store_avatar req pending parts k w)"
proof -
  let ?r = "UserUpdateRequest_UserID req" and ?m = "Env_now E (W_tick w)"
  let ?read = "ReadFiles (\<lambda>raw content w. (case store_avatar ?r ?m content of
      Panic \<Rightarrow> (Panic, w) | _ \<Rightarrow> (Ok (), w))) None FileMetadata_zero parts (tick_world w)"
  have "appends cid w (snd ?read)"
    by (rule ReadFiles_keeps) (auto split: go_result.split intro: idle_appends)
  moreover have "appends cid v (FinalizeUserUpdateRequest E visit r k v)" for r v
    by (rule served_appends [OF FinalizeUserUpdate_served])
  moreover have "appends cid v (HandleError e k v)" for e v
    by (rule served_appends [OF served_HandleError [OF idle_refl]])
  moreover have "appends cid v (panic k v)" for v
    by (rule idle_appends [OF idle_panic])
  ultimately show ?thesis
    unfolding HandleUserUpdateUpload_def Let_def
    by (auto split: prod.split go_result.split) (metis appends_trans snd_conv)+
qed

lemma HandleGatewayUpload_appends:
  "appends cid w (snd (HandleGatewayUpload E visit store_file store_avatar slot parts w))"
proof -
  obtain p v where r: "PopPendingRequest slot w = (p, v)" by fastforce
  then have v: "appends cid w v"
    by (auto simp: PopPendingRequest_def appends_def split: option.splits)
  have "appends cid w (snd (upload_result v v'))" if "appends cid v v'" for v'
    using appends_trans [OF v that] by (auto simp: upload_result_def appends_def conn_of_def)
  then show ?thesis
    unfolding HandleGatewayUpload_def r
    using v served_appends [OF MessageSendUpload_served] UserUpdateUpload_appends
    by (auto split: option.split RequestData.split)
qed

lemma run_task_appends:
  assumes "permutes_keys visit" and "run_task E get_embed visit task w = Some w'"
  shows "appends cid w w'"
proof -
  have "appends cid w (run_Relay visit ev w)" for ev
    using run_Relay_queues [OF assms(1), of w ev cid] by (intro queues_only_appends) auto
  moreover have "appends cid w (run_RelayByChannel visit ev ch w)" for ev ch
    using run_RelayByChannel_queues [OF assms(1), of w ev ch cid]
    by (intro queues_only_appends) auto
  moreover have "appends cid w (TryEmbedURLs E get_embed mid urls k w)" for mid urls k
    by (rule served_appends [OF TryEmbedURLs_served])
  ultimately show ?thesis
    using assms(2) by (auto simp: run_task_def Let_def split: Task.splits if_splits)
qed

lemma drain_other: "k \<noteq> cid \<Longrightarrow> appends cid w (drain k w)"
  by (auto simp: drain_def WriteUnsolicited_def appends_def split: list.split)

lemma open_connection_appends: "queue_of w cid = [] \<or> k \<noteq> cid \<Longrightarrow> appends cid w (open_connection E k w)"
  by (auto simp: open_connection_def appends_def new_connection_def)

lemma queue_in_keys: "queue_of w cid \<noteq> [] \<Longrightarrow> cid \<in> set (keys (W_conns w))"
  by (cases "get (W_conns w) cid") (auto simp: conn_of_def Connection_zero_def get_keys_iff)

lemma step_appends: "step E w w' \<Longrightarrow> appends cid w w' \<or> w' = drain cid w \<or> (\<exists>k. w' = shut_socket k w)"
proof (induction rule: step.induct)
  case (step_connect k w visit token)
  then have "queue_of w cid = [] \<or> k \<noteq> cid" using queue_in_keys by blast
  then show ?case
    using appends_trans [OF open_connection_appends Introduction_appends] by blast
next
  case (step_upload visit store_file store_avatar slotID parts w r w')
  then show ?case by (metis HandleGatewayUpload_appends snd_conv)
next
  case (step_task w before task after visit get_embed w')
  then have "appends cid (w\<lparr>W_tasks := before @ after\<rparr>) w'"
    by (blast intro: run_task_appends)
  then show ?case by (simp add: appends_def conn_of_def wired_def)
next
  case (step_refresh visit w w')
  then have "w' = w \<or> (\<exists>ix. w' = set_index ix w)"
    by (auto simp: refresh_user_list_def split: if_splits)
  then show ?case by (auto simp: set_index_def appends_def)
next
  case (step_frame k w visit frame)
  show ?case by (rule disjI1 [OF Process_appends])
next
  case (step_push visit w)
  show ?case by (rule disjI1 [OF push_changes_appends])
next
  case (step_drain k w)
  show ?case by (cases "k = cid") (simp_all add: drain_other)
next
  case (step_shut k w)
  show ?case by blast
qed

section \<open>Executions\<close>

text \<open>\<open>execution E cid w n w'\<close>: the process goes from \<open>w\<close> to \<open>w'\<close> in steps of any kind, and \<open>n\<close>
  of them are rounds of the loop that writes what is queued for the connection \<open>cid\<close>.\<close>

inductive execution :: "Env \<Rightarrow> nat \<Rightarrow> World \<Rightarrow> nat \<Rightarrow> World \<Rightarrow> bool" for E cid where
  execution_refl: "execution E cid w 0 w"
| execution_step: "execution E cid w n v \<Longrightarrow> step E v w' \<Longrightarrow> execution E cid w n w'"
| execution_drain: "execution E cid w n v \<Longrightarrow> execution E cid w (Suc n) (drain cid v)"

text \<open>As long as the socket takes messages, what was queued has been written to it up to some
  point, and is still queued from there on.\<close>

definition writes_in_order :: "nat \<Rightarrow> Event list \<Rightarrow> World \<Rightarrow> nat \<Rightarrow> World \<Rightarrow> bool" where
  "writes_in_order cid queue w n w' \<longleftrightarrow> cid \<in> set (W_dead w') \<or>
     (\<exists>sent m rest. W_wire w' = W_wire w @ sent \<and>
       m \<le> length queue \<and> min n (length queue) \<le> m \<and>
       subseq (map (Pair cid) (take m queue)) sent \<and> queue_of w' cid = drop m queue @ rest)"

lemma writes_appends:
  assumes "writes_in_order cid queue w n v" and "appends cid v w'"
  shows "writes_in_order cid queue w n w'"
proof (cases "cid \<in> set (W_dead v)")
  case True
  then show ?thesis using assms(2) by (simp add: writes_in_order_def appends_def wired_def)
next
  case False
  then obtain sent m rest where v: "W_wire v = W_wire w @ sent" "m \<le> length queue"
      "min n (length queue) \<le> m" "subseq (map (Pair cid) (take m queue)) sent"
      "queue_of v cid = drop m queue @ rest"
    using assms(1) unfolding writes_in_order_def by blast
  obtain evs more where "queue_of w' cid = queue_of v cid @ evs" "W_wire w' = W_wire v @ more"
    using assms(2) unfolding appends_def wired_def by blast
  then show ?thesis
    unfolding writes_in_order_def using v
    by (intro disjI2 exI [of _ "sent @ more"] exI [of _ m] exI [of _ "rest @ evs"])
      (simp add: list_emb_prefix)
qed

lemma writes_shut:
  "writes_in_order cid queue w n v \<Longrightarrow> writes_in_order cid queue w n (shut_socket k v)"
  unfolding writes_in_order_def by auto

lemma writes_drain:
  assumes "writes_in_order cid queue w n v"
  shows "writes_in_order cid queue w (Suc n) (drain cid v)"
proof (cases "cid \<in> set (W_dead v)")
  case True
  then show ?thesis
    by (simp add: writes_in_order_def drain_def WriteUnsolicited_def split: list.split)
next
  case alive: False
  then obtain sent m rest where v: "W_wire v = W_wire w @ sent" "m \<le> length queue"
      "min n (length queue) \<le> m" "subseq (map (Pair cid) (take m queue)) sent"
      "queue_of v cid = drop m queue @ rest"
    using assms unfolding writes_in_order_def by blast
  show ?thesis
  proof (cases "m < length queue")
    case True
    then have d: "queue_of v cid = queue ! m # drop (Suc m) queue @ rest"
      by (simp add: v Cons_nth_drop_Suc [symmetric])
    then have "W_wire (drain cid v) = W_wire w @ sent @ [(cid, queue ! m)]"
      "queue_of (drain cid v) cid = drop (Suc m) queue @ rest"
      using alive by (simp_all add: drain_def WriteUnsolicited_def v(1))
    moreover have "subseq (map (Pair cid) (take (Suc m) queue)) (sent @ [(cid, queue ! m)])"
      using v(4) True by (simp add: take_Suc_conv_app_nth list_emb_append_mono)
    ultimately show ?thesis
      using v(3) True unfolding writes_in_order_def
      by (intro disjI2 exI [of _ "sent @ [(cid, queue ! m)]"] exI [of _ "Suc m"] exI [of _ rest]) simp
  next
    case False
    then have m: "m = length queue" using v(2) by simp
    obtain more where "W_wire (drain cid v) = W_wire v @ more"
      by (cases "queue_of v cid") (simp_all add: drain_def WriteUnsolicited_def)
    then show ?thesis
      using v(1,4) m unfolding writes_in_order_def
      by (intro disjI2 exI [of _ "sent @ more"] exI [of _ m] exI [of _ "queue_of (drain cid v) cid"])
        (simp add: list_emb_prefix)
  qed
qed

lemma writes_fewer:
  assumes "writes_in_order cid queue w (Suc n) w'"
  shows "writes_in_order cid queue w n w'"
proof -
  have "min (Suc n) (length queue) \<le> m \<Longrightarrow> min n (length queue) \<le> m" for m
    by simp
  then show ?thesis using assms unfolding writes_in_order_def by blast
qed

lemma execution_writes:
  "execution E cid w n w' \<Longrightarrow> writes_in_order cid (queue_of w cid) w n w'"
proof (induction rule: execution.induct)
  case (execution_refl w)
  show ?case unfolding writes_in_order_def
    by (intro disjI2 exI [of _ "[]"] exI [of _ 0]) simp
next
  case (execution_step w n v w')
  from step_appends [OF execution_step.hyps(2), of cid] show ?case
  proof
    assume "appends cid v w'"
    with execution_step.IH show ?case by (rule writes_appends)
  next
    assume "w' = drain cid v \<or> (\<exists>k. w' = shut_socket k v)"
    then show ?case
      using writes_fewer [OF writes_drain [OF execution_step.IH]] writes_shut [OF execution_step.IH]
      by blast
  qed
next
  case (execution_drain w n v)
  then show ?case by (blast intro: writes_drain)
qed

end
