(* ===== verification/Delivery_Properties.thy ===== *)
theory Delivery_Properties
  imports Delivery Index_Properties
begin

text \<open>
  The delivery of relayed events: who receives an event of a channel, and that it is written. Its
  example is a process with two logged-in connections, of which only the first may view channels.
\<close>

section \<open>An example\<close>

definition example_session :: "snowflake \<Rightarrow> string \<Rightarrow> GatewayConnection" where
  "example_session uid session = \<lparr>Conn_ws = True, Conn_queue = [], Conn_userID = uid,
     Conn_token = ''token'', Conn_session = session, Conn_seq = [], Conn_request = 0,
     Conn_closing = False, Conn_lastUserListRange = index_range 0 0\<rparr>"

text \<open>Ann (10) may view channels, bob (11) may not.\<close>

definition watched_index :: Index where
  "watched_index = example_index\<lparr>
     Index_Users := [(10, index_user example_db (example_user 10 ''ann'')),
       (11, index_user example_db (example_user 11 ''bob''))],
     Index_UserInfos := [(10, \<lparr>UserInfo_Rank = 1, UserInfo_Hoist = 0,
         UserInfo_Permissions = PermissionViewChannel\<rparr>),
       (11, \<lparr>UserInfo_Rank = 1, UserInfo_Hoist = 0, UserInfo_Permissions = 0\<rparr>)]\<rparr>"

definition earlier_event :: Event where
  "earlier_event = event EventTypeUserDelete (UserDeleteEvent 12)"

definition watched_world :: World where
  "watched_world = (initial_world example_db 0 0)\<lparr>
     W_gw := \<lparr>Gateway_connections = [(''s0'', 5), (''s1'', 7)], Gateway_pending = [],
       Gateway_index = watched_index\<rparr>,
     W_conns := [(5, (example_session 10 ''s0'')\<lparr>Conn_queue := [earlier_event]\<rparr>),
       (7, example_session 11 ''s1'')]\<rparr>"

definition example_event :: Event where
  "example_event = event EventTypeMessageDelete (MessageDeleteEvent 40)"

lemma watched_conns:
  "conn_of watched_world 5 = (example_session 10 ''s0'')\<lparr>Conn_queue := [earlier_event]\<rparr>"
  "conn_of watched_world 7 = example_session 11 ''s1''"
  "Conn_queue (example_session 11 ''s1'') = []" "W_wire watched_world = []"
  by (simp_all add: watched_world_def conn_of_def example_session_def initial_world_def)

lemma watched_sessions:
  "sessions_of watched_world 5 = 1" "sessions_of watched_world 7 = 1"
  by (simp_all add: sessions_of_def watched_world_def keys_def)

lemma watched_takes: "takes_events watched_world 5" "takes_events watched_world 7"
  by (simp_all add: takes_events_def watched_conns Connected_def Authenticated_def
      example_session_def)

lemma watched_perms:
  "index_GetPermissionsByChannel watched_index 10 30 = PermissionViewChannel"
  "index_GetPermissionsByChannel watched_index 11 30 = 0"
  by (simp_all add: index_GetPermissionsByChannel_def index_GetPermissionsByUser_def
      index_GetUser_def index_GetChannel_def watched_index_def example_index_def
      mask_permissions_def permission_defs perm_bit_def has_perm_def)

lemma watched_sees: "sees_channel watched_world 30 5" "\<not> sees_channel watched_world 30 7"
proof -
  have "W_index watched_world = watched_index" by (simp add: watched_world_def)
  then show "sees_channel watched_world 30 5" "\<not> sees_channel watched_world 30 7"
    by (simp_all add: sees_channel_def watched_conns example_session_def watched_perms
        has_perm_bit PermissionViewChannel_def bit_perm_bit)
qed

section \<open>Delivery\<close>

text \<open>C19: Relaying an event to a channel puts it into the queue of every connection that is open
  and logged in and whose user may view the channel by the index, once for each session that the
  gateway knows the connection under, as far as the queue has room; it changes no other queue and
  nothing else of the process, and the order in which the runtime visits the connections does not
  matter.\<close>

theorem channel_event_delivered:
  assumes "permutes_keys visit"
  shows "queues_only w (run_RelayByChannel visit ev ch w) \<and>
    queue_of (run_RelayByChannel visit ev ch w) cid =
      (if Connected (conn_of w cid) \<and> Authenticated (conn_of w cid) \<and>
          has_perm (index_GetPermissionsByChannel (W_index w) (Conn_userID (conn_of w cid)) ch)
            PermissionViewChannel
       then queue_of w cid @
         replicate (min (sessions_of w cid) (queue_capacity - length (queue_of w cid))) ev
       else queue_of w cid)"
  using run_RelayByChannel_queues [OF assms, of w ev ch cid]
  by (simp add: takes_events_def sees_channel_def offered_def)

theorem channel_event_delivered_witness:
  "queue_of (run_RelayByChannel rev example_event 30 watched_world) 5 = [earlier_event, example_event] \<and>
   queue_of (run_RelayByChannel rev example_event 30 watched_world) 7 = []"
  using channel_event_delivered [of rev watched_world example_event 30 5]
    channel_event_delivered [of rev watched_world example_event 30 7]
    watched_takes watched_sees
  by (simp add: watched_conns watched_sessions queue_capacity_def takes_events_def sees_channel_def)

text \<open>C20: Liveness. An event that is relayed to a channel while the queue of a viewer has room is
  written to the web socket of the viewer, after everything that was queued before it and in that
  order, once the write loop of the connection has come round more often than the queue was long,
  whatever steps the process takes meanwhile, unless one of them was the end of the socket: that
  the client went away, a write failed, or the process closed the socket (after a failed read, a
  panic of the connection's goroutine, or at shutdown). From then on every write is dropped.\<close>

theorem relayed_event_is_written:
  assumes "permutes_keys visit" and "takes_events w cid" and "sees_channel w ch cid"
    and "0 < sessions_of w cid" and "length (queue_of w cid) < queue_capacity"
    and "execution E cid (run_RelayByChannel visit ev ch w) n w'"
    and "length (queue_of w cid) < n" and "cid \<notin> set (W_dead w')"
  shows "\<exists>sent. W_wire w' = W_wire w @ sent \<and> subseq (map (Pair cid) (queue_of w cid @ [ev])) sent"
proof -
  let ?w = "run_RelayByChannel visit ev ch w"
  have only: "queues_only w ?w" and q: "queue_of ?w cid = offered (sessions_of w cid) ev (queue_of w cid)"
    using run_RelayByChannel_queues [OF assms(1), of w ev ch cid] assms(2,3) by auto
  obtain m where "min (sessions_of w cid) (queue_capacity - length (queue_of w cid)) = Suc m"
    using assms(4,5) by (metis Suc_pred min_less_iff_conj zero_less_diff)
  then have q: "queue_of ?w cid = queue_of w cid @ ev # replicate m ev"
    by (simp add: q offered_def)
  obtain sent k rest where sent: "W_wire w' = W_wire ?w @ sent" "min n (length (queue_of ?w cid)) \<le> k"
      "subseq (map (Pair cid) (take k (queue_of ?w cid))) sent"
    using execution_writes [OF assms(6)] assms(8) unfolding writes_in_order_def by blast
  have "Suc (length (queue_of w cid)) \<le> k" using sent(2) assms(7) by (simp add: q)
  then have "\<exists>ys. take k (queue_of ?w cid) = (queue_of w cid @ [ev]) @ ys"
    by (simp add: q take_Cons' Suc_le_eq)
  then have "subseq (map (Pair cid) (queue_of w cid @ [ev])) sent"
    using sent(3) by (metis map_append subseq_order.order_trans list_emb_prefix subseq_order.order_refl)
  moreover have "W_wire ?w = W_wire w" using only by (rule queues_only_gw)
  ultimately show ?thesis using sent(1) by auto
qed

theorem relayed_event_is_written_witness:
  "subseq [(5, earlier_event), (5, example_event)]
     (W_wire (drain 5 (shut_socket 7 (drain 5 (run_RelayByChannel rev example_event 30 watched_world)))))"
proof -
  let ?w = "run_RelayByChannel rev example_event 30 watched_world"
  have only: "queues_only watched_world ?w"
    using run_RelayByChannel_queues [OF permutes_keys_id(2)] by blast
  have "7 \<in> set (keys (W_conns (drain 5 ?w)))"
  proof -
    have "conn_of (drain 5 ?w) 7 = conn_of ?w 7"
      by (simp add: drain_def WriteUnsolicited_def split: list.split)
    moreover have "Conn_userID (conn_of ?w 7) = 11"
      using queues_only_conn(1) [OF only, of 7] by (simp add: watched_conns example_session_def)
    ultimately have "Conn_userID (conn_of (drain 5 ?w) 7) = 11" by simp
    then show ?thesis
      by (cases "get (W_conns (drain 5 ?w)) 7") (auto simp: conn_of_def Connection_zero_def get_keys_iff)
  qed
  then have "execution env0 5 ?w (Suc (Suc 0)) (drain 5 (shut_socket 7 (drain 5 ?w)))"
    by (intro execution_drain execution_step [OF _ step_shut] execution_refl)
  moreover have "5 \<notin> set (W_dead (drain 5 (shut_socket 7 (drain 5 ?w))))"
    using queues_only_gw(4) [OF only]
    by (simp add: drain_def WriteUnsolicited_def watched_world_def initial_world_def split: list.split)
  ultimately show ?thesis
    using relayed_event_is_written [of rev watched_world 5 30 env0 example_event "Suc (Suc 0)"]
      watched_takes watched_sees
    by (simp add: watched_conns watched_sessions queue_capacity_def)
qed

end
