(* ===== verification/Sessions.thy ===== *)
theory Sessions
  imports Reachability
begin

text \<open>
  Who a connection is logged in as: what a successful login, registration or token tells about the
  tables, that the token given out by one connection logs in another as the same user, and that a
  captcha response is accepted once.
\<close>

section \<open>What success tells\<close>

lemma Execute_Ok:
  "Execute E upd tx = (Ok x, tx') \<Longrightarrow> upd (Tx_db tx) = Some (Tx_db tx') \<and> Tx_commit tx' = Tx_commit tx"
  by (auto simp: Execute_def split: if_splits option.splits)

lemma step_row_Ok: "step_row E rows tx = (Ok r, tx') \<Longrightarrow>
    r = (case rows of [] \<Rightarrow> None | x # _ \<Rightarrow> Some x) \<and> tx' = next_tick tx"
  by (auto simp: step_row_def split: if_splits)

lemma insert_token_Some: "insert_token t db = Some db' \<Longrightarrow>
    db' = db\<lparr>DB_user_tokens := DB_user_tokens db @ [t]\<rparr>"
  by (simp add: insert_token_def split: if_splits)

lemma insert_user_Some: "insert_user u db = Some db' \<Longrightarrow>
    db' = db\<lparr>DB_users := DB_users db @ [u]\<rparr> \<and> UserRow_id u \<notin> user_ids db"
  by (simp add: insert_user_def split: if_splits)

definition token_row :: "snowflake \<Rightarrow> string \<Rightarrow> TokenRow \<Rightarrow> bool" where
  "token_row uid token t \<longleftrightarrow> TokenRow_user_id t = uid \<and> TokenRow_token t = token"

lemma AddToken_Ok:
  assumes "AddToken E uid tx = (Ok token, tx')"
  shows "\<exists>t. token_row uid token t \<and>
    Tx_db tx' = (Tx_db tx)\<lparr>DB_user_tokens := DB_user_tokens (Tx_db tx) @ [t]\<rparr> \<and>
    Tx_commit tx' = Tx_commit tx"
proof -
  let ?now = "Env_now E (Suc (Suc (Tx_tick tx)))"
  let ?t = "\<lparr>TokenRow_user_id = uid, TokenRow_token = token, TokenRow_created_at = ?now,
    TokenRow_last_used_at = ?now\<rparr>"
  have "insert_token ?t (Tx_db tx) = Some (Tx_db tx') \<and> Tx_commit tx' = Tx_commit tx"
    using assms unfolding AddToken_def Let_def
    by (auto dest!: Prepare_Ok with_code_Ok Execute_Ok elim!: and_then_OkE)
  then show ?thesis
    by (intro exI [of _ ?t] conjI insert_token_Some) (simp_all add: token_row_def)
qed

text \<open>A user row that a name and a password fit.\<close>

definition credentials_fit :: "Env \<Rightarrow> string \<Rightarrow> string \<Rightarrow> UserRow \<Rightarrow> bool" where
  "credentials_fit E username password u \<longleftrightarrow> UserRow_user_name u = username \<and>
     UserRow_hash u = HashSha256 E password (UserRow_salt u)"

lemma Login_Ok:
  assumes "Login E username password tx = (Ok (uid, token), tx')"
  shows "(\<exists>u \<in> set (DB_users (Tx_db tx)). credentials_fit E username password u \<and> UserRow_id u = uid) \<and>
    (\<exists>t. token_row uid token t \<and>
       Tx_db tx' = (Tx_db tx)\<lparr>DB_user_tokens := DB_user_tokens (Tx_db tx) @ [t]\<rparr>) \<and>
    Tx_commit tx' = Tx_commit tx"
proof -
  obtain row tx1 where row: "step_row E (filter (\<lambda>u. UserRow_user_name u = username)
      (DB_users (Tx_db tx))) tx = (Ok row, tx1)"
    and next_: "(case row of None \<Rightarrow> (Err (Coded ErrorCodeInvalidCredentials), tx1)
      | Some u \<Rightarrow> if UserRow_hash u \<noteq> HashSha256 E password (UserRow_salt u)
          then (Err (Coded ErrorCodeInvalidCredentials), tx1)
          else and_then (AddToken E (UserRow_id u) tx1)
            (\<lambda>token tx. (Ok (UserRow_id u, token), tx))) = (Ok (uid, token), tx')"
    using assms unfolding Login_def by (auto dest!: Prepare_Ok elim!: and_then_OkE dest: with_code_Ok)
  then obtain u where u: "row = Some u" "UserRow_hash u = HashSha256 E password (UserRow_salt u)"
      "UserRow_id u = uid" "AddToken E uid tx1 = (Ok token, tx')"
    by (auto split: option.splits if_splits elim!: and_then_OkE)
  have "u \<in> set (filter (\<lambda>u. UserRow_user_name u = username) (DB_users (Tx_db tx)))"
    using row u(1) step_row_found by metis
  moreover have "tx1 = next_tick tx" using step_row_Ok [OF row] by simp
  ultimately show ?thesis
    using u AddToken_Ok [OF u(4)] by (auto simp: credentials_fit_def)
qed

lemma Authenticate_Ok:
  assumes "Authenticate E token tx = (Ok uid, tx')"
  shows "\<exists>t \<in> set (DB_user_tokens (Tx_db tx)). token_row uid token t"
  using assms unfolding Authenticate_def token_row_def
  by (fastforce dest!: Prepare_Ok with_code_Ok step_row_found elim!: and_then_OkE
      split: option.splits)

lemma Authenticate_reliable:
  assumes "reliable E" and "Tx_commit tx \<noteq> None"
    and "filter (\<lambda>t. TokenRow_token t = token) (DB_user_tokens (Tx_db tx)) = t # ts"
  shows "\<exists>tx'. Authenticate E token tx = (Ok (TokenRow_user_id t), tx')"
  using assms by (auto simp: Authenticate_def UseToken_def Prepare_def Let_def)

text \<open>A registration makes a user with a new id.\<close>

lemma AddUser_Ok:
  assumes "AddUser E userName hash salt inviteCode email tx = (Ok uid, tx')"
  shows "uid \<notin> user_ids (Tx_db tx) \<and> (\<exists>t. uid = Env_generate E t) \<and>
    DB_user_tokens (Tx_db tx') = DB_user_tokens (Tx_db tx)"
proof -
  obtain x tx1 where valid: "IsUsernameValid E userName tx = (Ok x, tx1)"
    and rest: "Prepare (MarkAsWrite tx1) (\<lambda>tx. let userID = generate_id E tx;
             row = \<lparr>UserRow_id = userID, UserRow_user_name = userName,
               UserRow_display_name = userName, UserRow_presence = UserPresenceNone,
               UserRow_status_message = [], UserRow_profile_message = [],
               UserRow_profile_color = -1, UserRow_avatar_modified = 0,
               UserRow_hash = hash, UserRow_salt = salt,
               UserRow_email = (if email \<noteq> [] then Some email else None),
               UserRow_invite_code = (if inviteCode \<noteq> [] then Some inviteCode else None)\<rparr>
         in and_then (with_code ErrorCodeInternalError (Execute E (insert_user row) (next_tick tx)))
              (\<lambda>_ tx. (Ok userID, tx))) = (Ok uid, tx')"
    using assms unfolding AddUser_def by (auto elim!: and_then_OkE)
  have "Tx_db tx1 = Tx_db tx"
    using reads.R_IsUsernameValid [of tx E userName] valid by (simp add: same_tables_def)
  with rest show ?thesis
    unfolding Let_def
    by (auto dest!: Prepare_Ok with_code_Ok Execute_Ok insert_user_Some elim!: and_then_OkE
        simp: generate_id_def)
qed

lemma SetUserProfile_Ok:
  assumes "SetUserProfile E uid a b c d f tx = (Ok x, tx')"
  shows "DB_user_tokens (Tx_db tx') = DB_user_tokens (Tx_db tx)"
proof -
  have "Tx_db tx' = update_user uid (set_profile_columns a b c d f) (Tx_db tx)"
    using assms unfolding SetUserProfile_def by (auto dest!: Prepare_Ok with_code_Ok Execute_Ok)
  then show ?thesis by (simp add: update_user_def)
qed

lemma Register_Ok:
  assumes "Register E username password email inviteCode tx = (Ok (user, token), tx')"
    and "\<And>t. Env_generate E t \<noteq> 0"
  shows "User_ID user \<notin> user_ids (Tx_db tx) \<and>
    (\<exists>t. token_row (User_ID user) token t \<and>
       DB_user_tokens (Tx_db tx') = DB_user_tokens (Tx_db tx) @ [t])"
proof -
  define tx0 where "tx0 = next_tick (MarkAsWrite tx)"
  obtain uid hash salt tx1 tx2 tx3 where
      add: "AddUser E username hash salt inviteCode email tx0 = (Ok uid, tx1)"
    and set: "SetUserProfile E uid (Env_title E username) [] [] ProfileColorDefault
        AvatarModifiedDefault tx1 = (Ok (), tx2)"
    and token: "AddToken E uid tx2 = (Ok token, tx3)" and user: "GetUser E uid tx3 = (Ok user, tx')"
    using assms(1) unfolding Register_def Let_def tx0_def
    by (elim and_then_OkE) (auto dest!: with_code_Ok elim!: and_then_OkE)
  obtain t where t: "token_row uid token t"
      "Tx_db tx3 = (Tx_db tx2)\<lparr>DB_user_tokens := DB_user_tokens (Tx_db tx2) @ [t]\<rparr>"
    using AddToken_Ok [OF token] by blast
  have "uid \<notin> user_ids (Tx_db tx)" "uid \<noteq> 0"
    and "DB_user_tokens (Tx_db tx1) = DB_user_tokens (Tx_db tx)"
    using AddUser_Ok [OF add] assms(2) by (auto simp: tx0_def)
  moreover have "DB_user_tokens (Tx_db tx') = DB_user_tokens (Tx_db tx1) @ [t]"
    using t(2) SetUserProfile_Ok [OF set] GetUser_rows(2) [OF user] by simp
  ultimately show ?thesis using t(1) GetUser_id [OF user] by metis
qed

section \<open>The requests of a guest\<close>

text \<open>A request that has no effect but an error, or only leaves traces that no client sees.\<close>

definition denied :: "nat \<Rightarrow> World \<Rightarrow> World \<Rightarrow> bool" where
  "denied cid w w' \<longleftrightarrow> (\<exists>v. idle w v \<and> (w' = v \<or> (\<exists>e. w' = HandleError e cid v)))"

lemma denied_idle: "idle w v \<Longrightarrow> denied cid w v"
  by (auto simp: denied_def)

lemma denied_error: "idle w v \<Longrightarrow> denied cid w (HandleError e cid v)"
  by (auto simp: denied_def)

lemma denied_refuse: "idle w v \<Longrightarrow> in_tx v tx \<Longrightarrow> denied cid w (refuse E True e cid v tx)"
  unfolding refuse_def by (intro denied_error idle_trans [OF _ idle_rollback])

lemma denied_panic: "idle w v \<Longrightarrow> denied cid w (panic_tx k tx v)"
  by (intro denied_idle idle_trans [OF _ idle_panic_tx])

lemma denied_kept:
  assumes "denied cid w w'"
  shows "identity (conn_of w' k) = identity (conn_of w k)"
  using assms by (auto simp: denied_def idle_def conns_kept_def HandleError_def)

lemma denied_no_token:
  assumes "denied cid w w'" and "W_out w' = W_out w @ out" and "(k, ev) \<in> set out"
  shows "Event_Data ev \<noteq> TokenResponse token"
  using assms by (auto simp: denied_def idle_def HandleError_def error_event_def)

text \<open>Reading the settings and checking the captcha, which a login and a registration begin with.\<close>

lemma entry_cases:
  fixes E cid w needed response and k :: "World \<Rightarrow> Transaction \<Rightarrow> World"
  defines "w' \<equiv> tx_call cid w (GetSettings E (Start (begin_tx w)))
    (\<lambda>e tx. refuse E True e cid w tx)
    (\<lambda>settings tx. with_captcha E (needed settings) response settings cid w tx k)"
  obtains "denied cid w w'"
  | v tx where "w' = k v tx" and "idle w v" and "reading v tx"
proof -
  note outer = that(2)
  obtain x tx where r: "GetSettings E (Start (begin_tx w)) = (x, tx)" by fastforce
  have tx: "reading w tx"
    using read_tx.R_GetSettings [of "Start (begin_tx w)" E] r by (simp add: reads_tx_def)
  have in_tx: "in_tx w tx" using tx by (rule reading_in_tx)
  show ?thesis
  proof (cases x)
    case (Ok settings)
    let ?w = "w\<lparr>W_tick := Tx_tick tx\<rparr>"
    obtain y v where c: "hCaptchaVerify E response (Settings_CaptchaSiteKey settings)
        (Settings_CaptchaSecretKey settings) ?w = (y, v)" by fastforce
    have "idle w ?w" by (simp add: idle_def conns_kept_same)
    with captcha_idle [of ?w E response] c have v: "idle w v" by (metis idle_trans snd_conv)
    then have "reading v (tx\<lparr>Tx_tick := t\<rparr>)" for t
      using tx by (simp add: reading_def in_tx_def idle_def)
    then have k: ?thesis if "w' = k v (tx\<lparr>Tx_tick := t\<rparr>)" for t
      using \<open>\<And>t. reading v (tx\<lparr>Tx_tick := t\<rparr>)\<close> v that(1) by (intro outer) auto
    have err: "denied cid w (HandleError e cid (leak_tx tx' v))" for e tx'
      by (intro denied_error idle_trans [OF v idle_leak])
    show ?thesis
    proof (cases "needed settings")
      case True
      then show ?thesis
        using Ok r c k err that(1) denied_panic [OF v]
        by (cases y) (simp_all add: w'_def with_captcha_def)
    next
      case False
      then have "w' = k w tx" using Ok r by (simp add: w'_def with_captcha_def)
      then show ?thesis using idle_refl tx by (rule that(2))
    qed
  next
    case (Err e)
    with r in_tx show ?thesis by (intro that(1)) (simp add: w'_def denied_refuse)
  next
    case Panic
    with r show ?thesis by (intro that(1)) (simp add: w'_def denied_panic)
  qed
qed

text \<open>What a login or a registration that succeeds does.\<close>

definition enters :: "Env \<Rightarrow> nat \<Rightarrow> World \<Rightarrow> World \<Rightarrow> string \<Rightarrow> bool" where
  "enters E cid w w' token \<longleftrightarrow>
     Conn_token (conn_of w' cid) = token \<and>
     (\<exists>ev. Event_Data ev = TokenResponse token \<and> W_out w' = W_out w @ [(cid, ev)]) \<and>
     (commits E \<longrightarrow> (\<exists>t. token_row (Conn_userID (conn_of w' cid)) token t \<and>
        DB_user_tokens (W_db w') = DB_user_tokens (W_db w) @ [t]))"

lemma OnAuthentication_enters:
  fixes E cid ix
  assumes "idle w v" and "in_tx v tx" and "token_row uid token t"
    and "DB_user_tokens (Tx_db tx) = DB_user_tokens (W_db w) @ [t]"
  defines "w' \<equiv> Write (token_event token) cid (OnAuthentication E uid token cid
    (set_index ix (end_tx E False tx v)))"
  shows "enters E cid w w' token \<and> Conn_userID (conn_of w' cid) = uid"
proof -
  have "commits E \<Longrightarrow> W_db (end_tx E False tx v) = Tx_db tx"
    using W_db_end_tx [OF assms(2)] by (simp add: commits_def)
  moreover have "W_out v = W_out w" using assms(1) by (simp add: idle_def)
  ultimately show ?thesis
    using assms(3,4) by (auto simp: w'_def enters_def set_index_def token_event_def)
qed

lemma set_index_same: "set_index (W_index w) w = w"
  by (simp add: set_index_def set_gw_def)

lemma Login_enters:
  fixes E cid msg w
  defines "w' \<equiv> HandleLoginRequest E cid msg w"
  obtains "denied cid w w'"
  | req token where "decode_LoginRequest (UnknownEvent_Data msg) = Some req"
    and "\<exists>u \<in> set (DB_users (W_db w)). UserRow_id u = Conn_userID (conn_of w' cid) \<and>
      credentials_fit E (LoginRequest_Username req) (LoginRequest_Password req) u"
    and "enters E cid w w' token"
proof (cases "decode_LoginRequest (UnknownEvent_Data msg)")
  case None
  with that(1) show ?thesis by (simp add: w'_def HandleLoginRequest_def denied_error)
next
  case (Some req)
  let ?k = "\<lambda>w tx. tx_call cid w (Login E (LoginRequest_Username req) (LoginRequest_Password req) tx)
    (\<lambda>e tx. refuse E True e cid w tx) (\<lambda>(userID, token) tx.
      Write (token_event token) cid (OnAuthentication E userID token cid (end_tx E False tx w)))"
  have w': "w' = tx_call cid w (GetSettings E (Start (begin_tx w)))
    (\<lambda>e tx. refuse E True e cid w tx) (\<lambda>settings tx. with_captcha E
      (Settings_UsesLoginCaptcha settings) (LoginRequest_CaptchaResponse req) settings cid w tx ?k)"
    by (simp add: w'_def HandleLoginRequest_def Some)
  show ?thesis
  proof (rule entry_cases [of cid w E Settings_UsesLoginCaptcha "LoginRequest_CaptchaResponse req"
        ?k, folded w'])
    assume "denied cid w w'"
    then show ?thesis by (rule that(1))
  next
    fix v tx assume v: "w' = ?k v tx" "idle w v" "reading v tx"
    then have db: "Tx_db tx = W_db w" by (simp add: reading_def idle_def)
    obtain x tx' where r: "Login E (LoginRequest_Username req) (LoginRequest_Password req) tx =
        (x, tx')" by fastforce
    have tx': "in_tx v tx'"
      using open_tx.R_Login [of tx E] reading_in_tx [OF v(3)] r by (metis extends_tx_def snd_conv)
    show ?thesis
    proof (cases x)
      case (Ok y)
      obtain uid token where y: "y = (uid, token)" by (cases y)
      have e: "w' = Write (token_event token) cid (OnAuthentication E uid token cid
          (set_index (W_index (end_tx E False tx' v)) (end_tx E False tx' v)))"
        using v(1) r Ok y by (simp add: set_index_same del: end_tx_fields)
      have "\<exists>u \<in> set (DB_users (W_db w)). UserRow_id u = uid \<and>
          credentials_fit E (LoginRequest_Username req) (LoginRequest_Password req) u"
        using Login_Ok [OF r [unfolded Ok y]] unfolding db by blast
      moreover obtain t where t: "token_row uid token t"
          "DB_user_tokens (Tx_db tx') = DB_user_tokens (W_db w) @ [t]"
        using Login_Ok [OF r [unfolded Ok y]] unfolding db by auto
      moreover have "enters E cid w w' token" "Conn_userID (conn_of w' cid) = uid"
        using OnAuthentication_enters [OF v(2) tx' t] unfolding e by blast+
      ultimately show ?thesis using that(2) [OF Some] by simp
    next
      case (Err e)
      with that(1) r v(1) denied_refuse [OF v(2) tx'] show ?thesis by simp
    next
      case Panic
      with that(1) r v(1) denied_panic [OF v(2)] show ?thesis by simp
    qed
  qed
qed

lemma OnUserAdd_enters:
  assumes "enters E cid w w' token"
  shows "enters E cid w (OnUserAdd user w') token" "conn_of (OnUserAdd user w') = conn_of w'"
  using assms by (simp_all add: enters_def relay_defs fun_eq_iff)

lemma Register_enters:
  fixes E cid msg w
  assumes ids: "\<And>t. Env_generate E t \<noteq> 0"
  defines "w' \<equiv> HandleRegisterRequest E cid msg w"
  obtains "denied cid w w'"
  | req token where "decode_RegisterRequest (UnknownEvent_Data msg) = Some req"
    and "Conn_userID (conn_of w' cid) \<notin> user_ids (W_db w)" and "enters E cid w w' token"
proof (cases "decode_RegisterRequest (UnknownEvent_Data msg)")
  case None
  with that(1) show ?thesis by (simp add: w'_def HandleRegisterRequest_def denied_error)
next
  case (Some req)
  let ?call = "\<lambda>tx. Register E (RegisterRequest_Username req) (RegisterRequest_Password req)
    (RegisterRequest_Email req) (RegisterRequest_InviteCode req) tx"
  let ?k = "\<lambda>w tx. tx_call cid w (?call tx) (\<lambda>e tx. refuse E True e cid w tx) (\<lambda>(user, token) tx.
      let w = end_tx E False tx w;
          w = set_index (snd (index_AddUser user (W_index w))) w;
          w = OnAuthentication E (User_ID user) token cid w
      in OnUserAdd user (Write (token_event token) cid w))"
  have w': "w' = tx_call cid w (GetSettings E (Start (begin_tx w)))
    (\<lambda>e tx. refuse E True e cid w tx) (\<lambda>settings tx. with_captcha E
      (Settings_UsesCaptcha settings) (RegisterRequest_CaptchaResponse req) settings cid w tx ?k)"
    by (simp add: w'_def HandleRegisterRequest_def Some)
  show ?thesis
  proof (rule entry_cases [of cid w E Settings_UsesCaptcha "RegisterRequest_CaptchaResponse req"
        ?k, folded w'])
    assume "denied cid w w'"
    then show ?thesis by (rule that(1))
  next
    fix v tx assume v: "w' = ?k v tx" "idle w v" "reading v tx"
    then have db: "Tx_db tx = W_db w" by (simp add: reading_def idle_def)
    obtain x tx' where r: "?call tx = (x, tx')" by fastforce
    have tx': "in_tx v tx'"
      using open_tx.R_Register [of tx E] reading_in_tx [OF v(3)] r by (metis extends_tx_def snd_conv)
    show ?thesis
    proof (cases x)
      case (Ok y)
      obtain user token where y: "y = (user, token)" by (cases y)
      let ?ix = "snd (index_AddUser user (W_index (end_tx E False tx' v)))"
      let ?v = "Write (token_event token) cid (OnAuthentication E (User_ID user) token cid
          (set_index ?ix (end_tx E False tx' v)))"
      have e: "w' = OnUserAdd user ?v" using v(1) r Ok y by (simp add: Let_def)
      obtain t where new: "User_ID user \<notin> user_ids (W_db w)"
        and t: "token_row (User_ID user) token t" "DB_user_tokens (Tx_db tx') = DB_user_tokens (W_db w) @ [t]"
        using Register_Ok [OF r [unfolded Ok y] ids] by (auto simp: db)
      have "enters E cid w ?v token" "Conn_userID (conn_of ?v cid) = User_ID user"
        using OnAuthentication_enters [OF v(2) tx' t] by auto
      with OnUserAdd_enters new that(2) [OF Some] show ?thesis by (metis e)
    next
      case (Err e)
      with that(1) r v(1) denied_refuse [OF v(2) tx'] show ?thesis by simp
    next
      case Panic
      with that(1) r v(1) denied_panic [OF v(2)] show ?thesis by simp
    qed
  qed
qed

section \<open>Tokens\<close>

lemma served_identity: "served cid w w' \<Longrightarrow> identity (conn_of w' k) = identity (conn_of w k)"
  by (auto simp: served_def refused_def progress_def conns_kept_def)

text \<open>After the token of a new connection is looked up, nothing of the introduction changes who the
  connection is logged in as.\<close>

lemma Introduction_identity:
  "identity (conn_of (Introduction E visit token cid w) k) =
     identity (conn_of (if token \<noteq> [] then TryAuthenticate E token cid w else w) k)"
  using served_identity [OF served_settings] served_identity [OF progress_served [OF overview_progress]]
  by (simp add: Introduction_def Let_def)

lemma identity_Authenticated:
  assumes "identity c = identity d"
  shows "Conn_userID c = Conn_userID d" "Conn_token c = Conn_token d" "Authenticated c = Authenticated d"
  using assms by (simp_all add: identity_def Authenticated_def)

lemma TryAuthenticate_denied:
  assumes "\<And>uid tx. Authenticate E token (Start (begin_tx w)) \<noteq> (Ok uid, tx)"
  shows "denied cid w (TryAuthenticate E token cid w)"
proof -
  obtain x tx where r: "Authenticate E token (Start (begin_tx w)) = (x, tx)" by fastforce
  have "in_tx w tx"
    using open_tx.R_Authenticate [of "Start (begin_tx w)" E token] r by (simp add: extends_tx_def)
  with r assms show ?thesis
    by (cases x) (simp_all add: TryAuthenticate_def denied_error idle_rollback denied_panic)
qed

lemma TryAuthenticate_Ok:
  assumes "Authenticate E token (Start (begin_tx w)) = (Ok uid, tx)"
  shows "Conn_userID (conn_of (TryAuthenticate E token cid w) cid) = uid"
    and "Conn_token (conn_of (TryAuthenticate E token cid w) cid) = token"
  by (simp_all add: TryAuthenticate_def assms)

lemma begin_tables [simp]: "Tx_db (Start (begin_tx w)) = W_db w" "Tx_commit (Start (begin_tx w)) \<noteq> None"
  using reading_begin(1) [of w] by (auto simp: reading_def in_tx_def)

section \<open>Captchas\<close>

text \<open>What may happen to the table of used responses: only \<^verbatim>\<open>hCaptchaVerify\<close> touches it, and
  everything else the process does leaves it alone and lets time pass.\<close>

inductive captcha_run :: "Env \<Rightarrow> World \<Rightarrow> World \<Rightarrow> bool" for E where
  captcha_run_refl: "captcha_run E w w"
| captcha_run_verify: "captcha_run E w v \<Longrightarrow> captcha_run E w (snd (hCaptchaVerify E r site secret v))"
| captcha_run_other: "captcha_run E w v \<Longrightarrow> W_usedCaptchas w' = W_usedCaptchas v \<Longrightarrow>
    W_tick v \<le> W_tick w' \<Longrightarrow> captcha_run E w w'"

lemma clean_captchas_keeps:
  assumes "get used r = Some t" and "now - t \<le> fiveMinutes"
  shows "get (clean_captchas cleaned now used) r = Some t"
proof (cases "cleaned + fiveMinutes * 5 < now")
  case True
  have "get (filter (\<lambda>(r, t). \<not> fiveMinutes < now - t) m) r = Some t" if "get m r = Some t" for m
    using that assms(2) by (induction m) (auto split: if_splits)
  with True assms(1) show ?thesis by (simp add: clean_captchas_def)
qed (simp add: clean_captchas_def assms)

lemma verify_ticks: "W_tick v \<le> W_tick (snd (hCaptchaVerify E r site secret v))"
  by (simp add: hCaptchaVerify_def Let_def)

text \<open>The response \<open>r\<close> was entered at time \<open>t\<close>, and is still in the table if that was less than
  five minutes ago.\<close>

lemma used_stays:
  assumes "mono (Env_now E)" and "captcha_run E w w'" and "get (W_usedCaptchas w) r = Some t"
    and "Env_now E (W_tick w') - t \<le> fiveMinutes"
  shows "get (W_usedCaptchas w') r = Some t"
  using assms(2-4)
proof (induction rule: captcha_run.induct)
  case (captcha_run_refl w)
  then show ?case by simp
next
  case (captcha_run_verify w v s site secret)
  have "Env_now E (W_tick v) \<le> Env_now E (W_tick (snd (hCaptchaVerify E s site secret v)))"
    using assms(1) verify_ticks by (rule monoD)
  then have now: "Env_now E (W_tick v) - t \<le> fiveMinutes" using captcha_run_verify.prems(2) by simp
  then have "get (clean_captchas (W_usedCaptchasLastCleaned v) (Env_now E (W_tick v))
      (W_usedCaptchas v)) r = Some t"
    using captcha_run_verify by (intro clean_captchas_keeps) simp_all
  then show ?case by (auto simp: hCaptchaVerify_def Let_def)
next
  case (captcha_run_other w v w')
  moreover have "Env_now E (W_tick v) \<le> Env_now E (W_tick w')"
    using assms(1) captcha_run_other.hyps(3) by (rule monoD)
  ultimately show ?case by simp
qed

lemma verify_enters:
  assumes "mono (Env_now E)" and "fst (hCaptchaVerify E r site secret w) = Ok True"
  shows "\<exists>t. get (W_usedCaptchas (snd (hCaptchaVerify E r site secret w))) r = Some t \<and>
    Env_now E (W_tick w) \<le> t"
  using assms by (auto simp: hCaptchaVerify_def Let_def dest: monoD [of _ "W_tick w" "Suc (W_tick w)"])

lemma used_refused:
  assumes "get (W_usedCaptchas w) r = Some t" and "Env_now E (W_tick w) - t \<le> fiveMinutes"
  shows "fst (hCaptchaVerify E r site secret w) = Err (Coded ErrorCodeInvalidCaptcha)"
  using clean_captchas_keeps [OF assms] by (simp add: hCaptchaVerify_def Let_def)

end
