(* ===== verification/Session_Properties.thy ===== *)
theory Session_Properties
  imports Sessions Gateway_Examples
begin

text \<open>
  What it takes to be logged in, and what a token and a captcha response are good for.
\<close>

section \<open>Logging in\<close>

lemma guest_enters:
  fixes E cid msg w
  assumes "\<And>t. Env_generate E t \<noteq> 0"
  defines "w' \<equiv> process_guest E cid msg w"
  obtains "denied cid w w'"
  | req token where "UnknownEvent_Type msg = EventTypeLoginRequest"
    and "decode_LoginRequest (UnknownEvent_Data msg) = Some req"
    and "\<exists>u \<in> set (DB_users (W_db w)). UserRow_id u = Conn_userID (conn_of w' cid) \<and>
      credentials_fit E (LoginRequest_Username req) (LoginRequest_Password req) u"
    and "enters E cid w w' token"
  | req token where "UnknownEvent_Type msg = EventTypeRegisterRequest"
    and "decode_RegisterRequest (UnknownEvent_Data msg) = Some req"
    and "Conn_userID (conn_of w' cid) \<notin> user_ids (W_db w)" and "enters E cid w w' token"
proof -
  consider (login) "UnknownEvent_Type msg = EventTypeLoginRequest"
    | (register) "UnknownEvent_Type msg = EventTypeRegisterRequest"
        "UnknownEvent_Type msg \<noteq> EventTypeLoginRequest"
    | (other) "UnknownEvent_Type msg \<notin> {EventTypeLoginRequest, EventTypeRegisterRequest}"
    by blast
  then show ?thesis
  proof cases
    case login
    then have "w' = HandleLoginRequest E cid msg w" by (simp add: w'_def process_guest_def)
    then show ?thesis using Login_enters [of cid w E msg] that(1,2) login by metis
  next
    case register
    then have "w' = HandleRegisterRequest E cid msg w" by (simp add: w'_def process_guest_def)
    then show ?thesis using Register_enters [OF assms(1), of cid w msg] that(1,3) register by metis
  next
    case other
    then show ?thesis using that(1) by (simp add: w'_def process_guest_def denied_error)
  qed
qed

text \<open>C16: A connection becomes logged in only by a frame with the name and the password of a user
  in the table, who it is then logged in as, by a frame that registers a user with a new id, or,
  when it is opened, by a token that the table of tokens holds for that user. (The generator never
  yields 0, the id that means no user.)\<close>

theorem login_needs_credentials:
  assumes "\<And>t. Env_generate E t \<noteq> 0" and "\<not> Authenticated (conn_of w cid)"
  shows "(let w' = Process E visit frame cid w in Authenticated (conn_of w' cid) \<longrightarrow>
      (\<exists>msg. Read frame cid w = Some msg \<and>
        ((\<exists>req u. decode_LoginRequest (UnknownEvent_Data msg) = Some req \<and> u \<in> set (DB_users (W_db w)) \<and>
            credentials_fit E (LoginRequest_Username req) (LoginRequest_Password req) u \<and>
            Conn_userID (conn_of w' cid) = UserRow_id u) \<or>
         (\<exists>req. decode_RegisterRequest (UnknownEvent_Data msg) = Some req \<and>
            Conn_userID (conn_of w' cid) \<notin> user_ids (W_db w))))) \<and>
    (let w' = Introduction E visit token cid w in Authenticated (conn_of w' cid) \<longrightarrow>
      (\<exists>t \<in> set (DB_user_tokens (W_db w)). TokenRow_token t = token \<and>
        Conn_userID (conn_of w' cid) = TokenRow_user_id t))"
proof (unfold Let_def, intro conjI impI)
  let ?v = "Process E visit frame cid w"
  assume auth: "Authenticated (conn_of ?v cid)"
  obtain msg where msg: "Read frame cid w = Some msg"
    using auth assms(2) by (cases "Read frame cid w") (simp_all add: Process_def Authenticated_def)
  let ?w = "note_request msg cid w"
  have same: "W_db ?w = W_db w" "Authenticated (conn_of ?w cid) = Authenticated (conn_of w cid)"
    by (simp_all add: note_request_def Authenticated_def)
  have p: "?v = process_guest E cid msg ?w"
    using assms(2) same(2) by (simp add: Process_def msg Let_def)
  show "\<exists>msg. Read frame cid w = Some msg \<and>
        ((\<exists>req u. decode_LoginRequest (UnknownEvent_Data msg) = Some req \<and> u \<in> set (DB_users (W_db w)) \<and>
            credentials_fit E (LoginRequest_Username req) (LoginRequest_Password req) u \<and>
            Conn_userID (conn_of ?v cid) = UserRow_id u) \<or>
         (\<exists>req. decode_RegisterRequest (UnknownEvent_Data msg) = Some req \<and>
            Conn_userID (conn_of ?v cid) \<notin> user_ids (W_db w)))" (is ?entered)
  proof (rule guest_enters [OF assms(1), of cid ?w msg])
    assume "denied cid ?w (process_guest E cid msg ?w)"
    then have False
      using denied_kept identity_Authenticated(3) auth assms(2) same(2) p by metis
    then show ?entered ..
  qed (use msg same(1) p in \<open>metis+\<close>)
next
  define w' where w': "w' = Introduction E visit token cid w"
  assume "Authenticated (conn_of (Introduction E visit token cid w) cid)"
  then have auth: "Authenticated (conn_of w' cid)" by (simp add: w')
  have id: "identity (conn_of w' cid) =
      identity (conn_of (if token \<noteq> [] then TryAuthenticate E token cid w else w) cid)"
    by (simp add: w' Introduction_identity)
  have "token \<noteq> []" using identity_Authenticated(3) [OF id] auth assms(2) by auto
  with id have id: "identity (conn_of w' cid) = identity (conn_of (TryAuthenticate E token cid w) cid)"
    by simp
  then obtain uid tx where r: "Authenticate E token (Start (begin_tx w)) = (Ok uid, tx)"
    using TryAuthenticate_denied denied_kept identity_Authenticated(3) auth assms(2) by metis
  have "Conn_userID (conn_of w' cid) = uid"
    using TryAuthenticate_Ok(1) [OF r] identity_Authenticated(1) [OF id] by simp
  with Authenticate_Ok [OF r] show "\<exists>t \<in> set (DB_user_tokens (W_db w)). TokenRow_token t = token \<and>
        Conn_userID (conn_of (Introduction E visit token cid w) cid) = TokenRow_user_id t"
    unfolding w' by (auto simp: token_row_def)
qed

theorem login_needs_credentials_witness:
  "\<exists>u \<in> set (DB_users example_db). credentials_fit env0 ''ann'' ''secret'' u \<and>
     Conn_userID (conn_of example_logged_in 0) = UserRow_id u"
proof -
  have "\<not> Authenticated (conn_of example_connected 0)"
    by (simp add: connected_fields new_connection_def Authenticated_def)
  moreover have "Read (Some example_login) 0 example_connected = decode_UnknownEvent (Some example_login)"
    by (simp add: Read_def connected_fields new_connection_def)
  ultimately show ?thesis
    using login_needs_credentials [of env0 example_connected 0 "\<lambda>ks. ks" "Some example_login" "[]"]
      example_logged_in_fields(1,2)
    by (auto simp: connected_fields example_login_decoded example_logged_in_def [symmetric])
qed

text \<open>C17: The token that a login or a registration answers with logs another connection in as the
  same user, whatever else happened to the tables as long as the rows with this token are the same.
  (The engine does not fail, the token is a text that no earlier token is equal to, and the
  generator never yields 0.)\<close>

theorem token_resumes_session:
  assumes "reliable E" and "\<And>t. Env_generate E t \<noteq> 0" and "\<not> Authenticated (conn_of w cid)"
    and "W_out (Process E visit frame cid w) = W_out w @ out" and "(k, ev) \<in> set out"
    and "Event_Data ev = TokenResponse token" and "token \<noteq> []"
    and "token \<notin> TokenRow_token ` set (DB_user_tokens (W_db w))"
    and "filter (\<lambda>t. TokenRow_token t = token) (DB_user_tokens (W_db v)) =
      filter (\<lambda>t. TokenRow_token t = token) (DB_user_tokens (W_db (Process E visit frame cid w)))"
  shows "Conn_userID (conn_of (Introduction E visit' token cid' v) cid') =
      Conn_userID (conn_of (Process E visit frame cid w) cid) \<and>
    Conn_token (conn_of (Introduction E visit' token cid' v) cid') = token"
proof -
  let ?v = "Process E visit frame cid w"
  obtain msg where msg: "Read frame cid w = Some msg"
    using assms(4-6) by (cases "Read frame cid w") (auto simp: Process_def)
  let ?w = "note_request msg cid w"
  have same: "W_db ?w = W_db w" "W_out ?w = W_out w" by (simp_all add: note_request_def)
  have p: "?v = process_guest E cid msg ?w"
    using assms(3) by (simp add: Process_def msg Let_def note_request_def Authenticated_def)
  have "\<exists>token. enters E cid ?w ?v token"
  proof (rule guest_enters [OF assms(2), of cid ?w msg])
    assume "denied cid ?w (process_guest E cid msg ?w)"
    from denied_no_token [OF this _ assms(5), of token] have False
      using assms(4,6) same(2) by (simp add: p)
    then show ?thesis ..
  qed (use p in metis)+
  then obtain token' t e where e: "Event_Data e = TokenResponse token'" "W_out ?v = W_out w @ [(cid, e)]"
    and t: "token_row (Conn_userID (conn_of ?v cid)) token' t"
      "DB_user_tokens (W_db ?v) = DB_user_tokens (W_db w) @ [t]"
    using assms(1) unfolding enters_def same by (auto simp: commits_def)
  have "token' = token" using e assms(4-6) by auto
  have "filter (\<lambda>t. TokenRow_token t = token) (DB_user_tokens (W_db w)) = []"
    using assms(8) by (force simp: filter_empty_conv)
  with \<open>token' = token\<close>
  have "filter (\<lambda>t. TokenRow_token t = token) (DB_user_tokens (W_db v)) = [t]"
    using t assms(9) by (simp add: token_row_def)
  then obtain tx where r: "Authenticate E token (Start (begin_tx v)) = (Ok (TokenRow_user_id t), tx)"
    using Authenticate_reliable [OF assms(1), of "Start (begin_tx v)" token t "[]"] by auto
  have "identity (conn_of (Introduction E visit' token cid' v) cid') =
      identity (conn_of (TryAuthenticate E token cid' v) cid')"
    using assms(7) by (simp add: Introduction_identity)
  from identity_Authenticated(1,2) [OF this] TryAuthenticate_Ok [OF r, of cid'] t(1) show ?thesis
    by (simp add: token_row_def)
qed

theorem token_resumes_session_witness:
  "\<exists>token. Conn_userID (conn_of (Introduction env0 rev token 1 example_logged_in) 1) = 10 \<and>
     Conn_token (conn_of (Introduction env0 rev token 1 example_logged_in) 1) = token"
proof -
  obtain token where token: "token \<noteq> []" "W_out example_logged_in = W_out example_connected @
      [(0, (token_event token)\<lparr>Event_Seq := ''7''\<rparr>)]"
    using example_logged_in_fields(9) by blast
  have "\<not> Authenticated (conn_of example_connected 0)"
    by (simp add: connected_fields new_connection_def Authenticated_def)
  then show ?thesis
    using token_resumes_session [of env0 example_connected 0 "\<lambda>ks. ks" "Some example_login" _ 0 _ token
        example_logged_in rev 1, folded example_logged_in_def, OF _ _ _ token(2)] token(1)
    by (auto simp: env0_reliable connected_fields token_event_def example_logged_in_fields
        example_db_def Database_empty_def)
qed

section \<open>Captchas\<close>

text \<open>C18: A captcha response that was accepted is refused by every later check that comes within
  five minutes of it, for whatever site, whatever other responses were checked in between and
  whatever else the process did: the table of used responses is cleaned of old entries only. (The
  clock does not run backwards.)\<close>

theorem captcha_used_once:
  assumes "mono (Env_now E)" and "fst (hCaptchaVerify E r site secret w) = Ok True"
    and "captcha_run E (snd (hCaptchaVerify E r site secret w)) w'"
    and "Env_now E (W_tick w') \<le> Env_now E (W_tick w) + 5 * 60 * 1000"
  shows "fst (hCaptchaVerify E r site' secret' w') = Err (Coded ErrorCodeInvalidCaptcha)"
proof -
  obtain t where t: "get (W_usedCaptchas (snd (hCaptchaVerify E r site secret w))) r = Some t"
      "Env_now E (W_tick w) \<le> t"
    using verify_enters [OF assms(1,2)] by blast
  then have "Env_now E (W_tick w') - t \<le> fiveMinutes" using assms(4) by (simp add: fiveMinutes_def)
  with used_stays [OF assms(1,3) t(1)] show ?thesis by (intro used_refused)
qed

theorem captcha_used_once_witness:
  "fst (hCaptchaVerify env0 ''pass'' ''c'' ''d'' (snd (hCaptchaVerify env0 ''other'' ''a'' ''b''
     (snd (hCaptchaVerify env0 ''pass'' ''a'' ''b'' (initial_world example_db 0 0)))))) =
   Err (Coded ErrorCodeInvalidCaptcha)"
proof -
  let ?v = "snd (hCaptchaVerify env0 ''pass'' ''a'' ''b'' (initial_world example_db 0 0))"
  have "fst (hCaptchaVerify env0 ''pass'' ''a'' ''b'' (initial_world example_db 0 0)) = Ok True"
    by (simp add: hCaptchaVerify_def initial_world_def captcha_verdict_def clean_captchas_def Let_def)
  moreover have "W_tick (snd (hCaptchaVerify env0 ''other'' ''a'' ''b'' ?v)) \<le> 6"
    by (simp add: hCaptchaVerify_def initial_world_def Let_def)
  ultimately show ?thesis
    using captcha_used_once [of env0 "''pass''" "''a''" "''b''" "initial_world example_db 0 0"]
      captcha_run_verify [OF captcha_run_refl]
    by (simp add: mono_def)
qed

end
