(* ===== verification/Sending.thy ===== *)
theory Sending
  imports Authorization
begin

text \<open>
  What a request to send a message comes to: with the permission, the channel and the message
  replied to in place, the message is stored as a new row, answered with its id and announced in
  the channel with the content that a later reader of the row gets; otherwise nothing is stored.
\<close>

section \<open>Mentions leave the messages alone\<close>

definition same_messages :: "Transaction \<Rightarrow> Transaction \<Rightarrow> bool" where
  "same_messages tx tx' \<longleftrightarrow> Tx_commit tx' = Tx_commit tx \<and>
     DB_messages (Tx_db tx') = DB_messages (Tx_db tx) \<and> DB_embeds (Tx_db tx') = DB_embeds (Tx_db tx) \<and>
     DB_embed_fields (Tx_db tx') = DB_embed_fields (Tx_db tx)"

lemma same_messages_steps [simp]:
  "same_messages tx tx" "same_messages tx (MarkAsWrite tx') = same_messages tx tx'"
  "same_messages tx (next_tick tx') = same_messages tx tx'"
  by (simp_all add: same_messages_def)

text \<open>A call that ends without a panic and leaves the messages alone.\<close>

definition tame :: "Transaction \<Rightarrow> 'a go_result \<times> Transaction \<Rightarrow> bool" where
  "tame tx r \<longleftrightarrow> fst r \<noteq> Panic \<and> same_messages tx (snd r)"

lemma tame_and_then:
  assumes "tame tx r" and "\<And>x tx'. same_messages tx tx' \<Longrightarrow> tame tx (f x tx')"
  shows "tame tx (and_then r f)"
  using assms by (cases r; cases "fst r") (auto simp: tame_def)

lemma tame_write:
  assumes "\<And>db db'. upd db = Some db' \<Longrightarrow> DB_messages db' = DB_messages db \<and>
      DB_embeds db' = DB_embeds db \<and> DB_embed_fields db' = DB_embed_fields db"
    and "same_messages tx tx'"
  shows "tame tx (run_write E upd tx')"
  using assms(2) assms(1) [of "Tx_db tx'"]
  by (auto simp: tame_def run_write_def with_code_def Execute_def same_messages_def
      split: option.split)

lemma tame_for_each:
  assumes "\<And>x tx'. same_messages tx tx' \<Longrightarrow> tame tx (f x tx')" and "same_messages tx tx'"
  shows "tame tx (for_each f xs tx')"
  using assms(2)
proof (induction xs arbitrary: tx')
  case (Cons x xs)
  then show ?case by (auto intro!: tame_and_then assms(1))
qed (simp add: tame_def)

lemma SetMessageMentions_tame:
  assumes "Tx_commit tx \<noteq> None"
  shows "tame tx (SetMessageMentions E mid us rs cs tx)"
  unfolding SetMessageMentions_def Prepare_def using assms
  by (auto simp: delete_user_mentions_def delete_role_mentions_def delete_channel_mentions_def
      insert_user_mention_def insert_role_mention_def insert_channel_mention_def
      split: if_splits intro!: tame_and_then tame_for_each tame_write)

section \<open>Storing a message\<close>

text \<open>A message as \<^verbatim>\<open>HandleMessageSendRequest\<close> makes it, under an id that is not taken.\<close>

definition new_in :: "Database \<Rightarrow> Message \<Rightarrow> bool" where
  "new_in db m \<longleftrightarrow> Message_ID m \<notin> message_ids db \<and> Message_ReferenceID m \<noteq> Message_ID m \<and>
     Message_AuthorID m \<in> user_ids db \<and> Message_Embeds m = [] \<and> Message_Attachments m = []"

definition has_place :: "Database \<Rightarrow> Message \<Rightarrow> bool" where
  "has_place db m \<longleftrightarrow> Message_ChannelID m \<in> channel_ids db \<and>
     (Message_ReferenceID m \<noteq> 0 \<longrightarrow> Message_ReferenceID m \<in> message_ids db)"

lemma replace_new:
  assumes "new_in db m"
  shows "replace_message (row_of_message m) db = (if has_place db m
    then Some (db\<lparr>DB_messages := DB_messages db @ [row_of_message m]\<rparr>) else None)"
  using assms by (auto simp: replace_message_def new_in_def has_place_def row_of_message_def)

lemma AddMessage_result:
  assumes "reliable E" and "keys_ok (Tx_db tx)" and "Tx_commit tx = Some saved"
    and "Message_AuthorID m \<noteq> 0" and "new_in (Tx_db tx) m"
  shows "if has_place (Tx_db tx) m
    then \<exists>tx'. AddMessage E m tx = (Ok (), tx') \<and> Tx_commit tx' = Some saved \<and>
      DB_messages (Tx_db tx') = DB_messages (Tx_db tx) @ [row_of_message m] \<and>
      DB_embeds (Tx_db tx') = DB_embeds (Tx_db tx)
    else \<exists>tx'. AddMessage E m tx = (Err (Coded ErrorCodeInternalError), tx')"
proof -
  obtain u where "user_row (Tx_db tx) (Message_AuthorID m) = Some u"
    using user_row_exists assms(5) unfolding new_in_def by blast
  then have user: "GetUser E (Message_AuthorID m) tx = (Ok (user_view (Tx_db tx) u), next_tick tx)"
    using GetUser_result [OF assms(1) _ assms(2,4)] assms(3) by (simp add: tx_open_def)
  let ?tx = "MarkAsWrite (next_tick tx)"
  have none: "Message_Embeds m = []" "Message_Attachments m = []"
    using assms(5) by (simp_all add: new_in_def)
  show ?thesis
  proof (cases "has_place (Tx_db tx) m")
    case True
    let ?tx' = "(next_tick ?tx)\<lparr>Tx_db := (Tx_db tx)\<lparr>DB_messages :=
      DB_messages (Tx_db tx) @ [row_of_message m]\<rparr>\<rparr>"
    obtain x tx2 where r: "SetMessageMentions E (Message_ID m) (Message_MentionedUsers m)
        (Message_MentionedRoles m) (Message_MentionedChannels m) ?tx' = (x, tx2)" by fastforce
    then have "x \<noteq> Panic" and same: "same_messages ?tx' tx2"
      using SetMessageMentions_tame [of ?tx' E "Message_ID m" "Message_MentionedUsers m"
          "Message_MentionedRoles m" "Message_MentionedChannels m"] assms(3)
      by (simp_all add: tame_def r)
    then have "AddMessage E m tx = (Ok (), tx2)"
      using assms(1,3,5) True r
      by (cases x) (simp_all add: AddMessage_def user Prepare_def none replace_new)
    with same True assms(3) show ?thesis by (simp add: same_messages_def)
  next
    case False
    then show ?thesis using assms(1,3,5)
      by (simp add: AddMessage_def user Prepare_def none replace_new)
  qed
qed

lemma embed_rows_new:
  assumes "db_ok db" and "mid \<notin> message_ids db" and "DB_embeds db' = DB_embeds db"
  shows "embed_rows db' mid = []"
  using assms by (auto simp: embed_rows_def db_ok_def refs_ok_def refers_def filter_empty_conv)

lemma GetMessage_stored:
  assumes "reliable E" and "tx_open tx" and "db_ok (Tx_db tx)"
    and "row \<in> set (DB_messages (Tx_db tx))" and "embed_rows (Tx_db tx) (MessageRow_id row) = []"
  shows "GetMessage E (MessageRow_id row) tx = (Ok (message_of_row (Tx_db tx) row), next_tick tx)"
proof -
  have keys: "keys_ok (Tx_db tx)" using assms(3) by (simp add: db_ok_def)
  then have "message_row (Tx_db tx) (MessageRow_id row) = Some row"
    using assms(4) by (simp add: message_row_iff)
  with keys assms(1,2,5) show ?thesis by (simp add: GetMessage_result embeds_decode_def)
qed

definition announced :: "Database \<Rightarrow> Message \<Rightarrow> Message" where
  "announced db m = (message_of_row db (row_of_message m))\<lparr>
     Message_EmbeddableURLs := Message_EmbeddableURLs m\<rparr>"

lemma store_message_result:
  assumes "reliable E" and "db_ok (W_db w)" and "reading w tx" and "Message_AuthorID m \<noteq> 0"
    and "new_in (W_db w) m"
  shows "if has_place (W_db w) m
    then \<exists>tx' reference. store_message E m tx = (Ok (announced (Tx_db tx') m, reference), tx') \<and>
      in_tx w tx' \<and> DB_messages (Tx_db tx') = DB_messages (W_db w) @ [row_of_message m]
    else \<exists>e tx'. store_message E m tx = (Err e, tx') \<and> in_tx w tx'"
proof -
  have tx: "Tx_db tx = W_db w" "Tx_commit tx = Some (W_db w)"
    using assms(3) by (simp_all add: reading_def in_tx_def)
  have keys: "keys_ok (W_db w)" using assms(2) by (simp add: db_ok_def)
  have in_tx: "in_tx w (snd (store_message E m tx))"
    using store_message_frame [of tx E m] reading_in_tx [OF assms(3)] by (simp add: extends_tx_def)
  show ?thesis
  proof (cases "has_place (W_db w) m")
    case True
    then obtain tx1 where add: "AddMessage E m tx = (Ok (), tx1)" "Tx_commit tx1 = Some (W_db w)"
      and db: "DB_messages (Tx_db tx1) = DB_messages (W_db w) @ [row_of_message m]"
        "DB_embeds (Tx_db tx1) = DB_embeds (W_db w)"
      using AddMessage_result [OF assms(1) _ tx(2) assms(4), unfolded tx(1), OF keys assms(5)] by auto
    have "in_tx w tx1"
      using open_tx.R_AddMessage [of tx E m] reading_in_tx [OF assms(3)] add(1)
      by (simp add: extends_tx_def)
    then have ok: "db_ok (Tx_db tx1)" "tx_open tx1"
      using assms(2) add(2) by (simp_all add: in_tx_def tx_open_def)
    have mid: "MessageRow_id (row_of_message m) = Message_ID m" by (simp add: row_of_message_def)
    have "embed_rows (Tx_db tx1) (Message_ID m) = []"
      using embed_rows_new [OF assms(2) _ db(2)] assms(5) by (simp add: new_in_def)
    then have get: "GetMessage E (Message_ID m) tx1 =
        (Ok (message_of_row (Tx_db tx1) (row_of_message m)), next_tick tx1)"
      using GetMessage_stored [OF assms(1) ok(2,1), of "row_of_message m"] by (simp add: db mid)
    have "\<exists>reference tx'. store_message E m tx = (Ok (announced (Tx_db tx1) m, reference), tx') \<and>
        Tx_db tx' = Tx_db tx1"
    proof (cases "Message_ReferenceID (announced (Tx_db tx1) m) = 0")
      case True
      then show ?thesis by (simp add: store_message_def add get announced_def Let_def)
    next
      case False
      have "keys_ok (Tx_db (next_tick tx1))" "tx_open (next_tick tx1)"
        using ok by (simp_all add: db_ok_def tx_open_def)
      from GetMessage_result [OF assms(1) this(2,1)] False show ?thesis
        by (auto simp: store_message_def add get announced_def Let_def ignore_err_def
            split: option.split)
    qed
    then obtain reference tx' where r: "store_message E m tx = (Ok (announced (Tx_db tx') m, reference), tx')"
        "Tx_db tx' = Tx_db tx1" by force
    with in_tx True db(1) show ?thesis by auto
  next
    case False
    then have "\<exists>tx'. AddMessage E m tx = (Err (Coded ErrorCodeInternalError), tx')"
      using AddMessage_result [OF assms(1) _ tx(2) assms(4), unfolded tx(1), OF keys assms(5)] by simp
    then show ?thesis using in_tx False by (auto simp: store_message_def)
  qed
qed

section \<open>The request\<close>

text \<open>What is sent and announced when the message \<open>m\<close> is stored.\<close>

definition sent :: "nat \<Rightarrow> World \<Rightarrow> World \<Rightarrow> Message \<Rightarrow> bool" where
  "sent cid w w' m \<longleftrightarrow>
     DB_messages (W_db w') = DB_messages (W_db w) @ [row_of_message m] \<and>
     (\<exists>ev. Event_Data ev = MessageSendResponse (Message_ID m) \<and> W_out w' = W_out w @ [(cid, ev)]) \<and>
     (\<exists>add rest. MessageAddEvent_Message add = announced (W_db w') m \<and>
        W_tasks w' = W_tasks w @ RelayByChannelTask (event EventTypeMessageAdd (MessageAddEvent add))
          (Message_ChannelID m) # rest)"

lemma Finalize_result:
  assumes "reliable E" and "db_ok (W_db w)" and "Message_AuthorID m \<noteq> 0" and "new_in (W_db w) m"
  shows "if has_place (W_db w) m then sent cid w (FinalizeMessageSendRequest E m seq cid w) m
    else refused cid w (FinalizeMessageSendRequest E m seq cid w)"
proof (cases "has_place (W_db w) m")
  case True
  then obtain tx' reference where r: "store_message E m (Start (begin_tx w)) =
      (Ok (announced (Tx_db tx') m, reference), tx')" and tx': "in_tx w tx'"
    and db: "DB_messages (Tx_db tx') = DB_messages (W_db w) @ [row_of_message m]"
    using store_message_result [OF assms(1,2) reading_begin(1) assms(3,4)] by auto
  have "W_db (end_tx E False tx' w) = Tx_db tx'"
    using tx' assms(1) by (simp add: W_db_end_tx)
  moreover have "Message_ID (announced (Tx_db tx') m) = Message_ID m"
    "Message_ChannelID (announced (Tx_db tx') m) = Message_ChannelID m"
    by (simp_all add: announced_def message_of_row_def row_of_message_def)
  moreover define add where "add = \<lparr>MessageAddEvent_Message = announced (Tx_db tx') m,
    MessageAddEvent_Reference = reference, MessageAddEvent_Author =
      (case index_GetUser (W_index w) (Message_AuthorID (announced (Tx_db tx') m)) of
         None \<Rightarrow> User_zero | Some u \<Rightarrow> u)\<rparr>"
  moreover from this have "MessageAddEvent_Message add = announced (Tx_db tx') m" by simp
  ultimately show ?thesis
    using True db
    by (auto simp: FinalizeMessageSendRequest_def r sent_def relay_defs Let_def simp flip: add_def)
next
  case False
  then obtain e tx' where r: "store_message E m (Start (begin_tx w)) = (Err e, tx')" "in_tx w tx'"
    using store_message_result [OF assms(1,2) reading_begin(1) assms(3,4)] by auto
  then have "refused cid w (FinalizeMessageSendRequest E m seq cid w)"
    by (simp add: FinalizeMessageSendRequest_def refuse_def refused_HandleError idle_rollback)
  with False show ?thesis by simp
qed

lemma permissions_outside:
  assumes "orderly E w me"
  obtains p tx where "GetPermissionsByChannel E me ch (begin_tx w) = (Ok p, tx)"
    and "idle w (store_tx tx w)"
    and "\<And>n. n < 64 \<Longrightarrow> has_perm p (perm_bit n) \<longleftrightarrow> permits (W_db w) me ch n"
proof -
  obtain p tx where r: "GetPermissionsByChannel E me ch (begin_tx w) = (Ok p, tx)"
    and p: "\<forall>n < 64. bit p n \<longleftrightarrow> permits (W_db w) me ch n"
    using channel_permissions_exact [of E "begin_tx w" me ch] assms by (auto simp: orderly_def)
  have "Tx_db tx = W_db w"
    using reads.R_GetPermissionsByChannel [of "begin_tx w" E me ch] r by (simp add: same_tables_def)
  then have "idle w (store_tx tx w)" by (rule store_tx_reading)
  with r p show thesis by (intro that) (auto simp: has_perm_bit)
qed

text \<open>Whether the ids that the generator yields are new to the tables and to the request.\<close>

definition yields_new :: "Env \<Rightarrow> Database \<Rightarrow> snowflake \<Rightarrow> bool" where
  "yields_new E db reference \<longleftrightarrow> (\<forall>t. Env_generate E t \<notin> insert reference (message_ids db))"

lemma new_message_new:
  assumes "yields_new E db (MessageSendRequest_ReferenceID req)" and "author \<in> user_ids db"
  shows "new_in db (fst (new_message E req author a w))"
    and "Message_AuthorID (fst (new_message E req author a w)) = author"
    and "Message_ChannelID (fst (new_message E req author a w)) = MessageSendRequest_ChannelID req"
    and "Message_Content (fst (new_message E req author a w)) = MessageSendRequest_Content req"
    and "Message_ReferenceID (fst (new_message E req author a w)) = MessageSendRequest_ReferenceID req"
    and "snd (new_message E req author a w) = tick_world (tick_world w)"
  using assms by (auto simp: new_message_def new_in_def yields_new_def Message_zero_def
      split: prod.split)

lemma HandleMessageSendRequest_result:
  fixes E cid msg w
  defines "w' \<equiv> HandleMessageSendRequest E cid msg w" and "me \<equiv> Conn_userID (conn_of w cid)"
  assumes "orderly E w me" and "decode_MessageSendRequest (UnknownEvent_Data msg) = Some req"
    and "MessageSendRequest_AttachmentCount req \<le> 0"
    and "yields_new E (W_db w) (MessageSendRequest_ReferenceID req)"
  shows "if permits (W_db w) me (MessageSendRequest_ChannelID req) 5 \<and>
      MessageSendRequest_ChannelID req \<in> channel_ids (W_db w) \<and>
      MessageSendRequest_ReferenceID req \<in> insert 0 (message_ids (W_db w))
    then \<exists>m. sent cid w w' m \<and> Message_ID m \<notin> message_ids (W_db w) \<and> Message_AuthorID m = me \<and>
      Message_ChannelID m = MessageSendRequest_ChannelID req \<and>
      Message_Content m = MessageSendRequest_Content req \<and>
      Message_ReferenceID m = MessageSendRequest_ReferenceID req
    else refused cid w w'"
proof -
  let ?ch = "MessageSendRequest_ChannelID req"
  obtain p tx where r: "GetPermissionsByChannel E me ?ch (begin_tx w) = (Ok p, tx)"
    and v: "idle w (store_tx tx w)"
    and p: "\<And>n. n < 64 \<Longrightarrow> has_perm p (perm_bit n) \<longleftrightarrow> permits (W_db w) me ?ch n"
    using permissions_outside [OF assms(3)] by blast
  have me: "me \<in> user_ids (W_db w)" "me \<noteq> 0"
    using assms(3) ids_ok_zero unfolding orderly_def by metis+
  define new where "new = new_message E req me (has_perm p PermissionEmbedLinks) (store_tx tx w)"
  let ?w = "tick_world (tick_world (store_tx tx w))"
  note new = new_message_new [OF assms(6) me(1), of "has_perm p PermissionEmbedLinks" "store_tx tx w",
      folded new_def]
  have few: "\<not> 0 < MessageSendRequest_AttachmentCount req" using assms(5) by simp
  have p5: "has_perm p PermissionSendMessages = permits (W_db w) me ?ch 5"
    unfolding PermissionSendMessages_def by (rule p) simp
  have w': "w' = (if permits (W_db w) me ?ch 5
      then FinalizeMessageSendRequest E (fst new) (UnknownEvent_Seq msg) cid ?w
      else HandleError (Coded ErrorCodeNoPermission) cid (store_tx tx w))"
    unfolding w'_def HandleMessageSendRequest_def assms(4) decoded_simps Let_def tx_value_def
      me_def [symmetric] r tx_call_simps new_def [symmetric] case_prod_beta' new(6)
    by (simp add: p5 few)
  have idle: "idle w ?w" by (rule idle_trans [OF v idle_trans [OF idle_tick_world idle_tick_world]])
  have db: "W_db ?w = W_db w" "W_out ?w = W_out w" "W_tasks ?w = W_tasks w"
    using idle by (simp_all add: idle_def)
  have sent: "sent cid w v m" if "sent cid ?w v m" for v m
    using that unfolding sent_def db .
  have fin: "if has_place (W_db w) (fst new)
      then sent cid ?w (FinalizeMessageSendRequest E (fst new) (UnknownEvent_Seq msg) cid ?w) (fst new)
      else refused cid ?w (FinalizeMessageSendRequest E (fst new) (UnknownEvent_Seq msg) cid ?w)"
    using Finalize_result [of E ?w "fst new" cid "UnknownEvent_Seq msg", unfolded db(1)] new(1,2) me
      assms(3) unfolding orderly_def by blast
  have place: "has_place (W_db w) (fst new) \<longleftrightarrow> ?ch \<in> channel_ids (W_db w) \<and>
      MessageSendRequest_ReferenceID req \<in> insert 0 (message_ids (W_db w))"
    by (auto simp: has_place_def new)
  show ?thesis
  proof (cases "permits (W_db w) me ?ch 5 \<and> has_place (W_db w) (fst new)")
    case True
    then have "sent cid w w' (fst new)" using fin sent by (simp add: w')
    with True new show ?thesis by (auto simp: place new_in_def)
  next
    case False
    then have "refused cid w w'"
      using fin idle_refused [OF idle] refused_HandleError [OF v] by (auto simp: w')
    with False show ?thesis by (auto simp: place)
  qed
qed

end
