(* ===== verification/Ranks.thy ===== *)
theory Ranks
  imports Authorization
begin

text \<open>
  Ranks: the rank of a user is the least position of the user's roles.  Who changes the roles of
  a user must outrank the role and, unless it is the same user, the user.
\<close>

section \<open>The rank of a user\<close>

text \<open>The rank of a user: the least position of the user's roles.\<close>

definition rank_of :: "Database \<Rightarrow> snowflake \<Rightarrow> int" where
  "rank_of db uid = fold min (map Role_Position (List.map_filter (role_row db)
     (roles_of_user db uid))) MaxInt64"

definition cache_ok :: "Database \<Rightarrow> (snowflake, int) gomap \<Rightarrow> bool" where
  "cache_ok db cache \<longleftrightarrow> (\<forall>k p. get cache k = Some p \<longrightarrow>
     (\<exists>r. role_row db k = Some r \<and> Role_Position r = p))"

lemma tx_open_tick [simp]: "tx_open (tx\<lparr>Tx_tick := t\<rparr>) = tx_open tx"
  by (simp add: tx_open_def)

lemma effective_rank_loop_result:
  assumes "reliable E" and "tx_open tx" and "keys_ok (Tx_db tx)" and "0 \<notin> set rids"
    and "cache_ok (Tx_db tx) cache"
  shows "\<exists>cache' t. effective_rank_loop E rids rank cache tx =
    (Ok (fold min (map Role_Position (List.map_filter (role_row (Tx_db tx)) rids)) rank, cache'),
     tx\<lparr>Tx_tick := t\<rparr>) \<and> cache_ok (Tx_db tx) cache'"
  using assms
proof (induction rids arbitrary: rank cache tx)
  case Nil
  then show ?case by (auto simp: map_filter_simps intro: exI [of _ "Tx_tick tx"])
next
  case (Cons rid rids)
  have min: "(if p < r then p else r) = min p r" for p r :: int by simp
  show ?case
  proof (cases "get cache rid")
    case (Some p)
    then obtain r where "role_row (Tx_db tx) rid = Some r" "Role_Position r = p"
      using Cons.prems(5) by (auto simp: cache_ok_def)
    with Some Cons.prems Cons.IH [of tx cache] show ?thesis
      by (simp add: map_filter_simps min)
  next
    case None
    have get: "GetRole E rid tx = (case role_row (Tx_db tx) rid of
        None \<Rightarrow> (Err (Coded ErrorCodeInvalidRequest), next_tick tx) | Some r \<Rightarrow> (Ok r, next_tick tx))"
      using Cons.prems by (intro GetRole_result) auto
    show ?thesis
    proof (cases "role_row (Tx_db tx) rid")
      case None
      with \<open>get cache rid = None\<close> get Cons.prems Cons.IH [of "next_tick tx" cache] show ?thesis
        by (simp add: map_filter_simps next_tick_def)
    next
      case (Some r)
      then have "cache_ok (Tx_db tx) (put rid (Role_Position r) cache)"
        using Cons.prems(5) by (auto simp: cache_ok_def)
      with Some \<open>get cache rid = None\<close> get Cons.prems
        Cons.IH [of "next_tick tx" "put rid (Role_Position r) cache"] show ?thesis
        by (simp add: map_filter_simps next_tick_def min)
    qed
  qed
qed

lemma ComputeEffectiveRank_result:
  assumes "reliable E" and "reading w tx" and "db_ok (W_db w)" and "ids_ok (W_db w)"
    and "user_row (W_db w) uid = Some u" and "cache_ok (W_db w) cache"
  obtains cache' tx' where "reading w tx'" and "cache_ok (W_db w) cache'"
    and "ComputeEffectiveRank E (user_view (W_db w) u) cache tx =
      (Ok (rank_of (W_db w) uid, cache'), tx')"
proof -
  have uid: "UserRow_id u = uid" using assms(5) by (auto simp: user_row_def find_Some_iff)
  have "0 \<notin> role_ids (W_db w)" using ids_ok_zero assms(4) by blast
  then have "0 \<notin> set (roles_of_user (W_db w) uid)"
    using assms(3) by (auto simp: roles_of_user_def db_ok_def refs_ok_def refers_def)
  moreover have "Tx_db tx = W_db w" "tx_open tx"
    using assms(2) by (simp_all add: reading_tables reading_open)
  ultimately obtain cache' t where "cache_ok (W_db w) cache'"
    and "ComputeEffectiveRank E (user_view (W_db w) u) cache tx =
      (Ok (rank_of (W_db w) uid, cache'), tx\<lparr>Tx_tick := t\<rparr>)"
    using effective_rank_loop_result [of E tx "roles_of_user (W_db w) uid" cache MaxInt64] assms
    by (auto simp: ComputeEffectiveRank_def rank_of_def user_view_def uid db_ok_def)
  moreover have "reading w (tx\<lparr>Tx_tick := t\<rparr>)" using assms(2) by (simp add: reading_def)
  ultimately show thesis using that by blast
qed

section \<open>Changing the roles of a user\<close>

definition may_change_role :: "Database \<Rightarrow> snowflake \<Rightarrow> snowflake \<Rightarrow> snowflake \<Rightarrow> bool" where
  "may_change_role db me uid rid \<longleftrightarrow> base_grants db me 16 \<and>
     (uid = me \<or> rank_of db me < rank_of db uid) \<and>
     (\<exists>role. role_row db rid = Some role \<and> rank_of db me < Role_Position role)"

lemma W_db_publish_user [simp]: "W_db (publish_user visit cid user w) = W_db w"
  by (cases "index_UpdateUser visit user (W_index w)")
    (auto simp: publish_user_def relay_defs set_index_def panic_def)

text \<open>The tail of the two requests, after their guards: at most the change is committed.\<close>

lemma change_role_tail:
  assumes "in_tx w (snd r)"
    and "Tx_db (snd r) = W_db w \<or> upd (W_db w) = Some (Tx_db (snd r))"
    and "w' = tx_call cid w r (\<lambda>e tx. refuse E True e cid w tx) (\<lambda>_ tx.
    tx_call cid w (GetUser E uid tx) (\<lambda>e tx. refuse E True e cid w tx) (\<lambda>user tx.
    publish_user visit cid user (end_tx E False tx w)))"
  shows "W_db w' = W_db w \<or> upd (W_db w) = Some (W_db w')"
proof -
  obtain x tx1 where r1: "r = (x, tx1)" by (cases r)
  then have tx1: "in_tx w tx1" "Tx_db tx1 = W_db w \<or> upd (W_db w) = Some (Tx_db tx1)"
    using assms(1,2) by simp_all
  obtain y tx2 where r2: "GetUser E uid tx1 = (y, tx2)" by (cases "GetUser E uid tx1")
  then have tx2: "in_tx w tx2" "Tx_db tx2 = Tx_db tx1"
    using open_tx.R_GetUser [of tx1 E uid] reads.R_GetUser [of tx1 E uid] tx1(1)
    by (simp_all add: extends_tx_def same_tables_def)
  show ?thesis
    using tx1 tx2 by (cases x; cases y) (auto simp: assms(3) r1 r2 W_db_refuse W_db_end_tx)
qed

text \<open>A call that only reads, and refuses the request when it fails.\<close>

lemma reads_or_refuses:
  assumes "reads_tx tx (snd r)" and "reading w tx"
    and "\<And>x tx'. r = (Ok x, tx') \<Longrightarrow> reading w tx' \<Longrightarrow> W_db (f x tx') = W_db w \<or> Q (W_db (f x tx'))"
  shows "W_db (tx_call cid w r (\<lambda>e tx. refuse E b e cid w tx) f) = W_db w \<or>
    Q (W_db (tx_call cid w r (\<lambda>e tx. refuse E b e cid w tx) f))"
  by (rule tx_call_reads [OF assms(1,2)]) (simp_all add: W_db_deny assms(3))

lemma GetUser_view:
  assumes "orderly E w me" and "reading w tx" and "GetUser E uid tx = (Ok user, tx')" and "uid \<noteq> 0"
  obtains u where "user_row (W_db w) uid = Some u" and "user = user_view (W_db w) u"
  using GetUser_result [of E tx uid] assms reading_open [OF assms(2)] reading_tables [OF assms(2)]
  by (auto simp: orderly_def db_ok_def split: option.splits)

lemma GetRole_row:
  assumes "orderly E w me" and "reading w tx" and "GetRole E rid tx = (Ok role, tx')" and "rid \<noteq> 0"
  shows "role_row (W_db w) rid = Some role \<and> Role_ID role = rid"
  using GetRole_result [of E tx rid] assms reading_open [OF assms(2)] reading_tables [OF assms(2)]
  by (auto simp: orderly_def db_ok_def role_row_def find_Some_iff split: option.splits)

lemma change_user_role_result:
  fixes me :: snowflake
  assumes "orderly E w me" and "me = Conn_userID (conn_of w cid)"
    and "\<And>tx. in_tx w tx \<Longrightarrow> in_tx w (snd (change tx))"
    and "\<And>tx. reading w tx \<Longrightarrow> Tx_db (snd (change tx)) = W_db w \<or>
      upd (W_db w) = Some (Tx_db (snd (change tx)))"
    and "uid = 0 \<or> rid = 0 \<Longrightarrow> upd (W_db w) = None \<or> upd (W_db w) = Some (W_db w)"
    and "w' = change_user_role E visit uid rid nothing change cid w" and "W_db w' \<noteq> W_db w"
  shows "may_change_role (W_db w) me uid rid \<and> upd (W_db w) = Some (W_db w')"
proof -
  let ?Q = "\<lambda>db. may_change_role (W_db w) me uid rid \<and> upd (W_db w) = Some db"
  have ok: "reliable E" "db_ok (W_db w)" "ids_ok (W_db w)" "me \<in> user_ids (W_db w)"
    using assms(1) by (simp_all add: orderly_def)
  have me: "me \<noteq> 0" using ids_ok_zero ok(3,4) by blast
  have "W_db w' = W_db w \<or> ?Q (W_db w')"
  proof (cases "base_grants (W_db w) me 16")
    case False
    with with_manage_roles_denied [of E w cid] assms(1,2) show ?thesis
      by (simp add: assms(6) change_user_role_def Let_def refused_def)
  next
    case grants: True
    obtain tx0 where tx0: "reading w tx0" and k: "\<And>k. with_manage_roles E cid w k = k tx0"
      using with_manage_roles_allowed [of E w cid] assms(1,2) grants by metis
    show ?thesis
      unfolding assms(6) change_user_role_def Let_def k assms(2) [symmetric]
      apply (rule reads_or_refuses [OF read_tx.R_GetUser tx0])
      apply (rule reads_or_refuses [OF read_tx.R_GetRole], assumption)
      apply (split if_split, intro conjI impI)
      subgoal by (simp add: W_db_end_tx reading_in_tx reading_tables)
      apply (rule reads_or_refuses [OF read_tx.R_GetUser], assumption)
      apply (rule reads_or_refuses [OF ComputeEffectiveRank_frames(2)], assumption)
      apply (simp only: split_paired_all prod.case)
      apply (rule reads_or_refuses [OF ComputeEffectiveRank_frames(2)], assumption)
      subgoal premises p for target tx1 role tx2 actor tx3 actorRank cache tx4 x tx5
      proof -
        obtain targetRank cache' where x: "x = (targetRank, cache')" by (cases x)
        have allowed: "may_change_role (W_db w) me uid rid"
          if nz: "uid \<noteq> 0" "rid \<noteq> 0" and rank: "uid = me \<or> actorRank < targetRank"
            "actorRank < Role_Position role"
        proof -
          have role: "role_row (W_db w) rid = Some role" "Role_ID role = rid"
            using GetRole_row [OF assms(1) p(2) p(3) nz(2)] by simp_all
          obtain u where u: "user_row (W_db w) uid = Some u" "target = user_view (W_db w) u"
            using GetUser_view [OF assms(1) tx0 p(1) nz(1)] .
          obtain a where a: "user_row (W_db w) me = Some a" "actor = user_view (W_db w) a"
            using GetUser_view [OF assms(1) p(4) p(6) me] .
          have "cache_ok (W_db w) [(Role_ID role, Role_Position role)]"
            using role by (simp add: cache_ok_def)
          from ComputeEffectiveRank_result [OF ok(1) p(7) ok(2,3) a(1) this] p(8)
          have 1: "actorRank = rank_of (W_db w) me" "cache_ok (W_db w) cache" by (auto simp: a(2))
          from ComputeEffectiveRank_result [OF ok(1) p(9) ok(2,3) u(1) 1(2)] p(10)
          have "targetRank = rank_of (W_db w) uid" by (auto simp: u(2) x)
          with 1 rank role grants show ?thesis by (simp add: may_change_role_def)
        qed
        let ?tail = "tx_call cid w (change tx5) (\<lambda>e tx. refuse E True e cid w tx) (\<lambda>_ tx.
          tx_call cid w (GetUser E uid tx) (\<lambda>e tx. refuse E True e cid w tx) (\<lambda>user tx.
          publish_user visit cid user (end_tx E False tx w)))"
        have "W_db ?tail = W_db w \<or> upd (W_db w) = Some (W_db ?tail)"
          by (rule change_role_tail [where upd = upd and w = w, OF assms(3) [OF reading_in_tx [OF p(11)]]
                assms(4) [OF p(11)] refl])
        with allowed assms(5)
        have "W_db ?tail = W_db w \<or> ?Q (W_db ?tail)"
          if "uid = me \<or> actorRank < targetRank" "actorRank < Role_Position role"
          using that by (cases "uid = 0 \<or> rid = 0") auto
        then show ?thesis by (auto simp: x W_db_deny [OF p(11)] not_le)
      qed
      done
  qed
  with assms(7) show ?thesis by simp
qed

lemma reading_commit: "reading w tx \<Longrightarrow> Tx_commit tx = Some (W_db w)"
  by (simp add: reading_def in_tx_def)

text \<open>And the change is made when the guards hold and the statement succeeds.\<close>

lemma GetUser_found:
  assumes "reliable E" and "in_tx w tx" and "db_ok (Tx_db tx)" and "uid \<in> user_ids (Tx_db tx)"
    and "uid \<noteq> 0"
  obtains u tx' where "user_row (Tx_db tx) uid = Some u"
    and "GetUser E uid tx = (Ok (user_view (Tx_db tx) u), tx')"
    and "in_tx w tx'" and "Tx_db tx' = Tx_db tx"
proof -
  obtain u where u: "user_row (Tx_db tx) uid = Some u" using user_row_exists [OF assms(4)] by blast
  have "GetUser E uid tx = (Ok (user_view (Tx_db tx) u), next_tick tx)"
    using GetUser_result [of E tx uid] assms u by (simp add: tx_open_def in_tx_def db_ok_def)
  with u assms(2) that show thesis by simp
qed

lemma change_user_role_allowed:
  assumes "orderly E w me" and "me = Conn_userID (conn_of w cid)"
    and "may_change_role (W_db w) me uid rid" and "uid \<in> user_ids (W_db w)"
    and "\<not> nothing (rid \<in> set (roles_of_user (W_db w) uid))"
    and "\<And>tx. reading w tx \<Longrightarrow> \<exists>tx'. change tx = (Ok (), tx') \<and> in_tx w tx' \<and> Tx_db tx' = db'"
  shows "W_db (change_user_role E visit uid rid nothing change cid w) = db'"
proof -
  have ok: "reliable E" "db_ok (W_db w)" "ids_ok (W_db w)" "me \<in> user_ids (W_db w)"
    using assms(1) by (simp_all add: orderly_def)
  obtain role where role: "role_row (W_db w) rid = Some role" "rank_of (W_db w) me < Role_Position role"
    and grants: "base_grants (W_db w) me 16"
    and rank: "uid = me \<or> rank_of (W_db w) me < rank_of (W_db w) uid"
    using assms(3) unfolding may_change_role_def by blast
  have rid: "Role_ID role = rid" "rid \<in> role_ids (W_db w)"
    using role(1) by (auto simp: role_row_def find_Some_iff)
  have nz: "uid \<noteq> 0" "me \<noteq> 0" "rid \<noteq> 0" using ids_ok_zero [OF ok(3)] ok(4) assms(4) rid by metis+
  obtain tx0 where tx0: "reading w tx0" and k: "\<And>k. with_manage_roles E cid w k = k tx0"
    using with_manage_roles_allowed [of E w cid] assms(1,2) grants by metis
  have found: "\<exists>x tx'. user_row (W_db w) id = Some x \<and>
      GetUser E id tx = (Ok (user_view (W_db w) x), tx') \<and> reading w tx'"
    if "reading w tx" and "id \<in> user_ids (W_db w)" and "id \<noteq> 0" for id tx
    using GetUser_found [OF ok(1) reading_in_tx [OF that(1)], of id] that reading_tables [OF that(1)]
      ok(2) by (metis reading_def)
  obtain u tx1 where u: "user_row (W_db w) uid = Some u" and tx1: "reading w tx1"
    and t: "GetUser E uid tx0 = (Ok (user_view (W_db w) u), tx1)"
    using found [OF tx0 assms(4) nz(1)] by blast
  have r: "GetRole E rid tx1 = (Ok role, next_tick tx1)"
    using GetRole_result [of E tx1 rid] tx1 ok nz role
    by (simp add: reading_open reading_tables db_ok_def)
  obtain a tx2 where a: "user_row (W_db w) me = Some a" and tx2: "reading w tx2"
    and t2: "GetUser E me (next_tick tx1) = (Ok (user_view (W_db w) a), tx2)"
    using found [of "next_tick tx1" me] ok(4) nz(2) tx1 by auto
  have "cache_ok (W_db w) [(rid, Role_Position role)]" using role by (simp add: cache_ok_def)
  then obtain c tx3 where tx3: "reading w tx3" and c: "cache_ok (W_db w) c"
    and r1: "ComputeEffectiveRank E (user_view (W_db w) a) [(rid, Role_Position role)] tx2 =
      (Ok (rank_of (W_db w) me, c), tx3)"
    using ComputeEffectiveRank_result [OF ok(1) tx2 ok(2,3) a] by metis
  obtain c' tx4 where tx4: "reading w tx4"
    and r2: "ComputeEffectiveRank E (user_view (W_db w) u) c tx3 =
      (Ok (rank_of (W_db w) uid, c'), tx4)"
    using ComputeEffectiveRank_result [OF ok(1) tx3 ok(2,3) u c] by metis
  obtain tx5 where ch: "change tx4 = (Ok (), tx5)" and tx5: "in_tx w tx5" "Tx_db tx5 = db'"
    using assms(6) [OF tx4] by blast
  have "db_ok (Tx_db tx5)" "uid \<in> user_ids (Tx_db tx5)"
    using tx5(1) ok(2) assms(4) by (auto simp: in_tx_def)
  then obtain u' tx6 where t6: "GetUser E uid tx5 = (Ok u', tx6)" and tx6: "in_tx w tx6" "Tx_db tx6 = db'"
    using GetUser_found [OF ok(1) tx5(1) _ _ nz(1)] tx5(2) by metis
  have "Tx_commit tx6 = Some (W_db w)" using tx6(1) by (simp add: in_tx_def)
  moreover have "User_Roles (user_view (W_db w) u) = roles_of_user (W_db w) uid"
    using u by (auto simp: user_view_def user_row_def find_Some_iff)
  ultimately show ?thesis
    using assms(5) rank role(2) tx6(2)
    by (auto simp: change_user_role_def k Let_def assms(2) [symmetric] t r t2 rid r1 r2 ch t6
        W_db_committed [OF ok(1)])
qed

lemma Execute_tables:
  "Tx_db (snd (Prepare (MarkAsWrite tx) (\<lambda>tx. with_code c (Execute E upd tx)))) = Tx_db tx \<or>
   upd (Tx_db tx) =
     Some (Tx_db (snd (Prepare (MarkAsWrite tx) (\<lambda>tx. with_code c (Execute E upd tx)))))"
  by (auto simp: Prepare_def with_code_def Execute_def split: option.split)

lemma delete_absent_role:
  "(uid, rid) \<notin> set (DB_user_roles db) \<Longrightarrow> delete_user_role uid rid db = db"
  unfolding delete_user_role_def by (subst filter_True) auto

lemma HandleUserRoleAddRequest_rank:
  assumes "orderly E w (Conn_userID (conn_of w cid))"
    and "W_db (HandleUserRoleAddRequest E visit cid msg w) \<noteq> W_db w"
  shows "\<exists>req. decode_UserRoleAddRequest (UnknownEvent_Data msg) = Some req \<and>
    may_change_role (W_db w) (Conn_userID (conn_of w cid))
      (UserRoleAddRequest_UserID req) (UserRoleAddRequest_RoleID req) \<and>
    insert_user_role (UserRoleAddRequest_UserID req) (UserRoleAddRequest_RoleID req) (W_db w) =
      Some (W_db (HandleUserRoleAddRequest E visit cid msg w))"
proof (cases "decode_UserRoleAddRequest (UnknownEvent_Data msg)")
  case None
  then show ?thesis using assms(2) by (simp add: HandleUserRoleAddRequest_def HandleError_def)
next
  case (Some req)
  let ?uid = "UserRoleAddRequest_UserID req" and ?rid = "UserRoleAddRequest_RoleID req"
  have none: "insert_user_role ?uid ?rid (W_db w) = None" if "?uid = 0 \<or> ?rid = 0"
    using that ids_ok_zero [of "W_db w"] assms(1) by (auto simp: insert_user_role_def orderly_def)
  have "may_change_role (W_db w) (Conn_userID (conn_of w cid)) ?uid ?rid \<and>
    insert_user_role ?uid ?rid (W_db w) = Some (W_db (HandleUserRoleAddRequest E visit cid msg w))"
    using assms(1) refl
  proof (rule change_user_role_result)
    show "in_tx w (snd (AddRoleToUser E ?uid ?rid tx))" if "in_tx w tx" for tx
      using open_tx.R_AddRoleToUser [of tx E ?uid ?rid] that by (simp add: extends_tx_def)
    show "Tx_db (snd (AddRoleToUser E ?uid ?rid tx)) = W_db w \<or>
      insert_user_role ?uid ?rid (W_db w) = Some (Tx_db (snd (AddRoleToUser E ?uid ?rid tx)))"
      if "reading w tx" for tx
      using Execute_tables [of tx] reading_tables [OF that] by (simp add: AddRoleToUser_def)
  qed (use assms(2) none Some in \<open>simp_all add: HandleUserRoleAddRequest_def\<close>)
  with Some show ?thesis by simp
qed

lemma HandleUserRoleDeleteRequest_rank:
  assumes "orderly E w (Conn_userID (conn_of w cid))"
    and "W_db (HandleUserRoleDeleteRequest E visit cid msg w) \<noteq> W_db w"
  shows "\<exists>req. decode_UserRoleDeleteRequest (UnknownEvent_Data msg) = Some req \<and>
    may_change_role (W_db w) (Conn_userID (conn_of w cid))
      (UserRoleDeleteRequest_UserID req) (UserRoleDeleteRequest_RoleID req) \<and>
    W_db (HandleUserRoleDeleteRequest E visit cid msg w) = delete_user_role
      (UserRoleDeleteRequest_UserID req) (UserRoleDeleteRequest_RoleID req) (W_db w)"
proof (cases "decode_UserRoleDeleteRequest (UnknownEvent_Data msg)")
  case None
  then show ?thesis using assms(2) by (simp add: HandleUserRoleDeleteRequest_def HandleError_def)
next
  case (Some req)
  let ?uid = "UserRoleDeleteRequest_UserID req" and ?rid = "UserRoleDeleteRequest_RoleID req"
  have same: "delete_user_role ?uid ?rid (W_db w) = W_db w" if "?uid = 0 \<or> ?rid = 0"
  proof -
    have "0 \<notin> user_ids (W_db w)" "0 \<notin> role_ids (W_db w)" "refs_ok (W_db w)"
      using ids_ok_zero [of "W_db w"] assms(1) by (simp_all add: orderly_def db_ok_def)
    then have "(?uid, ?rid) \<notin> set (DB_user_roles (W_db w))"
      using that by (force simp: refs_ok_def refers_def)
    then show ?thesis by (rule delete_absent_role)
  qed
  let ?upd = "\<lambda>db. Some (delete_user_role ?uid ?rid db)"
  have "may_change_role (W_db w) (Conn_userID (conn_of w cid)) ?uid ?rid \<and>
    ?upd (W_db w) = Some (W_db (HandleUserRoleDeleteRequest E visit cid msg w))"
    using assms(1) refl
  proof (rule change_user_role_result)
    show "in_tx w (snd (DeleteRoleFromUser E ?uid ?rid tx))" if "in_tx w tx" for tx
      using open_tx.R_DeleteRoleFromUser [of tx E ?uid ?rid] that by (simp add: extends_tx_def)
    show "Tx_db (snd (DeleteRoleFromUser E ?uid ?rid tx)) = W_db w \<or>
      ?upd (W_db w) = Some (Tx_db (snd (DeleteRoleFromUser E ?uid ?rid tx)))"
      if "reading w tx" for tx
      using Execute_tables [of tx ErrorCodeInternalError E ?upd] reading_tables [OF that]
      by (simp add: DeleteRoleFromUser_def)
  qed (use assms(2) same Some in \<open>simp_all add: HandleUserRoleDeleteRequest_def\<close>)
  with Some show ?thesis by auto
qed

lemma roles_of_user_member: "rid \<in> set (roles_of_user db uid) \<longleftrightarrow> (uid, rid) \<in> set (DB_user_roles db)"
  by (force simp: roles_of_user_def)

lemma HandleUserRoleAddRequest_result:
  assumes "orderly E w (Conn_userID (conn_of w cid))"
    and "decode_UserRoleAddRequest (UnknownEvent_Data msg) = Some req"
    and "uid = UserRoleAddRequest_UserID req" and "rid = UserRoleAddRequest_RoleID req"
  shows "W_db (HandleUserRoleAddRequest E visit cid msg w) =
    (if may_change_role (W_db w) (Conn_userID (conn_of w cid)) uid rid \<and>
        uid \<in> user_ids (W_db w) \<and> (uid, rid) \<notin> set (DB_user_roles (W_db w))
     then (W_db w)\<lparr>DB_user_roles := DB_user_roles (W_db w) @ [(uid, rid)]\<rparr> else W_db w)"
proof (cases "may_change_role (W_db w) (Conn_userID (conn_of w cid)) uid rid \<and>
    uid \<in> user_ids (W_db w) \<and> (uid, rid) \<notin> set (DB_user_roles (W_db w))")
  case True
  have "rid \<in> role_ids (W_db w)"
    using True by (auto simp: may_change_role_def role_row_def find_Some_iff)
  then have ins: "insert_user_role uid rid (W_db w) =
      Some ((W_db w)\<lparr>DB_user_roles := DB_user_roles (W_db w) @ [(uid, rid)]\<rparr>)"
    using True by (simp add: insert_user_role_def)
  have "W_db (HandleUserRoleAddRequest E visit cid msg w) =
      (W_db w)\<lparr>DB_user_roles := DB_user_roles (W_db w) @ [(uid, rid)]\<rparr>"
    unfolding HandleUserRoleAddRequest_def assms(2) decoded_simps assms(3,4) [symmetric]
  proof (rule change_user_role_allowed [OF assms(1) refl])
    fix tx
    assume tx: "reading w tx"
    have E: "reliable E" using assms(1) by (simp add: orderly_def)
    have "AddRoleToUser E uid rid tx = (Ok (), (next_tick (MarkAsWrite tx))\<lparr>Tx_db :=
        (W_db w)\<lparr>DB_user_roles := DB_user_roles (W_db w) @ [(uid, rid)]\<rparr>\<rparr>)"
      using E reading_tables [OF tx] reading_commit [OF tx]
      by (simp add: AddRoleToUser_def Prepare_def Execute_def ins)
    moreover have "in_tx w (snd (AddRoleToUser E uid rid tx))"
      using open_tx.R_AddRoleToUser [of tx E uid rid] reading_in_tx [OF tx] by (simp add: extends_tx_def)
    ultimately show "\<exists>tx'. AddRoleToUser E uid rid tx = (Ok (), tx') \<and> in_tx w tx' \<and>
        Tx_db tx' = (W_db w)\<lparr>DB_user_roles := DB_user_roles (W_db w) @ [(uid, rid)]\<rparr>" by simp
  qed (use True in \<open>simp_all add: roles_of_user_member\<close>)
  with True show ?thesis by simp
next
  case False
  have "W_db (HandleUserRoleAddRequest E visit cid msg w) = W_db w"
  proof (rule ccontr)
    assume "\<not> ?thesis"
    from HandleUserRoleAddRequest_rank [OF assms(1) this] assms(2-4) False show False
      by (auto simp: insert_user_role_def split: if_splits)
  qed
  with False show ?thesis by auto
qed

lemma HandleUserRoleDeleteRequest_result:
  assumes "orderly E w (Conn_userID (conn_of w cid))"
    and "decode_UserRoleDeleteRequest (UnknownEvent_Data msg) = Some req"
    and "uid = UserRoleDeleteRequest_UserID req" and "rid = UserRoleDeleteRequest_RoleID req"
  shows "W_db (HandleUserRoleDeleteRequest E visit cid msg w) =
    (if may_change_role (W_db w) (Conn_userID (conn_of w cid)) uid rid
     then delete_user_role uid rid (W_db w) else W_db w)"
proof -
  let ?w = "HandleUserRoleDeleteRequest E visit cid msg w"
  have E: "reliable E" and ok: "db_ok (W_db w)" using assms(1) by (simp_all add: orderly_def)
  have changes: "W_db ?w = W_db w \<or>
      may_change_role (W_db w) (Conn_userID (conn_of w cid)) uid rid \<and>
      W_db ?w = delete_user_role uid rid (W_db w)"
    using HandleUserRoleDeleteRequest_rank [OF assms(1), of visit msg] assms(2-4) by auto
  have "W_db ?w = delete_user_role uid rid (W_db w)"
    if may: "may_change_role (W_db w) (Conn_userID (conn_of w cid)) uid rid"
      and member: "(uid, rid) \<in> set (DB_user_roles (W_db w))"
    unfolding HandleUserRoleDeleteRequest_def assms(2) decoded_simps assms(3,4) [symmetric]
  proof (rule change_user_role_allowed [OF assms(1) refl may])
    show "uid \<in> user_ids (W_db w)" using member ok by (force simp: db_ok_def refs_ok_def refers_def)
    fix tx
    assume tx: "reading w tx"
    have "DeleteRoleFromUser E uid rid tx = (Ok (), (next_tick (MarkAsWrite tx))\<lparr>Tx_db :=
        delete_user_role uid rid (W_db w)\<rparr>)"
      using E reading_tables [OF tx] reading_commit [OF tx]
      by (simp add: DeleteRoleFromUser_def Prepare_def Execute_def)
    moreover have "in_tx w (snd (DeleteRoleFromUser E uid rid tx))"
      using open_tx.R_DeleteRoleFromUser [of tx E uid rid] reading_in_tx [OF tx]
      by (simp add: extends_tx_def)
    ultimately show "\<exists>tx'. DeleteRoleFromUser E uid rid tx = (Ok (), tx') \<and> in_tx w tx' \<and>
        Tx_db tx' = delete_user_role uid rid (W_db w)" by simp
  qed (use member in \<open>simp_all add: roles_of_user_member\<close>)
  with changes delete_absent_role [of uid rid "W_db w"] show ?thesis by metis
qed

section \<open>Editing a profile\<close>

text \<open>Whichever user the request names, the row that is written is the requester's.\<close>

lemma FinalizeUserUpdateRequest_row:
  "\<exists>f. W_db (FinalizeUserUpdateRequest E visit req cid w) =
     update_user (Conn_userID (conn_of w cid)) f (W_db w) \<and>
     (\<forall>u. UserRow_id (f u) = UserRow_id u \<and> UserRow_user_name (f u) = UserRow_user_name u)"
proof -
  let ?me = "Conn_userID (conn_of w cid)"
  let ?cols = "set_profile_columns (UserUpdateRequest_DisplayName req)
    (UserUpdateRequest_StatusMessage req) (UserUpdateRequest_ProfileMessage req)
    (UserUpdateRequest_ProfileColor req) (UserUpdateRequest_AvatarModified req)"
  let ?upd = "\<lambda>db. Some (update_user ?me ?cols db)"
  let ?r = "SetUserProfile E ?me (UserUpdateRequest_DisplayName req)
    (UserUpdateRequest_StatusMessage req) (UserUpdateRequest_ProfileMessage req)
    (UserUpdateRequest_ProfileColor req) (UserUpdateRequest_AvatarModified req) (Start (begin_tx w))"
  let ?w = "FinalizeUserUpdateRequest E visit req cid w"
  have same: "update_user ?me (\<lambda>u. u) (W_db w) = W_db w" by (simp add: update_user_def)
  have "W_db ?w = W_db w \<or> ?upd (W_db w) = Some (W_db ?w)"
  proof (rule change_role_tail [where upd = ?upd and r = ?r])
    show "in_tx w (snd ?r)"
      using open_tx.R_SetUserProfile reading_begin(2) unfolding extends_tx_def by blast
    show "Tx_db (snd ?r) = W_db w \<or> ?upd (W_db w) = Some (Tx_db (snd ?r))"
      using Execute_tables [of "Start (begin_tx w)" ErrorCodeInternalError E ?upd]
      by (simp add: SetUserProfile_def)
  qed (simp add: FinalizeUserUpdateRequest_def Let_def)
  then have "W_db ?w = update_user ?me (\<lambda>u. u) (W_db w) \<or> W_db ?w = update_user ?me ?cols (W_db w)"
    by (auto simp: same)
  moreover have "UserRow_id (?cols u) = UserRow_id u \<and> UserRow_user_name (?cols u) = UserRow_user_name u"
    for u by (simp add: set_profile_columns_def)
  ultimately show ?thesis by (metis (no_types, lifting))
qed

end
