(* ===== verification/Authorization_Properties.thy ===== *)
theory Authorization_Properties
  imports Ranks Gateway_Examples
begin

text \<open>
  The properties of what the handlers allow, with witnesses on a server that has a moderator, a
  member and a message.
\<close>

section \<open>An example\<close>

text \<open>Ann (10) holds a role that manages roles and messages, at position 1; the role 21 has
  position 5; Bob (11) holds the role 22 at position 7 and wrote the message 40.\<close>

definition staff_db :: Database where
  "staff_db = example_db\<lparr>
     DB_roles := [example_role\<lparr>Role_Position := 1,
         Role_Permissions := PermissionManageRoles OR PermissionManageMessages\<rparr>,
       example_role\<lparr>Role_ID := 21, Role_Position := 5\<rparr>,
       example_role\<lparr>Role_ID := 22, Role_Position := 7\<rparr>],
     DB_user_roles := [(10, 20), (11, 22)],
     DB_messages := [\<lparr>MessageRow_id = 40, MessageRow_type = 0, MessageRow_channel_id = 30,
       MessageRow_timestamp = 0, MessageRow_pinned = False, MessageRow_author_id = 11,
       MessageRow_reference_id = None, MessageRow_content = ''hello'',
       MessageRow_edited_timestamp = None\<rparr>]\<rparr>"

definition staff_world :: World where
  "staff_world = example_logged_in\<lparr>W_db := staff_db\<rparr>"

lemma staff_world_fields:
  "W_db staff_world = staff_db" "Conn_userID (conn_of staff_world 0) = 10"
  "W_out staff_world = W_out example_logged_in"
  by (simp_all add: staff_world_def conn_of_def example_logged_in_fields(1) [unfolded conn_of_def])

lemma staff_ok: "db_ok staff_db" "ids_ok staff_db"
  by (simp_all add: staff_db_def db_ok_def keys_ok_def refs_ok_def refers_def refers_opt_def
      ids_ok_def example_db_def Database_empty_def example_user_def example_role_def
      example_channel_def)

lemma staff_orderly: "orderly env0 staff_world (Conn_userID (conn_of staff_world 0))"
  by (simp add: orderly_def staff_world_fields staff_ok env0_reliable)
    (simp add: staff_db_def example_db_def Database_empty_def example_user_def)

lemma staff_grants: "base_grants staff_db 10 16" "permits staff_db 10 30 14"
  by (simp_all add: permits_def channel_grants_def base_grants_def role_grants_def
      overwrite_rows_def staff_db_def example_role_def example_db_def Database_empty_def
      example_settings_def PermissionDefault_def permission_defs bit_or_iff bit_perm_bit)

lemma staff_ranks: "rank_of staff_db 10 = 1" "rank_of staff_db 11 = 7"
  by (simp_all add: rank_of_def roles_of_user_def role_row_def staff_db_def map_filter_simps
      MaxInt64_def example_role_def example_db_def)

lemma staff_member: "role_row staff_db 21 = Some (example_role\<lparr>Role_ID := 21, Role_Position := 5\<rparr>)"
  "role_row staff_db 22 = Some (example_role\<lparr>Role_ID := 22, Role_Position := 7\<rparr>)"
  "11 \<in> user_ids staff_db" "DB_user_roles staff_db = [(10, 20), (11, 22)]"
  by (simp_all add: staff_db_def role_row_def)

lemmas decode_simps = Unmarshal_def decode_struct_def find_setter_def set_snowflake_def
  set_int_def set_string_def fits_int64_def MaxInt64_def Snowflake_UnmarshalJSON_def
  ParseInt_def is_digit_def digit_value_def parse_digits_def

lemma staff_message: "may_delete staff_db 10 40"
  using staff_grants(2)
  by (simp add: may_delete_def message_row_def staff_db_def embeds_decode_def example_db_def
      Database_empty_def)

text \<open>The same server with Bob on the connection.\<close>

definition member_world :: World where
  "member_world = set_conn 0 (\<lambda>c. c\<lparr>Conn_userID := 11\<rparr>) staff_world"

lemma member_world_fields:
  "W_db member_world = staff_db" "Conn_userID (conn_of member_world 0) = 11"
  by (simp_all add: member_world_def staff_world_fields)

lemma member_orderly: "orderly env0 member_world (Conn_userID (conn_of member_world 0))"
  by (simp add: orderly_def member_world_fields staff_ok env0_reliable)
    (simp add: staff_db_def example_db_def Database_empty_def example_user_def)

lemma member_denied: "\<not> base_grants staff_db 11 16"
  by (simp add: base_grants_def role_grants_def staff_db_def example_role_def example_db_def
      Database_empty_def example_settings_def PermissionDefault_def permission_defs bit_or_iff
      bit_perm_bit)

definition delete_request :: UnknownEvent where
  "delete_request = \<lparr>UnknownEvent_Type = EventTypeMessageDelete, UnknownEvent_Seq = [],
     UnknownEvent_Data = Some (JObj [(''message'', JStr ''40'')])\<rparr>"

definition grant_request :: UnknownEvent where
  "grant_request = \<lparr>UnknownEvent_Type = EventTypeUserRoleAdd, UnknownEvent_Seq = [],
     UnknownEvent_Data = Some (JObj [(''user'', JStr ''11''), (''role'', JStr ''21'')])\<rparr>"

definition revoke_request :: UnknownEvent where
  "revoke_request = \<lparr>UnknownEvent_Type = EventTypeUserRoleDelete, UnknownEvent_Seq = [],
     UnknownEvent_Data = Some (JObj [(''user'', JStr ''11''), (''role'', JStr ''22'')])\<rparr>"

section \<open>Messages\<close>

text \<open>C23: When the engine does not fail, a request to delete a message deletes it, and tells the
  viewers of its channel, exactly if the requester is its author or may manage messages in that
  channel; otherwise the tables stay as they are and the requester is sent one error.\<close>

theorem message_deletion_authorised:
  assumes "orderly E w (Conn_userID (conn_of w cid))"
    and "decode_MessageDeleteRequest (UnknownEvent_Data msg) = Some req"
    and "mid = MessageDeleteRequest_MessageID req"
  shows "if may_delete (W_db w) (Conn_userID (conn_of w cid)) mid
    then W_db (HandleMessageDeleteRequest E cid msg w) = delete_message_row mid (W_db w) \<and>
      W_out (HandleMessageDeleteRequest E cid msg w) = W_out w \<and>
      (\<exists>m. message_row (W_db w) mid = Some m \<and>
        W_tasks (HandleMessageDeleteRequest E cid msg w) = W_tasks w @
          [RelayByChannelTask (event EventTypeMessageDelete (MessageDeleteEvent mid))
             (MessageRow_channel_id m)])
    else W_db (HandleMessageDeleteRequest E cid msg w) = W_db w \<and>
      W_tasks (HandleMessageDeleteRequest E cid msg w) = W_tasks w \<and>
      (\<exists>ev. is_error ev \<and>
         W_out (HandleMessageDeleteRequest E cid msg w) = W_out w @ [(cid, ev)])"
  using HandleMessageDeleteRequest_result [OF assms] .

theorem message_deletion_authorised_witness:
  "W_db (HandleMessageDeleteRequest env0 0 delete_request staff_world) = delete_message_row 40 staff_db"
proof -
  have "decode_MessageDeleteRequest (UnknownEvent_Data delete_request) =
      Some \<lparr>MessageDeleteRequest_MessageID = 40\<rparr>"
    by (simp add: delete_request_def decode_MessageDeleteRequest_def decode_simps)
  from message_deletion_authorised [OF staff_orderly this refl] show ?thesis
    by (simp add: staff_world_fields staff_message)
qed

text \<open>C26: A request to edit a message changes nothing in the tables unless it names a message
  whose author is the requester; no permission lets anyone edit the message of someone else.\<close>

theorem only_authors_edit:
  "W_db (HandleMessageUpdateRequest E cid msg w) = W_db w \<or>
    (\<exists>req. decode_MessageUpdateRequest (UnknownEvent_Data msg) = Some req \<and>
       (\<exists>m. m \<in> set (DB_messages (W_db w)) \<and>
          MessageRow_id m = MessageUpdateRequest_MessageID req \<and>
          MessageRow_author_id m = Conn_userID (conn_of w cid)))"
proof (cases "decode_MessageUpdateRequest (UnknownEvent_Data msg)")
  case None
  then show ?thesis by (simp add: HandleMessageUpdateRequest_def HandleError_def)
next
  case (Some req)
  from HandleMessageUpdateRequest_author [OF this, of E cid w] Some show ?thesis by blast
qed

section \<open>Roles\<close>

text \<open>C25: Without the permission to manage roles, none of the five requests about roles has an
  effect: the tables, the gateway with its index and the goroutines stay as they are, and the
  requester is sent one error.\<close>

theorem role_requests_need_permission:
  assumes "orderly E w (Conn_userID (conn_of w cid))"
    and "\<not> base_grants (W_db w) (Conn_userID (conn_of w cid)) 16"
    and "UnknownEvent_Type msg \<in> {EventTypeRoleAdd, EventTypeRoleUpdate, EventTypeRoleDelete,
      EventTypeUserRoleAdd, EventTypeUserRoleDelete}"
  shows "W_db (process_member E visit cid msg w) = W_db w \<and>
    W_gw (process_member E visit cid msg w) = W_gw w \<and>
    W_tasks (process_member E visit cid msg w) = W_tasks w \<and>
    (\<exists>ev. is_error ev \<and> W_out (process_member E visit cid msg w) = W_out w @ [(cid, ev)])"
  using role_requests_denied [OF assms, of visit] by (auto simp: refused_def)

theorem role_requests_need_permission_witness:
  "W_db (process_member env0 (\<lambda>ks. ks) 0 grant_request member_world) = staff_db"
  using role_requests_need_permission [OF member_orderly, of grant_request "\<lambda>ks. ks"] member_denied
  by (simp add: member_world_fields grant_request_def)

text \<open>C24: When the engine does not fail, a request to give a user a role does so exactly if the
  user exists and lacks the role, and the requester manages roles, ranks above the role and, for
  any user but the requester, above that user.\<close>

theorem granting_roles_respects_rank:
  assumes "orderly E w (Conn_userID (conn_of w cid))"
    and "decode_UserRoleAddRequest (UnknownEvent_Data msg) = Some req"
    and "uid = UserRoleAddRequest_UserID req" and "rid = UserRoleAddRequest_RoleID req"
  shows "W_db (HandleUserRoleAddRequest E visit cid msg w) =
    (if may_change_role (W_db w) (Conn_userID (conn_of w cid)) uid rid \<and>
        uid \<in> user_ids (W_db w) \<and> (uid, rid) \<notin> set (DB_user_roles (W_db w))
     then (W_db w)\<lparr>DB_user_roles := DB_user_roles (W_db w) @ [(uid, rid)]\<rparr> else W_db w)"
  using HandleUserRoleAddRequest_result [OF assms] .

theorem granting_roles_respects_rank_witness:
  "DB_user_roles (W_db (HandleUserRoleAddRequest env0 (\<lambda>ks. ks) 0 grant_request staff_world)) =
     [(10, 20), (11, 22), (11, 21)]"
proof -
  have "decode_UserRoleAddRequest (UnknownEvent_Data grant_request) =
      Some \<lparr>UserRoleAddRequest_UserID = 11, UserRoleAddRequest_RoleID = 21\<rparr>"
    by (simp add: grant_request_def decode_UserRoleAddRequest_def decode_simps)
  from granting_roles_respects_rank [OF staff_orderly this refl refl, of "\<lambda>ks. ks"] show ?thesis
    by (simp add: staff_world_fields may_change_role_def staff_grants staff_ranks staff_member)
qed

text \<open>When the engine does not fail, a request to take a role from a user does so exactly
  under the same conditions of rank.\<close>

theorem revoking_roles_respects_rank:
  assumes "orderly E w (Conn_userID (conn_of w cid))"
    and "decode_UserRoleDeleteRequest (UnknownEvent_Data msg) = Some req"
    and "uid = UserRoleDeleteRequest_UserID req" and "rid = UserRoleDeleteRequest_RoleID req"
  shows "W_db (HandleUserRoleDeleteRequest E visit cid msg w) =
    (if may_change_role (W_db w) (Conn_userID (conn_of w cid)) uid rid
     then delete_user_role uid rid (W_db w) else W_db w)"
  using HandleUserRoleDeleteRequest_result [OF assms] .

theorem revoking_roles_respects_rank_witness:
  "DB_user_roles (W_db (HandleUserRoleDeleteRequest env0 (\<lambda>ks. ks) 0 revoke_request staff_world)) =
     [(10, 20)]"
proof -
  have "decode_UserRoleDeleteRequest (UnknownEvent_Data revoke_request) =
      Some \<lparr>UserRoleDeleteRequest_UserID = 11, UserRoleDeleteRequest_RoleID = 22\<rparr>"
    by (simp add: revoke_request_def decode_UserRoleDeleteRequest_def decode_simps)
  from revoking_roles_respects_rank [OF staff_orderly this refl refl, of "\<lambda>ks. ks"] show ?thesis
    by (simp add: staff_world_fields may_change_role_def staff_grants staff_ranks staff_member
        delete_user_role_def)
qed

section \<open>Profiles\<close>

lemma own_row_refl:
  "\<exists>f. db = update_user me f db \<and>
    (\<forall>u. UserRow_id (f u) = UserRow_id u \<and> UserRow_user_name (f u) = UserRow_user_name u)"
  by (rule exI [of _ "\<lambda>u. u"]) (simp add: update_user_def)

text \<open>C27: Whichever user a profile update names, at most the row of the requester changes, and not
  its id or user name; a moderator who edits the profile of someone else changes their own.\<close>

theorem profile_update_writes_requester:
  "\<exists>f. W_db (HandleUserUpdateRequest E visit cid msg w) =
     update_user (Conn_userID (conn_of w cid)) f (W_db w) \<and>
     (\<forall>u. UserRow_id (f u) = UserRow_id u \<and> UserRow_user_name (f u) = UserRow_user_name u)"
proof (cases "decode_UserUpdateRequest (UnknownEvent_Data msg)")
  case None
  then show ?thesis by (simp add: HandleUserUpdateRequest_def HandleError_def own_row_refl)
next
  case (Some req)
  let ?me = "Conn_userID (conn_of w cid)"
  let ?own = "\<lambda>db. \<exists>f. db = update_user ?me f (W_db w) \<and>
    (\<forall>u. UserRow_id (f u) = UserRow_id u \<and> UserRow_user_name (f u) = UserRow_user_name u)"
  show ?thesis
    unfolding HandleUserUpdateRequest_def Let_def Some decoded_simps
  proof (rule tx_call_reads [OF read_tx.R_GetUser reading_begin(1)])
    fix e tx'
    assume "reading w tx'"
    then show "?own (W_db (tx_value cid w (user_perms E ?me tx') (\<lambda>perms tx.
        refuse E False (Coded ErrorCodeInvalidRequest) cid w tx)))"
      unfolding tx_value_def
      by (rule tx_call_reads [OF user_perms_frames(2)]) (simp_all add: W_db_deny own_row_refl)
  next
    fix user tx'
    assume tx': "reading w tx'"
    obtain x tx'' where r: "user_perms E ?me tx' = (x, tx'')" by (cases "user_perms E ?me tx'")
    have tx'': "reading w tx''" by (rule reading_call [OF user_perms_frames(2) tx' r])
    let ?v = "end_tx E False tx'' w"
    have v: "W_db ?v = W_db w" using idle_read_only [OF tx''] by (simp add: idle_def)
    show "?own (W_db (tx_value cid w (user_perms E ?me tx') (\<lambda>perms tx.
        if \<not> may_update ?me perms req user
        then refuse E False (Coded ErrorCodeNoPermission) cid w tx
        else if UserUpdateRequest_SetAvatar (fill_update req user) \<and>
            UserUpdateRequest_AvatarModified (fill_update req user) \<noteq> 0
        then reserve_slot E EventTypeUserUpdate (PendingUserUpdate (fill_update req user)) msg cid
          (end_tx E False tx w)
        else FinalizeUserUpdateRequest E visit (fill_update req user) cid (end_tx E False tx w))))"
      using FinalizeUserUpdateRequest_row [of E visit "fill_update req user" cid ?v]
      by (cases x) (auto simp: r tx_value_def W_db_deny [OF tx''] v own_row_refl
          reserve_slot_def PushPendingRequest_def Let_def)
  qed (simp add: own_row_refl)
qed

end
