(* ===== verification/Sending_Properties.thy ===== *)
theory Sending_Properties
  imports Sending Authorization_Properties
begin

text \<open>
  The request to send a message, with its example: Bob answers his own message, in a channel where
  the role of Ann denies her to write.
\<close>

definition send_request :: UnknownEvent where
  "send_request = \<lparr>UnknownEvent_Type = EventTypeMessageSendRequest, UnknownEvent_Seq = [],
     UnknownEvent_Data = Some (JObj [(''channel'', JStr ''30''), (''content'', JStr ''hi''),
       (''reference'', JStr ''40'')])\<rparr>"

lemma send_request_decoded:
  "decode_MessageSendRequest (UnknownEvent_Data send_request) =
     Some \<lparr>MessageSendRequest_ChannelID = 30, MessageSendRequest_Content = ''hi'',
       MessageSendRequest_ReferenceID = 40, MessageSendRequest_AttachmentCount = 0\<rparr>"
  by (simp add: send_request_def decode_MessageSendRequest_def decode_simps)

lemma member_may_send: "permits staff_db 11 30 5" "30 \<in> channel_ids staff_db" "message_ids staff_db = {40}"
  by (simp_all add: permits_def channel_grants_def base_grants_def role_grants_def
      overwrite_rows_def staff_db_def example_role_def example_db_def Database_empty_def
      example_settings_def PermissionDefault_def permission_defs bit_or_iff bit_perm_bit
      example_channel_def)

text \<open>C22: A request to send a message without attachments stores it if the tables grant the
  requester the permission to send in the channel, the channel exists, and so does the message
  replied to, if there is one; then exactly one row is added, with the requester as its author and
  the channel, the content and the reply of the request, the requester alone is answered with its
  id, and the message announced in the channel is the one a reader of that row gets, but for the
  links to embed. Any other request is answered with an error and has no effect. (The engine does
  not fail, and generated ids are new.)\<close>

theorem message_sending_authorised:
  assumes "orderly E w (Conn_userID (conn_of w cid))"
    and "decode_MessageSendRequest (UnknownEvent_Data msg) = Some req"
    and "MessageSendRequest_AttachmentCount req \<le> 0"
    and "\<And>t. Env_generate E t \<notin> insert (MessageSendRequest_ReferenceID req) (message_ids (W_db w))"
  shows "if permits (W_db w) (Conn_userID (conn_of w cid)) (MessageSendRequest_ChannelID req) 5 \<and>
      MessageSendRequest_ChannelID req \<in> channel_ids (W_db w) \<and>
      MessageSendRequest_ReferenceID req \<in> insert 0 (message_ids (W_db w))
    then \<exists>m. sent cid w (HandleMessageSendRequest E cid msg w) m \<and>
      Message_ID m \<notin> message_ids (W_db w) \<and> Message_AuthorID m = Conn_userID (conn_of w cid) \<and>
      Message_ChannelID m = MessageSendRequest_ChannelID req \<and>
      Message_Content m = MessageSendRequest_Content req \<and>
      Message_ReferenceID m = MessageSendRequest_ReferenceID req
    else refused cid w (HandleMessageSendRequest E cid msg w)"
  using HandleMessageSendRequest_result [OF assms(1-3)] assms(4) by (simp add: yields_new_def)

theorem message_sending_authorised_witness:
  "\<exists>row. DB_messages (W_db (HandleMessageSendRequest env0 0 send_request member_world)) =
     DB_messages staff_db @ [row] \<and> MessageRow_content row = ''hi'' \<and> MessageRow_author_id row = 11"
proof -
  have "\<exists>m. sent 0 member_world (HandleMessageSendRequest env0 0 send_request member_world) m \<and>
      Message_AuthorID m = 11 \<and> Message_Content m = ''hi''"
    using message_sending_authorised [OF member_orderly send_request_decoded]
    by (simp add: member_world_fields member_may_send) blast
  then show ?thesis
    by (auto simp: sent_def row_of_message_def member_world_fields)
qed

end
