(* ===== verification/Text.thy ===== *)
theory Text
  imports Snowflakes GoMaps
begin

text \<open>
  Text as Go has it: a string is a list of bytes, \<^verbatim>\<open>[]rune(s)\<close> decodes it as UTF-8, with the
  replacement character for every byte that does not belong to an encoding, and \<^verbatim>\<open>string(rs)\<close>
  encodes it again.  On it the text functions of common/utils.go and common/emoji/emoji.go; what
  counts as punctuation (\<^verbatim>\<open>unicode.IsPunct\<close>, a table) is a parameter.
\<close>

section \<open>UTF-8\<close>

definition rune_error :: nat where "rune_error = 0xFFFD"

text \<open>The number of continuation bytes after a first byte, and the values the next byte may have.\<close>

definition first_byte :: "nat \<Rightarrow> (nat \<times> nat \<times> nat) option" where
  "first_byte b =
     (if 0xC2 \<le> b \<and> b \<le> 0xDF then Some (1, 0x80, 0xBF)
      else if b = 0xE0 then Some (2, 0xA0, 0xBF)
      else if b = 0xED then Some (2, 0x80, 0x9F)
      else if 0xE1 \<le> b \<and> b \<le> 0xEF then Some (2, 0x80, 0xBF)
      else if b = 0xF0 then Some (3, 0x90, 0xBF)
      else if b = 0xF4 then Some (3, 0x80, 0x8F)
      else if 0xF1 \<le> b \<and> b \<le> 0xF3 then Some (3, 0x80, 0xBF)
      else None)"

definition continues :: "nat \<Rightarrow> bool" where
  "continues b \<longleftrightarrow> 0x80 \<le> b \<and> b \<le> 0xBF"

text \<open>The rune at the start of a list of bytes, and its width; a byte that starts no encoding is
  the replacement character, of width one.\<close>

fun decode_rune :: "nat list \<Rightarrow> nat \<times> nat" where
  "decode_rune [] = (rune_error, 0)"
| "decode_rune (b # bs) =
     (if b < 0x80 then (b, 1)
      else case first_byte b of
             None \<Rightarrow> (rune_error, 1)
           | Some (n, lo, hi) \<Rightarrow>
               (case bs of
                  [] \<Rightarrow> (rune_error, 1)
                | c # cs \<Rightarrow>
                    if c < lo \<or> hi < c then (rune_error, 1)
                    else if n = 1 then ((b - 0xC0) * 64 + (c - 0x80), 2)
                    else case cs of
                           [] \<Rightarrow> (rune_error, 1)
                         | d # ds \<Rightarrow>
                             if \<not> continues d then (rune_error, 1)
                             else if n = 2
                             then (((b - 0xE0) * 64 + (c - 0x80)) * 64 + (d - 0x80), 3)
                             else case ds of
                                    [] \<Rightarrow> (rune_error, 1)
                                  | e # _ \<Rightarrow>
                                      if \<not> continues e then (rune_error, 1)
                                      else ((((b - 0xF0) * 64 + (c - 0x80)) * 64 + (d - 0x80)) * 64
                                              + (e - 0x80), 4)))"

lemma decode_rune_width: "bs \<noteq> [] \<Longrightarrow> 0 < snd (decode_rune bs)"
  by (cases bs) (auto split: option.split list.split)

function runes_of :: "nat list \<Rightarrow> nat list" where
  "runes_of bs = (if bs = [] then []
     else fst (decode_rune bs) # runes_of (drop (snd (decode_rune bs)) bs))"
  by pat_completeness auto
termination
  by (relation "measure length") (auto intro!: diff_less simp: decode_rune_width)

declare runes_of.simps [simp del]

definition encode_rune :: "nat \<Rightarrow> nat list" where
  "encode_rune r =
     (if r < 0x80 then [r]
      else if r < 0x800 then [0xC0 + r div 64, 0x80 + r mod 64]
      else if 0xD800 \<le> r \<and> r \<le> 0xDFFF \<or> 0x10FFFF < r then [0xEF, 0xBF, 0xBD]
      else if r < 0x10000
      then [0xE0 + r div 4096, 0x80 + r div 64 mod 64, 0x80 + r mod 64]
      else [0xF0 + r div 262144, 0x80 + r div 4096 mod 64, 0x80 + r div 64 mod 64, 0x80 + r mod 64])"

definition bytes_of :: "string \<Rightarrow> nat list" where
  "bytes_of s = map of_char s"

definition runes :: "string \<Rightarrow> nat list" where
  "runes s = runes_of (bytes_of s)"

definition string_of_runes :: "nat list \<Rightarrow> string" where
  "string_of_runes rs = map char_of (concat (map encode_rune rs))"

section \<open>common/utils.go\<close>

text \<open>\<^verbatim>\<open>unicode.IsSpace\<close>.\<close>

definition is_space_rune :: "nat \<Rightarrow> bool" where
  "is_space_rune r \<longleftrightarrow> 0x09 \<le> r \<and> r \<le> 0x0D \<or> r \<in> {0x20, 0x85, 0xA0, 0x1680} \<or>
     0x2000 \<le> r \<and> r \<le> 0x200A \<or> r \<in> {0x2028, 0x2029, 0x202F, 0x205F, 0x3000}"

definition wordBoundryTolerance :: int where "wordBoundryTolerance = 10"

text \<open>The loop that looks back from \<open>i\<close> for a word boundary; \<open>otherwise\<close> is where to cut without
  one. Its counter is at most the number of runes.\<close>

function boundary_loop :: "(nat \<Rightarrow> bool) \<Rightarrow> nat list \<Rightarrow> int \<Rightarrow> int \<Rightarrow> int \<Rightarrow> int" where
  "boundary_loop is_punct rs len otherwise i =
     (if \<not> (i64 (len - wordBoundryTolerance) < i \<and> 0 < i) then otherwise
      else if is_space_rune (rs ! nat (i - 1)) \<or> is_punct (rs ! nat (i - 1)) then i - 1
      else boundary_loop is_punct rs len otherwise (i - 1))"
  by pat_completeness auto
termination
  by (relation "measure (\<lambda>(_, _, _, _, i). nat i)") auto

declare boundary_loop.simps [simp del]

definition TruncateText :: "(nat \<Rightarrow> bool) \<Rightarrow> string \<Rightarrow> int \<Rightarrow> bool \<Rightarrow> string" where
  "TruncateText is_punct text len breakWords =
     (if len \<le> 0 then []
      else
        let rs = runes text in
        if int (length rs) \<le> len then text
        else
          let truncateIndex = (if breakWords then len else boundary_loop is_punct rs len len len)
          in string_of_runes (take (nat truncateIndex) rs) @ ''...'')"

definition BoolToInt :: "bool \<Rightarrow> int" where
  "BoolToInt b = (if b then 1 else 0)"

definition MinInt :: "int \<Rightarrow> int \<Rightarrow> int" where
  "MinInt a b = (if a < b then a else b)"

definition MaxInt :: "int \<Rightarrow> int \<Rightarrow> int" where
  "MaxInt a b = (if a > b then a else b)"

section \<open>common/emoji/emoji.go\<close>

text \<open>\<^verbatim>\<open>Sprintf("%x", r)\<close>.\<close>

definition hex_char :: "nat \<Rightarrow> char" where
  "hex_char d = (if d < 10 then char_of (48 + d) else char_of (87 + d))"

fun format_hex :: "nat \<Rightarrow> string" where
  "format_hex n = (if n < 16 then [hex_char n] else format_hex (n div 16) @ [hex_char (n mod 16)])"

declare format_hex.simps [simp del]

fun join :: "string \<Rightarrow> string list \<Rightarrow> string" where
  "join sep [] = []"
| "join sep [s] = s"
| "join sep (s # t # ts) = s @ sep @ join sep (t # ts)"

definition EmojiToCodepoint :: "string \<Rightarrow> string" where
  "EmojiToCodepoint emoji =
     (let vs = 0xFE0F; zwj = 0x200D; rs = runes emoji;
          hasZWJ = list_ex (\<lambda>r. r = zwj) rs
      in join ''-'' (map format_hex (filter (\<lambda>r. \<not> (\<not> hasZWJ \<and> r = vs)) rs)))"

text \<open>\<^verbatim>\<open>crc32.ChecksumIEEE\<close>, bit by bit.\<close>

definition crc_bit :: "32 word \<Rightarrow> 32 word" where
  "crc_bit c = (if bit c 0 then drop_bit 1 c XOR 0xEDB88320 else drop_bit 1 c)"

definition crc_byte :: "32 word \<Rightarrow> nat \<Rightarrow> 32 word" where
  "crc_byte c b = (crc_bit ^^ 8) (c XOR of_nat b)"

definition HashCRC32 :: "string \<Rightarrow> 32 word" where
  "HashCRC32 s = NOT (foldl crc_byte (NOT 0) (bytes_of s))"

text \<open>The two tables, and what \<^verbatim>\<open>init\<close> makes of the lines of the embedded file; \<open>None\<close> is its
  panic over two codepoints with one id.\<close>

record EmojiTable =
  CodepointToID :: "(string, int) gomap"
  IDToCodepoint :: "(int, string) gomap"

definition add_emoji :: "string \<Rightarrow> EmojiTable \<Rightarrow> EmojiTable option" where
  "add_emoji codepoint t =
     (let key = uint (HashCRC32 codepoint) in
      case get (IDToCodepoint t) key of
        Some other \<Rightarrow> if other \<noteq> codepoint then None
          else Some (t\<lparr>CodepointToID := put codepoint key (CodepointToID t),
            IDToCodepoint := put key codepoint (IDToCodepoint t)\<rparr>)
      | None \<Rightarrow> Some (t\<lparr>CodepointToID := put codepoint key (CodepointToID t),
            IDToCodepoint := put key codepoint (IDToCodepoint t)\<rparr>))"

fun split_lines :: "string \<Rightarrow> string list" where
  "split_lines [] = [[]]"
| "split_lines (c # cs) = (if c = CHR 0x0A then [] # split_lines cs
     else (c # hd (split_lines cs)) # tl (split_lines cs))"

fun emoji_loop :: "string list \<Rightarrow> EmojiTable \<Rightarrow> EmojiTable option" where
  "emoji_loop [] t = Some t"
| "emoji_loop (l # ls) t = (case add_emoji l t of None \<Rightarrow> None | Some t \<Rightarrow> emoji_loop ls t)"

definition emoji_init :: "string \<Rightarrow> EmojiTable option" where
  "emoji_init contents = emoji_loop (split_lines contents) \<lparr>CodepointToID = [], IDToCodepoint = []\<rparr>"

definition IsUnicodeEmojiID :: "EmojiTable \<Rightarrow> int \<Rightarrow> bool" where
  "IsUnicodeEmojiID t key = (get (IDToCodepoint t) key \<noteq> None)"

section \<open>Lemmas on runes\<close>

definition valid_rune :: "nat \<Rightarrow> bool" where
  "valid_rune r \<longleftrightarrow> r < 0xD800 \<or> 0xDFFF < r \<and> r \<le> 0x10FFFF"

lemma div_mod_64:
  fixes r :: nat
  shows "r div 64 * 64 + r mod 64 = r" and "(r div 4096 * 64 + r div 64 mod 64) * 64 + r mod 64 = r"
    and "((r div 262144 * 64 + r div 4096 mod 64) * 64 + r div 64 mod 64) * 64 + r mod 64 = r"
proof -
  show 1: "r div 64 * 64 + r mod 64 = r" by simp
  have 2: "r div 4096 * 64 + r div 64 mod 64 = r div 64"
    using div_mult_mod_eq [of "r div 64" 64] by (simp add: div_mult2_eq [symmetric])
  then show "(r div 4096 * 64 + r div 64 mod 64) * 64 + r mod 64 = r" by simp
  have "r div 262144 * 64 + r div 4096 mod 64 = r div 4096"
    using div_mult_mod_eq [of "r div 4096" 64] by (simp add: div_mult2_eq [symmetric])
  with 2 show "((r div 262144 * 64 + r div 4096 mod 64) * 64 + r div 64 mod 64) * 64 + r mod 64 = r"
    by simp
qed

lemma decode_encode_rune:
  assumes "valid_rune r"
  shows "decode_rune (encode_rune r @ bs) = (r, length (encode_rune r))"
proof -
  consider "r < 0x80" | "0x80 \<le> r" "r < 0x800" | "0x800 \<le> r" "r < 0x10000" | "0x10000 \<le> r"
    by linarith
  then show ?thesis
  proof cases
    case 1
    then show ?thesis by (simp add: encode_rune_def)
  next
    case 2
    then have "2 \<le> r div 64" "r div 64 \<le> 31" by auto
    with 2 show ?thesis by (simp add: encode_rune_def first_byte_def)
  next
    case 3
    define a b c where abc: "a = r div 4096" "b = r div 64 mod 64" "c = r mod 64"
    have r: "r = 4096 * a + 64 * b + c" and small: "b < 64" "c < 64"
      using div_mod_64(2) [of r] by (simp_all add: abc)
    have a: "a \<le> 15" using 3 r by linarith
    have low: "32 \<le> b" if "a = 0" using 3 r small that by linarith
    have sur: "b \<le> 31" if "a = 13"
      using assms small that unfolding valid_rune_def r by (elim disjE conjE) linarith+
    have enc: "encode_rune r = [0xE0 + a, 0x80 + b, 0x80 + c]"
      using 3 assms by (auto simp: encode_rune_def abc valid_rune_def)
    have "first_byte (0xE0 + a) = Some (2, if a = 0 then 0xA0 else 0x80, if a = 13 then 0x9F else 0xBF)"
      using a by (simp add: first_byte_def)
    then have "decode_rune ([0xE0 + a, 0x80 + b, 0x80 + c] @ bs) = ((a * 64 + b) * 64 + c, 3)"
      using a low sur small by (auto simp: continues_def)
    then show ?thesis unfolding enc using r by simp
  next
    case 4
    define a b c d where abcd: "a = r div 262144" "b = r div 4096 mod 64" "c = r div 64 mod 64" "d = r mod 64"
    have r: "r = 262144 * a + 4096 * b + 64 * c + d" and small: "b < 64" "c < 64" "d < 64"
      using div_mod_64(3) [of r] by (simp_all add: abcd)
    have top: "r \<le> 0x10FFFF" using assms by (auto simp: valid_rune_def)
    have a: "a \<le> 4" using top r by linarith
    have low: "16 \<le> b" if "a = 0" using 4 r small that by linarith
    have high: "b \<le> 15" if "a = 4" using top r that by linarith
    have enc: "encode_rune r = [0xF0 + a, 0x80 + b, 0x80 + c, 0x80 + d]"
      using 4 assms by (auto simp: encode_rune_def abcd valid_rune_def)
    have "first_byte (0xF0 + a) = Some (3, if a = 0 then 0x90 else 0x80, if a = 4 then 0x8F else 0xBF)"
      using a by (simp add: first_byte_def)
    then have "decode_rune ([0xF0 + a, 0x80 + b, 0x80 + c, 0x80 + d] @ bs) =
        (((a * 64 + b) * 64 + c) * 64 + d, 4)"
      using a low high small by (auto simp: continues_def)
    then show ?thesis unfolding enc using r by simp
  qed
qed

lemma runes_of_encode:
  "list_all valid_rune rs \<Longrightarrow> runes_of (concat (map encode_rune rs) @ bs) = rs @ runes_of bs"
proof (induction rs)
  case Nil
  then show ?case by simp
next
  case (Cons r rs)
  let ?bs = "concat (map encode_rune rs) @ bs"
  have "decode_rune (encode_rune r @ ?bs) = (r, length (encode_rune r))"
    using Cons.prems by (intro decode_encode_rune) simp
  moreover have "encode_rune r \<noteq> []" by (simp add: encode_rune_def)
  ultimately have "runes_of (encode_rune r @ ?bs) = r # runes_of ?bs"
    by (subst runes_of.simps) simp
  with Cons show ?case by simp
qed

lemma encode_rune_bytes: "valid_rune r \<Longrightarrow> b \<in> set (encode_rune r) \<Longrightarrow> b < 256"
  unfolding encode_rune_def valid_rune_def by (auto split: if_splits)

lemma bytes_of_char_of: "\<forall>b \<in> set bs. b < 256 \<Longrightarrow> bytes_of (map char_of bs) = bs"
  unfolding bytes_of_def by (induction bs) auto

lemma bytes_of_append [simp]: "bytes_of (s @ t) = bytes_of s @ bytes_of t"
  by (simp add: bytes_of_def)

lemma bytes_of_string_of_runes:
  "list_all valid_rune rs \<Longrightarrow> bytes_of (string_of_runes rs) = concat (map encode_rune rs)"
  unfolding string_of_runes_def
  by (rule bytes_of_char_of) (auto simp: list_all_iff dest: encode_rune_bytes)

lemma runes_of_ascii: "\<forall>b \<in> set bs. b < 0x80 \<Longrightarrow> runes_of bs = bs"
proof (induction bs)
  case Nil
  then show ?case by (simp add: runes_of.simps)
next
  case (Cons b bs)
  then show ?case by (subst runes_of.simps) simp
qed

text \<open>Decoded runes are valid.\<close>

lemma first_byte_bounds:
  assumes "first_byte b = Some (n, lo, hi)"
  shows "0x80 \<le> lo \<and> hi \<le> 0xBF \<and>
    (n = 1 \<and> 0xC2 \<le> b \<and> b \<le> 0xDF \<or>
     n = 2 \<and> 0xE0 \<le> b \<and> b \<le> 0xEF \<and> (b = 0xED \<longrightarrow> hi = 0x9F) \<or>
     n = 3 \<and> 0xF0 \<le> b \<and> b \<le> 0xF4 \<and> (b = 0xF0 \<longrightarrow> lo = 0x90) \<and> (b = 0xF4 \<longrightarrow> hi = 0x8F))"
  using assms by (auto simp: first_byte_def split: if_splits)

lemma rune_values:
  fixes b c d e :: nat
  shows "b \<le> 0xDF \<Longrightarrow> c \<le> 0xBF \<Longrightarrow> valid_rune ((b - 0xC0) * 64 + (c - 0x80))"
    and "b \<le> 0xEF \<Longrightarrow> c \<le> 0xBF \<Longrightarrow> d \<le> 0xBF \<Longrightarrow> (b = 0xED \<Longrightarrow> c \<le> 0x9F) \<Longrightarrow>
      valid_rune (((b - 0xE0) * 64 + (c - 0x80)) * 64 + (d - 0x80))"
    and "0xF0 \<le> b \<Longrightarrow> b \<le> 0xF4 \<Longrightarrow> 0x80 \<le> c \<Longrightarrow> c \<le> 0xBF \<Longrightarrow> d \<le> 0xBF \<Longrightarrow> e \<le> 0xBF \<Longrightarrow>
      (b = 0xF0 \<Longrightarrow> 0x90 \<le> c) \<Longrightarrow> (b = 0xF4 \<Longrightarrow> c \<le> 0x8F) \<Longrightarrow>
      valid_rune ((((b - 0xF0) * 64 + (c - 0x80)) * 64 + (d - 0x80)) * 64 + (e - 0x80))"
proof -
  show "valid_rune ((b - 0xC0) * 64 + (c - 0x80))" if "b \<le> 0xDF" "c \<le> 0xBF"
  proof -
    define x y where "x = b - 0xC0" and "y = c - 0x80"
    have "x \<le> 31" "y \<le> 63" using that by (simp_all add: x_def y_def)
    then show ?thesis unfolding x_def [symmetric] y_def [symmetric] by (simp add: valid_rune_def)
  qed
  show "valid_rune (((b - 0xE0) * 64 + (c - 0x80)) * 64 + (d - 0x80))"
    if "b \<le> 0xEF" "c \<le> 0xBF" "d \<le> 0xBF" "b = 0xED \<Longrightarrow> c \<le> 0x9F"
  proof -
    define x y z where "x = b - 0xE0" and "y = c - 0x80" and "z = d - 0x80"
    have small: "x \<le> 15" "y \<le> 63" "z \<le> 63" using that(1-3) by (simp_all add: x_def y_def z_def)
    have sur: "y \<le> 31" if "x = 13"
    proof -
      have "b = 0xED" using that by (simp add: x_def)
      then have "c \<le> 0x9F" by fact
      then show ?thesis by (simp add: y_def)
    qed
    consider "x \<le> 12" | "x = 13" | "14 \<le> x" by linarith
    then show ?thesis
      unfolding x_def [symmetric] y_def [symmetric] z_def [symmetric]
      using small sur by cases (simp_all add: valid_rune_def)
  qed
  show "valid_rune ((((b - 0xF0) * 64 + (c - 0x80)) * 64 + (d - 0x80)) * 64 + (e - 0x80))"
    if "0xF0 \<le> b" "b \<le> 0xF4" "0x80 \<le> c" "c \<le> 0xBF" "d \<le> 0xBF" "e \<le> 0xBF"
      "b = 0xF0 \<Longrightarrow> 0x90 \<le> c" "b = 0xF4 \<Longrightarrow> c \<le> 0x8F"
  proof -
    define x y z u where "x = b - 0xF0" and "y = c - 0x80" and "z = d - 0x80" and "u = e - 0x80"
    have small: "x \<le> 4" "y \<le> 63" "z \<le> 63" "u \<le> 63"
      using that(1-6) by (simp_all add: x_def y_def z_def u_def)
    have low: "16 \<le> y" if "x = 0"
    proof -
      have "b = 0xF0" using that \<open>0xF0 \<le> b\<close> by (simp add: x_def)
      then have "0x90 \<le> c" by fact
      then show ?thesis by (simp add: y_def)
    qed
    have high: "y \<le> 15" if "x = 4"
    proof -
      have "b = 0xF4" using that by (simp add: x_def)
      then have "c \<le> 0x8F" by fact
      then show ?thesis by (simp add: y_def)
    qed
    consider "x = 0" | "1 \<le> x" "x \<le> 3" | "x = 4" using small by linarith
    then show ?thesis
      unfolding x_def [symmetric] y_def [symmetric] z_def [symmetric] u_def [symmetric]
      using small low high by cases (simp_all add: valid_rune_def)
  qed
qed

lemma decode_rune_valid: "valid_rune (fst (decode_rune bs))"
proof (induction bs rule: decode_rune.induct)
  case 1
  then show ?case by (simp add: valid_rune_def rune_error_def)
next
  case (2 b bs)
  have err: "valid_rune rune_error" by (simp add: valid_rune_def rune_error_def)
  show ?case
  proof (cases "b < 0x80 \<or> first_byte b = None")
    case True
    then show ?thesis using err by (auto simp: valid_rune_def)
  next
    case False
    then obtain n lo hi where f: "first_byte b = Some (n, lo, hi)" by auto
    note bounds = first_byte_bounds [OF f]
    have dec: "decode_rune (b # bs) = (case bs of [] \<Rightarrow> (rune_error, 1) | c # cs \<Rightarrow>
        if c < lo \<or> hi < c then (rune_error, 1)
        else if n = 1 then ((b - 0xC0) * 64 + (c - 0x80), 2)
        else case cs of [] \<Rightarrow> (rune_error, 1) | d # ds \<Rightarrow>
          if \<not> continues d then (rune_error, 1)
          else if n = 2 then (((b - 0xE0) * 64 + (c - 0x80)) * 64 + (d - 0x80), 3)
          else case ds of [] \<Rightarrow> (rune_error, 1) | e # _ \<Rightarrow>
            if \<not> continues e then (rune_error, 1)
            else ((((b - 0xF0) * 64 + (c - 0x80)) * 64 + (d - 0x80)) * 64 + (e - 0x80), 4))"
      using False f by simp
    show ?thesis
    proof (cases "snd (decode_rune (b # bs)) = 1")
      case True
      then show ?thesis unfolding dec using err by (auto split: list.splits if_splits)
    next
      case wide: False
      then obtain c cs where bs: "bs = c # cs" and c: "lo \<le> c" "c \<le> hi"
        unfolding dec by (auto split: list.splits if_splits simp: not_less)
      show ?thesis
      proof (cases "n = 1")
        case True
        have "valid_rune ((b - 0xC0) * 64 + (c - 0x80))"
          by (rule rune_values(1)) (use bounds c True in auto)
        with c True show ?thesis unfolding bs dec [unfolded bs] by simp
      next
        case n: False
        with wide c obtain d ds where cs: "cs = d # ds" "continues d"
          unfolding bs dec [unfolded bs] by (auto split: list.splits if_splits)
        show ?thesis
        proof (cases "n = 2")
          case True
          have "valid_rune (((b - 0xE0) * 64 + (c - 0x80)) * 64 + (d - 0x80))"
            by (rule rune_values(2)) (use bounds c cs True in \<open>auto simp: continues_def\<close>)
          with c cs n True show ?thesis unfolding bs dec [unfolded bs] by simp
        next
          case False
          with wide c cs n obtain e es where ds: "ds = e # es" "continues e"
            unfolding bs dec [unfolded bs] by (auto split: list.splits if_splits)
          have "valid_rune ((((b - 0xF0) * 64 + (c - 0x80)) * 64 + (d - 0x80)) * 64 + (e - 0x80))"
            by (rule rune_values(3)) (use bounds c cs ds False n in \<open>auto simp: continues_def\<close>)
          with c cs ds n False show ?thesis unfolding bs dec [unfolded bs] by simp
        qed
      qed
    qed
  qed
qed

end
