(* ===== verification/Encoding.thy ===== *)
theory Encoding
  imports Events Text
begin

text \<open>
  The JSON that the server writes: what \<^verbatim>\<open>encoding/json\<close> makes of the structs of common/models.go
  and chat/events.go, by the tags of their fields. A member with \<^verbatim>\<open>omitempty\<close> is left out when the
  field is false, zero, empty or \<^verbatim>\<open>nil\<close>, which a field that is itself a struct never is; an id is
  written as a decimal string; bytes of a text that are not UTF-8 are replaced. An empty slice is
  written as \<^verbatim>\<open>null\<close> if Go holds \<^verbatim>\<open>nil\<close> for it and as \<^verbatim>\<open>[]\<close> otherwise: the argument \<open>nil\<close> says which,
  by the name of the member.
\<close>

section \<open>Structs\<close>

type_synonym 'r members = "(string \<times> ('r \<Rightarrow> json option)) list"

definition written :: "'r members \<Rightarrow> 'r \<Rightarrow> (string \<times> json) list" where
  "written fs r = List.map_filter (\<lambda>(k, f). map_option (Pair k) (f r)) fs"

definition encode_struct :: "'r members \<Rightarrow> 'r \<Rightarrow> json" where
  "encode_struct fs r = JObj (written fs r)"

definition json_text :: "string \<Rightarrow> string" where
  "json_text s = string_of_runes (runes s)"

definition encode_text :: "string \<Rightarrow> json" where
  "encode_text s = JStr (json_text s)"

definition omit :: "bool \<Rightarrow> json \<Rightarrow> json option" where
  "omit empty_value j = (if empty_value then None else Some j)"

definition encode_slice :: "bool \<Rightarrow> json list \<Rightarrow> json" where
  "encode_slice is_nil js = (if js = [] \<and> is_nil then JNull else JArr js)"

text \<open>The kinds of fields, with and without \<^verbatim>\<open>omitempty\<close>.\<close>

definition put_int :: "('r \<Rightarrow> int) \<Rightarrow> 'r \<Rightarrow> json option" where
  "put_int field r = Some (JInt (field r))"

definition opt_int :: "('r \<Rightarrow> int) \<Rightarrow> 'r \<Rightarrow> json option" where
  "opt_int field r = omit (field r = 0) (JInt (field r))"

definition put_perms :: "('r \<Rightarrow> perms) \<Rightarrow> 'r \<Rightarrow> json option" where
  "put_perms field r = Some (JInt (sint (field r)))"

definition put_string :: "('r \<Rightarrow> string) \<Rightarrow> 'r \<Rightarrow> json option" where
  "put_string field r = Some (JStr (json_text (field r)))"

definition opt_string :: "('r \<Rightarrow> string) \<Rightarrow> 'r \<Rightarrow> json option" where
  "opt_string field r = omit (field r = []) (JStr (json_text (field r)))"

definition put_bool :: "('r \<Rightarrow> bool) \<Rightarrow> 'r \<Rightarrow> json option" where
  "put_bool field r = Some (JBool (field r))"

definition opt_bool :: "('r \<Rightarrow> bool) \<Rightarrow> 'r \<Rightarrow> json option" where
  "opt_bool field r = omit (\<not> field r) (JBool (field r))"

definition put_id :: "('r \<Rightarrow> snowflake) \<Rightarrow> 'r \<Rightarrow> json option" where
  "put_id field r = Some (Snowflake_MarshalJSON (field r))"

definition opt_id :: "('r \<Rightarrow> snowflake) \<Rightarrow> 'r \<Rightarrow> json option" where
  "opt_id field r = omit (field r = 0) (Snowflake_MarshalJSON (field r))"

definition put_struct :: "('a \<Rightarrow> json) \<Rightarrow> ('r \<Rightarrow> 'a) \<Rightarrow> 'r \<Rightarrow> json option" where
  "put_struct enc field r = Some (enc (field r))"

definition opt_pointer :: "('a \<Rightarrow> json) \<Rightarrow> ('r \<Rightarrow> 'a option) \<Rightarrow> 'r \<Rightarrow> json option" where
  "opt_pointer enc field r = map_option enc (field r)"

definition put_list :: "bool \<Rightarrow> ('a \<Rightarrow> json) \<Rightarrow> ('r \<Rightarrow> 'a list) \<Rightarrow> 'r \<Rightarrow> json option" where
  "put_list is_nil enc field r = Some (encode_slice is_nil (map enc (field r)))"

definition opt_list :: "('a \<Rightarrow> json) \<Rightarrow> ('r \<Rightarrow> 'a list) \<Rightarrow> 'r \<Rightarrow> json option" where
  "opt_list enc field r = omit (field r = []) (JArr (map enc (field r)))"

lemmas put_defs = put_int_def opt_int_def put_perms_def put_string_def opt_string_def put_bool_def
  opt_bool_def put_id_def opt_id_def put_struct_def opt_pointer_def put_list_def opt_list_def

section \<open>common/models.go\<close>

text \<open>\<^verbatim>\<open>User.MarshalJSON\<close> warns of a user without a presence and writes the fields by their tags;
  \<^verbatim>\<open>PresenceSticky\<close> has the tag that hides it.\<close>

definition User_MarshalJSON :: "(string \<Rightarrow> bool) \<Rightarrow> User \<Rightarrow> json" where
  "User_MarshalJSON nil = encode_struct
     [(''id'', put_id User_ID), (''userName'', put_string User_UserName),
      (''displayName'', put_string User_DisplayName),
      (''statusMessage'', opt_string User_StatusMessage),
      (''profileMessage'', opt_string User_ProfileMessage),
      (''profileColor'', put_int User_ProfileColor), (''avatarModified'', put_int User_AvatarModified),
      (''presence'', put_int User_Presence),
      (''roles'', put_list (nil ''roles'') Snowflake_MarshalJSON User_Roles)]"

definition encode_OverwriteType :: "OverwriteType \<Rightarrow> json" where
  "encode_OverwriteType t = JInt (case t of OverwriteTypeRole \<Rightarrow> 0 | OverwriteTypeUser \<Rightarrow> 1)"

definition encode_Overwrite :: "Overwrite \<Rightarrow> json" where
  "encode_Overwrite = encode_struct
     [(''id'', put_id Overwrite_ID), (''type'', put_struct encode_OverwriteType Overwrite_Type),
      (''allow'', put_perms Overwrite_Allow), (''deny'', put_perms Overwrite_Deny)]"

definition encode_Channel :: "Channel \<Rightarrow> json" where
  "encode_Channel = encode_struct
     [(''id'', put_id Channel_ID), (''type'', put_int Channel_Type), (''name'', opt_string Channel_Name),
      (''description'', opt_string Channel_Description), (''position'', opt_int Channel_Position),
      (''parent'', opt_id Channel_ParentID),
      (''overwrites'', opt_list encode_Overwrite Channel_Overwrites)]"

definition encode_Role :: "Role \<Rightarrow> json" where
  "encode_Role = encode_struct
     [(''id'', put_id Role_ID), (''name'', put_string Role_Name), (''color'', put_int Role_Color),
      (''position'', put_int Role_Position), (''permissions'', put_perms Role_Permissions),
      (''hoisted'', put_bool Role_Hoisted), (''mentionable'', put_bool Role_Mentionable)]"

text \<open>The tag of \<^verbatim>\<open>MimeType\<close> lacks a quote, and so the name of its member runs on to the next one.\<close>

definition encode_EmbedMedia :: "EmbedMedia \<Rightarrow> json" where
  "encode_EmbedMedia = encode_struct
     [(''id'', opt_id EmbedMedia_ID), (''url'', put_string EmbedMedia_URL),
      (''width'', put_int EmbedMedia_Width), (''height'', put_int EmbedMedia_Height),
      (''mimetype validate:'', put_string EmbedMedia_MimeType),
      (''preload'', opt_string EmbedMedia_Preload)]"

definition encode_EmbedFooter :: "EmbedFooter \<Rightarrow> json" where
  "encode_EmbedFooter = encode_struct
     [(''text'', put_string EmbedFooter_Text),
      (''icon'', opt_pointer encode_EmbedMedia EmbedFooter_Icon)]"

definition encode_EmbedAuthor :: "EmbedAuthor \<Rightarrow> json" where
  "encode_EmbedAuthor = encode_struct
     [(''name'', put_string EmbedAuthor_Name), (''url'', opt_string EmbedAuthor_URL),
      (''icon'', opt_pointer encode_EmbedMedia EmbedAuthor_Icon)]"

definition encode_EmbedProvider :: "EmbedProvider \<Rightarrow> json" where
  "encode_EmbedProvider = encode_struct
     [(''name'', put_string EmbedProvider_Name), (''url'', opt_string EmbedProvider_URL)]"

definition encode_EmbedField :: "EmbedField \<Rightarrow> json" where
  "encode_EmbedField = encode_struct
     [(''name'', put_string EmbedField_Name), (''value'', put_string EmbedField_Value),
      (''inline'', put_bool EmbedField_Inline)]"

definition encode_Embed :: "Embed \<Rightarrow> json" where
  "encode_Embed = encode_struct
     [(''id'', put_id Embed_ID), (''type'', put_int Embed_Type), (''url'', put_string Embed_URL),
      (''title'', opt_string Embed_Title), (''description'', opt_string Embed_Description),
      (''color'', opt_int Embed_Color), (''timestamp'', opt_int Embed_Timestamp),
      (''image'', opt_pointer encode_EmbedMedia Embed_Image),
      (''thumbnail'', opt_pointer encode_EmbedMedia Embed_Thumbnail),
      (''video'', opt_pointer encode_EmbedMedia Embed_Video),
      (''author'', opt_pointer encode_EmbedAuthor Embed_Author),
      (''provider'', opt_pointer encode_EmbedProvider Embed_Provider),
      (''footer'', opt_pointer encode_EmbedFooter Embed_Footer),
      (''fields'', opt_list encode_EmbedField Embed_Fields)]"

definition encode_Reaction :: "(string \<Rightarrow> bool) \<Rightarrow> Reaction \<Rightarrow> json" where
  "encode_Reaction nil = encode_struct
     [(''emoji'', put_id Reaction_EmojiID), (''count'', put_int Reaction_Count),
      (''users'', put_list (nil ''users'') Snowflake_MarshalJSON Reaction_Users),
      (''me'', opt_bool Reaction_Me)]"

definition encode_Attachment :: "Attachment \<Rightarrow> json" where
  "encode_Attachment = encode_struct
     [(''id'', put_id Attachment_ID), (''filename'', put_string Attachment_Filename),
      (''type'', put_int Attachment_Type), (''mimetype'', put_string Attachment_MimeType),
      (''size'', put_int Attachment_Size), (''preload'', opt_string Attachment_Preload),
      (''width'', opt_int Attachment_Width), (''height'', opt_int Attachment_Height)]"

definition encode_Message :: "(string \<Rightarrow> bool) \<Rightarrow> Message \<Rightarrow> json" where
  "encode_Message nil = encode_struct
     [(''id'', put_id Message_ID), (''type'', put_int Message_Type),
      (''channel'', put_id Message_ChannelID), (''timestamp'', put_int Message_Timestamp),
      (''pinned'', opt_bool Message_Pinned), (''author'', put_id Message_AuthorID),
      (''reference'', opt_id Message_ReferenceID), (''content'', put_string Message_Content),
      (''editedTimestamp'', opt_int Message_EditedTimestamp),
      (''attachments'', opt_list encode_Attachment Message_Attachments),
      (''embeds'', opt_list encode_Embed Message_Embeds),
      (''reactions'', opt_list (encode_Reaction nil) Message_Reactions),
      (''mentionedUsers'', opt_list Snowflake_MarshalJSON Message_MentionedUsers),
      (''mentionedRoles'', opt_list Snowflake_MarshalJSON Message_MentionedRoles),
      (''mentionedChannels'', opt_list Snowflake_MarshalJSON Message_MentionedChannels),
      (''embeddableURLs'', opt_list encode_text Message_EmbeddableURLs)]"

section \<open>chat/events.go\<close>

definition encode_code :: "nat \<Rightarrow> json" where
  "encode_code n = JInt (int n)"

text \<open>The text of an error is never filled in, and so it is always left out.\<close>

definition encode_ErrorResponse :: "ErrorResponse \<Rightarrow> json" where
  "encode_ErrorResponse = encode_struct
     [(''code'', put_struct encode_code ErrorResponse_Code), (''request'', put_int ErrorResponse_Request),
      (''message'', opt_string (\<lambda>_. []))]"

definition encode_SettingsResponse :: "SettingsResponse \<Rightarrow> json" where
  "encode_SettingsResponse = encode_struct
     [(''siteName'', put_string SettingsResponse_SiteName),
      (''loginMessage'', put_string SettingsResponse_LoginMessage),
      (''defaultPermissions'', put_perms SettingsResponse_DefaultPermissions),
      (''authenticated'', put_bool SettingsResponse_Authenticated),
      (''usesEmail'', put_bool SettingsResponse_UsesEmail),
      (''usesInviteCodes'', put_bool SettingsResponse_UsesInviteCodes),
      (''usesCaptcha'', put_bool SettingsResponse_UsesCaptcha),
      (''usesLoginCaptcha'', put_bool SettingsResponse_UsesLoginCaptcha),
      (''captchaSiteKey'', opt_string SettingsResponse_CaptchSiteKey)]"

definition encode_UserListGroup :: "UserListGroup \<Rightarrow> json" where
  "encode_UserListGroup = encode_struct
     [(''id'', put_id UserListGroup_ID), (''count'', put_int UserListGroup_Count)]"

definition encode_UserListResponse :: "(string \<Rightarrow> bool) \<Rightarrow> UserListResponse \<Rightarrow> json" where
  "encode_UserListResponse nil = encode_struct
     [(''start'', put_int UserListResponse_Start), (''end'', put_int UserListResponse_End),
      (''slice'', put_list (nil ''slice'') Snowflake_MarshalJSON UserListResponse_Slice),
      (''groups'', put_list (nil ''groups'') encode_UserListGroup UserListResponse_Groups)]"

definition encode_OverviewResponse :: "(string \<Rightarrow> bool) \<Rightarrow> OverviewResponse \<Rightarrow> json" where
  "encode_OverviewResponse nil = encode_struct
     [(''you'', put_struct (User_MarshalJSON nil) OverviewResponse_You),
      (''users'', put_list (nil ''users'') (User_MarshalJSON nil) OverviewResponse_Users),
      (''channels'', put_list (nil ''channels'') encode_Channel OverviewResponse_Channels),
      (''roles'', put_list (nil ''roles'') encode_Role OverviewResponse_Roles),
      (''userList'', put_struct (encode_UserListResponse nil) OverviewResponse_UserList)]"

definition encode_MessagesResponse :: "(string \<Rightarrow> bool) \<Rightarrow> MessagesResponse \<Rightarrow> json" where
  "encode_MessagesResponse nil = encode_struct
     [(''channel'', put_id MessagesResponse_ChannelID), (''before'', opt_id MessagesResponse_Before),
      (''after'', opt_id MessagesResponse_After), (''limit'', put_int MessagesResponse_Limit),
      (''messages'', put_list (nil ''messages'') (encode_Message nil) MessagesResponse_Messages),
      (''references'', opt_list (encode_Message nil) MessagesResponse_References)]"

text \<open>\<^verbatim>\<open>omitempty\<close> on \<^verbatim>\<open>Reference\<close>, a struct, has no effect.\<close>

definition encode_MessageAddEvent :: "(string \<Rightarrow> bool) \<Rightarrow> MessageAddEvent \<Rightarrow> json" where
  "encode_MessageAddEvent nil = encode_struct
     [(''message'', put_struct (encode_Message nil) MessageAddEvent_Message),
      (''reference'', put_struct (encode_Message nil) MessageAddEvent_Reference),
      (''author'', put_struct (User_MarshalJSON nil) MessageAddEvent_Author)]"

definition encode_ReactionEvent :: "ReactionEvent \<Rightarrow> json" where
  "encode_ReactionEvent = encode_struct
     [(''message'', put_id ReactionEvent_MessageID), (''user'', put_id ReactionEvent_UserID),
      (''emoji'', put_id ReactionEvent_EmojiID)]"

definition encode_ReactionUsersResponse :: "(string \<Rightarrow> bool) \<Rightarrow> ReactionUsersResponse \<Rightarrow> json" where
  "encode_ReactionUsersResponse nil = encode_struct
     [(''message'', put_id ReactionUsersResponse_MessageID),
      (''emoji'', put_id ReactionUsersResponse_EmojiID),
      (''users'', put_list (nil ''users'') Snowflake_MarshalJSON ReactionUsersResponse_Users)]"

text \<open>The structs with one member.\<close>

definition encode_member :: "string \<Rightarrow> ('a \<Rightarrow> json) \<Rightarrow> 'a \<Rightarrow> json" where
  "encode_member k enc = encode_struct [(k, put_struct enc (\<lambda>x. x))]"

definition encode_TokenResponse :: "string \<Rightarrow> json" where
  "encode_TokenResponse = encode_member ''token'' encode_text"

definition encode_MessageSendResponse :: "snowflake \<Rightarrow> json" where
  "encode_MessageSendResponse = encode_member ''message'' Snowflake_MarshalJSON"

definition encode_MessageUpdateEvent :: "(string \<Rightarrow> bool) \<Rightarrow> Message \<Rightarrow> json" where
  "encode_MessageUpdateEvent nil = encode_member ''message'' (encode_Message nil)"

definition encode_MessageDeleteEvent :: "snowflake \<Rightarrow> json" where
  "encode_MessageDeleteEvent = encode_member ''message'' Snowflake_MarshalJSON"

definition encode_UserAddEvent :: "(string \<Rightarrow> bool) \<Rightarrow> User \<Rightarrow> json" where
  "encode_UserAddEvent nil = encode_member ''user'' (User_MarshalJSON nil)"

definition encode_UserUpdateEvent :: "(string \<Rightarrow> bool) \<Rightarrow> User \<Rightarrow> json" where
  "encode_UserUpdateEvent nil = encode_member ''user'' (User_MarshalJSON nil)"

definition encode_UserDeleteEvent :: "snowflake \<Rightarrow> json" where
  "encode_UserDeleteEvent = encode_member ''user'' Snowflake_MarshalJSON"

definition encode_RoleAddEvent :: "Role \<Rightarrow> json" where
  "encode_RoleAddEvent = encode_member ''role'' encode_Role"

definition encode_RoleUpdateEvent :: "Role \<Rightarrow> json" where
  "encode_RoleUpdateEvent = encode_member ''role'' encode_Role"

definition encode_RoleDeleteEvent :: "snowflake \<Rightarrow> json" where
  "encode_RoleDeleteEvent = encode_member ''role'' Snowflake_MarshalJSON"

definition encode_UsersResponse :: "(string \<Rightarrow> bool) \<Rightarrow> User list \<Rightarrow> json" where
  "encode_UsersResponse nil = encode_struct
     [(''users'', put_list (nil ''users'') (User_MarshalJSON nil) (\<lambda>us. us))]"

definition encode_MessageUploadSlot :: "snowflake \<Rightarrow> json" where
  "encode_MessageUploadSlot = encode_struct [(''slot'', opt_id (\<lambda>k. k))]"

lemmas member_defs = encode_TokenResponse_def encode_MessageSendResponse_def encode_MessageUpdateEvent_def
  encode_MessageDeleteEvent_def encode_UserAddEvent_def encode_UserUpdateEvent_def
  encode_UserDeleteEvent_def encode_RoleAddEvent_def encode_RoleUpdateEvent_def
  encode_RoleDeleteEvent_def encode_UsersResponse_def encode_MessageUploadSlot_def

definition encode_data :: "(string \<Rightarrow> bool) \<Rightarrow> EventData \<Rightarrow> json" where
  "encode_data nil d = (case d of
       ErrorResponse r \<Rightarrow> encode_ErrorResponse r
     | SettingsResponse r \<Rightarrow> encode_SettingsResponse r
     | OverviewResponse r \<Rightarrow> encode_OverviewResponse nil r
     | TokenResponse token \<Rightarrow> encode_TokenResponse token
     | MessagesResponse r \<Rightarrow> encode_MessagesResponse nil r
     | UsersResponse users \<Rightarrow> encode_UsersResponse nil users
     | UserListResponse r \<Rightarrow> encode_UserListResponse nil r
     | MessageSendResponse k \<Rightarrow> encode_MessageSendResponse k
     | MessageUploadSlot k \<Rightarrow> encode_MessageUploadSlot k
     | MessageAddEvent r \<Rightarrow> encode_MessageAddEvent nil r
     | MessageUpdateEvent m \<Rightarrow> encode_MessageUpdateEvent nil m
     | MessageDeleteEvent k \<Rightarrow> encode_MessageDeleteEvent k
     | ReactionAddEvent r \<Rightarrow> encode_ReactionEvent r
     | ReactionDeleteEvent r \<Rightarrow> encode_ReactionEvent r
     | ReactionUsersResponse r \<Rightarrow> encode_ReactionUsersResponse nil r
     | UserAddEvent u \<Rightarrow> encode_UserAddEvent nil u
     | UserUpdateEvent u \<Rightarrow> encode_UserUpdateEvent nil u
     | UserDeleteEvent k \<Rightarrow> encode_UserDeleteEvent k
     | RoleAddEvent r \<Rightarrow> encode_RoleAddEvent r
     | RoleUpdateEvent r \<Rightarrow> encode_RoleUpdateEvent r
     | RoleDeleteEvent k \<Rightarrow> encode_RoleDeleteEvent k)"

definition encode_Event :: "(string \<Rightarrow> bool) \<Rightarrow> Event \<Rightarrow> json" where
  "encode_Event nil = encode_struct
     [(''type'', put_int Event_Type), (''seq'', opt_string Event_Seq),
      (''data'', put_struct (encode_data nil) Event_Data)]"

end
