(* ===== verification/Decoding.thy ===== *)
theory Decoding
  imports Encoding
begin

text \<open>
  A reader of what the server writes: \<^verbatim>\<open>json.Unmarshal\<close> into structs with the same tags, which is
  what a client in Go does and, for roles, what the server itself does with a request. The locale
  \<open>round_trip\<close> is the contract between a writer and its reader; it is interpreted on the writer of
  every struct, from the ones inside outwards, and each interpretation adds its facts to the
  collection that the next one rests on.
\<close>

named_theorems read_write_rules \<open>reading back a member of a struct\<close>

section \<open>Readers\<close>

definition set_value ::
  "(json \<Rightarrow> 'a option) \<Rightarrow> (('a \<Rightarrow> 'a) \<Rightarrow> 'r \<Rightarrow> 'r) \<Rightarrow> json \<Rightarrow> 'r \<Rightarrow> 'r option" where
  "set_value read upd v r = map_option (\<lambda>x. upd (\<lambda>_. x) r) (read v)"

definition set_pointer ::
  "(json \<Rightarrow> 'a option) \<Rightarrow> (('a option \<Rightarrow> 'a option) \<Rightarrow> 'r \<Rightarrow> 'r) \<Rightarrow> json \<Rightarrow> 'r \<Rightarrow> 'r option" where
  "set_pointer read upd v r = (case v of JNull \<Rightarrow> Some (upd (\<lambda>_. None) r)
     | _ \<Rightarrow> map_option (\<lambda>x. upd (\<lambda>_. Some x) r) (read v))"

lemma set_pointer_value:
  "v \<noteq> JNull \<Longrightarrow> set_pointer read upd v r = map_option (\<lambda>x. upd (\<lambda>_. Some x) r) (read v)"
  by (simp add: set_pointer_def split: json.split)

definition set_list ::
  "(json \<Rightarrow> 'a option) \<Rightarrow> (('a list \<Rightarrow> 'a list) \<Rightarrow> 'r \<Rightarrow> 'r) \<Rightarrow> json \<Rightarrow> 'r \<Rightarrow> 'r option" where
  "set_list read upd v r = (case v of JNull \<Rightarrow> Some (upd (\<lambda>_. []) r)
     | JArr js \<Rightarrow> map_option (\<lambda>xs. upd (\<lambda>_. xs) r) (those (map read js)) | _ \<Rightarrow> None)"

definition read_text :: "json \<Rightarrow> string option" where
  "read_text j = (case j of JStr s \<Rightarrow> Some s | JNull \<Rightarrow> Some [] | _ \<Rightarrow> None)"

definition read_OverwriteType :: "json \<Rightarrow> OverwriteType option" where
  "read_OverwriteType j =
     (if j = JInt 0 then Some OverwriteTypeRole else if j = JInt 1 then Some OverwriteTypeUser else None)"

definition read_code :: "json \<Rightarrow> nat option" where
  "read_code j = (case j of JInt n \<Rightarrow> if 0 \<le> n \<and> n \<le> MaxInt64 then Some (nat n) else None | _ \<Rightarrow> None)"

text \<open>What a value must satisfy to come back as it was: numbers that an \<^verbatim>\<open>int64\<close> holds, and texts
  that are UTF-8.\<close>

definition utf8 :: "string \<Rightarrow> bool" where
  "utf8 s \<longleftrightarrow> json_text s = s"

definition fits_code :: "nat \<Rightarrow> bool" where
  "fits_code n \<longleftrightarrow> int n \<le> MaxInt64"

text \<open>The text of any sequence of code points is UTF-8.\<close>

lemma utf8_string_of_runes: "list_all valid_rune rs \<Longrightarrow> utf8 (string_of_runes rs)"
  using runes_of_encode [of rs "[]"]
  by (simp add: utf8_def json_text_def runes_def bytes_of_string_of_runes runes_of.simps [of "[]"])

lemma utf8_Nil [simp]: "utf8 []"
  by (simp add: utf8_def json_text_def runes_def bytes_of_def string_of_runes_def
      runes_of.simps [of "[]"])

section \<open>The members of a struct in order\<close>

text \<open>A struct is read back member by member, when the setters stand in the order of the members.\<close>

fun reads :: "'r setters \<Rightarrow> 'r members \<Rightarrow> 'r \<Rightarrow> 'r \<Rightarrow> 'r option" where
  "reads ((k, setter) # S) ((k', field) # fs) r s =
     (case field r of None \<Rightarrow> reads S fs r s
      | Some j \<Rightarrow> (case setter j s of None \<Rightarrow> None | Some s' \<Rightarrow> reads S fs r s'))"
| "reads _ _ r s = Some s"

lemma written_Cons:
  "written ((k, f) # fs) r = (case f r of None \<Rightarrow> written fs r | Some j \<Rightarrow> (k, j) # written fs r)"
  by (simp add: written_def List.map_filter_simps split: option.split)

lemma written_Nil: "written [] r = []"
  by (simp add: written_def List.map_filter_simps)

lemma find_setter_append:
  "k \<notin> fst ` set pre \<Longrightarrow> find_setter (pre @ (k, setter) # S) k = Some setter"
proof -
  assume "k \<notin> fst ` set pre"
  then have "List.find (\<lambda>f. fst f = k) (pre @ (k, setter) # S) = Some (k, setter)"
    by (induction pre) auto
  then show ?thesis by (simp add: find_setter_def)
qed

lemma decode_members_reads:
  assumes "map fst S = map fst fs" and "distinct (map fst (pre @ S))"
  shows "decode_members (pre @ S) (written fs r) s = reads S fs r s"
  using assms
proof (induction S fs arbitrary: pre s rule: list_induct2')
  case (4 x S y fs)
  obtain k setter field where [simp]: "x = (k, setter)" "y = (k, field)"
    using 4(2) by (cases x, cases y) auto
  have "find_setter (pre @ (k, setter) # S) k = Some setter"
    using 4(3) by (intro find_setter_append) auto
  moreover have "decode_members ((pre @ [x]) @ S) (written fs r) s' = reads S fs r s'" for s'
    using 4 by (intro 4(1)) auto
  ultimately show ?case by (simp add: written_Cons split: option.split)
qed (auto simp: written_Nil)

lemma decode_encoded:
  "map fst S = map fst fs \<and> distinct (map fst fs) \<Longrightarrow>
   decode_struct S (encode_struct fs r) s = reads S fs r s"
  using decode_members_reads [of S fs "[]"] by (simp add: decode_struct_def encode_struct_def)

lemma encode_struct_not_null: "encode_struct fs r \<noteq> JNull"
  by (simp add: encode_struct_def)

section \<open>Fields\<close>

lemma fits_int64_sint: "fits_int64 (sint (p :: perms))"
  using sint_lt [of p] sint_ge [of p] by (simp add: fits_int64_def MaxInt64_def)

lemma reads_put_plain [read_write_rules]:
  "fits_int64 (field r) \<Longrightarrow>
   reads ((k, set_int upd) # S) ((k', put_int field) # fs) r s = reads S fs r (upd (\<lambda>_. field r) s)"
  "fits_int64 (ident r) \<Longrightarrow>
   reads ((k, set_snowflake updi) # S) ((k', put_id ident) # fs) r s =
     reads S fs r (updi (\<lambda>_. ident r) s)"
  "reads ((k, set_perms updp) # S) ((k', put_perms ps) # fs) r s = reads S fs r (updp (\<lambda>_. ps r) s)"
  "utf8 (txt r) \<Longrightarrow>
   reads ((k, set_string updt) # S) ((k', put_string txt) # fs) r s = reads S fs r (updt (\<lambda>_. txt r) s)"
  "reads ((k, set_bool updb) # S) ((k', put_bool flag) # fs) r s = reads S fs r (updb (\<lambda>_. flag r) s)"
  using ParseInt_FormatInt [of "ident r"] fits_int64_sint [of "ps r"]
  by (simp_all add: put_defs set_int_def set_snowflake_def set_perms_def set_string_def set_bool_def
      utf8_def Snowflake_MarshalJSON_def Snowflake_UnmarshalJSON_def fits_int64_def)

text \<open>A member that is left out stands for the zero value that the field has already.\<close>

lemma reads_opt_plain [read_write_rules]:
  "fits_int64 (field r) \<Longrightarrow> (field r = 0 \<Longrightarrow> upd (\<lambda>_. field r) s = s) \<Longrightarrow>
   reads ((k, set_int upd) # S) ((k', opt_int field) # fs) r s = reads S fs r (upd (\<lambda>_. field r) s)"
  "fits_int64 (ident r) \<Longrightarrow> (ident r = 0 \<Longrightarrow> updi (\<lambda>_. ident r) s = s) \<Longrightarrow>
   reads ((k, set_snowflake updi) # S) ((k', opt_id ident) # fs) r s =
     reads S fs r (updi (\<lambda>_. ident r) s)"
  "utf8 (txt r) \<Longrightarrow> (txt r = [] \<Longrightarrow> updt (\<lambda>_. txt r) s = s) \<Longrightarrow>
   reads ((k, set_string updt) # S) ((k', opt_string txt) # fs) r s = reads S fs r (updt (\<lambda>_. txt r) s)"
  "(\<not> flag r \<Longrightarrow> updb (\<lambda>_. flag r) s = s) \<Longrightarrow>
   reads ((k, set_bool updb) # S) ((k', opt_bool flag) # fs) r s = reads S fs r (updb (\<lambda>_. flag r) s)"
  "reads ((k, setter) # S) ((k', opt_string (\<lambda>_. [])) # fs) r s = reads S fs r s"
  using ParseInt_FormatInt [of "ident r"]
  by (simp_all add: put_defs omit_def set_int_def set_snowflake_def set_string_def set_bool_def
      utf8_def Snowflake_MarshalJSON_def Snowflake_UnmarshalJSON_def fits_int64_def)

section \<open>The contract of a writer and its reader\<close>

locale round_trip =
  fixes enc :: "'a \<Rightarrow> json" and read :: "json \<Rightarrow> 'a option"
    and shown :: "'a \<Rightarrow> 'a" and sendable :: "'a \<Rightarrow> bool"
  assumes read_back: "sendable x \<Longrightarrow> read (enc x) = Some (shown x)"
    and not_null: "enc x \<noteq> JNull"
begin

lemma those_read: "list_all sendable xs \<Longrightarrow> those (map (read \<circ> enc) xs) = Some (map shown xs)"
  by (induction xs) (simp_all add: read_back)

lemma reads_struct [read_write_rules]:
  "sendable (field r) \<Longrightarrow>
   reads ((k, set_value read upd) # S) ((k', put_struct enc field) # fs) r s =
     reads S fs r (upd (\<lambda>_. shown (field r)) s)"
  by (simp add: put_struct_def set_value_def read_back)

lemma reads_pointer [read_write_rules]:
  "pred_option sendable (field r) \<Longrightarrow>
   (field r = None \<Longrightarrow> upd (\<lambda>_. map_option shown (field r)) s = s) \<Longrightarrow>
   reads ((k, set_pointer read upd) # S) ((k', opt_pointer enc field) # fs) r s =
     reads S fs r (upd (\<lambda>_. map_option shown (field r)) s)"
  by (cases "field r") (simp_all add: opt_pointer_def set_pointer_value read_back not_null)

lemma reads_list [read_write_rules]:
  "list_all sendable (field r) \<Longrightarrow>
   reads ((k, set_list read upd) # S) ((k', put_list is_nil enc field) # fs) r s =
     reads S fs r (upd (\<lambda>_. map shown (field r)) s)"
  using those_read [of "field r"]
  by (simp add: put_list_def encode_slice_def set_list_def)

lemma reads_opt_list [read_write_rules]:
  "list_all sendable (field r) \<Longrightarrow>
   (field r = [] \<Longrightarrow> upd (\<lambda>_. map shown (field r)) s = s) \<Longrightarrow>
   reads ((k, set_list read upd) # S) ((k', opt_list enc field) # fs) r s =
     reads S fs r (upd (\<lambda>_. map shown (field r)) s)"
  using those_read [of "field r"] by (simp add: opt_list_def omit_def set_list_def)

end

interpretation id_json: round_trip Snowflake_MarshalJSON Snowflake_UnmarshalJSON "\<lambda>k. k" fits_int64
  using ParseInt_FormatInt
  by unfold_locales (simp_all add: Snowflake_MarshalJSON_def Snowflake_UnmarshalJSON_def fits_int64_def)

interpretation text_json: round_trip encode_text read_text "\<lambda>s. s" utf8
  by unfold_locales (simp_all add: encode_text_def read_text_def utf8_def)

interpretation overwrite_type_json:
  round_trip encode_OverwriteType read_OverwriteType "\<lambda>ty. ty" "\<lambda>_. True"
  by unfold_locales
    (simp_all add: encode_OverwriteType_def read_OverwriteType_def split: OverwriteType.split)

interpretation code_json: round_trip encode_code read_code "\<lambda>n. n" fits_code
  by unfold_locales (simp_all add: encode_code_def read_code_def fits_code_def)

lemma reads_Nil: "reads [] [] r s = Some s"
  by simp

declare reads.simps [simp del]

lemmas encoded_simps = reads_Nil option.map_ident decode_encoded encode_struct_not_null read_write_rules

section \<open>common/models.go\<close>

text \<open>The stickiness of a presence is not written.\<close>

definition hide_User :: "User \<Rightarrow> User" where
  "hide_User u = u\<lparr>User_PresenceSticky := 0\<rparr>"

definition User_setters :: "User setters" where
  "User_setters =
     [(''id'', set_snowflake User_ID_update), (''userName'', set_string User_UserName_update),
      (''displayName'', set_string User_DisplayName_update),
      (''statusMessage'', set_string User_StatusMessage_update),
      (''profileMessage'', set_string User_ProfileMessage_update),
      (''profileColor'', set_int User_ProfileColor_update),
      (''avatarModified'', set_int User_AvatarModified_update),
      (''presence'', set_int User_Presence_update),
      (''roles'', set_list Snowflake_UnmarshalJSON User_Roles_update)]"

definition read_User :: "json \<Rightarrow> User option" where
  "read_User j = decode_struct User_setters j User_zero"

definition sendable_User :: "User \<Rightarrow> bool" where
  "sendable_User r \<longleftrightarrow>
     fits_int64 (User_ID r) \<and> utf8 (User_UserName r) \<and> utf8 (User_DisplayName r) \<and>
     utf8 (User_StatusMessage r) \<and> utf8 (User_ProfileMessage r) \<and>
     fits_int64 (User_ProfileColor r) \<and> fits_int64 (User_AvatarModified r) \<and>
     fits_int64 (User_Presence r) \<and> list_all fits_int64 (User_Roles r)"

interpretation User_json:
  round_trip "User_MarshalJSON nil" read_User hide_User sendable_User for nil
  by unfold_locales
    (simp_all add: User_MarshalJSON_def read_User_def sendable_User_def User_setters_def User_zero_def
      hide_User_def encoded_simps read_write_rules)

definition Overwrite_zero :: Overwrite where
  "Overwrite_zero =
    \<lparr>Overwrite_ID = 0, Overwrite_Type = OverwriteTypeRole, Overwrite_Allow = 0, Overwrite_Deny = 0\<rparr>"

definition Overwrite_setters :: "Overwrite setters" where
  "Overwrite_setters =
     [(''id'', set_snowflake Overwrite_ID_update),
      (''type'', set_value read_OverwriteType Overwrite_Type_update),
      (''allow'', set_perms Overwrite_Allow_update), (''deny'', set_perms Overwrite_Deny_update)]"

definition read_Overwrite :: "json \<Rightarrow> Overwrite option" where
  "read_Overwrite j = decode_struct Overwrite_setters j Overwrite_zero"

definition sendable_Overwrite :: "Overwrite \<Rightarrow> bool" where
  "sendable_Overwrite r \<longleftrightarrow>
     fits_int64 (Overwrite_ID r)"

interpretation Overwrite_json:
  round_trip encode_Overwrite read_Overwrite "\<lambda>r. r" sendable_Overwrite
  by unfold_locales
    (simp_all add: encode_Overwrite_def read_Overwrite_def sendable_Overwrite_def Overwrite_setters_def
      Overwrite_zero_def encoded_simps read_write_rules)

definition Channel_zero :: Channel where
  "Channel_zero =
    \<lparr>Channel_ID = 0, Channel_Type = 0, Channel_Name = [], Channel_Description = [],
     Channel_Position = 0, Channel_ParentID = 0, Channel_Overwrites = []\<rparr>"

definition Channel_setters :: "Channel setters" where
  "Channel_setters =
     [(''id'', set_snowflake Channel_ID_update), (''type'', set_int Channel_Type_update),
      (''name'', set_string Channel_Name_update),
      (''description'', set_string Channel_Description_update),
      (''position'', set_int Channel_Position_update),
      (''parent'', set_snowflake Channel_ParentID_update),
      (''overwrites'', set_list read_Overwrite Channel_Overwrites_update)]"

definition read_Channel :: "json \<Rightarrow> Channel option" where
  "read_Channel j = decode_struct Channel_setters j Channel_zero"

definition sendable_Channel :: "Channel \<Rightarrow> bool" where
  "sendable_Channel r \<longleftrightarrow>
     fits_int64 (Channel_ID r) \<and> fits_int64 (Channel_Type r) \<and>
     utf8 (Channel_Name r) \<and> utf8 (Channel_Description r) \<and>
     fits_int64 (Channel_Position r) \<and> fits_int64 (Channel_ParentID r) \<and>
     list_all sendable_Overwrite (Channel_Overwrites r)"

interpretation Channel_json:
  round_trip encode_Channel read_Channel "\<lambda>r. r" sendable_Channel
  by unfold_locales
    (simp_all add: encode_Channel_def read_Channel_def sendable_Channel_def Channel_setters_def
      Channel_zero_def encoded_simps read_write_rules)

definition read_Role :: "json \<Rightarrow> Role option" where
  "read_Role j = decode_struct role_setters j Role_zero"

definition sendable_Role :: "Role \<Rightarrow> bool" where
  "sendable_Role r \<longleftrightarrow>
     fits_int64 (Role_ID r) \<and> utf8 (Role_Name r) \<and> fits_int64 (Role_Color r) \<and>
     fits_int64 (Role_Position r)"

interpretation Role_json:
  round_trip encode_Role read_Role "\<lambda>r. r" sendable_Role
  by unfold_locales
    (simp_all add: encode_Role_def read_Role_def sendable_Role_def role_setters_def Role_zero_def encoded_simps
      read_write_rules)

definition EmbedMedia_zero :: EmbedMedia where
  "EmbedMedia_zero =
    \<lparr>EmbedMedia_ID = 0, EmbedMedia_URL = [], EmbedMedia_Width = 0, EmbedMedia_Height = 0,
     EmbedMedia_MimeType = [], EmbedMedia_Preload = []\<rparr>"

definition EmbedMedia_setters :: "EmbedMedia setters" where
  "EmbedMedia_setters =
     [(''id'', set_snowflake EmbedMedia_ID_update), (''url'', set_string EmbedMedia_URL_update),
      (''width'', set_int EmbedMedia_Width_update),
      (''height'', set_int EmbedMedia_Height_update),
      (''mimetype validate:'', set_string EmbedMedia_MimeType_update),
      (''preload'', set_string EmbedMedia_Preload_update)]"

definition read_EmbedMedia :: "json \<Rightarrow> EmbedMedia option" where
  "read_EmbedMedia j = decode_struct EmbedMedia_setters j EmbedMedia_zero"

definition sendable_EmbedMedia :: "EmbedMedia \<Rightarrow> bool" where
  "sendable_EmbedMedia r \<longleftrightarrow>
     fits_int64 (EmbedMedia_ID r) \<and> utf8 (EmbedMedia_URL r) \<and>
     fits_int64 (EmbedMedia_Width r) \<and> fits_int64 (EmbedMedia_Height r) \<and>
     utf8 (EmbedMedia_MimeType r) \<and> utf8 (EmbedMedia_Preload r)"

interpretation EmbedMedia_json:
  round_trip encode_EmbedMedia read_EmbedMedia "\<lambda>r. r" sendable_EmbedMedia
  by unfold_locales
    (simp_all add: encode_EmbedMedia_def read_EmbedMedia_def sendable_EmbedMedia_def EmbedMedia_setters_def
      EmbedMedia_zero_def encoded_simps read_write_rules)

definition EmbedFooter_zero :: EmbedFooter where
  "EmbedFooter_zero =
    \<lparr>EmbedFooter_Text = [], EmbedFooter_Icon = None\<rparr>"

definition EmbedFooter_setters :: "EmbedFooter setters" where
  "EmbedFooter_setters =
     [(''text'', set_string EmbedFooter_Text_update),
      (''icon'', set_pointer read_EmbedMedia EmbedFooter_Icon_update)]"

definition read_EmbedFooter :: "json \<Rightarrow> EmbedFooter option" where
  "read_EmbedFooter j = decode_struct EmbedFooter_setters j EmbedFooter_zero"

definition sendable_EmbedFooter :: "EmbedFooter \<Rightarrow> bool" where
  "sendable_EmbedFooter r \<longleftrightarrow>
     utf8 (EmbedFooter_Text r) \<and> pred_option sendable_EmbedMedia (EmbedFooter_Icon r)"

interpretation EmbedFooter_json:
  round_trip encode_EmbedFooter read_EmbedFooter "\<lambda>r. r" sendable_EmbedFooter
  by unfold_locales
    (simp_all add: encode_EmbedFooter_def read_EmbedFooter_def sendable_EmbedFooter_def EmbedFooter_setters_def
      EmbedFooter_zero_def encoded_simps read_write_rules)

definition EmbedAuthor_zero :: EmbedAuthor where
  "EmbedAuthor_zero =
    \<lparr>EmbedAuthor_Name = [], EmbedAuthor_URL = [], EmbedAuthor_Icon = None\<rparr>"

definition EmbedAuthor_setters :: "EmbedAuthor setters" where
  "EmbedAuthor_setters =
     [(''name'', set_string EmbedAuthor_Name_update),
      (''url'', set_string EmbedAuthor_URL_update),
      (''icon'', set_pointer read_EmbedMedia EmbedAuthor_Icon_update)]"

definition read_EmbedAuthor :: "json \<Rightarrow> EmbedAuthor option" where
  "read_EmbedAuthor j = decode_struct EmbedAuthor_setters j EmbedAuthor_zero"

definition sendable_EmbedAuthor :: "EmbedAuthor \<Rightarrow> bool" where
  "sendable_EmbedAuthor r \<longleftrightarrow>
     utf8 (EmbedAuthor_Name r) \<and> utf8 (EmbedAuthor_URL r) \<and>
     pred_option sendable_EmbedMedia (EmbedAuthor_Icon r)"

interpretation EmbedAuthor_json:
  round_trip encode_EmbedAuthor read_EmbedAuthor "\<lambda>r. r" sendable_EmbedAuthor
  by unfold_locales
    (simp_all add: encode_EmbedAuthor_def read_EmbedAuthor_def sendable_EmbedAuthor_def EmbedAuthor_setters_def
      EmbedAuthor_zero_def encoded_simps read_write_rules)

definition EmbedProvider_zero :: EmbedProvider where
  "EmbedProvider_zero =
    \<lparr>EmbedProvider_Name = [], EmbedProvider_URL = []\<rparr>"

definition EmbedProvider_setters :: "EmbedProvider setters" where
  "EmbedProvider_setters =
     [(''name'', set_string EmbedProvider_Name_update),
      (''url'', set_string EmbedProvider_URL_update)]"

definition read_EmbedProvider :: "json \<Rightarrow> EmbedProvider option" where
  "read_EmbedProvider j = decode_struct EmbedProvider_setters j EmbedProvider_zero"

definition sendable_EmbedProvider :: "EmbedProvider \<Rightarrow> bool" where
  "sendable_EmbedProvider r \<longleftrightarrow>
     utf8 (EmbedProvider_Name r) \<and> utf8 (EmbedProvider_URL r)"

interpretation EmbedProvider_json:
  round_trip encode_EmbedProvider read_EmbedProvider "\<lambda>r. r" sendable_EmbedProvider
  by unfold_locales
    (simp_all add: encode_EmbedProvider_def read_EmbedProvider_def sendable_EmbedProvider_def
      EmbedProvider_setters_def EmbedProvider_zero_def encoded_simps read_write_rules)

definition EmbedField_zero :: EmbedField where
  "EmbedField_zero =
    \<lparr>EmbedField_Name = [], EmbedField_Value = [], EmbedField_Inline = False\<rparr>"

definition EmbedField_setters :: "EmbedField setters" where
  "EmbedField_setters =
     [(''name'', set_string EmbedField_Name_update),
      (''value'', set_string EmbedField_Value_update),
      (''inline'', set_bool EmbedField_Inline_update)]"

definition read_EmbedField :: "json \<Rightarrow> EmbedField option" where
  "read_EmbedField j = decode_struct EmbedField_setters j EmbedField_zero"

definition sendable_EmbedField :: "EmbedField \<Rightarrow> bool" where
  "sendable_EmbedField r \<longleftrightarrow>
     utf8 (EmbedField_Name r) \<and> utf8 (EmbedField_Value r)"

interpretation EmbedField_json:
  round_trip encode_EmbedField read_EmbedField "\<lambda>r. r" sendable_EmbedField
  by unfold_locales
    (simp_all add: encode_EmbedField_def read_EmbedField_def sendable_EmbedField_def EmbedField_setters_def
      EmbedField_zero_def encoded_simps read_write_rules)

definition Embed_zero :: Embed where
  "Embed_zero =
    \<lparr>Embed_ID = 0, Embed_Type = 0, Embed_URL = [], Embed_Title = [], Embed_Description = [],
     Embed_Color = 0, Embed_Timestamp = 0, Embed_Image = None, Embed_Thumbnail = None,
     Embed_Video = None, Embed_Author = None, Embed_Provider = None, Embed_Footer = None,
     Embed_Fields = []\<rparr>"

definition Embed_setters :: "Embed setters" where
  "Embed_setters =
     [(''id'', set_snowflake Embed_ID_update), (''type'', set_int Embed_Type_update),
      (''url'', set_string Embed_URL_update), (''title'', set_string Embed_Title_update),
      (''description'', set_string Embed_Description_update),
      (''color'', set_int Embed_Color_update), (''timestamp'', set_int Embed_Timestamp_update),
      (''image'', set_pointer read_EmbedMedia Embed_Image_update),
      (''thumbnail'', set_pointer read_EmbedMedia Embed_Thumbnail_update),
      (''video'', set_pointer read_EmbedMedia Embed_Video_update),
      (''author'', set_pointer read_EmbedAuthor Embed_Author_update),
      (''provider'', set_pointer read_EmbedProvider Embed_Provider_update),
      (''footer'', set_pointer read_EmbedFooter Embed_Footer_update),
      (''fields'', set_list read_EmbedField Embed_Fields_update)]"

definition read_Embed :: "json \<Rightarrow> Embed option" where
  "read_Embed j = decode_struct Embed_setters j Embed_zero"

definition sendable_Embed :: "Embed \<Rightarrow> bool" where
  "sendable_Embed r \<longleftrightarrow>
     fits_int64 (Embed_ID r) \<and> fits_int64 (Embed_Type r) \<and> utf8 (Embed_URL r) \<and>
     utf8 (Embed_Title r) \<and> utf8 (Embed_Description r) \<and>
     fits_int64 (Embed_Color r) \<and> fits_int64 (Embed_Timestamp r) \<and>
     pred_option sendable_EmbedMedia (Embed_Image r) \<and>
     pred_option sendable_EmbedMedia (Embed_Thumbnail r) \<and>
     pred_option sendable_EmbedMedia (Embed_Video r) \<and>
     pred_option sendable_EmbedAuthor (Embed_Author r) \<and>
     pred_option sendable_EmbedProvider (Embed_Provider r) \<and>
     pred_option sendable_EmbedFooter (Embed_Footer r) \<and>
     list_all sendable_EmbedField (Embed_Fields r)"

interpretation Embed_json:
  round_trip encode_Embed read_Embed "\<lambda>r. r" sendable_Embed
  by unfold_locales
    (simp_all add: encode_Embed_def read_Embed_def sendable_Embed_def Embed_setters_def Embed_zero_def
      encoded_simps read_write_rules)

definition Reaction_zero :: Reaction where
  "Reaction_zero =
    \<lparr>Reaction_EmojiID = 0, Reaction_Count = 0, Reaction_Users = [], Reaction_Me = False\<rparr>"

definition Reaction_setters :: "Reaction setters" where
  "Reaction_setters =
     [(''emoji'', set_snowflake Reaction_EmojiID_update),
      (''count'', set_int Reaction_Count_update),
      (''users'', set_list Snowflake_UnmarshalJSON Reaction_Users_update),
      (''me'', set_bool Reaction_Me_update)]"

definition read_Reaction :: "json \<Rightarrow> Reaction option" where
  "read_Reaction j = decode_struct Reaction_setters j Reaction_zero"

definition sendable_Reaction :: "Reaction \<Rightarrow> bool" where
  "sendable_Reaction r \<longleftrightarrow>
     fits_int64 (Reaction_EmojiID r) \<and> fits_int64 (Reaction_Count r) \<and>
     list_all fits_int64 (Reaction_Users r)"

interpretation Reaction_json:
  round_trip "encode_Reaction nil" read_Reaction "\<lambda>r. r" sendable_Reaction for nil
  by unfold_locales
    (simp_all add: encode_Reaction_def read_Reaction_def sendable_Reaction_def Reaction_setters_def
      Reaction_zero_def encoded_simps read_write_rules)

definition Attachment_zero :: Attachment where
  "Attachment_zero =
    \<lparr>Attachment_ID = 0, Attachment_Filename = [], Attachment_Type = 0, Attachment_MimeType = [],
     Attachment_Size = 0, Attachment_Preload = [], Attachment_Width = 0, Attachment_Height = 0\<rparr>"

definition Attachment_setters :: "Attachment setters" where
  "Attachment_setters =
     [(''id'', set_snowflake Attachment_ID_update),
      (''filename'', set_string Attachment_Filename_update),
      (''type'', set_int Attachment_Type_update),
      (''mimetype'', set_string Attachment_MimeType_update),
      (''size'', set_int Attachment_Size_update),
      (''preload'', set_string Attachment_Preload_update),
      (''width'', set_int Attachment_Width_update), (''height'', set_int Attachment_Height_update)]"

definition read_Attachment :: "json \<Rightarrow> Attachment option" where
  "read_Attachment j = decode_struct Attachment_setters j Attachment_zero"

definition sendable_Attachment :: "Attachment \<Rightarrow> bool" where
  "sendable_Attachment r \<longleftrightarrow>
     fits_int64 (Attachment_ID r) \<and> utf8 (Attachment_Filename r) \<and>
     fits_int64 (Attachment_Type r) \<and> utf8 (Attachment_MimeType r) \<and>
     fits_int64 (Attachment_Size r) \<and> utf8 (Attachment_Preload r) \<and>
     fits_int64 (Attachment_Width r) \<and> fits_int64 (Attachment_Height r)"

interpretation Attachment_json:
  round_trip encode_Attachment read_Attachment "\<lambda>r. r" sendable_Attachment
  by unfold_locales
    (simp_all add: encode_Attachment_def read_Attachment_def sendable_Attachment_def Attachment_setters_def
      Attachment_zero_def encoded_simps read_write_rules)

definition Message_setters :: "Message setters" where
  "Message_setters =
     [(''id'', set_snowflake Message_ID_update), (''type'', set_int Message_Type_update),
      (''channel'', set_snowflake Message_ChannelID_update),
      (''timestamp'', set_int Message_Timestamp_update),
      (''pinned'', set_bool Message_Pinned_update),
      (''author'', set_snowflake Message_AuthorID_update),
      (''reference'', set_snowflake Message_ReferenceID_update),
      (''content'', set_string Message_Content_update),
      (''editedTimestamp'', set_int Message_EditedTimestamp_update),
      (''attachments'', set_list read_Attachment Message_Attachments_update),
      (''embeds'', set_list read_Embed Message_Embeds_update),
      (''reactions'', set_list read_Reaction Message_Reactions_update),
      (''mentionedUsers'', set_list Snowflake_UnmarshalJSON Message_MentionedUsers_update),
      (''mentionedRoles'', set_list Snowflake_UnmarshalJSON Message_MentionedRoles_update),
      (''mentionedChannels'', set_list Snowflake_UnmarshalJSON Message_MentionedChannels_update),
      (''embeddableURLs'', set_list read_text Message_EmbeddableURLs_update)]"

definition read_Message :: "json \<Rightarrow> Message option" where
  "read_Message j = decode_struct Message_setters j Message_zero"

definition sendable_Message :: "Message \<Rightarrow> bool" where
  "sendable_Message r \<longleftrightarrow>
     fits_int64 (Message_ID r) \<and> fits_int64 (Message_Type r) \<and>
     fits_int64 (Message_ChannelID r) \<and> fits_int64 (Message_Timestamp r) \<and>
     fits_int64 (Message_AuthorID r) \<and> fits_int64 (Message_ReferenceID r) \<and>
     utf8 (Message_Content r) \<and> fits_int64 (Message_EditedTimestamp r) \<and>
     list_all sendable_Attachment (Message_Attachments r) \<and>
     list_all sendable_Embed (Message_Embeds r) \<and>
     list_all sendable_Reaction (Message_Reactions r) \<and>
     list_all fits_int64 (Message_MentionedUsers r) \<and>
     list_all fits_int64 (Message_MentionedRoles r) \<and>
     list_all fits_int64 (Message_MentionedChannels r) \<and>
     list_all utf8 (Message_EmbeddableURLs r)"

interpretation Message_json:
  round_trip "encode_Message nil" read_Message "\<lambda>r. r" sendable_Message for nil
  by unfold_locales
    (simp_all add: encode_Message_def read_Message_def sendable_Message_def Message_setters_def
      Message_zero_def encoded_simps read_write_rules)

section \<open>chat/events.go\<close>

definition shown_OverviewResponse :: "OverviewResponse \<Rightarrow> OverviewResponse" where
  "shown_OverviewResponse r =
     r\<lparr>OverviewResponse_You := hide_User (OverviewResponse_You r),
        OverviewResponse_Users := map hide_User (OverviewResponse_Users r)\<rparr>"

definition shown_MessageAddEvent :: "MessageAddEvent \<Rightarrow> MessageAddEvent" where
  "shown_MessageAddEvent r = r\<lparr>MessageAddEvent_Author := hide_User (MessageAddEvent_Author r)\<rparr>"

definition ErrorResponse_zero :: ErrorResponse where
  "ErrorResponse_zero =
    \<lparr>ErrorResponse_Code = 0, ErrorResponse_Request = 0\<rparr>"

definition ErrorResponse_setters :: "ErrorResponse setters" where
  "ErrorResponse_setters =
     [(''code'', set_value read_code ErrorResponse_Code_update),
      (''request'', set_int ErrorResponse_Request_update), (''message'', \<lambda>v r. Some r)]"

definition read_ErrorResponse :: "json \<Rightarrow> ErrorResponse option" where
  "read_ErrorResponse j = decode_struct ErrorResponse_setters j ErrorResponse_zero"

definition sendable_ErrorResponse :: "ErrorResponse \<Rightarrow> bool" where
  "sendable_ErrorResponse r \<longleftrightarrow>
     fits_code (ErrorResponse_Code r) \<and> fits_int64 (ErrorResponse_Request r)"

interpretation ErrorResponse_json:
  round_trip encode_ErrorResponse read_ErrorResponse "\<lambda>r. r" sendable_ErrorResponse
  by unfold_locales
    (simp_all add: encode_ErrorResponse_def read_ErrorResponse_def sendable_ErrorResponse_def
      ErrorResponse_setters_def ErrorResponse_zero_def encoded_simps read_write_rules)

definition SettingsResponse_zero :: SettingsResponse where
  "SettingsResponse_zero =
    \<lparr>SettingsResponse_SiteName = [], SettingsResponse_LoginMessage = [],
     SettingsResponse_DefaultPermissions = 0, SettingsResponse_Authenticated = False,
     SettingsResponse_UsesEmail = False, SettingsResponse_UsesInviteCodes = False,
     SettingsResponse_UsesCaptcha = False, SettingsResponse_UsesLoginCaptcha = False,
     SettingsResponse_CaptchSiteKey = []\<rparr>"

definition SettingsResponse_setters :: "SettingsResponse setters" where
  "SettingsResponse_setters =
     [(''siteName'', set_string SettingsResponse_SiteName_update),
      (''loginMessage'', set_string SettingsResponse_LoginMessage_update),
      (''defaultPermissions'', set_perms SettingsResponse_DefaultPermissions_update),
      (''authenticated'', set_bool SettingsResponse_Authenticated_update),
      (''usesEmail'', set_bool SettingsResponse_UsesEmail_update),
      (''usesInviteCodes'', set_bool SettingsResponse_UsesInviteCodes_update),
      (''usesCaptcha'', set_bool SettingsResponse_UsesCaptcha_update),
      (''usesLoginCaptcha'', set_bool SettingsResponse_UsesLoginCaptcha_update),
      (''captchaSiteKey'', set_string SettingsResponse_CaptchSiteKey_update)]"

definition read_SettingsResponse :: "json \<Rightarrow> SettingsResponse option" where
  "read_SettingsResponse j = decode_struct SettingsResponse_setters j SettingsResponse_zero"

definition sendable_SettingsResponse :: "SettingsResponse \<Rightarrow> bool" where
  "sendable_SettingsResponse r \<longleftrightarrow>
     utf8 (SettingsResponse_SiteName r) \<and> utf8 (SettingsResponse_LoginMessage r) \<and>
     utf8 (SettingsResponse_CaptchSiteKey r)"

interpretation SettingsResponse_json:
  round_trip encode_SettingsResponse read_SettingsResponse "\<lambda>r. r" sendable_SettingsResponse
  by unfold_locales
    (simp_all add: encode_SettingsResponse_def read_SettingsResponse_def sendable_SettingsResponse_def
      SettingsResponse_setters_def SettingsResponse_zero_def encoded_simps read_write_rules)

definition UserListGroup_zero :: UserListGroup where
  "UserListGroup_zero =
    \<lparr>UserListGroup_ID = 0, UserListGroup_Count = 0\<rparr>"

definition UserListGroup_setters :: "UserListGroup setters" where
  "UserListGroup_setters =
     [(''id'', set_snowflake UserListGroup_ID_update),
      (''count'', set_int UserListGroup_Count_update)]"

definition read_UserListGroup :: "json \<Rightarrow> UserListGroup option" where
  "read_UserListGroup j = decode_struct UserListGroup_setters j UserListGroup_zero"

definition sendable_UserListGroup :: "UserListGroup \<Rightarrow> bool" where
  "sendable_UserListGroup r \<longleftrightarrow>
     fits_int64 (UserListGroup_ID r) \<and> fits_int64 (UserListGroup_Count r)"

interpretation UserListGroup_json:
  round_trip encode_UserListGroup read_UserListGroup "\<lambda>r. r" sendable_UserListGroup
  by unfold_locales
    (simp_all add: encode_UserListGroup_def read_UserListGroup_def sendable_UserListGroup_def
      UserListGroup_setters_def UserListGroup_zero_def encoded_simps read_write_rules)

definition UserListResponse_zero :: UserListResponse where
  "UserListResponse_zero =
    \<lparr>UserListResponse_Start = 0, UserListResponse_End = 0, UserListResponse_Slice = [],
     UserListResponse_Groups = []\<rparr>"

definition UserListResponse_setters :: "UserListResponse setters" where
  "UserListResponse_setters =
     [(''start'', set_int UserListResponse_Start_update),
      (''end'', set_int UserListResponse_End_update),
      (''slice'', set_list Snowflake_UnmarshalJSON UserListResponse_Slice_update),
      (''groups'', set_list read_UserListGroup UserListResponse_Groups_update)]"

definition read_UserListResponse :: "json \<Rightarrow> UserListResponse option" where
  "read_UserListResponse j = decode_struct UserListResponse_setters j UserListResponse_zero"

definition sendable_UserListResponse :: "UserListResponse \<Rightarrow> bool" where
  "sendable_UserListResponse r \<longleftrightarrow>
     fits_int64 (UserListResponse_Start r) \<and> fits_int64 (UserListResponse_End r) \<and>
     list_all fits_int64 (UserListResponse_Slice r) \<and>
     list_all sendable_UserListGroup (UserListResponse_Groups r)"

interpretation UserListResponse_json:
  round_trip "encode_UserListResponse nil" read_UserListResponse "\<lambda>r. r" sendable_UserListResponse for nil
  by unfold_locales
    (simp_all add: encode_UserListResponse_def read_UserListResponse_def sendable_UserListResponse_def
      UserListResponse_setters_def UserListResponse_zero_def encoded_simps read_write_rules)

definition OverviewResponse_zero :: OverviewResponse where
  "OverviewResponse_zero =
    \<lparr>OverviewResponse_You = User_zero, OverviewResponse_Users = [],
     OverviewResponse_Channels = [], OverviewResponse_Roles = [],
     OverviewResponse_UserList = UserListResponse_zero\<rparr>"

definition OverviewResponse_setters :: "OverviewResponse setters" where
  "OverviewResponse_setters =
     [(''you'', set_value read_User OverviewResponse_You_update),
      (''users'', set_list read_User OverviewResponse_Users_update),
      (''channels'', set_list read_Channel OverviewResponse_Channels_update),
      (''roles'', set_list read_Role OverviewResponse_Roles_update),
      (''userList'', set_value read_UserListResponse OverviewResponse_UserList_update)]"

definition read_OverviewResponse :: "json \<Rightarrow> OverviewResponse option" where
  "read_OverviewResponse j = decode_struct OverviewResponse_setters j OverviewResponse_zero"

definition sendable_OverviewResponse :: "OverviewResponse \<Rightarrow> bool" where
  "sendable_OverviewResponse r \<longleftrightarrow>
     sendable_User (OverviewResponse_You r) \<and>
     list_all sendable_User (OverviewResponse_Users r) \<and>
     list_all sendable_Channel (OverviewResponse_Channels r) \<and>
     list_all sendable_Role (OverviewResponse_Roles r) \<and>
     sendable_UserListResponse (OverviewResponse_UserList r)"

interpretation OverviewResponse_json:
  round_trip "encode_OverviewResponse nil" read_OverviewResponse shown_OverviewResponse sendable_OverviewResponse for nil
  by unfold_locales
    (simp_all add: encode_OverviewResponse_def read_OverviewResponse_def sendable_OverviewResponse_def
      OverviewResponse_setters_def OverviewResponse_zero_def shown_OverviewResponse_def
      encoded_simps read_write_rules)

definition MessagesResponse_zero :: MessagesResponse where
  "MessagesResponse_zero =
    \<lparr>MessagesResponse_ChannelID = 0, MessagesResponse_Before = 0, MessagesResponse_After = 0,
     MessagesResponse_Limit = 0, MessagesResponse_Messages = [], MessagesResponse_References = []\<rparr>"

definition MessagesResponse_setters :: "MessagesResponse setters" where
  "MessagesResponse_setters =
     [(''channel'', set_snowflake MessagesResponse_ChannelID_update),
      (''before'', set_snowflake MessagesResponse_Before_update),
      (''after'', set_snowflake MessagesResponse_After_update),
      (''limit'', set_int MessagesResponse_Limit_update),
      (''messages'', set_list read_Message MessagesResponse_Messages_update),
      (''references'', set_list read_Message MessagesResponse_References_update)]"

definition read_MessagesResponse :: "json \<Rightarrow> MessagesResponse option" where
  "read_MessagesResponse j = decode_struct MessagesResponse_setters j MessagesResponse_zero"

definition sendable_MessagesResponse :: "MessagesResponse \<Rightarrow> bool" where
  "sendable_MessagesResponse r \<longleftrightarrow>
     fits_int64 (MessagesResponse_ChannelID r) \<and>
     fits_int64 (MessagesResponse_Before r) \<and> fits_int64 (MessagesResponse_After r) \<and>
     fits_int64 (MessagesResponse_Limit r) \<and>
     list_all sendable_Message (MessagesResponse_Messages r) \<and>
     list_all sendable_Message (MessagesResponse_References r)"

interpretation MessagesResponse_json:
  round_trip "encode_MessagesResponse nil" read_MessagesResponse "\<lambda>r. r" sendable_MessagesResponse for nil
  by unfold_locales
    (simp_all add: encode_MessagesResponse_def read_MessagesResponse_def sendable_MessagesResponse_def
      MessagesResponse_setters_def MessagesResponse_zero_def encoded_simps read_write_rules)

definition MessageAddEvent_zero :: MessageAddEvent where
  "MessageAddEvent_zero =
    \<lparr>MessageAddEvent_Message = Message_zero, MessageAddEvent_Reference = Message_zero,
     MessageAddEvent_Author = User_zero\<rparr>"

definition MessageAddEvent_setters :: "MessageAddEvent setters" where
  "MessageAddEvent_setters =
     [(''message'', set_value read_Message MessageAddEvent_Message_update),
      (''reference'', set_value read_Message MessageAddEvent_Reference_update),
      (''author'', set_value read_User MessageAddEvent_Author_update)]"

definition read_MessageAddEvent :: "json \<Rightarrow> MessageAddEvent option" where
  "read_MessageAddEvent j = decode_struct MessageAddEvent_setters j MessageAddEvent_zero"

definition sendable_MessageAddEvent :: "MessageAddEvent \<Rightarrow> bool" where
  "sendable_MessageAddEvent r \<longleftrightarrow>
     sendable_Message (MessageAddEvent_Message r) \<and>
     sendable_Message (MessageAddEvent_Reference r) \<and>
     sendable_User (MessageAddEvent_Author r)"

interpretation MessageAddEvent_json:
  round_trip "encode_MessageAddEvent nil" read_MessageAddEvent shown_MessageAddEvent sendable_MessageAddEvent for nil
  by unfold_locales
    (simp_all add: encode_MessageAddEvent_def read_MessageAddEvent_def sendable_MessageAddEvent_def
      MessageAddEvent_setters_def MessageAddEvent_zero_def shown_MessageAddEvent_def encoded_simps
      read_write_rules)

definition ReactionEvent_zero :: ReactionEvent where
  "ReactionEvent_zero =
    \<lparr>ReactionEvent_MessageID = 0, ReactionEvent_UserID = 0, ReactionEvent_EmojiID = 0\<rparr>"

definition ReactionEvent_setters :: "ReactionEvent setters" where
  "ReactionEvent_setters =
     [(''message'', set_snowflake ReactionEvent_MessageID_update),
      (''user'', set_snowflake ReactionEvent_UserID_update),
      (''emoji'', set_snowflake ReactionEvent_EmojiID_update)]"

definition read_ReactionEvent :: "json \<Rightarrow> ReactionEvent option" where
  "read_ReactionEvent j = decode_struct ReactionEvent_setters j ReactionEvent_zero"

definition sendable_ReactionEvent :: "ReactionEvent \<Rightarrow> bool" where
  "sendable_ReactionEvent r \<longleftrightarrow>
     fits_int64 (ReactionEvent_MessageID r) \<and> fits_int64 (ReactionEvent_UserID r) \<and>
     fits_int64 (ReactionEvent_EmojiID r)"

interpretation ReactionEvent_json:
  round_trip encode_ReactionEvent read_ReactionEvent "\<lambda>r. r" sendable_ReactionEvent
  by unfold_locales
    (simp_all add: encode_ReactionEvent_def read_ReactionEvent_def sendable_ReactionEvent_def
      ReactionEvent_setters_def ReactionEvent_zero_def encoded_simps read_write_rules)

definition ReactionUsersResponse_zero :: ReactionUsersResponse where
  "ReactionUsersResponse_zero =
    \<lparr>ReactionUsersResponse_MessageID = 0, ReactionUsersResponse_EmojiID = 0,
     ReactionUsersResponse_Users = []\<rparr>"

definition ReactionUsersResponse_setters :: "ReactionUsersResponse setters" where
  "ReactionUsersResponse_setters =
     [(''message'', set_snowflake ReactionUsersResponse_MessageID_update),
      (''emoji'', set_snowflake ReactionUsersResponse_EmojiID_update),
      (''users'', set_list Snowflake_UnmarshalJSON ReactionUsersResponse_Users_update)]"

definition read_ReactionUsersResponse :: "json \<Rightarrow> ReactionUsersResponse option" where
  "read_ReactionUsersResponse j = decode_struct ReactionUsersResponse_setters j ReactionUsersResponse_zero"

definition sendable_ReactionUsersResponse :: "ReactionUsersResponse \<Rightarrow> bool" where
  "sendable_ReactionUsersResponse r \<longleftrightarrow>
     fits_int64 (ReactionUsersResponse_MessageID r) \<and>
     fits_int64 (ReactionUsersResponse_EmojiID r) \<and>
     list_all fits_int64 (ReactionUsersResponse_Users r)"

interpretation ReactionUsersResponse_json:
  round_trip "encode_ReactionUsersResponse nil" read_ReactionUsersResponse "\<lambda>r. r" sendable_ReactionUsersResponse for nil
  by unfold_locales
    (simp_all add: encode_ReactionUsersResponse_def read_ReactionUsersResponse_def
      sendable_ReactionUsersResponse_def ReactionUsersResponse_setters_def
      ReactionUsersResponse_zero_def encoded_simps read_write_rules)

section \<open>Payloads\<close>

definition read_member :: "string \<Rightarrow> (json \<Rightarrow> 'a option) \<Rightarrow> 'a \<Rightarrow> json \<Rightarrow> 'a option" where
  "read_member k read zero j = decode_struct [(k, set_value read (\<lambda>f. f))] j zero"

context round_trip
begin

lemma read_member_back [read_write_rules]:
  "sendable x \<Longrightarrow> read_member k read zero (encode_member k enc x) = Some (shown x)"
  by (simp add: read_member_def encode_member_def decode_encoded reads_struct reads_Nil)

end

definition read_users :: "json \<Rightarrow> User list option" where
  "read_users j = decode_struct [(''users'', set_list read_User (\<lambda>f. f))] j []"

definition read_slot :: "json \<Rightarrow> snowflake option" where
  "read_slot j = decode_struct [(''slot'', set_snowflake (\<lambda>f. f))] j 0"

text \<open>A client chooses the reader of the payload by the type of the event.\<close>

definition read_data :: "int \<Rightarrow> json \<Rightarrow> EventData option" where
  "read_data ty j =
     (if ty = EventTypeErrorResponse then map_option ErrorResponse (read_ErrorResponse j)
      else if ty = EventTypeSettingsResponse then
        map_option SettingsResponse (read_SettingsResponse j)
      else if ty = EventTypeOverviewResponse then
        map_option OverviewResponse (read_OverviewResponse j)
      else if ty = EventTypeTokenResponse then
        map_option TokenResponse (read_member ''token'' read_text [] j)
      else if ty = EventTypeMessagesResponse then
        map_option MessagesResponse (read_MessagesResponse j)
      else if ty = EventTypeUsersResponse then map_option UsersResponse (read_users j)
      else if ty = EventTypeUserListResponse then
        map_option UserListResponse (read_UserListResponse j)
      else if ty = EventTypeMessageSendResponse then
        map_option MessageSendResponse (read_member ''message'' Snowflake_UnmarshalJSON 0 j)
      else if ty = EventTypeUploadSlot then map_option MessageUploadSlot (read_slot j)
      else if ty = EventTypeMessageAdd then map_option MessageAddEvent (read_MessageAddEvent j)
      else if ty = EventTypeMessageUpdate then
        map_option MessageUpdateEvent (read_member ''message'' read_Message Message_zero j)
      else if ty = EventTypeMessageDelete then
        map_option MessageDeleteEvent (read_member ''message'' Snowflake_UnmarshalJSON 0 j)
      else if ty = EventTypeMessageReactionAdd then
        map_option ReactionAddEvent (read_ReactionEvent j)
      else if ty = EventTypeMessageReactionDelete then
        map_option ReactionDeleteEvent (read_ReactionEvent j)
      else if ty = EventTypeMessageReactionUsersResponse then
        map_option ReactionUsersResponse (read_ReactionUsersResponse j)
      else if ty = EventTypeUserAdd then
        map_option UserAddEvent (read_member ''user'' read_User User_zero j)
      else if ty = EventTypeUserUpdate then
        map_option UserUpdateEvent (read_member ''user'' read_User User_zero j)
      else if ty = EventTypeUserDelete then
        map_option UserDeleteEvent (read_member ''user'' Snowflake_UnmarshalJSON 0 j)
      else if ty = EventTypeRoleAdd then
        map_option RoleAddEvent (read_member ''role'' read_Role Role_zero j)
      else if ty = EventTypeRoleUpdate then
        map_option RoleUpdateEvent (read_member ''role'' read_Role Role_zero j)
      else if ty = EventTypeRoleDelete then
        map_option RoleDeleteEvent (read_member ''role'' Snowflake_UnmarshalJSON 0 j)
      else None)"

definition shown_data :: "EventData \<Rightarrow> EventData" where
  "shown_data d = (case d of
       OverviewResponse r \<Rightarrow> OverviewResponse (shown_OverviewResponse r)
     | UsersResponse r \<Rightarrow> UsersResponse (map hide_User r)
     | MessageAddEvent r \<Rightarrow> MessageAddEvent (shown_MessageAddEvent r)
     | UserAddEvent r \<Rightarrow> UserAddEvent (hide_User r)
     | UserUpdateEvent r \<Rightarrow> UserUpdateEvent (hide_User r)
     | _ \<Rightarrow> d)"

definition sendable_data :: "EventData \<Rightarrow> bool" where
  "sendable_data d = (case d of
       ErrorResponse r \<Rightarrow> sendable_ErrorResponse r
     | SettingsResponse r \<Rightarrow> sendable_SettingsResponse r
     | OverviewResponse r \<Rightarrow> sendable_OverviewResponse r
     | TokenResponse r \<Rightarrow> utf8 r
     | MessagesResponse r \<Rightarrow> sendable_MessagesResponse r
     | UsersResponse r \<Rightarrow> list_all sendable_User r
     | UserListResponse r \<Rightarrow> sendable_UserListResponse r
     | MessageSendResponse r \<Rightarrow> fits_int64 r
     | MessageUploadSlot r \<Rightarrow> fits_int64 r
     | MessageAddEvent r \<Rightarrow> sendable_MessageAddEvent r
     | MessageUpdateEvent r \<Rightarrow> sendable_Message r
     | MessageDeleteEvent r \<Rightarrow> fits_int64 r
     | ReactionAddEvent r \<Rightarrow> sendable_ReactionEvent r
     | ReactionDeleteEvent r \<Rightarrow> sendable_ReactionEvent r
     | ReactionUsersResponse r \<Rightarrow> sendable_ReactionUsersResponse r
     | UserAddEvent r \<Rightarrow> sendable_User r
     | UserUpdateEvent r \<Rightarrow> sendable_User r
     | UserDeleteEvent r \<Rightarrow> fits_int64 r
     | RoleAddEvent r \<Rightarrow> sendable_Role r
     | RoleUpdateEvent r \<Rightarrow> sendable_Role r
     | RoleDeleteEvent r \<Rightarrow> fits_int64 r)"

lemma read_users_back [read_write_rules]:
  "list_all sendable_User us \<Longrightarrow>
   read_users (encode_struct [(''users'', put_list b (User_MarshalJSON nil) (\<lambda>us. us))] us) =
     Some (map hide_User us)"
  by (simp add: read_users_def encoded_simps read_write_rules)

lemma read_slot_back [read_write_rules]:
  "fits_int64 k \<Longrightarrow> read_slot (encode_struct [(''slot'', opt_id (\<lambda>k. k))] k) = Some k"
  by (simp add: read_slot_def encoded_simps read_write_rules)

lemma read_data_back:
  "sendable_data d \<Longrightarrow> read_data (payload_type d) (encode_data nil d) = Some (shown_data d)"
  by (cases d)
    (simp_all add: read_data_def encode_data_def member_defs shown_data_def sendable_data_def
      event_type_defs read_write_rules
      ErrorResponse_json.read_back SettingsResponse_json.read_back
      OverviewResponse_json.read_back MessagesResponse_json.read_back
      UserListResponse_json.read_back MessageAddEvent_json.read_back
      ReactionEvent_json.read_back ReactionUsersResponse_json.read_back)

end
