(* ===== verification/Encoding_Properties.thy ===== *)
theory Encoding_Properties
  imports Decoding Gateway_Examples
begin

text \<open>
  What the server writes can be read back. A client that decodes the frame as the server decodes
  its own, and the payload by the type of the event, gets the event that the server wrote; and a
  client that sends a role back as it came edits nothing.
\<close>

lemma utf8_ascii:
  assumes "\<forall>c \<in> set s. of_char c < (0x80 :: nat)"
  shows "utf8 s"
proof -
  have "runes s = bytes_of s" unfolding runes_def
    using assms by (intro runes_of_ascii) (auto simp: bytes_of_def)
  moreover have "concat (map encode_rune (bytes_of s)) = bytes_of s"
    using assms by (induction s) (simp_all add: bytes_of_def encode_rune_def)
  ultimately show ?thesis
    by (simp add: utf8_def json_text_def string_of_runes_def bytes_of_def map_idI)
qed

definition read_Event :: "json \<Rightarrow> Event option" where
  "read_Event frame =
     (case decode_UnknownEvent (Some frame) of
        None \<Rightarrow> None
      | Some msg \<Rightarrow> (case UnknownEvent_Data msg of
          None \<Rightarrow> None
        | Some j \<Rightarrow> map_option (\<lambda>d. \<lparr>Event_Type = UnknownEvent_Type msg,
            Event_Seq = UnknownEvent_Seq msg, Event_Data = d\<rparr>) (read_data (UnknownEvent_Type msg) j)))"

lemma fits_payload_type: "fits_int64 (payload_type d)"
  by (cases d) (simp_all add: fits_int64_def MaxInt64_def event_type_defs)

text \<open>The frame: the setters act on an \<^verbatim>\<open>UnknownEvent\<close>, the members come from an \<^verbatim>\<open>Event\<close>.\<close>

lemma decode_frame:
  assumes "fits_int64 (Event_Type ev)" and "utf8 (Event_Seq ev)"
  shows "decode_UnknownEvent (Some (encode_Event nil ev)) =
    Some \<lparr>UnknownEvent_Type = Event_Type ev, UnknownEvent_Seq = Event_Seq ev,
      UnknownEvent_Data = Some (encode_data nil (Event_Data ev))\<rparr>"
  using assms
  by (simp add: decode_UnknownEvent_def Unmarshal_def encode_Event_def encode_struct_def
      written_Cons written_Nil decode_struct_def put_defs omit_def find_setter_def set_int_def
      set_string_def utf8_def)

lemma event_round_trip:
  assumes "typed ev" and "sendable_data (Event_Data ev)" and "utf8 (Event_Seq ev)"
  shows "read_Event (encode_Event nil ev) = Some (ev\<lparr>Event_Data := shown_data (Event_Data ev)\<rparr>)"
proof -
  have "decode_UnknownEvent (Some (encode_Event nil ev)) =
    Some \<lparr>UnknownEvent_Type = Event_Type ev, UnknownEvent_Seq = Event_Seq ev,
      UnknownEvent_Data = Some (encode_data nil (Event_Data ev))\<rparr>"
    using assms fits_payload_type by (intro decode_frame) (simp_all add: typed_def)
  moreover have "read_data (Event_Type ev) (encode_data nil (Event_Data ev)) =
      Some (shown_data (Event_Data ev))"
    using assms(1,2) by (simp add: typed_def read_data_back)
  ultimately show ?thesis by (simp add: read_Event_def)
qed

text \<open>A message with an attachment, an embed with a picture, and a reaction, sent with its author.\<close>

definition example_author :: User where
  "example_author = User_zero\<lparr>User_ID := 10, User_UserName := ''ann'', User_Presence := 2,
     User_Roles := [20], User_PresenceSticky := 3\<rparr>"

definition example_message :: Message where
  "example_message = Message_zero\<lparr>Message_ID := 40, Message_ChannelID := 30, Message_AuthorID := 10,
     Message_Content := ''hi'',
     Message_Attachments := [Attachment_zero\<lparr>Attachment_ID := 41, Attachment_Width := 7\<rparr>],
     Message_Embeds := [Embed_zero\<lparr>Embed_ID := 42, Embed_Title := ''t'',
       Embed_Image := Some (EmbedMedia_zero\<lparr>EmbedMedia_Width := 5\<rparr>)\<rparr>],
     Message_Reactions := [Reaction_zero\<lparr>Reaction_EmojiID := 43, Reaction_Count := 2,
       Reaction_Users := [10, 11], Reaction_Me := True\<rparr>]\<rparr>"

definition example_added :: EventData where
  "example_added = MessageAddEvent \<lparr>MessageAddEvent_Message = example_message,
     MessageAddEvent_Reference = Message_zero, MessageAddEvent_Author = example_author\<rparr>"

lemma utf8_examples: "utf8 ''ann''" "utf8 ''hi''" "utf8 ''t''" "utf8 ''Clack''"
  by (rule utf8_ascii, simp)+

lemma example_sendable: "sendable_data example_added"
  by (simp add: example_added_def sendable_data_def sendable_MessageAddEvent_def example_message_def
      example_author_def sendable_Message_def sendable_User_def sendable_Attachment_def
      sendable_Embed_def sendable_EmbedMedia_def sendable_Reaction_def utf8_examples fits_int64_def
      MaxInt64_def Message_zero_def User_zero_def Attachment_zero_def Embed_zero_def
      EmbedMedia_zero_def Reaction_zero_def)

lemma example_read_back:
  "read_data EventTypeMessageAdd (encode_data (\<lambda>_. True) example_added) =
   Some (MessageAddEvent \<lparr>MessageAddEvent_Message = example_message,
     MessageAddEvent_Reference = Message_zero,
     MessageAddEvent_Author = example_author\<lparr>User_PresenceSticky := 0\<rparr>\<rparr>)"
  using read_data_back [OF example_sendable, of "\<lambda>_. True"]
  by (simp add: example_added_def shown_data_def shown_MessageAddEvent_def hide_User_def)

text \<open>C21: Whatever the server has written to any client, a client that decodes the frame by the types of
  events reads the event back: in every reachable state every event written, of any of the 21 kinds,
  has the payload that its type announces, and every field of it comes back, down to the embeds and
  reactions of a message, with the one field of a user that is kept from clients blanked, provided
  that its numbers are \<^verbatim>\<open>int64\<close> and its texts UTF-8. It does not matter which of its empty slices Go
  holds as \<^verbatim>\<open>nil\<close>, nor that members with zero values are left out.\<close>

theorem written_event_read_back:
  assumes "reachable E w" and "(cid, ev) \<in> set (W_out w)"
    and "sendable_data (Event_Data ev)" and "utf8 (Event_Seq ev)"
  shows "Event_Type ev = payload_type (Event_Data ev) \<and>
    read_Event (encode_Event nil ev) = Some (ev\<lparr>Event_Data := shown_data (Event_Data ev)\<rparr>)"
proof -
  have "typed ev"
    using reachable_inv [OF assms(1)] assms(2) by (auto simp: world_inv_defs list_all_iff)
  with assms show ?thesis by (simp add: event_round_trip typed_def)
qed

theorem written_event_read_back_witness:
  "read_Event (encode_Event (\<lambda>_. True) (settings_event example_settings False)) =
     Some (settings_event example_settings False)"
proof -
  have "sendable_data (Event_Data (settings_event example_settings False))"
    by (simp add: settings_event_def sendable_data_def sendable_SettingsResponse_def
        example_settings_def utf8_examples)
  then show ?thesis
    using written_event_read_back [OF connected_reachable, of 0 "settings_event example_settings False"
        "\<lambda>_. True"]
    by (simp add: connected_fields(6) settings_event_def shown_data_def event_def)
qed

section \<open>Roles\<close>

lemma decode_one: "decode_struct [(k, setter)] (JObj [(k, v)]) s = setter v s"
  by (simp add: decode_struct_def find_setter_def split: option.split)

text \<open>A client that asks to update a role with the role as the server sent it asks for exactly that
  role: the writer of roles and the decoder of \<^verbatim>\<open>RoleUpdateRequest\<close> agree on every field, the 64
  permission bits included.\<close>

theorem role_sent_back:
  assumes "fits_int64 (Role_ID role)" and "fits_int64 (Role_Color role)"
    and "fits_int64 (Role_Position role)" and "utf8 (Role_Name role)"
  shows "decode_RoleUpdateRequest (Some (encode_data nil (RoleUpdateEvent role))) =
    Some \<lparr>RoleUpdateRequest_Role = role\<rparr>"
proof -
  have "sendable_Role role" using assms by (simp add: sendable_Role_def)
  then have "decode_struct role_setters (encode_Role role) Role_zero = Some role"
    using Role_json.read_back [of role] by (simp add: read_Role_def)
  then show ?thesis
    by (simp add: decode_RoleUpdateRequest_def Unmarshal_def encode_data_def member_defs encode_member_def
        encode_struct_def written_Cons written_Nil put_struct_def decode_one)
qed

theorem role_sent_back_witness:
  "decode_RoleUpdateRequest (Some (encode_data (\<lambda>_. True) (RoleUpdateEvent
     (Role_zero\<lparr>Role_ID := 20, Role_Name := ''hi'', Role_Permissions := - 1\<rparr>)))) =
   Some \<lparr>RoleUpdateRequest_Role = Role_zero\<lparr>Role_ID := 20, Role_Name := ''hi'',
     Role_Permissions := - 1\<rparr>\<rparr>"
  by (rule role_sent_back)
    (simp_all add: Role_zero_def fits_int64_def MaxInt64_def utf8_examples)

end
