(* ===== verification/Uploads.thy ===== *)
theory Uploads
  imports Reachability
begin

text \<open>
  Reserved uploads: a slot that \<^verbatim>\<open>HandleGatewayUpload\<close> of chat/gateway.go has taken is gone, whatever
  becomes of the upload, and nothing else touches the table of slots meanwhile.
\<close>

abbreviation pending_of :: "World \<Rightarrow> (snowflake, PendingRequest) gomap" where
  "pending_of w \<equiv> Gateway_pending (W_gw w)"

definition keeps_pending :: "World \<Rightarrow> World \<Rightarrow> bool" where
  "keeps_pending w w' \<longleftrightarrow> pending_of w' = pending_of w"

lemma keeps_pending_refl [simp]: "keeps_pending w w"
  by (simp add: keeps_pending_def)

lemma keeps_pending_steps [simp]:
  "keeps_pending w (HandleError e cid w') = keeps_pending w w'"
  "keeps_pending w (refuse E failed e cid w' tx) = keeps_pending w w'"
  "keeps_pending w (panic cid w') = keeps_pending w w'"
  "keeps_pending w (panic_tx cid tx w') = keeps_pending w w'"
  "keeps_pending w (end_tx E failed tx w') = keeps_pending w w'"
  "keeps_pending w (tick_world w') = keeps_pending w w'"
  "keeps_pending w (go task w') = keeps_pending w w'"
  "keeps_pending w (Write ev cid w') = keeps_pending w w'"
  "keeps_pending w (set_index ix w') = keeps_pending w w'"
  by (simp_all add: keeps_pending_def refuse_def HandleError_def panic_def panic_tx_def leak_tx_def
      set_index_def)

lemma keeps_pending_call:
  assumes "\<And>e tx. keeps_pending w (h e tx)" and "\<And>x tx. keeps_pending w (f x tx)"
  shows "keeps_pending w (tx_call cid w r h f)"
  using assms by (cases r; cases "fst r") auto

lemma FinalizeMessageSend_keeps: "keeps_pending w (FinalizeMessageSendRequest E m seq cid w)"
  unfolding FinalizeMessageSendRequest_def Let_def relay_defs
  by (rule keeps_pending_call) (auto split: prod.split)

lemma FinalizeUserUpdate_keeps: "keeps_pending w (FinalizeUserUpdateRequest E visit req cid w)"
  unfolding FinalizeUserUpdateRequest_def Let_def publish_user_def relay_defs
  by (intro keeps_pending_call) (auto split: option.split prod.split)

lemma keeps_pending_trans: "keeps_pending w w1 \<Longrightarrow> keeps_pending w1 w2 \<Longrightarrow> keeps_pending w w2"
  by (simp add: keeps_pending_def)

lemma idle_keeps: "idle w w' \<Longrightarrow> keeps_pending w w'"
  by (simp add: idle_def keeps_pending_def)

lemma MessageSendUpload_keeps:
  "keeps_pending w (HandleMessageSendUpload E store_file message pending parts cid w)"
proof -
  let ?m = "message\<lparr>Message_ID := Env_generate E (W_tick w)\<rparr>"
  let ?r = "ReadFiles (attach_file E store_file) None FileMetadata_zero parts (?m, tick_world w)"
  obtain x m v where r: "?r = (x, (m, v))" by (metis surj_pair)
  have "idle w (snd (snd ?r))"
    by (rule ReadFiles_keeps [where P = "\<lambda>s. idle w (snd s)"]) (simp_all add: attach_file_idle)
  then have v: "keeps_pending w v" by (simp add: r idle_keeps)
  show ?thesis
    unfolding HandleMessageSendUpload_def Let_def r
    using v keeps_pending_trans [OF v FinalizeMessageSend_keeps] by (cases x) simp_all
qed

lemma UserUpdateUpload_keeps:
  "keeps_pending w (HandleUserUpdateUpload E visit store_avatar req pending parts cid w)"
proof -
  let ?r = "UserUpdateRequest_UserID req" and ?m = "Env_now E (W_tick w)"
  let ?read = "ReadFiles (\<lambda>raw content w. (case store_avatar ?r ?m content of
      Panic \<Rightarrow> (Panic, w) | _ \<Rightarrow> (Ok (), w))) None FileMetadata_zero parts (tick_world w)"
  have "keeps_pending w (snd ?read)"
    by (rule ReadFiles_keeps) (auto split: go_result.split)
  moreover have "keeps_pending w (FinalizeUserUpdateRequest E visit r cid v)"
    if "keeps_pending w v" for r v
    using keeps_pending_trans [OF that FinalizeUserUpdate_keeps] .
  ultimately show ?thesis
    unfolding HandleUserUpdateUpload_def Let_def
    by (auto split: prod.split go_result.split)
qed

lemma upload_result_keeps: "keeps_pending v w' \<Longrightarrow> keeps_pending v (snd (upload_result v w'))"
  by (simp add: upload_result_def keeps_pending_def)

lemma upload_takes_slot:
  "get (pending_of (snd (HandleGatewayUpload E visit store_file store_avatar slot parts w))) =
     (get (pending_of w))(slot := None)"
proof -
  obtain p v where pop: "PopPendingRequest slot w = (p, v)" by fastforce
  then have v: "get (pending_of v) = (get (pending_of w))(slot := None)"
    by (auto simp: PopPendingRequest_def split: option.splits)
  have "keeps_pending v (snd (HandleGatewayUpload E visit store_file store_avatar slot parts w))"
    unfolding HandleGatewayUpload_def pop
    by (auto split: option.split RequestData.split
        intro!: upload_result_keeps MessageSendUpload_keeps UserUpdateUpload_keeps)
  with v show ?thesis by (simp add: keeps_pending_def)
qed

text \<open>C11: An upload takes its slot and leaves all others: after it, with whatever files and whatever
  result, a second upload for the same slot is refused and changes nothing.\<close>

theorem upload_slot_used_once:
  "let w1 = snd (HandleGatewayUpload E visit store_file store_avatar slot parts w) in
   get (Gateway_pending (W_gw w1)) = (get (Gateway_pending (W_gw w)))(slot := None) \<and>
   HandleGatewayUpload E' visit' store_file' store_avatar' slot parts' w1 = (Err Uncoded, w1)"
  by (simp add: Let_def upload_takes_slot HandleGatewayUpload_def [of E'] PopPendingRequest_def)

end
