(* ===== verification/Cache_Ranges.thy ===== *)
theory Cache_Ranges
  imports Snowflakes
begin

text \<open>
  common/cache/cache.go, the part without files: the byte ranges of a remote file that the cache
  holds, how new ranges are merged into them, and how a request is cut down to a range that is
  cached or missing as a whole.  A list of ranges stands for the set of positions it covers.
\<close>

section \<open>Ranges\<close>

record CacheRangeSpec =
  Range_Start :: int
  Range_End :: int

record CacheMetadata =
  Metadata_Type :: string
  Metadata_Length :: int
  Metadata_Ranges :: "CacheRangeSpec list"

text \<open>The loop of \<^verbatim>\<open>MergeRanges\<close> with its variable \<^verbatim>\<open>current\<close>; what it appends to \<^verbatim>\<open>merged\<close> comes
  first in the result.\<close>

fun merge_loop :: "CacheRangeSpec \<Rightarrow> CacheRangeSpec list \<Rightarrow> CacheRangeSpec list" where
  "merge_loop current [] = [current]"
| "merge_loop current (r # rs) =
     (if Range_Start r \<le> i64 (Range_End current + 1)
      then merge_loop
        (if Range_End r > Range_End current then current\<lparr>Range_End := Range_End r\<rparr> else current) rs
      else current # merge_loop r rs)"

text \<open>\<^verbatim>\<open>sort.Slice\<close> may leave ranges with the same start in any order; the model keeps the order
  they had, and \<open>merge_any_order\<close> below shows that the order does not matter.\<close>

definition MergeRanges :: "CacheRangeSpec list \<Rightarrow> CacheRangeSpec list" where
  "MergeRanges ranges =
     (case sort_key Range_Start ranges of [] \<Rightarrow> [] | r # rs \<Rightarrow> merge_loop r rs)"

fun cached_loop :: "CacheRangeSpec \<Rightarrow> CacheRangeSpec list \<Rightarrow> bool \<times> CacheRangeSpec" where
  "cached_loop req [] = (False, req)"
| "cached_loop req (c # cs) =
     (if Range_End req < Range_Start c then (False, req)
      else if Range_End req \<ge> Range_Start c \<and> Range_Start req < Range_Start c
      then (False, req\<lparr>Range_End := i64 (Range_Start c - 1)\<rparr>)
      else if Range_End req \<le> Range_End c \<and> Range_Start req \<ge> Range_Start c then (True, req)
      else if Range_End req > Range_End c \<and> Range_Start req \<le> Range_End c
      then (True, req\<lparr>Range_End := Range_End c\<rparr>)
      else cached_loop req cs)"

definition GetCachedRange :: "CacheMetadata \<Rightarrow> CacheRangeSpec \<Rightarrow> bool \<times> CacheRangeSpec" where
  "GetCachedRange m req =
     (let req = (if Range_End req = -1 then req\<lparr>Range_End := i64 (Metadata_Length m - 1)\<rparr> else req)
      in cached_loop req (Metadata_Ranges m))"

section \<open>The set of positions of a list of ranges\<close>

definition covers :: "CacheRangeSpec list \<Rightarrow> int set" where
  "covers rs = (\<Union>r \<in> set rs. {Range_Start r..Range_End r})"

lemma covers_simps [simp]:
  "covers [] = {}" "covers (r # rs) = {Range_Start r..Range_End r} \<union> covers rs"
  "covers (rs @ qs) = covers rs \<union> covers qs"
  by (auto simp: covers_def)

text \<open>The ranges that the cache records: at worst empty, and nowhere near the end of \<^verbatim>\<open>int64\<close>.\<close>

definition range_ok :: "CacheRangeSpec \<Rightarrow> bool" where
  "range_ok r \<longleftrightarrow> 0 \<le> Range_Start r \<and> Range_Start r \<le> Range_End r + 1 \<and> Range_End r < MaxInt64"

lemma range_ok_next: "range_ok r \<Longrightarrow> i64 (Range_End r + 1) = Range_End r + 1"
  by (rule i64_id) (auto simp: range_ok_def)

lemma range_ok_extend: "range_ok c \<Longrightarrow> range_ok r \<Longrightarrow> Range_End c < Range_End r \<Longrightarrow>
    range_ok (c\<lparr>Range_End := Range_End r\<rparr>)"
  by (simp add: range_ok_def)

text \<open>Merged ranges are in order, with at least one position missing between any two.\<close>

definition separated :: "CacheRangeSpec list \<Rightarrow> bool" where
  "separated rs \<longleftrightarrow> (\<forall>r \<in> set rs. range_ok r) \<and>
     sorted_wrt (\<lambda>a b. Range_End a + 1 < Range_Start b) rs"

lemma merge_loop_covers:
  assumes "range_ok c" and "\<forall>r \<in> set rs. range_ok r \<and> Range_Start c \<le> Range_Start r"
    and "sorted (map Range_Start rs)"
  shows "covers (merge_loop c rs) = covers (c # rs)"
  using assms
proof (induction rs arbitrary: c)
  case Nil
  then show ?case by simp
next
  case (Cons r rs)
  let ?c = "if Range_End r > Range_End c then c\<lparr>Range_End := Range_End r\<rparr> else c"
  have "range_ok ?c" and "Range_Start ?c = Range_Start c"
    using Cons.prems by (auto intro: range_ok_extend)
  with Cons.IH [of ?c] Cons.IH [of r] Cons.prems range_ok_next [of c] show ?case
    by (auto simp: range_ok_def)
qed

lemma merge_loop_separated:
  assumes "range_ok c" and "\<forall>r \<in> set rs. range_ok r \<and> Range_Start c \<le> Range_Start r"
    and "sorted (map Range_Start rs)"
  shows "separated (merge_loop c rs) \<and> (\<forall>r \<in> set (merge_loop c rs). Range_Start c \<le> Range_Start r)"
  using assms
proof (induction rs arbitrary: c)
  case Nil
  then show ?case by (simp add: separated_def)
next
  case (Cons r rs)
  let ?c = "if Range_End r > Range_End c then c\<lparr>Range_End := Range_End r\<rparr> else c"
  have "range_ok ?c" and "Range_Start ?c = Range_Start c"
    using Cons.prems by (auto intro: range_ok_extend)
  with Cons.IH [of ?c] Cons.IH [of r] Cons.prems range_ok_next [of c] show ?case
    by (auto simp: separated_def)
qed

lemma MergeRanges_correct:
  assumes "\<forall>r \<in> set rs. range_ok r"
  shows "covers (MergeRanges rs) = covers rs \<and> separated (MergeRanges rs)"
proof (cases "sort_key Range_Start rs")
  case Nil
  then have "rs = []" by (metis length_0_conv length_sort)
  then show ?thesis by (simp add: MergeRanges_def separated_def)
next
  case (Cons q qs)
  have set: "set rs = insert q (set qs)" by (metis Cons list.simps(15) set_sort)
  have "sorted (map Range_Start (q # qs))" by (metis Cons sorted_sort_key)
  then have "covers (merge_loop q qs) = covers (q # qs)" "separated (merge_loop q qs)"
    using merge_loop_covers [of q qs] merge_loop_separated [of q qs] assms set by auto
  moreover have "covers (q # qs) = covers rs" by (simp add: covers_def set)
  ultimately show ?thesis by (simp add: MergeRanges_def Cons)
qed

section \<open>The order of ranges with one start\<close>

lemma merge_loop_swap:
  assumes "Range_Start a = Range_Start b" and "range_ok a" and "range_ok b"
  shows "merge_loop c (a # b # rs) = merge_loop c (b # a # rs)"
  using assms range_ok_next [of a] range_ok_next [of b]
  by (cases a; cases b; cases c) (auto simp: range_ok_def i64_id)

lemma merge_loop_step:
  "\<exists>pre c'. \<forall>rs. merge_loop c (r # rs) = pre @ merge_loop c' rs"
proof (cases "Range_Start r \<le> i64 (Range_End c + 1)")
  case True
  then show ?thesis by (metis append_Nil merge_loop.simps(2))
next
  case False
  then have "merge_loop c (r # rs) = [c] @ merge_loop r rs" for rs by simp
  then show ?thesis by blast
qed

lemma merge_loop_to_front:
  assumes "\<forall>u \<in> set us. Range_Start u = Range_Start x \<and> range_ok u" and "range_ok x"
  shows "merge_loop c (us @ x # vs) = merge_loop c (x # us @ vs)"
  using assms(1)
proof (induction us arbitrary: c)
  case Nil
  then show ?case by simp
next
  case (Cons u us)
  obtain pre c' where step: "\<And>rs. merge_loop c (u # rs) = pre @ merge_loop c' rs"
    using merge_loop_step [of c u] by blast
  have "merge_loop c ((u # us) @ x # vs) = pre @ merge_loop c' (us @ x # vs)"
    by (simp only: append_Cons step)
  also have "merge_loop c' (us @ x # vs) = merge_loop c' (x # us @ vs)"
    by (rule Cons.IH) (use Cons.prems in simp)
  also have "pre @ merge_loop c' (x # us @ vs) = merge_loop c (u # x # us @ vs)" by (simp only: step)
  also have "\<dots> = merge_loop c (x # u # us @ vs)"
    by (rule merge_loop_swap) (use Cons.prems assms(2) in simp_all)
  finally show ?case by simp
qed

lemma merge_loop_order:
  assumes "sorted (map Range_Start xs)" and "sorted (map Range_Start ys)" and "mset xs = mset ys"
    and "\<forall>r \<in> set xs. range_ok r"
  shows "merge_loop c xs = merge_loop c ys"
  using assms
proof (induction xs arbitrary: c ys)
  case Nil
  then show ?case by simp
next
  case (Cons x xs)
  have set: "set ys = insert x (set xs)" by (metis Cons.prems(3) list.simps(15) set_mset_mset)
  then obtain us vs where ys: "ys = us @ x # vs" by (metis insertI1 split_list)
  have "Range_Start u = Range_Start x \<and> range_ok u" if "u \<in> set us" for u
  proof -
    have "Range_Start u \<le> Range_Start x" using Cons.prems(2) that by (simp add: ys sorted_append)
    moreover have "u \<in> insert x (set xs)" using that ys set by auto
    ultimately show ?thesis using Cons.prems(1,4) by auto
  qed
  with Cons.prems(4) have front: "merge_loop c ys = merge_loop c (x # us @ vs)"
    unfolding ys by (intro merge_loop_to_front) auto
  obtain pre c' where step: "\<And>rs. merge_loop c (x # rs) = pre @ merge_loop c' rs"
    using merge_loop_step [of c x] by blast
  have "merge_loop c' xs = merge_loop c' (us @ vs)"
    using Cons.prems by (intro Cons.IH) (auto simp: ys sorted_append)
  with front show ?case by (simp only: step)
qed

lemma merge_any_order:
  assumes "sorted (map Range_Start (r # rs))" and "mset (r # rs) = mset ranges"
    and "\<forall>q \<in> set ranges. range_ok q"
  shows "merge_loop r rs = MergeRanges ranges"
proof -
  let ?c = "\<lparr>Range_Start = -10, Range_End = -10\<rparr>"
  have next_: "i64 (Range_End ?c + 1) = -9" by (simp add: i64_def)
  obtain q qs where q: "sort_key Range_Start ranges = q # qs"
    by (metis assms(2) list.exhaust mset_sort mset_zero_iff_right neq_Nil_conv)
  have sets: "set (r # rs) = set ranges" "set (q # qs) = set ranges"
    by (metis assms(2) set_mset_mset, metis q set_sort)
  have "merge_loop ?c (r # rs) = merge_loop ?c (q # qs)"
  proof (rule merge_loop_order)
    show "sorted (map Range_Start (q # qs))" by (metis q sorted_sort_key)
    show "mset (r # rs) = mset (q # qs)" by (metis assms(2) mset_sort q)
    show "\<forall>x \<in> set (r # rs). range_ok x" using sets(1) assms(3) by blast
  qed (rule assms(1))
  moreover have "range_ok r" "range_ok q" using sets assms(3) by auto
  then have "merge_loop ?c (r # rs) = ?c # merge_loop r rs"
    "merge_loop ?c (q # qs) = ?c # merge_loop q qs"
    by (simp_all only: merge_loop.simps next_) (auto simp: range_ok_def)
  ultimately show ?thesis by (simp add: MergeRanges_def q)
qed

section \<open>What is cached of a request\<close>

text \<open>The answer starts where the request starts and is all cached or all missing; it is not empty
  unless the request is, and what is cached is taken as far as it goes.\<close>

lemma cached_loop_correct:
  assumes "separated rs" and "cached_loop req rs = (hit, r)" and "0 \<le> Range_Start req"
  shows "Range_Start r = Range_Start req \<and> Range_End r \<le> Range_End req \<and>
    (hit \<longrightarrow> {Range_Start r..Range_End r} \<subseteq> covers rs) \<and>
    (hit \<and> Range_Start req \<le> Range_End req \<longrightarrow>
       Range_End r = Range_End req \<or> Range_End r + 1 \<notin> covers rs) \<and>
    (\<not> hit \<longrightarrow> {Range_Start r..Range_End r} \<inter> covers rs = {}) \<and>
    (Range_Start req \<le> Range_End req \<longrightarrow> Range_Start r \<le> Range_End r)"
  using assms(1,2)
proof (induction rs)
  case Nil
  then show ?case by simp
next
  case (Cons c cs)
  have c: "range_ok c" "separated cs" and later: "\<forall>d \<in> set cs. Range_End c + 1 < Range_Start d"
    using Cons.prems(1) by (auto simp: separated_def)
  have pred: "i64 (Range_Start c - 1) = Range_Start c - 1" 
    by (rule i64_id) (use c(1) in \<open>auto simp: range_ok_def MaxInt64_def\<close>)
  have miss: "Range_Start c \<le> x" if "x \<in> covers cs" for x
    using that later c(1) by (fastforce simp: covers_def range_ok_def)
  have gap: "Range_End c + 1 \<notin> covers cs"
    using later by (fastforce simp: covers_def)
  show ?case
    using Cons.prems(2) Cons.IH [OF c(2)] miss gap c(1) pred
    by (auto split: if_splits simp: range_ok_def dest: miss)
qed

end
