(* ===== verification/Http.thy ===== *)
theory Http
  imports Ingest GoMaps
begin

text \<open>
  What the server uses of \<^verbatim>\<open>net/http\<close> and \<^verbatim>\<open>fmt\<close>: the writer of a response, a response fetched
  from another server, and \<^verbatim>\<open>Sscanf\<close> for the formats of the two range headers; with them the
  checks of common/utils.go on the addresses that are fetched. A response of another server and
  the scheme and host that \<^verbatim>\<open>url.Parse\<close> finds are parameters.
\<close>

section \<open>Writing a response\<close>

text \<open>The header map; the status and the headers once they are sent; the bytes of the body; and
  how many more writes succeed before the client is gone.\<close>

record ResponseWriter =
  RW_header :: "(string, string) gomap"
  RW_sent :: "(nat \<times> (string, string) gomap) option"
  RW_body :: string
  RW_accepts :: nat

definition header_Set :: "string \<Rightarrow> string \<Rightarrow> ResponseWriter \<Rightarrow> ResponseWriter" where
  "header_Set k v w = w\<lparr>RW_header := put k v (RW_header w)\<rparr>"

text \<open>Only the first call counts.\<close>

definition WriteHeader :: "nat \<Rightarrow> ResponseWriter \<Rightarrow> ResponseWriter" where
  "WriteHeader code w = (case RW_sent w of
      None \<Rightarrow> w\<lparr>RW_sent := Some (code, RW_header w)\<rparr> | Some _ \<Rightarrow> w)"

definition write_body :: "string \<Rightarrow> ResponseWriter \<Rightarrow> bool \<times> ResponseWriter" where
  "write_body bs w =
     (let w = WriteHeader 200 w in
      if RW_accepts w = 0 then (False, w)
      else (True, w\<lparr>RW_body := RW_body w @ bs, RW_accepts := RW_accepts w - 1\<rparr>))"

text \<open>\<^verbatim>\<open>io.Copy\<close> of a source that is read in the given pieces.\<close>

fun io_Copy :: "string list \<Rightarrow> ResponseWriter \<Rightarrow> ResponseWriter" where
  "io_Copy [] w = w"
| "io_Copy (c # cs) w =
     (if c = [] then io_Copy cs w
      else case write_body c w of (False, w) \<Rightarrow> w | (True, w) \<Rightarrow> io_Copy cs w)"

fun pieces :: "nat \<Rightarrow> string \<Rightarrow> string list" where
  "pieces n bs = (if n = 0 \<or> bs = [] then [] else take n bs # pieces n (drop n bs))"

declare pieces.simps [simp del]

text \<open>\<^verbatim>\<open>http.Error\<close>.\<close>

definition http_Error :: "string \<Rightarrow> nat \<Rightarrow> ResponseWriter \<Rightarrow> ResponseWriter" where
  "http_Error msg code w =
     snd (write_body (msg @ [CHR 0x0A]) (WriteHeader code
       (header_Set ''X-Content-Type-Options'' ''nosniff''
         (header_Set ''Content-Type'' ''text/plain; charset=utf-8''
           (w\<lparr>RW_header := del ''Content-Length'' (RW_header w)\<rparr>)))))"

section \<open>Responses of other servers\<close>

text \<open>\<^verbatim>\<open>Header.Get\<close> returns the empty text for a missing header; the body arrives in pieces, and
  ends with the end of the file or with an error.\<close>

record Response =
  Resp_StatusCode :: nat
  Resp_Header :: "string \<Rightarrow> string"
  Resp_ContentLength :: int
  Resp_Body :: "string list"
  Resp_complete :: bool

text \<open>The network at some moment: the answer of a client to a method, an address and a range
  header; \<open>None\<close> for a failed or cancelled request.\<close>

type_synonym net = "string \<Rightarrow> string \<Rightarrow> string \<Rightarrow> Response option"

text \<open>\<^verbatim>\<open>CheckURL\<close>, given what \<^verbatim>\<open>url.Parse\<close> returns.\<close>

definition CheckURL :: "(string \<Rightarrow> (string \<times> string) option) \<Rightarrow> string \<Rightarrow> bool" where
  "CheckURL url_parts targetURL =
     (case url_parts targetURL of
        None \<Rightarrow> False
      | Some (scheme, host) \<Rightarrow>
          \<not> (scheme = [] \<or> host = [] \<or> (scheme \<noteq> ''http'' \<and> scheme \<noteq> ''https'')))"

text \<open>\<^verbatim>\<open>CheckRedirect\<close>: whether a redirect is followed, after the requests \<^verbatim>\<open>via\<close>.\<close>

definition CheckRedirect :: "'r list \<Rightarrow> bool" where
  "CheckRedirect via = (\<not> 10 \<le> length via)"

section \<open>Scanning headers\<close>

text \<open>Header values hold no control characters but the tab; blanks outside ASCII are left out.\<close>

definition is_blank :: "char \<Rightarrow> bool" where
  "is_blank c \<longleftrightarrow> c = CHR '' '' \<or> c = CHR 0x09"

text \<open>\<^verbatim>\<open>%d\<close>: blanks, a sign, digits, and the range of \<^verbatim>\<open>int64\<close>.\<close>

definition scan_int :: "string \<Rightarrow> (int \<times> string) option" where
  "scan_int s =
     (let s = dropWhile is_blank s;
          sign = (case s of c # _ \<Rightarrow> if c = CHR ''-'' \<or> c = CHR ''+'' then [c] else [] | [] \<Rightarrow> []);
          t = drop (length sign) s;
          ds = takeWhile is_digit t
      in if ds = [] then None
         else map_option (\<lambda>n. (n, dropWhile is_digit t)) (ParseInt (sign @ ds)))"

text \<open>A blank in a format matches blanks, at least one, or the end of the text.\<close>

definition scan_blank :: "string \<Rightarrow> string option" where
  "scan_blank s = (case s of [] \<Rightarrow> Some [] | c # _ \<Rightarrow> if is_blank c then Some (dropWhile is_blank s) else None)"

text \<open>\<^verbatim>\<open>bytes=%d-\<close>, and \<^verbatim>\<open>bytes=%d-%d\<close>; what follows the format is not looked at.\<close>

definition scan_range_start :: "string \<Rightarrow> (int \<times> string) option" where
  "scan_range_start s =
     Option.bind (strip_prefix ''bytes='' s) (\<lambda>s.
     Option.bind (scan_int s) (\<lambda>(a, s).
     map_option (\<lambda>s. (a, s)) (strip_prefix ''-'' s)))"

definition scan_range :: "string \<Rightarrow> (int \<times> int) option" where
  "scan_range s =
     Option.bind (scan_range_start s) (\<lambda>(a, s). map_option (\<lambda>(b, _). (a, b)) (scan_int s))"

text \<open>\<^verbatim>\<open>bytes %d-%d/%d\<close>.\<close>

definition scan_content_range :: "string \<Rightarrow> (int \<times> int \<times> int) option" where
  "scan_content_range s =
     Option.bind (strip_prefix ''bytes'' s) (\<lambda>s.
     Option.bind (scan_blank s) (\<lambda>s.
     Option.bind (scan_int s) (\<lambda>(a, s).
     Option.bind (strip_prefix ''-'' s) (\<lambda>s.
     Option.bind (scan_int s) (\<lambda>(b, s).
     Option.bind (strip_prefix ''/'' s) (\<lambda>s.
     map_option (\<lambda>(c, _). (a, b, c)) (scan_int s)))))))"

section \<open>Lemmas\<close>

lemma header_Set_fields [simp]:
  "RW_sent (header_Set k v w) = RW_sent w" "RW_body (header_Set k v w) = RW_body w"
  "RW_accepts (header_Set k v w) = RW_accepts w"
  "RW_header (header_Set k v w) = put k v (RW_header w)"
  by (simp_all add: header_Set_def)

lemma WriteHeader_fields [simp]:
  "RW_header (WriteHeader code w) = RW_header w" "RW_body (WriteHeader code w) = RW_body w"
  "RW_accepts (WriteHeader code w) = RW_accepts w" "RW_sent (WriteHeader code w) \<noteq> None"
  "RW_sent w = Some x \<Longrightarrow> WriteHeader code w = w"
  "RW_sent w = None \<Longrightarrow> RW_sent (WriteHeader code w) = Some (code, RW_header w)"
  by (auto simp: WriteHeader_def split: option.split)

lemma write_body_sent: "RW_sent w = Some x \<Longrightarrow> RW_sent (snd (write_body bs w)) = Some x"
  by (simp add: write_body_def Let_def)

text \<open>A copy appends a prefix of its source, all of it if the client stays.\<close>

lemma io_Copy_body:
  "\<exists>k. RW_body (io_Copy cs w) = RW_body w @ take k (concat cs)"
  "length cs \<le> RW_accepts w \<Longrightarrow> RW_body (io_Copy cs w) = RW_body w @ concat cs"
proof (induction cs arbitrary: w)
  case Nil
  {
    case 1
    then show ?case by simp
  next
    case 2
    then show ?case by simp
  }
next
  case (Cons c cs)
  {
    case 1
    let ?w = "(WriteHeader 200 w)\<lparr>RW_body := RW_body w @ c, RW_accepts := RW_accepts w - 1\<rparr>"
    obtain k where k: "RW_body (io_Copy cs w) = RW_body w @ take k (concat cs)"
      using Cons.IH(1) by blast
    obtain n where n: "RW_body (io_Copy cs ?w) = RW_body ?w @ take n (concat cs)"
      using Cons.IH(1) by blast
    show ?case
    proof (cases "c = [] \<or> RW_accepts w = 0")
      case True
      then show ?thesis using k by (cases "c = []") (auto simp: write_body_def intro: exI [of _ 0])
    next
      case False
      then have "RW_body (io_Copy (c # cs) w) = RW_body w @ take (length c + n) (concat (c # cs))"
        using n by (simp add: write_body_def)
      then show ?thesis by blast
    qed
  next
    case 2
    then show ?case using Cons.IH(2) by (simp add: write_body_def Let_def)
  }
qed

lemma io_Copy_sent: "RW_sent w = Some x \<Longrightarrow> RW_sent (io_Copy cs w) = Some x"
  by (induction cs arbitrary: w) (auto simp: write_body_def)

lemma concat_pieces: "0 < n \<Longrightarrow> concat (pieces n bs) = bs"
  by (induction n bs rule: pieces.induct) (subst pieces.simps, auto)

end
