(* ===== verification/Media_Cache.thy ===== *)
theory Media_Cache
  imports Cache_Ranges Http
begin

text \<open>
  common/cache/cache.go, the part with files: a remote file is served from a local copy when the
  requested range is in it, and otherwise fetched, passed on and stored.  Two files belong to an
  address: the bytes at their positions, and the metadata that say which positions are stored.
  The lock of an address guards its metadata; every operation here is one call of the code.
\<close>

section \<open>The files of an address\<close>

text \<open>The metadata file is absent, unreadable as JSON, or holds a \<^verbatim>\<open>CacheMetadata\<close>. Opening
  either file can fail, and the disk takes only positions below a limit.\<close>

datatype meta_file = NoMeta | BadMeta | Meta CacheMetadata

record CacheEntry =
  Entry_data :: "string option"
  Entry_meta :: meta_file
  Entry_data_opens :: bool
  Entry_meta_opens :: bool
  Entry_limit :: nat

text \<open>\<^verbatim>\<open>Write\<close> at a position: a gap before it reads as zeros, and a full disk takes only a part.\<close>

definition write_at :: "nat \<Rightarrow> nat \<Rightarrow> string \<Rightarrow> string \<Rightarrow> nat \<times> string" where
  "write_at limit pos bs file =
     (let bs = take (limit - pos) bs in
      if bs = [] then (0, file)
      else (length bs, take pos (file @ replicate (pos - length file) (CHR 0x00)) @ bs @
              drop (pos + length bs) file))"

definition GetCacheMetadata :: "CacheEntry \<Rightarrow> CacheMetadata option" where
  "GetCacheMetadata e =
     (if \<not> Entry_meta_opens e then None
      else case Entry_meta e of Meta m \<Rightarrow> Some m | _ \<Rightarrow> None)"

text \<open>The flag is whether the metadata were written.\<close>

definition UpdateCacheMetadata ::
  "string \<Rightarrow> int \<Rightarrow> CacheRangeSpec \<Rightarrow> CacheEntry \<Rightarrow> bool \<times> CacheEntry" where
  "UpdateCacheMetadata contentType len newRange e =
     (let m = (case GetCacheMetadata e of Some m \<Rightarrow> m
           | None \<Rightarrow> \<lparr>Metadata_Type = contentType, Metadata_Length = len, Metadata_Ranges = []\<rparr>);
          m = m\<lparr>Metadata_Ranges := MergeRanges (Metadata_Ranges m @ [newRange])\<rparr>
      in if Entry_meta_opens e then (True, e\<lparr>Entry_meta := Meta m\<rparr>) else (False, e))"

section \<open>Serving from the cache\<close>

definition ParseRangeHeader :: "string \<Rightarrow> CacheRangeSpec option" where
  "ParseRangeHeader h =
     (case scan_range h of
        Some (a, b) \<Rightarrow> Some \<lparr>Range_Start = a, Range_End = b\<rparr>
      | None \<Rightarrow> map_option (\<lambda>(a, _). \<lparr>Range_Start = a, Range_End = -1\<rparr>) (scan_range_start h))"

text \<open>\<^verbatim>\<open>NewSectionReader\<close> from an offset, for a length; a negative one gives nothing.\<close>

definition section_of :: "int \<Rightarrow> int \<Rightarrow> string \<Rightarrow> string" where
  "section_of off n file = (if off < 0 \<or> n < 0 then [] else take (nat n) (drop (nat off) file))"

definition content_range :: "int \<Rightarrow> int \<Rightarrow> int \<Rightarrow> string" where
  "content_range start final whole = ''bytes '' @ FormatInt start @ ''-'' @ FormatInt final @ ''/'' @
     FormatInt whole"

text \<open>The result is whether the request was served.\<close>

definition TryServeCached :: "string \<Rightarrow> CacheEntry \<Rightarrow> ResponseWriter \<Rightarrow> bool \<times> ResponseWriter" where
  "TryServeCached hdr e w =
     (if Entry_meta e = NoMeta then (False, w)
      else
        case (if hdr \<noteq> [] then ParseRangeHeader hdr else Some \<lparr>Range_Start = 0, Range_End = -1\<rparr>) of
          None \<Rightarrow> (False, WriteHeader 416 w)
        | Some req \<Rightarrow>
            (case GetCacheMetadata e of
               None \<Rightarrow> (False, w)
             | Some m \<Rightarrow>
                 (case GetCachedRange m req of
                    (False, _) \<Rightarrow> (False, w)
                  | (True, r) \<Rightarrow>
                      let len = i64 (i64 (Range_End r - Range_Start r) + 1);
                          w = header_Set ''Content-Type'' (Metadata_Type m) w;
                          w = (if hdr \<noteq> []
                            then WriteHeader 206 (header_Set ''Content-Length'' (FormatInt len)
                              (header_Set ''Content-Range''
                                (content_range (Range_Start r) (Range_End r) (Metadata_Length m)) w))
                            else WriteHeader 200
                              (header_Set ''Content-Length'' (FormatInt (Metadata_Length m)) w))
                      in case (if Entry_data_opens e then Entry_data e else None) of
                           None \<Rightarrow> (False, w)
                         | Some file \<Rightarrow>
                             (True, io_Copy (pieces 32768 (section_of (Range_Start r) len file)) w))))"

section \<open>Fetching and storing\<close>

record CacheMiss =
  Miss_start :: int
  Miss_total :: int
  Miss_progress :: int
  Miss_sinceUpdate :: int
  Miss_pos :: nat
  Miss_type :: string

text \<open>\<^verbatim>\<open>Seek\<close> refuses a negative offset, which is ignored, and so is what \<^verbatim>\<open>Write\<close> returns.\<close>

definition miss_range :: "CacheMiss \<Rightarrow> CacheRangeSpec" where
  "miss_range c = \<lparr>Range_Start = Miss_start c, Range_End = i64 (i64 (Miss_start c + Miss_progress c) - 1)\<rparr>"

definition CacheMiss_Read :: "string \<Rightarrow> CacheMiss \<Rightarrow> CacheEntry \<Rightarrow> CacheMiss \<times> CacheEntry" where
  "CacheMiss_Read bs c e =
     (let off = i64 (Miss_start c + Miss_progress c);
          pos = (if off < 0 then Miss_pos c else nat off);
          (k, file) = write_at (Entry_limit e) pos bs (case Entry_data e of None \<Rightarrow> [] | Some f \<Rightarrow> f);
          e = e\<lparr>Entry_data := Some file\<rparr>;
          c = c\<lparr>Miss_pos := pos + k, Miss_progress := i64 (Miss_progress c + int (length bs)),
            Miss_sinceUpdate := i64 (Miss_sinceUpdate c + int (length bs))\<rparr>
      in if Miss_sinceUpdate c > 1024 * 1024
         then (c\<lparr>Miss_sinceUpdate := 0\<rparr>,
               snd (UpdateCacheMetadata (Miss_type c) (Miss_total c) (miss_range c) e))
         else (c, e))"

definition CacheMiss_Close :: "CacheMiss \<Rightarrow> CacheEntry \<Rightarrow> CacheEntry" where
  "CacheMiss_Close c e = snd (UpdateCacheMetadata (Miss_type c) (Miss_total c) (miss_range c) e)"

text \<open>\<^verbatim>\<open>io.Copy(w, cacheMiss)\<close>: what is read is stored before it is passed on.\<close>

fun copy_miss ::
  "string list \<Rightarrow> CacheMiss \<Rightarrow> CacheEntry \<Rightarrow> ResponseWriter \<Rightarrow> CacheMiss \<times> CacheEntry \<times> ResponseWriter" where
  "copy_miss [] c e w = (c, e, w)"
| "copy_miss (bs # rest) c e w =
     (case CacheMiss_Read bs c e of (c, e) \<Rightarrow>
        if bs = [] then copy_miss rest c e w
        else case write_body bs w of
               (False, w) \<Rightarrow> (c, e, w)
             | (True, w) \<Rightarrow> copy_miss rest c e w)"

text \<open>How a request for a remote file ends; the texts of the errors of the origin start with
  \<^verbatim>\<open>origin\<close>.\<close>

datatype serve_result = Served | OriginError | OtherError

definition MakeProxyRequest ::
  "(string \<Rightarrow> (string \<times> string) option) \<Rightarrow> net \<Rightarrow> string \<Rightarrow> string \<Rightarrow> Response option" where
  "MakeProxyRequest url_parts net hdr targetURL =
     (if CheckURL url_parts targetURL then net ''GET'' targetURL hdr else None)"

text \<open>The range that the origin says it sends: its start, end and total, \<open>-1\<close> for an unknown
  total; \<open>None\<close> for a range header that does not scan.\<close>

definition origin_range :: "Response \<Rightarrow> (int \<times> int \<times> int) option" where
  "origin_range resp =
     (if Resp_StatusCode resp = 206 then scan_content_range (Resp_Header resp ''Content-Range'')
      else if Resp_ContentLength resp \<ge> 0
      then Some (0, Resp_ContentLength resp, Resp_ContentLength resp) else Some (0, -1, -1))"

definition send_origin_headers :: "Response \<Rightarrow> int \<Rightarrow> int \<Rightarrow> int \<Rightarrow> ResponseWriter \<Rightarrow> ResponseWriter" where
  "send_origin_headers resp start final whole w =
     (if Resp_StatusCode resp = 206
      then WriteHeader 206 (header_Set ''Content-Length'' (FormatInt (i64 (i64 (final - start) + 1)))
        (header_Set ''Content-Range'' (content_range start final whole) w))
      else WriteHeader 200 (if Resp_ContentLength resp \<ge> 0
        then header_Set ''Content-Length'' (FormatInt whole) w else w))"

definition TryServeUncached ::
  "(string \<Rightarrow> (string \<times> string) option) \<Rightarrow> net \<Rightarrow> string \<Rightarrow> string \<Rightarrow> CacheEntry \<Rightarrow> ResponseWriter \<Rightarrow>
   serve_result \<times> CacheEntry \<times> ResponseWriter" where
  "TryServeUncached url_parts net hdr url e w =
     (case MakeProxyRequest url_parts net hdr url of
        None \<Rightarrow> (OtherError, e, w)
      | Some resp \<Rightarrow>
          if Resp_StatusCode resp \<noteq> 200 \<and> Resp_StatusCode resp \<noteq> 206 then (OriginError, e, w)
          else if Resp_StatusCode resp = 206 \<and> Resp_Header resp ''Content-Range'' = []
          then (OriginError, e, w)
          else if Resp_Header resp ''Content-Type'' = [] then (OriginError, e, w)
          else
            let contentType = Resp_Header resp ''Content-Type'';
                w = header_Set ''Content-Type'' contentType w
            in case origin_range resp of
                 None \<Rightarrow> (OtherError, e, w)
               | Some (start, final, whole) \<Rightarrow>
                   let w = send_origin_headers resp start final whole w in
                   if whole < 0 then (Served, e, io_Copy (Resp_Body resp) w)
                   else if \<not> Entry_data_opens e then (OtherError, e, w)
                   else
                     let e = e\<lparr>Entry_data := Some (case Entry_data e of None \<Rightarrow> [] | Some f \<Rightarrow> f)\<rparr>;
                         c = \<lparr>Miss_start = start, Miss_total = whole, Miss_progress = 0,
                           Miss_sinceUpdate = 0, Miss_pos = 0, Miss_type = contentType\<rparr>
                     in case copy_miss (Resp_Body resp) c e w of
                          (c, e, w) \<Rightarrow> (Served, CacheMiss_Close c e, w))"

text \<open>The files of an address lie under the hash of the address.\<close>

type_synonym CacheStore = "string \<Rightarrow> CacheEntry"

definition ServeExternal ::
  "(string \<Rightarrow> string) \<Rightarrow> (string \<Rightarrow> (string \<times> string) option) \<Rightarrow> net \<Rightarrow> string \<Rightarrow> string \<Rightarrow>
   CacheStore \<Rightarrow> ResponseWriter \<Rightarrow> serve_result \<times> CacheStore \<times> ResponseWriter" where
  "ServeExternal GetCacheHash url_parts net hdr url cache w =
     (let h = GetCacheHash url in
      case TryServeCached hdr (cache h) w of
        (True, w) \<Rightarrow> (Served, cache, w)
      | (False, w) \<Rightarrow>
          (case TryServeUncached url_parts net hdr url (cache h) w of
             (r, e, w) \<Rightarrow> (r, cache(h := e), w)))"

section \<open>Storing while a preview is made\<close>

record CacheWriter =
  Writer_start :: int
  Writer_progress :: int
  Writer_total :: int
  Writer_pos :: nat
  Writer_type :: string

definition GetCacheWriter ::
  "string \<Rightarrow> int \<Rightarrow> int \<Rightarrow> CacheEntry \<Rightarrow> (CacheWriter \<times> CacheEntry) option" where
  "GetCacheWriter contentType start whole e =
     (if \<not> Entry_data_opens e then None
      else Some (\<lparr>Writer_start = start, Writer_progress = 0, Writer_total = whole,
          Writer_pos = (if start < 0 then 0 else nat start), Writer_type = contentType\<rparr>,
        e\<lparr>Entry_data := Some (case Entry_data e of None \<Rightarrow> [] | Some f \<Rightarrow> f)\<rparr>))"

text \<open>How many bytes are written; a short write is an error, and then nothing is counted.\<close>

definition CacheWriter_Write ::
  "string \<Rightarrow> CacheWriter \<Rightarrow> CacheEntry \<Rightarrow> nat \<times> CacheWriter \<times> CacheEntry" where
  "CacheWriter_Write bs c e =
     (case write_at (Entry_limit e) (Writer_pos c) bs (case Entry_data e of None \<Rightarrow> [] | Some f \<Rightarrow> f) of
        (k, file) \<Rightarrow>
          let e = e\<lparr>Entry_data := Some file\<rparr>; c = c\<lparr>Writer_pos := Writer_pos c + k\<rparr>
          in (k, if k = length bs then c\<lparr>Writer_progress := i64 (Writer_progress c + int k)\<rparr> else c, e))"

definition CacheWriter_Close :: "CacheWriter \<Rightarrow> CacheEntry \<Rightarrow> bool \<times> CacheEntry" where
  "CacheWriter_Close c e =
     UpdateCacheMetadata (Writer_type c) (Writer_total c)
       \<lparr>Range_Start = Writer_start c,
        Range_End = i64 (i64 (Writer_start c + Writer_progress c) - 1)\<rparr> e"

text \<open>\<^verbatim>\<open>io.TeeReader(content, cache)\<close> read to its end: what reaches the reader, and whether the end
  was the end of the content.\<close>

fun tee :: "string list \<Rightarrow> CacheWriter \<Rightarrow> CacheEntry \<Rightarrow> string \<times> bool \<times> CacheWriter \<times> CacheEntry" where
  "tee [] c e = ([], True, c, e)"
| "tee (bs # rest) c e =
     (case CacheWriter_Write bs c e of
        (k, c, e) \<Rightarrow>
          if k < length bs then (take k bs, False, c, e)
          else (case tee rest c e of (read, r) \<Rightarrow> (bs @ read, r)))"

end
