(* ===== verification/Cache_Integrity.thy ===== *)
theory Cache_Integrity
  imports Media_Cache
begin

text \<open>
  The media cache holds true copies: as long as an address always stands for the same bytes and
  the disk has room for them, every position that the metadata list is stored with its byte, and
  what is served from the cache is a part of the file.
\<close>

section \<open>The invariant\<close>

definition stored :: "string \<Rightarrow> int set \<Rightarrow> CacheEntry \<Rightarrow> bool" where
  "stored content S e \<longleftrightarrow> (\<forall>x \<in> S. 0 \<le> x \<and> nat x < length content \<and>
     (\<exists>file. Entry_data e = Some file \<and> nat x < length file \<and> file ! nat x = content ! nat x))"

definition holds_copy :: "string \<Rightarrow> CacheEntry \<Rightarrow> bool" where
  "holds_copy content e \<longleftrightarrow> (\<forall>m. Entry_meta e = Meta m \<longrightarrow>
     separated (Metadata_Ranges m) \<and> stored content (covers (Metadata_Ranges m)) e)"

text \<open>An origin that sends, from the position it names, a prefix of what follows there.\<close>

definition honest :: "string \<Rightarrow> Response \<Rightarrow> bool" where
  "honest content resp \<longleftrightarrow> (\<forall>start final whole. origin_range resp = Some (start, final, whole) \<longrightarrow>
     0 \<le> start \<and> start \<le> MaxInt64 \<and> prefix (concat (Resp_Body resp)) (drop (nat start) content))"

definition room_for :: "string \<Rightarrow> CacheEntry \<Rightarrow> bool" where
  "room_for content e \<longleftrightarrow> length content \<le> Entry_limit e \<and> int (length content) < MaxInt64"

lemma stored_Un: "stored content (S \<union> T) e \<longleftrightarrow> stored content S e \<and> stored content T e"
  by (auto simp: stored_def)

lemma stored_empty [simp]: "stored content {} e"
  by (simp add: stored_def)

lemma stored_meta [simp]: "stored content S (e\<lparr>Entry_meta := m\<rparr>) = stored content S e"
  by (simp add: stored_def)

section \<open>Writing a part of the file\<close>

lemma write_at_room:
  assumes "pos + length bs \<le> limit" and "write_at limit pos bs file = (k, file')"
  shows "k = length bs" and "i < length file \<Longrightarrow> i < length file'"
    and "pos \<le> i \<Longrightarrow> i < pos + length bs \<Longrightarrow> i < length file'"
    and "i < length file' \<Longrightarrow> pos \<le> i \<Longrightarrow> i < pos + length bs \<Longrightarrow> file' ! i = bs ! (i - pos)"
    and "i < length file \<Longrightarrow> \<not> (pos \<le> i \<and> i < pos + length bs) \<Longrightarrow> file' ! i = file ! i"
proof -
  have "take (limit - pos) bs = bs" using assms(1) by simp
  then have w: "k = length bs" "file' = (if bs = [] then file else
      take pos (file @ replicate (pos - length file) (CHR 0x00)) @ bs @ drop (pos + length bs) file)"
    using assms(2) by (auto simp: write_at_def Let_def split: if_splits)
  show "k = length bs" by (rule w(1))
  let ?head = "take pos (file @ replicate (pos - length file) (CHR 0x00))"
  have head: "length ?head = pos" "min (length file) pos + (pos - length file) = pos" by simp_all
  show "i < length file \<Longrightarrow> i < length file'" by (auto simp: w(2))
  show "pos \<le> i \<Longrightarrow> i < pos + length bs \<Longrightarrow> i < length file'" by (auto simp: w(2))
  show "i < length file' \<Longrightarrow> pos \<le> i \<Longrightarrow> i < pos + length bs \<Longrightarrow> file' ! i = bs ! (i - pos)"
    by (auto simp: w(2) nth_append head)
  show "i < length file \<Longrightarrow> \<not> (pos \<le> i \<and> i < pos + length bs) \<Longrightarrow> file' ! i = file ! i"
    by (auto simp: w(2) nth_append head not_less)
qed

lemma stored_write:
  assumes "stored content S e" and "prefix bs (drop pos content)"
    and "length content \<le> Entry_limit e" and "bs = [] \<or> pos \<le> length content"
    and "write_at (Entry_limit e) pos bs (case Entry_data e of None \<Rightarrow> [] | Some f \<Rightarrow> f) = (k, file)"
  shows "k = length bs" and "stored content (S \<union> {int pos..<int (pos + length bs)}) (e\<lparr>Entry_data := Some file\<rparr>)"
proof -
  let ?old = "case Entry_data e of None \<Rightarrow> [] | Some f \<Rightarrow> f"
  have len: "bs \<noteq> [] \<Longrightarrow> pos + length bs \<le> length content"
    using assms(2,4) by (auto dest: prefix_length_le)
  have nth: "content ! (pos + j) = bs ! j" if "j < length bs" for j
  proof -
    have "pos \<le> length content" using len that by force
    moreover have "drop pos content ! j = bs ! j"
      using assms(2) that by (auto simp: prefix_def nth_append)
    ultimately show ?thesis by simp
  qed
  show k: "k = length bs"
  proof (cases "bs = []")
    case True
    then show ?thesis using assms(5) by (simp add: write_at_def)
  next
    case False
    then show ?thesis using write_at_room(1) [OF _ assms(5)] len assms(3) by simp
  qed
  show "stored content (S \<union> {int pos..<int (pos + length bs)}) (e\<lparr>Entry_data := Some file\<rparr>)"
  proof (cases "bs = []")
    case True
    then have "file = ?old" using assms(5) by (simp add: write_at_def)
    then show ?thesis using assms(1) True by (auto simp: stored_def)
  next
    case False
    note w = write_at_room [OF _ assms(5)]
    have fits: "pos + length bs \<le> Entry_limit e" using False len assms(3) by simp
    have "nat x < length file \<and> file ! nat x = content ! nat x"
      if "0 \<le> x" "nat x < length ?old" "?old ! nat x = content ! nat x" for x
    proof (cases "pos \<le> nat x \<and> nat x < pos + length bs")
      case True
      then have "nat x - pos < length bs" by arith
      with True show ?thesis using w(2,4) [OF fits, of "nat x"] that nth [of "nat x - pos"] by simp
    next
      case False
      then show ?thesis using w(2,5) [OF fits, of "nat x"] that by simp
    qed
    moreover have "nat x < length content \<and> nat x < length file \<and> file ! nat x = content ! nat x"
      if "int pos \<le> x" "x < int (pos + length bs)" for x
      using that w(3,4) [OF fits, of "nat x"] nth [of "nat x - pos"] len False by simp
    ultimately show ?thesis using assms(1) by (fastforce simp: stored_def)
  qed
qed

section \<open>Updating the metadata\<close>

lemma UpdateCacheMetadata_copy:
  assumes "holds_copy content e" and "range_ok r" and "stored content {Range_Start r..Range_End r} e"
  shows "holds_copy content (snd (UpdateCacheMetadata ty len r e))"
proof -
  define rs where "rs = (case GetCacheMetadata e of Some m \<Rightarrow> Metadata_Ranges m | None \<Rightarrow> []) @ [r]"
  have "\<forall>q \<in> set rs. range_ok q" and "stored content (covers rs) e"
    using assms by (auto simp: rs_def GetCacheMetadata_def holds_copy_def separated_def stored_Un
        split: if_splits meta_file.splits)
  with MergeRanges_correct [of rs] have "separated (MergeRanges rs)"
    and "stored content (covers (MergeRanges rs)) e" by simp_all
  then show ?thesis
    using assms(1)
    by (auto simp: UpdateCacheMetadata_def Let_def holds_copy_def rs_def split: option.splits)
qed

lemma UpdateCacheMetadata_fields [simp]:
  "Entry_data (snd (UpdateCacheMetadata ty len r e)) = Entry_data e"
  "Entry_limit (snd (UpdateCacheMetadata ty len r e)) = Entry_limit e"
  by (simp_all add: UpdateCacheMetadata_def Let_def)

lemma stored_UpdateCacheMetadata [simp]:
  "stored content S (snd (UpdateCacheMetadata ty len r e)) = stored content S e"
  by (simp add: stored_def)

section \<open>Fetching a part of the file\<close>

text \<open>The state of a download: what was read is stored, and what is still to come continues it.\<close>

definition downloading :: "string \<Rightarrow> string \<Rightarrow> CacheMiss \<Rightarrow> CacheEntry \<Rightarrow> bool" where
  "downloading content rest c e \<longleftrightarrow> holds_copy content e \<and> 0 \<le> Miss_progress c \<and>
     0 \<le> Miss_start c \<and> Miss_start c \<le> MaxInt64 \<and>
     (Miss_progress c = 0 \<and> rest = [] \<or>
        Miss_start c + Miss_progress c \<le> int (length content)) \<and>
     prefix rest (drop (nat (Miss_start c + Miss_progress c)) content) \<and>
     stored content {Miss_start c..<Miss_start c + Miss_progress c} e"

lemma miss_range_ok:
  assumes "downloading content rest c e" and "room_for content e"
  shows "range_ok (miss_range c)"
    and "{Range_Start (miss_range c)..Range_End (miss_range c)} =
      {Miss_start c..<Miss_start c + Miss_progress c}"
proof -
  let ?n = "Miss_start c + Miss_progress c"
  have n: "0 \<le> ?n" "?n \<le> MaxInt64"
    using assms by (auto simp: downloading_def room_for_def)
  then have "i64 ?n = ?n" by (intro i64_id) (simp_all add: MaxInt64_def)
  moreover have "i64 (?n - 1) = ?n - 1" using n by (intro i64_id) (simp_all add: MaxInt64_def)
  ultimately have r: "miss_range c = \<lparr>Range_Start = Miss_start c, Range_End = ?n - 1\<rparr>"
    by (simp add: miss_range_def)
  show "range_ok (miss_range c)"
    using assms(1) n by (simp add: r range_ok_def downloading_def)
  show "{Range_Start (miss_range c)..Range_End (miss_range c)} =
      {Miss_start c..<Miss_start c + Miss_progress c}"
    by (auto simp: r)
qed

lemma CacheMiss_Close_copy:
  assumes "downloading content rest c e" and "room_for content e"
  shows "holds_copy content (CacheMiss_Close c e)"
  unfolding CacheMiss_Close_def
  by (rule UpdateCacheMetadata_copy)
    (use assms miss_range_ok [OF assms] in \<open>simp_all add: downloading_def\<close>)

lemma downloading_stored_meta:
  "downloading content rest c e \<Longrightarrow> room_for content e \<Longrightarrow>
     downloading content rest (c\<lparr>Miss_sinceUpdate := k\<rparr>)
       (snd (UpdateCacheMetadata ty len (miss_range c) e))"
  using UpdateCacheMetadata_copy [of content e "miss_range c" ty len] miss_range_ok [of content rest c e]
  by (simp add: downloading_def)

lemma CacheMiss_Read_copy:
  assumes "downloading content (bs @ rest) c e" and "room_for content e"
    and "CacheMiss_Read bs c e = (c', e')"
  shows "downloading content rest c' e' \<and> room_for content e'"
proof -
  let ?n = "Miss_start c + Miss_progress c"
  let ?old = "case Entry_data e of None \<Rightarrow> [] | Some f \<Rightarrow> f"
  have inv: "holds_copy content e" "0 \<le> Miss_progress c" "0 \<le> Miss_start c"
    "Miss_start c \<le> MaxInt64" "stored content {Miss_start c..<?n} e"
    "prefix (bs @ rest) (drop (nat ?n) content)"
    using assms(1) by (simp_all add: downloading_def)
  have bound: "bs = [] \<or> nat ?n \<le> length content" "?n \<le> MaxInt64" "0 \<le> ?n"
    using assms(1,2) by (auto simp: downloading_def room_for_def)
  have off: "i64 ?n = ?n" using bound by (intro i64_id) (simp_all add: MaxInt64_def)
  have pre: "prefix bs (drop (nat ?n) content)" using inv(6) by (rule append_prefixD)
  have fits: "bs = [] \<or> ?n + int (length bs) \<le> int (length content)"
    using bound(1,3) prefix_length_le [OF pre] by auto
  obtain k new where wr: "write_at (Entry_limit e) (nat ?n) bs ?old = (k, new)"
    by (cases "write_at (Entry_limit e) (nat ?n) bs ?old")
  have limit: "length content \<le> Entry_limit e" using assms(2) by (simp add: room_for_def)
  note w = stored_write [OF _ pre limit bound(1) wr]
  define e1 where "e1 = e\<lparr>Entry_data := Some new\<rparr>"
  define c1 where "c1 = c\<lparr>Miss_pos := nat ?n + k, Miss_progress := Miss_progress c + int (length bs),
    Miss_sinceUpdate := i64 (Miss_sinceUpdate c + int (length bs))\<rparr>"
  have progress: "i64 (Miss_progress c + int (length bs)) = Miss_progress c + int (length bs)"
    using fits inv(2,3) bound(2) assms(2)
    by (intro i64_id) (auto simp: room_for_def MaxInt64_def)
  have copy: "holds_copy content e1"
    using inv(1) w(2) by (simp add: holds_copy_def e1_def stored_Un)
  have "stored content ({Miss_start c..<?n} \<union> {int (nat ?n)..<int (nat ?n + length bs)}) e1"
    using w(2) [OF inv(5)] by (simp add: e1_def)
  moreover have "{Miss_start c..<?n} \<union> {int (nat ?n)..<int (nat ?n + length bs)} =
      {Miss_start c..<Miss_start c + Miss_progress c1}"
    using bound(3) inv(2) by (auto simp: c1_def)
  ultimately have st: "stored content {Miss_start c..<Miss_start c + Miss_progress c1} e1" by simp
  have "drop (nat (?n + int (length bs))) content = drop (length bs) (drop (nat ?n) content)"
    using bound(3) by (simp add: nat_add_distrib add.commute)
  with inv(6) have "prefix rest (drop (nat (?n + int (length bs))) content)"
    by (auto simp: prefix_def simp del: drop_drop)
  then have d1: "downloading content rest c1 e1"
    using copy inv st fits assms(1) by (auto simp: downloading_def c1_def add.assoc)
  have room: "room_for content e1" using assms(2) by (simp add: room_for_def e1_def)
  have read: "CacheMiss_Read bs c e = (if Miss_sinceUpdate c1 > 1024 * 1024
      then (c1\<lparr>Miss_sinceUpdate := 0\<rparr>,
        snd (UpdateCacheMetadata (Miss_type c1) (Miss_total c1) (miss_range c1) e1))
      else (c1, e1))"
    using bound(3) by (simp add: CacheMiss_Read_def Let_def off wr progress e1_def c1_def)
  then show ?thesis
    using assms(3) d1 room downloading_stored_meta [OF d1 room]
    by (auto simp: room_for_def split: if_splits)
qed

lemma copy_miss_copy:
  assumes "downloading content (concat bss) c e" and "room_for content e"
    and "copy_miss bss c e w = (c', e', w')"
  shows "\<exists>rest. downloading content rest c' e' \<and> room_for content e'"
  using assms
proof (induction bss arbitrary: c e w)
  case Nil
  then show ?case by auto
next
  case (Cons bs bss)
  obtain c1 e1 where r: "CacheMiss_Read bs c e = (c1, e1)" by fastforce
  have "downloading content (bs @ concat bss) c e" using Cons.prems(1) by simp
  from CacheMiss_Read_copy [OF this Cons.prems(2) r]
  have "downloading content (concat bss) c1 e1" "room_for content e1" by simp_all
  with Cons.IH Cons.prems(3) show ?case by (auto simp: r split: if_splits prod.splits bool.splits)
qed

lemma TryServeUncached_copy:
  assumes "holds_copy content e" and "room_for content e"
    and "\<And>resp. net ''GET'' url hdr = Some resp \<Longrightarrow> honest content resp"
    and "TryServeUncached url_parts net hdr url e w = (r, e', w')"
  shows "holds_copy content e'"
proof (cases "e' = e")
  case True
  with assms(1) show ?thesis by simp
next
  case False
  then obtain resp start final whole where resp: "net ''GET'' url hdr = Some resp"
    and range: "origin_range resp = Some (start, final, whole)"
    using assms(4) by (auto simp: TryServeUncached_def MakeProxyRequest_def Let_def
        split: option.splits if_splits)
  let ?e = "e\<lparr>Entry_data := Some (case Entry_data e of None \<Rightarrow> [] | Some f \<Rightarrow> f)\<rparr>"
  let ?c = "\<lparr>Miss_start = start, Miss_total = whole, Miss_progress = 0, Miss_sinceUpdate = 0,
    Miss_pos = 0, Miss_type = Resp_Header resp ''Content-Type''\<rparr>"
  obtain c1 e1 w1 v where copied: "copy_miss (Resp_Body resp) ?c ?e v = (c1, e1, w1)"
    and e': "e' = CacheMiss_Close c1 e1"
    using False assms(4) resp range
    by (auto simp: TryServeUncached_def MakeProxyRequest_def Let_def split: if_splits prod.splits)
  have start: "0 \<le> start" "start \<le> MaxInt64"
    "prefix (concat (Resp_Body resp)) (drop (nat start) content)"
    using assms(3) [OF resp] range by (auto simp: honest_def)
  have "holds_copy content ?e"
    using assms(1) by (auto simp: holds_copy_def stored_def split: option.split)
  with start have "downloading content (concat (Resp_Body resp)) ?c ?e"
    by (auto simp: downloading_def not_le)
  moreover have "room_for content ?e" using assms(2) by (simp add: room_for_def)
  ultimately obtain rest where "downloading content rest c1 e1" and "room_for content e1"
    using copy_miss_copy [OF _ _ copied] by blast
  then show ?thesis using CacheMiss_Close_copy e' by blast
qed

end
