(* ===== verification/Cache_Properties.thy ===== *)
theory Cache_Properties
  imports Cache_Integrity
begin

text \<open>
  The properties of the media cache, with witnesses on a file of six bytes.
\<close>

section \<open>Serving a stored part\<close>

lemma stored_slice:
  assumes "stored content {int s..<int s + int n} e" and "Entry_data e = Some file"
  shows "take n (drop s file) = take n (drop s content)"
proof -
  have nth: "s + j < length file \<and> s + j < length content \<and> file ! (s + j) = content ! (s + j)"
    if "j < n" for j
  proof -
    have "int (s + j) \<in> {int s..<int s + int n}" using that by simp
    then show ?thesis using assms unfolding stored_def by (metis nat_int option.inject)
  qed
  have len: "s + n \<le> length file \<and> s + n \<le> length content" if "0 < n"
    using nth [of "n - 1"] that by (simp; linarith)
  show ?thesis
  proof (cases "n = 0")
    case False
    with len have "length (take n (drop s file)) = n" "length (take n (drop s content)) = n"
      by (simp_all add: min_def) linarith+
    then show ?thesis using nth by (intro nth_equalityI) auto
  qed simp
qed

lemma GetCachedRange_hit:
  assumes "holds_copy content e" and "GetCacheMetadata e = Some m"
    and "GetCachedRange m req = (True, r)"
  shows "0 \<le> Range_Start r" and "Range_Start r = Range_Start req" and "0 \<le> Range_End r"
    and "Range_End r < MaxInt64" and "stored content {Range_Start r..Range_End r} e"
proof -
  define q where "q = (if Range_End req = -1 then req\<lparr>Range_End := i64 (Metadata_Length m - 1)\<rparr> else req)"
  have q: "cached_loop q (Metadata_Ranges m) = (True, r)" "Range_Start q = Range_Start req"
    using assms(3) by (simp_all add: GetCachedRange_def q_def)
  have m: "separated (Metadata_Ranges m)" "stored content (covers (Metadata_Ranges m)) e"
    using assms(1,2) by (auto simp: holds_copy_def GetCacheMetadata_def split: if_splits meta_file.splits)
  have bounds: "0 \<le> Range_Start q \<and> 0 \<le> Range_End r \<and> Range_End r < MaxInt64"
    if "cached_loop q rs = (True, r)" "\<forall>c \<in> set rs. range_ok c" for rs
    using that by (induction rs) (auto simp: range_ok_def split: if_splits)
  then have b: "0 \<le> Range_Start q" "0 \<le> Range_End r" "Range_End r < MaxInt64"
    using q(1) m(1) by (auto simp: separated_def)
  note c = cached_loop_correct [OF m(1) q(1) b(1)]
  show "0 \<le> Range_Start r" "Range_Start r = Range_Start req" using c b(1) q(2) by simp_all
  show "0 \<le> Range_End r" "Range_End r < MaxInt64" by (rule b(2), rule b(3))
  show "stored content {Range_Start r..Range_End r} e"
    using m(2) c unfolding stored_def by blast
qed

definition requested :: "string \<Rightarrow> CacheRangeSpec option" where
  "requested hdr = (if hdr \<noteq> [] then ParseRangeHeader hdr else Some \<lparr>Range_Start = 0, Range_End = -1\<rparr>)"

lemma scan_int_range: "scan_int s = Some (n, t) \<Longrightarrow> - (2 ^ 63) \<le> n \<and> n \<le> MaxInt64"
  unfolding scan_int_def Let_def by (auto split: if_splits dest!: ParseInt_range)

lemma ParseRangeHeader_range:
  "ParseRangeHeader h = Some r \<Longrightarrow> Range_Start r \<le> MaxInt64"
  unfolding ParseRangeHeader_def scan_range_def scan_range_start_def
  by (auto split: option.splits simp: bind_eq_Some_conv dest!: scan_int_range)

lemma TryServeCached_served:
  assumes "holds_copy content e" and "TryServeCached hdr e w = (True, w')"
  obtains req m r v where "requested hdr = Some req" and "GetCacheMetadata e = Some m"
    and "GetCachedRange m req = (True, r)"
    and "RW_body v = RW_body w" and "RW_accepts v = RW_accepts w"
    and "w' = io_Copy (pieces 32768 (take (nat (Range_End r - Range_Start r + 1))
      (drop (nat (Range_Start r)) content))) v"
proof -
  define sent where "sent m r = (if hdr \<noteq> []
    then WriteHeader 206 (header_Set ''Content-Length''
      (FormatInt (i64 (i64 (Range_End r - Range_Start r) + 1))) (header_Set ''Content-Range''
      (content_range (Range_Start r) (Range_End r) (Metadata_Length m))
      (header_Set ''Content-Type'' (Metadata_Type m) w)))
    else WriteHeader 200 (header_Set ''Content-Length'' (FormatInt (Metadata_Length m))
      (header_Set ''Content-Type'' (Metadata_Type m) w)))" for m :: CacheMetadata and r :: CacheRangeSpec
  have v: "RW_body (sent m r) = RW_body w" "RW_accepts (sent m r) = RW_accepts w" for m and r
    by (simp_all add: sent_def)
  obtain req m r bytes where req: "requested hdr = Some req" and m: "GetCacheMetadata e = Some m"
    and r: "GetCachedRange m req = (True, r)" and data: "Entry_data e = Some bytes"
    and w': "w' = io_Copy (pieces 32768 (section_of (Range_Start r)
      (i64 (i64 (Range_End r - Range_Start r) + 1)) bytes)) (sent m r)"
    using assms(2) unfolding TryServeCached_def Let_def requested_def [symmetric]
    by (auto simp: sent_def split: if_splits option.splits prod.splits bool.splits)
  note hit = GetCachedRange_hit [OF assms(1) m r]
  let ?n = "Range_End r - Range_Start r + 1"
  have start: "Range_Start r \<le> MaxInt64"
    using req hit(2) by (auto simp: requested_def MaxInt64_def split: if_splits dest!: ParseRangeHeader_range)
  have "i64 (i64 (Range_End r - Range_Start r) + 1) = ?n"
    using hit(1,3,4) start by (simp add: i64_id MaxInt64_def)
  moreover have "section_of (Range_Start r) ?n bytes =
      take (nat ?n) (drop (nat (Range_Start r)) content)"
  proof (cases "?n \<le> 0")
    case False
    have "{int (nat (Range_Start r))..<int (nat (Range_Start r)) + int (nat ?n)} =
        {Range_Start r..Range_End r}"
      using hit(1) False by auto
    then show ?thesis
      using stored_slice [of content "nat (Range_Start r)" "nat ?n" e bytes] hit(1,5) data False
      by (simp add: section_of_def)
  qed (simp add: section_of_def)
  ultimately show thesis using that [OF req m r v [of m r]] w' by simp
qed

section \<open>A whole download\<close>

text \<open>The metadata, if there are any, are those that the download writes.\<close>

definition meta_of :: "CacheMiss \<Rightarrow> CacheEntry \<Rightarrow> bool" where
  "meta_of c e \<longleftrightarrow> Entry_meta_opens e \<and> (case Entry_meta e of NoMeta \<Rightarrow> True | BadMeta \<Rightarrow> False
     | Meta m \<Rightarrow> Metadata_Length m = Miss_total c \<and> Metadata_Type m = Miss_type c)"

lemma UpdateCacheMetadata_meta:
  assumes "meta_of c e"
  shows "\<exists>m. Entry_meta (snd (UpdateCacheMetadata (Miss_type c) (Miss_total c) r e)) = Meta m \<and>
    Metadata_Length m = Miss_total c \<and> Metadata_Type m = Miss_type c \<and>
    Metadata_Ranges m = MergeRanges
      ((case GetCacheMetadata e of Some m \<Rightarrow> Metadata_Ranges m | None \<Rightarrow> []) @ [r])"
  using assms
  by (auto simp: meta_of_def UpdateCacheMetadata_def GetCacheMetadata_def Let_def
      split: meta_file.splits)

lemma UpdateCacheMetadata_opens [simp]:
  "Entry_meta_opens (snd (UpdateCacheMetadata ty len r e)) = Entry_meta_opens e"
  "Entry_data_opens (snd (UpdateCacheMetadata ty len r e)) = Entry_data_opens e"
  by (simp_all add: UpdateCacheMetadata_def Let_def)

lemma CacheMiss_Read_keeps:
  assumes "CacheMiss_Read bs c e = (c', e')" and "0 \<le> Miss_progress c"
    and "Miss_progress c + int (length bs) \<le> MaxInt64"
  shows "Miss_progress c' = Miss_progress c + int (length bs)" and "Miss_start c' = Miss_start c"
    and "Miss_total c' = Miss_total c" and "Miss_type c' = Miss_type c"
    and "Entry_data_opens e' = Entry_data_opens e" and "meta_of c e \<Longrightarrow> meta_of c' e'"
proof -
  have p: "i64 (Miss_progress c + int (length bs)) = Miss_progress c + int (length bs)"
    by (rule i64_id) (use assms in \<open>simp_all add: MaxInt64_def\<close>)
  obtain k bytes where wr: "write_at (Entry_limit e)
      (let off = i64 (Miss_start c + Miss_progress c) in if off < 0 then Miss_pos c else nat off) bs
      (case Entry_data e of None \<Rightarrow> [] | Some f \<Rightarrow> f) = (k, bytes)" by fastforce
  define c1 where "c1 = c\<lparr>Miss_pos := (let off = i64 (Miss_start c + Miss_progress c) in
      if off < 0 then Miss_pos c else nat off) + k,
    Miss_progress := Miss_progress c + int (length bs),
    Miss_sinceUpdate := i64 (Miss_sinceUpdate c + int (length bs))\<rparr>"
  define e1 where "e1 = e\<lparr>Entry_data := Some bytes\<rparr>"
  have r: "CacheMiss_Read bs c e = (if Miss_sinceUpdate c1 > 1024 * 1024
      then (c1\<lparr>Miss_sinceUpdate := 0\<rparr>,
        snd (UpdateCacheMetadata (Miss_type c1) (Miss_total c1) (miss_range c1) e1))
      else (c1, e1))"
    using wr by (simp add: CacheMiss_Read_def Let_def p e1_def c1_def)
  show "Miss_progress c' = Miss_progress c + int (length bs)" "Miss_start c' = Miss_start c"
    "Miss_total c' = Miss_total c" "Miss_type c' = Miss_type c"
    "Entry_data_opens e' = Entry_data_opens e"
    using assms(1) by (auto simp: r c1_def e1_def split: if_splits)
  show "meta_of c' e'" if "meta_of c e"
  proof -
    have m1: "meta_of c1 e1" using that by (cases "Entry_meta e") (simp_all add: meta_of_def c1_def e1_def)
    then show ?thesis
      using assms(1) UpdateCacheMetadata_meta [OF m1, of "miss_range c1"]
      by (auto simp: r meta_of_def split: if_splits)
  qed
qed

lemma copy_miss_complete:
  assumes "copy_miss bss c e w = (c', e', w')" and "length bss \<le> RW_accepts w"
    and "0 \<le> Miss_progress c" and "Miss_progress c + int (length (concat bss)) \<le> MaxInt64"
    and "meta_of c e"
  shows "Miss_progress c' = Miss_progress c + int (length (concat bss)) \<and>
    Miss_start c' = Miss_start c \<and> Miss_total c' = Miss_total c \<and> Miss_type c' = Miss_type c \<and>
    Entry_data_opens e' = Entry_data_opens e \<and> meta_of c' e' \<and>
    RW_body w' = RW_body w @ concat bss"
  using assms
proof (induction bss arbitrary: c e w)
  case Nil
  then show ?case by simp
next
  case (Cons bs bss)
  obtain c1 e1 where r: "CacheMiss_Read bs c e = (c1, e1)" by fastforce
  let ?w = "if bs = [] then w
    else (WriteHeader 200 w)\<lparr>RW_body := RW_body w @ bs, RW_accepts := RW_accepts w - 1\<rparr>"
  have accepts: "length bss \<le> RW_accepts ?w" "RW_body ?w = RW_body w @ bs"
    using Cons.prems(2) by auto
  have "0 < RW_accepts w" using Cons.prems(2) by auto
  then have "copy_miss (bs # bss) c e w = copy_miss bss c1 e1 ?w"
    by (simp add: r write_body_def Let_def)
  then have "copy_miss bss c1 e1 ?w = (c', e', w')" using Cons.prems(1) by simp
  note IH = Cons.IH [OF this accepts(1)]
  have len: "int (length (concat (bs # bss))) = int (length bs) + int (length (concat bss))" by simp
  have small: "Miss_progress c + int (length bs) \<le> MaxInt64"
    using Cons.prems(4) unfolding len by linarith
  note k = CacheMiss_Read_keeps [OF r Cons.prems(3) small]
  have "0 \<le> Miss_progress c1" "Miss_progress c1 + int (length (concat bss)) \<le> MaxInt64"
    using Cons.prems(3,4) unfolding k(1) len by simp_all
  from IH [OF this k(6) [OF Cons.prems(5)]] show ?case
    unfolding k(1-5) accepts(2) len by simp
qed

text \<open>An entry that holds a whole file.\<close>

definition holds_whole :: "string \<Rightarrow> string \<Rightarrow> CacheEntry \<Rightarrow> bool" where
  "holds_whole content ty e \<longleftrightarrow> holds_copy content e \<and> Entry_data_opens e \<and> Entry_meta_opens e \<and>
     (\<exists>m. Entry_meta e = Meta m \<and> Metadata_Length m = int (length content) \<and> Metadata_Type m = ty \<and>
        covers (Metadata_Ranges m) = {0..<int (length content)})"

lemma closed_download_whole:
  assumes "downloading content rest c e" and "room_for content e" and "meta_of c e"
    and "Miss_start c = 0" and "Miss_progress c = int (length content)"
    and "Miss_total c = int (length content)" and "Miss_type c = ty" and "Entry_data_opens e"
  shows "holds_whole content ty (CacheMiss_Close c e)"
proof -
  let ?n = "int (length content)" and ?e = "CacheMiss_Close c e"
  have copy: "holds_copy content ?e" using CacheMiss_Close_copy [OF assms(1,2)] .
  define old where "old = (case GetCacheMetadata e of Some m \<Rightarrow> Metadata_Ranges m | None \<Rightarrow> [])"
  obtain m where m: "Entry_meta ?e = Meta m" "Metadata_Length m = ?n" "Metadata_Type m = ty"
    "Metadata_Ranges m = MergeRanges (old @ [miss_range c])"
    using UpdateCacheMetadata_meta [OF assms(3), of "miss_range c"] assms(6,7)
    by (auto simp: CacheMiss_Close_def old_def)
  have ranges: "\<forall>q \<in> set (old @ [miss_range c]). range_ok q"
    using assms(1) miss_range_ok(1) [OF assms(1,2)]
    by (auto simp: old_def downloading_def holds_copy_def GetCacheMetadata_def separated_def
        split: meta_file.splits if_splits)
  have "covers (Metadata_Ranges m) = covers old \<union> {0..<?n}"
    using MergeRanges_correct [OF ranges] m(4) miss_range_ok(2) [OF assms(1,2)] assms(4,5) by simp
  moreover have "covers (Metadata_Ranges m) \<subseteq> {0..<?n}"
    using copy m(1) by (auto simp: holds_copy_def stored_def)
  ultimately have "covers (Metadata_Ranges m) = {0..<?n}" by blast
  with copy m assms(3,8) show ?thesis by (simp add: holds_whole_def CacheMiss_Close_def meta_of_def)
qed

text \<open>The whole of a file is a hit, and all of it is served.\<close>

lemma whole_hit:
  assumes "separated (Metadata_Ranges m)" and "Metadata_Length m = n" and "0 < n" and "n < MaxInt64"
    and "covers (Metadata_Ranges m) = {0..<n}"
  shows "GetCachedRange m \<lparr>Range_Start = 0, Range_End = -1\<rparr> = (True, \<lparr>Range_Start = 0, Range_End = n - 1\<rparr>)"
proof -
  let ?full = "\<lparr>Range_Start = 0, Range_End = n - 1\<rparr>"
  obtain h q where q: "cached_loop ?full (Metadata_Ranges m) = (h, q)" by fastforce
  have c: "Range_Start q = 0" "Range_Start q \<le> Range_End q" "Range_End q \<le> n - 1"
    "h \<longrightarrow> Range_End q = n - 1 \<or> Range_End q + 1 \<notin> {0..<n}"
    "\<not> h \<longrightarrow> {Range_Start q..Range_End q} \<inter> {0..<n} = {}"
    using cached_loop_correct [OF assms(1) q] assms(3) by (auto simp: assms(5))
  then have "h" using assms(3) by force
  moreover have "i64 (n - 1) = n - 1" by (rule i64_id) (use assms in \<open>simp_all add: MaxInt64_def\<close>)
  ultimately show ?thesis using c q by (auto simp: GetCachedRange_def assms(2))
qed

lemma whole_copy_served:
  assumes "holds_whole content ty e" and "room_for content e" and "content \<noteq> []"
    and "length (pieces 32768 content) \<le> RW_accepts v" and "RW_sent v = None"
  shows "\<exists>v'. TryServeCached [] e v = (True, v') \<and> RW_body v' = RW_body v @ content \<and>
    RW_sent v' = Some (200, put ''Content-Length'' (FormatInt (int (length content)))
      (put ''Content-Type'' ty (RW_header v)))"
proof -
  let ?n = "int (length content)" and ?req = "\<lparr>Range_Start = 0, Range_End = -1\<rparr>"
  have n: "0 < ?n" "?n < MaxInt64" using assms(2,3) by (simp_all add: room_for_def)
  from assms(1) obtain m where copy: "holds_copy content e" and opens: "Entry_data_opens e" "Entry_meta_opens e"
    and m: "Entry_meta e = Meta m" "Metadata_Length m = ?n" "Metadata_Type m = ty"
      "covers (Metadata_Ranges m) = {0..<?n}" by (auto simp: holds_whole_def)
  then have sep: "separated (Metadata_Ranges m)" and st: "stored content {0..<?n} e"
    by (auto simp: holds_copy_def)
  have get: "GetCacheMetadata e = Some m" using m(1) opens by (simp add: GetCacheMetadata_def)
  note hit = whole_hit [OF sep m(2) n m(4)]
  have "\<exists>bytes. Entry_data e = Some bytes"
    using n(1) st unfolding stored_def by (auto dest!: bspec [of _ _ 0])
  then obtain v' where served: "TryServeCached [] e v = (True, v')"
    using m(1) get hit opens by (auto simp: TryServeCached_def Let_def)
  obtain req m' q u where u: "requested [] = Some req" "GetCacheMetadata e = Some m'"
    "GetCachedRange m' req = (True, q)" "RW_body u = RW_body v" "RW_accepts u = RW_accepts v"
    "v' = io_Copy (pieces 32768 (take (nat (Range_End q - Range_Start q + 1))
       (drop (nat (Range_Start q)) content))) u"
    using TryServeCached_served [OF copy served] .
  have "q = \<lparr>Range_Start = 0, Range_End = ?n - 1\<rparr>" using u(1-3) get hit by (simp add: requested_def)
  then have "v' = io_Copy (pieces 32768 content) u" using u(6) by simp
  then have "RW_body v' = RW_body v @ content"
    using io_Copy_body(2) [of "pieces 32768 content" u] u(4,5) assms(4) by (simp add: concat_pieces)
  moreover have "RW_sent v' = Some (200, put ''Content-Length'' (FormatInt ?n)
      (put ''Content-Type'' ty (RW_header v)))"
    using served m get hit assms(5)
    by (auto simp: TryServeCached_def Let_def split: option.splits intro!: io_Copy_sent)
  ultimately show ?thesis using served by blast
qed

section \<open>An example\<close>

definition example_content :: string where
  "example_content = ''abcdef''"

definition example_entry :: CacheEntry where
  "example_entry = \<lparr>Entry_data = None, Entry_meta = NoMeta, Entry_data_opens = True,
     Entry_meta_opens = True, Entry_limit = 100\<rparr>"

definition half_entry :: CacheEntry where
  "half_entry = example_entry\<lparr>Entry_data := Some ''abc'', Entry_meta := Meta
     \<lparr>Metadata_Type = ''image/png'', Metadata_Length = 6,
      Metadata_Ranges = [\<lparr>Range_Start = 0, Range_End = 2\<rparr>]\<rparr>\<rparr>"

definition example_response :: Response where
  "example_response = \<lparr>Resp_StatusCode = 200, Resp_Header = (\<lambda>_. ''image/png''),
     Resp_ContentLength = 6, Resp_Body = [''abc'', ''def''], Resp_complete = True\<rparr>"

definition example_writer :: ResponseWriter where
  "example_writer = \<lparr>RW_header = [], RW_sent = None, RW_body = [], RW_accepts = 5\<rparr>"

definition example_parts :: "string \<Rightarrow> (string \<times> string) option" where
  "example_parts url = Some (''https'', ''example.org'')"

lemma example_room: "room_for example_content example_entry" "room_for example_content half_entry"
  by (simp_all add: room_for_def example_content_def example_entry_def half_entry_def MaxInt64_def)

lemma half_copy: "holds_copy example_content half_entry"
proof -
  have "nat x < 3" if "0 \<le> x" "x \<le> 2" for x :: int using that by simp
  then show ?thesis
    by (auto simp: holds_copy_def half_entry_def separated_def range_ok_def stored_def MaxInt64_def
        example_content_def nth_Cons' less_Suc_eq numeral_3_eq_3)
qed

section \<open>Properties\<close>

text \<open>Merging ranges keeps the set of positions they cover, and leaves them in order with at
  least one position missing between any two.\<close>

theorem merged_ranges_correct:
  assumes "list_all range_ok rs"
  shows "covers (MergeRanges rs) = covers rs \<and>
    sorted_wrt (\<lambda>a b. Range_End a + 1 < Range_Start b) (MergeRanges rs)"
  using MergeRanges_correct [of rs] assms by (simp add: list_all_iff separated_def)

theorem merged_ranges_correct_witness:
  "covers (MergeRanges [\<lparr>Range_Start = 10, Range_End = 19\<rparr>, \<lparr>Range_Start = 0, Range_End = 9\<rparr>]) = {0..19}"
proof -
  let ?rs = "[\<lparr>Range_Start = 10, Range_End = 19\<rparr>, \<lparr>Range_Start = 0, Range_End = 9\<rparr>]"
  have "list_all range_ok ?rs" by (simp add: range_ok_def MaxInt64_def)
  from merged_ranges_correct [OF this]
  have "covers (MergeRanges ?rs) = {10..19} \<union> {0..9}" by (simp only: covers_simps) simp
  also have "\<dots> = {0..19}" by force
  finally show ?thesis .
qed

text \<open>The range that is looked up for a request starts where the request starts, and is cached
  as a whole if it counts as a hit, and missing as a whole if it does not.\<close>

theorem cached_range_all_or_nothing:
  assumes "separated (Metadata_Ranges m)" and "0 \<le> Range_Start req"
    and "GetCachedRange m req = (hit, r)"
  shows "Range_Start r = Range_Start req \<and>
    (if hit then {Range_Start r..Range_End r} \<subseteq> covers (Metadata_Ranges m)
     else {Range_Start r..Range_End r} \<inter> covers (Metadata_Ranges m) = {})"
  using cached_loop_correct [OF assms(1), of "if Range_End req = -1
      then req\<lparr>Range_End := i64 (Metadata_Length m - 1)\<rparr> else req" hit r] assms(2,3)
  by (auto simp: GetCachedRange_def split: if_splits)

theorem cached_range_all_or_nothing_witness:
  "{1..2} \<subseteq> covers [\<lparr>Range_Start = 0, Range_End = 2\<rparr>]"
  using cached_range_all_or_nothing [of "\<lparr>Metadata_Type = [], Metadata_Length = 6,
      Metadata_Ranges = [\<lparr>Range_Start = 0, Range_End = 2\<rparr>]\<rparr>"
      "\<lparr>Range_Start = 1, Range_End = -1\<rparr>" True "\<lparr>Range_Start = 1, Range_End = 2\<rparr>"]
  by (simp add: separated_def range_ok_def MaxInt64_def GetCachedRange_def i64_def)

text \<open>C28: While an address always stands for the same bytes, the origin sends parts of them and
  the disk has room, serving a remote file leaves every entry of the cache a true copy: the byte
  of every position that its metadata list is stored.\<close>

theorem cache_holds_true_copies:
  assumes "\<And>h. holds_copy (content h) (cache h)"
    and "\<And>h. room_for (content h) (cache h)"
    and "\<And>resp. net ''GET'' url hdr = Some resp \<Longrightarrow> honest (content (md5 url)) resp"
    and "ServeExternal md5 url_parts net hdr url cache w = (r, cache', w')"
  shows "holds_copy (content h) (cache' h)"
proof -
  obtain b w1 where cached: "TryServeCached hdr (cache (md5 url)) w = (b, w1)" by fastforce
  obtain r2 e w2 where uncached: "TryServeUncached url_parts net hdr url (cache (md5 url)) w1 = (r2, e, w2)"
    using prod_cases3 by blast
  have "holds_copy (content (md5 url)) e"
    using TryServeUncached_copy [OF assms(1,2,3) uncached] .
  with assms(1,4) cached uncached show ?thesis
    by (auto simp: ServeExternal_def Let_def split: bool.splits)
qed

theorem cache_holds_true_copies_witness:
  "holds_copy example_content (fst (snd (ServeExternal (\<lambda>_. ''h'') example_parts
     (\<lambda>_ _ _. Some example_response) [] ''https://example.org/a.png'' (\<lambda>_. half_entry) example_writer)) ''h'')"
proof -
  obtain r cache' w' where s: "ServeExternal (\<lambda>_. ''h'') example_parts
     (\<lambda>_ _ _. Some example_response) [] ''https://example.org/a.png'' (\<lambda>_. half_entry) example_writer =
     (r, cache', w')" using prod_cases3 by blast
  have "honest example_content example_response"
    by (simp add: honest_def origin_range_def example_response_def example_content_def MaxInt64_def)
  with cache_holds_true_copies [of "\<lambda>_. example_content" "\<lambda>_. half_entry", OF half_copy example_room(2) _ s]
  show ?thesis by (simp add: s)
qed

text \<open>Whatever a true copy serves is a part of the file, from the position that the request
  names: it may end early, but it never holds a byte of something else.\<close>

theorem cached_reply_is_a_slice:
  assumes "holds_copy content e" and "TryServeCached hdr e w = (True, w')"
  shows "\<exists>req k. requested hdr = Some req \<and>
    RW_body w' = RW_body w @ take k (drop (nat (Range_Start req)) content)"
proof -
  obtain req m r v where req: "requested hdr = Some req" and m: "GetCacheMetadata e = Some m"
    and r: "GetCachedRange m req = (True, r)" and v: "RW_body v = RW_body w"
    and w': "w' = io_Copy (pieces 32768 (take (nat (Range_End r - Range_Start r + 1))
      (drop (nat (Range_Start r)) content))) v"
    using TryServeCached_served [OF assms] by metis
  have "Range_Start r = Range_Start req" using GetCachedRange_hit(2) [OF assms(1) m r] .
  then show ?thesis
    using io_Copy_body(1) [of "pieces 32768 (take (nat (Range_End r - Range_Start r + 1))
      (drop (nat (Range_Start r)) content))" v] req v w'
    by (auto simp: concat_pieces)
qed

theorem cached_reply_is_a_slice_witness:
  "\<exists>k. RW_body (snd (TryServeCached [] half_entry example_writer)) = take k example_content"
proof -
  have "fst (TryServeCached [] half_entry example_writer)"
    by (simp add: TryServeCached_def half_entry_def GetCacheMetadata_def GetCachedRange_def
        example_entry_def i64_def Let_def)
  then have "TryServeCached [] half_entry example_writer =
      (True, snd (TryServeCached [] half_entry example_writer))" by (simp add: prod_eq_iff)
  from cached_reply_is_a_slice [OF half_copy this] show ?thesis
    by (auto simp: requested_def example_writer_def)
qed

text \<open>C29: A file that is not in the cache and arrives whole is passed on whole, and after that it
  is served from the cache without the origin: the same bytes, with the same type and length.\<close>

theorem fetched_file_served_again:
  assumes "Entry_meta e = NoMeta" and "Entry_meta_opens e" and "Entry_data_opens e"
    and "room_for content e" and "content \<noteq> []" and "CheckURL url_parts url"
    and "net ''GET'' url [] = Some resp" and "Resp_StatusCode resp = 200"
    and "Resp_Header resp ''Content-Type'' = ty" and "ty \<noteq> []"
    and "Resp_ContentLength resp = int (length content)" and "concat (Resp_Body resp) = content"
    and "length (Resp_Body resp) \<le> RW_accepts w"
    and "TryServeUncached url_parts net [] url e w = (r, e', w')"
    and "length (pieces 32768 content) \<le> RW_accepts v" and "RW_sent v = None"
  shows "r = Served \<and> RW_body w' = RW_body w @ content \<and>
    (\<exists>v'. TryServeCached [] e' v = (True, v') \<and> RW_body v' = RW_body v @ content \<and>
       RW_sent v' = Some (200, put ''Content-Length'' (FormatInt (int (length content)))
         (put ''Content-Type'' ty (RW_header v))))"
proof -
  let ?n = "int (length content)"
  have n: "0 < ?n" "?n < MaxInt64" using assms(4,5) by (simp_all add: room_for_def)
  let ?e = "e\<lparr>Entry_data := Some (case Entry_data e of None \<Rightarrow> [] | Some f \<Rightarrow> f)\<rparr>"
  let ?c = "\<lparr>Miss_start = 0, Miss_total = ?n, Miss_progress = 0, Miss_sinceUpdate = 0,
    Miss_pos = 0, Miss_type = ty\<rparr>"
  let ?w = "send_origin_headers resp 0 ?n ?n (header_Set ''Content-Type'' ty w)"
  have w: "RW_body ?w = RW_body w" "RW_accepts ?w = RW_accepts w"
    by (simp_all add: send_origin_headers_def assms(8))
  obtain c1 e1 w1 where copied: "copy_miss (Resp_Body resp) ?c ?e ?w = (c1, e1, w1)"
    by (metis prod_cases3)
  have range: "origin_range resp = Some (0, ?n, ?n)" using assms(8,11) by (simp add: origin_range_def)
  have out: "r = Served" "e' = CacheMiss_Close c1 e1" "w' = w1"
    using assms(14) copied range
    by (simp_all add: TryServeUncached_def MakeProxyRequest_def assms(3,6-10) Let_def)
  have fin: "Miss_progress c1 = ?n" "Miss_start c1 = 0" "Miss_total c1 = ?n" "Miss_type c1 = ty"
    "Entry_data_opens e1" "meta_of c1 e1" "RW_body w1 = RW_body w @ content"
    using copy_miss_complete [OF copied] assms(1-3,12,13) n w by (auto simp: meta_of_def)
  have "holds_copy content ?e" using assms(1) by (simp add: holds_copy_def)
  then have "downloading content (concat (Resp_Body resp)) ?c ?e"
    using assms(12) by (simp add: downloading_def MaxInt64_def)
  moreover have "room_for content ?e" using assms(4) by (simp add: room_for_def)
  ultimately obtain rest where d: "downloading content rest c1 e1" "room_for content e1"
    using copy_miss_copy [OF _ _ copied] by blast
  have "holds_whole content ty e'"
    unfolding out(2) by (rule closed_download_whole [OF d fin(6,2,1,3,4,5)])
  moreover have "room_for content e'" using d(2) by (simp add: out(2) CacheMiss_Close_def room_for_def)
  ultimately show ?thesis using whole_copy_served assms(5,15,16) out fin(7) by blast
qed

theorem fetched_file_served_again_witness:
  "\<exists>e' w' v'. TryServeUncached example_parts (\<lambda>_ _ _. Some example_response) []
       ''https://example.org/a.png'' example_entry example_writer = (Served, e', w') \<and>
     TryServeCached [] e' example_writer = (True, v') \<and> RW_body v' = ''abcdef''"
proof -
  obtain r e' w' where s: "TryServeUncached example_parts (\<lambda>_ _ _. Some example_response) []
      ''https://example.org/a.png'' example_entry example_writer = (r, e', w')"
    using prod_cases3 by blast
  show ?thesis
    using fetched_file_served_again [OF _ _ _ example_room(1) _ _ _ _ _ _ _ _ _ s,
        where resp = example_response and ty = "''image/png''" and v = example_writer] s
    by (auto simp: example_entry_def example_content_def example_response_def example_writer_def
        CheckURL_def example_parts_def pieces.simps)
qed

end
