(* ===== verification/Previews.thy ===== *)
theory Previews
  imports Http
begin

text \<open>
  storage/ffmpeg.go, storage/sandbox.go and storage/previews.go: the command lines that the server
  builds for \<^verbatim>\<open>ffmpeg\<close> and \<^verbatim>\<open>ffprobe\<close>, in a jail when there is one, and the previews it makes of
  their output. What a program prints is a parameter.
\<close>

section \<open>Running programs\<close>

text \<open>The programs on the path, the user and group ids of the user to run as, the working
  directory, and the output of a command line on some input with the files of the data folder;
  \<open>None\<close> for a command that fails.\<close>

record Toolbox =
  Tool_found :: "string \<Rightarrow> bool"
  Tool_nobody :: "(string \<times> string) option"
  Tool_pwd :: string
  Tool_run :: "(string, string) gomap \<Rightarrow> string list \<Rightarrow> string \<Rightarrow> string option"

definition seccomp_policy :: string where
  "seccomp_policy = ''KILL_PROCESS {'' @ [CHR 0x0A] @ replicate 3 (CHR 0x09) @ ''ptrace,'' @ [CHR 0x0A] @
     replicate 3 (CHR 0x09) @ ''process_vm_readv,'' @ [CHR 0x0A] @ replicate 3 (CHR 0x09) @
     ''process_vm_writev'' @ [CHR 0x0A] @ replicate 2 (CHR 0x09) @ ''},'' @ [CHR 0x0A] @
     replicate 2 (CHR 0x09) @ ''ERRNO(1) {'' @ [CHR 0x0A] @ replicate 3 (CHR 0x09) @ ''socket,'' @ [CHR 0x0A] @
     replicate 3 (CHR 0x09) @ ''sched_setaffinity'' @ [CHR 0x0A] @ replicate 2 (CHR 0x09) @ ''}'' @ [CHR 0x0A] @
     replicate 2 (CHR 0x09) @ ''DEFAULT ALLOW''"

definition canSandbox :: "Toolbox \<Rightarrow> bool" where
  "canSandbox tools \<longleftrightarrow> Tool_found tools ''nsjail'' \<and> Tool_nobody tools \<noteq> None"

definition sandboxFFmpegCommand :: "Toolbox \<Rightarrow> string \<Rightarrow> string list \<Rightarrow> string list option" where
  "sandboxFFmpegCommand tools tmpPath args =
     (if \<not> Tool_found tools ''ffmpeg'' then None
      else case Tool_nobody tools of
             None \<Rightarrow> None
           | Some (uid, gid) \<Rightarrow>
               Some (''nsjail'' #
                 [''-Mo'', ''--user'', uid, ''--group'', gid,
                  ''--bindmount_ro'', Tool_pwd tools @ ''/ffmpeg:/ffmpeg'',
                  ''--bindmount_ro'', ''/dev/urandom:/dev/urandom'',
                  ''--disable_proc'', ''--iface_no_lo'',
                  ''--rlimit_as'', ''1024'', ''--rlimit_core'', ''0'', ''--rlimit_cpu'', ''10'',
                  ''--rlimit_fsize'', ''0'', ''--rlimit_nofile'', ''128'', ''--rlimit_nproc'', ''128'',
                  ''--rlimit_stack'', ''8'', ''--rlimit_memlock'', ''64'', ''--rlimit_rtprio'', ''0'',
                  ''--rlimit_msgqueue'', ''0'', ''--seccomp_string'', seccomp_policy] @
                 (if tmpPath \<noteq> [] then [''--bindmount_ro'', tmpPath @ '':'' @ tmpPath] else []) @
                 [''--'', ''ffmpeg''] @ args))"

definition runFFmpegOnFile ::
  "Toolbox \<Rightarrow> (string, string) gomap \<Rightarrow> string list \<Rightarrow> string \<Rightarrow> string option" where
  "runFFmpegOnFile tools files args path =
     (if Tool_found tools ''nsjail''
      then (case sandboxFFmpegCommand tools path args of
              None \<Rightarrow> None | Some cmd \<Rightarrow> Tool_run tools files cmd [])
      else Tool_run tools files (''ffmpeg'' # args) [])"

definition runFFmpegOnStream ::
  "Toolbox \<Rightarrow> (string, string) gomap \<Rightarrow> string list \<Rightarrow> string \<Rightarrow> string option" where
  "runFFmpegOnStream tools files args stream =
     (if Tool_found tools ''nsjail''
      then (case sandboxFFmpegCommand tools [] args of
              None \<Rightarrow> None | Some cmd \<Rightarrow> Tool_run tools files cmd stream)
      else Tool_run tools files (''ffmpeg'' # args) stream)"

definition runFFprobeOnStream ::
  "Toolbox \<Rightarrow> (string, string) gomap \<Rightarrow> string list \<Rightarrow> string \<Rightarrow> string option" where
  "runFFprobeOnStream tools files args stream = Tool_run tools files (''ffprobe'' # args) stream"

section \<open>Previews\<close>

record Previews =
  Previews_Width :: int
  Previews_Height :: int
  Previews_Display :: string
  Previews_Thumb :: string
  Previews_Preload :: string

text \<open>The input is a stream, or a file if the path is not empty.\<close>

definition GetOriginal ::
  "Toolbox \<Rightarrow> (string, string) gomap \<Rightarrow> string \<Rightarrow> string \<Rightarrow> string option" where
  "GetOriginal tools files stream path =
     (let args = (\<lambda>input. [''-threads'', ''1'', ''-i'', input, ''-vframes'', ''1'', ''-quality'', ''100'',
            ''-c:v'', ''libwebp'', ''-f'', ''image2pipe'', ''-''])
      in if path \<noteq> [] then runFFmpegOnFile tools files (args path) path
         else runFFmpegOnStream tools files (args ''-'') stream)"

text \<open>\<^verbatim>\<open>Sscanf\<close> with the format of two numbers on two lines.\<close>

definition scan_newline :: "string \<Rightarrow> string option" where
  "scan_newline s = (case dropWhile is_blank s of
      [] \<Rightarrow> Some [] | c # t \<Rightarrow> if c = CHR 0x0A then Some t else None)"

definition scan_dimensions :: "string \<Rightarrow> (int \<times> int) option" where
  "scan_dimensions s =
     Option.bind (scan_int s) (\<lambda>(width, s).
     Option.bind (scan_newline s) (\<lambda>s. map_option (\<lambda>(height, _). (width, height)) (scan_int s)))"

definition GetDimensions ::
  "Toolbox \<Rightarrow> (string, string) gomap \<Rightarrow> string \<Rightarrow> (int \<times> int) option" where
  "GetDimensions tools files content =
     Option.bind (runFFprobeOnStream tools files [''-v'', ''error'', ''-select_streams'', ''v:0'',
         ''-show_entries'', ''stream=width,height,format_name'', ''-of'', ''default=nw=1:nk=1'', ''-'']
         content) scan_dimensions"

definition preview_args :: "string \<Rightarrow> string list" where
  "preview_args vf = [''-i'', ''-'', ''-vframes'', ''1'', ''-quality'', ''100'', ''-c:v'', ''libwebp'',
     ''-f'', ''image2pipe'', ''-vf'', vf, ''-'']"

definition quoted_min :: "string \<Rightarrow> string \<Rightarrow> string" where
  "quoted_min dim bound = [CHR 0x27] @ ''min('' @ dim @ '','' @ bound @ '')'' @ [CHR 0x27]"

definition scale_filter :: "string \<Rightarrow> string \<Rightarrow> string" where
  "scale_filter bound mode = ''scale=w='' @ quoted_min ''iw'' bound @ '':h='' @ quoted_min ''ih'' bound @
     '':force_original_aspect_ratio='' @ mode"

definition CreatePreviews ::
  "Toolbox \<Rightarrow> (string, string) gomap \<Rightarrow> string \<Rightarrow> string \<Rightarrow> Previews option" where
  "CreatePreviews tools files stream path =
     Option.bind (GetOriginal tools files stream path) (\<lambda>original.
     Option.bind (GetDimensions tools files original) (\<lambda>(width, height).
     Option.bind (runFFmpegOnStream tools files
       (preview_args (scale_filter ''1200'' ''decrease'')) original) (\<lambda>display.
     Option.bind (runFFmpegOnStream tools files
       (preview_args (scale_filter ''350'' ''increase'')) display) (\<lambda>thumb.
     map_option (\<lambda>preload. \<lparr>Previews_Width = width, Previews_Height = height,
         Previews_Display = display, Previews_Thumb = thumb, Previews_Preload = preload\<rparr>)
       (runFFmpegOnStream tools files (preview_args (''huesaturation=intensity=1,boxblur=32,'' @
          scale_filter ''32'' ''decrease'')) thumb)))))"

definition CreateAnimatedPreview ::
  "Toolbox \<Rightarrow> (string, string) gomap \<Rightarrow> string \<Rightarrow> string \<Rightarrow> string option" where
  "CreateAnimatedPreview tools files stream path =
     (let args = (\<lambda>input. [''-i'', input, ''-c:v'', ''libwebp_anim'', ''-loop'', ''0'', ''-f'',
            ''image2pipe'', ''-vf'', scale_filter ''550'' ''increase'', ''-''])
      in if path \<noteq> [] then runFFmpegOnFile tools files (args path) path
         else runFFmpegOnStream tools files (args ''-'') stream)"

record Avatar =
  Avatar_Display :: string
  Avatar_Thumb :: string

definition avatar_args :: "string \<Rightarrow> string list" where
  "avatar_args vf = [''-threads'', ''1'', ''-i'', ''-'', ''-vframes'', ''1'', ''-quality'', ''100'',
     ''-compression_level'', ''6'', ''-c:v'', ''libwebp'', ''-f'', ''image2pipe'', ''-vf'', vf, ''-'']"

definition CreateAvatar :: "Toolbox \<Rightarrow> (string, string) gomap \<Rightarrow> string \<Rightarrow> Avatar option" where
  "CreateAvatar tools files content =
     Option.bind (runFFmpegOnStream tools files (avatar_args ''scale=256:256'') content) (\<lambda>display.
     map_option (\<lambda>thumb. \<lparr>Avatar_Display = display, Avatar_Thumb = thumb\<rparr>)
       (runFFmpegOnStream tools files (avatar_args ''scale=96:96'') display))"

section \<open>The jail\<close>

text \<open>Running programs with every \<^verbatim>\<open>ffmpeg\<close> outside a jail failing.\<close>

definition jailed :: "Toolbox \<Rightarrow> Toolbox" where
  "jailed tools = tools\<lparr>Tool_run := (\<lambda>files cmd stream.
     if hd cmd = ''ffmpeg'' then None else Tool_run tools files cmd stream)\<rparr>"

lemma jailed_fields [simp]:
  "Tool_found (jailed tools) = Tool_found tools" "Tool_nobody (jailed tools) = Tool_nobody tools"
  "Tool_pwd (jailed tools) = Tool_pwd tools"
  by (simp_all add: jailed_def)

lemma jailed_command [simp]: "sandboxFFmpegCommand (jailed tools) = sandboxFFmpegCommand tools"
  by (auto simp: sandboxFFmpegCommand_def fun_eq_iff split: option.split)

lemma jailed_run:
  assumes "Tool_found tools ''nsjail''"
  shows "runFFmpegOnStream (jailed tools) = runFFmpegOnStream tools"
    and "runFFmpegOnFile (jailed tools) = runFFmpegOnFile tools"
    and "runFFprobeOnStream (jailed tools) = runFFprobeOnStream tools"
  using assms
  by (auto simp: runFFmpegOnStream_def runFFmpegOnFile_def runFFprobeOnStream_def fun_eq_iff
      jailed_def sandboxFFmpegCommand_def split: option.split)

end
