(* ===== verification/Files.thy ===== *)
theory Files
  imports Previews
begin

text \<open>
  storage/files.go: uploaded files, their previews and the avatars under the data folder. Paths
  are relative to that folder. Detecting the type of a file (a library), the programs that make
  previews, and the failures of the file system are parameters.
\<close>

section \<open>The data folder\<close>

text \<open>The files with their bytes, whether a file can be created, how many bytes a file can hold,
  and when each file was modified.\<close>

record Disk =
  Disk_files :: "(string, string) gomap"
  Disk_creates :: "string \<Rightarrow> bool"
  Disk_room :: nat
  Disk_modified :: "string \<Rightarrow> int"

text \<open>Something that is read: its bytes, and whether reading them ends without an error.\<close>

type_synonym input = "string \<times> bool"

definition dir_of :: "string \<Rightarrow> string" where
  "dir_of path = rev (tl (dropWhile (\<lambda>c. c \<noteq> CHR ''/'') (rev path)))"

definition RemoveAll :: "string \<Rightarrow> (string, string) gomap \<Rightarrow> (string, string) gomap" where
  "RemoveAll dir files = filter (\<lambda>(p, _). p \<noteq> dir \<and> \<not> prefix (dir @ ''/'') p) files"

definition GetAttachmentPath :: "snowflake \<Rightarrow> snowflake \<Rightarrow> string" where
  "GetAttachmentPath messageID attachmentID =
     ''attachments/'' @ FormatInt messageID @ ''/'' @ FormatInt attachmentID"

definition GetPreviewPath :: "snowflake \<Rightarrow> snowflake \<Rightarrow> string \<Rightarrow> string" where
  "GetPreviewPath messageID previewID variant =
     ''previews/'' @ FormatInt messageID @ ''/'' @ FormatInt previewID @ ''/'' @ variant"

definition GetAvatarPath :: "snowflake \<Rightarrow> int \<Rightarrow> string \<Rightarrow> string" where
  "GetAvatarPath userID modified variant =
     ''avatars/'' @ FormatInt userID @ ''/'' @ FormatInt modified @ ''/'' @ variant"

text \<open>A failed copy removes the file, and then the whole folder that it is in.\<close>

definition WriteFile :: "string \<Rightarrow> input \<Rightarrow> Disk \<Rightarrow> unit go_result \<times> Disk" where
  "WriteFile path input d =
     (case input of (bytes, complete) \<Rightarrow>
        if \<not> Disk_creates d path then (Err Uncoded, d)
        else if complete \<and> length bytes \<le> Disk_room d
        then (Ok (), d\<lparr>Disk_files := put path bytes (Disk_files d)\<rparr>)
        else (Err Uncoded, d\<lparr>Disk_files := RemoveAll (dir_of path) (del path (Disk_files d))\<rparr>))"

definition ReadFile :: "string \<Rightarrow> Disk \<Rightarrow> string go_result" where
  "ReadFile path d = (case get (Disk_files d) path of None \<Rightarrow> Err ErrFileNotFound | Some f \<Rightarrow> Ok f)"

section \<open>Base64\<close>

definition base64_char :: "nat \<Rightarrow> char" where
  "base64_char n =
     (if n < 26 then char_of (65 + n) else if n < 52 then char_of (71 + n)
      else if n < 62 then char_of (n - 4) else if n = 62 then CHR ''+'' else CHR ''/'')"

fun base64 :: "nat list \<Rightarrow> string" where
  "base64 [] = []"
| "base64 [a] = [base64_char (a div 4), base64_char (a mod 4 * 16), CHR ''='', CHR ''='']"
| "base64 [a, b] = [base64_char (a div 4), base64_char (a mod 4 * 16 + b div 16),
     base64_char (b mod 16 * 4), CHR ''='']"
| "base64 (a # b # c # bs) = base64_char (a div 4) # base64_char (a mod 4 * 16 + b div 16) #
     base64_char (b mod 16 * 4 + c div 64) # base64_char (c mod 64) # base64 bs"

definition GetWebpPreload :: "string \<Rightarrow> string" where
  "GetWebpPreload data = ''data:image/webp;base64, '' @ base64 (map of_char data)"

section \<open>Uploads\<close>

definition SupportedImageTypes :: "string list" where
  "SupportedImageTypes = [''image/jpeg'', ''image/png'', ''image/gif'', ''image/webp'', ''image/svg+xml'']"

definition SupportedVideoTypes :: "string list" where
  "SupportedVideoTypes = [''video/mp4'', ''video/webm'', ''video/x-matroska'']"

definition WritePreviews ::
  "snowflake \<Rightarrow> snowflake \<Rightarrow> Previews \<Rightarrow> Disk \<Rightarrow> string go_result \<times> Disk" where
  "WritePreviews messageID previewID previews d =
     (case WriteFile (GetPreviewPath messageID previewID ''display'') (Previews_Display previews, True) d of
        (Ok _, d) \<Rightarrow>
          (case WriteFile (GetPreviewPath messageID previewID ''thumbnail'') (Previews_Thumb previews, True) d of
             (Ok _, d) \<Rightarrow> (Ok (GetWebpPreload (Previews_Preload previews)), d)
           | (_, d) \<Rightarrow> (Err (Coded ErrorCodeInternalError), d))
      | (_, d) \<Rightarrow> (Err (Coded ErrorCodeInternalError), d))"

definition attachment_type :: "string \<Rightarrow> int" where
  "attachment_type mimeType =
     (let typ = AttachmentTypeFile;
          typ = (if mimeType \<in> set SupportedImageTypes then AttachmentTypeImage else typ)
      in if mimeType \<in> set SupportedVideoTypes then AttachmentTypeVideo else typ)"

text \<open>The previews of an image or a video, animated if it is a GIF; without them the attachment is
  a plain file.\<close>

definition attachment_previews ::
  "Toolbox \<Rightarrow> string option \<Rightarrow> Disk \<Rightarrow> Attachment \<Rightarrow> Previews option \<times> Attachment" where
  "attachment_previews tools absPath d attachment =
     (if Attachment_Type attachment = AttachmentTypeFile then (None, attachment)
      else
        case absPath of
          None \<Rightarrow> (None, attachment\<lparr>Attachment_Type := AttachmentTypeFile\<rparr>)
        | Some path \<Rightarrow>
            (case CreatePreviews tools (Disk_files d) [] path of
               None \<Rightarrow> (None, attachment\<lparr>Attachment_Type := AttachmentTypeFile\<rparr>)
             | Some previews \<Rightarrow>
                 let previews =
                   (if Attachment_Type attachment = AttachmentTypeImage \<and>
                       Attachment_MimeType attachment = ''image/gif''
                    then case CreateAnimatedPreview tools (Disk_files d) [] path of
                           Some animated \<Rightarrow> previews\<lparr>Previews_Display := animated\<rparr>
                         | None \<Rightarrow> previews
                    else previews)
                 in (Some previews, attachment\<lparr>Attachment_Width := Previews_Width previews,
                       Attachment_Height := Previews_Height previews\<rparr>)))"

definition UploadAttachment ::
  "Toolbox \<Rightarrow> (string \<Rightarrow> string) \<Rightarrow> (string \<Rightarrow> string option) \<Rightarrow> snowflake \<Rightarrow> snowflake \<Rightarrow> string \<Rightarrow>
   input \<Rightarrow> Disk \<Rightarrow> Attachment go_result \<times> Disk" where
  "UploadAttachment tools detect abs_path messageID attachmentID filename input d =
     (let path = GetAttachmentPath messageID attachmentID in
      case WriteFile path input d of
        (Err e, d) \<Rightarrow> (Err e, d)
      | (Panic, d) \<Rightarrow> (Panic, d)
      | (Ok _, d) \<Rightarrow>
          (case ReadFile path d of
             Err e \<Rightarrow> (Err e, d)
           | Panic \<Rightarrow> (Panic, d)
           | Ok content \<Rightarrow>
               let mimeType = detect content;
                   typ = attachment_type mimeType;
                   mimeType = (if mimeType = [] then ''application/octet-stream'' else mimeType);
                   attachment = \<lparr>Attachment_ID = attachmentID, Attachment_Filename = filename,
                     Attachment_Type = typ, Attachment_MimeType = mimeType,
                     Attachment_Size = int (length content), Attachment_Preload = [],
                     Attachment_Width = 0, Attachment_Height = 0\<rparr>
               in case attachment_previews tools (abs_path path) d attachment of
                    (None, attachment) \<Rightarrow> (Ok attachment, d)
                  | (Some previews, attachment) \<Rightarrow>
                      (case WritePreviews messageID attachmentID previews d of
                         (Ok preload, d) \<Rightarrow> (Ok (attachment\<lparr>Attachment_Preload := preload\<rparr>), d)
                       | (_, d) \<Rightarrow> (Err (Coded ErrorCodeInternalError), d))))"

definition ReadAttachment :: "snowflake \<Rightarrow> snowflake \<Rightarrow> Disk \<Rightarrow> string go_result" where
  "ReadAttachment messageID attachmentID d = ReadFile (GetAttachmentPath messageID attachmentID) d"

definition UploadAvatar ::
  "Toolbox \<Rightarrow> snowflake \<Rightarrow> int \<Rightarrow> string \<Rightarrow> Disk \<Rightarrow> unit go_result \<times> Disk" where
  "UploadAvatar tools userID modified input d =
     (case CreateAvatar tools (Disk_files d) input of
        None \<Rightarrow> (Err Uncoded, d)
      | Some avatar \<Rightarrow>
          and_then (WriteFile (GetAvatarPath userID modified ''display'') (Avatar_Display avatar, True) d)
            (\<lambda>_ d. WriteFile (GetAvatarPath userID modified ''thumbnail'') (Avatar_Thumb avatar, True) d))"

section \<open>Serving files\<close>

record File =
  File_Name :: string
  File_Size :: int
  File_Mimetype :: string
  File_Modified :: int
  File_Content :: string

definition GetFile :: "string \<Rightarrow> Disk \<Rightarrow> File go_result" where
  "GetFile name d =
     (case get (Disk_files d) name of
        None \<Rightarrow> Err ErrFileNotFound
      | Some bytes \<Rightarrow> Ok \<lparr>File_Name = name, File_Size = int (length bytes), File_Mimetype = [],
          File_Modified = Disk_modified d name, File_Content = bytes\<rparr>)"

definition with_mimetype :: "string \<Rightarrow> File go_result \<Rightarrow> File go_result" where
  "with_mimetype mimetype r = (case r of Ok f \<Rightarrow> Ok (f\<lparr>File_Mimetype := mimetype\<rparr>) | _ \<Rightarrow> r)"

definition GetPreview :: "snowflake \<Rightarrow> snowflake \<Rightarrow> string \<Rightarrow> Disk \<Rightarrow> File go_result" where
  "GetPreview messageID previewID typ d =
     with_mimetype ''image/webp'' (GetFile (GetPreviewPath messageID previewID typ) d)"

definition file_GetAttachment :: "snowflake \<Rightarrow> Attachment \<Rightarrow> Disk \<Rightarrow> File go_result" where
  "file_GetAttachment messageID attachment d =
     with_mimetype (Attachment_MimeType attachment)
       (GetFile (GetAttachmentPath messageID (Attachment_ID attachment)) d)"

definition GetAvatar :: "snowflake \<Rightarrow> int \<Rightarrow> string \<Rightarrow> Disk \<Rightarrow> File go_result" where
  "GetAvatar userID modified typ d =
     with_mimetype ''image/webp'' (GetFile (GetAvatarPath userID modified typ) d)"

end
