(* ===== verification/Media.thy ===== *)
theory Media
  imports Process Files Media_Cache
begin

text \<open>
  network/media.go and the upload route of network/api.go: the HTTP handlers. The router gives
  them the variables of the path as texts; \<^verbatim>\<open>http.ServeContent\<close> (\<open>serve\<close>) is a parameter.
\<close>

section \<open>Escaping\<close>

definition unreserved :: "char \<Rightarrow> bool" where
  "unreserved c \<longleftrightarrow> (let n = of_char c :: nat in
     48 \<le> n \<and> n \<le> 57 \<or> 65 \<le> n \<and> n \<le> 90 \<or> 97 \<le> n \<and> n \<le> 122 \<or> c \<in> set ''-_.~$&+:=@'')"

definition upper_hex :: "nat \<Rightarrow> char" where
  "upper_hex d = (if d < 10 then char_of (48 + d) else char_of (55 + d))"

definition PathEscape :: "string \<Rightarrow> string" where
  "PathEscape s = concat (map (\<lambda>c. if unreserved c then [c]
     else [CHR ''%'', upper_hex (of_char c div 16), upper_hex (of_char c mod 16)]) s)"

section \<open>Files\<close>

type_synonym serve = "File \<Rightarrow> ResponseWriter \<Rightarrow> ResponseWriter"

definition attachmentHandler ::
  "Env \<Rightarrow> serve \<Rightarrow> Disk \<Rightarrow> string \<Rightarrow> string \<Rightarrow> string \<Rightarrow> World \<Rightarrow> ResponseWriter \<Rightarrow>
   World \<times> ResponseWriter" where
  "attachmentHandler E serve d message_id attachment_id attachment_name w rw =
     (case ParseInt message_id of
        None \<Rightarrow> (w, http_Error ''invalid message id'' 400 rw)
      | Some messageID \<Rightarrow>
     (case ParseInt attachment_id of
        None \<Rightarrow> (w, http_Error ''invalid attachment id'' 400 rw)
      | Some attachmentID \<Rightarrow>
     (case GetAttachment E messageID attachmentID attachment_name (begin_tx w) of
        (Panic, tx) \<Rightarrow> (store_tx tx w, rw)
      | (Err e, tx) \<Rightarrow> (store_tx tx w,
          if e = ErrFileNotFound then http_Error ''attachment not found'' 404 rw
          else http_Error ''failed to get attachment'' 500 rw)
      | (Ok attachment, tx) \<Rightarrow> (store_tx tx w,
          case file_GetAttachment messageID attachment d of
            Ok file_ \<Rightarrow> serve file_
              (header_Set ''Content-Disposition'' (''inline; filename*=UTF-8'' @ [CHR 0x27, CHR 0x27] @
                  PathEscape attachment_name)
                (header_Set ''Content-Type'' (File_Mimetype file_) rw))
          | r \<Rightarrow> if r = Err ErrFileNotFound then http_Error ''attachment not found'' 404 rw
              else http_Error ''failed to get attachment'' 500 rw))))"

definition serve_image :: "serve \<Rightarrow> File \<Rightarrow> ResponseWriter \<Rightarrow> ResponseWriter" where
  "serve_image serve f rw = serve f
     (header_Set ''Cache-Control'' ''public, max-age=86400, immutable''
       (header_Set ''Content-Type'' (File_Mimetype f) rw))"

definition previewHandler ::
  "serve \<Rightarrow> Disk \<Rightarrow> string \<Rightarrow> string \<Rightarrow> string \<Rightarrow> ResponseWriter \<Rightarrow> ResponseWriter" where
  "previewHandler serve d message_id preview_id previewType rw =
     (case ParseInt message_id of
        None \<Rightarrow> http_Error ''invalid message id'' 400 rw
      | Some messageID \<Rightarrow>
     (case ParseInt preview_id of
        None \<Rightarrow> http_Error ''invalid preview id'' 400 rw
      | Some previewID \<Rightarrow>
          if previewType \<noteq> ''thumbnail'' \<and> previewType \<noteq> ''display''
          then http_Error ''invalid type'' 400 rw
          else case GetPreview messageID previewID previewType d of
                 Ok f \<Rightarrow> serve_image serve f rw
               | r \<Rightarrow> if r = Err ErrFileNotFound then http_Error ''preview not found'' 404 rw
                   else http_Error ''failed to get preview'' 500 rw))"

definition avatarHandler ::
  "serve \<Rightarrow> Disk \<Rightarrow> string \<Rightarrow> string \<Rightarrow> string \<Rightarrow> ResponseWriter \<Rightarrow> ResponseWriter" where
  "avatarHandler serve d user_id modified avatarType rw =
     (case ParseInt user_id of
        None \<Rightarrow> http_Error ''invalid user id'' 400 rw
      | Some userID \<Rightarrow>
     (case ParseInt modified of
        None \<Rightarrow> http_Error ''invalid modified timestamp'' 400 rw
      | Some modified \<Rightarrow>
          if avatarType \<noteq> ''thumbnail'' \<and> avatarType \<noteq> ''display''
          then http_Error ''invalid type'' 400 rw
          else case GetAvatar userID modified avatarType d of
                 Ok f \<Rightarrow> serve_image serve f rw
               | r \<Rightarrow> if r = Err ErrFileNotFound then http_Error ''avatar not found'' 404 rw
                   else http_Error ''failed to get avatar'' 500 rw))"

section \<open>Remote files\<close>

text \<open>The texts of the errors are not modelled, only whether they start with \<^verbatim>\<open>origin\<close>.\<close>

definition externalHandler ::
  "Env \<Rightarrow> (string \<Rightarrow> string) \<Rightarrow> (string \<Rightarrow> (string \<times> string) option) \<Rightarrow> net \<Rightarrow> (serve_result \<Rightarrow> string) \<Rightarrow>
   string \<Rightarrow> string \<Rightarrow> string \<Rightarrow> string \<Rightarrow> CacheStore \<Rightarrow> World \<Rightarrow> ResponseWriter \<Rightarrow>
   CacheStore \<times> World \<times> ResponseWriter" where
  "externalHandler E md5 url_parts net error_text message_id embed_id url hdr cache w rw =
     (case ParseInt message_id of
        None \<Rightarrow> (cache, w, http_Error ''invalid message id'' 400 rw)
      | Some messageID \<Rightarrow>
     (case ParseInt embed_id of
        None \<Rightarrow> (cache, w, http_Error ''invalid embed id'' 400 rw)
      | Some embedID \<Rightarrow>
          if url = [] then (cache, w, http_Error ''missing url parameter'' 400 rw)
          else
            case IsURLAllowed E embedID url (begin_tx w) of
              (Panic, tx) \<Rightarrow> (cache, store_tx tx w, rw)
            | (Err e, tx) \<Rightarrow> (cache, store_tx tx w, http_Error ''failed to check URL'' 500 rw)
            | (Ok allowed, tx) \<Rightarrow>
                if \<not> allowed then (cache, store_tx tx w, http_Error ''url not allowed'' 403 rw)
                else
                  (case ServeExternal md5 url_parts net hdr url cache
                          (header_Set ''Accept-Ranges'' ''bytes'' rw) of
                     (result, cache, rw) \<Rightarrow> (cache, store_tx tx w,
                       case result of
                         Served \<Rightarrow> rw
                       | OriginError \<Rightarrow> http_Error (error_text result) 502 rw
                       | OtherError \<Rightarrow> http_Error (error_text result) 500 rw))))"

section \<open>Uploads\<close>

text \<open>\<^verbatim>\<open>parts\<close> is \<open>None\<close> when the body is not a multipart form; the handler goes on all the same,
  and reading from the missing reader panics once the slot is taken.\<close>

definition uploadHandler ::
  "Env \<Rightarrow> (snowflake list \<Rightarrow> snowflake list) \<Rightarrow> file_store \<Rightarrow>
   (snowflake \<Rightarrow> int \<Rightarrow> string \<Rightarrow> unit go_result) \<Rightarrow> string \<Rightarrow> UploadPart list option \<Rightarrow> World \<Rightarrow>
   ResponseWriter \<Rightarrow> World \<times> ResponseWriter" where
  "uploadHandler E visit store_file store_avatar slot_id parts w rw =
     (case ParseInt slot_id of
        None \<Rightarrow> (w, http_Error ''invalid slot id'' 400 rw)
      | Some slotID \<Rightarrow>
          (case parts of
             None \<Rightarrow>
               (let rw = http_Error ''failed to create multipart reader'' 400 rw in
                case PopPendingRequest slotID w of
                  (None, w) \<Rightarrow> (w, http_Error ''failed to handle upload'' 500 rw)
                | (Some pending, w) \<Rightarrow>
                    (case GetConnection (Pending_session pending) w of
                       None \<Rightarrow> (w, http_Error ''failed to handle upload'' 500 rw)
                     | Some _ \<Rightarrow> (w, rw)))
           | Some parts \<Rightarrow>
               (case HandleGatewayUpload E visit store_file store_avatar slotID parts w of
                  (Ok _, w) \<Rightarrow> (w, snd (write_body ''OK'' (WriteHeader 200 rw)))
                | (Err e, w) \<Rightarrow> (w, http_Error ''failed to handle upload'' 500 rw)
                | (Panic, w) \<Rightarrow> (w, rw))))"

end
