(* ===== verification/Media_Properties.thy ===== *)
theory Media_Properties
  imports Media
begin

text \<open>
  What the HTTP routes serve: a remote file only if its address is a picture of the embed that the
  path names, and an attachment only as the database has it.
\<close>

section \<open>Queries outside a transaction\<close>

lemma fresh_tx_fields [simp]:
  "Tx_db (begin_tx w) = W_db w" "Tx_isWrite (begin_tx w) = False" "Tx_commit (begin_tx w) = None"
  "Tx_tick (begin_tx w) = W_tick w" "Tx_lastWrite (begin_tx w) = W_lastWrite w"
  by (simp_all add: begin_tx_def NewTransaction_def)

lemma step_row_cases:
  obtains (failed) "step_row E rows tx = (Err Uncoded, next_tick tx)"
  | (none) "rows = []" "step_row E rows tx = (Ok None, next_tick tx)"
  | (found) r where "r \<in> set rows" "step_row E rows tx = (Ok (Some r), next_tick tx)"
  by (cases "step_fails E tx 1"; cases rows) (auto simp: step_row_def)

text \<open>The addresses that an embed lets a client fetch.\<close>

definition embed_urls :: "EmbedRow \<Rightarrow> string set" where
  "embed_urls e = url_column ` {EmbedRow_image e, EmbedRow_thumbnail e, EmbedRow_video e,
     EmbedRow_author_icon e, EmbedRow_footer_icon e}"

lemma IsURLAllowed_result:
  assumes "IsURLAllowed E embedID url (begin_tx w) = (r, tx)"
  shows "tx = next_tick (begin_tx w) \<and>
    (r = Err Uncoded \<or> r = Err ErrFileNotFound \<or>
     (\<exists>e\<in>set (DB_embeds (W_db w)). EmbedRow_id e = embedID \<and> r = Ok (url \<in> embed_urls e)))"
  using assms
  by (cases rule: step_row_cases [of E "filter (\<lambda>e. EmbedRow_id e = embedID) (DB_embeds (W_db w))" "begin_tx w"])
    (auto simp: IsURLAllowed_def Prepare_def embed_urls_def)

text \<open>An attachment is found only with the message, the id and the name of its row; else the error
  has a code.\<close>

lemma GetAttachment_result:
  assumes "GetAttachment E m a name (begin_tx w) = (r, tx)"
  shows "tx = next_tick (begin_tx w) \<and>
    (r = Err (Coded ErrorCodeInternalError) \<or> r = Err (Coded ErrorCodeInvalidRequest) \<or>
     (\<exists>row att. row \<in> set (DB_attachments (W_db w)) \<and> AttachmentRow_message_id row = m \<and>
        AttachmentRow_id row = a \<and> AttachmentRow_filename row = name \<and> r = Ok att \<and>
        Attachment_ID att = a \<and> Attachment_MimeType att = AttachmentRow_mimetype row))"
  using assms
  by (cases rule: step_row_cases [of E "filter (\<lambda>r. AttachmentRow_message_id r = m \<and>
      AttachmentRow_id r = a \<and> AttachmentRow_filename r = name) (DB_attachments (W_db w))" "begin_tx w"])
    (auto simp: GetAttachment_def Prepare_def with_code_simps)

lemma file_GetAttachment_result:
  "file_GetAttachment m att d =
     (case get (Disk_files d) (GetAttachmentPath m (Attachment_ID att)) of
        None \<Rightarrow> Err ErrFileNotFound
      | Some bytes \<Rightarrow> Ok \<lparr>File_Name = GetAttachmentPath m (Attachment_ID att),
          File_Size = int (length bytes), File_Mimetype = Attachment_MimeType att,
          File_Modified = Disk_modified d (GetAttachmentPath m (Attachment_ID att)),
          File_Content = bytes\<rparr>)"
  by (simp add: file_GetAttachment_def GetFile_def with_mimetype_def split: option.split)

section \<open>Properties\<close>

text \<open>C32: The remote file route refuses an address that is not one of the pictures of the embed with
  the id of its path: no request goes out, nothing is cached, the database keeps its tables and the
  client gets an error page.\<close>

theorem external_fetch_needs_embed:
  assumes "\<And>e. e \<in> set (DB_embeds (W_db w)) \<Longrightarrow> ParseInt embed_id = Some (EmbedRow_id e) \<Longrightarrow>
      url \<notin> embed_urls e"
    and "externalHandler E md5 url_parts net error_text message_id embed_id url hdr cache w rw =
      (cache', w', rw')"
  shows "cache' = cache \<and> W_db w' = W_db w \<and>
    (\<exists>msg code. code \<in> {400, 403, 500} \<and> rw' = http_Error msg code rw) \<and>
    externalHandler E md5 url_parts net2 error_text message_id embed_id url hdr cache w rw =
      (cache', w', rw')"
proof (cases "ParseInt message_id = None \<or> ParseInt embed_id = None \<or> url = []")
  case True
  then show ?thesis using assms(2)
    by (cases "ParseInt message_id"; cases "ParseInt embed_id") (auto simp: externalHandler_def)
next
  case False
  then obtain messageID embedID where ids: "ParseInt message_id = Some messageID"
    "ParseInt embed_id = Some embedID" and "url \<noteq> []" by auto
  obtain r tx where r: "IsURLAllowed E embedID url (begin_tx w) = (r, tx)" by fastforce
  from IsURLAllowed_result [OF r] assms(1) ids
  have "tx = next_tick (begin_tx w)" "r = Ok False \<or> (\<exists>e. r = Err e)" by auto
  with assms(2) ids \<open>url \<noteq> []\<close> r show ?thesis
    by (auto simp: externalHandler_def store_tx_def) blast+
qed

definition example_embed_row :: EmbedRow where
  "example_embed_row = \<lparr>EmbedRow_id = 5, EmbedRow_message_id = 4, EmbedRow_type = 0,
     EmbedRow_url = ''https://example.org/'', EmbedRow_title = ''A'', EmbedRow_description = [],
     EmbedRow_color = 0, EmbedRow_timestamp = 0,
     EmbedRow_image = Some (''https://example.org/a.png'', 6), EmbedRow_thumbnail = None,
     EmbedRow_video = None, EmbedRow_author = None, EmbedRow_author_icon = None,
     EmbedRow_provider = None, EmbedRow_footer_text = None, EmbedRow_footer_icon = None\<rparr>"

definition media_world :: World where
  "media_world = initial_world (Database_empty\<lparr>DB_embeds := [example_embed_row],
     DB_attachments := [\<lparr>AttachmentRow_id = 2, AttachmentRow_message_id = 4, AttachmentRow_type = 0,
       AttachmentRow_mimetype = ''text/plain'', AttachmentRow_filename = ''notes.txt'',
       AttachmentRow_size = 5\<rparr>]\<rparr>) 0 0"

definition blank_writer :: ResponseWriter where
  "blank_writer = \<lparr>RW_header = [], RW_sent = None, RW_body = [], RW_accepts = 9\<rparr>"

lemma media_world_fields [simp]:
  "DB_embeds (W_db media_world) = [example_embed_row]"
  "DB_attachments (W_db media_world) = [\<lparr>AttachmentRow_id = 2, AttachmentRow_message_id = 4,
     AttachmentRow_type = 0, AttachmentRow_mimetype = ''text/plain'',
     AttachmentRow_filename = ''notes.txt'', AttachmentRow_size = 5\<rparr>]"
  by (simp_all add: media_world_def initial_world_def)

theorem external_fetch_needs_embed_witness:
  "\<forall>md5 url_parts net cache. fst (externalHandler env0 md5 url_parts net (\<lambda>_. []) ''4'' ''5''
     ''http://10.0.0.1/'' [] cache media_world blank_writer) = cache"
proof (intro allI)
  fix md5 :: "string \<Rightarrow> string" and url_parts :: "string \<Rightarrow> (string \<times> string) option" and net :: net
    and cache :: CacheStore
  obtain cache' w' rw' where *: "externalHandler env0 md5 url_parts net (\<lambda>_. []) ''4'' ''5''
     ''http://10.0.0.1/'' [] cache media_world blank_writer = (cache', w', rw')"
    using prod_cases3 by blast
  have "''http://10.0.0.1/'' \<notin> embed_urls e" if "e \<in> set (DB_embeds (W_db media_world))" for e
    using that by (simp add: embed_urls_def url_column_def example_embed_row_def)
  from external_fetch_needs_embed [OF this *]
  show "fst (externalHandler env0 md5 url_parts net (\<lambda>_. []) ''4'' ''5'' ''http://10.0.0.1/'' [] cache
      media_world blank_writer) = cache" by (simp add: *)
qed

text \<open>C37: The attachment route answers with an error page, or with the stored bytes of an attachment
  that the database has under the message, the id and the name of the path, under the type that was
  recorded for it.\<close>

theorem attachment_served_as_recorded:
  assumes "attachmentHandler E serve d message_id attachment_id name w rw = (w', rw')"
  shows "(\<exists>msg code. code \<in> {400, 404, 500} \<and> rw' = http_Error msg code rw) \<or>
    (\<exists>row bytes f. row \<in> set (DB_attachments (W_db w)) \<and>
       ParseInt message_id = Some (AttachmentRow_message_id row) \<and>
       ParseInt attachment_id = Some (AttachmentRow_id row) \<and> AttachmentRow_filename row = name \<and>
       get (Disk_files d) (GetAttachmentPath (AttachmentRow_message_id row) (AttachmentRow_id row)) =
         Some bytes \<and>
       File_Content f = bytes \<and>
       rw' = serve f (header_Set ''Content-Disposition'' (''inline; filename*=UTF-8'' @
           [CHR 0x27, CHR 0x27] @ PathEscape name)
         (header_Set ''Content-Type'' (AttachmentRow_mimetype row) rw)))"
proof (cases "ParseInt message_id = None \<or> ParseInt attachment_id = None")
  case True
  then show ?thesis using assms
    by (cases "ParseInt message_id"; cases "ParseInt attachment_id")
      (auto simp: attachmentHandler_def)
next
  case False
  then obtain m a where ids: "ParseInt message_id = Some m" "ParseInt attachment_id = Some a" by auto
  obtain r tx where r: "GetAttachment E m a name (begin_tx w) = (r, tx)" by fastforce
  from GetAttachment_result [OF r] consider
    (error) e where "r = Err e"
  | (row) row att where "row \<in> set (DB_attachments (W_db w))" "AttachmentRow_message_id row = m"
      "AttachmentRow_id row = a" "AttachmentRow_filename row = name" "r = Ok att"
      "Attachment_ID att = a" "Attachment_MimeType att = AttachmentRow_mimetype row" by blast
  then show ?thesis
  proof cases
    case error
    with assms ids r show ?thesis by (intro disjI1) (auto simp: attachmentHandler_def, blast+)
  next
    case row
    show ?thesis
    proof (cases "get (Disk_files d) (GetAttachmentPath m a)")
      case None
      with row assms ids r show ?thesis
        by (intro disjI1) (simp add: attachmentHandler_def file_GetAttachment_result, blast)
    next
      case (Some bytes)
      let ?f = "\<lparr>File_Name = GetAttachmentPath m a, File_Size = int (length bytes),
        File_Mimetype = AttachmentRow_mimetype row,
        File_Modified = Disk_modified d (GetAttachmentPath m a), File_Content = bytes\<rparr>"
      show ?thesis
        by (intro disjI2 exI [of _ row] exI [of _ bytes] exI [of _ ?f])
          (use row Some assms ids r in
            \<open>simp add: attachmentHandler_def file_GetAttachment_result prod_eq_iff\<close>)
    qed
  qed
qed

theorem attachment_served_as_recorded_witness:
  "\<exists>rw. rw = snd (attachmentHandler env0 (\<lambda>f rw. rw\<lparr>RW_body := File_Content f\<rparr>)
       \<lparr>Disk_files = [(''attachments/4/2'', ''hello'')], Disk_creates = (\<lambda>_. True), Disk_room = 9,
          Disk_modified = (\<lambda>_. 0)\<rparr> ''4'' ''2'' ''notes.txt'' media_world blank_writer) \<and>
     RW_body rw = ''hello'' \<and> get (RW_header rw) ''Content-Type'' = Some ''text/plain''"
proof -
  let ?d = "\<lparr>Disk_files = [(''attachments/4/2'', ''hello'')], Disk_creates = (\<lambda>_. True), Disk_room = 9,
          Disk_modified = (\<lambda>_. 0)\<rparr>"
  obtain w' rw' where *: "attachmentHandler env0 (\<lambda>f rw. rw\<lparr>RW_body := File_Content f\<rparr>) ?d ''4'' ''2''
      ''notes.txt'' media_world blank_writer = (w', rw')" by fastforce
  have n: "ParseInt ''4'' = Some 4" "ParseInt ''2'' = Some 2" "FormatInt 4 = ''4''" "FormatInt 2 = ''2''"
    by code_simp+
  have "rw' \<noteq> http_Error msg code blank_writer" for msg code
    using * by (auto simp: attachmentHandler_def n GetAttachment_def Prepare_def step_row_def
        step_fails_def env0_def with_code_simps file_GetAttachment_result GetAttachmentPath_def
        header_Set_def http_Error_def write_body_def WriteHeader_def blank_writer_def)
  with attachment_served_as_recorded [OF *] show ?thesis
    by (auto simp: * n GetAttachmentPath_def header_Set_def)
qed

text \<open>For an attachment that the database does not have, the route answers that it failed, with
  status 500: the branch that answers 404 is never taken there.\<close>

theorem missing_attachment_is_a_failure:
  assumes "ParseInt message_id = Some m" and "ParseInt attachment_id = Some a"
    and "\<And>row. row \<in> set (DB_attachments (W_db w)) \<Longrightarrow> AttachmentRow_message_id row = m \<Longrightarrow>
      AttachmentRow_id row = a \<Longrightarrow> AttachmentRow_filename row \<noteq> name"
  shows "snd (attachmentHandler E serve d message_id attachment_id name w rw) =
    http_Error ''failed to get attachment'' 500 rw"
proof -
  obtain r tx where r: "GetAttachment E m a name (begin_tx w) = (r, tx)" by fastforce
  with GetAttachment_result [OF r] assms
  have "r = Err (Coded ErrorCodeInternalError) \<or> r = Err (Coded ErrorCodeInvalidRequest)" by blast
  with r assms(1,2) show ?thesis by (auto simp: attachmentHandler_def)
qed

theorem missing_attachment_is_a_failure_witness:
  "\<forall>serve d. RW_body (snd (attachmentHandler env0 serve d ''4'' ''3'' ''x'' media_world blank_writer)) =
     ''failed to get attachment'' @ [CHR 0x0A]"
proof (intro allI)
  fix serve d
  have n: "ParseInt ''4'' = Some 4" "ParseInt ''3'' = Some 3" by code_simp+
  show "RW_body (snd (attachmentHandler env0 serve d ''4'' ''3'' ''x'' media_world blank_writer)) =
      ''failed to get attachment'' @ [CHR 0x0A]"
    by (subst missing_attachment_is_a_failure [OF n])
      (simp_all add: http_Error_def write_body_def WriteHeader_def header_Set_def blank_writer_def)
qed

end
