(* ===== verification/Embeds.thy ===== *)
theory Embeds
  imports Events Files Media_Cache Text
begin

text \<open>
  chat/embed.go: what a link in a message turns into. The other servers, \<^verbatim>\<open>html.Parse\<close>,
  \<^verbatim>\<open>json.Unmarshal\<close> up to the document, \<^verbatim>\<open>mime.ParseMediaType\<close>, \<^verbatim>\<open>url.Parse\<close>, \<^verbatim>\<open>md5\<close> and the
  preview programs are parameters. A dereference of \<^verbatim>\<open>nil\<close> is a panic.
\<close>

section \<open>The world outside\<close>

text \<open>A node of a parsed page: whether it is an element, its tag or text, its attributes, and its
  children.\<close>

datatype html_node =
  Html_node (Html_is_element: bool) (Html_data: string) (Html_attrs: "(string \<times> string) list")
    (Html_children: "html_node list")

text \<open>\<open>Web_reads\<close>: how many pieces of a stream a program takes before it closes its input.\<close>

record Web =
  Web_net :: "nat \<Rightarrow> net"
  Web_url_parts :: "string \<Rightarrow> (string \<times> string) option"
  Web_url_path :: "string \<Rightarrow> string option"
  Web_media_type :: "string \<Rightarrow> (string \<times> (string \<times> string) list) option"
  Web_parse_html :: "string \<Rightarrow> html_node option"
  Web_parse_json :: "string \<Rightarrow> json option"
  Web_md5 :: "string \<Rightarrow> string"
  Web_is_punct :: "nat \<Rightarrow> bool"
  Web_tools :: Toolbox
  Web_reads :: "nat \<Rightarrow> nat"

text \<open>The state that fetching changes: the requests and ids so far, the data folder and the cache
  of remote files.\<close>

record Fetcher =
  Fetch_tick :: nat
  Fetch_disk :: Disk
  Fetch_cache :: CacheStore

definition fetch_tick :: "Fetcher \<Rightarrow> Fetcher" where
  "fetch_tick s = s\<lparr>Fetch_tick := Suc (Fetch_tick s)\<rparr>"

section \<open>Requests\<close>

definition MaxTitleLength :: int where "MaxTitleLength = 70"

definition MaxNameLength :: int where "MaxNameLength = 50"

definition MaxDescriptionLength :: int where "MaxDescriptionLength = 350"

definition MaxContentLength :: int where "MaxContentLength = 1024 * 1024 * 64"

definition MakeRequest :: "Web \<Rightarrow> string \<Rightarrow> string \<Rightarrow> Fetcher \<Rightarrow> Response go_result \<times> Fetcher" where
  "MakeRequest W verb targetURL s =
     (if \<not> CheckURL (Web_url_parts W) targetURL then (Err Uncoded, s)
      else case Web_net W (Fetch_tick s) verb targetURL [] of
             None \<Rightarrow> (Err Uncoded, fetch_tick s)
           | Some resp \<Rightarrow>
               if Resp_StatusCode resp \<noteq> 200 then (Err Uncoded, fetch_tick s)
               else (Ok resp, fetch_tick s))"

record ContentInfo =
  Info_Type :: string
  Info_Length :: int
  Info_Filename :: string
  Info_URL :: string

text \<open>\<^verbatim>\<open>filepath.Base\<close>.\<close>

definition path_Base :: "string \<Rightarrow> string" where
  "path_Base p =
     (if p = [] then ''.''
      else let p = rev (dropWhile (\<lambda>c. c = CHR ''/'') (rev p));
               base = rev (takeWhile (\<lambda>c. c \<noteq> CHR ''/'') (rev p))
           in if base = [] then ''/'' else base)"

definition map_value :: "(string \<times> string) list \<Rightarrow> string \<Rightarrow> string" where
  "map_value m k = (case get m k of Some v \<Rightarrow> v | None \<Rightarrow> [])"

definition content_type :: "Web \<Rightarrow> string \<Rightarrow> string" where
  "content_type W h =
     (if h \<noteq> [] then (case Web_media_type W h of Some (mimeType, _) \<Rightarrow> mimeType | None \<Rightarrow> []) else [])"

definition content_filename :: "Web \<Rightarrow> string \<Rightarrow> string \<Rightarrow> string" where
  "content_filename W disposition targetURL =
     (let name = (if disposition \<noteq> []
            then (case Web_media_type W disposition of Some (_, params) \<Rightarrow> map_value params ''filename''
                    | None \<Rightarrow> []) else [])
      in if name = []
         then let name = (case Web_url_path W targetURL of Some path \<Rightarrow> path_Base path | None \<Rightarrow> name)
              in if length name \<le> 1 then [] else name
         else name)"

definition GetContentInfo :: "Web \<Rightarrow> string \<Rightarrow> Fetcher \<Rightarrow> ContentInfo go_result \<times> Fetcher" where
  "GetContentInfo W targetURL s =
     and_then (MakeRequest W ''HEAD'' targetURL s) (\<lambda>resp s.
       let len = Resp_Header resp ''Content-Length'' in
       case (if len \<noteq> [] then ParseInt len else Some 0) of
         None \<Rightarrow> (Err Uncoded, s)
       | Some n \<Rightarrow>
           (Ok \<lparr>Info_Type = content_type W (Resp_Header resp ''Content-Type''), Info_Length = n,
              Info_Filename =
                content_filename W (Resp_Header resp ''Content-Disposition'') targetURL,
              Info_URL = targetURL\<rparr>, s))"

definition GetContent :: "Web \<Rightarrow> string \<Rightarrow> Fetcher \<Rightarrow> Response go_result \<times> Fetcher" where
  "GetContent W targetURL s = MakeRequest W ''GET'' targetURL s"

definition GetContentString :: "Web \<Rightarrow> string \<Rightarrow> Fetcher \<Rightarrow> string go_result \<times> Fetcher" where
  "GetContentString W targetURL s =
     and_then (MakeRequest W ''GET'' targetURL s) (\<lambda>resp s.
       if Resp_complete resp then (Ok (concat (Resp_Body resp)), s) else (Err Uncoded, s))"

section \<open>oEmbed\<close>

record OEmbed =
  OEmbed_Type :: string
  OEmbed_Version :: string
  OEmbed_Title :: string
  OEmbed_AuthorName :: string
  OEmbed_AuthorURL :: string
  OEmbed_ProviderName :: string
  OEmbed_ProviderURL :: string
  OEmbed_CacheAge :: string
  OEmbed_ThumbnailURL :: string
  OEmbed_ThumbnailWidth :: int
  OEmbed_ThumbnailHeight :: int
  OEmbed_Url :: string
  OEmbed_Width :: int
  OEmbed_Height :: int
  OEmbed_Html :: string

definition OEmbed_zero :: OEmbed where
  "OEmbed_zero = \<lparr>OEmbed_Type = [], OEmbed_Version = [], OEmbed_Title = [], OEmbed_AuthorName = [],
     OEmbed_AuthorURL = [], OEmbed_ProviderName = [], OEmbed_ProviderURL = [], OEmbed_CacheAge = [],
     OEmbed_ThumbnailURL = [], OEmbed_ThumbnailWidth = 0, OEmbed_ThumbnailHeight = 0,
     OEmbed_Url = [], OEmbed_Width = 0, OEmbed_Height = 0, OEmbed_Html = []\<rparr>"

definition oembed_setters :: "OEmbed setters" where
  "oembed_setters =
     [(''type'', set_string OEmbed_Type_update), (''version'', set_string OEmbed_Version_update),
      (''title'', set_string OEmbed_Title_update),
      (''author_name'', set_string OEmbed_AuthorName_update),
      (''author_url'', set_string OEmbed_AuthorURL_update),
      (''provider_name'', set_string OEmbed_ProviderName_update),
      (''provider_url'', set_string OEmbed_ProviderURL_update),
      (''cache_age'', set_string OEmbed_CacheAge_update),
      (''thumbnail_url'', set_string OEmbed_ThumbnailURL_update),
      (''thumbnail_width'', set_int OEmbed_ThumbnailWidth_update),
      (''thumbnail_height'', set_int OEmbed_ThumbnailHeight_update),
      (''url'', set_string OEmbed_Url_update), (''width'', set_int OEmbed_Width_update),
      (''height'', set_int OEmbed_Height_update), (''html'', set_string OEmbed_Html_update)]"

definition EmbedMedia_of :: "string \<Rightarrow> int \<Rightarrow> int \<Rightarrow> EmbedMedia" where
  "EmbedMedia_of url width height = \<lparr>EmbedMedia_ID = 0, EmbedMedia_URL = url,
     EmbedMedia_Width = width, EmbedMedia_Height = height, EmbedMedia_MimeType = [],
     EmbedMedia_Preload = []\<rparr>"

text \<open>\<open>None\<close> is the error of a document that does not decode; the embed is then left as it was.\<close>

definition ParseOEmbed :: "json option \<Rightarrow> Embed \<Rightarrow> Embed option" where
  "ParseOEmbed document emb =
     (case Unmarshal oembed_setters OEmbed_zero document of
        None \<Rightarrow> None
      | Some oembed \<Rightarrow>
          let emb = (if OEmbed_Type oembed = ''rich'' \<and> Embed_Title emb = []
                then emb\<lparr>Embed_Title := OEmbed_Title oembed\<rparr> else emb);
              emb = (if OEmbed_ProviderName oembed \<noteq> []
                then emb\<lparr>Embed_Provider := Some \<lparr>EmbedProvider_Name = OEmbed_ProviderName oembed,
                  EmbedProvider_URL = OEmbed_ProviderURL oembed\<rparr>\<rparr> else emb);
              emb = (if OEmbed_AuthorName oembed \<noteq> []
                then emb\<lparr>Embed_Author := Some \<lparr>EmbedAuthor_Name = OEmbed_AuthorName oembed,
                  EmbedAuthor_URL = OEmbed_AuthorURL oembed, EmbedAuthor_Icon = None\<rparr>\<rparr> else emb);
              emb = (if OEmbed_ThumbnailURL oembed \<noteq> []
                then emb\<lparr>Embed_Thumbnail := Some (EmbedMedia_of (OEmbed_ThumbnailURL oembed)
                  (OEmbed_ThumbnailWidth oembed) (OEmbed_ThumbnailHeight oembed))\<rparr> else emb)
          in Some emb)"

section \<open>Pages\<close>

definition hex_digit :: "char \<Rightarrow> nat option" where
  "hex_digit c =
     (let n = of_char c :: nat in
      if 48 \<le> n \<and> n \<le> 57 then Some (n - 48) else if 97 \<le> n \<and> n \<le> 102 then Some (n - 87)
      else if 65 \<le> n \<and> n \<le> 70 then Some (n - 55) else None)"

text \<open>\<^verbatim>\<open>strconv.ParseInt(s, 16, 64)\<close>.\<close>

definition parse_hex :: "string \<Rightarrow> int option" where
  "parse_hex s =
     (let (neg, ds) = (case s of [] \<Rightarrow> (False, [])
            | c # cs \<Rightarrow> if c = CHR ''-'' then (True, cs) else if c = CHR ''+'' then (False, cs)
                else (False, c # cs))
      in if ds = [] \<or> list_ex (\<lambda>c. hex_digit c = None) ds then None
         else let n = fold (\<lambda>c acc. acc * 16 + int (the (hex_digit c))) ds 0;
                  n = (if neg then - n else n)
              in if fits_int64 n then Some n else None)"

definition ParseHexColor :: "string \<Rightarrow> int" where
  "ParseHexColor hexColor =
     (if length hexColor < 6 then 0
      else case parse_hex (tl hexColor) of None \<Rightarrow> 0 | Some color \<Rightarrow> color)"

record Page =
  Page_metaTags :: "(string, string) gomap"
  Page_oembedURLs :: "string list"

text \<open>The last attribute with a name. \<^verbatim>\<open>strings.ToLower\<close> also maps letters outside ASCII, but none of
  them to a letter of the names asked for.\<close>

definition attr_value :: "(string \<times> string) list \<Rightarrow> string \<Rightarrow> string" where
  "attr_value attrs k = (case filter (\<lambda>(a, _). map fold_char a = k) (rev attrs) of
     [] \<Rightarrow> [] | (_, v) # _ \<Rightarrow> v)"

definition set_tag :: "string \<Rightarrow> string \<Rightarrow> Page \<Rightarrow> Page" where
  "set_tag k v p = p\<lparr>Page_metaTags := put k v (Page_metaTags p)\<rparr>"

definition visit_link :: "(string \<times> string) list \<Rightarrow> Page \<Rightarrow> Page" where
  "visit_link attrs p =
     (let rel = attr_value attrs ''rel''; href = attr_value attrs ''href'';
          typ = attr_value attrs ''type''
      in if rel = ''canonical'' then set_tag ''canonical'' href p
         else if rel = ''alternate'' then
           (if typ = ''application/json+oembed''
            then p\<lparr>Page_oembedURLs := Page_oembedURLs p @ [href]\<rparr> else p)
         else p)"

definition visit_meta :: "(string \<times> string) list \<Rightarrow> Page \<Rightarrow> Page" where
  "visit_meta attrs p =
     (let name = attr_value attrs ''name''; property = attr_value attrs ''property'';
          content = attr_value attrs ''content''
      in if name \<noteq> [] then set_tag name content p
         else if property \<noteq> [] then set_tag property content p else p)"

text \<open>\<open>None\<close> is the panic over a title without a child.\<close>

fun traverse :: "html_node \<Rightarrow> Page \<Rightarrow> Page option"
  and traverse_children :: "html_node list \<Rightarrow> Page \<Rightarrow> Page option" where
  "traverse (Html_node el tag attrs children) p =
     (case (if el \<and> tag = ''title''
            then (case children of [] \<Rightarrow> None | c # _ \<Rightarrow> Some (set_tag ''title'' (Html_data c) p))
            else Some p) of
        None \<Rightarrow> None
      | Some p \<Rightarrow>
          let p = (if el \<and> tag = ''link'' then visit_link attrs p else p);
              p = (if el \<and> tag = ''meta'' then visit_meta attrs p else p)
          in traverse_children children p)"
| "traverse_children [] p = Some p"
| "traverse_children (c # cs) p =
     (case traverse c p of None \<Rightarrow> None | Some p \<Rightarrow> traverse_children cs p)"

definition Embed_of_type :: "int \<Rightarrow> Embed" where
  "Embed_of_type typ = \<lparr>Embed_ID = 0, Embed_Type = typ, Embed_URL = [], Embed_Title = [],
     Embed_Description = [], Embed_Color = 0, Embed_Timestamp = 0, Embed_Image = None,
     Embed_Thumbnail = None, Embed_Video = None, Embed_Author = None, Embed_Provider = None,
     Embed_Footer = None, Embed_Fields = []\<rparr>"

definition if_tag :: "(string, string) gomap \<Rightarrow> string \<Rightarrow> (string \<Rightarrow> Embed \<Rightarrow> Embed) \<Rightarrow> Embed \<Rightarrow> Embed" where
  "if_tag tags k f emb = (case get tags k of Some v \<Rightarrow> f v emb | None \<Rightarrow> emb)"

text \<open>\<^verbatim>\<open>Atoi\<close> of a size; anything else leaves it at zero.\<close>

definition tag_size :: "(string, string) gomap \<Rightarrow> string \<Rightarrow> int" where
  "tag_size tags k = (case get tags k of
     Some v \<Rightarrow> (case ParseInt v of Some n \<Rightarrow> n | None \<Rightarrow> 0) | None \<Rightarrow> 0)"

definition page_image :: "(string, string) gomap \<Rightarrow> string \<Rightarrow> Embed \<Rightarrow> Embed" where
  "page_image tags ogImage emb =
     (let image = EmbedMedia_of ogImage (tag_size tags ''og:image:width'') (tag_size tags ''og:image:height'');
          ogType = map_value tags ''og:type''; twitterCard = map_value tags ''twitter:card'';
          shouldBeThumbnail = (ogType = ''website'' \<or> twitterCard = ''summary'');
          shouldBeThumbnail = (if twitterCard = ''summary_large_image'' then False else shouldBeThumbnail)
      in if shouldBeThumbnail then emb\<lparr>Embed_Thumbnail := Some image, Embed_Image := None\<rparr>
         else emb\<lparr>Embed_Image := Some image\<rparr>)"

definition page_embed :: "(string, string) gomap \<Rightarrow> Embed" where
  "page_embed tags =
     (let emb = Embed_of_type EmbedTypeRich;
          emb = if_tag tags ''title'' (\<lambda>v e. e\<lparr>Embed_Title := v\<rparr>) emb;
          emb = if_tag tags ''canonical'' (\<lambda>v e. e\<lparr>Embed_URL := v\<rparr>) emb;
          emb = if_tag tags ''description'' (\<lambda>v e. e\<lparr>Embed_Description := v\<rparr>) emb;
          emb = if_tag tags ''theme-color'' (\<lambda>v e. e\<lparr>Embed_Color := ParseHexColor v\<rparr>) emb;
          emb = if_tag tags ''og:title'' (\<lambda>v e. e\<lparr>Embed_Title := v\<rparr>) emb;
          emb = if_tag tags ''og:site_name''
            (\<lambda>v e. e\<lparr>Embed_Provider := Some \<lparr>EmbedProvider_Name = v, EmbedProvider_URL = []\<rparr>\<rparr>) emb;
          emb = if_tag tags ''og:url'' (\<lambda>v e. e\<lparr>Embed_URL := v\<rparr>) emb;
          emb = if_tag tags ''og:description'' (\<lambda>v e. e\<lparr>Embed_Description := v\<rparr>) emb;
          emb = if_tag tags ''og:image'' (page_image tags) emb
      in if_tag tags ''og:video'' (\<lambda>v e. e\<lparr>Embed_Video := Some (EmbedMedia_of v
           (tag_size tags ''og:video:width'') (tag_size tags ''og:video:height''))\<rparr>) emb)"

fun oembed_loop :: "Web \<Rightarrow> string list \<Rightarrow> Embed \<Rightarrow> Fetcher \<Rightarrow> Embed \<times> Fetcher" where
  "oembed_loop W [] emb s = (emb, s)"
| "oembed_loop W (url # urls) emb s =
     (case GetContentString W url s of
        (Ok content, s) \<Rightarrow>
          oembed_loop W urls (case ParseOEmbed (Web_parse_json W content) emb of
            Some e \<Rightarrow> e | None \<Rightarrow> emb) s
      | (_, s) \<Rightarrow> oembed_loop W urls emb s)"

definition GetRichEmbed :: "Web \<Rightarrow> ContentInfo \<Rightarrow> Fetcher \<Rightarrow> Embed go_result \<times> Fetcher" where
  "GetRichEmbed W info s =
     and_then (GetContentString W (Info_URL info) s) (\<lambda>content s.
       case Web_parse_html W content of
         None \<Rightarrow> (Err Uncoded, s)
       | Some node \<Rightarrow>
           (case traverse node \<lparr>Page_metaTags = [], Page_oembedURLs = []\<rparr> of
              None \<Rightarrow> (Panic, s)
            | Some p \<Rightarrow>
                (case oembed_loop W (Page_oembedURLs p) (page_embed (Page_metaTags p)) s of
                   (emb, s) \<Rightarrow> (Ok emb, s))))"

definition GetImageEmbed :: "ContentInfo \<Rightarrow> Embed" where
  "GetImageEmbed info =
     (Embed_of_type EmbedTypeImage)\<lparr>Embed_Image := Some (EmbedMedia_of (Info_URL info) 0 0)\<rparr>"

definition GetVideoEmbed :: "ContentInfo \<Rightarrow> Embed" where
  "GetVideoEmbed info =
     (Embed_of_type EmbedTypeVideo)\<lparr>Embed_Video := Some (EmbedMedia_of (Info_URL info) 0 0)\<rparr>"

end
