(* ===== verification/Embed_Previews.thy ===== *)
theory Embed_Previews
  imports Embeds
begin

text \<open>
  chat/embed.go, the pictures of an embed: the previews that are made of a remote picture or video,
  and \<^verbatim>\<open>GetEmbedFromURL\<close>, which keeps the first of the video, the image and the thumbnail that
  gives previews.
\<close>

section \<open>Previews of remote files\<close>

record PreviewResult =
  Result_Width :: int
  Result_Height :: int
  Result_Preload :: string

definition preview_result :: "Previews \<Rightarrow> string \<Rightarrow> PreviewResult" where
  "preview_result previews preload = \<lparr>Result_Width = Previews_Width previews,
     Result_Height = Previews_Height previews, Result_Preload = preload\<rparr>"

text \<open>Writing the previews of a file, at the end of both functions below.\<close>

definition store_previews ::
  "snowflake \<Rightarrow> snowflake \<Rightarrow> Previews option \<Rightarrow> Fetcher \<Rightarrow> PreviewResult go_result \<times> Fetcher" where
  "store_previews messageID previewID previews s =
     (case previews of
        None \<Rightarrow> (Err Uncoded, s)
      | Some previews \<Rightarrow>
          (case WritePreviews messageID previewID previews (Fetch_disk s) of
             (Ok preload, d) \<Rightarrow> (Ok (preview_result previews preload), s\<lparr>Fetch_disk := d\<rparr>)
           | (_, d) \<Rightarrow> (Err Uncoded, s\<lparr>Fetch_disk := d\<rparr>)))"

text \<open>The program gets the pieces that it takes before it closes its input; an error of the
  connection only ends them.\<close>

definition GetImagePreviews ::
  "Web \<Rightarrow> snowflake \<Rightarrow> snowflake \<Rightarrow> string \<Rightarrow> Fetcher \<Rightarrow> PreviewResult go_result \<times> Fetcher" where
  "GetImagePreviews W messageID previewID url s =
     (let n = Web_reads W (Fetch_tick s) in
      and_then (GetContent W url s) (\<lambda>content s.
        store_previews messageID previewID
          (CreatePreviews (Web_tools W) (Disk_files (Fetch_disk s)) (concat (take n (Resp_Body content))) [])
          s))"

text \<open>While the previews of a video are made, what is read of it goes into the cache.\<close>

definition GetVideoPreviews ::
  "Web \<Rightarrow> snowflake \<Rightarrow> snowflake \<Rightarrow> string \<Rightarrow> string \<Rightarrow> int \<Rightarrow> Fetcher \<Rightarrow>
   PreviewResult go_result \<times> Fetcher" where
  "GetVideoPreviews W messageID embedID url contentType len s =
     (let n = Web_reads W (Fetch_tick s); h = Web_md5 W url in
      and_then (GetContent W url s) (\<lambda>content s.
        case GetCacheWriter contentType 0 len (Fetch_cache s h) of
          None \<Rightarrow> (Err Uncoded, s)
        | Some (writer, entry) \<Rightarrow>
            (case tee (take n (Resp_Body content)) writer entry of
               (stream, complete, writer, entry) \<Rightarrow>
                 let previews = CreatePreviews (Web_tools W) (Disk_files (Fetch_disk s)) stream [];
                     entry = snd (CacheWriter_Close writer entry)
                 in store_previews messageID embedID previews
                      (s\<lparr>Fetch_cache := (Fetch_cache s)(h := entry)\<rparr>))))"

section \<open>The embed of a link\<close>

definition with_preview :: "PreviewResult \<Rightarrow> EmbedMedia \<Rightarrow> EmbedMedia" where
  "with_preview r m = m\<lparr>EmbedMedia_Width := Result_Width r, EmbedMedia_Height := Result_Height r,
     EmbedMedia_Preload := Result_Preload r\<rparr>"

definition new_id :: "Env \<Rightarrow> Fetcher \<Rightarrow> EmbedMedia \<Rightarrow> EmbedMedia" where
  "new_id E s m = m\<lparr>EmbedMedia_ID := Env_generate E (Fetch_tick s)\<rparr>"

text \<open>One step: the medium with its previews, or \<open>None\<close> when there is none or they fail.\<close>

definition preview_medium ::
  "Env \<Rightarrow> (snowflake \<Rightarrow> Fetcher \<Rightarrow> PreviewResult go_result \<times> Fetcher) \<Rightarrow> EmbedMedia option \<Rightarrow>
   Fetcher \<Rightarrow> EmbedMedia option \<times> Fetcher" where
  "preview_medium E attempt medium s =
     (case medium of
        None \<Rightarrow> (None, s)
      | Some m \<Rightarrow>
          let m = new_id E s m in
          (case attempt (EmbedMedia_ID m) (fetch_tick s) of
             (Ok r, s) \<Rightarrow> (Some (with_preview r m), s)
           | (_, s) \<Rightarrow> (None, s)))"

definition video_step ::
  "Env \<Rightarrow> Web \<Rightarrow> snowflake \<Rightarrow> ContentInfo \<Rightarrow> Embed \<Rightarrow> Fetcher \<Rightarrow> Embed \<times> Fetcher" where
  "video_step E W messageID info emb s =
     (let previewURL = (case Embed_Video emb of Some m \<Rightarrow> EmbedMedia_URL m | None \<Rightarrow> []);
          previewURL = (case Embed_Image emb of Some m \<Rightarrow> EmbedMedia_URL m | None \<Rightarrow> previewURL);
          previewURL = (case Embed_Thumbnail emb of Some m \<Rightarrow> EmbedMedia_URL m | None \<Rightarrow> previewURL)
      in case preview_medium E (\<lambda>k. GetVideoPreviews W messageID k previewURL (Info_Type info)
             (Info_Length info)) (Embed_Video emb) s of
           (Some m, s) \<Rightarrow> (emb\<lparr>Embed_Video := Some m, Embed_Image := None, Embed_Thumbnail := None\<rparr>, s)
         | (None, s) \<Rightarrow> (emb\<lparr>Embed_Video := None\<rparr>, s))"

definition image_step ::
  "Env \<Rightarrow> Web \<Rightarrow> snowflake \<Rightarrow> Embed \<Rightarrow> Fetcher \<Rightarrow> Embed \<times> Fetcher" where
  "image_step E W messageID emb s =
     (let previewURL = (case Embed_Image emb of Some m \<Rightarrow> EmbedMedia_URL m | None \<Rightarrow> []);
          previewURL = (case Embed_Thumbnail emb of Some m \<Rightarrow> EmbedMedia_URL m | None \<Rightarrow> previewURL)
      in case preview_medium E (\<lambda>k. GetImagePreviews W messageID k previewURL) (Embed_Image emb) s of
           (Some m, s) \<Rightarrow> (emb\<lparr>Embed_Image := Some m, Embed_Video := None, Embed_Thumbnail := None\<rparr>, s)
         | (None, s) \<Rightarrow> (emb\<lparr>Embed_Image := None\<rparr>, s))"

definition thumbnail_step ::
  "Env \<Rightarrow> Web \<Rightarrow> snowflake \<Rightarrow> Embed \<Rightarrow> Fetcher \<Rightarrow> Embed \<times> Fetcher" where
  "thumbnail_step E W messageID emb s =
     (let previewURL = (case Embed_Thumbnail emb of Some m \<Rightarrow> EmbedMedia_URL m | None \<Rightarrow> [])
      in case preview_medium E (\<lambda>k. GetImagePreviews W messageID k previewURL) (Embed_Thumbnail emb) s of
           (Some m, s) \<Rightarrow> (emb\<lparr>Embed_Thumbnail := Some m, Embed_Video := None, Embed_Image := None\<rparr>, s)
         | (None, s) \<Rightarrow> (emb\<lparr>Embed_Thumbnail := None\<rparr>, s))"

definition useless_description :: "Embed \<Rightarrow> bool" where
  "useless_description emb \<longleftrightarrow>
     (case Embed_Provider emb of Some p \<Rightarrow> Embed_Description emb = EmbedProvider_Name p | None \<Rightarrow> False) \<or>
     (case Embed_Author emb of Some a \<Rightarrow> Embed_Description emb = EmbedAuthor_Name a | None \<Rightarrow> False) \<or>
     (Embed_Title emb \<noteq> [] \<and> Embed_Description emb = Embed_Title emb)"

definition truncate_nonempty :: "(nat \<Rightarrow> bool) \<Rightarrow> int \<Rightarrow> bool \<Rightarrow> string \<Rightarrow> string" where
  "truncate_nonempty is_punct len breakWords text =
     (if text \<noteq> [] then TruncateText is_punct text len breakWords else text)"

definition limit_texts :: "(nat \<Rightarrow> bool) \<Rightarrow> Embed \<Rightarrow> Embed" where
  "limit_texts is_punct emb =
     (let emb = (if useless_description emb then emb\<lparr>Embed_Description := []\<rparr> else emb);
          emb = emb\<lparr>Embed_Author := map_option (\<lambda>a. a\<lparr>EmbedAuthor_Name :=
            truncate_nonempty is_punct MaxNameLength True (EmbedAuthor_Name a)\<rparr>) (Embed_Author emb)\<rparr>;
          emb = emb\<lparr>Embed_Provider := map_option (\<lambda>p. p\<lparr>EmbedProvider_Name :=
            truncate_nonempty is_punct MaxNameLength True (EmbedProvider_Name p)\<rparr>) (Embed_Provider emb)\<rparr>;
          emb = emb\<lparr>Embed_Title := truncate_nonempty is_punct MaxTitleLength True (Embed_Title emb)\<rparr>;
          emb = emb\<lparr>Embed_Description :=
            truncate_nonempty is_punct MaxDescriptionLength False (Embed_Description emb)\<rparr>
      in emb\<lparr>Embed_Footer := map_option (\<lambda>f. f\<lparr>EmbedFooter_Text :=
           truncate_nonempty is_punct MaxTitleLength True (EmbedFooter_Text f)\<rparr>) (Embed_Footer emb)\<rparr>)"

text \<open>The embed before its pictures; for any other type of content it stays \<^verbatim>\<open>nil\<close>, and the code
  goes on to dereference it.\<close>

definition plain_embed :: "Web \<Rightarrow> ContentInfo \<Rightarrow> Fetcher \<Rightarrow> Embed go_result \<times> Fetcher" where
  "plain_embed W info s =
     (if Info_Type info = ''text/html'' then GetRichEmbed W info s
      else if Info_Type info \<in> set SupportedImageTypes then (Ok (GetImageEmbed info), s)
      else if Info_Type info \<in> set SupportedVideoTypes then (Ok (GetVideoEmbed info), s)
      else (Panic, s))"

definition GetEmbedFromURL ::
  "Env \<Rightarrow> Web \<Rightarrow> snowflake \<Rightarrow> string \<Rightarrow> Fetcher \<Rightarrow> Embed go_result \<times> Fetcher" where
  "GetEmbedFromURL E W messageID targetURL s =
     and_then (GetContentInfo W targetURL s) (\<lambda>info s.
       if Info_Length info > MaxContentLength then (Err Uncoded, s)
       else and_then (plain_embed W info s) (\<lambda>emb s.
         case video_step E W messageID info emb s of
           (emb, s) \<Rightarrow>
             (case image_step E W messageID emb s of
                (emb, s) \<Rightarrow>
                  (case thumbnail_step E W messageID emb s of
                     (emb, s) \<Rightarrow> (Ok (limit_texts (Web_is_punct W) emb), s)))))"

end
