(* ===== verification/Text_Properties.thy ===== *)
theory Text_Properties
  imports Text
begin

text \<open>
  The properties of the text functions: what a truncated text holds, and the two tables of emojis
  as inverse maps.
\<close>

section \<open>Truncated text\<close>

lemma runes_valid: "list_all valid_rune (runes_of bs)"
  by (induction bs rule: runes_of.induct) (subst runes_of.simps, simp add: decode_rune_valid)

lemma runes_dots: "runes_of (bytes_of ''...'') = [46, 46, 46]"
  by (simp add: bytes_of_def runes_of.simps)

lemma runes_cut:
  "runes (string_of_runes (take k (runes s)) @ ''...'') = take k (runes s) @ [46, 46, 46]"
proof -
  have "list_all valid_rune (take k (runes s))"
    using runes_valid [of "bytes_of s"] set_take_subset [of k "runes s"]
    by (auto simp: list_all_iff runes_def)
  then show ?thesis
    using runes_of_encode [of "take k (runes s)" "bytes_of ''...''"]
    by (simp add: runes_def bytes_of_string_of_runes runes_dots)
qed

lemma boundary_loop_range:
  assumes "10 \<le> len + 2 ^ 63" and "0 \<le> i" and "i \<le> len" and "len \<le> MaxInt64" and "len - 10 \<le> i"
  shows "len - 10 \<le> boundary_loop p rs len len i \<and> boundary_loop p rs len len i \<le> len \<and>
    (0 < len \<longrightarrow> 0 \<le> boundary_loop p rs len len i)"
  using assms(2,3,5)
proof (induction "nat i" arbitrary: i rule: less_induct)
  case less
  have wrap: "i64 (len - wordBoundryTolerance) = len - 10"
    unfolding wordBoundryTolerance_def by (rule i64_id) (use assms in simp_all)
  show ?case
  proof (cases "len - 10 < i \<and> 0 < i")
    case False
    then have "boundary_loop p rs len len i = len"
      using wrap by (simp add: boundary_loop.simps [of p rs len len i])
    then show ?thesis by simp
  next
    case True
    then have "len - 10 \<le> i - 1" "0 \<le> i - 1" "i - 1 \<le> len" "nat (i - 1) < nat i"
      using less.prems by auto
    moreover have "boundary_loop p rs len len i \<in> {i - 1, boundary_loop p rs len len (i - 1)}"
      using True wrap by (simp add: boundary_loop.simps [of p rs len len i])
    ultimately show ?thesis using less.hyps [of "i - 1"] by auto
  qed
qed

text \<open>A text that is too long is cut to at most the given number of characters, losing at most
  ten more to a word boundary, whole characters of the text all of them, followed by three dots;
  one that is not is left as it is.\<close>

theorem truncated_text:
  assumes "0 < len" and "len \<le> MaxInt64"
  shows "if int (length (runes text)) \<le> len then TruncateText p text len brk = text
    else \<exists>k. runes (TruncateText p text len brk) = take k (runes text) @ [46, 46, 46] \<and>
      int k \<le> len \<and> len - 10 \<le> int k \<and> (brk \<longrightarrow> int k = len)"
proof (cases "int (length (runes text)) \<le> len")
  case True
  then show ?thesis using assms by (simp add: TruncateText_def)
next
  case False
  define cut where "cut = (if brk then len else boundary_loop p (runes text) len len len)"
  have "len - 10 \<le> cut" "cut \<le> len" "0 \<le> cut" "brk \<longrightarrow> cut = len"
    using boundary_loop_range [of len len p "runes text"] assms by (auto simp: cut_def)
  moreover have "runes (TruncateText p text len brk) = take (nat cut) (runes text) @ [46, 46, 46]"
    using False assms by (simp add: TruncateText_def Let_def cut_def [symmetric] runes_cut)
  ultimately show ?thesis using False by (auto intro!: exI [of _ "nat cut"])
qed

theorem truncated_text_witness:
  "\<exists>k. runes (TruncateText (\<lambda>_. False) ''hello world'' 5 True) = take k (runes ''hello world'') @ [46, 46, 46]
     \<and> int k = 5"
proof -
  have "length (runes ''hello world'') = 11" by (simp add: runes_def bytes_of_def runes_of.simps)
  then show ?thesis
    using truncated_text [of 5 "''hello world''" "\<lambda>_. False" True] by (auto simp: MaxInt64_def)
qed

section \<open>The emoji tables\<close>

definition emoji_ok :: "EmojiTable \<Rightarrow> bool" where
  "emoji_ok t \<longleftrightarrow> (\<forall>c i. get (CodepointToID t) c = Some i \<longleftrightarrow> get (IDToCodepoint t) i = Some c) \<and>
     (\<forall>c i. get (CodepointToID t) c = Some i \<longrightarrow> i = uint (HashCRC32 c))"

lemma add_emoji_ok:
  assumes "add_emoji c t = Some t'" and "emoji_ok t"
  shows "emoji_ok t' \<and> get (CodepointToID t') c = Some (uint (HashCRC32 c)) \<and>
    (\<forall>d. get (CodepointToID t) d \<noteq> None \<longrightarrow> get (CodepointToID t') d = get (CodepointToID t) d)"
proof -
  define key where "key = uint (HashCRC32 c)"
  have t': "CodepointToID t' = put c key (CodepointToID t)" "IDToCodepoint t' = put key c (IDToCodepoint t)"
    and free: "\<And>d. get (IDToCodepoint t) key = Some d \<Longrightarrow> d = c"
    using assms(1) by (auto simp: add_emoji_def key_def Let_def split: option.splits if_splits)
  have inv: "get (CodepointToID t) d = Some i \<longleftrightarrow> get (IDToCodepoint t) i = Some d"
    and hash: "get (CodepointToID t) d = Some i \<Longrightarrow> i = uint (HashCRC32 d)" for d i
    using assms(2) unfolding emoji_ok_def by blast+
  have same: "get (CodepointToID t) c = Some i \<Longrightarrow> i = key" for i
    using hash unfolding key_def by blast
  have "get (CodepointToID t') d = Some i \<longleftrightarrow> get (IDToCodepoint t') i = Some d" for d i
  proof (cases "i = key")
    case True
    then show ?thesis using inv [of d key] free [of d] by (cases "d = c") (auto simp: t')
  next
    case False
    then show ?thesis using inv [of d i] same [of i] by (cases "d = c") (auto simp: t')
  qed
  moreover have "get (CodepointToID t') d = Some i \<Longrightarrow> i = uint (HashCRC32 d)" for d i
    unfolding t' using hash [of d i] by (simp add: key_def split: if_splits)
  moreover have "get (CodepointToID t') d = get (CodepointToID t) d"
    if "get (CodepointToID t) d \<noteq> None" for d
    unfolding t' using that same by (auto split: if_splits)
  moreover have "get (CodepointToID t') c = Some key" unfolding t' by simp
  ultimately show ?thesis unfolding emoji_ok_def key_def by blast
qed

lemma emoji_loop_ok:
  assumes "emoji_loop ls t = Some t'" and "emoji_ok t"
  shows "emoji_ok t' \<and> (\<forall>l \<in> set ls. get (CodepointToID t') l \<noteq> None) \<and>
    (\<forall>d. get (CodepointToID t) d \<noteq> None \<longrightarrow> get (CodepointToID t') d = get (CodepointToID t) d)"
  using assms
proof (induction ls arbitrary: t)
  case Nil
  then show ?case by simp
next
  case (Cons l ls)
  then obtain t1 where t1: "add_emoji l t = Some t1" "emoji_loop ls t1 = Some t'"
    by (auto split: option.splits)
  note add = add_emoji_ok [OF t1(1) Cons.prems(2)]
  with Cons.IH [OF t1(2)] show ?case by auto
qed

text \<open>If the server starts, the two emoji tables are inverse to each other, every line of the
  embedded file has an id, and the id is the checksum of its codepoint: no two emojis share one.\<close>

theorem emoji_tables_inverse:
  assumes "emoji_init contents = Some t"
  shows "(get (CodepointToID t) c = Some i \<longleftrightarrow> get (IDToCodepoint t) i = Some c) \<and>
    (c \<in> set (split_lines contents) \<longrightarrow> get (CodepointToID t) c = Some (uint (HashCRC32 c)) \<and>
       IsUnicodeEmojiID t (uint (HashCRC32 c)))"
proof -
  have "emoji_ok \<lparr>CodepointToID = [], IDToCodepoint = []\<rparr>" by (simp add: emoji_ok_def)
  with assms have ok: "emoji_ok t" "\<forall>l \<in> set (split_lines contents). get (CodepointToID t) l \<noteq> None"
    using emoji_loop_ok [of "split_lines contents"] by (auto simp: emoji_init_def)
  then show ?thesis by (fastforce simp: emoji_ok_def IsUnicodeEmojiID_def)
qed

theorem emoji_tables_inverse_witness:
  "\<exists>t. emoji_init ''1f600'' = Some t \<and> get (CodepointToID t) ''1f600'' = Some (uint (HashCRC32 ''1f600''))"
proof -
  have "\<exists>t. emoji_init ''1f600'' = Some t"
    by (simp add: emoji_init_def add_emoji_def Let_def)
  then obtain t where t: "emoji_init ''1f600'' = Some t" ..
  from emoji_tables_inverse [OF t, of "''1f600''"] t show ?thesis by simp
qed

end
