(* ===== verification/Files_Properties.thy ===== *)
theory Files_Properties
  imports Files
begin

text \<open>
  What the data folder keeps: the paths of different files never meet, an uploaded attachment is
  read back with its previews, a failed upload loses the folder of its message, and no \<^verbatim>\<open>ffmpeg\<close>
  runs outside the jail when there is one.
\<close>

section \<open>Paths\<close>

lemma digit_not_slash: "is_digit c \<Longrightarrow> c \<noteq> CHR ''/''"
  by (auto simp: is_digit_def)

lemma FormatInt_no_slash: "CHR ''/'' \<notin> set (FormatInt n)"
  using format_nat_digits [of "nat n"] format_nat_digits [of "nat (- n)"] digit_not_slash
  by (auto simp: FormatInt_def list_all_iff)

lemma format_nat_inj: "format_nat m = format_nat n \<longleftrightarrow> m = n"
  by (metis parse_format_nat)

lemma format_nat_not_minus: "format_nat m \<noteq> CHR ''-'' # s"
proof
  assume "format_nat m = CHR ''-'' # s"
  then show False using format_nat_digits [of m] sign_not_digit by simp
qed

lemma FormatInt_inj [simp]: "FormatInt m = FormatInt n \<longleftrightarrow> m = n"
  using format_nat_not_minus not_sym [OF format_nat_not_minus]
  by (auto simp: FormatInt_def format_nat_inj)

lemma slash_split:
  assumes "CHR ''/'' \<notin> set a" and "CHR ''/'' \<notin> set b"
  shows "a @ CHR ''/'' # s = b @ CHR ''/'' # t \<longleftrightarrow> a = b \<and> s = t"
  using assms
proof (induction a arbitrary: b)
  case Nil
  then show ?case by (cases b) auto
next
  case (Cons x a)
  then show ?case by (cases b) auto
qed

lemma FormatInt_split:
  "FormatInt m @ CHR ''/'' # s = FormatInt n @ CHR ''/'' # t \<longleftrightarrow> m = n \<and> s = t"
  by (simp add: slash_split FormatInt_no_slash)

lemma attachment_path_eq [simp]:
  "GetAttachmentPath m a = GetAttachmentPath m' a' \<longleftrightarrow> m = m' \<and> a = a'"
  by (simp add: GetAttachmentPath_def FormatInt_split)

lemma preview_path_eq [simp]:
  "GetPreviewPath m p v = GetPreviewPath m' p' v' \<longleftrightarrow> m = m' \<and> p = p' \<and> v = v'"
  by (simp add: GetPreviewPath_def FormatInt_split)

lemma avatar_path_eq [simp]:
  "GetAvatarPath u t v = GetAvatarPath u' t' v' \<longleftrightarrow> u = u' \<and> t = t' \<and> v = v'"
  by (simp add: GetAvatarPath_def FormatInt_split)

lemma paths_apart [simp]:
  "GetAttachmentPath m a \<noteq> GetPreviewPath m' p v" "GetPreviewPath m' p v \<noteq> GetAttachmentPath m a"
  "GetAttachmentPath m a \<noteq> GetAvatarPath u t v" "GetAvatarPath u t v \<noteq> GetAttachmentPath m a"
  "GetPreviewPath m p v \<noteq> GetAvatarPath u t v'" "GetAvatarPath u t v' \<noteq> GetPreviewPath m p v"
  by (simp_all add: GetAttachmentPath_def GetPreviewPath_def GetAvatarPath_def)

lemma dir_of_append:
  assumes "CHR ''/'' \<notin> set name"
  shows "dir_of (dir @ CHR ''/'' # name) = dir"
proof -
  have "dropWhile (\<lambda>c. c \<noteq> CHR ''/'') (rev name @ CHR ''/'' # rev dir) = CHR ''/'' # rev dir"
    using assms by (subst dropWhile_append2) auto
  then show ?thesis by (simp add: dir_of_def)
qed

lemma dir_of_attachment: "dir_of (GetAttachmentPath m a) = ''attachments/'' @ FormatInt m"
  using dir_of_append [of "FormatInt a" "''attachments/'' @ FormatInt m"]
  by (simp add: GetAttachmentPath_def FormatInt_no_slash)

lemma dir_of_preview:
  "CHR ''/'' \<notin> set v \<Longrightarrow> dir_of (GetPreviewPath m p v) =
     ''previews/'' @ FormatInt m @ ''/'' @ FormatInt p"
  using dir_of_append [of v "''previews/'' @ FormatInt m @ ''/'' @ FormatInt p"]
  by (simp add: GetPreviewPath_def)

lemma attachment_in_folder:
  "GetAttachmentPath m' a \<noteq> ''attachments/'' @ FormatInt m"
  "prefix (''attachments/'' @ FormatInt m @ ''/'') (GetAttachmentPath m' a) \<longleftrightarrow> m = m'"
proof -
  show "GetAttachmentPath m' a \<noteq> ''attachments/'' @ FormatInt m"
  proof
    assume "GetAttachmentPath m' a = ''attachments/'' @ FormatInt m"
    then have "FormatInt m' @ CHR ''/'' # FormatInt a = FormatInt m"
      by (simp add: GetAttachmentPath_def)
    then have "CHR ''/'' \<in> set (FormatInt m)" by (metis in_set_conv_decomp)
    with FormatInt_no_slash show False by simp
  qed
  show "prefix (''attachments/'' @ FormatInt m @ ''/'') (GetAttachmentPath m' a) \<longleftrightarrow> m = m'"
    by (auto simp: GetAttachmentPath_def prefix_def FormatInt_split)
qed

lemma attachment_not_in_previews:
  "GetAttachmentPath m a \<noteq> ''previews/'' @ s" "\<not> prefix (''previews/'' @ s) (GetAttachmentPath m a)"
  by (simp_all add: GetAttachmentPath_def)

section \<open>Writing\<close>

lemma get_RemoveAll:
  "get (RemoveAll dir files) p =
     (if p = dir \<or> prefix (dir @ ''/'') p then None else get files p)"
  by (induction files) (auto simp: RemoveAll_def)

lemma get_folder_removed:
  "get (RemoveAll (''attachments/'' @ FormatInt m) files) (GetAttachmentPath m' a) =
     (if m' = m then None else get files (GetAttachmentPath m' a))"
  "get (RemoveAll (''attachments/'' @ FormatInt m) files) (GetPreviewPath m' p v) =
     get files (GetPreviewPath m' p v)"
  by (simp only: get_RemoveAll append_assoc attachment_in_folder simp_thms)
    (auto simp: get_RemoveAll GetPreviewPath_def)

lemma WriteFile_Ok:
  "WriteFile path (bytes, complete) d = (Ok u, d') \<longleftrightarrow>
     Disk_creates d path \<and> complete \<and> length bytes \<le> Disk_room d \<and>
     d' = d\<lparr>Disk_files := put path bytes (Disk_files d)\<rparr>"
  by (auto simp: WriteFile_def)

lemma WriteFile_no_panic: "WriteFile path input d \<noteq> (Panic, d')"
  by (simp add: WriteFile_def split: prod.splits)

lemma WritePreviews_Ok:
  assumes "WritePreviews m p pv d = (Ok preload, d')"
  shows "preload = GetWebpPreload (Previews_Preload pv)"
    and "d' = d\<lparr>Disk_files := put (GetPreviewPath m p ''thumbnail'') (Previews_Thumb pv)
      (put (GetPreviewPath m p ''display'') (Previews_Display pv) (Disk_files d))\<rparr>"
  using assms
  by (auto simp: WritePreviews_def WriteFile_Ok split: prod.splits go_result.splits)

section \<open>Uploading\<close>

lemma attachment_previews_none:
  "attachment_previews tools ap d att = (None, att') \<Longrightarrow>
     Attachment_Type att' = AttachmentTypeFile \<and> Attachment_ID att' = Attachment_ID att \<and>
     Attachment_Size att' = Attachment_Size att \<and> Attachment_Filename att' = Attachment_Filename att \<and>
     Attachment_MimeType att' = Attachment_MimeType att"
  by (auto simp: attachment_previews_def Let_def split: if_splits option.splits)

lemma attachment_previews_some:
  "attachment_previews tools ap d att = (Some pv, att') \<Longrightarrow>
     att' = att\<lparr>Attachment_Width := Previews_Width pv, Attachment_Height := Previews_Height pv\<rparr>"
  by (auto simp: attachment_previews_def Let_def split: if_splits option.splits)

lemma UploadAttachment_Ok:
  assumes "UploadAttachment tools detect ap m a name (bytes, complete) d = (Ok att, d')"
  obtains
    (plain) "complete" "Attachment_Type att = AttachmentTypeFile"
      "d' = d\<lparr>Disk_files := put (GetAttachmentPath m a) bytes (Disk_files d)\<rparr>"
      "Attachment_ID att = a" "Attachment_Filename att = name" "Attachment_Size att = int (length bytes)"
  | (previews) pv :: Previews where "complete"
      "d' = d\<lparr>Disk_files := put (GetPreviewPath m a ''thumbnail'') (Previews_Thumb pv)
        (put (GetPreviewPath m a ''display'') (Previews_Display pv)
          (put (GetAttachmentPath m a) bytes (Disk_files d)))\<rparr>"
      "Attachment_ID att = a" "Attachment_Filename att = name" "Attachment_Size att = int (length bytes)"
proof -
  let ?d = "d\<lparr>Disk_files := put (GetAttachmentPath m a) bytes (Disk_files d)\<rparr>"
  have written: "WriteFile (GetAttachmentPath m a) (bytes, complete) d = (Ok (), ?d)" and c: "complete"
    using assms by (auto simp: UploadAttachment_def WriteFile_def Let_def split: if_splits)
  let ?att = "\<lparr>Attachment_ID = a, Attachment_Filename = name,
      Attachment_Type = attachment_type (detect bytes),
      Attachment_MimeType = (if detect bytes = [] then ''application/octet-stream'' else detect bytes),
      Attachment_Size = int (length bytes), Attachment_Preload = [],
      Attachment_Width = 0, Attachment_Height = 0\<rparr>"
  have read: "ReadFile (GetAttachmentPath m a) ?d = Ok bytes" by (simp add: ReadFile_def)
  obtain pvo att' where pv: "attachment_previews tools (ap (GetAttachmentPath m a)) ?d ?att = (pvo, att')"
    by (metis surj_pair)
  show ?thesis
  proof (cases pvo)
    case None
    with assms pv have "att = att'" "d' = ?d"
      by (simp_all add: UploadAttachment_def Let_def written read)
    with attachment_previews_none [OF pv [unfolded None]] c show ?thesis by (intro plain) simp_all
  next
    case (Some pv')
    from assms pv obtain preload where "WritePreviews m a pv' ?d = (Ok preload, d')"
      and "att = att'\<lparr>Attachment_Preload := preload\<rparr>"
      by (simp add: UploadAttachment_def Let_def written read Some split: prod.splits go_result.splits)
    with WritePreviews_Ok [of m a pv' ?d preload d'] attachment_previews_some [OF pv [unfolded Some]] c
    show ?thesis by (intro previews [of pv']) simp_all
  qed
qed

lemma UploadAttachment_failed_copy:
  assumes "Disk_creates d (GetAttachmentPath m a)" and "\<not> complete \<or> Disk_room d < length bytes"
  shows "UploadAttachment tools detect ap m a name (bytes, complete) d =
    (Err Uncoded, d\<lparr>Disk_files := RemoveAll (''attachments/'' @ FormatInt m)
       (del (GetAttachmentPath m a) (Disk_files d))\<rparr>)"
  using assms by (auto simp: UploadAttachment_def WriteFile_def dir_of_attachment Let_def)

section \<open>Properties\<close>

text \<open>C35: An attachment that the upload accepts was read to its end, keeps its id, name and size,
  and is read back byte for byte; the attachments under every other message or id, and all avatars,
  are what they were.\<close>

theorem uploaded_attachment_read_back:
  assumes "UploadAttachment tools detect abs_path m a name (bytes, complete) d = (Ok att, d')"
  shows "complete \<and> ReadAttachment m a d' = Ok bytes \<and>
    Attachment_ID att = a \<and> Attachment_Filename att = name \<and> Attachment_Size att = int (length bytes) \<and>
    (\<forall>m' a'. (m', a') \<noteq> (m, a) \<longrightarrow> ReadAttachment m' a' d' = ReadAttachment m' a' d) \<and>
    (\<forall>u t v. GetAvatar u t v d' = GetAvatar u t v d)"
  using assms
  by (rule UploadAttachment_Ok)
    (auto simp: ReadAttachment_def ReadFile_def GetAvatar_def GetFile_def split: option.split if_splits)

definition example_disk :: Disk where
  "example_disk = \<lparr>Disk_files = [], Disk_creates = (\<lambda>_. True), Disk_room = 100,
     Disk_modified = (\<lambda>_. 0)\<rparr>"

definition example_tools :: Toolbox where
  "example_tools = \<lparr>Tool_found = (\<lambda>_. True), Tool_nobody = Some (''65534'', ''65534''),
     Tool_pwd = ''/srv'', Tool_run = (\<lambda>_ _ _. None)\<rparr>"

theorem uploaded_attachment_read_back_witness:
  "ReadAttachment 1 2 (snd (UploadAttachment example_tools (\<lambda>_. ''text/plain'') (\<lambda>p. Some p) 1 2
     ''notes.txt'' (''hello'', True) example_disk)) = Ok ''hello''"
proof -
  obtain att d' where *: "UploadAttachment example_tools (\<lambda>_. ''text/plain'') (\<lambda>p. Some p) 1 2
     ''notes.txt'' (''hello'', True) example_disk = (Ok att, d')"
    by (simp add: UploadAttachment_def WriteFile_def ReadFile_def example_disk_def attachment_type_def
        SupportedImageTypes_def SupportedVideoTypes_def attachment_previews_def AttachmentTypeFile_def
        AttachmentTypeImage_def AttachmentTypeVideo_def Let_def)
  show ?thesis using uploaded_attachment_read_back [OF *] by (simp add: *)
qed

text \<open>C36: When copying an upload fails, because the body breaks off or the disk is full, the error
  is reported and no attachment of the message is left, those stored before included; the
  attachments of other messages and all previews are untouched.\<close>

theorem failed_upload_loses_message_folder:
  assumes "Disk_creates d (GetAttachmentPath m a)" and "\<not> complete \<or> Disk_room d < length bytes"
  shows "\<exists>d'. UploadAttachment tools detect abs_path m a name (bytes, complete) d = (Err Uncoded, d') \<and>
    (\<forall>m' a'. ReadAttachment m' a' d' = (if m' = m then Err ErrFileNotFound else ReadAttachment m' a' d)) \<and>
    (\<forall>m' p v. GetPreview m' p v d' = GetPreview m' p v d)"
  using UploadAttachment_failed_copy [OF assms, of tools detect abs_path name]
  by (intro exI conjI, assumption)
    (simp_all add: ReadAttachment_def ReadFile_def GetPreview_def GetFile_def get_folder_removed
      del: append.simps split: option.split)

theorem failed_upload_loses_message_folder_witness:
  "\<exists>d'. UploadAttachment example_tools (\<lambda>_. ''text/plain'') (\<lambda>p. Some p) 1 3 ''b.txt'' (''hel'', False)
      (snd (UploadAttachment example_tools (\<lambda>_. ''text/plain'') (\<lambda>p. Some p) 1 2 ''notes.txt''
        (''hello'', True) example_disk)) = (Err Uncoded, d') \<and>
    ReadAttachment 1 2 d' = Err ErrFileNotFound"
proof -
  let ?d = "snd (UploadAttachment example_tools (\<lambda>_. ''text/plain'') (\<lambda>p. Some p) 1 2 ''notes.txt''
        (''hello'', True) example_disk)"
  have "Disk_creates ?d (GetAttachmentPath 1 3)"
    by (simp add: UploadAttachment_def WriteFile_def ReadFile_def example_disk_def attachment_type_def
        SupportedImageTypes_def SupportedVideoTypes_def attachment_previews_def AttachmentTypeFile_def
        AttachmentTypeImage_def AttachmentTypeVideo_def Let_def)
  from failed_upload_loses_message_folder [OF this, of False "''hel''" example_tools "\<lambda>_. ''text/plain''"
      "\<lambda>p. Some p" "''b.txt''"]
  show ?thesis by auto
qed

text \<open>Where the jail is installed, previews and avatars are the same as if every \<^verbatim>\<open>ffmpeg\<close> outside
  the jail failed: the server runs it inside the jail only.\<close>

theorem previews_made_in_jail:
  assumes "Tool_found tools ''nsjail''"
  shows "CreatePreviews tools = CreatePreviews (jailed tools) \<and>
    CreateAnimatedPreview tools = CreateAnimatedPreview (jailed tools) \<and>
    CreateAvatar tools = CreateAvatar (jailed tools)"
  using jailed_run [OF assms]
  by (simp add: CreatePreviews_def CreateAnimatedPreview_def CreateAvatar_def GetOriginal_def
      GetDimensions_def fun_eq_iff)

theorem previews_made_in_jail_witness:
  "Tool_found example_tools ''nsjail'' \<and>
   CreateAvatar example_tools = CreateAvatar (jailed example_tools)"
proof -
  have *: "Tool_found example_tools ''nsjail''" by (simp add: example_tools_def)
  with previews_made_in_jail [OF *] show ?thesis by simp
qed

end
