(* ===== verification/Embed_Properties.thy ===== *)
theory Embed_Properties
  imports Embed_Previews Text_Properties Files_Properties Process
begin

text \<open>
  What an embed can be: one picture at most, whose previews are stored, and texts of a bounded
  length; and the two kinds of link that stop the server.
\<close>

section \<open>Pictures\<close>

text \<open>The previews of a medium are in the data folder, and it has their size and preload.\<close>

definition shows_previews :: "snowflake \<Rightarrow> EmbedMedia \<Rightarrow> Fetcher \<Rightarrow> bool" where
  "shows_previews messageID m s \<longleftrightarrow> (\<exists>pv :: Previews.
     ReadFile (GetPreviewPath messageID (EmbedMedia_ID m) ''display'') (Fetch_disk s) =
       Ok (Previews_Display pv) \<and>
     ReadFile (GetPreviewPath messageID (EmbedMedia_ID m) ''thumbnail'') (Fetch_disk s) =
       Ok (Previews_Thumb pv) \<and>
     EmbedMedia_Width m = Previews_Width pv \<and> EmbedMedia_Height m = Previews_Height pv \<and>
     EmbedMedia_Preload m = GetWebpPreload (Previews_Preload pv))"

lemma store_previews_Ok:
  assumes "store_previews messageID k previews s = (Ok r, s')" and "EmbedMedia_ID m = k"
  shows "shows_previews messageID (with_preview r m) s'"
proof -
  from assms(1) obtain pv preload d where w: "WritePreviews messageID k pv (Fetch_disk s) = (Ok preload, d)"
    and r: "r = preview_result pv preload" "s' = s\<lparr>Fetch_disk := d\<rparr>"
    by (auto simp: store_previews_def split: option.splits prod.splits go_result.splits)
  from WritePreviews_Ok [OF w] r assms(2) show ?thesis
    by (auto simp: shows_previews_def ReadFile_def with_preview_def preview_result_def)
qed

lemma GetImagePreviews_Ok:
  "GetImagePreviews W messageID k url s = (Ok r, s') \<Longrightarrow> EmbedMedia_ID m = k \<Longrightarrow>
     shows_previews messageID (with_preview r m) s'"
  unfolding GetImagePreviews_def Let_def by (elim and_then_OkE) (rule store_previews_Ok)

lemma GetVideoPreviews_Ok:
  "GetVideoPreviews W messageID k url ty len s = (Ok r, s') \<Longrightarrow> EmbedMedia_ID m = k \<Longrightarrow>
     shows_previews messageID (with_preview r m) s'"
  unfolding GetVideoPreviews_def Let_def
  by (elim and_then_OkE) (auto split: option.splits prod.splits intro: store_previews_Ok)

lemma preview_medium_Some:
  assumes "preview_medium E attempt medium s = (Some m, s')"
    and "\<And>k s r s' m. attempt k s = (Ok r, s') \<Longrightarrow> EmbedMedia_ID m = k \<Longrightarrow>
      shows_previews messageID (with_preview r m) s'"
  shows "shows_previews messageID m s' \<and> (\<exists>m0. medium = Some m0 \<and> EmbedMedia_URL m = EmbedMedia_URL m0)"
  using assms(1)
  by (auto simp: preview_medium_def Let_def with_preview_def new_id_def split: option.splits prod.splits
      go_result.splits intro: assms(2) [unfolded with_preview_def])

lemma preview_medium_None [simp]: "preview_medium E attempt None s = (None, s)"
  by (simp add: preview_medium_def)

definition pictures :: "Embed \<Rightarrow> EmbedMedia list" where
  "pictures emb = List.map_filter (\<lambda>m. m) [Embed_Video emb, Embed_Image emb, Embed_Thumbnail emb]"

lemma pictures_simps:
  "pictures emb = (case Embed_Video emb of None \<Rightarrow> [] | Some m \<Rightarrow> [m]) @
     (case Embed_Image emb of None \<Rightarrow> [] | Some m \<Rightarrow> [m]) @
     (case Embed_Thumbnail emb of None \<Rightarrow> [] | Some m \<Rightarrow> [m])"
  by (simp add: pictures_def List.map_filter_def split: option.split)

text \<open>A finished embed: no picture, or one with its previews.\<close>

definition finished :: "snowflake \<Rightarrow> Embed \<Rightarrow> Fetcher \<Rightarrow> bool" where
  "finished messageID emb s \<longleftrightarrow>
     pictures emb = [] \<or> (\<exists>m. pictures emb = [m] \<and> shows_previews messageID m s)"

lemma video_step_result:
  assumes "video_step E W messageID info emb s = (emb', s')"
  shows "Embed_Video emb' = None \<or>
    Embed_Image emb' = None \<and> Embed_Thumbnail emb' = None \<and> finished messageID emb' s'"
proof -
  from assms obtain url m where p: "preview_medium E (\<lambda>k. GetVideoPreviews W messageID k url
      (Info_Type info) (Info_Length info)) (Embed_Video emb) s = (m, s')"
    and emb': "emb' = (case m of
        Some m \<Rightarrow> emb\<lparr>Embed_Video := Some m, Embed_Image := None, Embed_Thumbnail := None\<rparr>
      | None \<Rightarrow> emb\<lparr>Embed_Video := None\<rparr>)"
    by (simp add: video_step_def Let_def split: prod.splits option.splits)
  show ?thesis
  proof (cases m)
    case (Some x)
    from preview_medium_Some [OF p [unfolded Some], of messageID] GetVideoPreviews_Ok
    have "shows_previews messageID x s'" by blast
    with emb' Some show ?thesis by (simp add: finished_def pictures_simps)
  qed (simp add: emb')
qed

lemma image_step_result:
  assumes "image_step E W messageID emb s = (emb', s')"
    and "Embed_Video emb = None \<or>
      Embed_Image emb = None \<and> Embed_Thumbnail emb = None \<and> finished messageID emb s"
  shows "Embed_Video emb' = None \<and> Embed_Image emb' = None \<or>
    Embed_Thumbnail emb' = None \<and> finished messageID emb' s'"
proof -
  from assms(1) obtain url m where p: "preview_medium E (\<lambda>k. GetImagePreviews W messageID k url)
      (Embed_Image emb) s = (m, s')"
    and emb': "emb' = (case m of
        Some m \<Rightarrow> emb\<lparr>Embed_Image := Some m, Embed_Video := None, Embed_Thumbnail := None\<rparr>
      | None \<Rightarrow> emb\<lparr>Embed_Image := None\<rparr>)"
    by (simp add: image_step_def Let_def split: prod.splits option.splits)
  show ?thesis
  proof (cases m)
    case (Some x)
    from preview_medium_Some [OF p [unfolded Some], of messageID] GetImagePreviews_Ok
    have "shows_previews messageID x s'" by blast
    with emb' Some show ?thesis by (simp add: finished_def pictures_simps)
  next
    case None
    with p emb' assms(2) show ?thesis by (auto simp: finished_def pictures_simps)
  qed
qed

lemma thumbnail_step_result:
  assumes "thumbnail_step E W messageID emb s = (emb', s')"
    and "Embed_Video emb = None \<and> Embed_Image emb = None \<or>
      Embed_Thumbnail emb = None \<and> finished messageID emb s"
  shows "finished messageID emb' s'"
proof -
  from assms(1) obtain url m where p: "preview_medium E (\<lambda>k. GetImagePreviews W messageID k url)
      (Embed_Thumbnail emb) s = (m, s')"
    and emb': "emb' = (case m of
        Some m \<Rightarrow> emb\<lparr>Embed_Thumbnail := Some m, Embed_Video := None, Embed_Image := None\<rparr>
      | None \<Rightarrow> emb\<lparr>Embed_Thumbnail := None\<rparr>)"
    by (simp add: thumbnail_step_def Let_def split: prod.splits option.splits)
  show ?thesis
  proof (cases m)
    case (Some x)
    from preview_medium_Some [OF p [unfolded Some], of messageID] GetImagePreviews_Ok
    have "shows_previews messageID x s'" by blast
    with emb' Some show ?thesis by (simp add: finished_def pictures_simps)
  next
    case None
    with p emb' assms(2) show ?thesis by (auto simp: finished_def pictures_simps)
  qed
qed

text \<open>The steps of \<^verbatim>\<open>GetEmbedFromURL\<close> that return an embed.\<close>

lemma GetEmbedFromURL_Ok:
  assumes "GetEmbedFromURL E W messageID url s = (Ok emb, s')"
  obtains info emb0 s0 emb1 s1 emb2 s2 emb3 where
    "video_step E W messageID info emb0 s0 = (emb1, s1)"
    "image_step E W messageID emb1 s1 = (emb2, s2)"
    "thumbnail_step E W messageID emb2 s2 = (emb3, s')"
    "emb = limit_texts (Web_is_punct W) emb3"
  using assms unfolding GetEmbedFromURL_def
  by (elim and_then_OkE) (auto split: if_splits prod.splits elim!: and_then_OkE)

lemma pictures_limit_texts [simp]: "pictures (limit_texts p emb) = pictures emb"
  by (simp add: limit_texts_def pictures_simps Let_def)

section \<open>Texts\<close>

lemma TruncateText_bound:
  assumes "0 < len" and "len \<le> MaxInt64"
  shows "int (length (runes (TruncateText p t len brk))) \<le> len + 3"
proof (cases "int (length (runes t)) \<le> len")
  case True
  with assms show ?thesis by (simp add: TruncateText_def)
next
  case False
  define cut where "cut = (if brk then len else boundary_loop p (runes t) len len len)"
  have "cut \<le> len" using boundary_loop_range [of len len p "runes t"] assms by (auto simp: cut_def)
  moreover have "runes (TruncateText p t len brk) = take (nat cut) (runes t) @ [46, 46, 46]"
    using False assms by (simp add: TruncateText_def Let_def cut_def [symmetric] runes_cut)
  ultimately show ?thesis using assms(1) by simp
qed

lemma truncate_nonempty_bound:
  "0 < len \<Longrightarrow> len \<le> MaxInt64 \<Longrightarrow> int (length (runes (truncate_nonempty p len brk t))) \<le> len + 3"
  using TruncateText_bound [of len p t brk]
  by (simp add: truncate_nonempty_def runes_def bytes_of_def runes_of.simps [of "[]"])

lemma limit_texts_fields:
  "Embed_Title (limit_texts p emb) = truncate_nonempty p MaxTitleLength True (Embed_Title emb)"
  "\<exists>t. Embed_Description (limit_texts p emb) = truncate_nonempty p MaxDescriptionLength False t"
  "Embed_Provider (limit_texts p emb) = Some x \<Longrightarrow> \<exists>t. EmbedProvider_Name x = truncate_nonempty p MaxNameLength True t"
  "Embed_Author (limit_texts p emb) = Some a \<Longrightarrow> \<exists>t. EmbedAuthor_Name a = truncate_nonempty p MaxNameLength True t"
proof -
  have e: "limit_texts p emb = (let d = (if useless_description emb then [] else Embed_Description emb) in
    emb\<lparr>Embed_Description := truncate_nonempty p MaxDescriptionLength False d,
      Embed_Author := map_option (\<lambda>a. a\<lparr>EmbedAuthor_Name :=
        truncate_nonempty p MaxNameLength True (EmbedAuthor_Name a)\<rparr>) (Embed_Author emb),
      Embed_Provider := map_option (\<lambda>x. x\<lparr>EmbedProvider_Name :=
        truncate_nonempty p MaxNameLength True (EmbedProvider_Name x)\<rparr>) (Embed_Provider emb),
      Embed_Title := truncate_nonempty p MaxTitleLength True (Embed_Title emb),
      Embed_Footer := map_option (\<lambda>f. f\<lparr>EmbedFooter_Text :=
        truncate_nonempty p MaxTitleLength True (EmbedFooter_Text f)\<rparr>) (Embed_Footer emb)\<rparr>)"
    by (simp add: limit_texts_def Let_def)
  show "Embed_Title (limit_texts p emb) = truncate_nonempty p MaxTitleLength True (Embed_Title emb)"
    by (simp add: e Let_def)
  show "\<exists>t. Embed_Description (limit_texts p emb) = truncate_nonempty p MaxDescriptionLength False t"
    unfolding e Let_def by simp blast
  show "Embed_Provider (limit_texts p emb) = Some x \<Longrightarrow>
      \<exists>t. EmbedProvider_Name x = truncate_nonempty p MaxNameLength True t"
    unfolding e Let_def by auto
  show "Embed_Author (limit_texts p emb) = Some a \<Longrightarrow>
      \<exists>t. EmbedAuthor_Name a = truncate_nonempty p MaxNameLength True t"
    unfolding e Let_def by auto
qed

section \<open>Panics\<close>

fun has_empty_title :: "html_node \<Rightarrow> bool" where
  "has_empty_title (Html_node el tag attrs children) \<longleftrightarrow>
     el \<and> tag = ''title'' \<and> children = [] \<or> list_ex has_empty_title children"

lemma traverse_panics:
  "(traverse n p = None) = has_empty_title n"
  "(traverse_children ns p = None) = list_ex has_empty_title ns"
proof (induction n p and ns p rule: traverse_traverse_children.induct)
  case (1 el tag attrs children p)
  show ?case
  proof (cases "el \<and> tag = ''title'' \<and> children = []")
    case True
    then show ?thesis by simp
  next
    case False
    then obtain q where q: "(if el \<and> tag = ''title''
        then (case children of [] \<Rightarrow> None | c # _ \<Rightarrow> Some (set_tag ''title'' (Html_data c) p))
        else Some p) = Some q" by (cases children; cases "el \<and> tag = ''title''") simp_all
    from False have "has_empty_title (Html_node el tag attrs children) = list_ex has_empty_title children"
      by simp blast
    then show ?thesis unfolding traverse.simps q option.case Let_def
      by (simp only: 1 [OF q refl refl])
  qed
next
  case (3 c cs p)
  then show ?case by (auto split: option.split)
qed simp

lemma GetEmbedFromURL_panic:
  assumes "GetContentInfo W url s = (Ok info, s1)" and "Info_Length info \<le> MaxContentLength"
  shows "fst (GetEmbedFromURL E W messageID url s) = Panic \<longleftrightarrow> fst (plain_embed W info s1) = Panic"
  using assms
  by (cases "plain_embed W info s1"; cases "fst (plain_embed W info s1)")
    (simp_all add: GetEmbedFromURL_def case_prod_beta)

lemma MakeRequest_no_panic: "fst (MakeRequest W verb url s) \<noteq> Panic"
  by (simp add: MakeRequest_def split: option.split)

lemma GetContentString_no_panic: "fst (GetContentString W url s) \<noteq> Panic"
  using MakeRequest_no_panic [of W "''GET''" url s]
  by (cases "MakeRequest W ''GET'' url s"; cases "fst (MakeRequest W ''GET'' url s)")
    (auto simp: GetContentString_def)

lemma GetRichEmbed_panic:
  "fst (GetRichEmbed W info s) = Panic \<longleftrightarrow> (\<exists>content s' node.
     GetContentString W (Info_URL info) s = (Ok content, s') \<and> Web_parse_html W content = Some node \<and>
     has_empty_title node)"
proof (cases "GetContentString W (Info_URL info) s")
  case (Pair r s')
  have e: "has_empty_title n \<longleftrightarrow> traverse n \<lparr>Page_metaTags = [], Page_oembedURLs = []\<rparr> = None" for n
    by (simp add: traverse_panics)
  show ?thesis
    using GetContentString_no_panic [of W "Info_URL info" s] Pair
    by (cases r) (auto simp: GetRichEmbed_def e case_prod_beta split: option.splits)
qed

section \<open>Properties\<close>

text \<open>C33: An embed that is fetched has no picture or a single one, either the video, the image or
  the thumbnail, and the previews of that one are in the data folder under its id, with the size and
  the preload that it carries.\<close>

theorem embed_shows_one_picture:
  assumes "GetEmbedFromURL E W messageID url s = (Ok emb, s')"
  shows "pictures emb = [] \<or> (\<exists>m. pictures emb = [m] \<and> shows_previews messageID m s')"
proof -
  obtain info emb0 s0 emb1 s1 emb2 s2 emb3 where steps:
    "video_step E W messageID info emb0 s0 = (emb1, s1)"
    "image_step E W messageID emb1 s1 = (emb2, s2)"
    "thumbnail_step E W messageID emb2 s2 = (emb3, s')"
    "emb = limit_texts (Web_is_punct W) emb3"
    using GetEmbedFromURL_Ok [OF assms] .
  have "finished messageID emb3 s'"
    by (rule thumbnail_step_result [OF steps(3) image_step_result [OF steps(2)
        video_step_result [OF steps(1)]]])
  with steps(4) show ?thesis by (simp add: finished_def)
qed

text \<open>The texts of an embed are bounded in runes, the dots included: 73 for the title, 353 for
  the description, 53 for the names of the provider and the author.\<close>

theorem embed_texts_bounded:
  assumes "GetEmbedFromURL E W messageID url s = (Ok emb, s')"
  shows "length (runes (Embed_Title emb)) \<le> 73 \<and> length (runes (Embed_Description emb)) \<le> 353 \<and>
    (\<forall>p. Embed_Provider emb = Some p \<longrightarrow> length (runes (EmbedProvider_Name p)) \<le> 53) \<and>
    (\<forall>a. Embed_Author emb = Some a \<longrightarrow> length (runes (EmbedAuthor_Name a)) \<le> 53)"
proof -
  obtain emb3 where emb: "emb = limit_texts (Web_is_punct W) emb3" using GetEmbedFromURL_Ok [OF assms] .
  have "length (runes (truncate_nonempty p 70 brk t)) \<le> 73"
    "length (runes (truncate_nonempty p 350 brk t)) \<le> 353"
    "length (runes (truncate_nonempty p 50 brk t)) \<le> 53" for p brk t
    using truncate_nonempty_bound [of 70 p brk t] truncate_nonempty_bound [of 350 p brk t]
      truncate_nonempty_bound [of 50 p brk t] by (simp_all add: MaxInt64_def)
  then show ?thesis
    using limit_texts_fields [of "Web_is_punct W" emb3] unfolding emb
    by (metis MaxTitleLength_def MaxDescriptionLength_def MaxNameLength_def)
qed

text \<open>C34: A link whose type and length the other server tells panics if and only if it is no page, no
  supported image and no supported video, or a page with an empty title element. No other page
  panics, however it is nested.\<close>

theorem embed_panics_exactly:
  assumes "GetContentInfo W url s = (Ok info, s1)" and "Info_Length info \<le> MaxContentLength"
  shows "fst (GetEmbedFromURL E W messageID url s) = Panic \<longleftrightarrow>
    (if Info_Type info = ''text/html''
     then \<exists>content s2 node. GetContentString W (Info_URL info) s1 = (Ok content, s2) \<and>
       Web_parse_html W content = Some node \<and> has_empty_title node
     else Info_Type info \<notin> set SupportedImageTypes \<union> set SupportedVideoTypes)"
  using GetEmbedFromURL_panic [OF assms, of E messageID] GetRichEmbed_panic [of W info s1]
  by (simp add: plain_embed_def)

text \<open>A panic while an embed is fetched stops the server, whatever was stored before: it is not
  caught in the goroutine that embeds the links of a message, whose transaction stays open.\<close>

theorem embed_panic_stops_server:
  assumes "get_embed messageID url = Panic"
  shows "W_panicked (TryEmbedURLs E get_embed messageID (url # urls) cid w) = W_panicked w @ [cid] \<and>
    W_leaked (TryEmbedURLs E get_embed messageID (url # urls) cid w) = Suc (W_leaked w) \<and>
    W_db (TryEmbedURLs E get_embed messageID (url # urls) cid w) = W_db w"
  using assms by (simp add: TryEmbedURLs_def panic_tx_def panic_def leak_tx_def)

section \<open>An example\<close>

definition example_web :: "string \<Rightarrow> html_node \<Rightarrow> Web" where
  "example_web ty page = \<lparr>
     Web_net = (\<lambda>_ _ _ _. Some \<lparr>Resp_StatusCode = 200,
       Resp_Header = (\<lambda>k. if k = ''Content-Type'' then ty else []), Resp_ContentLength = 1,
       Resp_Body = [''x''], Resp_complete = True\<rparr>),
     Web_url_parts = (\<lambda>_. Some (''https'', ''example.org'')), Web_url_path = (\<lambda>_. Some ''/a''),
     Web_media_type = (\<lambda>h. Some (h, [])), Web_parse_html = (\<lambda>_. Some page),
     Web_parse_json = (\<lambda>_. None), Web_md5 = (\<lambda>_. ''h''), Web_is_punct = (\<lambda>_. False),
     Web_tools = \<lparr>Tool_found = (\<lambda>_. False), Tool_nobody = None, Tool_pwd = [],
       Tool_run = (\<lambda>_ cmd _. Some (if hd cmd = ''ffprobe'' then ''2'' @ [CHR 0x0A] @ ''1'' else ''w''))\<rparr>,
     Web_reads = (\<lambda>_. 9)\<rparr>"

definition example_page :: html_node where
  "example_page = Html_node False [] [] []"

definition example_fetcher :: Fetcher where
  "example_fetcher = \<lparr>Fetch_tick = 0, Fetch_disk = example_disk,
     Fetch_cache = (\<lambda>_. \<lparr>Entry_data = None, Entry_meta = NoMeta, Entry_data_opens = True,
       Entry_meta_opens = True, Entry_limit = 99\<rparr>)\<rparr>"

lemma example_info:
  "GetContentInfo (example_web ty page) url example_fetcher =
     (Ok \<lparr>Info_Type = ty, Info_Length = 0, Info_Filename = [], Info_URL = url\<rparr>,
      fetch_tick example_fetcher)"
  by (simp add: GetContentInfo_def MakeRequest_def example_web_def CheckURL_def content_type_def
      content_filename_def path_Base_def)

lemma example_previews:
  "CreatePreviews (Web_tools (example_web ty page)) files stream [] =
     Some \<lparr>Previews_Width = 2, Previews_Height = 1, Previews_Display = ''w'', Previews_Thumb = ''w'',
       Previews_Preload = ''w''\<rparr>"
proof -
  let ?t = "Web_tools (example_web ty page)"
  have "runFFmpegOnStream ?t files args x = Some ''w''" for args x
    by (simp add: runFFmpegOnStream_def example_web_def)
  moreover have "GetDimensions ?t files ''w'' = Some (2, 1)"
  proof -
    have "scan_dimensions (''2'' @ [CHR 0x0A] @ ''1'') = Some (2, 1)" by code_simp
    then show ?thesis by (simp add: GetDimensions_def runFFprobeOnStream_def example_web_def)
  qed
  ultimately show ?thesis by (simp add: CreatePreviews_def GetOriginal_def)
qed

lemma example_image:
  obtains emb s' where "GetEmbedFromURL env0 (example_web ''image/png'' page) 1
      ''https://example.org/a'' example_fetcher = (Ok emb, s')" and "pictures emb \<noteq> []"
proof -
  let ?W = "example_web ''image/png'' page"
  let ?info = "\<lparr>Info_Type = ''image/png'', Info_Length = 0, Info_Filename = [],
    Info_URL = ''https://example.org/a''\<rparr>"
  let ?emb = "GetImageEmbed ?info"
  let ?s = "fetch_tick example_fetcher"
  have plain: "plain_embed ?W ?info ?s = (Ok ?emb, ?s)"
    by (simp add: plain_embed_def SupportedImageTypes_def)
  have video: "video_step env0 ?W 1 ?info ?emb ?s = (?emb, ?s)"
    by (simp add: video_step_def Let_def GetImageEmbed_def Embed_of_type_def)
  have image: "\<exists>m s'. preview_medium env0 (\<lambda>k. GetImagePreviews ?W 1 k ''https://example.org/a'')
      (Embed_Image ?emb) ?s = (Some m, s')"
  proof -
    have "\<exists>resp s'. MakeRequest ?W ''GET'' url (fetch_tick ?s) = (Ok resp, s') \<and>
        Fetch_disk s' = example_disk" for url
      by (simp add: MakeRequest_def example_web_def CheckURL_def fetch_tick_def example_fetcher_def)
    then obtain resp s' where r: "MakeRequest ?W ''GET'' ''https://example.org/a'' (fetch_tick ?s) = (Ok resp, s')"
      and d: "Fetch_disk s' = example_disk" by blast
    have "\<exists>r s''. store_previews 1 k (Some \<lparr>Previews_Width = 2, Previews_Height = 1, Previews_Display = ''w'',
        Previews_Thumb = ''w'', Previews_Preload = ''w''\<rparr>) s' = (Ok r, s'')" for k
      by (simp add: store_previews_def WritePreviews_def WriteFile_def d example_disk_def)
    from this [of "Env_generate env0 (Fetch_tick ?s)"] obtain r s'' where "GetImagePreviews ?W 1 (Env_generate env0 (Fetch_tick ?s))
        ''https://example.org/a'' (fetch_tick ?s) = (Ok r, s'')"
      by (auto simp: GetImagePreviews_def GetContent_def r example_previews)
    then show ?thesis
      by (simp add: preview_medium_def GetImageEmbed_def EmbedMedia_of_def Embed_of_type_def new_id_def)
  qed
  then obtain m s1 where m: "image_step env0 ?W 1 ?emb ?s = (?emb\<lparr>Embed_Image := Some m,
      Embed_Video := None, Embed_Thumbnail := None\<rparr>, s1)"
    by (auto simp: image_step_def GetImageEmbed_def Embed_of_type_def EmbedMedia_of_def)
  have "GetEmbedFromURL env0 ?W 1 ''https://example.org/a'' example_fetcher =
      (Ok (limit_texts (Web_is_punct ?W) (?emb\<lparr>Embed_Image := Some m, Embed_Video := None,
        Embed_Thumbnail := None\<rparr>)), s1)"
    by (simp add: GetEmbedFromURL_def example_info MaxContentLength_def plain video m thumbnail_step_def)
  then show ?thesis by (rule that) (simp only: pictures_limit_texts, simp add: pictures_simps)
qed

theorem embed_shows_one_picture_witness:
  "\<exists>emb s' m. GetEmbedFromURL env0 (example_web ''image/png'' example_page) 1 ''https://example.org/a''
     example_fetcher = (Ok emb, s') \<and> pictures emb = [m] \<and> shows_previews 1 m s'"
proof -
  obtain emb s' where *: "GetEmbedFromURL env0 (example_web ''image/png'' example_page) 1
      ''https://example.org/a'' example_fetcher = (Ok emb, s')" "pictures emb \<noteq> []"
    by (rule example_image)
  from embed_shows_one_picture [OF *(1)] * show ?thesis by blast
qed

theorem embed_texts_bounded_witness:
  "\<exists>emb s'. GetEmbedFromURL env0 (example_web ''image/png'' example_page) 1 ''https://example.org/a''
     example_fetcher = (Ok emb, s') \<and> length (runes (Embed_Title emb)) \<le> 73"
proof -
  obtain emb s' where *: "GetEmbedFromURL env0 (example_web ''image/png'' example_page) 1
      ''https://example.org/a'' example_fetcher = (Ok emb, s')" by (rule example_image)
  from embed_texts_bounded [OF *] * show ?thesis by blast
qed

theorem embed_panics_exactly_witness:
  "fst (GetEmbedFromURL env0 (example_web ''application/pdf'' example_page) 1 ''https://example.org/a''
     example_fetcher) = Panic \<and>
   fst (GetEmbedFromURL env0 (example_web ''text/html'' (Html_node False [] [] [Html_node True ''title'' [] []]))
     1 ''https://example.org/a'' example_fetcher) = Panic"
proof -
  let ?page = "Html_node False [] [] [Html_node True ''title'' [] []]" and ?url = "''https://example.org/a''"
  have "GetContentString (example_web ''text/html'' ?page) ?url (fetch_tick example_fetcher) =
      (Ok ''x'', fetch_tick (fetch_tick example_fetcher))"
    by (simp add: GetContentString_def MakeRequest_def example_web_def CheckURL_def)
  then show ?thesis
    using embed_panics_exactly [OF example_info [of "''application/pdf''" example_page "?url"], of env0 1]
      embed_panics_exactly [OF example_info [of "''text/html''" "?page" "?url"], of env0 1]
    by (simp add: MaxContentLength_def SupportedImageTypes_def SupportedVideoTypes_def)
      (simp add: example_web_def)
qed

theorem embed_panic_stops_server_witness:
  "W_panicked (TryEmbedURLs env0 (\<lambda>m url. map_go_result Some (fst (GetEmbedFromURL env0
      (example_web ''application/pdf'' example_page) m url example_fetcher))) 1 [''https://example.org/a''] 0
      (initial_world Database_empty 0 0)) = [0]"
proof -
  have "fst (GetEmbedFromURL env0 (example_web ''application/pdf'' example_page) m url example_fetcher) = Panic"
    for m url
    by (simp add: GetEmbedFromURL_def example_info plain_embed_def MaxContentLength_def
        SupportedImageTypes_def SupportedVideoTypes_def)
  then show ?thesis
    by (subst embed_panic_stops_server) (simp_all add: initial_world_def)
qed

end
