(* ===== verification/Limiter.thy ===== *)
theory Limiter
  imports Prelude
begin

text \<open>
  network/limiter.go: connections, response writers and request bodies that wait for a rate
  limiter. The limiter (\<open>wait k n\<close>: whether its \<open>k\<close>-th call, for \<open>n\<close> bytes, returns without an
  error) and the connection below (\<open>conn k p\<close>: how much of \<open>p\<close> its \<open>k\<close>-th write takes, and whether
  it fails) are parameters; the sleeping that simulates latency has no effect on data.
\<close>

section \<open>Writing in pieces\<close>

text \<open>What a write leaves behind: the count it returns, whether it failed, the pieces that the
  connection was given, and the bytes that it took.\<close>

record WriteResult =
  Write_total :: nat
  Write_failed :: bool
  Write_pieces :: "nat list"
  Write_sent :: string

text \<open>The loop of \<^verbatim>\<open>LimiterConn.Write\<close> and of \<^verbatim>\<open>LimiterResponseWriter.Write\<close>.\<close>

function limited_loop ::
  "(nat \<Rightarrow> nat \<Rightarrow> bool) \<Rightarrow> (nat \<Rightarrow> string \<Rightarrow> nat \<times> bool) \<Rightarrow> nat \<Rightarrow> string \<Rightarrow> WriteResult \<Rightarrow> WriteResult" where
  "limited_loop wait conn k p r =
     (if p = [] then r
      else
        let n = (if length p > 1024 then 1024 else length p) in
        if \<not> wait k n then r\<lparr>Write_failed := True\<rparr>
        else case conn k (take n p) of (written, failed) \<Rightarrow>
          let r = r\<lparr>Write_total := Write_total r + written, Write_pieces := Write_pieces r @ [n],
                Write_sent := Write_sent r @ take written (take n p)\<rparr>
          in if failed then r\<lparr>Write_failed := True\<rparr>
             else limited_loop wait conn (Suc k) (drop n p) r)"
  by pat_completeness auto
termination
  by (relation "measure (\<lambda>(_, _, _, p, _). length p)") auto

declare limited_loop.simps [simp del]

definition LimiterConn_Write ::
  "(nat \<Rightarrow> nat \<Rightarrow> bool) \<Rightarrow> (nat \<Rightarrow> string \<Rightarrow> nat \<times> bool) \<Rightarrow> string \<Rightarrow> WriteResult" where
  "LimiterConn_Write wait conn p = limited_loop wait conn 0 p
     \<lparr>Write_total = 0, Write_failed = False, Write_pieces = [], Write_sent = []\<rparr>"

definition LimiterResponseWriter_Write ::
  "(nat \<Rightarrow> nat \<Rightarrow> bool) \<Rightarrow> (nat \<Rightarrow> string \<Rightarrow> nat \<times> bool) \<Rightarrow> string \<Rightarrow> WriteResult" where
  "LimiterResponseWriter_Write wait w p = limited_loop wait w 0 p
     \<lparr>Write_total = 0, Write_failed = False, Write_pieces = [], Write_sent = []\<rparr>"

section \<open>Reading\<close>

text \<open>\<^verbatim>\<open>Read\<close>: the bytes that the reader below gave, and whether the call returns an error; the
  error of the limiter comes first.\<close>

definition LimiterConn_Read :: "(nat \<Rightarrow> bool) \<Rightarrow> string \<times> bool \<Rightarrow> string \<times> bool" where
  "LimiterConn_Read wait r =
     (case r of (bs, failed) \<Rightarrow>
        if 0 < length bs \<and> \<not> wait (length bs) then (bs, True) else (bs, failed))"

definition LimiterReader_Read :: "(nat \<Rightarrow> bool) \<Rightarrow> string \<times> bool \<Rightarrow> string \<times> bool" where
  "LimiterReader_Read wait r =
     (case r of (bs, failed) \<Rightarrow>
        if 0 < length bs \<and> \<not> wait (length bs) then (bs, True) else (bs, failed))"

section \<open>Wrapping\<close>

text \<open>The structs around a connection, a response writer and a request body, and what makes them.
  \<open>new_limiter\<close> is \<^verbatim>\<open>rate.NewLimiter\<close>, from a rate and a burst; a response writer may or may not
  implement the three optional interfaces of \<^verbatim>\<open>net/http\<close>.\<close>

record ('c, 'l) LimiterConn =
  LimiterConn_Conn :: 'c
  LimiterConn_limiter :: 'l
  LimiterConn_latency :: int

record ('w, 'l) LimiterResponseWriter =
  LimiterResponseWriter_ResponseWriter :: 'w
  LimiterResponseWriter_limiter :: 'l
  LimiterResponseWriter_latency :: int
  LimiterResponseWriter_limit :: int

record ('b, 'l) LimiterReader =
  LimiterReader_reader :: 'b
  LimiterReader_limiter :: 'l

definition NewLimiterConn ::
  "(int \<Rightarrow> int \<Rightarrow> 'l) \<Rightarrow> 'c \<Rightarrow> int \<Rightarrow> int \<Rightarrow> ('c, 'l) LimiterConn" where
  "NewLimiterConn new_limiter conn limit latency =
     \<lparr>LimiterConn_Conn = conn, LimiterConn_limiter = new_limiter limit limit,
        LimiterConn_latency = latency\<rparr>"

text \<open>One limiter is made when the middleware is, and shared by all requests.\<close>

definition LimiterMiddleware ::
  "(int \<Rightarrow> int \<Rightarrow> 'l) \<Rightarrow> int \<Rightarrow> int \<Rightarrow>
   (('w, 'l) LimiterResponseWriter \<Rightarrow> 'r \<Rightarrow> 'a) \<Rightarrow> 'w \<Rightarrow> 'r \<Rightarrow> 'a" where
  "LimiterMiddleware new_limiter latency limit =
     (let limiter = new_limiter limit limit in
      (\<lambda>next_handler w r. next_handler
         \<lparr>LimiterResponseWriter_ResponseWriter = w, LimiterResponseWriter_limiter = limiter,
            LimiterResponseWriter_latency = latency, LimiterResponseWriter_limit = limit\<rparr> r))"

definition NewLimiterReader :: "(int \<Rightarrow> int \<Rightarrow> 'l) \<Rightarrow> 'b \<Rightarrow> int \<Rightarrow> int \<Rightarrow> ('b, 'l) LimiterReader" where
  "NewLimiterReader new_limiter reader limit latency =
     \<lparr>LimiterReader_reader = reader, LimiterReader_limiter = new_limiter limit limit\<rparr>"

text \<open>\<open>Inl None\<close> is the error of the wrapper itself, that the writer below has no such method;
  \<open>Inl (Some e)\<close> is the error of that method.\<close>

definition LimiterResponseWriter_Hijack ::
  "(int \<Rightarrow> int \<Rightarrow> 'l) \<Rightarrow> ('w \<Rightarrow> ('e + 'c \<times> 'rw) option) \<Rightarrow> ('w, 'l) LimiterResponseWriter \<Rightarrow>
   'e option + ('c, 'l) LimiterConn \<times> 'rw" where
  "LimiterResponseWriter_Hijack new_limiter hijack lw =
     (case hijack (LimiterResponseWriter_ResponseWriter lw) of
        None \<Rightarrow> Inl None
      | Some (Inl e) \<Rightarrow> Inl (Some e)
      | Some (Inr (conn, rw)) \<Rightarrow> Inr (NewLimiterConn new_limiter conn
          (LimiterResponseWriter_limit lw) (LimiterResponseWriter_latency lw), rw))"

definition LimiterResponseWriter_Flush ::
  "('w \<Rightarrow> (unit \<Rightarrow> 's \<Rightarrow> 's) option) \<Rightarrow> ('w, 'l) LimiterResponseWriter \<Rightarrow> 's \<Rightarrow> 's" where
  "LimiterResponseWriter_Flush flusher lw s =
     (case flusher (LimiterResponseWriter_ResponseWriter lw) of Some flush \<Rightarrow> flush () s | None \<Rightarrow> s)"

definition LimiterResponseWriter_Push ::
  "('w \<Rightarrow> (string \<Rightarrow> 'o \<Rightarrow> 'e option) option) \<Rightarrow> 'e \<Rightarrow> ('w, 'l) LimiterResponseWriter \<Rightarrow>
   string \<Rightarrow> 'o \<Rightarrow> 'e option" where
  "LimiterResponseWriter_Push pusher not_supported lw target opts =
     (case pusher (LimiterResponseWriter_ResponseWriter lw) of
        Some push \<Rightarrow> push target opts | None \<Rightarrow> Some not_supported)"

text \<open>The reader is an \<^verbatim>\<open>io.ReadCloser\<close>, and so it always has the method.\<close>

definition LimiterReader_Close :: "('b \<Rightarrow> 'e option) \<Rightarrow> ('b, 'l) LimiterReader \<Rightarrow> 'e option" where
  "LimiterReader_Close close_reader r = close_reader (LimiterReader_reader r)"

section \<open>What arrives\<close>

text \<open>\<^verbatim>\<open>io.Writer\<close>: at most the given bytes are taken, and all of them unless the call fails.\<close>

definition writer :: "(nat \<Rightarrow> string \<Rightarrow> nat \<times> bool) \<Rightarrow> bool" where
  "writer conn \<longleftrightarrow> (\<forall>k p. fst (conn k p) \<le> length p \<and>
     (snd (conn k p) \<or> fst (conn k p) = length p))"

definition delivered :: "string \<Rightarrow> WriteResult \<Rightarrow> WriteResult \<Rightarrow> bool" where
  "delivered p r r' \<longleftrightarrow> (\<exists>q ns. Write_sent r' = Write_sent r @ q \<and> prefix q p \<and>
     Write_total r' = Write_total r + length q \<and>
     Write_pieces r' = Write_pieces r @ ns \<and> list_all (\<lambda>n. n \<le> 1024) ns \<and>
     (Write_failed r' \<or> q = p))"

lemma limited_loop_correct:
  assumes "writer conn" and "\<not> Write_failed r"
  shows "delivered p r (limited_loop wait conn k p r)"
  using assms(2)
proof (induction "length p" arbitrary: k p r rule: less_induct)
  case less
  define n where "n = (if length p > 1024 then 1024 else length p)"
  have n: "n \<le> length p" "n \<le> 1024" "p \<noteq> [] \<Longrightarrow> 0 < n" by (auto simp: n_def)
  note loop = limited_loop.simps [of wait conn k p r, unfolded n_def [symmetric] Let_def]
  show ?case
  proof (cases "p = [] \<or> \<not> wait k n")
    case True
    then show ?thesis unfolding loop by (auto simp: delivered_def)
  next
    case False
    obtain m failed where w: "conn k (take n p) = (m, failed)" by fastforce
    have m: "m \<le> n" "failed \<or> m = n"
      using assms(1) w n(1) unfolding writer_def by (metis fst_conv length_take min.absorb2,
        metis fst_conv snd_conv length_take min.absorb2)
    let ?r = "r\<lparr>Write_total := Write_total r + m, Write_pieces := Write_pieces r @ [n],
      Write_sent := Write_sent r @ take m (take n p)\<rparr>"
    have step: "limited_loop wait conn k p r = (if failed then ?r\<lparr>Write_failed := True\<rparr>
        else limited_loop wait conn (Suc k) (drop n p) ?r)"
      unfolding loop using False w by simp
    have q: "take m (take n p) = take m p" "length (take m p) = m"
      using m(1) n(1) by (simp_all add: min_def)
    show ?thesis
    proof (cases failed)
      case True
      then show ?thesis
        unfolding step using q n(2)
        by (auto simp: delivered_def take_is_prefix intro!: exI [of _ "take m p"])
    next
      case ok: False
      let ?s = "limited_loop wait conn (Suc k) (drop n p) ?r"
      have "length (drop n p) < length p" using n False by auto
      from less.hyps [OF this, of ?r "Suc k"] less.prems obtain q' ns where
        IH: "Write_sent ?s = Write_sent ?r @ q'" "prefix q' (drop n p)"
        "Write_total ?s = Write_total ?r + length q'" "Write_pieces ?s = Write_pieces ?r @ ns"
        "list_all (\<lambda>n. n \<le> 1024) ns" "Write_failed ?s \<or> q' = drop n p"
        unfolding delivered_def by auto
      have mn: "m = n" using m ok by simp
      have "prefix (take n p @ q') p"
        using IH(2) by (metis append_take_drop_id same_prefix_prefix)
      moreover have "limited_loop wait conn k p r = ?s" using step ok by simp
      ultimately show ?thesis
        unfolding delivered_def using IH q mn n
        by (intro exI [of _ "take n p @ q'"] exI [of _ "n # ns"]) auto
    qed
  qed
qed

lemma limited_loop_completes:
  assumes "\<And>k n. n \<le> 1024 \<Longrightarrow> wait k n" and "\<And>k p. \<not> snd (conn k p)" and "\<not> Write_failed r"
  shows "\<not> Write_failed (limited_loop wait conn k p r)"
  using assms(3)
proof (induction "length p" arbitrary: k p r rule: less_induct)
  case less
  define n where "n = (if length p > 1024 then 1024 else length p)"
  note loop = limited_loop.simps [of wait conn k p r, unfolded n_def [symmetric] Let_def]
  show ?case
  proof (cases "p = []")
    case True
    then show ?thesis unfolding loop using less.prems by simp
  next
    case False
    obtain m where w: "conn k (take n p) = (m, False)"
      using assms(2) by (metis (full_types) prod.collapse)
    have "length (drop n p) < length p" and "wait k n" using False assms(1) by (auto simp: n_def)
    then show ?thesis
      unfolding loop using False w less.hyps less.prems by simp
  qed
qed

section \<open>Properties\<close>

text \<open>A limited write gives the connection pieces of at most 1024 bytes, in order; the bytes it
  took are a prefix of the data, as long as the count that is returned, and all of the data
  unless an error is returned.\<close>

theorem limited_write_delivers:
  assumes "writer conn" and "r = LimiterConn_Write wait conn p"
  shows "prefix (Write_sent r) p \<and> Write_total r = length (Write_sent r) \<and>
    list_all (\<lambda>n. n \<le> 1024) (Write_pieces r) \<and> (Write_failed r \<or> Write_sent r = p)"
  using limited_loop_correct [OF assms(1), of "\<lparr>Write_total = 0, Write_failed = False,
    Write_pieces = [], Write_sent = []\<rparr>" p wait 0] assms(2)
  by (auto simp: delivered_def LimiterConn_Write_def)

theorem limited_write_delivers_witness:
  "Write_sent (LimiterConn_Write (\<lambda>_ _. True) (\<lambda>_ q. (length q, False)) ''abc'') = ''abc''"
  using limited_write_delivers [of "\<lambda>_ q. (length q, False)" _ "\<lambda>_ _. True" "''abc''"]
  by (simp add: writer_def LimiterConn_Write_def limited_loop.simps)

text \<open>C40: A response behind the middleware is sent whole, if the client stays and the rate is at
  least 1024 bytes: a limiter refuses only more bytes at once than its burst, which the middleware
  makes as large as the rate, and no piece is larger than 1024. The connection that a handler takes
  over from such a response is limited in the same way.\<close>

theorem limited_response_completes:
  assumes "writer conn" and "1024 \<le> limit" and "\<And>k q. \<not> snd (conn k q)"
    and "\<And>k rt burst n. wait (new_limiter rt burst) k n \<longleftrightarrow> int n \<le> burst"
  shows "LimiterMiddleware new_limiter latency limit (\<lambda>lw p.
      let r = LimiterResponseWriter_Write (wait (LimiterResponseWriter_limiter lw)) conn p in
      \<not> Write_failed r \<and> Write_sent r = p \<and>
      (\<forall>c rw. LimiterResponseWriter_Hijack new_limiter hijack lw = Inr (c, rw) \<longrightarrow>
         (let r = LimiterConn_Write (wait (LimiterConn_limiter c)) conn p in
          \<not> Write_failed r \<and> Write_sent r = p))) w p"
proof -
  let ?r = "\<lparr>Write_total = 0, Write_failed = False, Write_pieces = [], Write_sent = []\<rparr>"
  let ?w = "limited_loop (wait (new_limiter limit limit)) conn 0 p ?r"
  have "\<not> Write_failed ?w"
    using assms(2-4) by (intro limited_loop_completes) simp_all
  moreover from this have "Write_sent ?w = p"
    using limited_loop_correct [OF assms(1), of ?r p "wait (new_limiter limit limit)" 0]
    by (simp add: delivered_def)
  ultimately show ?thesis
    by (auto simp: LimiterMiddleware_def LimiterResponseWriter_Write_def LimiterConn_Write_def
        LimiterResponseWriter_Hijack_def NewLimiterConn_def split: option.splits sum.splits)
qed

theorem limited_response_completes_witness:
  "Write_sent (LimiterResponseWriter_Write (\<lambda>_ n. int n \<le> 4096) (\<lambda>_ q. (length q, False)) ''abc'') =
     ''abc''"
  using limited_response_completes [of "\<lambda>_ q. (length q, False)" 4096 "\<lambda>burst _ n. int n \<le> burst"
      "\<lambda>_ burst. burst" 0 "\<lambda>_. None" "()" "''abc''"]
  by (auto simp: writer_def LimiterMiddleware_def Let_def)

end
