(* ===== verification/Lifecycle.thy ===== *)
theory Lifecycle
  imports Transactions
begin

text \<open>
  storage/database.go with main.go and the start of network/server.go: the pool of database
  connections, the counter of those that are out, and how the parts of the server start and stop.
  The pool of the SQLite library is an argument: its operations take one connection out, put one
  back, and close it. A \<^verbatim>\<open>sync.WaitGroup\<close> is its counter: \<^verbatim>\<open>Add(1)\<close> and \<^verbatim>\<open>Done\<close> change it, and \<^verbatim>\<open>Wait\<close>
  can go on when it is zero.
\<close>

section \<open>The schema\<close>

text \<open>\<^verbatim>\<open>strings.Split\<close> for a separator that is not empty.\<close>

function Split :: "string \<Rightarrow> string \<Rightarrow> string list" where
  "Split sep [] = [[]]"
| "Split sep (c # cs) =
     (if sep \<noteq> [] \<and> prefix sep (c # cs) then [] # Split sep (drop (length sep) (c # cs))
      else case Split sep cs of [] \<Rightarrow> [[c]] | piece # pieces \<Rightarrow> (c # piece) # pieces)"
  by pat_completeness auto

termination
  by (relation "measure (\<lambda>(sep, s). length s)") (auto simp: Suc_le_eq)

definition migrations :: "string \<Rightarrow> string list" where
  "migrations schema = Split [CHR 0x0A, CHR 0x0A] schema"

text \<open>The statements that every new connection runs; their errors are not looked at.\<close>

definition PrepareConn :: "string list" where
  "PrepareConn = [''PRAGMA journal_mode = WAL;'', ''PRAGMA synchronous = NORMAL;'',
     ''PRAGMA foreign_keys = ON;'', ''PRAGMA optimize;'']"

definition PoolSize :: nat where
  "PoolSize = 16"

lemma Split_not_empty: "Split sep s \<noteq> []"
  by (induction sep s rule: Split.induct) (auto split: list.split)

text \<open>The pieces put together again are the text.\<close>

lemma Split_concat: "concat (map (\<lambda>p. p @ sep) (Split sep s)) = s @ sep"
proof (induction sep s rule: Split.induct)
  case (2 sep c cs)
  show ?case
  proof (cases "sep \<noteq> [] \<and> prefix sep (c # cs)")
    case True
    then have "sep @ drop (length sep) (c # cs) = c # cs" by (auto simp: prefix_def)
    with True 2(1) show ?thesis by simp
  next
    case False
    with 2(2) show ?thesis by (auto split: list.split simp: Split_not_empty)
  qed
qed simp

section \<open>The pool\<close>

text \<open>The operations of the library's pool, on its state \<open>'p\<close> with connections \<open>'c\<close>. \<open>new_pool\<close> gets
  the number of connections and the migrations, \<open>pool_get\<close> may fail.\<close>

record ('c, 'p) pool_library =
  new_pool :: "nat \<Rightarrow> string list \<Rightarrow> string list \<Rightarrow> 'p"
  pool_get :: "'p \<Rightarrow> 'c option \<times> 'p"
  pool_put :: "'c \<Rightarrow> 'p \<Rightarrow> 'p"
  pool_close :: "'p \<Rightarrow> 'p"

text \<open>The state of the process that starting and stopping is about: the pool, the two counters, and
  whether the context of the process is done.\<close>

record 'p Running =
  R_dbPool :: 'p
  R_dbPoolWait :: nat
  R_Subsystems :: nat
  R_done :: bool

definition OpenConnection ::
  "('c, 'p) pool_library \<Rightarrow> 'p Running \<Rightarrow> 'c option \<times> 'p Running" where
  "OpenConnection L r =
     (let r = r\<lparr>R_dbPoolWait := Suc (R_dbPoolWait r)\<rparr> in
      case pool_get L (R_dbPool r) of (c, p) \<Rightarrow> (c, r\<lparr>R_dbPool := p\<rparr>))"

text \<open>A counter that goes below zero panics.\<close>

definition Done :: "nat \<Rightarrow> nat go_result" where
  "Done n = (if n = 0 then Panic else Ok (n - 1))"

definition CloseConnection ::
  "('c, 'p) pool_library \<Rightarrow> 'c option \<Rightarrow> 'p Running \<Rightarrow> unit go_result \<times> 'p Running" where
  "CloseConnection L conn r =
     (case conn of
        None \<Rightarrow> (Ok (), r)
      | Some c \<Rightarrow>
          let r = r\<lparr>R_dbPool := pool_put L c (R_dbPool r)\<rparr> in
          case Done (R_dbPoolWait r) of
            Ok n \<Rightarrow> (Ok (), r\<lparr>R_dbPoolWait := n\<rparr>)
          | _ \<Rightarrow> (Panic, r))"

text \<open>\<^verbatim>\<open>CloseDatabase\<close>; \<open>None\<close> while it waits.\<close>

definition CloseDatabase :: "('c, 'p) pool_library \<Rightarrow> 'p Running \<Rightarrow> 'p Running option" where
  "CloseDatabase L r =
     (if R_dbPoolWait r = 0 then Some (r\<lparr>R_dbPool := pool_close L (R_dbPool r)\<rparr>) else None)"

text \<open>\<^verbatim>\<open>CheckpointDatabase\<close>, which nothing calls: a transaction that is not started, on a connection
  of a pool of its own. It panics, since only a transaction that is started may write.\<close>

definition CheckpointDatabase :: "Env \<Rightarrow> Database \<Rightarrow> nat \<Rightarrow> int \<Rightarrow> unit go_result \<times> Transaction" where
  "CheckpointDatabase E db t last_write = Checkpoint E (NewTransaction db t last_write)"

lemma CheckpointDatabase_panics: "fst (CheckpointDatabase E db t last_write) = Panic"
  by (simp add: CheckpointDatabase_def Checkpoint_def Prepare_def MarkAsWrite_def
      NewTransaction_def)

section \<open>Starting and stopping\<close>

text \<open>\<^verbatim>\<open>StartDatabase\<close>; a pool that gives no connection panics. Its own connection is not counted.\<close>

definition StartDatabase ::
  "('c, 'p) pool_library \<Rightarrow> string \<Rightarrow> 'p Running \<Rightarrow> unit go_result \<times> 'p Running" where
  "StartDatabase L schema r =
     (let r = r\<lparr>R_Subsystems := Suc (R_Subsystems r)\<rparr>;
          p = new_pool L PoolSize (migrations schema) PrepareConn
      in case pool_get L p of
           (None, p) \<Rightarrow> (Panic, r\<lparr>R_dbPool := p\<rparr>)
         | (Some c, p) \<Rightarrow> (Ok (), r\<lparr>R_dbPool := pool_put L c p\<rparr>))"

text \<open>The goroutines that \<^verbatim>\<open>StartDatabase\<close>, \<^verbatim>\<open>StartServer\<close> and \<^verbatim>\<open>StartGateway\<close> leave behind: what they do
  once the context is done. \<^verbatim>\<open>srv.Shutdown\<close> is over when the server has stopped.\<close>

definition finish_subsystem :: "'p Running \<Rightarrow> 'p Running option" where
  "finish_subsystem r =
     (case Done (R_Subsystems r) of Ok n \<Rightarrow> Some (r\<lparr>R_Subsystems := n\<rparr>) | _ \<Rightarrow> None)"

definition finish_database :: "('c, 'p) pool_library \<Rightarrow> 'p Running \<Rightarrow> 'p Running option" where
  "finish_database L r =
     (case CloseDatabase L r of None \<Rightarrow> None | Some r \<Rightarrow> finish_subsystem r)"

definition StartServer :: "'p Running \<Rightarrow> 'p Running" where
  "StartServer r = r\<lparr>R_Subsystems := Suc (R_Subsystems r)\<rparr>"

text \<open>\<^verbatim>\<open>StartGateway\<close> with the building of the index as an argument, which panics without a
  connection.\<close>

definition start_gateway ::
  "('c, 'p) pool_library \<Rightarrow> ('c option \<Rightarrow> unit go_result) \<Rightarrow> 'p Running \<Rightarrow>
   unit go_result \<times> 'p Running" where
  "start_gateway L build r =
     (case OpenConnection L (r\<lparr>R_Subsystems := Suc (R_Subsystems r)\<rparr>) of
        (c, r) \<Rightarrow> (case build c of Ok _ \<Rightarrow> CloseConnection L c r | _ \<Rightarrow> (Panic, r)))"

text \<open>\<^verbatim>\<open>main\<close> up to the call of \<^verbatim>\<open>StartGateway\<close>: a data folder that does not exist is made and filled.
  \<open>populate\<close> stands for testing/fake.go, which opens one connection and closes it.\<close>

definition run_main ::
  "('c, 'p) pool_library \<Rightarrow> string \<Rightarrow> bool \<Rightarrow> ('c option \<Rightarrow> unit go_result) \<Rightarrow> 'p \<Rightarrow>
   unit go_result \<times> 'p Running" where
  "run_main L schema dataExists populate p =
     and_then (StartDatabase L schema
         \<lparr>R_dbPool = p, R_dbPoolWait = 0, R_Subsystems = 0, R_done = False\<rparr>) (\<lambda>_ r.
     and_then
       (if dataExists then (Ok (), r)
        else case OpenConnection L r of
          (c, r) \<Rightarrow> (case populate c of Ok _ \<Rightarrow> CloseConnection L c r | _ \<Rightarrow> (Panic, r))) (\<lambda>_ r.
     (Ok (), StartServer r)))"

text \<open>\<^verbatim>\<open>mainCtx.Subsystems.Wait()\<close> goes on, and the process exits.\<close>

definition may_exit :: "'p Running \<Rightarrow> bool" where
  "may_exit r \<longleftrightarrow> R_done r \<and> R_Subsystems r = 0"

section \<open>The life of the process\<close>

text \<open>What the goroutines of the process have made of it: the results of \<^verbatim>\<open>OpenConnection\<close> that are not
  yet given to \<^verbatim>\<open>CloseConnection\<close>, how many of its calls failed while the database was running,
  whether the goroutine of the database has finished, whether \<^verbatim>\<open>main\<close> has started the gateway, and
  how many of the goroutines of the server and the gateway have not finished. Requests are served
  from the start of the server on, and so before the gateway has started, too.\<close>

record ('c, 'p) Life =
  Life_running :: "'p Running"
  Life_open :: "'c option list"
  Life_failed :: nat
  Life_stopped :: bool
  Life_gateway :: bool
  Life_others :: nat

inductive lives :: "('c, 'p) pool_library \<Rightarrow> ('c, 'p) Life \<Rightarrow> bool" for L where
  lives_main: "run_main L schema dataExists populate p = (Ok (), r) \<Longrightarrow>
    lives L \<lparr>Life_running = r, Life_open = [], Life_failed = R_dbPoolWait r,
      Life_stopped = False, Life_gateway = False, Life_others = 1\<rparr>"
| lives_gateway: "lives L s \<Longrightarrow> \<not> Life_gateway s \<Longrightarrow>
    start_gateway L build (Life_running s) = (Ok (), r) \<Longrightarrow>
    lives L (s\<lparr>Life_running := r, Life_failed := (if Life_stopped s then Life_failed s
        else Life_failed s + (R_dbPoolWait r - R_dbPoolWait (Life_running s))),
      Life_gateway := True, Life_others := Suc (Life_others s)\<rparr>)"
| lives_open: "lives L s \<Longrightarrow> OpenConnection L (Life_running s) = (c, r) \<Longrightarrow>
    lives L (s\<lparr>Life_running := r, Life_open := Life_open s @ [c], Life_failed :=
      (if c = None \<and> \<not> Life_stopped s then Suc (Life_failed s) else Life_failed s)\<rparr>)"
| lives_close: "lives L s \<Longrightarrow> Life_open s = before @ c # after \<Longrightarrow>
    CloseConnection L c (Life_running s) = (Ok (), r) \<Longrightarrow>
    lives L (s\<lparr>Life_running := r, Life_open := before @ after\<rparr>)"
| lives_cancel: "lives L s \<Longrightarrow>
    lives L (s\<lparr>Life_running := (Life_running s)\<lparr>R_done := True\<rparr>\<rparr>)"
| lives_stop_database: "lives L s \<Longrightarrow> R_done (Life_running s) \<Longrightarrow> \<not> Life_stopped s \<Longrightarrow>
    finish_database L (Life_running s) = Some r \<Longrightarrow>
    lives L (s\<lparr>Life_running := r, Life_stopped := True\<rparr>)"
| lives_stop_other: "lives L s \<Longrightarrow> R_done (Life_running s) \<Longrightarrow> Life_others s = Suc n \<Longrightarrow>
    finish_subsystem (Life_running s) = Some r \<Longrightarrow>
    lives L (s\<lparr>Life_running := r, Life_others := n\<rparr>)"

text \<open>The documented behaviour of a pool that is closed: it gives no connections, and stays closed.\<close>

definition pool_laws :: "('c, 'p) pool_library \<Rightarrow> ('p \<Rightarrow> bool) \<Rightarrow> bool" where
  "pool_laws L closed \<longleftrightarrow> (\<forall>p. closed (pool_close L p)) \<and> (\<forall>c p. closed p \<longrightarrow>
     fst (pool_get L p) = None \<and> closed (snd (pool_get L p)) \<and> closed (pool_put L c p))"

text \<open>The connections that are out.\<close>

definition taken_out :: "('c, 'p) Life \<Rightarrow> 'c option list" where
  "taken_out s = filter (\<lambda>c. c \<noteq> None) (Life_open s)"

definition life_ok :: "('p \<Rightarrow> bool) \<Rightarrow> ('c, 'p) Life \<Rightarrow> bool" where
  "life_ok closed s \<longleftrightarrow>
     R_Subsystems (Life_running s) = (if Life_stopped s then 0 else 1) + Life_others s \<and>
     (if Life_stopped s
      then taken_out s = [] \<and> Life_failed s = 0 \<and> closed (R_dbPool (Life_running s))
      else R_dbPoolWait (Life_running s) = length (taken_out s) + Life_failed s)"

lemma OpenConnection_fields:
  assumes "OpenConnection L r = (c, r')"
  shows "R_Subsystems r' = R_Subsystems r" "R_dbPoolWait r' = Suc (R_dbPoolWait r)"
    "R_done r' = R_done r" "(c, R_dbPool r') = pool_get L (R_dbPool r)"
  using assms by (auto simp: OpenConnection_def Let_def split: prod.splits)

lemma CloseConnection_fields:
  assumes "CloseConnection L c r = (Ok (), r')"
  shows "R_Subsystems r' = R_Subsystems r" "R_done r' = R_done r"
    "c = None \<Longrightarrow> r' = r"
    "c = Some x \<Longrightarrow> R_dbPoolWait r = Suc (R_dbPoolWait r') \<and> R_dbPool r' = pool_put L x (R_dbPool r)"
  using assms by (auto simp: CloseConnection_def Done_def Let_def split: option.splits if_splits)

lemma run_main_counts:
  assumes "run_main L schema dataExists populate p = (Ok (), r)"
  shows "R_Subsystems r = 2"
  using assms unfolding run_main_def StartDatabase_def StartServer_def Let_def
  by (auto elim!: and_then_OkE split: prod.splits option.splits go_result.splits if_splits
      dest!: OpenConnection_fields(1) CloseConnection_fields(1))

lemma lives_ok:
  assumes "pool_laws L closed" and "lives L s"
  shows "life_ok closed s"
  using assms(2)
proof (induction rule: lives.induct)
  case (lives_main schema dataExists populate p r)
  then show ?case by (simp add: life_ok_def taken_out_def run_main_counts)
next
  case (lives_gateway s build r)
  obtain c r1 where o: "OpenConnection L (Life_running s\<lparr>R_Subsystems :=
      Suc (R_Subsystems (Life_running s))\<rparr>) = (c, r1)" by fastforce
  then have "CloseConnection L c r1 = (Ok (), r)"
    using lives_gateway.hyps(3) by (simp add: start_gateway_def split: go_result.splits)
  note r = OpenConnection_fields [OF o] CloseConnection_fields [OF this]
  have "Life_stopped s \<Longrightarrow> c = None \<and> closed (R_dbPool r1)"
    using lives_gateway.IH r(4) assms(1)
    unfolding life_ok_def pool_laws_def by (auto simp: prod_eq_iff)
  then show ?case
    using lives_gateway.IH r by (cases c) (auto simp: life_ok_def taken_out_def)
next
  case (lives_open s c r)
  have "Life_stopped s \<Longrightarrow> c = None \<and> closed (R_dbPool r)"
    using lives_open.IH OpenConnection_fields(4) [OF lives_open.hyps(2)] assms(1)
    unfolding life_ok_def pool_laws_def by (metis fst_conv snd_conv)
  then show ?case
    using lives_open.IH OpenConnection_fields [OF lives_open.hyps(2)]
    by (auto simp: life_ok_def taken_out_def)
next
  case (lives_close s before c after r)
  then show ?case
    using CloseConnection_fields [OF lives_close.hyps(3)] lives_close.IH assms(1)
    by (cases c) (auto simp: life_ok_def taken_out_def pool_laws_def)
next
  case (lives_cancel s)
  then show ?case by (auto simp: life_ok_def taken_out_def)
next
  case (lives_stop_database s r)
  then show ?case
    using assms(1)
    by (auto simp: life_ok_def taken_out_def finish_database_def CloseDatabase_def finish_subsystem_def
        Done_def pool_laws_def split: if_splits)
next
  case (lives_stop_other s n r)
  then show ?case
    by (auto simp: life_ok_def taken_out_def finish_subsystem_def Done_def split: if_splits)
qed

section \<open>Properties\<close>

text \<open>A pool of \<open>n\<close> connections that counts those it has, \<open>None\<close> when it is closed.\<close>

definition example_pool :: "(unit, nat option) pool_library" where
  "example_pool = \<lparr>new_pool = (\<lambda>n _ _. Some n),
     pool_get = (\<lambda>p. case p of Some (Suc n) \<Rightarrow> (Some (), Some n) | _ \<Rightarrow> (None, p)),
     pool_put = (\<lambda>_. map_option Suc), pool_close = (\<lambda>_. None)\<rparr>"

lemma example_pool_laws: "pool_laws example_pool (\<lambda>p. p = None)"
  by (simp add: pool_laws_def example_pool_def)

text \<open>C38: The goroutine that closes the database can go on exactly when every connection that was taken
  out of the pool was given back and no call for a connection has failed: a call that fails is
  counted but never counted back. And when the process exits, the pool is closed and both were the
  case, so after one failed call the process never exits.\<close>

theorem exit_returns_connections:
  assumes "pool_laws L closed" and "lives L s"
  shows "(\<not> Life_stopped s \<longrightarrow> (finish_database L (Life_running s) \<noteq> None \<longleftrightarrow>
      (\<forall>c \<in> set (Life_open s). c = None) \<and> Life_failed s = 0)) \<and>
    (may_exit (Life_running s) \<longrightarrow> closed (R_dbPool (Life_running s)) \<and>
      (\<forall>c \<in> set (Life_open s). c = None) \<and> Life_failed s = 0)"
proof -
  have ok: "life_ok closed s" using assms by (rule lives_ok)
  then have "may_exit (Life_running s) \<Longrightarrow> Life_stopped s"
    by (auto simp: life_ok_def may_exit_def split: if_splits)
  with ok show ?thesis
    by (auto simp: life_ok_def taken_out_def filter_empty_conv finish_database_def CloseDatabase_def
        finish_subsystem_def Done_def)
qed

definition example_run :: "unit go_result \<times> nat option Running" where
  "example_run = run_main example_pool ''CREATE TABLE a (b);'' True (\<lambda>_. Ok ()) None"

lemma example_run_result:
  "example_run = (Ok (), \<lparr>R_dbPool = Some 16, R_dbPoolWait = 0, R_Subsystems = 2, R_done = False\<rparr>)"
  by (simp add: example_run_def run_main_def StartDatabase_def StartServer_def
      OpenConnection_def CloseConnection_def Done_def example_pool_def PoolSize_def Let_def)

text \<open>The process starts, is interrupted, and stops part by part.\<close>

theorem exit_returns_connections_witness:
  "\<exists>s. lives example_pool s \<and> may_exit (Life_running s) \<and> R_dbPool (Life_running s) = None"
proof -
  define r where "r n p = \<lparr>R_dbPool = p, R_dbPoolWait = 0, R_Subsystems = n, R_done = True\<rparr>"
    for n and p :: "nat option"
  define s where "s n p stopped k = \<lparr>Life_running = r n p, Life_open = [] :: unit option list,
    Life_failed = 0, Life_stopped = stopped, Life_gateway = True, Life_others = k\<rparr>"
    for n p stopped k
  have "lives example_pool (s 3 (Some 16) False 2)"
    using lives_cancel [OF lives_gateway [OF lives_main [OF example_run_result [unfolded example_run_def]],
        of "\<lambda>_. Ok ()"]]
    by (simp add: s_def r_def start_gateway_def OpenConnection_def CloseConnection_def Done_def
        example_pool_def Let_def eval_nat_numeral)
  then have "lives example_pool (s 2 None True 2)"
    using lives_stop_database [of example_pool "s 3 (Some 16) False 2"]
    by (simp add: s_def r_def finish_database_def CloseDatabase_def finish_subsystem_def Done_def
        example_pool_def)
  then have "lives example_pool (s 1 None True 1)"
    using lives_stop_other [of example_pool "s 2 None True 2"]
    by (simp add: s_def r_def finish_subsystem_def Done_def)
  then have final: "lives example_pool (s 0 None True 0)"
    using lives_stop_other [of example_pool "s 1 None True 1"]
    by (simp add: s_def r_def finish_subsystem_def Done_def)
  have "may_exit (Life_running (s 0 None True 0))" by (simp add: s_def r_def may_exit_def)
  with final show ?thesis
    using exit_returns_connections [OF example_pool_laws final] by blast
qed

end
