(* ===== verification/Seeding.thy ===== *)
theory Seeding
  imports Handlers
begin

text \<open>
  testing/fake.go: what \<^verbatim>\<open>main\<close> puts into the database of a new data folder: settings, three roles,
  a thousand users, the account \<^verbatim>\<open>user\<close>, channels, and messages with links and files. The library
  that invents texts and the random numbers are the record \<open>Faker\<close>, read at a tick; embeds, the
  test files and the store of uploads are arguments. The names of users are drawn until one fits,
  which may never happen: then the result is \<open>None\<close>.
\<close>

section \<open>The source of texts\<close>

record Faker =
  Fake_SimplePassword :: "nat \<Rightarrow> string"
  Fake_UserName :: "nat \<Rightarrow> string"
  Fake_FullName :: "nat \<Rightarrow> string"
  Fake_Sentence :: "nat \<Rightarrow> string"
  Fake_Paragraph :: "nat \<Rightarrow> string"
  Fake_Company :: "nat \<Rightarrow> string"
  \<comment> \<open>\<^verbatim>\<open>rng.Intn(n)\<close>\<close>
  Fake_Intn :: "nat \<Rightarrow> nat \<Rightarrow> nat"

text \<open>A value read at the tick of a transaction.\<close>

definition draw :: "(nat \<Rightarrow> 'a) \<Rightarrow> Transaction \<Rightarrow> ('a \<Rightarrow> Transaction \<Rightarrow> 'b) \<Rightarrow> 'b" where
  "draw f tx k = k (f (Tx_tick tx)) (next_tick tx)"

text \<open>\<^verbatim>\<open>storage.NewTransaction\<close> on the connection of an earlier one.\<close>

definition new_tx :: "Transaction \<Rightarrow> Transaction" where
  "new_tx tx = NewTransaction (Tx_db tx) (Tx_tick tx) (Tx_lastWrite tx)"

text \<open>Indexing an array panics out of range.\<close>

definition at_index :: "'a list \<Rightarrow> nat \<Rightarrow> Transaction \<Rightarrow> 'a go_result \<times> Transaction" where
  "at_index xs i tx = (if i < length xs then Ok (xs ! i) else Panic, tx)"

section \<open>Users\<close>

definition invented_name :: "Env \<Rightarrow> Faker \<Rightarrow> nat \<Rightarrow> string" where
  "invented_name E F t = Fake_UserName F t @ take 5 (Env_random E (Suc t))"

partial_function (option) name_loop :: "Env \<Rightarrow> Faker \<Rightarrow> nat \<Rightarrow> (string \<times> nat) option" where
  "name_loop E F t =
     (let userName = invented_name E F t in
      if length userName < 3 \<or> 32 < length userName then name_loop E F (Suc (Suc t))
      else Some (userName, Suc (Suc t)))"

definition seeded_role :: "snowflake \<times> snowflake \<times> snowflake \<Rightarrow> nat \<Rightarrow> snowflake" where
  "seeded_role roles i =
     (case roles of (admin, moderator, member_role) \<Rightarrow>
        if i = 0 then admin else if i \<le> 2 then moderator else member_role)"

text \<open>One round of the loop over the users, after the name; every thousandth commits.\<close>

definition seed_user_named ::
  "Env \<Rightarrow> Faker \<Rightarrow> snowflake \<times> snowflake \<times> snowflake \<Rightarrow> nat \<Rightarrow> string \<Rightarrow> string \<Rightarrow> Transaction \<Rightarrow>
   snowflake go_result \<times> Transaction" where
  "seed_user_named E F roles i password userName tx =
     draw (Fake_FullName F) tx (\<lambda>displayName tx.
     draw (\<lambda>t. Fake_Intn F t 3) tx (\<lambda>presence tx.
     draw (Env_random E) tx (\<lambda>salt tx.
     draw (\<lambda>t. if Fake_Intn F t 5 = 0 then Fake_Sentence F t else []) tx (\<lambda>status tx.
     draw (\<lambda>t. if Fake_Intn F t 2 = 0 then take 250 (Fake_Paragraph F t) else []) tx (\<lambda>description tx.
     let hash = HashSha256 E (HashSha256 E password []) salt in
     or_panic (AddUser E userName hash salt [] [] tx) (\<lambda>uid tx.
     or_panic (SetUserProfile E uid displayName status description ProfileColorDefault
         AvatarModifiedDefault tx) (\<lambda>_ tx.
     or_panic (SetUserPresence E uid (int presence) tx) (\<lambda>_ tx.
     or_panic (AddRoleToUser E uid (seeded_role roles i) tx) (\<lambda>_ tx.
       (Ok uid, if i mod 1000 = 0 then Start (Commit E False tx) else tx))))))))))"

definition seed_user ::
  "Env \<Rightarrow> Faker \<Rightarrow> snowflake \<times> snowflake \<times> snowflake \<Rightarrow> nat \<Rightarrow> Transaction \<Rightarrow>
   (snowflake go_result \<times> Transaction) option" where
  "seed_user E F roles i tx =
     draw (Fake_SimplePassword F) tx (\<lambda>password tx.
       case name_loop E F (Tx_tick tx) of
         None \<Rightarrow> None
       | Some (userName, t) \<Rightarrow>
           Some (seed_user_named E F roles i password userName (tx\<lparr>Tx_tick := t\<rparr>)))"

fun seed_users ::
  "Env \<Rightarrow> Faker \<Rightarrow> snowflake \<times> snowflake \<times> snowflake \<Rightarrow> nat list \<Rightarrow> snowflake list \<Rightarrow> Transaction \<Rightarrow>
   (snowflake list go_result \<times> Transaction) option" where
  "seed_users E F roles [] users tx = Some (Ok users, tx)"
| "seed_users E F roles (i # is) users tx =
     (case seed_user E F roles i tx of
        None \<Rightarrow> None
      | Some (Ok uid, tx) \<Rightarrow> seed_users E F roles is (users @ [uid]) tx
      | Some (_, tx) \<Rightarrow> Some (Panic, tx))"

text \<open>\<^verbatim>\<open>createMainUser\<close>, which looks at no error.\<close>

definition createMainUser :: "Env \<Rightarrow> snowflake \<Rightarrow> Transaction \<Rightarrow> unit go_result \<times> Transaction" where
  "createMainUser E role tx =
     (let password = ''password'' in
      draw (Env_random E) tx (\<lambda>salt tx.
      let hash = HashSha256 E (HashSha256 E password []) salt in
      ignore_err 0 (AddUser E ''user'' hash salt [] [] (Start (new_tx tx))) (\<lambda>uid tx.
      ignore_err () (SetUserProfile E uid ''User'' [] [] ProfileColorDefault AvatarModifiedDefault tx)
        (\<lambda>_ tx.
      ignore_err () (SetUserPresence E uid UserPresenceOnline tx) (\<lambda>_ tx.
      ignore_err () (AddRoleToUser E uid role tx) (\<lambda>_ tx. (Ok (), Commit E False tx)))))))"

section \<open>Messages and files\<close>

definition seed_message :: "snowflake \<Rightarrow> snowflake \<Rightarrow> snowflake \<Rightarrow> string \<Rightarrow> int \<Rightarrow> Message" where
  "seed_message mid author channelID content now =
     (case ParseMessageContent content of (users, roles, channels, urls) \<Rightarrow>
        Message_zero\<lparr>Message_ID := mid, Message_AuthorID := author, Message_ChannelID := channelID,
          Message_Content := content, Message_Type := MessageTypeDefault, Message_Timestamp := now,
          Message_MentionedUsers := users, Message_MentionedRoles := roles,
          Message_MentionedChannels := channels, Message_EmbeddableURLs := urls\<rparr>)"

text \<open>The embeds of a message, each in a transaction of its own. A link without an embed and without
  an error dereferences \<^verbatim>\<open>nil\<close>.\<close>

fun seed_embeds ::
  "Env \<Rightarrow> (snowflake \<Rightarrow> string \<Rightarrow> Embed option go_result) \<Rightarrow> snowflake \<Rightarrow> string list \<Rightarrow>
   Transaction \<Rightarrow> unit go_result \<times> Transaction" where
  "seed_embeds E get_embed mid [] tx = (Ok (), tx)"
| "seed_embeds E get_embed mid (url # urls) tx =
     (case get_embed mid url of
        Err e \<Rightarrow> seed_embeds E get_embed mid urls tx
      | Ok (Some emb) \<Rightarrow> or_panic (AddEmbed E mid emb (Start (new_tx tx))) (\<lambda>_ tx.
          seed_embeds E get_embed mid urls (Commit E False tx))
      | _ \<Rightarrow> (Panic, tx))"

definition createMessage ::
  "Env \<Rightarrow> Faker \<Rightarrow> (snowflake \<Rightarrow> string \<Rightarrow> Embed option go_result) \<Rightarrow> snowflake \<Rightarrow>
   snowflake list \<Rightarrow> string \<Rightarrow> Transaction \<Rightarrow> snowflake go_result \<times> Transaction" where
  "createMessage E F get_embed channelID users url tx =
     draw (\<lambda>t. Fake_Intn F t (length users)) tx (\<lambda>i tx.
     and_then (at_index users i tx) (\<lambda>userID tx.
     draw (Fake_Paragraph F) tx (\<lambda>paragraph tx.
     let content = (if url \<noteq> [] then paragraph @ [CHR 0x0A, CHR 0x0A] @ url else paragraph) in
     draw (Env_generate E) tx (\<lambda>mid tx.
     draw (Env_now E) tx (\<lambda>now tx.
     let msg = seed_message mid userID channelID content now in
     or_panic (AddMessage E msg (Start (new_tx tx))) (\<lambda>_ tx.
     and_then (seed_embeds E get_embed mid (Message_EmbeddableURLs msg) (Commit E False tx)) (\<lambda>_ tx.
       (Ok mid, tx))))))))"

text \<open>A test file: its name, and its content unless it cannot be opened. \<open>upload\<close> is
  \<^verbatim>\<open>storage.UploadAttachment\<close>.\<close>

type_synonym test_file = "string \<times> string option"

definition createAttachment ::
  "Env \<Rightarrow> (snowflake \<Rightarrow> snowflake \<Rightarrow> string \<Rightarrow> string \<Rightarrow> Attachment go_result) \<Rightarrow> snowflake \<Rightarrow>
   test_file \<Rightarrow> Transaction \<Rightarrow> unit go_result \<times> Transaction" where
  "createAttachment E upload messageID path tx =
     (case path of
        (name, None) \<Rightarrow> (Panic, tx)
      | (name, Some content) \<Rightarrow>
          draw (Env_generate E) tx (\<lambda>attachmentID tx.
          case upload messageID attachmentID name content of
            Ok attachment \<Rightarrow> or_panic (AddAttachment E messageID attachment (Start (new_tx tx)))
              (\<lambda>_ tx. (Ok (), Commit E False tx))
          | _ \<Rightarrow> (Panic, tx)))"

definition seed_URLs :: "string list" where
  "seed_URLs = [''Wow'', ''https://fxtwitter.com/JJ_Animation/status/1411179267342360576'']"

text \<open>Message \<open>k\<close> of channel \<open>i\<close>: the last ones of the first channel get the links and the files.\<close>

definition seed_channel_message ::
  "Env \<Rightarrow> Faker \<Rightarrow> (snowflake \<Rightarrow> string \<Rightarrow> Embed option go_result) \<Rightarrow>
   (snowflake \<Rightarrow> snowflake \<Rightarrow> string \<Rightarrow> string \<Rightarrow> Attachment go_result) \<Rightarrow> test_file list list \<Rightarrow>
   snowflake list \<Rightarrow> nat \<Rightarrow> snowflake \<Rightarrow> nat \<Rightarrow> Transaction \<Rightarrow> unit go_result \<times> Transaction" where
  "seed_channel_message E F get_embed upload files users i channelID k tx =
     (let url = (if 199 - k < length seed_URLs \<and> i = 0 then seed_URLs ! (199 - k) else []) in
      and_then (createMessage E F get_embed channelID users url tx) (\<lambda>mid tx.
      if 199 - k < length files \<and> i = 0
      then for_each (createAttachment E upload mid) (files ! (199 - k)) tx
      else (Ok (), tx)))"

section \<open>PopulateDatabase\<close>

definition ChannelTypeText :: int where "ChannelTypeText = 0"

definition ChannelTypeCategory :: int where "ChannelTypeCategory = 2"

definition userCount :: nat where "userCount = 1000"

definition channelCount :: nat where "channelCount = 8"

definition seed_settings :: Settings where
  "seed_settings = \<lparr>Settings_SiteName = ''Clack'', Settings_LoginMessage = ''Welcome back!'',
     Settings_DefaultPermissions = PermissionDefault, Settings_UsesEmail = False,
     Settings_UsesInviteCodes = False, Settings_UsesCaptcha = True,
     Settings_UsesLoginCaptcha = False,
     Settings_CaptchaSiteKey = ''052869f2-0556-4700-9b48-8bf6807003b6'',
     Settings_CaptchaSecretKey = ''ES_040e28547c354609b8d8c0e7a630f6d3''\<rparr>"

definition seed_site :: "Env \<Rightarrow> Transaction \<Rightarrow> unit go_result \<times> Transaction" where
  "seed_site E tx =
     if_err (SetSettings E seed_settings (Start tx)) (\<lambda>e tx. (Ok (), Commit E True tx))
       (\<lambda>_ tx. (Ok (), Commit E False tx))"

definition seed_roles ::
  "Env \<Rightarrow> Transaction \<Rightarrow> (snowflake \<times> snowflake \<times> snowflake) go_result \<times> Transaction" where
  "seed_roles E tx =
     or_panic (AddRole E ''Admin'' 0xa84300 0 PermissionAdministrator True True tx) (\<lambda>admin tx.
     or_panic (AddRole E ''Moderator'' 0xe67e22 1
       (PermissionManageChannels OR PermissionManageRoles OR PermissionManageMessages) True True tx)
       (\<lambda>moderator tx.
     or_panic (AddRole E ''Member'' 0xf1c40f 2 PermissionDefault True False tx) (\<lambda>member_role tx.
       (Ok (admin, moderator, member_role), Commit E False tx))))"

fun seed_channels ::
  "Env \<Rightarrow> Faker \<Rightarrow> snowflake \<Rightarrow> nat list \<Rightarrow> snowflake list \<Rightarrow> Transaction \<Rightarrow>
   snowflake list go_result \<times> Transaction" where
  "seed_channels E F generalID [] channels tx = (Ok channels, tx)"
| "seed_channels E F generalID (i # is) channels tx =
     draw (Fake_Company F) tx (\<lambda>name tx.
     or_panic (AddChannel E name ChannelTypeText [] (int i) generalID tx) (\<lambda>channelID tx.
       seed_channels E F generalID is (channels @ [channelID]) tx))"

text \<open>After the users: the account, the channels and the messages.\<close>

definition seed_content ::
  "Env \<Rightarrow> Faker \<Rightarrow> (snowflake \<Rightarrow> string \<Rightarrow> Embed option go_result) \<Rightarrow>
   (snowflake \<Rightarrow> snowflake \<Rightarrow> string \<Rightarrow> string \<Rightarrow> Attachment go_result) \<Rightarrow> test_file list list \<Rightarrow>
   snowflake \<Rightarrow> snowflake list \<Rightarrow> Transaction \<Rightarrow> unit go_result \<times> Transaction" where
  "seed_content E F get_embed upload files moderator users tx =
     and_then (createMainUser E moderator tx) (\<lambda>_ tx.
     or_panic (AddChannel E ''General'' ChannelTypeCategory [] 0 0 (Start tx)) (\<lambda>generalID tx.
     and_then (seed_channels E F generalID [0..<channelCount] [] tx) (\<lambda>channels tx.
       for_each (\<lambda>(i, channelID).
           for_each (seed_channel_message E F get_embed upload files users i channelID) [0..<200])
         (enumerate 0 channels) (Commit E False tx))))"

definition PopulateDatabase ::
  "Env \<Rightarrow> Faker \<Rightarrow> (snowflake \<Rightarrow> string \<Rightarrow> Embed option go_result) \<Rightarrow>
   (snowflake \<Rightarrow> snowflake \<Rightarrow> string \<Rightarrow> string \<Rightarrow> Attachment go_result) \<Rightarrow> test_file list list \<Rightarrow>
   Transaction \<Rightarrow> (unit go_result \<times> Transaction) option" where
  "PopulateDatabase E F get_embed upload files tx =
     (case and_then (seed_site E tx) (\<lambda>_ tx. seed_roles E (Start tx)) of
        (Ok roles, tx) \<Rightarrow>
          (case seed_users E F roles [0..<userCount] [] (Start tx) of
             None \<Rightarrow> None
           | Some (Ok users, tx) \<Rightarrow>
               Some (seed_content E F get_embed upload files (fst (snd roles)) users
                 (Commit E False tx))
           | Some (_, tx) \<Rightarrow> Some (Panic, tx))
      | (_, tx) \<Rightarrow> Some (Panic, tx))"

section \<open>The first database is intact\<close>

text \<open>The tables that the migrations make: all empty but for one row of default settings.\<close>

definition new_database :: Database where
  "new_database = Database_empty\<lparr>DB_settings := Some \<lparr>Settings_SiteName = [],
     Settings_LoginMessage = [], Settings_DefaultPermissions = 0, Settings_UsesEmail = False,
     Settings_UsesInviteCodes = False, Settings_UsesCaptcha = False,
     Settings_UsesLoginCaptcha = False, Settings_CaptchaSiteKey = [],
     Settings_CaptchaSecretKey = []\<rparr>\<rparr>"

named_theorems seeding_intros \<open>what the steps of seeding keep of a transaction\<close>

text \<open>What holds of a transaction however the calls end that make channels, messages, embeds and
  attachments: a property of the tables and of the saved copy that these calls keep.\<close>

locale seeding_kept =
  fixes P :: "Transaction \<Rightarrow> bool"
  assumes P_scope [seeding_intros]: "P tx \<Longrightarrow> P (Start tx)" "P tx \<Longrightarrow> P (new_tx tx)"
      "P tx \<Longrightarrow> P (Commit E failed tx)" "P tx \<Longrightarrow> P (tx\<lparr>Tx_tick := t\<rparr>)"
    and P_AddChannel [seeding_intros]: "P tx \<Longrightarrow> P (snd (AddChannel E name ty description position parentID tx))"
    and P_AddMessage [seeding_intros]: "P tx \<Longrightarrow> P (snd (AddMessage E message tx))"
    and P_AddEmbed [seeding_intros]: "P tx \<Longrightarrow> P (snd (AddEmbed E mid emb tx))"
    and P_AddAttachment [seeding_intros]: "P tx \<Longrightarrow> P (snd (AddAttachment E mid attachment tx))"
begin

lemma P_call [seeding_intros]:
  "P (snd r) \<Longrightarrow> (\<And>x s. P s \<Longrightarrow> P (snd (f x s))) \<Longrightarrow> P (snd (and_then r f))"
  "P (snd q) \<Longrightarrow> (\<And>x s. P s \<Longrightarrow> P (snd (g x s))) \<Longrightarrow> P (snd (or_panic q g))"
  "P (snd p) \<Longrightarrow> (\<And>x s. P s \<Longrightarrow> P (snd (h x s))) \<Longrightarrow> P (snd (ignore_err z p h))"
  subgoal by (cases r; cases "fst r") auto
  subgoal by (cases q; cases "fst q") (auto simp: or_panic_def)
  subgoal by (cases p; cases "fst p") (auto simp: ignore_err_def)
  done

lemma P_if_err [seeding_intros]:
  assumes "P (snd r)" and "\<And>e s. P s \<Longrightarrow> P (snd (h e s))" and "\<And>x s. P s \<Longrightarrow> P (snd (f x s))"
  shows "P (snd (if_err r h f))"
  using assms by (cases r; cases "fst r") auto

lemma P_draw [seeding_intros]:
  "P tx \<Longrightarrow> (\<And>x s. P s \<Longrightarrow> P (snd (k x s))) \<Longrightarrow> P (snd (draw f tx k))"
  using P_scope(4) [of tx "Suc (Tx_tick tx)"] by (simp add: draw_def next_tick_def)

lemma P_for_each:
  "(\<And>x s. P s \<Longrightarrow> P (snd (f x s))) \<Longrightarrow> P tx \<Longrightarrow> P (snd (for_each f xs tx))"
  by (induction xs arbitrary: tx) (auto intro: seeding_intros)

lemma P_seed_embeds: "P tx \<Longrightarrow> P (snd (seed_embeds E get_embed mid urls tx))"
proof (induction urls arbitrary: tx)
  case (Cons url urls)
  then show ?case by (auto split: go_result.split option.split intro!: seeding_intros)
qed simp

lemma P_createMessage:
  "P tx \<Longrightarrow> P (snd (createMessage E F get_embed channelID users url tx))"
  unfolding createMessage_def Let_def
  by (intro seeding_intros P_seed_embeds) (auto simp: at_index_def intro: seeding_intros)

lemma P_createAttachment: "P tx \<Longrightarrow> P (snd (createAttachment E upload mid path tx))"
  by (auto simp: createAttachment_def split: prod.split option.split go_result.split
      intro!: seeding_intros)

lemma P_seed_channel_message:
  "P tx \<Longrightarrow> P (snd (seed_channel_message E F get_embed upload files users i channelID k tx))"
  unfolding seed_channel_message_def Let_def
  by (auto intro!: seeding_intros P_createMessage P_for_each P_createAttachment)

lemma P_seed_channels: "P tx \<Longrightarrow> P (snd (seed_channels E F generalID is channels tx))"
  by (induction "is" arbitrary: channels tx) (auto intro!: seeding_intros)

text \<open>So whatever holds once the account is made holds at the end.\<close>

lemma P_seed_content:
  assumes "P (snd (createMainUser E moderator tx))"
  shows "P (snd (seed_content E F get_embed upload files moderator users tx))"
  unfolding seed_content_def
  by (auto intro!: seeding_intros assms P_seed_channels P_for_each P_seed_channel_message split: prod.split)

end

lemma tx_ok_scope:
  "tx_ok tx \<Longrightarrow> tx_ok (Start tx)" "tx_ok tx \<Longrightarrow> tx_ok (new_tx tx)"
  "tx_ok tx \<Longrightarrow> tx_ok (Commit E failed tx)" "tx_ok tx \<Longrightarrow> tx_ok (tx\<lparr>Tx_tick := t\<rparr>)"
  by (auto simp: tx_ok_def Start_def new_tx_def NewTransaction_def Commit_def UpdateLastWrite_def
      Let_def next_tick_def split: option.splits)

lemmas integrity_rules = integrity.R_SetSettings integrity.R_AddRole integrity.R_AddUser
  integrity.R_SetUserProfile integrity.R_SetUserPresence integrity.R_AddRoleToUser
  integrity.R_AddChannel integrity.R_AddMessage integrity.R_AddEmbed integrity.R_AddAttachment

lemmas [seeding_intros] = integrity_rules [unfolded keeps_ok_def, rule_format]

interpretation intact: seeding_kept tx_ok
  by unfold_locales (simp_all add: tx_ok_scope seeding_intros)

lemma seed_user_named_ok:
  "tx_ok tx \<Longrightarrow> tx_ok (snd (seed_user_named E F roles i password userName tx))"
  unfolding seed_user_named_def Let_def by (intro seeding_intros) (auto intro: seeding_intros)

lemma createMainUser_ok: "tx_ok tx \<Longrightarrow> tx_ok (snd (createMainUser E role tx))"
  unfolding createMainUser_def Let_def by (auto intro!: seeding_intros)

lemma seed_users_ok:
  "tx_ok tx \<Longrightarrow> seed_users E F roles is users tx = Some (r, tx') \<Longrightarrow> tx_ok tx'"
proof (induction "is" arbitrary: users tx)
  case (Cons i "is")
  obtain q tx1 where q: "seed_user E F roles i tx = Some (q, tx1)"
    using Cons.prems(2) by (auto split: option.splits)
  then obtain password userName t where
    "seed_user_named E F roles i password userName ((next_tick tx)\<lparr>Tx_tick := t\<rparr>) = (q, tx1)"
    by (auto simp: seed_user_def draw_def split: option.splits)
  moreover have "tx_ok ((next_tick tx)\<lparr>Tx_tick := t\<rparr>)"
    using Cons.prems(1) by (intro seeding_intros) simp
  ultimately have "tx_ok tx1" using seed_user_named_ok by (metis snd_conv)
  with Cons q show ?case by (auto split: go_result.splits)
qed simp

lemma seed_content_ok:
  "tx_ok tx \<Longrightarrow> tx_ok (snd (seed_content E F get_embed upload files moderator users tx))"
  by (rule intact.P_seed_content [OF createMainUser_ok])

text \<open>Whatever the random source, the embeds and the files are and whatever fails in the engine, the
  tables of a new data folder are intact when \<^verbatim>\<open>PopulateDatabase\<close> returns or panics, and so is what a
  rollback would restore: every key and every reference holds, as every start of the server on
  this database relies on.\<close>

theorem first_database_intact:
  "case PopulateDatabase E F get_embed upload files (NewTransaction new_database t last_write) of
     None \<Rightarrow> True
   | Some (r, tx) \<Rightarrow> db_ok (Tx_db tx) \<and> (case Tx_commit tx of None \<Rightarrow> True | Some db \<Rightarrow> db_ok db)"
proof -
  let ?tx = "NewTransaction new_database t last_write"
  let ?r = "and_then (seed_site E ?tx) (\<lambda>_ tx. seed_roles E (Start tx))"
  have "tx_ok ?tx"
    using db_ok_empty by (simp add: tx_ok_def NewTransaction_def new_database_def)
  then have r: "tx_ok (snd ?r)"
    unfolding seed_site_def seed_roles_def by (auto intro!: seeding_intros)
  have "tx_ok tx" if "PopulateDatabase E F get_embed upload files ?tx = Some (q, tx)" for q tx
  proof (cases "fst ?r")
    case (Ok roles)
    then obtain tx1 where "?r = (Ok roles, tx1)" and tx1: "tx_ok (Start tx1)"
      using r by (metis prod.collapse tx_ok_scope(1))
    with that show ?thesis
      by (auto simp: PopulateDatabase_def dest!: seed_users_ok [OF tx1] split: option.splits
          go_result.splits) (metis seed_content_ok tx_ok_scope(3) snd_conv)
  qed (use that r in \<open>auto simp: PopulateDatabase_def split: prod.splits\<close>)
  then show ?thesis by (auto simp: tx_ok_def split: option.splits)
qed

end
