(* ===== verification/Seeding_Account.thy ===== *)
theory Seeding_Account
  imports Seeding
begin

text \<open>
  testing/fake.go: the account \<^verbatim>\<open>user\<close> of a new database. The thousand users before it are made when
  the invented names fit, the account gets the role of the moderators, and what comes after it
  leaves users, roles and tokens alone, so that the account is there whatever becomes of the rest.
\<close>

section \<open>Calls that succeed\<close>



definition added_user :: "snowflake \<Rightarrow> string \<Rightarrow> string \<Rightarrow> string \<Rightarrow> UserRow" where
  "added_user uid name hash salt = \<lparr>UserRow_id = uid,
     UserRow_user_name = name, UserRow_display_name = name, UserRow_presence = UserPresenceNone,
     UserRow_status_message = [], UserRow_profile_message = [], UserRow_profile_color = -1,
     UserRow_avatar_modified = 0, UserRow_hash = hash, UserRow_salt = salt, UserRow_email = None,
     UserRow_invite_code = None\<rparr>"




lemma ignore_err_Ok [simp]: "ignore_err z (Ok x, tx) f = f x tx"
  by (simp add: ignore_err_def if_err_def)

lemma or_panic_Ok [simp]: "or_panic (Ok x, tx) f = f x tx"
  by (simp add: or_panic_def if_err_def)


text \<open>The four calls that make a user with a profile, a presence and a role.\<close>

definition finished_user :: "string \<Rightarrow> string \<Rightarrow> string \<Rightarrow> int \<Rightarrow> UserRow \<Rightarrow> UserRow" where
  "finished_user displayName status description presence u =
     (set_profile_columns displayName status description ProfileColorDefault AvatarModifiedDefault u)
       \<lparr>UserRow_presence := presence\<rparr>"

lemma finished_user_fields [simp]:
  "UserRow_id (finished_user a b c p u) = UserRow_id u"
  "UserRow_user_name (finished_user a b c p u) = UserRow_user_name u"
  "UserRow_hash (finished_user a b c p u) = UserRow_hash u" "UserRow_salt (finished_user a b c p u) = UserRow_salt u"
  "UserRow_id (added_user uid name hash salt) = uid" "UserRow_user_name (added_user uid name hash salt) = name"
  "UserRow_hash (added_user uid name hash salt) = hash" "UserRow_salt (added_user uid name hash salt) = salt"
  by (simp_all add: finished_user_def added_user_def set_profile_columns_def)


section \<open>The users before it\<close>













section \<open>The settings and the roles\<close>







section \<open>The account\<close>



section \<open>What comes after it\<close>

text \<open>The tables of users, roles, their roles and their tokens.\<close>

definition people ::
  "Database \<Rightarrow> UserRow list \<times> Role list \<times> (snowflake \<times> snowflake) list \<times> TokenRow list" where
  "people db = (DB_users db, DB_roles db, DB_user_roles db, DB_user_tokens db)"

definition same_people :: "Transaction \<Rightarrow> Transaction \<Rightarrow> bool" where
  "same_people tx tx' \<longleftrightarrow> people (Tx_db tx') = people (Tx_db tx) \<and> Tx_commit tx' = Tx_commit tx"

interpretation peo: tx_frame same_people
  by unfold_locales (auto simp: same_people_def)

lemma people_Execute:
  assumes "\<And>db db'. upd db = Some db' \<Longrightarrow> people db' = people db"
  shows "same_people tx (snd (Execute E upd tx))" and "same_people tx (snd (run_write E upd tx))"
  using assms by (auto simp: Execute_def run_write_def same_people_def split: option.split)

lemma people_write: "(\<And>s. same_people s (snd (k s))) \<Longrightarrow> same_people tx (snd (Prepare (MarkAsWrite tx) k))"
  by (rule peo.R_from_mark, rule peo.R_Prepare)

lemma people_updated:
  "insert_channel c db = Some db' \<Longrightarrow> people db' = people db"
  "insert_preview p db = Some db' \<Longrightarrow> people db' = people db"
  "insert_embed er db = Some db' \<Longrightarrow> people db' = people db"
  "insert_embed_field eid f db = Some db' \<Longrightarrow> people db' = people db"
  "insert_attachment ar db = Some db' \<Longrightarrow> people db' = people db"
  "replace_message mr db = Some db' \<Longrightarrow> people db' = people db"
  "insert_user_mention a b db = Some db' \<Longrightarrow> people db' = people db"
  "insert_role_mention a b db = Some db' \<Longrightarrow> people db' = people db"
  "insert_channel_mention a b db = Some db' \<Longrightarrow> people db' = people db"
  by (auto simp: people_def insert_channel_def insert_preview_def insert_embed_def Let_def
      insert_embed_field_def insert_attachment_def replace_message_def
      insert_user_mention_def insert_role_mention_def insert_channel_mention_def
      delete_message_row_def split: if_splits)

lemma people_deleted [simp]:
  "people (delete_embed_row eid db) = people db" "people (delete_user_mentions mid db) = people db"
  "people (delete_role_mentions mid db) = people db" "people (delete_channel_mentions mid db) = people db"
  by (simp_all add: people_def delete_embed_row_def delete_user_mentions_def delete_role_mentions_def
      delete_channel_mentions_def Let_def)

lemma people_AddPreviews [simp, intro!]: "same_people tx (snd (AddPreviews E key width height preload tx))"
  unfolding AddPreviews_def
  by (intro people_write peo.R_and_then peo.R_for_each) (auto intro!: people_Execute dest: people_updated)

lemma people_AddAttachment [intro!]: "same_people tx (snd (AddAttachment E messageID attachment tx))"
  unfolding AddAttachment_def
  by (intro people_write peo.R_and_then peo.R_for_each) (auto intro!: people_Execute dest: people_updated)

lemma people_AddChannel [intro!]: "same_people tx (snd (AddChannel E name ty description position parentID tx))"
  unfolding AddChannel_def Let_def
  by (intro people_write peo.R_and_then) (auto intro!: peo.R_from_tick [OF people_Execute(1)] dest: people_updated)

lemma people_AddEmbed [intro!]: "same_people tx (snd (AddEmbed E messageID emb tx))"
proof -
  have body: "same_people tx (snd (Prepare (if c then next_tick tx else tx) k))"
    if "\<And>s. same_people s (snd (k s))" for c tx and k :: "Transaction \<Rightarrow> unit go_result \<times> Transaction"
    using that by (auto intro: peo.R_from_tick peo.R_Prepare)
  have "same_people tx (snd (add_embed_preview E media tx))" for media tx
    by (simp add: add_embed_preview_def split: option.split)
  moreover have "same_people tx (snd (add_embed_field E eid f tx))" for eid f tx
    unfolding add_embed_field_def by (intro peo.R_seq) (auto intro!: people_Execute dest: people_updated)
  ultimately show ?thesis
    unfolding AddEmbed_def Let_def
    by (intro peo.R_from_mark [of tx], intro body peo.R_and_then)
      (auto intro!: people_Execute peo.R_for_each dest: people_updated)
qed

lemma people_SetMessageMentions [intro!]: "same_people tx (snd (SetMessageMentions E mid us rs cs tx))"
  unfolding SetMessageMentions_def
  by (intro people_write peo.R_and_then peo.R_for_each; auto intro!: people_Execute dest: people_updated)

lemma people_AddMessage [intro!]: "same_people tx (snd (AddMessage E message tx))"
  unfolding AddMessage_def
  by (intro peo.R_and_then people_write peo.R_if_err peo.R_for_each) (auto intro!: people_Execute dest: people_updated)







section \<open>A new installation\<close>







end
