(* ===== verification/Index_Mirror.thy ===== *)
theory Index_Mirror
  imports Reachability Index_Sync
begin

text \<open>
  The index in memory against the database, along every execution: the settings and the roles of
  the index are those of the tables, and a user of the index is the user of the tables, up to roles
  that were deleted since the user was last published, which the index still lists for the user.
  Every handler that writes users or roles publishes what it read back before its commit.
\<close>

section \<open>The tables that the index mirrors\<close>

definition accounts ::
  "Database \<Rightarrow> Settings option \<times> UserRow list \<times> Role list \<times> (snowflake \<times> snowflake) list" where
  "accounts db = (DB_settings db, DB_users db, DB_roles db, DB_user_roles db)"

lemma accountsD:
  assumes "accounts db' = accounts db"
  shows "DB_settings db' = DB_settings db" "DB_users db' = DB_users db" "DB_roles db' = DB_roles db"
    "DB_user_roles db' = DB_user_roles db"
  using assms by (simp_all add: accounts_def)

lemma accounts_views:
  assumes "accounts db' = accounts db"
  shows "role_row db' = role_row db" and "user_row db' = user_row db" and "index_user db' = index_user db"
  using accountsD [OF assms]
  by (simp_all add: fun_eq_iff role_row_def user_row_def index_user_def user_view_def roles_of_user_def)

text \<open>What most operations do: the clock goes on, the transaction stays open, and these tables are
  what they were.\<close>

definition same_accounts :: "Transaction \<Rightarrow> Transaction \<Rightarrow> bool" where
  "same_accounts tx tx' \<longleftrightarrow> accounts (Tx_db tx') = accounts (Tx_db tx) \<and>
     Tx_commit tx' = Tx_commit tx \<and> Tx_tick tx \<le> Tx_tick tx'"

interpretation acc: tx_frame same_accounts
  by unfold_locales (auto simp: same_accounts_def)

lemma acc_Execute:
  assumes "\<And>db db'. upd db = Some db' \<Longrightarrow> accounts db' = accounts db"
  shows "same_accounts tx (snd (Execute E upd tx))" and "same_accounts tx (snd (run_write E upd tx))"
  using assms by (auto simp: Execute_def run_write_def same_accounts_def split: option.split)

lemma acc_write: "(\<And>s. same_accounts s (snd (k s))) \<Longrightarrow> same_accounts tx (snd (Prepare (MarkAsWrite tx) k))"
  by (rule acc.R_from_mark, rule acc.R_Prepare)

named_theorems accounts_kept \<open>updates of other tables\<close>

lemma accounts_updated [accounts_kept]:
  "insert_token tk db = Some db' \<Longrightarrow> accounts db' = accounts db"
  "insert_preview p db = Some db' \<Longrightarrow> accounts db' = accounts db"
  "insert_embed er db = Some db' \<Longrightarrow> accounts db' = accounts db"
  "insert_embed_field eid f db = Some db' \<Longrightarrow> accounts db' = accounts db"
  "insert_attachment ar db = Some db' \<Longrightarrow> accounts db' = accounts db"
  "replace_message mr db = Some db' \<Longrightarrow> accounts db' = accounts db"
  "insert_reaction re db = Some db' \<Longrightarrow> accounts db' = accounts db"
  "insert_user_mention a b db = Some db' \<Longrightarrow> accounts db' = accounts db"
  "insert_role_mention a b db = Some db' \<Longrightarrow> accounts db' = accounts db"
  "insert_channel_mention a b db = Some db' \<Longrightarrow> accounts db' = accounts db"
  by (auto simp: accounts_def insert_token_def insert_preview_def insert_embed_def Let_def
      insert_embed_field_def insert_attachment_def replace_message_def insert_reaction_def
      insert_user_mention_def insert_role_mention_def insert_channel_mention_def
      delete_message_row_def split: if_splits)

lemma accounts_deleted [simp]:
  "accounts (use_token a t db) = accounts db" "accounts (set_content mid c t db) = accounts db"
  "accounts (delete_reaction re db) = accounts db" "accounts (delete_message_row mid db) = accounts db"
  "accounts (delete_embed_row eid db) = accounts db" "accounts (delete_user_mentions mid db) = accounts db"
  "accounts (delete_role_mentions mid db) = accounts db"
  "accounts (delete_channel_mentions mid db) = accounts db"
  by (simp_all add: accounts_def use_token_def set_content_def delete_reaction_def
      delete_message_row_def delete_embed_row_def delete_user_mentions_def delete_role_mentions_def
      delete_channel_mentions_def Let_def)

lemma acc_message_writes [simp, intro!]:
  "same_accounts tx (snd (AddPreviews E key width height preload tx))"
  "same_accounts tx (snd (AddAttachment E messageID attachment tx))"
  "same_accounts tx (snd (DeleteEmbeds E embedIDs tx))"
  "same_accounts tx (snd (SetMessageMentions E mid us rs cs tx))"
  "same_accounts tx (snd (SetMessageContent E mid content tx))"
  "same_accounts tx (snd (DeleteMessage E mid tx))"
  unfolding AddPreviews_def AddAttachment_def DeleteEmbeds_def SetMessageMentions_def
    SetMessageContent_def DeleteMessage_def Let_def
  by ((intro acc_write acc.R_and_then acc.R_for_each;
      auto intro!: acc_Execute acc.R_from_tick [OF acc_Execute(2)] dest: accounts_kept)+)

lemma acc_AddEmbed [simp, intro!]: "same_accounts tx (snd (AddEmbed E messageID emb tx))"
proof -
  have body: "same_accounts tx (snd (Prepare (if c then next_tick tx else tx) k))"
    if "\<And>s. same_accounts s (snd (k s))" for c tx and k :: "Transaction \<Rightarrow> unit go_result \<times> Transaction"
    using that by (auto intro: acc.R_from_tick acc.R_Prepare)
  have "same_accounts tx (snd (add_embed_preview E media tx))" for media tx
    by (simp add: add_embed_preview_def split: option.split)
  moreover have "same_accounts tx (snd (add_embed_field E eid f tx))" for eid f tx
    unfolding add_embed_field_def by (intro acc.R_seq) (auto intro!: acc_Execute dest: accounts_kept)
  ultimately show ?thesis
    unfolding AddEmbed_def Let_def
    by (intro acc.R_from_mark [of tx], intro body acc.R_and_then)
      (auto intro!: acc_Execute acc.R_for_each dest: accounts_kept)
qed

lemma acc_writes [simp, intro!]:
  "same_accounts tx (snd (AddMessage E message tx))"
  "same_accounts tx (snd (SetMessage E mid content us rs cs es tx))"
  "same_accounts tx (snd (AddReaction E mid uid e tx))"
  "same_accounts tx (snd (DeleteReaction E mid uid e tx))"
  "same_accounts tx (snd (AddToken E uid tx))"
  "same_accounts tx (snd (UseToken E token tx))"
proof -
  show "same_accounts tx (snd (AddMessage E message tx))"
    unfolding AddMessage_def
    by (intro acc.R_and_then acc_write acc.R_if_err acc.R_for_each) (auto intro!: acc_Execute dest: accounts_kept)
  show "same_accounts tx (snd (SetMessage E mid content us rs cs es tx))"
    unfolding SetMessage_def by (intro acc.R_and_then) (auto intro: acc.R_from_mark)
  show "same_accounts tx (snd (AddReaction E mid uid e tx))"
    unfolding AddReaction_def
    by (rule acc.R_from_mark, intro acc.R_when_emoji acc.R_Prepare acc_Execute) (auto dest: accounts_kept)
  show "same_accounts tx (snd (DeleteReaction E mid uid e tx))"
    unfolding DeleteReaction_def
    by (rule acc.R_from_mark, intro acc.R_when_emoji acc.R_Prepare acc_Execute) (auto dest: accounts_kept)
  show "same_accounts tx (snd (AddToken E uid tx))"
    unfolding AddToken_def Let_def
    by (intro acc_write acc.R_and_then)
      (auto intro!: acc.R_from_tick [OF acc.R_from_tick [OF acc.R_from_tick [OF acc_Execute(1)]]] dest: accounts_kept)
  show "same_accounts tx (snd (UseToken E token tx))"
    unfolding UseToken_def Let_def by (intro acc_write) (auto intro!: acc.R_from_tick [OF acc_Execute(1)])
qed

lemma acc_logins [simp, intro!]:
  "same_accounts tx (snd (Authenticate E token tx))" "same_accounts tx (snd (Login E name password tx))"
  unfolding Authenticate_def Login_def
  by (intro acc.R_seq; auto intro!: acc.R_and_then split: option.split)+

lemma acc_store_message [simp, intro!]: "same_accounts tx (snd (store_message E m tx))"
  unfolding store_message_def ignore_err_def Let_def
  by (intro acc.R_and_then; auto intro!: acc.R_seq)

lemma acc_embed_loop [simp, intro!]: "same_accounts tx (snd (embed_loop E get_embed mid urls tx))"
proof (induction urls arbitrary: tx)
  case (Cons url urls)
  have "same_accounts tx (snd (and_then
      (AddEmbed E mid (emb\<lparr>Embed_ID := generate_id E tx\<rparr>) (next_tick tx))
      (\<lambda>_ tx. embed_loop E get_embed mid urls tx)))" for emb
    by (intro acc.R_and_then acc.R_from_tick [OF acc_AddEmbed] Cons.IH)
  then show ?case using Cons.IH by (auto split: go_result.split option.split)
qed simp

lemma acc_combined [simp, intro!]:
  "same_accounts tx (snd (user_perms E uid tx))"
  "same_accounts tx (snd (requested_messages E req tx))"
  "same_accounts tx (snd (get_references E msgs tx))"
  "same_accounts tx (snd (ComputeEffectiveRank E user cache tx))"
proof -
  show "same_accounts tx (snd (user_perms E uid tx))"
    unfolding user_perms_def by (intro acc.R_and_then acc.R_GetPermissionsByUser; simp add: split_beta)
  show "same_accounts tx (snd (requested_messages E req tx))"
    unfolding requested_messages_def messages_around_def ignore_err_def Let_def
    by (auto intro!: acc.R_seq)
  show "same_accounts tx (snd (get_references E msgs tx))"
    unfolding get_references_def by (auto intro!: acc.R_GetMessages)
  have "same_accounts tx (snd (effective_rank_loop E rids rank cache tx))" for rids rank
    by (induction rids arbitrary: rank cache tx) (auto split: option.split intro!: acc.R_if_err)
  then show "same_accounts tx (snd (ComputeEffectiveRank E user cache tx))"
    by (simp add: ComputeEffectiveRank_def)
qed

section \<open>Handlers that write neither users nor roles\<close>

definition same_maps :: "Index \<Rightarrow> Index \<Rightarrow> bool" where
  "same_maps ix ix' \<longleftrightarrow> Index_Users ix' = Index_Users ix \<and> Index_Roles ix' = Index_Roles ix \<and>
     Index_Settings ix' = Index_Settings ix"

definition steady :: "World \<Rightarrow> World \<Rightarrow> bool" where
  "steady w w' \<longleftrightarrow> accounts (W_db w') = accounts (W_db w) \<and> W_tick w \<le> W_tick w' \<and>
     same_maps (W_index w) (W_index w')"

definition steady_tx :: "World \<Rightarrow> Transaction \<Rightarrow> bool" where
  "steady_tx w tx \<longleftrightarrow> Tx_commit tx = Some (W_db w) \<and> accounts (Tx_db tx) = accounts (W_db w) \<and>
     W_tick w \<le> Tx_tick tx"

lemma steady_refl [simp, intro!]: "steady w w"
  by (simp add: steady_def same_maps_def)

lemma steady_trans: "steady w w1 \<Longrightarrow> steady w1 w2 \<Longrightarrow> steady w w2"
  by (auto simp: steady_def same_maps_def)

lemma steady_begin [simp, intro!]: "steady_tx w (Start (begin_tx w))"
  by (simp add: steady_tx_def Start_def begin_tx_def NewTransaction_def)

named_theorems steady_intros \<open>what neither users nor roles notice\<close>

lemma steady_simps [steady_intros]:
  "steady w w' \<Longrightarrow> steady w (Write ev k w')" "steady w w' \<Longrightarrow> steady w (HandleError e k w')"
  "steady w w' \<Longrightarrow> steady w (tick_world w')" "steady w w' \<Longrightarrow> steady w (go task w')"
  "steady w w' \<Longrightarrow> steady w (panic k w')" "steady w w' \<Longrightarrow> steady w (set_conn k f w')"
  "steady w w' \<Longrightarrow> steady w (PushPendingRequest req slot w')"
  "steady w w' \<Longrightarrow> steady w (OnAuthentication E uid token k w')"
  "steady w w' \<Longrightarrow> steady w (UpdateLastUserListRequest a b k w')"
  "steady w w' \<Longrightarrow> steady w (conn_Relay ev k w')"
  by (simp_all add: steady_def HandleError_def panic_def PushPendingRequest_def OnAuthentication_def
      AddConnection_def UpdateLastUserListRequest_def conn_Relay_def Let_def)

lemma steady_leak [steady_intros]:
  "W_tick w \<le> Tx_tick tx \<Longrightarrow> steady w (leak_tx tx w)" "W_tick w \<le> Tx_tick tx \<Longrightarrow> steady w (panic_tx k tx w)"
  by (simp_all add: steady_def leak_tx_def panic_tx_def panic_def same_maps_def)

lemma steady_end_tx [steady_intros]: "steady_tx w tx \<Longrightarrow> steady w (end_tx E failed tx w)"
  by (auto simp: steady_def steady_tx_def end_tx_def store_tx_def Commit_def UpdateLastWrite_def
      same_maps_def Let_def)

lemma steady_refuse [steady_intros]: "steady_tx w tx \<Longrightarrow> steady w (refuse E failed e k w tx)"
  unfolding refuse_def by (intro steady_intros)

lemma steady_decoded [steady_intros]: "(\<And>req. steady w (f req)) \<Longrightarrow> steady w (decoded cid w r f)"
  by (cases r) (simp_all add: steady_intros)

lemma steady_call:
  assumes "same_accounts tx (snd r)" and "steady_tx w tx"
    and "\<And>e tx'. steady_tx w tx' \<Longrightarrow> steady w (h e tx')"
    and "\<And>x tx'. steady_tx w tx' \<Longrightarrow> steady w (f x tx')"
  shows "steady w (tx_call k w r h f)"
proof -
  obtain x tx' where r: "r = (x, tx')" by (cases r)
  with assms(1,2) have "steady_tx w tx'" by (auto simp: same_accounts_def steady_tx_def)
  with r assms(3,4) show ?thesis
    by (cases x) (auto simp: steady_tx_def intro: steady_leak)
qed

lemma steady_value:
  assumes "same_accounts tx (snd r)" and "steady_tx w tx"
    and "\<And>x tx'. steady_tx w tx' \<Longrightarrow> steady w (f x tx')"
  shows "steady w (tx_value k w r f)"
  unfolding tx_value_def
  using assms by (intro steady_call) (auto simp: steady_tx_def intro: steady_leak)

lemmas steady_calls = steady_call steady_value

lemma steady_reads:
  "steady w (HandleSettingsRequest E cid w)" "steady w (HandleMessageReactionUsersRequest E cid msg w)"
  "steady w (HandleUsersRequest cid msg w)" "steady w (HandleUserListRequest cid msg w)"
  "steady w (HandleMessagesRequest E cid msg w)"
proof -
  show "steady w (HandleSettingsRequest E cid w)"
    unfolding HandleSettingsRequest_def Let_def
    by (rule steady_call [OF acc.R_GetSettings]) (auto intro!: steady_intros)
  show "steady w (HandleMessageReactionUsersRequest E cid msg w)"
    unfolding HandleMessageReactionUsersRequest_def Let_def
    by (rule steady_decoded, rule steady_call [OF acc.R_GetReactionUsers]) (auto intro!: steady_intros)
  show "steady w (HandleUsersRequest cid msg w)"
    unfolding HandleUsersRequest_def by (intro steady_intros steady_refl)
  show "steady w (HandleUserListRequest cid msg w)"
    unfolding HandleUserListRequest_def Let_def by (intro steady_intros steady_refl)
  have "steady w (leak_tx (Start (begin_tx w)) w)"
    using steady_begin [of w] by (intro steady_leak) (simp add: steady_tx_def)
  then show "steady w (HandleMessagesRequest E cid msg w)"
    unfolding HandleMessagesRequest_def Let_def
    by (auto intro!: steady_intros steady_call [OF acc_combined(2)] steady_call [OF acc_combined(3)])
qed

lemma steady_overview: "steady w (HandleOverviewRequest E visit cid w)"
proof -
  let ?w = "UpdateLastUserListRequest 0 20 cid w"
  obtain x tx where r: "GetAllChannels E (Start (begin_tx ?w)) = (x, tx)"
    by (cases "GetAllChannels E (Start (begin_tx ?w))")
  then have tx: "steady_tx ?w tx"
    using acc.R_GetAllChannels [of "Start (begin_tx ?w)" E] steady_begin [of ?w]
    by (auto simp: same_accounts_def steady_tx_def)
  have "steady ?w (HandleOverviewRequest E visit cid w)"
    unfolding HandleOverviewRequest_def Let_def r
    using tx by (cases x) (auto intro!: steady_intros simp: steady_tx_def)
  then show ?thesis by (rule steady_trans [OF steady_simps(9) [OF steady_refl]])
qed

lemma steady_messages:
  "steady w (HandleMessageUpdateRequest E cid msg w)" "steady w (HandleMessageDeleteRequest E cid msg w)"
  "steady w (HandleMessageReactionAddRequest E cid msg w)"
  "steady w (HandleMessageReactionDeleteRequest E cid msg w)"
  "steady w (FinalizeMessageSendRequest E m seq cid w)"
  "steady w (TryEmbedURLs E get_embed mid urls cid w)"
proof -
  show "steady w (HandleMessageUpdateRequest E cid msg w)"
    unfolding HandleMessageUpdateRequest_def Let_def relay_defs
    by (auto intro!: steady_intros steady_call [OF acc.R_GetMessage] steady_call [OF acc_writes(2)]
        steady_value [OF acc.R_GetPermissionsByChannel] split: prod.split)
  show "steady w (HandleMessageDeleteRequest E cid msg w)"
    unfolding HandleMessageDeleteRequest_def Let_def relay_defs
    by (auto intro!: steady_intros steady_call [OF acc.R_GetMessage] steady_call [OF acc_message_writes(6)]
        steady_value [OF acc.R_GetPermissionsByChannel])
  show "steady w (HandleMessageReactionAddRequest E cid msg w)"
    unfolding HandleMessageReactionAddRequest_def Let_def relay_defs
    by (auto intro!: steady_intros steady_call [OF acc.R_GetChannelByMessage]
        steady_call [OF acc.R_GetReactionCount] steady_call [OF acc_writes(3)]
        steady_value [OF acc.R_GetPermissionsByMessage])
  show "steady w (HandleMessageReactionDeleteRequest E cid msg w)"
    unfolding HandleMessageReactionDeleteRequest_def Let_def relay_defs
    by (auto intro!: steady_intros steady_call [OF acc.R_GetChannelByMessage] steady_call [OF acc_writes(4)])
  show "steady w (FinalizeMessageSendRequest E m seq cid w)"
    unfolding FinalizeMessageSendRequest_def Let_def relay_defs
    by (auto intro!: steady_intros steady_call [OF acc_store_message])
  show "steady w (TryEmbedURLs E get_embed mid urls cid w)"
    unfolding TryEmbedURLs_def Let_def relay_defs
    by (auto intro!: steady_intros steady_call [OF acc_embed_loop] steady_call [OF acc.R_GetMessage])
qed

lemma steady_reserve: "steady w v \<Longrightarrow> steady w (reserve_slot E ty data msg cid v)"
  unfolding reserve_slot_def Let_def by (intro steady_intros)

lemma steady_message_send: "steady w (HandleMessageSendRequest E cid msg w)"
proof -
  have new: "snd (new_message E req a l v) = tick_world (tick_world v)" for req a l v
    by (cases "ParseMessageContent (MessageSendRequest_Content req)") (simp add: new_message_def)
  have step: "steady w (tx_value cid w (GetPermissionsByChannel E a ch (begin_tx w)) f)"
    if "\<And>perms tx. steady w (store_tx tx w) \<Longrightarrow> steady w (f perms tx)" for a ch f
  proof -
    obtain x tx where r: "GetPermissionsByChannel E a ch (begin_tx w) = (x, tx)" by fastforce
    then have "same_accounts (begin_tx w) tx"
      using acc.R_GetPermissionsByChannel [of "begin_tx w" E a ch] by simp
    then have tx: "W_tick w \<le> Tx_tick tx" "steady w (store_tx tx w)"
      by (auto simp: same_accounts_def steady_def store_tx_def same_maps_def begin_tx_def NewTransaction_def)
    then show ?thesis
      unfolding tx_value_def r using that by (cases x) (simp_all add: steady_leak)
  qed
  have finish: "steady w v \<Longrightarrow> steady w (FinalizeMessageSendRequest E full seq cid v)" for full seq v
    by (rule steady_trans [OF _ steady_messages(5)])
  show ?thesis
    unfolding HandleMessageSendRequest_def Let_def
    by (intro steady_intros step)
      (auto simp: case_prod_beta' new intro!: steady_intros steady_reserve finish)
qed

section \<open>Tasks, uploads and background loops\<close>

lemma fold_steady: "(\<And>x v. steady w v \<Longrightarrow> steady w (f x v)) \<Longrightarrow> steady w v \<Longrightarrow> steady w (fold f xs v)"
  by (rule fold_keeps [where P = "steady w"])

lemma steady_relays: "steady w (run_Relay visit ev w)" "steady w (run_RelayByChannel visit ev ch w)"
  unfolding run_Relay_def run_RelayByChannel_def Let_def relay_to_viewer_def
  by (rule fold_steady; auto intro: steady_intros split: option.split)+

lemma steady_set_index: "same_maps (W_index w) ix \<Longrightarrow> steady w (set_index ix w)"
  by (simp add: steady_def set_index_def)

lemma steady_push: "steady w (push_changes visit w)"
proof -
  have "steady w (set_index (snd (PopAllChanges (W_index w))) w)"
    by (rule steady_set_index) (simp add: PopAllChanges_def same_maps_def)
  then show ?thesis
    unfolding push_changes_def Let_def push_to_def
    by (auto split: prod.split option.split intro!: fold_steady steady_intros)
qed

lemma same_maps_UpdateUserList: "UpdateUserList visit ix = Some ix' \<Longrightarrow> same_maps ix ix'"
  by (auto simp: UpdateUserList_def Let_def same_maps_def split: option.splits)

lemma steady_refresh: "refresh_user_list visit w = Some w' \<Longrightarrow> steady w w'"
  by (auto simp: refresh_user_list_def intro: steady_set_index same_maps_UpdateUserList split: if_splits)

lemma steady_drain: "steady w (drain cid w)"
  by (auto simp: drain_def WriteUnsolicited_def steady_def same_maps_def split: list.split)

lemma steady_shut: "steady w (shut_socket cid w)"
  by (simp add: steady_def same_maps_def)

lemma steady_task:
  assumes "run_task E get_embed visit task (w\<lparr>W_tasks := ts\<rparr>) = Some w'"
  shows "steady w w'"
proof -
  have "steady w (w\<lparr>W_tasks := ts\<rparr>)" by (simp add: steady_def same_maps_def)
  then show ?thesis
    using assms steady_relays [of "w\<lparr>W_tasks := ts\<rparr>"] steady_messages(6) [of "w\<lparr>W_tasks := ts\<rparr>"]
    by (auto simp: run_task_def Let_def split: Task.splits if_splits intro: steady_trans)
qed

lemma steady_upload_result: "steady w v \<Longrightarrow> steady w (snd (upload_result w v))"
  by (simp add: upload_result_def steady_def)

lemma steady_attach_file:
  "steady w (snd s) \<Longrightarrow> steady w (snd (snd (attach_file E store_file raw content s)))"
  by (cases s) (auto simp: attach_file_def intro: steady_intros split: option.split go_result.split)

lemma steady_message_upload:
  "steady w (HandleMessageSendUpload E store_file message pending parts cid w)"
proof -
  let ?m = "message\<lparr>Message_ID := Env_generate E (W_tick w)\<rparr>"
  let ?r = "ReadFiles (attach_file E store_file) None FileMetadata_zero parts (?m, tick_world w)"
  obtain x m v where r: "?r = (x, (m, v))" by (metis surj_pair)
  have "steady w (snd (snd ?r))"
    by (rule ReadFiles_keeps [where P = "\<lambda>s. steady w (snd s)"])
      (simp_all add: steady_attach_file steady_intros)
  then have v: "steady w v" by (simp add: r)
  show ?thesis
    unfolding HandleMessageSendUpload_def Let_def r
    by (cases x) (auto intro: steady_intros v steady_trans [OF v steady_messages(5)])
qed

lemma steady_pop: "steady w (snd (PopPendingRequest slot w))"
  by (simp add: PopPendingRequest_def steady_def same_maps_def split: option.split)

section \<open>Logging in\<close>

lemma steady_TryAuthenticate: "steady w (TryAuthenticate E token cid w)"
  unfolding TryAuthenticate_def
  by (rule steady_call [OF acc_logins(1)]) (auto intro!: steady_intros)

lemma steady_hCaptcha: "steady w (snd (hCaptchaVerify E response site secret w))"
  by (simp add: hCaptchaVerify_def Let_def steady_def same_maps_def)

text \<open>The captcha check hands on a world and a transaction in which nothing has changed.\<close>

lemma captcha_world:
  assumes "steady_tx w tx"
    and "hCaptchaVerify E response site secret (w\<lparr>W_tick := Tx_tick tx\<rparr>) = (x, v)"
  shows "steady w v" and "W_db v = W_db w" and "steady_tx v (tx\<lparr>Tx_tick := W_tick v\<rparr>)"
proof -
  let ?w = "w\<lparr>W_tick := Tx_tick tx\<rparr>"
  have "steady w ?w" using assms(1) by (simp add: steady_def steady_tx_def same_maps_def)
  moreover have "steady ?w v" using steady_hCaptcha [of ?w] assms(2) by (metis snd_conv)
  ultimately show "steady w v" by (rule steady_trans)
  show db: "W_db v = W_db w"
    using assms(2) by (auto simp: hCaptchaVerify_def Let_def split: if_splits)
  show "steady_tx v (tx\<lparr>Tx_tick := W_tick v\<rparr>)"
    using assms(1) db by (simp add: steady_tx_def)
qed

lemma steady_captcha:
  assumes "steady_tx w tx"
    and "\<And>v tx'. steady w v \<Longrightarrow> W_db v = W_db w \<Longrightarrow> Tx_db tx' = Tx_db tx \<Longrightarrow> steady_tx v tx' \<Longrightarrow> P (k v tx')"
    and "\<And>v. steady w v \<Longrightarrow> P v"
  shows "P (with_captcha E needed response settings cid w tx k)"
proof (cases needed)
  case True
  obtain x v where r: "hCaptchaVerify E response (Settings_CaptchaSiteKey settings)
      (Settings_CaptchaSecretKey settings) (w\<lparr>W_tick := Tx_tick tx\<rparr>) = (x, v)" by fastforce
  note v = captcha_world [OF assms(1) r]
  then have cont: "P (k v (tx\<lparr>Tx_tick := W_tick v\<rparr>))" by (intro assms(2)) simp_all
  have "steady w (leak_tx (tx\<lparr>Tx_tick := W_tick v\<rparr>) v)" for tx
    using v(1) by (simp add: steady_def leak_tx_def)
  then show ?thesis
    using True r cont by (cases x) (auto simp: with_captcha_def panic_tx_def intro!: assms(3) steady_intros)
next
  case False
  with assms show ?thesis by (simp add: with_captcha_def)
qed

lemma steady_login: "steady w (HandleLoginRequest E cid msg w)"
proof -
  have "steady v (tx_call cid v (Login E u p tx) (\<lambda>e tx. refuse E True e cid v tx)
      (\<lambda>(uid, token) tx. Write (token_event token) cid
        (OnAuthentication E uid token cid (end_tx E False tx v))))" if "steady_tx v tx" for v u p tx
    by (rule steady_call [OF acc_logins(2) that]) (auto intro!: steady_intros)
  then show ?thesis
    unfolding HandleLoginRequest_def
    by (intro steady_intros steady_call [OF acc.R_GetSettings] steady_begin steady_captcha [where P = "steady w"])
      (auto intro: steady_trans)
qed

section \<open>The mirror\<close>

text \<open>A user of the index without the roles that the index no longer knows.\<close>

definition live_user :: "Index \<Rightarrow> User \<Rightarrow> User" where
  "live_user ix u = u\<lparr>User_Roles := filter (\<lambda>rid. get (Index_Roles ix) rid \<noteq> None) (User_Roles u)\<rparr>"

definition mirrors :: "Database \<Rightarrow> Index \<Rightarrow> bool" where
  "mirrors db ix \<longleftrightarrow> DB_settings db = Some (Index_Settings ix) \<and>
     (\<forall>rid. get (Index_Roles ix) rid = role_row db rid) \<and>
     (\<forall>uid. map_option (live_user ix) (get (Index_Users ix) uid) =
        map_option (index_user db) (user_row db uid))"

text \<open>Snowflakes are positive, beyond the small numbers that the code reserves, and grow with time;
  every id in use was issued before.\<close>

definition snowflakes :: "Env \<Rightarrow> bool" where
  "snowflakes E \<longleftrightarrow> strict_mono (Env_generate E) \<and> (\<forall>t. 2 < Env_generate E t)"

definition ids_in_use :: "Database \<Rightarrow> Index \<Rightarrow> snowflake set" where
  "ids_in_use db ix = user_ids db \<union> role_ids db \<union>
     {rid. \<exists>uid u. get (Index_Users ix) uid = Some u \<and> rid \<in> set (User_Roles u)}"

definition issued :: "Env \<Rightarrow> nat \<Rightarrow> snowflake set \<Rightarrow> bool" where
  "issued E t ids \<longleftrightarrow> (\<forall>k \<in> ids. 0 < k \<and> k < Env_generate E t)"

definition mirrored :: "Env \<Rightarrow> World \<Rightarrow> bool" where
  "mirrored E w \<longleftrightarrow> mirrors (W_db w) (W_index w) \<and>
     issued E (W_tick w) (ids_in_use (W_db w) (W_index w))"

lemma generate_mono: "snowflakes E \<Longrightarrow> t \<le> t' \<Longrightarrow> Env_generate E t \<le> Env_generate E t'"
  by (simp add: snowflakes_def strict_mono_less_eq)

lemma issued_later: "snowflakes E \<Longrightarrow> issued E t ids \<Longrightarrow> t \<le> t' \<Longrightarrow> ids' \<subseteq> ids \<Longrightarrow> issued E t' ids'"
  unfolding issued_def by (meson generate_mono order_less_le_trans subsetD)

lemma issued_new:
  assumes "snowflakes E" and "issued E t ids" and "t \<le> s" and "s < t'" and "ids' \<subseteq> insert (Env_generate E s) ids"
  shows "issued E t' ids'"
proof -
  have "issued E t' ids" using assms(1-4) by (auto intro: issued_later)
  moreover have "Env_generate E s < Env_generate E t'" "0 < Env_generate E s"
    using assms(1,4) by (simp_all add: snowflakes_def strict_mono_less) (metis less_trans zero_less_numeral)
  ultimately show ?thesis using assms(5) unfolding issued_def by blast
qed

lemma issued_fresh: "snowflakes E \<Longrightarrow> issued E t ids \<Longrightarrow> t \<le> s \<Longrightarrow> Env_generate E s \<notin> ids"
  unfolding issued_def by (meson generate_mono leD)

lemma mirrored_steady:
  assumes "snowflakes E" and "mirrored E w" and "steady w w'"
  shows "mirrored E w'"
proof -
  have same: "accounts (W_db w') = accounts (W_db w)" "same_maps (W_index w) (W_index w')" "W_tick w \<le> W_tick w'"
    using assms(3) by (simp_all add: steady_def)
  have "live_user (W_index w') = live_user (W_index w)"
    using same(2) by (simp add: live_user_def same_maps_def fun_eq_iff)
  moreover have "ids_in_use (W_db w') (W_index w') = ids_in_use (W_db w) (W_index w)"
    using same(2) accountsD [OF same(1)] by (simp add: ids_in_use_def same_maps_def)
  ultimately show ?thesis
    using assms(1,2) same(2,3) accounts_views [OF same(1)] accountsD [OF same(1)]
    by (auto simp: mirrored_def mirrors_def same_maps_def intro: issued_later)
qed

text \<open>Two databases that agree on everything but one user.\<close>

definition differs_at :: "snowflake \<Rightarrow> Database \<Rightarrow> Database \<Rightarrow> bool" where
  "differs_at k db db' \<longleftrightarrow> DB_settings db' = DB_settings db \<and> DB_roles db' = DB_roles db \<and>
     (\<forall>uid. uid \<noteq> k \<longrightarrow> map_option (index_user db') (user_row db' uid) =
        map_option (index_user db) (user_row db uid)) \<and>
     user_ids db' \<subseteq> user_ids db \<union> ({k} - {0})"

definition touches :: "snowflake \<Rightarrow> Transaction \<Rightarrow> Transaction \<Rightarrow> bool" where
  "touches k tx tx' \<longleftrightarrow> differs_at k (Tx_db tx) (Tx_db tx') \<and> Tx_commit tx' = Tx_commit tx \<and>
     Tx_tick tx \<le> Tx_tick tx'"

lemma differs_at_trans:
  assumes "differs_at k db db1" and "differs_at k db1 db2"
  shows "differs_at k db db2"
proof -
  have "user_ids db1 \<subseteq> user_ids db \<union> ({k} - {0})" "user_ids db2 \<subseteq> user_ids db1 \<union> ({k} - {0})"
    using assms by (simp_all add: differs_at_def)
  then have "user_ids db2 \<subseteq> user_ids db \<union> ({k} - {0})"
    by (meson Un_least Un_upper2 order_trans)
  then show ?thesis using assms by (simp add: differs_at_def)
qed

lemma differs_at_refl [simp]: "differs_at k db db"
  by (simp add: differs_at_def)

interpretation touch: tx_frame "touches k" for k
  by unfold_locales (auto simp: touches_def intro: differs_at_trans)

lemma differs_atI:
  assumes "DB_settings db' = DB_settings db" and "DB_roles db' = DB_roles db"
    and "\<And>uid. uid \<noteq> k \<Longrightarrow> user_row db' uid = user_row db uid \<and> roles_of_user db' uid = roles_of_user db uid"
    and "user_ids db' \<subseteq> user_ids db \<union> ({k} - {0})"
  shows "differs_at k db db'"
proof -
  have "index_user db' u = index_user db u" if "uid \<noteq> k" "user_row db uid = Some u" for u uid
    using assms(3) [OF that(1)] user_row_SomeD [OF that(2)]
    by (simp add: index_user_def user_view_def)
  then have "map_option (index_user db') (user_row db' uid) = map_option (index_user db) (user_row db uid)"
    if "uid \<noteq> k" for uid
    using that assms(3) [OF that] by (cases "user_row db uid") simp_all
  then show ?thesis using assms(1,2,4) by (simp add: differs_at_def)
qed

lemma find_map_other:
  "(\<And>u. UserRow_id (f u) = UserRow_id u) \<Longrightarrow> uid \<noteq> k \<Longrightarrow>
     List.find (\<lambda>u. UserRow_id u = uid) (map (\<lambda>u. if UserRow_id u = k then f u else u) us) =
     List.find (\<lambda>u. UserRow_id u = uid) us"
  by (induction us) auto

lemma find_last: "List.find P (us @ [u]) =
    (case List.find P us of None \<Rightarrow> if P u then Some u else None | Some v \<Rightarrow> Some v)"
  by (induction us) auto

lemma differs_at_accounts: "accounts db' = accounts db \<Longrightarrow> differs_at k db db'"
  using accountsD [of db' db] accounts_views [of db' db] by (simp add: differs_at_def)

lemma touches_accounts: "same_accounts tx tx' \<Longrightarrow> touches k tx tx'"
  by (simp add: touches_def same_accounts_def differs_at_accounts)

lemma differs_at_writes:
  "(\<And>u. UserRow_id (f u) = UserRow_id u) \<Longrightarrow> differs_at k db (update_user k f db)"
  "insert_user_role k rid db = Some db' \<Longrightarrow> differs_at k db db'"
  "differs_at k db (delete_user_role k rid db)"
  "insert_user u db = Some db' \<Longrightarrow> UserRow_id u \<noteq> 0 \<Longrightarrow> differs_at (UserRow_id u) db db'"
proof -
  show "differs_at k db (update_user k f db)" if f: "\<And>u. UserRow_id (f u) = UserRow_id u"
  proof (rule differs_atI)
    fix uid assume "uid \<noteq> k"
    then have "user_row (update_user k f db) uid = user_row db uid"
      by (simp add: user_row_def update_user_def find_map_other [OF f])
    then show "user_row (update_user k f db) uid = user_row db uid \<and>
        roles_of_user (update_user k f db) uid = roles_of_user db uid"
      by (simp add: roles_of_user_def update_user_def)
  qed (use user_ids_update_user [OF f] in \<open>auto simp: update_user_def\<close>)
  show "differs_at k db db'" if "insert_user_role k rid db = Some db'"
    using that by (intro differs_atI) (auto simp: insert_user_role_def user_row_def roles_of_user_def split: if_splits)
  show "differs_at k db (delete_user_role k rid db)"
    by (rule differs_atI) (auto simp: delete_user_role_def user_row_def roles_of_user_def intro!: arg_cong [where f = "map snd"] filter_cong)
  show "differs_at (UserRow_id u) db db'" if "insert_user u db = Some db'" "UserRow_id u \<noteq> 0"
    using that by (intro differs_atI)
      (auto simp: insert_user_def user_row_def roles_of_user_def find_last split: if_splits option.split)
qed

section \<open>What the calls of the writing handlers return\<close>

lemma Execute_changes:
  assumes "Execute E upd tx = (Ok x, tx')"
  shows "\<exists>db. upd (Tx_db tx) = Some db \<and> tx' = (next_tick tx)\<lparr>Tx_db := db\<rparr>"
  using assms by (auto simp: Execute_def split: if_splits option.splits)

lemma touches_Execute:
  assumes "\<And>db db'. upd db = Some db' \<Longrightarrow> differs_at k db db'"
  shows "touches k tx (snd (Execute E upd tx))"
  using assms by (auto simp: Execute_def touches_def split: option.split)

lemma touches_write: "(\<And>s. touches k s (snd (f s))) \<Longrightarrow> touches k tx (snd (Prepare (MarkAsWrite tx) f))"
  by (rule touch.R_from_mark, rule touch.R_Prepare)

lemma touches_writes [simp, intro!]:
  "touches uid tx (snd (SetUserProfile E uid a b c d e tx))"
  "touches uid tx (snd (AddRoleToUser E uid rid tx))"
  "touches uid tx (snd (DeleteRoleFromUser E uid rid tx))"
proof -
  show "touches uid tx (snd (SetUserProfile E uid a b c d e tx))"
    unfolding SetUserProfile_def
    by (intro touches_write) (auto intro!: touches_Execute differs_at_writes(1) simp: set_profile_columns_def)
  show "touches uid tx (snd (AddRoleToUser E uid rid tx))"
    unfolding AddRoleToUser_def by (intro touches_write) (auto intro!: touches_Execute differs_at_writes(2))
  show "touches uid tx (snd (DeleteRoleFromUser E uid rid tx))"
    unfolding DeleteRoleFromUser_def by (intro touches_write) (auto intro!: touches_Execute differs_at_writes(3))
qed

lemma GetUser_returns:
  assumes "GetUser E key tx = (Ok user, tx')" and "keys_ok (Tx_db tx)"
  obtains r where "r \<in> set (DB_users (Tx_db tx))" and "user = user_view (Tx_db tx) r"
    and "key \<noteq> 0 \<Longrightarrow> UserRow_id r = key"
proof -
  have "distinct (map UserRow_id (select_users key (Tx_db tx)))"
    using assms(2) unfolding select_users_def keys_ok_def by (simp add: distinct_map_filter)
  from group_users_rows [OF this, of None "[]"]
  have users: "group_users [] None (user_rows key (Tx_db tx)) =
      map (user_view (Tx_db tx)) (select_users key (Tx_db tx))"
    by (simp add: user_rows_def)
  obtain us tx1 where "QueryUsers E key tx = (Ok us, tx1)" and us: "user \<in> set us"
    using assms(1) unfolding GetUser_def by (auto elim!: and_then_OkE split: list.splits)
  then have "us = group_users [] None (user_rows key (Tx_db tx))"
    unfolding QueryUsers_def
    by (auto dest!: Prepare_Ok with_code_Ok elim!: and_then_OkE simp: step_rows_def split: if_splits)
  with us users show ?thesis using that by (auto simp: select_users_def)
qed

lemma GetRole_returns:
  assumes "GetRole E key tx = (Ok role, tx')"
  shows "role \<in> set (DB_roles (Tx_db tx))" and "key \<noteq> 0 \<Longrightarrow> Role_ID role = key"
proof -
  obtain rs where "role_rows key (Tx_db tx) = role # rs"
    using assms unfolding GetRole_def QueryRoles_def
    by (auto dest!: Prepare_Ok with_code_Ok elim!: and_then_OkE simp: step_rows_def
        split: list.splits if_splits)
  then have "role \<in> set (role_rows key (Tx_db tx))" by simp
  then show "role \<in> set (DB_roles (Tx_db tx))" and "key \<noteq> 0 \<Longrightarrow> Role_ID role = key"
    by (simp_all add: role_rows_def)
qed

lemma AddRole_Ok:
  assumes "AddRole E a b c d e f tx = (Ok rid, tx')"
  shows "\<exists>r. Role_ID r = rid \<and> rid = Env_generate E (Tx_tick tx) \<and> rid \<notin> role_ids (Tx_db tx) \<and>
    Tx_tick tx < Tx_tick tx' \<and> Tx_db tx' = (Tx_db tx)\<lparr>DB_roles := DB_roles (Tx_db tx) @ [r]\<rparr>"
  using assms unfolding AddRole_def Let_def
  by (auto dest!: Prepare_Ok with_code_Ok Execute_changes elim!: and_then_OkE
      simp: insert_role_def generate_id_def split: if_splits
      intro!: exI [of _ "\<lparr>Role_ID = rid, Role_Name = a, Role_Color = b, Role_Position = c,
        Role_Permissions = d, Role_Hoisted = e, Role_Mentionable = f\<rparr>"])

lemma UpdateRole_Ok:
  assumes "UpdateRole E key a b c d e f tx = (Ok x, tx')"
  shows "\<exists>r. Role_ID r = key \<and> update_role r (Tx_db tx) = Some (Tx_db tx')"
  using assms unfolding UpdateRole_def
  by (auto dest!: Prepare_Ok with_code_Ok Execute_changes intro!: exI [of _ "\<lparr>Role_ID = key, Role_Name = a,
      Role_Color = b, Role_Position = c, Role_Permissions = d, Role_Hoisted = e, Role_Mentionable = f\<rparr>"])

lemma DeleteRole_Ok:
  "DeleteRole E key tx = (Ok x, tx') \<Longrightarrow> Tx_db tx' = delete_role_row key (Tx_db tx)"
  unfolding DeleteRole_def by (auto dest!: Prepare_Ok with_code_Ok Execute_changes)

lemma AddUser_touches:
  assumes "AddUser E a b c d e tx = (Ok uid, tx')" and "snowflakes E"
  shows "\<exists>t. uid = Env_generate E t \<and> Tx_tick tx \<le> t \<and> t < Tx_tick tx' \<and> touches uid tx tx'"
proof -
  obtain x t1 where valid: "IsUsernameValid E a tx = (Ok x, t1)"
    and rest: "uid = Env_generate E (Tx_tick t1)" "Tx_tick t1 < Tx_tick tx'" "Tx_commit tx' = Tx_commit t1"
      "\<exists>u. UserRow_id u = uid \<and> insert_user u (Tx_db t1) = Some (Tx_db tx')"
    using assms(1) unfolding AddUser_def Let_def
    by (auto dest!: Prepare_Ok with_code_Ok Execute_changes elim!: and_then_OkE simp: generate_id_def)
      (metis UserRow.select_convs(1))
  have "touches uid tx t1" using touch.R_IsUsernameValid [of uid tx E a] valid by simp
  moreover have "uid \<noteq> 0" using assms(2) rest(1) by (metis snowflakes_def less_irrefl not_numeral_less_zero)
  with rest(4) have "differs_at uid (Tx_db t1) (Tx_db tx')" using differs_at_writes(4) by metis
  ultimately show ?thesis
    using rest(1-3) by (auto simp: touches_def intro: differs_at_trans)
qed

section \<open>Publishing a user\<close>

definition user_put :: "User \<Rightarrow> Index \<Rightarrow> Index \<Rightarrow> bool" where
  "user_put user ix ix' \<longleftrightarrow> get (Index_Users ix') = (get (Index_Users ix))(User_ID user \<mapsto> processUser user) \<and>
     Index_Roles ix' = Index_Roles ix \<and> Index_Settings ix' = Index_Settings ix"

lemma RepositionUser_total: "get (Index_UserInfos ix) key \<noteq> None \<Longrightarrow> RepositionUser visit key ix \<noteq> None"
  unfolding RepositionUser_def Let_def by (auto split: option.split)

lemma RepositionUser_maps: "RepositionUser visit key ix = Some ix' \<Longrightarrow> same_maps ix ix'"
proof -
  assume *: "RepositionUser visit key ix = Some ix'"
  have same: "same_maps ix (ix\<lparr>Index_List := l\<rparr>)" "same_maps ix (ix\<lparr>Index_List := l, Index_Changes := c\<rparr>)"
    "same_maps ix ix" for ix l c
    by (simp_all add: same_maps_def)
  have if_Some: "(if b then Some x else Some y) = Some z \<Longrightarrow> z = x \<or> z = y" for b and x y z :: Index
    by (simp split: if_splits)
  show ?thesis
  proof (cases "get (Index_Users ix) key")
    case None
    with * show ?thesis by (simp add: RepositionUser_def same)
  next
    case user: (Some user)
    let ?groups = "UserList_Groups (Index_List ix)"
    show ?thesis
    proof (cases "List.find (\<lambda>gid. key \<in> set (get_slice ?groups gid)) (visit (keys ?groups))")
      case None
      with * user show ?thesis by (simp add: RepositionUser_def Let_def same)
    next
      case group: (Some gid)
      show ?thesis
      proof (cases "get (Index_UserInfos ix) key")
        case None
        with * user group show ?thesis by (simp add: RepositionUser_def Let_def)
      next
        case (Some ui)
        from if_Some [OF * [unfolded RepositionUser_def Let_def user group Some option.case]]
        show ?thesis by (elim disjE) (simp_all only: same)
      qed
    qed
  qed
qed

lemma user_put_set_user: "user_put user ix (set_user user ix)"
  by (simp add: user_put_def set_user_def)

lemma publish_user_put:
  "user_put user (W_index w) (W_index (publish_user visit cid user w))"
  "W_db (publish_user visit cid user w) = W_db w" "W_tick (publish_user visit cid user w) = W_tick w"
proof -
  let ?ix = "set_user user (W_index w)"
  have "get (Index_UserInfos ?ix) (User_ID user) \<noteq> None" by (simp add: set_user_def)
  then obtain ix' where r: "RepositionUser visit (User_ID user) ?ix = Some ix'"
    using RepositionUser_total by blast
  then have "user_put user (W_index w) ix'"
    using user_put_set_user [of user "W_index w"] RepositionUser_maps [OF r]
    by (simp add: user_put_def same_maps_def)
  then show "user_put user (W_index w) (W_index (publish_user visit cid user w))"
    "W_db (publish_user visit cid user w) = W_db w" "W_tick (publish_user visit cid user w) = W_tick w"
    using r by (simp_all add: publish_user_def index_UpdateUser_def relay_defs set_index_def)
qed

lemma roles_of_user_exist: "db_ok db \<Longrightarrow> set (roles_of_user db uid) \<subseteq> role_ids db"
  by (auto simp: db_ok_def refs_ok_def refers_def roles_of_user_def)

lemma role_row_exists: "role_row db rid \<noteq> None \<longleftrightarrow> rid \<in> role_ids db"
  by (simp add: role_row_def find_key_None)

lemma live_index_user:
  assumes "\<And>rid. get (Index_Roles ix) rid = role_row db rid" and "db_ok db"
  shows "live_user ix (index_user db u) = index_user db u"
proof -
  have "\<forall>rid \<in> set (roles_of_user db (UserRow_id u)). role_row db rid \<noteq> None"
    using roles_of_user_exist [OF assms(2)] role_row_exists by blast
  then have "filter (\<lambda>rid. role_row db rid \<noteq> None) (roles_of_user db (UserRow_id u)) =
      roles_of_user db (UserRow_id u)"
    by (simp add: filter_id_conv)
  then show ?thesis
    by (simp add: live_user_def assms(1) index_user_def user_view_def processUser_def)
qed

lemma user_row_unique:
  "db_ok db \<Longrightarrow> u \<in> set (DB_users db) \<Longrightarrow> user_row db (UserRow_id u) = Some u"
  by (simp add: user_row_def find_key_iff db_ok_def keys_ok_def)

lemma mirrors_put:
  assumes "mirrors db ix" and "differs_at k db db'" and "db_ok db'" and "0 \<notin> user_ids db"
    and "r \<in> set (DB_users db')" and "k \<noteq> 0 \<Longrightarrow> UserRow_id r = k"
    and "user_put (user_view db' r) ix ix'"
  shows "mirrors db' ix'"
proof -
  have ix': "get (Index_Users ix') = (get (Index_Users ix))(UserRow_id r \<mapsto> index_user db' r)"
    "Index_Roles ix' = Index_Roles ix" "Index_Settings ix' = Index_Settings ix"
    using assms(7) by (simp_all add: user_put_def index_user_def)
  have roles: "get (Index_Roles ix') rid = role_row db' rid" for rid
    using assms(1,2) by (simp add: ix' mirrors_def differs_at_def role_row_def)
  have live: "live_user ix' = live_user ix"
    by (simp add: fun_eq_iff live_user_def ix'(2))
  have "map_option (live_user ix') (get (Index_Users ix') uid) = map_option (index_user db') (user_row db' uid)" for uid
  proof (cases "uid = UserRow_id r")
    case True
    then show ?thesis
      using live_index_user [OF roles assms(3), of r] user_row_unique [OF assms(3,5)] by (simp add: ix'(1))
  next
    case False
    have "map_option (index_user db) (user_row db uid) = map_option (index_user db') (user_row db' uid)"
    proof (cases "uid = k")
      case True
      with False assms(6) have "uid = 0" by blast
      moreover have "0 \<notin> user_ids db'" using assms(2,4) unfolding differs_at_def by blast
      moreover have "user_row d 0 = None" if "0 \<notin> user_ids d" for d
        using that unfolding user_row_def find_key_None .
      ultimately show ?thesis using assms(4) by simp
    qed (use assms(2) in \<open>simp add: differs_at_def\<close>)
    then show ?thesis using False assms(1) by (simp add: ix'(1) live mirrors_def)
  qed
  then show ?thesis using assms(1,2) roles by (simp add: mirrors_def differs_at_def ix'(3))
qed

lemma ids_put:
  assumes "differs_at k db db'" and "db_ok db'" and "user_put (user_view db' r) ix ix'"
  shows "ids_in_use db' ix' \<subseteq> ids_in_use db ix \<union> ({k} - {0})"
proof -
  have "get (Index_Users ix') = (get (Index_Users ix))(UserRow_id r \<mapsto> index_user db' r)"
    using assms(3) by (simp add: user_put_def index_user_def)
  moreover have "User_Roles (index_user db' r) = roles_of_user db' (UserRow_id r)"
    by (simp add: index_user_def user_view_def processUser_def)
  moreover have "role_ids db' = role_ids db" "user_ids db' \<subseteq> user_ids db \<union> ({k} - {0})"
    using assms(1) by (simp_all add: differs_at_def)
  moreover have "set (roles_of_user db' (UserRow_id r)) \<subseteq> role_ids db'"
    by (rule roles_of_user_exist [OF assms(2)])
  ultimately show ?thesis
    unfolding ids_in_use_def by (auto split: if_splits; blast)
qed

text \<open>A transaction in which one user was changed, and its end by publishing what was read.\<close>

definition changing :: "World \<Rightarrow> snowflake \<Rightarrow> Transaction \<Rightarrow> bool" where
  "changing w k tx \<longleftrightarrow> in_tx w tx \<and> W_tick w \<le> Tx_tick tx \<and> differs_at k (W_db w) (Tx_db tx)"

lemma W_tick_end_tx: "Tx_commit tx = Some db \<Longrightarrow> Tx_tick tx \<le> W_tick (end_tx E failed tx w)"
  by (simp add: end_tx_def store_tx_def Commit_def UpdateLastWrite_def Let_def)

lemma publish_mirrored:
  assumes "snowflakes E" and "commits E" and "db_ok (W_db w)" and "mirrored E w" and "changing w k tx"
    and "k \<in> ids_in_use (W_db w) (W_index w) \<or> k = 0 \<or>
      (\<exists>t. k = Env_generate E t \<and> W_tick w \<le> t \<and> t < Tx_tick tx)"
    and "r \<in> set (DB_users (Tx_db tx))" and "k \<noteq> 0 \<Longrightarrow> UserRow_id r = k"
    and "W_db w' = W_db (end_tx E False tx w)" and "W_tick (end_tx E False tx w) \<le> W_tick w'"
    and "user_put (user_view (Tx_db tx) r) (W_index w) (W_index w')"
  shows "mirrored E w'"
proof -
  have tx: "in_tx w tx" "W_tick w \<le> Tx_tick tx" "differs_at k (W_db w) (Tx_db tx)"
    using assms(5) by (simp_all add: changing_def)
  then have ok: "db_ok (Tx_db tx)" using assms(3) by (simp add: in_tx_def)
  have db: "W_db w' = Tx_db tx"
    using assms(2,9) tx(1) by (simp add: W_db_end_tx commits_def)
  have tick: "Tx_tick tx \<le> W_tick w'"
    using W_tick_end_tx tx(1) assms(10) unfolding in_tx_def by (meson order_trans)
  have old: "issued E (W_tick w) (ids_in_use (W_db w) (W_index w))" "mirrors (W_db w) (W_index w)"
    using assms(4) by (simp_all add: mirrored_def)
  then have zero: "0 \<notin> user_ids (W_db w)" by (auto simp: issued_def ids_in_use_def)
  have "mirrors (Tx_db tx) (W_index w')"
    by (rule mirrors_put [OF old(2) tx(3) ok zero assms(7,8,11)])
  moreover have ids: "ids_in_use (Tx_db tx) (W_index w') \<subseteq> ids_in_use (W_db w) (W_index w) \<union> ({k} - {0})"
    by (rule ids_put [OF tx(3) ok assms(11)])
  have "issued E (W_tick w') (ids_in_use (Tx_db tx) (W_index w'))"
    using assms(6)
  proof (elim disjE exE conjE)
    fix t assume "k = Env_generate E t" "W_tick w \<le> t" "t < Tx_tick tx"
    with ids tick show ?thesis by (intro issued_new [OF assms(1) old(1)]) auto
  qed (use ids tick tx(2) in \<open>auto intro: issued_later [OF assms(1) old(1)]\<close>)
  ultimately show ?thesis by (simp add: mirrored_def db)
qed

end
