(* ===== verification/Index_Mirror_Handlers.thy ===== *)
theory Index_Mirror_Handlers
  imports Index_Mirror
begin

text \<open>
  The handlers that write users and roles, and every other step: after each of them the index is
  the mirror of the database again, if it was before.
\<close>

section \<open>The handlers that write users and roles\<close>

definition holding :: "World \<Rightarrow> Transaction \<Rightarrow> bool" where
  "holding w tx \<longleftrightarrow> in_tx w tx \<and> steady_tx w tx"

lemma holding_begin [simp, intro!]: "holding w (Start (begin_tx w))"
  by (simp add: holding_def)

lemma holding_changing: "holding w tx \<Longrightarrow> changing w k tx"
  by (simp add: holding_def changing_def steady_tx_def differs_at_accounts)

lemma steady_rollback:
  assumes "in_tx w tx" and "W_tick w \<le> Tx_tick tx"
  shows "steady w (refuse E True e cid w tx)"
proof -
  have "steady w (end_tx E True tx w)"
    using assms by (simp add: in_tx_def steady_def same_maps_def end_tx_def store_tx_def Commit_def)
  then show ?thesis unfolding refuse_def by (rule steady_simps(2))
qed

lemma call_holding:
  assumes "extends_tx tx (snd r)" and "same_accounts tx (snd r)" and "holding w tx"
    and "\<And>v. steady w v \<Longrightarrow> P v"
    and "\<And>e tx'. holding w tx' \<Longrightarrow> P (h e tx')"
    and "\<And>x tx'. r = (Ok x, tx') \<Longrightarrow> holding w tx' \<Longrightarrow> P (f x tx')"
  shows "P (tx_call k w r h f)"
proof -
  obtain x tx' where r: "r = (x, tx')" by (cases r)
  with assms(1-3) have tx': "holding w tx'"
    by (auto simp: holding_def extends_tx_def same_accounts_def steady_tx_def)
  then have "steady w (panic_tx k tx' w)" by (intro steady_intros) (simp add: holding_def steady_tx_def)
  with r tx' assms(4-6) show ?thesis by (cases x) simp_all
qed

lemma value_holding:
  assumes "extends_tx tx (snd r)" and "same_accounts tx (snd r)" and "holding w tx"
    and "\<And>v. steady w v \<Longrightarrow> P v"
    and "\<And>x tx'. r = (Ok x, tx') \<Longrightarrow> holding w tx' \<Longrightarrow> P (f x tx')"
  shows "P (tx_value k w r f)"
  unfolding tx_value_def
  using assms by (intro call_holding [where P = P]) (auto simp: holding_def steady_tx_def intro: steady_leak)

lemma call_changing:
  assumes "extends_tx tx (snd r)" and "touches uid tx (snd r)" and "changing w uid tx"
    and "\<And>v. steady w v \<Longrightarrow> P v"
    and "\<And>e tx'. changing w uid tx' \<Longrightarrow> P (h e tx')"
    and "\<And>x tx'. r = (Ok x, tx') \<Longrightarrow> changing w uid tx' \<Longrightarrow> P (f x tx')"
  shows "P (tx_call k w r h f)"
proof -
  obtain x tx' where r: "r = (x, tx')" by (cases r)
  with assms(1-3) have tx': "changing w uid tx'"
    by (auto simp: changing_def extends_tx_def touches_def intro: differs_at_trans)
  then have "steady w (panic_tx k tx' w)" by (intro steady_intros) (simp add: changing_def)
  with r tx' assms(4-6) show ?thesis by (cases x) simp_all
qed

lemma changing_rollback: "changing w uid tx \<Longrightarrow> steady w (refuse E True e cid w tx)"
  by (rule steady_rollback) (simp_all add: changing_def)

lemma holding_refuse: "holding w tx \<Longrightarrow> steady w (refuse E failed e cid w tx)"
  unfolding holding_def by (auto intro: steady_refuse)

lemma decoded_cases:
  "(\<And>v. steady w v \<Longrightarrow> P v) \<Longrightarrow> (\<And>req. P (f req)) \<Longrightarrow> P (decoded cid w r f)"
  by (cases r) (simp_all add: steady_intros)

lemma manage_roles_cases:
  assumes "\<And>v. steady w v \<Longrightarrow> P v" and "\<And>tx. holding w tx \<Longrightarrow> P (k tx)"
  shows "P (with_manage_roles E cid w k)"
  unfolding with_manage_roles_def
  by (rule value_holding [OF user_perms_frames(1) acc_combined(1) holding_begin assms(1)])
    (auto intro!: assms holding_refuse)

lemma Tx_db_GetUser: "GetUser E key tx = (Ok u, tx') \<Longrightarrow> Tx_db tx' = Tx_db tx"
  using reads.R_GetUser [of tx E key] by (simp add: same_tables_def)

lemma Tx_db_GetRole: "GetRole E key tx = (Ok u, tx') \<Longrightarrow> Tx_db tx' = Tx_db tx"
  using reads.R_GetRole [of tx E key] by (simp add: same_tables_def)

text \<open>Reading a user back, committing and publishing: the end of four handlers.\<close>

lemma read_and_publish:
  assumes "snowflakes E" and "commits E" and "db_ok (W_db w)" and "mirrored E w" and "changing w k tx"
    and "k \<in> user_ids (W_db w) \<or> k = 0 \<or> k \<notin> user_ids (Tx_db tx)"
  shows "mirrored E (tx_call cid w (GetUser E k tx) (\<lambda>e tx. refuse E True e cid w tx)
    (\<lambda>user tx. publish_user visit cid user (end_tx E False tx w)))"
proof (rule call_changing [OF open_tx.R_GetUser touches_accounts [OF acc.R_GetUser] assms(5)])
  show "mirrored E v" if "steady w v" for v
    by (rule mirrored_steady [OF assms(1,4) that])
  then show "mirrored E (refuse E True e cid w tx')" if "changing w k tx'" for e tx'
    using changing_rollback [OF that] by blast
  fix user tx' assume get: "GetUser E k tx = (Ok user, tx')" and tx': "changing w k tx'"
  have "keys_ok (Tx_db tx)" using assms(3,5) by (simp add: changing_def in_tx_def db_ok_def)
  from GetUser_returns [OF get this] Tx_db_GetUser [OF get] obtain r where
    r: "r \<in> set (DB_users (Tx_db tx'))" "user = user_view (Tx_db tx') r" "k \<noteq> 0 \<Longrightarrow> UserRow_id r = k"
    by metis
  have "k \<in> user_ids (W_db w)" if "k \<noteq> 0"
  proof -
    have "k \<in> user_ids (Tx_db tx)" using r(1) r(3) [OF that] Tx_db_GetUser [OF get] by auto
    with that assms(6) show ?thesis by blast
  qed
  then have "k \<in> ids_in_use (W_db w) (W_index w) \<or> k = 0" by (auto simp: ids_in_use_def)
  then show "mirrored E (publish_user visit cid user (end_tx E False tx' w))"
    using publish_user_put [where user = user and w = "end_tx E False tx' w" and visit = visit and cid = cid] r
    by (intro publish_mirrored [OF assms(1-4) tx' _ r(1)]) (auto simp: r(2))
qed

lemma SetUserProfile_ids:
  assumes "SetUserProfile E uid a b c d e tx = (Ok x, tx')"
  shows "user_ids (Tx_db tx') = user_ids (Tx_db tx)"
proof -
  have "Tx_db tx' = update_user uid (set_profile_columns a b c d e) (Tx_db tx)"
    using assms unfolding SetUserProfile_def by (auto dest!: Prepare_Ok with_code_Ok Execute_changes)
  then show ?thesis by (simp only:) (rule user_ids_update_user, simp add: set_profile_columns_def)
qed

lemma FinalizeUserUpdate_mirrored:
  assumes "snowflakes E" and "commits E" and "db_ok (W_db w)" and "mirrored E w"
  shows "mirrored E (FinalizeUserUpdateRequest E visit req cid w)"
proof -
  note steady = mirrored_steady [OF assms(1,4)]
  let ?me = "Conn_userID (conn_of w cid)"
  show ?thesis
    unfolding FinalizeUserUpdateRequest_def Let_def
  proof (rule call_changing [OF open_tx.R_SetUserProfile touches_writes(1) holding_changing [OF holding_begin]])
    fix x tx assume tx: "changing w ?me tx"
      and set: "SetUserProfile E ?me (UserUpdateRequest_DisplayName req)
        (UserUpdateRequest_StatusMessage req) (UserUpdateRequest_ProfileMessage req)
        (UserUpdateRequest_ProfileColor req) (UserUpdateRequest_AvatarModified req)
        (Start (begin_tx w)) = (Ok x, tx)"
    have "user_ids (Tx_db tx) = user_ids (W_db w)"
      using SetUserProfile_ids [OF set] by (simp add: begin_tx_def NewTransaction_def)
    then show "mirrored E (tx_call cid w (GetUser E ?me tx) (\<lambda>e tx. refuse E True e cid w tx)
        (\<lambda>user tx. publish_user visit cid user (end_tx E False tx w)))"
      by (intro read_and_publish [OF assms tx]) metis
  qed (auto intro: steady changing_rollback)
qed

lemma change_user_role_mirrored:
  assumes "snowflakes E" and "commits E" and "db_ok (W_db w)" and "mirrored E w"
    and "\<And>tx. extends_tx tx (snd (change tx))" and "\<And>tx. touches uid tx (snd (change tx))"
    and "\<And>tx x tx'. change tx = (Ok x, tx') \<Longrightarrow> user_ids (Tx_db tx') = user_ids (Tx_db tx)"
  shows "mirrored E (change_user_role E visit uid rid nothing_to_do change cid w)"
proof -
  note steady = mirrored_steady [OF assms(1,4)]
  have finish: "mirrored E (tx_call cid w (change tx) (\<lambda>e tx. refuse E True e cid w tx)
      (\<lambda>_ tx. tx_call cid w (GetUser E uid tx) (\<lambda>e tx. refuse E True e cid w tx)
        (\<lambda>user tx. publish_user visit cid user (end_tx E False tx w))))" if "holding w tx" for tx
  proof (rule call_changing [OF assms(5,6) holding_changing [OF that]])
    fix x tx' assume tx': "changing w uid tx'" and c: "change tx = (Ok x, tx')"
    have "accounts (Tx_db tx) = accounts (W_db w)" using that by (simp add: holding_def steady_tx_def)
    then have "user_ids (Tx_db tx') = user_ids (W_db w)"
      using assms(7) [OF c] accountsD(2) by metis
    then show "mirrored E (tx_call cid w (GetUser E uid tx') (\<lambda>e tx. refuse E True e cid w tx)
        (\<lambda>user tx. publish_user visit cid user (end_tx E False tx w)))"
      by (intro read_and_publish [OF assms(1-4) tx']) metis
  qed (auto intro: steady changing_rollback)
  have stop: "mirrored E (end_tx E False tx w)" if "holding w tx" for tx
    using that by (intro steady steady_end_tx) (simp add: holding_def)
  have no: "mirrored E (refuse E failed e cid w tx)" if "holding w tx" for failed e tx
    by (rule steady [OF holding_refuse [OF that]])
  note reads = call_holding [where P = "mirrored E", OF open_tx.R_GetUser acc.R_GetUser]
    call_holding [where P = "mirrored E", OF open_tx.R_GetRole acc.R_GetRole]
    call_holding [where P = "mirrored E", OF ComputeEffectiveRank_frames(1) acc_combined(4)]
  have last: "mirrored E (if b then refuse E False e cid w tx else if c then refuse E False e cid w tx
      else tx_call cid w (change tx) (\<lambda>e tx. refuse E True e cid w tx)
      (\<lambda>_ tx. tx_call cid w (GetUser E uid tx) (\<lambda>e tx. refuse E True e cid w tx)
        (\<lambda>user tx. publish_user visit cid user (end_tx E False tx w))))"
    if "holding w tx" for b c e tx
    using no [OF that] finish [OF that] by simp
  show ?thesis
    unfolding change_user_role_def Let_def
    apply (rule manage_roles_cases, erule steady)
    apply (rule reads(1), assumption, erule steady, erule no)
    apply (rule reads(2), assumption, erule steady, erule no)
    apply (split if_split, intro conjI impI, erule stop)
    apply (rule reads(1), assumption, erule steady, erule no)
    apply (rule reads(3), assumption, erule steady, erule no, clarsimp simp only: split_conv split_paired_all)
    apply (rule reads(3), assumption, erule steady, erule no, clarsimp simp only: split_conv split_paired_all)
    apply (erule last)
    done
qed

text \<open>The roles: the tables with one role added, replaced or removed, and the index likewise.\<close>

lemma role_row_ok_iff: "db_ok db \<Longrightarrow> role_row db rid = Some r \<longleftrightarrow> r \<in> set (DB_roles db) \<and> Role_ID r = rid"
  by (simp add: role_row_def find_key_iff db_ok_def keys_ok_def)

lemma mirrors_role_put:
  assumes "mirrors db ix" and "DB_settings db' = DB_settings db" and "DB_users db' = DB_users db"
    and "DB_user_roles db' = DB_user_roles db" and "role_row db' = (role_row db)(Role_ID r \<mapsto> r)"
    and "Role_ID r \<in> role_ids db \<or> Role_ID r \<notin> ids_in_use db ix"
    and "Index_Users ix' = Index_Users ix" and "Index_Settings ix' = Index_Settings ix"
    and "get (Index_Roles ix') = (get (Index_Roles ix))(Role_ID r \<mapsto> r)"
  shows "mirrors db' ix'"
proof -
  have views: "user_row db' = user_row db" "index_user db' = index_user db"
    using assms(3,4) by (simp_all add: fun_eq_iff user_row_def index_user_def user_view_def roles_of_user_def)
  have "live_user ix' u = live_user ix u" if "get (Index_Users ix) uid = Some u" for uid u
  proof -
    have "get (Index_Roles ix) (Role_ID r) \<noteq> None \<or> Role_ID r \<notin> set (User_Roles u)"
      using assms(1,6) that role_row_exists [of db] by (auto simp: mirrors_def ids_in_use_def)
    then have "filter (\<lambda>rid. get (Index_Roles ix') rid \<noteq> None) (User_Roles u) =
        filter (\<lambda>rid. get (Index_Roles ix) rid \<noteq> None) (User_Roles u)"
      by (intro filter_cong) (auto simp: assms(9))
    then show ?thesis by (simp add: live_user_def)
  qed
  then have "map_option (live_user ix') (get (Index_Users ix) uid) =
      map_option (live_user ix) (get (Index_Users ix) uid)" for uid
    by (cases "get (Index_Users ix) uid") simp_all
  then show ?thesis using assms(1,2) by (simp add: mirrors_def views assms(5,7-9))
qed

lemma find_last_role:
  "List.find (\<lambda>r. Role_ID r = k) (rs @ [r]) = (case List.find (\<lambda>r. Role_ID r = k) rs of
     None \<Rightarrow> if Role_ID r = k then Some r else None | Some v \<Rightarrow> Some v)"
  by (induction rs) auto

lemma role_row_append:
  assumes "Role_ID r \<notin> role_ids db" and "DB_roles db' = DB_roles db @ [r]"
  shows "role_row db' = (role_row db)(Role_ID r \<mapsto> r)"
proof
  fix k
  have "role_row db (Role_ID r) = None" using assms(1) unfolding role_row_def find_key_None .
  then show "role_row db' k = ((role_row db)(Role_ID r \<mapsto> r)) k"
    using assms(2) by (cases "k = Role_ID r") (auto simp: role_row_def find_last_role split: option.split)
qed

lemma find_filter_other:
  "List.find (\<lambda>r. Role_ID r = k) (filter (\<lambda>r. Role_ID r \<noteq> rid) rs) =
     (if k = rid then None else List.find (\<lambda>r. Role_ID r = k) rs)"
  by (induction rs) auto

lemma mirrors_role_del:
  assumes "mirrors db ix"
    and "Index_Users ix' = Index_Users ix" and "Index_Settings ix' = Index_Settings ix"
    and "get (Index_Roles ix') = (get (Index_Roles ix))(rid := None)"
  shows "mirrors (delete_role_row rid db) ix'"
proof -
  let ?db = "delete_role_row rid db" and ?cut = "\<lambda>u. u\<lparr>User_Roles := filter (\<lambda>k. k \<noteq> rid) (User_Roles u)\<rparr>"
  have "role_row ?db = (role_row db)(rid := None)"
    by (simp add: fun_eq_iff role_row_def delete_role_row_def find_filter_other)
  moreover have rows: "user_row ?db = user_row db" "DB_settings ?db = DB_settings db"
    by (simp_all add: fun_eq_iff user_row_def delete_role_row_def)
  moreover have "roles_of_user ?db uid = filter (\<lambda>k. k \<noteq> rid) (roles_of_user db uid)" for uid
    by (simp add: roles_of_user_def delete_role_row_def filter_map comp_def conj_commute)
  then have user: "index_user ?db u = ?cut (index_user db u)" for u
    by (simp add: index_user_def user_view_def processUser_def)
  have live: "live_user ix' u = ?cut (live_user ix u)" for u
  proof -
    have "filter (\<lambda>k. get (Index_Roles ix') k \<noteq> None) (User_Roles u) =
        filter (\<lambda>k. k \<noteq> rid) (filter (\<lambda>k. get (Index_Roles ix) k \<noteq> None) (User_Roles u))"
      unfolding filter_filter by (rule filter_cong) (auto simp: assms(4))
    then show ?thesis by (simp add: live_user_def)
  qed
  have "map_option (live_user ix') (get (Index_Users ix') uid) = map_option (index_user ?db) (user_row ?db uid)" for uid
  proof -
    have "map_option (live_user ix') (get (Index_Users ix') uid) =
        map_option ?cut (map_option (live_user ix) (get (Index_Users ix) uid))"
      unfolding assms(2) by (cases "get (Index_Users ix) uid") (simp_all add: live)
    also have "\<dots> = map_option ?cut (map_option (index_user db) (user_row db uid))"
      using assms(1) by (simp add: mirrors_def)
    also have "\<dots> = map_option (index_user ?db) (user_row ?db uid)"
      unfolding rows by (cases "user_row db uid") (simp_all add: user)
    finally show ?thesis .
  qed
  ultimately show ?thesis
    using assms(1,3,4) by (simp add: mirrors_def)
qed

lemma commit_mirrored:
  assumes "commits E" and "in_tx w tx" and "mirrors (Tx_db tx) (W_index w')"
    and "issued E (Tx_tick tx) (ids_in_use (Tx_db tx) (W_index w'))" and "snowflakes E"
    and "W_db w' = W_db (end_tx E False tx w)" and "W_tick (end_tx E False tx w) \<le> W_tick w'"
  shows "mirrored E w'"
proof -
  have "W_db w' = Tx_db tx" using assms(1,2,6) by (simp add: W_db_end_tx commits_def)
  moreover have "Tx_tick tx \<le> W_tick w'"
    using W_tick_end_tx assms(2,7) unfolding in_tx_def by (meson order_trans)
  ultimately show ?thesis
    using assms(3-5) by (auto simp: mirrored_def intro: issued_later)
qed

text \<open>What a call leaves behind, whatever it writes, and that a failed one is undone.\<close>

definition writing :: "World \<Rightarrow> Transaction \<Rightarrow> bool" where
  "writing w tx \<longleftrightarrow> in_tx w tx \<and> W_tick w \<le> Tx_tick tx"

definition time_passes :: "Transaction \<Rightarrow> Transaction \<Rightarrow> bool" where
  "time_passes tx tx' \<longleftrightarrow> Tx_tick tx \<le> Tx_tick tx'"

interpretation time_frame: tx_write_frame time_passes
  by unfold_locales (auto simp: time_passes_def)

lemma call_writing:
  assumes "extends_tx tx (snd r)" and "time_passes tx (snd r)" and "writing w tx"
    and "\<And>v. steady w v \<Longrightarrow> P v"
    and "\<And>x tx'. r = (Ok x, tx') \<Longrightarrow> writing w tx' \<Longrightarrow> P (f x tx')"
  shows "P (tx_call cid w r (\<lambda>e tx. refuse E True e cid w tx) f)"
proof -
  obtain x tx' where r: "r = (x, tx')" by (cases r)
  with assms(1-3) have tx': "writing w tx'"
    by (auto simp: writing_def extends_tx_def time_passes_def)
  then have "steady w (panic_tx cid tx' w)" "steady w (refuse E True e cid w tx')" for e
    by (auto simp: writing_def intro: steady_leak steady_rollback)
  with r tx' assms(4,5) show ?thesis by (cases x) simp_all
qed

lemma holding_writing: "holding w tx \<Longrightarrow> writing w tx"
  by (simp add: holding_def writing_def steady_tx_def)

text \<open>A role that was written is published by putting it into the map of the index.\<close>

lemma role_put_mirrored:
  assumes "snowflakes E" and "commits E" and "mirrored E w" and "writing w tx"
    and "DB_settings (Tx_db tx) = DB_settings (W_db w)" and "DB_users (Tx_db tx) = DB_users (W_db w)"
    and "DB_user_roles (Tx_db tx) = DB_user_roles (W_db w)"
    and "role_row (Tx_db tx) = (role_row (W_db w))(Role_ID r \<mapsto> r)"
    and "Role_ID r \<in> role_ids (W_db w) \<or>
      (\<exists>t. Role_ID r = Env_generate E t \<and> W_tick w \<le> t \<and> t < Tx_tick tx)"
    and "W_db w' = W_db (end_tx E False tx w)" and "W_tick (end_tx E False tx w) \<le> W_tick w'"
    and "Index_Users (W_index w') = Index_Users (W_index w)"
    and "Index_Settings (W_index w') = Index_Settings (W_index w)"
    and "get (Index_Roles (W_index w')) = (get (Index_Roles (W_index w)))(Role_ID r \<mapsto> r)"
  shows "mirrored E w'"
proof (rule commit_mirrored [OF assms(2) _ _ _ assms(1,10,11)])
  have old: "issued E (W_tick w) (ids_in_use (W_db w) (W_index w))" "mirrors (W_db w) (W_index w)"
    using assms(3) by (simp_all add: mirrored_def)
  show "in_tx w tx" using assms(4) by (simp add: writing_def)
  have "Role_ID r \<in> role_ids (W_db w) \<or> Role_ID r \<notin> ids_in_use (W_db w) (W_index w)"
    using assms(9) issued_fresh [OF assms(1) old(1)] by metis
  then show "mirrors (Tx_db tx) (W_index w')"
    by (intro mirrors_role_put [OF old(2) assms(5-8) _ assms(12-14)])
  have "role_ids (Tx_db tx) \<subseteq> insert (Role_ID r) (role_ids (W_db w))"
  proof
    fix k assume "k \<in> role_ids (Tx_db tx)"
    then have "role_row (Tx_db tx) k \<noteq> None" by (simp only: role_row_exists)
    then have "k = Role_ID r \<or> role_row (W_db w) k \<noteq> None" by (auto simp: assms(8) split: if_splits)
    then show "k \<in> insert (Role_ID r) (role_ids (W_db w))" by (simp only: role_row_exists insert_iff)
  qed
  then have ids: "ids_in_use (Tx_db tx) (W_index w') \<subseteq> insert (Role_ID r) (ids_in_use (W_db w) (W_index w))"
    unfolding ids_in_use_def assms(6,12) by blast
  have tick: "W_tick w \<le> Tx_tick tx" using assms(4) by (simp add: writing_def)
  show "issued E (Tx_tick tx) (ids_in_use (Tx_db tx) (W_index w'))"
    using assms(9)
  proof (elim disjE exE conjE)
    assume "Role_ID r \<in> role_ids (W_db w)"
    then have "Role_ID r \<in> ids_in_use (W_db w) (W_index w)" by (simp add: ids_in_use_def)
    with ids show ?thesis using issued_later [OF assms(1) old(1) tick] by blast
  qed (use ids in \<open>auto intro: issued_new [OF assms(1) old(1)]\<close>)
qed

lemma holding_accounts: "holding w tx \<Longrightarrow> accounts (Tx_db tx) = accounts (W_db w)"
  by (simp add: holding_def steady_tx_def)

lemma role_row_in: "db_ok db \<Longrightarrow> r \<in> set (DB_roles db) \<Longrightarrow> role_row db (Role_ID r) = Some r"
  by (simp add: role_row_ok_iff)

lemma writing_ok: "writing w tx \<Longrightarrow> db_ok (W_db w) \<Longrightarrow> db_ok (Tx_db tx)"
  by (simp add: writing_def in_tx_def)

lemma RoleAdd_mirrored:
  assumes "snowflakes E" and "commits E" and "db_ok (W_db w)" and "mirrored E w"
  shows "mirrored E (HandleRoleAddRequest E cid msg w)"
proof -
  note steady = mirrored_steady [OF assms(1,4)]
  have step: "mirrored E (tx_call cid w (AddRole E a b c d e f tx) (\<lambda>e tx. refuse E True e cid w tx)
      (\<lambda>rid tx. tx_call cid w (GetRole E rid tx) (\<lambda>e tx. refuse E True e cid w tx)
        (\<lambda>role tx. OnRoleAdd role (set_index (index_AddRole role (W_index (end_tx E False tx w)))
           (end_tx E False tx w)))))" if hold: "holding w tx" for a b c d e f tx
  proof (rule call_writing [OF open_tx.R_AddRole time_frame.R_AddRole holding_writing [OF hold]])
    fix rid tx1 assume add: "AddRole E a b c d e f tx = (Ok rid, tx1)" and tx1: "writing w tx1"
    from AddRole_Ok [OF add] obtain r where r: "Role_ID r = rid" "rid = Env_generate E (Tx_tick tx)"
      "rid \<notin> role_ids (Tx_db tx)" "Tx_tick tx < Tx_tick tx1"
      "Tx_db tx1 = (Tx_db tx)\<lparr>DB_roles := DB_roles (Tx_db tx) @ [r]\<rparr>" by blast
    show "mirrored E (tx_call cid w (GetRole E rid tx1) (\<lambda>e tx. refuse E True e cid w tx)
        (\<lambda>role tx. OnRoleAdd role (set_index (index_AddRole role (W_index (end_tx E False tx w)))
           (end_tx E False tx w))))"
    proof (rule call_writing [OF open_tx.R_GetRole time_frame.R_GetRole tx1])
      fix role tx2 assume get: "GetRole E rid tx1 = (Ok role, tx2)" and tx2: "writing w tx2"
      have db: "Tx_db tx2 = Tx_db tx1" by (rule Tx_db_GetRole [OF get])
      have rid: "rid \<noteq> 0" using assms(1) r(2) by (metis snowflakes_def less_irrefl not_numeral_less_zero)
      have "role_row (Tx_db tx2) rid = Some r"
        using role_row_in [OF writing_ok [OF tx2 assms(3)], of r] r(1,5) db by simp
      moreover have "role_row (Tx_db tx2) rid = Some role"
        using role_row_in [OF writing_ok [OF tx2 assms(3)], of role] GetRole_returns [OF get] rid db by simp
      ultimately have "role = r" by simp
      have acc: "accounts (Tx_db tx) = accounts (W_db w)" by (rule holding_accounts [OF hold])
      have ticks: "W_tick w \<le> Tx_tick tx" "Tx_tick tx1 \<le> Tx_tick tx2"
        using hold time_frame.R_GetRole [of tx1 E rid] get
        by (simp_all add: holding_def steady_tx_def time_passes_def)
      have rows: "role_row (Tx_db tx2) = (role_row (W_db w))(Role_ID r \<mapsto> r)"
        using r(1,3,5) db accountsD(3) [OF acc] by (intro role_row_append) simp_all
      show "mirrored E (OnRoleAdd role (set_index (index_AddRole role (W_index (end_tx E False tx2 w)))
           (end_tx E False tx2 w)))"
        using r(1,2,4,5) ticks accountsD [OF acc] db \<open>role = r\<close>
        by (intro role_put_mirrored [OF assms(1,2,4) tx2 _ _ _ rows])
          (auto simp: relay_defs set_index_def index_AddRole_def)
    qed (rule steady)
  qed (rule steady)
  show ?thesis
    unfolding HandleRoleAddRequest_def Let_def
    by (rule decoded_cases [of w], erule steady, rule manage_roles_cases, erule steady, erule step)
qed

lemma role_row_update:
  assumes "update_role q db = Some db'" and "db_ok db'" and "r \<in> set (DB_roles db')"
    and "Role_ID q \<noteq> 0 \<Longrightarrow> Role_ID r = Role_ID q" and "0 \<notin> role_ids db"
  shows "role_row db' = (role_row db)(Role_ID r \<mapsto> r)" and "Role_ID r \<in> role_ids db"
    and "DB_settings db' = DB_settings db" and "DB_users db' = DB_users db"
    and "DB_user_roles db' = DB_user_roles db"
proof -
  have db': "db' = db\<lparr>DB_roles := map (\<lambda>x. if Role_ID x = Role_ID q then q else x) (DB_roles db)\<rparr>"
    using assms(1) by (simp add: update_role_def)
  have other: "List.find (\<lambda>r. Role_ID r = k) (map (\<lambda>x. if Role_ID x = Role_ID q then q else x) rs) =
      List.find (\<lambda>r. Role_ID r = k) rs" if "k \<noteq> Role_ID q \<or> k \<notin> Role_ID ` set rs" for k rs
    using that by (induction rs) auto
  show "role_row db' = (role_row db)(Role_ID r \<mapsto> r)"
  proof
    fix k show "role_row db' k = ((role_row db)(Role_ID r \<mapsto> r)) k"
    proof (cases "k = Role_ID r")
      case True
      then show ?thesis using role_row_in [OF assms(2,3)] by simp
    next
      case False
      then have "k \<noteq> Role_ID q \<or> k \<notin> role_ids db" using assms(4,5) by metis
      with False show ?thesis by (simp add: db' role_row_def other)
    qed
  qed
  have "map Role_ID (DB_roles db') = map Role_ID (DB_roles db)"
    unfolding db' by (simp add: map_update_key)
  then have "role_ids db' = role_ids db" by (metis list.set_map)
  then show "Role_ID r \<in> role_ids db" using assms(3) by blast
qed (use assms(1) in \<open>auto simp: update_role_def\<close>)

lemma RoleUpdate_mirrored:
  assumes "snowflakes E" and "commits E" and "db_ok (W_db w)" and "mirrored E w"
  shows "mirrored E (HandleRoleUpdateRequest E cid msg w)"
proof -
  note steady = mirrored_steady [OF assms(1,4)]
  have step: "mirrored E (tx_call cid w (UpdateRole E key a b c d e f tx) (\<lambda>e tx. refuse E True e cid w tx)
      (\<lambda>_ tx. tx_call cid w (GetRole E key tx) (\<lambda>e tx. refuse E True e cid w tx)
        (\<lambda>role tx. OnRoleUpdate role (set_index (index_UpdateRole role (W_index (end_tx E False tx w)))
           (end_tx E False tx w)))))" if hold: "holding w tx" for key a b c d e f tx
  proof (rule call_writing [OF open_tx.R_UpdateRole time_frame.R_UpdateRole holding_writing [OF hold]])
    fix x tx1 assume "UpdateRole E key a b c d e f tx = (Ok x, tx1)" and tx1: "writing w tx1"
    then obtain q where q: "Role_ID q = key" "update_role q (Tx_db tx) = Some (Tx_db tx1)"
      using UpdateRole_Ok by blast
    show "mirrored E (tx_call cid w (GetRole E key tx1) (\<lambda>e tx. refuse E True e cid w tx)
        (\<lambda>role tx. OnRoleUpdate role (set_index (index_UpdateRole role (W_index (end_tx E False tx w)))
           (end_tx E False tx w))))"
    proof (rule call_writing [OF open_tx.R_GetRole time_frame.R_GetRole tx1])
      fix role tx2 assume get: "GetRole E key tx1 = (Ok role, tx2)" and tx2: "writing w tx2"
      have db: "Tx_db tx2 = Tx_db tx1" by (rule Tx_db_GetRole [OF get])
      have acc: "accounts (Tx_db tx) = accounts (W_db w)" by (rule holding_accounts [OF hold])
      have "0 \<notin> role_ids (Tx_db tx)"
        using assms(4) by (auto simp: accountsD [OF acc] mirrored_def issued_def ids_in_use_def)
      note rows = role_row_update [OF q(2) writing_ok [OF tx1 assms(3)] GetRole_returns(1) [OF get]
          _ this, unfolded q(1), OF GetRole_returns(2) [OF get]]
      show "mirrored E (OnRoleUpdate role (set_index (index_UpdateRole role (W_index (end_tx E False tx2 w)))
           (end_tx E False tx2 w)))"
        using rows accountsD [OF acc] accounts_views(1) [OF acc] db
        by (intro role_put_mirrored [OF assms(1,2,4) tx2, of role])
          (auto simp: relay_defs set_index_def index_UpdateRole_def)
    qed (rule steady)
  qed (rule steady)
  show ?thesis
    unfolding HandleRoleUpdateRequest_def Let_def
    by (rule decoded_cases [of w], erule steady, rule manage_roles_cases, erule steady, erule step)
qed

lemma RoleDelete_mirrored:
  assumes "snowflakes E" and "commits E" and "db_ok (W_db w)" and "mirrored E w"
  shows "mirrored E (HandleRoleDeleteRequest E cid msg w)"
proof -
  note steady = mirrored_steady [OF assms(1,4)]
  have old: "issued E (W_tick w) (ids_in_use (W_db w) (W_index w))" "mirrors (W_db w) (W_index w)"
    using assms(4) by (simp_all add: mirrored_def)
  have step: "mirrored E (tx_call cid w (DeleteRole E rid tx) (\<lambda>e tx. refuse E True e cid w tx)
      (\<lambda>_ tx. OnRoleDelete rid (set_index (index_DeleteRole rid (W_index (end_tx E False tx w)))
         (end_tx E False tx w))))" if hold: "holding w tx" for rid tx
  proof (rule call_writing [OF open_tx.R_DeleteRole time_frame.R_DeleteRole holding_writing [OF hold]])
    fix x tx1 assume "DeleteRole E rid tx = (Ok x, tx1)" and tx1: "writing w tx1"
    then have db: "Tx_db tx1 = delete_role_row rid (Tx_db tx)" by (simp add: DeleteRole_Ok)
    have acc: "accounts (Tx_db tx) = accounts (W_db w)" by (rule holding_accounts [OF hold])
    let ?ix = "index_DeleteRole rid (W_index w)"
    have "mirrors (Tx_db tx) (W_index w)"
      using old(2) accounts_views [OF acc] accountsD [OF acc] by (simp add: mirrors_def)
    then have mirrors: "mirrors (Tx_db tx1) ?ix"
      unfolding db by (rule mirrors_role_del) (simp_all add: index_DeleteRole_def)
    have "ids_in_use (Tx_db tx1) ?ix \<subseteq> ids_in_use (W_db w) (W_index w)"
      using accountsD [OF acc] by (auto simp: db ids_in_use_def delete_role_row_def index_DeleteRole_def)
    with tx1 have issued: "issued E (Tx_tick tx1) (ids_in_use (Tx_db tx1) ?ix)"
      by (auto simp: writing_def intro: issued_later [OF assms(1) old(1)])
    show "mirrored E (OnRoleDelete rid (set_index (index_DeleteRole rid (W_index (end_tx E False tx1 w)))
        (end_tx E False tx1 w)))"
      using tx1 mirrors issued
      by (intro commit_mirrored [OF assms(2) _ _ _ assms(1), of w tx1])
        (simp_all add: writing_def relay_defs set_index_def)
  qed (rule steady)
  show ?thesis
    unfolding HandleRoleDeleteRequest_def Let_def
    by (rule decoded_cases [of w], erule steady, rule manage_roles_cases, erule steady, erule step)
qed

lemma insert_user_role_ids: "insert_user_role uid rid db = Some db' \<Longrightarrow> DB_users db' = DB_users db"
  by (auto simp: insert_user_role_def split: if_splits)

lemma role_change_ids:
  "AddRoleToUser E uid rid tx = (Ok x, tx') \<Longrightarrow> user_ids (Tx_db tx') = user_ids (Tx_db tx)"
  "DeleteRoleFromUser E uid rid tx = (Ok x, tx') \<Longrightarrow> user_ids (Tx_db tx') = user_ids (Tx_db tx)"
  unfolding AddRoleToUser_def DeleteRoleFromUser_def
  by (auto dest!: Prepare_Ok with_code_Ok Execute_changes simp: insert_user_role_ids delete_user_role_def)

lemma UserRoles_mirrored:
  assumes "snowflakes E" and "commits E" and "db_ok (W_db w)" and "mirrored E w"
  shows "mirrored E (HandleUserRoleAddRequest E visit cid msg w)"
    and "mirrored E (HandleUserRoleDeleteRequest E visit cid msg w)"
  unfolding HandleUserRoleAddRequest_def HandleUserRoleDeleteRequest_def
  by (rule decoded_cases [of w], erule mirrored_steady [OF assms(1,4)],
      rule change_user_role_mirrored [OF assms],
      rule open_tx.R_AddRoleToUser open_tx.R_DeleteRoleFromUser, rule touches_writes(2,3), erule role_change_ids)+

lemma UserUpdate_mirrored:
  assumes "snowflakes E" and "commits E" and "db_ok (W_db w)" and "mirrored E w"
  shows "mirrored E (HandleUserUpdateRequest E visit cid msg w)"
proof -
  note steady = mirrored_steady [OF assms(1,4)]
  have no: "mirrored E (refuse E failed e cid w tx)" if "holding w tx" for failed e tx
    by (rule steady [OF holding_refuse [OF that]])
  have finish: "mirrored E (if c then reserve_slot E ty d m cid (end_tx E False tx w)
      else FinalizeUserUpdateRequest E visit req cid (end_tx E False tx w))" if hold: "holding w tx" for c ty d m req tx
  proof -
    have v: "steady w (end_tx E False tx w)" "db_ok (W_db (end_tx E False tx w))"
      using hold assms(3) by (auto simp: holding_def in_tx_def W_db_end_tx intro: steady_end_tx)
    then show ?thesis
      using steady steady_reserve FinalizeUserUpdate_mirrored [OF assms(1,2)] by simp
  qed
  show ?thesis
    unfolding HandleUserUpdateRequest_def Let_def
    apply (rule decoded_cases [of w], erule steady)
    apply (rule call_holding [where P = "mirrored E", OF open_tx.R_GetUser acc.R_GetUser holding_begin], erule steady)
     apply (rule value_holding [where P = "mirrored E", OF user_perms_frames(1) acc_combined(1)], assumption,
        erule steady, erule no)
    apply (rule value_holding [where P = "mirrored E", OF user_perms_frames(1) acc_combined(1)], assumption,
        erule steady)
    apply (split if_split, intro conjI impI, erule no, erule finish)
    done
qed

section \<open>Registering\<close>

lemma touches_trans: "touches k t1 t2 \<Longrightarrow> touches k t2 t3 \<Longrightarrow> touches k t1 t3"
  by (rule touch.R_trans)

lemma Register_touches:
  assumes "Register E name pw email code tx = (Ok (user, token), tx')" and "snowflakes E"
  shows "\<exists>t tx1. User_ID user = Env_generate E t \<and> Tx_tick tx \<le> t \<and> t < Tx_tick tx' \<and>
    touches (User_ID user) tx tx' \<and> GetUser E (User_ID user) tx1 = (Ok user, tx') \<and> Tx_db tx1 = Tx_db tx'"
proof -
  obtain salt hash uid t1 x t2 t3 where add: "AddUser E name hash salt code email (next_tick (MarkAsWrite tx)) = (Ok uid, t1)"
    and set: "SetUserProfile E uid (Env_title E name) [] [] ProfileColorDefault AvatarModifiedDefault t1 = (Ok x, t2)"
    and tok: "AddToken E uid t2 = (Ok token, t3)" and get: "GetUser E uid t3 = (Ok user, tx')"
    using assms(1) unfolding Register_def Let_def
    by (auto elim!: and_then_OkE dest!: with_code_Ok)
  obtain t where t: "uid = Env_generate E t" "Tx_tick (next_tick (MarkAsWrite tx)) \<le> t" "t < Tx_tick t1"
    "touches uid (next_tick (MarkAsWrite tx)) t1"
    using AddUser_touches [OF add assms(2)] by blast
  have "touches uid t1 t2" using touches_writes(1) [of uid t1 E] by (metis set snd_conv)
  moreover have "touches uid t2 t3" using acc_writes(5) [of t2 E uid] tok by (intro touches_accounts) simp
  moreover have "touches uid t3 tx'" using acc.R_GetUser [of t3 E uid] get by (intro touches_accounts) simp
  ultimately have steps: "touches uid t1 t2" "touches uid t2 t3" "touches uid t3 tx'" by -
  have "touches uid tx tx'"
    by (rule touches_trans [OF touches_trans [OF touches_trans [OF touch.R_from_mark [OF touch.R_from_tick [OF t(4)]] steps(1)] steps(2)] steps(3)])
  moreover have "t < Tx_tick tx'" using t(3) steps by (auto simp: touches_def)
  moreover have "Tx_tick tx \<le> t" using t(2) by simp
  moreover have id: "User_ID user = uid"
    using GetUser_id [OF get] t(1) assms(2) by (metis snowflakes_def less_irrefl not_numeral_less_zero)
  moreover have "Tx_db t3 = Tx_db tx'" using Tx_db_GetUser [OF get] by simp
  moreover note get t(1)
  ultimately show ?thesis unfolding id by blast
qed

text \<open>What the handler does with a new user after the commit. Only that it puts the user into the
  index matters here, so it is an argument \<open>fin\<close> of the lemmas.\<close>

definition puts_user :: "(User \<Rightarrow> string \<Rightarrow> World \<Rightarrow> World) \<Rightarrow> bool" where
  "puts_user fin \<longleftrightarrow> (\<forall>user token v. W_db (fin user token v) = W_db v \<and> W_tick v \<le> W_tick (fin user token v) \<and>
     user_put user (W_index v) (W_index (fin user token v)))"

definition publish_new :: "Env \<Rightarrow> nat \<Rightarrow> User \<Rightarrow> string \<Rightarrow> World \<Rightarrow> World" where
  "publish_new E cid user token w =
     OnUserAdd user (Write (token_event token) cid (OnAuthentication E (User_ID user) token cid
       (set_index (snd (index_AddUser user (W_index w))) w)))"

lemma publish_new_puts: "puts_user (publish_new E cid)"
  by (simp add: puts_user_def publish_new_def relay_defs set_index_def OnAuthentication_def AddConnection_def
      index_AddUser_def user_put_def set_user_def)

lemma registered_mirrored:
  assumes "snowflakes E" and "commits E" and "db_ok (W_db v)" and "mirrored E v" and "holding v tx"
    and "puts_user fin"
  shows "mirrored E (tx_call cid v (Register E u p em code tx) (\<lambda>e tx. refuse E True e cid v tx)
    (\<lambda>(user, token) tx. fin user token (end_tx E False tx v)))"
proof (rule call_writing [OF open_tx.R_Register time_frame.R_Register holding_writing [OF assms(5)]])
  show "mirrored E v'" if "steady v v'" for v' by (rule mirrored_steady [OF assms(1) assms(4) that])
  fix x tx' assume ok: "Register E u p em code tx = (Ok x, tx')" and tx': "writing v tx'"
  obtain user token where x: "x = (user, token)" by (cases x)
  from Register_touches [OF ok [unfolded x] assms(1)] obtain t tx1 where r: "User_ID user = Env_generate E t"
    "Tx_tick tx \<le> t" "t < Tx_tick tx'" "touches (User_ID user) tx tx'"
    "GetUser E (User_ID user) tx1 = (Ok user, tx')" "Tx_db tx1 = Tx_db tx'"
    by blast
  have "keys_ok (Tx_db tx1)" using writing_ok [OF tx' assms(3)] r(6) by (simp add: db_ok_def)
  from GetUser_returns [OF r(5) this] obtain row where row: "row \<in> set (DB_users (Tx_db tx'))"
    "user = user_view (Tx_db tx') row" "UserRow_id row = User_ID user"
    using r(1,6) assms(1) by (metis User_ID_user_view)
  have tx: "changing v (User_ID user) tx'"
    using tx' r(4) holding_changing [OF assms(5), of "User_ID user"]
    by (auto simp: changing_def writing_def touches_def intro: differs_at_trans)
  have "W_tick v \<le> t" using assms(5) r(2) by (simp add: holding_def steady_tx_def)
  with r(1,3) have new: "User_ID user \<in> ids_in_use (W_db v) (W_index v) \<or> User_ID user = 0 \<or>
      (\<exists>t. User_ID user = Env_generate E t \<and> W_tick v \<le> t \<and> t < Tx_tick tx')" by blast
  let ?v = "fin user token (end_tx E False tx' v)"
  have fin: "W_db ?v = W_db (end_tx E False tx' v)" "W_tick (end_tx E False tx' v) \<le> W_tick ?v"
    "user_put (user_view (Tx_db tx') row) (W_index v) (W_index ?v)"
    using assms(6) end_tx_fields(1) unfolding puts_user_def row(2) [symmetric] by metis+
  show "mirrored E ((\<lambda>(user, token) tx. fin user token (end_tx E False tx v)) x tx')"
    unfolding x split_conv
    by (rule publish_mirrored [OF assms(1,2) assms(3,4) tx new row(1,3) fin])
qed

text \<open>The handler, with any end.\<close>

definition registering ::
  "Env \<Rightarrow> nat \<Rightarrow> UnknownEvent \<Rightarrow> (User \<Rightarrow> string \<Rightarrow> World \<Rightarrow> World) \<Rightarrow> World \<Rightarrow> World" where
  "registering E cid msg fin w =
     decoded cid w (decode_RegisterRequest (UnknownEvent_Data msg)) (\<lambda>req.
     tx_call cid w (GetSettings E (Start (begin_tx w)))
       (\<lambda>e tx. refuse E True e cid w tx)
       (\<lambda>settings tx.
     with_captcha E (Settings_UsesCaptcha settings) (RegisterRequest_CaptchaResponse req)
       settings cid w tx (\<lambda>w tx.
     tx_call cid w (Register E (RegisterRequest_Username req) (RegisterRequest_Password req)
         (RegisterRequest_Email req) (RegisterRequest_InviteCode req) tx)
       (\<lambda>e tx. refuse E True e cid w tx)
       (\<lambda>(user, token) tx. fin user token (end_tx E False tx w)))))"

lemma registering_handler: "HandleRegisterRequest E cid msg = registering E cid msg (publish_new E cid)"
  by (simp add: fun_eq_iff HandleRegisterRequest_def registering_def publish_new_def Let_def)

lemma registering_mirrored:
  assumes "snowflakes E" and "commits E" and "db_ok (W_db w)" and "mirrored E w" and "puts_user fin"
  shows "mirrored E (registering E cid msg fin w)"
proof -
  note steady = mirrored_steady [OF assms(1,4)]
  have holds: "holding v tx'" if "steady_tx v tx'" "W_db v = W_db w" "Tx_db tx' = Tx_db tx" "holding w tx" for v tx tx'
    using that by (simp add: holding_def in_tx_def steady_tx_def)
  show ?thesis
    unfolding registering_def
    apply (rule decoded_cases [of w], erule steady)
    apply (rule call_holding [where P = "mirrored E", OF open_tx.R_GetSettings acc.R_GetSettings holding_begin],
        erule steady, erule steady [OF holding_refuse])
    apply (rule steady_captcha [where P = "mirrored E"], simp add: holding_def)
     apply (rule registered_mirrored [OF assms(1,2)], simp add: assms(3), erule steady,
        erule (2) holds, assumption, rule assms(5))
    apply (erule steady)
    done
qed

lemma Register_mirrored:
  assumes "snowflakes E" and "commits E" and "db_ok (W_db w)" and "mirrored E w"
  shows "mirrored E (HandleRegisterRequest E cid msg w)"
  unfolding registering_handler by (rule registering_mirrored [OF assms publish_new_puts])

section \<open>Every step\<close>

lemma member_mirrored:
  assumes "snowflakes E" and "commits E" and "db_ok (W_db w)" and "mirrored E w"
  shows "mirrored E (process_member E visit cid msg w)"
proof -
  note steady = mirrored_steady [OF assms(1,4)]
  show ?thesis
    using RoleAdd_mirrored [OF assms] RoleUpdate_mirrored [OF assms] RoleDelete_mirrored [OF assms]
      UserRoles_mirrored [OF assms] UserUpdate_mirrored [OF assms] steady [OF steady_messages(1)]
      steady [OF steady_messages(2)] steady [OF steady_messages(3)] steady [OF steady_messages(4)]
      steady [OF steady_message_send] steady [OF steady_reads(2)] steady [OF steady_reads(3)]
      steady [OF steady_reads(4)] steady [OF steady_reads(5)] steady [OF steady_simps(2) [OF steady_refl]]
    by (simp add: process_member_def Let_def)
qed

lemma guest_mirrored:
  assumes "snowflakes E" and "commits E" and "db_ok (W_db w)" and "mirrored E w"
  shows "mirrored E (process_guest E cid msg w)"
  using mirrored_steady [OF assms(1,4) steady_login] Register_mirrored [OF assms]
    mirrored_steady [OF assms(1,4) steady_simps(2) [OF steady_refl]]
  by (simp add: process_guest_def Let_def)

lemma steady_introduction: "steady w (Introduction E visit token cid w)"
proof -
  have "steady w v \<Longrightarrow> steady w (if token \<noteq> [] then TryAuthenticate E token cid v else v)" for v
    using steady_trans [OF _ steady_TryAuthenticate] by simp
  then show ?thesis
    unfolding Introduction_def Let_def
    by (auto intro: steady_trans [OF _ steady_overview] steady_trans [OF _ steady_reads(1)] steady_TryAuthenticate)
qed

lemma upload_mirrored:
  assumes "snowflakes E" and "commits E" and "world_inv E w" and "mirrored E w"
  shows "mirrored E (snd (HandleGatewayUpload E visit store_file store_avatar slot parts w))"
proof -
  obtain p v where r: "PopPendingRequest slot w = (p, v)" by fastforce
  have v: "steady w v" using steady_pop [of w slot] r by simp
  have upload: "mirrored E (snd (upload_result v v'))" if "mirrored E v'" for v'
    using that by (simp add: upload_result_def mirrored_def)
  have message: "mirrored E (HandleMessageSendUpload E store_file m pd parts cid v)" for m pd cid
    by (rule mirrored_steady [OF assms(1,4) steady_trans [OF v steady_message_upload]])
  have avatar: "mirrored E (HandleUserUpdateUpload E visit store_avatar req pd parts cid v)" for req pd cid
  proof -
    let ?P = "\<lambda>u. steady w u \<and> W_db u = W_db w"
    have vdb: "W_db v = W_db w" using r by (auto simp: PopPendingRequest_def split: option.splits)
    have kept: "?P (snd (ReadFiles (\<lambda>raw content w. (case f content of Panic \<Rightarrow> (Panic, w)
        | _ \<Rightarrow> (Ok (), w))) None FileMetadata_zero parts (tick_world v)))" for f :: "string \<Rightarrow> unit go_result"
      by (rule ReadFiles_keeps) (auto split: go_result.split intro: steady_intros v simp: vdb)
    have final: "mirrored E (FinalizeUserUpdateRequest E visit req cid u)" if "?P u" for req u
      using that assms(3) by (intro FinalizeUserUpdate_mirrored [OF assms(1,2)])
        (auto simp: world_inv_defs intro: mirrored_steady [OF assms(1,4)])
    obtain x u where read: "ReadFiles (\<lambda>raw content w.
        (case store_avatar (UserUpdateRequest_UserID req) (Env_now E (W_tick v)) content of
           Panic \<Rightarrow> (Panic, w) | _ \<Rightarrow> (Ok (), w))) None FileMetadata_zero parts (tick_world v) = (x, u)"
      by (rule prod.exhaust)
    have u: "?P u" using kept [of "store_avatar (UserUpdateRequest_UserID req) (Env_now E (W_tick v))"] read by simp
    show ?thesis
    proof (cases x)
      case Panic
      then show ?thesis using u mirrored_steady [OF assms(1,4) steady_simps(5)]
        by (simp add: HandleUserUpdateUpload_def Let_def read)
    next
      case (Err e)
      have "?P (HandleError e cid u)" using u steady_simps(2) by (simp add: HandleError_def)
      with Err show ?thesis using final
        by (simp add: HandleUserUpdateUpload_def Let_def read)
    qed (use u final in \<open>simp add: HandleUserUpdateUpload_def Let_def read\<close>)
  qed
  show ?thesis
    unfolding HandleGatewayUpload_def r
    using mirrored_steady [OF assms(1,4) v] upload message avatar
    by (auto split: option.split RequestData.split)
qed

lemma step_mirrored:
  assumes "step E w w'" and "snowflakes E" and "commits E" and "world_inv E w" and "mirrored E w"
  shows "mirrored E w'"
proof -
  have ok: "db_ok (W_db w)" using assms(4) by (simp add: world_inv_defs)
  note steady = mirrored_steady [OF assms(2,5)]
  have connect: "mirrored E (Introduction E visit token cid (open_connection E cid w))" for visit token cid
  proof -
    have "steady w (open_connection E cid w)" by (simp add: open_connection_def steady_def same_maps_def)
    then show ?thesis using steady steady_trans steady_introduction by blast
  qed
  have frame: "mirrored E (Process E visit frame cid w)" for visit frame cid
  proof -
    have "mirrored E (note_request msg cid w)" "db_ok (W_db (note_request msg cid w))" for msg
      using steady [OF steady_simps(6) [OF steady_refl]] ok by (simp_all add: note_request_def)
    then show ?thesis
      using steady [OF steady_simps(6) [OF steady_refl]] member_mirrored [OF assms(2,3)]
        guest_mirrored [OF assms(2,3)]
      by (simp add: Process_def Let_def split: option.split)
  qed
  have upload: "mirrored E v" if "HandleGatewayUpload E visit store_file store_avatar slotID parts w = (r, v)"
    for visit store_file store_avatar slotID parts r v
    using upload_mirrored [OF assms(2-5), of visit store_file store_avatar slotID parts] that by simp
  show ?thesis
    using assms(1)
    by cases (auto intro: connect frame upload steady steady_task steady_refresh steady_push steady_drain steady_shut)
qed

end
