(* ===== verification/Publications.thy ===== *)
theory Publications
  imports Index_Mirror_Handlers
begin

text \<open>
  The handlers that write users or roles, taken apart at the commit of their transaction: the first
  half ends with the commit, the second publishes what was read back in the index and relays it.
  Between the two the other goroutines run. Each handler is its first half, and then the second.
\<close>

section \<open>The second half\<close>

text \<open>What a handler does after its commit: \<^verbatim>\<open>index.UpdateUser\<close>, \<^verbatim>\<open>index.AddUser\<close> and the rest of
  a registration, \<^verbatim>\<open>index.AddRole\<close>, \<^verbatim>\<open>index.UpdateRole\<close> or \<^verbatim>\<open>index.DeleteRole\<close>, with the relay.\<close>

definition publish_new_role :: "Role \<Rightarrow> World \<Rightarrow> World" where
  "publish_new_role role w = OnRoleAdd role (set_index (index_AddRole role (W_index w)) w)"

definition publish_role :: "Role \<Rightarrow> World \<Rightarrow> World" where
  "publish_role role w = OnRoleUpdate role (set_index (index_UpdateRole role (W_index w)) w)"

definition publish_role_delete :: "snowflake \<Rightarrow> World \<Rightarrow> World" where
  "publish_role_delete rid w = OnRoleDelete rid (set_index (index_DeleteRole rid (W_index w)) w)"

lemmas [simp] = publish_new_role_def publish_role_def publish_role_delete_def

datatype Publication =
    PublishUser nat User
  | PublishNewUser nat User string
  | PublishNewRole Role
  | PublishRole Role
  | PublishRoleDelete snowflake

fun publish :: "Env \<Rightarrow> (snowflake list \<Rightarrow> snowflake list) \<Rightarrow> Publication \<Rightarrow> World \<Rightarrow> World" where
  "publish E visit (PublishUser cid user) w = publish_user visit cid user w"
| "publish E visit (PublishNewUser cid user token) w =
     publish_new E cid user token w"
| "publish E visit (PublishNewRole role) w = publish_new_role role w"
| "publish E visit (PublishRole role) w = publish_role role w"
| "publish E visit (PublishRoleDelete rid) w = publish_role_delete rid w"

section \<open>The first halves\<close>

text \<open>A call of which only success leads on to a publication.\<close>

definition ok_then ::
  "'a go_result \<times> Transaction \<Rightarrow> ('a \<Rightarrow> Transaction \<Rightarrow> 'b option) \<Rightarrow> 'b option" where
  "ok_then r f = (case r of (Ok x, tx) \<Rightarrow> f x tx | _ \<Rightarrow> None)"

lemma ok_then_simps [simp]:
  "ok_then (Ok x, tx) f = f x tx" "ok_then (Err e, tx) f = None" "ok_then (Panic, tx) f = None"
  by (simp_all add: ok_then_def)

text \<open>\<^verbatim>\<open>FinalizeUserUpdateRequest\<close> up to \<^verbatim>\<open>tx.Commit(nil)\<close>: the user that was read back, and the world.\<close>

definition commit_profile :: "Env \<Rightarrow> UserUpdateRequest \<Rightarrow> nat \<Rightarrow> World \<Rightarrow> (User \<times> World) option" where
  "commit_profile E req cid w =
     (let me = Conn_userID (conn_of w cid) in
      case SetUserProfile E me (UserUpdateRequest_DisplayName req)
          (UserUpdateRequest_StatusMessage req) (UserUpdateRequest_ProfileMessage req)
          (UserUpdateRequest_ProfileColor req) (UserUpdateRequest_AvatarModified req)
          (Start (begin_tx w)) of
        (Ok _, tx) \<Rightarrow>
          (case GetUser E me tx of
             (Ok user, tx) \<Rightarrow> Some (user, end_tx E False tx w)
           | _ \<Rightarrow> None)
      | _ \<Rightarrow> None)"

lemma commit_profile_alt:
  "commit_profile E req cid w =
     ok_then (SetUserProfile E (Conn_userID (conn_of w cid)) (UserUpdateRequest_DisplayName req)
          (UserUpdateRequest_StatusMessage req) (UserUpdateRequest_ProfileMessage req)
          (UserUpdateRequest_ProfileColor req) (UserUpdateRequest_AvatarModified req)
          (Start (begin_tx w))) (\<lambda>_ tx.
     ok_then (GetUser E (Conn_userID (conn_of w cid)) tx) (\<lambda>user tx. Some (user, end_tx E False tx w)))"
  unfolding commit_profile_def ok_then_def Let_def ..

definition manager_then :: "Env \<Rightarrow> nat \<Rightarrow> World \<Rightarrow> (Transaction \<Rightarrow> 'b option) \<Rightarrow> 'b option" where
  "manager_then E cid w k =
     ok_then (user_perms E (Conn_userID (conn_of w cid)) (Start (begin_tx w)))
       (\<lambda>perms tx. if \<not> has_perm perms PermissionManageRoles then None else k tx)"

definition commit_role_add :: "Env \<Rightarrow> nat \<Rightarrow> UnknownEvent \<Rightarrow> World \<Rightarrow> (Role \<times> World) option" where
  "commit_role_add E cid msg w =
     Option.bind (decode_RoleAddRequest (UnknownEvent_Data msg)) (\<lambda>req.
     manager_then E cid w (\<lambda>tx.
     ok_then (AddRole E (RoleAddRequest_Name req) (RoleAddRequest_Color req)
         (RoleAddRequest_Position req) (RoleAddRequest_Permissions req)
         (RoleAddRequest_Hoisted req) (RoleAddRequest_Mentionable req) tx) (\<lambda>roleID tx.
     ok_then (GetRole E roleID tx) (\<lambda>role tx.
     Some (role, end_tx E False tx w)))))"

definition commit_role_update :: "Env \<Rightarrow> nat \<Rightarrow> UnknownEvent \<Rightarrow> World \<Rightarrow> (Role \<times> World) option" where
  "commit_role_update E cid msg w =
     Option.bind (decode_RoleUpdateRequest (UnknownEvent_Data msg)) (\<lambda>req.
     manager_then E cid w (\<lambda>tx.
     let role = RoleUpdateRequest_Role req in
     ok_then (UpdateRole E (Role_ID role) (Role_Name role) (Role_Color role)
         (Role_Position role) (Role_Permissions role) (Role_Hoisted role)
         (Role_Mentionable role) tx) (\<lambda>_ tx.
     ok_then (GetRole E (Role_ID role) tx) (\<lambda>role tx.
     Some (role, end_tx E False tx w)))))"

definition commit_role_delete :: "Env \<Rightarrow> nat \<Rightarrow> UnknownEvent \<Rightarrow> World \<Rightarrow> (snowflake \<times> World) option" where
  "commit_role_delete E cid msg w =
     Option.bind (decode_RoleDeleteRequest (UnknownEvent_Data msg)) (\<lambda>req.
     let rid = RoleDeleteRequest_RoleID req in
     manager_then E cid w (\<lambda>tx.
     ok_then (DeleteRole E rid tx) (\<lambda>_ tx. Some (rid, end_tx E False tx w))))"

text \<open>\<^verbatim>\<open>HandleUserRoleAddRequest\<close> and \<^verbatim>\<open>HandleUserRoleDeleteRequest\<close>, as \<open>change_user_role\<close>.\<close>

definition commit_user_role ::
  "Env \<Rightarrow> snowflake \<Rightarrow> snowflake \<Rightarrow> (bool \<Rightarrow> bool) \<Rightarrow>
   (Transaction \<Rightarrow> unit go_result \<times> Transaction) \<Rightarrow> nat \<Rightarrow> World \<Rightarrow> (User \<times> World) option" where
  "commit_user_role E uid rid nothing_to_do change cid w =
     (let me = Conn_userID (conn_of w cid) in
      manager_then E cid w (\<lambda>tx.
      ok_then (GetUser E uid tx) (\<lambda>targetUser tx.
      ok_then (GetRole E rid tx) (\<lambda>role tx.
      if nothing_to_do (Role_ID role \<in> set (User_Roles targetUser)) then None
      else
      ok_then (GetUser E me tx) (\<lambda>actorUser tx.
      ok_then (ComputeEffectiveRank E actorUser [(Role_ID role, Role_Position role)] tx)
        (\<lambda>(actorRank, cache) tx.
      ok_then (ComputeEffectiveRank E targetUser cache tx) (\<lambda>(targetRank, cache) tx.
      if uid \<noteq> me \<and> targetRank \<le> actorRank then None
      else if Role_Position role \<le> actorRank then None
      else
      ok_then (change tx) (\<lambda>_ tx.
      ok_then (GetUser E uid tx) (\<lambda>updatedUser tx.
      Some (updatedUser, end_tx E False tx w))))))))))"

definition captcha_then ::
  "Env \<Rightarrow> bool \<Rightarrow> string \<Rightarrow> Settings \<Rightarrow> World \<Rightarrow> Transaction \<Rightarrow>
   (World \<Rightarrow> Transaction \<Rightarrow> 'b option) \<Rightarrow> 'b option" where
  "captcha_then E needed response settings w tx k =
     (if needed then
        case hCaptchaVerify E response (Settings_CaptchaSiteKey settings)
               (Settings_CaptchaSecretKey settings) (w\<lparr>W_tick := Tx_tick tx\<rparr>) of
          (Ok _, w) \<Rightarrow> k w (tx\<lparr>Tx_tick := W_tick w\<rparr>)
        | _ \<Rightarrow> None
      else k w tx)"

definition commit_register ::
  "Env \<Rightarrow> UnknownEvent \<Rightarrow> World \<Rightarrow> ((User \<times> string) \<times> World) option" where
  "commit_register E msg w =
     Option.bind (decode_RegisterRequest (UnknownEvent_Data msg)) (\<lambda>req.
     ok_then (GetSettings E (Start (begin_tx w))) (\<lambda>settings tx.
     captcha_then E (Settings_UsesCaptcha settings) (RegisterRequest_CaptchaResponse req)
       settings w tx (\<lambda>w tx.
     ok_then (Register E (RegisterRequest_Username req) (RegisterRequest_Password req)
         (RegisterRequest_Email req) (RegisterRequest_InviteCode req) tx) (\<lambda>(user, token) tx.
     Some ((user, token), end_tx E False tx w)))))"

text \<open>The commits of the process, each with the publication that is due after it.\<close>

inductive commits_first :: "Env \<Rightarrow> World \<Rightarrow> Publication \<Rightarrow> World \<Rightarrow> bool" for E where
  first_profile: "commit_profile E req cid w = Some (user, v) \<Longrightarrow>
    commits_first E w (PublishUser cid user) v"
| first_role_add: "commit_role_add E cid msg w = Some (role, v) \<Longrightarrow>
    commits_first E w (PublishNewRole role) v"
| first_role_update: "commit_role_update E cid msg w = Some (role, v) \<Longrightarrow>
    commits_first E w (PublishRole role) v"
| first_role_delete: "commit_role_delete E cid msg w = Some (rid, v) \<Longrightarrow>
    commits_first E w (PublishRoleDelete rid) v"
| first_user_role_add:
    "commit_user_role E uid rid (\<lambda>hasRole. hasRole) (AddRoleToUser E uid rid) cid w = Some (user, v) \<Longrightarrow>
    commits_first E w (PublishUser cid user) v"
| first_user_role_delete:
    "commit_user_role E uid rid (\<lambda>hasRole. \<not> hasRole) (DeleteRoleFromUser E uid rid) cid w = Some (user, v) \<Longrightarrow>
    commits_first E w (PublishUser cid user) v"
| first_register: "commit_register E msg w = Some ((user, token), v) \<Longrightarrow>
    commits_first E w (PublishNewUser cid user token) v"

section \<open>Every handler is its two halves\<close>

text \<open>A handler that ends in a publication is its first half and then the publication; when the first
  half gives nothing, the handler changes nothing that the index mirrors.\<close>

definition halves ::
  "('a \<Rightarrow> World \<Rightarrow> World) \<Rightarrow> World \<Rightarrow> ('a \<times> World) option \<Rightarrow> World \<Rightarrow> bool" where
  "halves pub w r w' \<longleftrightarrow> (case r of None \<Rightarrow> steady w w' | Some (x, v) \<Rightarrow> w' = pub x v)"

lemma halves_simps [simp]:
  "halves pub w None w' = steady w w'"
  "halves pub w (Some (x, v)) w' \<longleftrightarrow> w' = pub x v"
  by (simp_all add: halves_def)

lemma halves_after: "steady w v \<Longrightarrow> halves pub v r w' \<Longrightarrow> halves pub w r w'"
  by (auto simp: halves_def intro: steady_trans split: option.splits)

lemma halves_holding:
  assumes "extends_tx tx (snd r)" and "same_accounts tx (snd r)" and "holding w tx"
    and "\<And>e tx'. holding w tx' \<Longrightarrow> steady w (h e tx')"
    and "\<And>x tx'. holding w tx' \<Longrightarrow> halves pub w (f x tx') (g x tx')"
  shows "halves pub w (ok_then r f) (tx_call k w r h g)"
proof -
  obtain x tx' where r: "r = (x, tx')" by (cases r)
  with assms(1-3) have tx': "holding w tx'"
    by (auto simp: holding_def extends_tx_def same_accounts_def steady_tx_def)
  then have "steady w (panic_tx k tx' w)" by (intro steady_intros) (simp add: holding_def steady_tx_def)
  with r tx' assms(4,5) show ?thesis by (cases x) simp_all
qed

lemma halves_writing:
  assumes "extends_tx tx (snd r)" and "time_passes tx (snd r)" and "writing w tx"
    and "\<And>x tx'. writing w tx' \<Longrightarrow> halves pub w (f x tx') (g x tx')"
  shows "halves pub w (ok_then r f) (tx_call k w r (\<lambda>e tx. refuse E True e k w tx) g)"
proof -
  obtain x tx' where r: "r = (x, tx')" by (cases r)
  with assms(1-3) have tx': "writing w tx'"
    by (auto simp: writing_def extends_tx_def time_passes_def)
  then have "steady w (panic_tx k tx' w)" "steady w (refuse E True e k w tx')" for e
    by (auto simp: writing_def intro: steady_leak steady_rollback)
  with r tx' assms(4) show ?thesis by (cases x) simp_all
qed

lemma halves_decoded:
  "(\<And>req. halves pub w (f req) (g req)) \<Longrightarrow>
     halves pub w (Option.bind r f) (decoded cid w r g)"
  by (cases r) (simp_all add: steady_intros)

lemma halves_manager:
  assumes "\<And>tx. holding w tx \<Longrightarrow> halves pub w (f tx) (g tx)"
  shows "halves pub w (manager_then E cid w f) (with_manage_roles E cid w g)"
  unfolding manager_then_def with_manage_roles_def tx_value_def
  by (rule halves_holding [OF user_perms_frames(1) acc_combined(1) holding_begin])
    (auto intro!: assms holding_refuse intro: steady_leak simp: holding_def steady_tx_def)

lemma halves_captcha:
  assumes "steady_tx w tx"
    and "\<And>v tx'. steady w v \<Longrightarrow> W_db v = W_db w \<Longrightarrow> Tx_db tx' = Tx_db tx \<Longrightarrow> steady_tx v tx' \<Longrightarrow>
      halves pub w (f v tx') (g v tx')"
  shows "halves pub w (captcha_then E needed response settings w tx f)
    (with_captcha E needed response settings cid w tx g)"
proof (cases needed)
  case True
  obtain x v where r: "hCaptchaVerify E response (Settings_CaptchaSiteKey settings)
      (Settings_CaptchaSecretKey settings) (w\<lparr>W_tick := Tx_tick tx\<rparr>) = (x, v)" by fastforce
  note v = captcha_world [OF assms(1) r]
  then have "halves pub w (f v (tx\<lparr>Tx_tick := W_tick v\<rparr>)) (g v (tx\<lparr>Tx_tick := W_tick v\<rparr>))"
    by (intro assms(2)) simp_all
  moreover have "steady w (leak_tx (tx\<lparr>Tx_tick := W_tick v\<rparr>) v)" for tx
    using v(1) by (simp add: steady_def leak_tx_def)
  ultimately show ?thesis
    using True r by (cases x) (auto simp: captcha_then_def with_captcha_def panic_tx_def intro!: steady_intros)
next
  case False
  with assms show ?thesis by (simp add: captcha_then_def with_captcha_def)
qed

section \<open>The handlers\<close>

lemma halves_profile:
  "halves (publish_user visit cid) w (commit_profile E req cid w) (FinalizeUserUpdateRequest E visit req cid w)"
  unfolding commit_profile_alt FinalizeUserUpdateRequest_def Let_def
  by (rule halves_writing [OF open_tx.R_SetUserProfile time_frame.R_SetUserProfile holding_writing [OF holding_begin]],
      rule halves_writing [OF open_tx.R_GetUser time_frame.R_GetUser], assumption, simp)

lemma halves_role_add:
  "halves (\<lambda>role. publish E visit (PublishNewRole role)) w (commit_role_add E cid msg w) (HandleRoleAddRequest E cid msg w)"
  unfolding commit_role_add_def HandleRoleAddRequest_def Let_def
  by (intro halves_decoded halves_manager,
      rule halves_writing [OF open_tx.R_AddRole time_frame.R_AddRole], erule holding_writing,
      rule halves_writing [OF open_tx.R_GetRole time_frame.R_GetRole], assumption, simp)

lemma halves_role_update:
  "halves (\<lambda>role. publish E visit (PublishRole role)) w (commit_role_update E cid msg w) (HandleRoleUpdateRequest E cid msg w)"
  unfolding commit_role_update_def HandleRoleUpdateRequest_def Let_def
  by (intro halves_decoded halves_manager,
      rule halves_writing [OF open_tx.R_UpdateRole time_frame.R_UpdateRole], erule holding_writing,
      rule halves_writing [OF open_tx.R_GetRole time_frame.R_GetRole], assumption, simp)

lemma halves_role_delete:
  "halves (\<lambda>rid. publish E visit (PublishRoleDelete rid)) w (commit_role_delete E cid msg w) (HandleRoleDeleteRequest E cid msg w)"
  unfolding commit_role_delete_def HandleRoleDeleteRequest_def Let_def
  by (intro halves_decoded halves_manager,
      rule halves_writing [OF open_tx.R_DeleteRole time_frame.R_DeleteRole], erule holding_writing, simp)

lemma halves_if:
  "(c \<Longrightarrow> halves pub w r h) \<Longrightarrow> (\<not> c \<Longrightarrow> halves pub w r' h') \<Longrightarrow>
     halves pub w (if c then r else r') (if c then h else h')"
  by simp

lemma halves_user_role:
  assumes "\<And>tx. extends_tx tx (snd (change tx))" and "\<And>tx. time_passes tx (snd (change tx))"
  shows "halves (publish_user visit cid) w (commit_user_role E uid rid nothing_to_do change cid w)
    (change_user_role E visit uid rid nothing_to_do change cid w)"
proof -
  have no: "steady w (refuse E failed e cid w tx)" if "holding w tx" for failed e tx
    by (rule holding_refuse [OF that])
  have stop: "steady w (end_tx E False tx w)" if "holding w tx" for tx
    using that by (intro steady_end_tx) (simp add: holding_def)
  have finish: "halves (publish_user visit cid) w
      (ok_then (change tx) (\<lambda>_ tx. ok_then (GetUser E uid tx) (\<lambda>user tx. Some (user, end_tx E False tx w))))
      (tx_call cid w (change tx) (\<lambda>e tx. refuse E True e cid w tx) (\<lambda>_ tx.
        tx_call cid w (GetUser E uid tx) (\<lambda>e tx. refuse E True e cid w tx)
          (\<lambda>user tx. publish_user visit cid user (end_tx E False tx w))))" if "holding w tx" for tx
    by (rule halves_writing [OF assms holding_writing [OF that]],
        rule halves_writing [OF open_tx.R_GetUser time_frame.R_GetUser], assumption, simp)
  show ?thesis
    unfolding commit_user_role_def change_user_role_def Let_def
    apply (rule halves_manager)
    apply (rule halves_holding [OF open_tx.R_GetUser acc.R_GetUser], assumption, erule no)
    apply (rule halves_holding [OF open_tx.R_GetRole acc.R_GetRole], assumption, erule no)
    apply (rule halves_if, simp add: stop)
    apply (rule halves_holding [OF open_tx.R_GetUser acc.R_GetUser], assumption, erule no)
    apply (rule halves_holding [OF ComputeEffectiveRank_frames(1) acc_combined(4)], assumption, erule no)
    apply (simp only: split_beta)
    apply (rule halves_holding [OF ComputeEffectiveRank_frames(1) acc_combined(4)], assumption, erule no)
    apply (simp only: split_beta)
    apply (rule halves_if, simp add: no)
    apply (rule halves_if, simp add: no)
    apply (erule finish)
    done
qed

lemma halves_registering:
  "halves (\<lambda>(user, token). fin user token) w (commit_register E msg w) (registering E cid msg fin w)"
  unfolding commit_register_def registering_def
  apply (rule halves_decoded)
  apply (rule halves_holding [OF open_tx.R_GetSettings acc.R_GetSettings holding_begin], erule holding_refuse)
  apply (rule halves_captcha, simp add: holding_def)
  apply (erule halves_after)
  apply (rule halves_writing [OF open_tx.R_Register time_frame.R_Register])
   apply (simp add: holding_def writing_def in_tx_def steady_tx_def)
  apply auto
  done

section \<open>The first half does not look at the index\<close>

lemma set_index_tx [simp]:
  "begin_tx (set_index ix w) = begin_tx w" "conn_of (set_index ix w) k = conn_of w k"
  "end_tx E failed tx (set_index ix w) = set_index ix (end_tx E failed tx w)"
  by (simp_all add: begin_tx_def set_index_def set_gw_def conn_of_def end_tx_def store_tx_def)

lemma set_index_fields [simp]:
  "W_db (set_index ix w) = W_db w" "W_tick (set_index ix w) = W_tick w" "W_index (set_index ix w) = ix"
  "set_index ix (set_index ix' w) = set_index ix w" "set_index (W_index w) w = w"
  by (simp_all add: set_index_def set_gw_def)

abbreviation with_index :: "Index \<Rightarrow> ('a \<times> World) option \<Rightarrow> ('a \<times> World) option" where
  "with_index ix \<equiv> map_option (apsnd (set_index ix))"

lemma hCaptchaVerify_index:
  "hCaptchaVerify E response site secret ((set_index ix w)\<lparr>W_tick := t\<rparr>) =
     (case hCaptchaVerify E response site secret (w\<lparr>W_tick := t\<rparr>) of (x, v) \<Rightarrow> (x, set_index ix v))"
  by (simp add: hCaptchaVerify_def Let_def set_index_def set_gw_def tick_world_def)

lemma with_index_intros:
  "(\<And>x tx. f x tx = with_index ix (f' x tx)) \<Longrightarrow> ok_then r f = with_index ix (ok_then r f')"
  "(\<And>req. g req = with_index ix (g' req)) \<Longrightarrow> Option.bind d g = with_index ix (Option.bind d g')"
  "(\<And>tx. h tx = with_index ix (h' tx)) \<Longrightarrow>
     manager_then E cid (set_index ix w) h = with_index ix (manager_then E cid w h')"
  "(\<And>v tx. k (set_index ix v) tx = with_index ix (k' v tx)) \<Longrightarrow>
     captcha_then E needed response s (set_index ix w) t k = with_index ix (captcha_then E needed response s w t k')"
  "(\<not> c \<Longrightarrow> z = with_index ix z') \<Longrightarrow>
     (if c then None else z) = with_index ix (if c then None else z')"
proof -
  show *: "(\<And>x tx. f x tx = with_index ix (f' x tx)) \<Longrightarrow> ok_then r f = with_index ix (ok_then r f')"
    for f f' and r :: "'x go_result \<times> Transaction"
    by (cases r; cases "fst r") (auto simp: ok_then_def)
  show "(\<And>tx. h tx = with_index ix (h' tx)) \<Longrightarrow>
     manager_then E cid (set_index ix w) h = with_index ix (manager_then E cid w h')"
    unfolding manager_then_def by (simp, rule *) simp
  show "(\<And>v tx. k (set_index ix v) tx = with_index ix (k' v tx)) \<Longrightarrow>
     captcha_then E needed response s (set_index ix w) t k = with_index ix (captcha_then E needed response s w t k')"
    by (auto simp: captcha_then_def hCaptchaVerify_index split: prod.split go_result.split)
qed (auto split: bind_split)

lemma commits_any_index:
  "commit_profile E req cid (set_index ix w) = with_index ix (commit_profile E req cid w)"
  "commit_role_add E cid msg (set_index ix w) = with_index ix (commit_role_add E cid msg w)"
  "commit_role_update E cid msg (set_index ix w) = with_index ix (commit_role_update E cid msg w)"
  "commit_role_delete E cid msg (set_index ix w) = with_index ix (commit_role_delete E cid msg w)"
  "commit_user_role E uid rid nothing_to_do change cid (set_index ix w) =
     with_index ix (commit_user_role E uid rid nothing_to_do change cid w)"
  "commit_register E msg (set_index ix w) = with_index ix (commit_register E msg w)"
  unfolding commit_profile_alt commit_role_add_def commit_role_update_def commit_role_delete_def
    commit_user_role_def commit_register_def Let_def split_beta
  by (simp only: set_index_tx, intro with_index_intros, simp)+

lemma with_index_Some: "r' = with_index ix r \<Longrightarrow> r = Some (x, v) \<Longrightarrow> r' = Some (x, set_index ix v)"
  by simp

lemma commits_first_any_index:
  "commits_first E w p v \<Longrightarrow> commits_first E (set_index ix w) p (set_index ix v)"
proof (induction rule: commits_first.induct)
  case first_profile
  then show ?case by (rule commits_first.intros(1) [OF with_index_Some [OF commits_any_index(1)]])
next
  case first_role_add
  then show ?case by (rule commits_first.intros(2) [OF with_index_Some [OF commits_any_index(2)]])
next
  case first_role_update
  then show ?case by (rule commits_first.intros(3) [OF with_index_Some [OF commits_any_index(3)]])
next
  case first_role_delete
  then show ?case by (rule commits_first.intros(4) [OF with_index_Some [OF commits_any_index(4)]])
next
  case first_user_role_add
  then show ?case by (rule commits_first.intros(5) [OF with_index_Some [OF commits_any_index(5)]])
next
  case first_user_role_delete
  then show ?case by (rule commits_first.intros(6) [OF with_index_Some [OF commits_any_index(5)]])
next
  case first_register
  then show ?case by (rule commits_first.intros(7) [OF with_index_Some [OF commits_any_index(6)]])
qed

lemma commits_first_index: "commits_first E w p v \<Longrightarrow> W_index v = W_index w"
proof -
  have keeps: "W_index v = W_index w" if "r = with_index (W_index w) r" "r = Some (x, v)" for r :: "('x \<times> World) option" and x
  proof -
    have "v = set_index (W_index w) v" using that by simp
    then show ?thesis by (metis set_index_fields(3))
  qed
  note any = commits_any_index [where ix = "W_index w" and w = w, unfolded set_index_fields(5)]
  assume "commits_first E w p v"
  then show ?thesis
    by cases (erule keeps [OF any(1)] keeps [OF any(2)] keeps [OF any(3)] keeps [OF any(4)]
      keeps [OF any(5)] keeps [OF any(6)])+
qed

section \<open>What a publication does to the maps\<close>

text \<open>The user or the role that a publication is about.\<close>

fun subject :: "Publication \<Rightarrow> snowflake + snowflake" where
  "subject (PublishUser cid user) = Inl (User_ID user)"
| "subject (PublishNewUser cid user token) = Inl (User_ID user)"
| "subject (PublishNewRole role) = Inr (Role_ID role)"
| "subject (PublishRole role) = Inr (Role_ID role)"
| "subject (PublishRoleDelete rid) = Inr rid"

type_synonym index_maps = "(snowflake \<rightharpoonup> User) \<times> (snowflake \<rightharpoonup> Role) \<times> Settings"

definition maps_of :: "Index \<Rightarrow> index_maps" where
  "maps_of ix = (get (Index_Users ix), get (Index_Roles ix), Index_Settings ix)"

fun put_published :: "Publication \<Rightarrow> index_maps \<Rightarrow> index_maps" where
  "put_published (PublishUser cid user) (us, rs, s) = (us(User_ID user \<mapsto> processUser user), rs, s)"
| "put_published (PublishNewUser cid user token) (us, rs, s) = (us(User_ID user \<mapsto> processUser user), rs, s)"
| "put_published (PublishNewRole role) (us, rs, s) = (us, rs(Role_ID role \<mapsto> role), s)"
| "put_published (PublishRole role) (us, rs, s) = (us, rs(Role_ID role \<mapsto> role), s)"
| "put_published (PublishRoleDelete rid) (us, rs, s) = (us, rs(rid := None), s)"

lemma publish_fields:
  "W_db (publish E visit p w) = W_db w" "W_tick w \<le> W_tick (publish E visit p w)"
  "maps_of (W_index (publish E visit p w)) = put_published p (maps_of (W_index w))"
  by (cases p; simp add: publish_user_put(2,3) relay_defs set_index_def maps_of_def
      index_AddRole_def index_UpdateRole_def index_DeleteRole_def
      publish_user_put(1) [unfolded user_put_def] publish_new_puts [unfolded puts_user_def user_put_def])+

lemma put_published_commute:
  "subject p \<noteq> subject q \<Longrightarrow> put_published p (put_published q m) = put_published q (put_published p m)"
  by (cases m; cases p; cases q) (auto simp: fun_upd_twist)

lemma maps_published:
  "maps_of (W_index (fold (publish E visit) ps w)) = fold put_published ps (maps_of (W_index w))"
  by (induction ps arbitrary: w) (simp_all add: publish_fields)

lemma put_overtaking:
  "subject p \<notin> subject ` set ps \<Longrightarrow> fold put_published ps (put_published p m) = put_published p (fold put_published ps m)"
proof (induction ps arbitrary: m)
  case (Cons q ps)
  then have "put_published q (put_published p m) = put_published p (put_published q m)"
    by (intro put_published_commute) auto
  with Cons show ?case by simp
qed simp

lemma mirrors_maps: "maps_of ix = maps_of ix' \<Longrightarrow> mirrors db ix = mirrors db ix'"
proof -
  assume same: "maps_of ix = maps_of ix'"
  then have "live_user ix = live_user ix'" by (simp add: maps_of_def live_user_def fun_eq_iff)
  with same show ?thesis by (simp add: mirrors_def maps_of_def)
qed

lemma ids_in_use_maps: "maps_of ix = maps_of ix' \<Longrightarrow> ids_in_use db ix = ids_in_use db ix'"
  by (simp add: ids_in_use_def maps_of_def)

end
