(* ===== verification/Concurrent_Steps.thy ===== *)
theory Concurrent_Steps
  imports Publications
begin

text \<open>
  The process with its goroutines interleaved at the commits: the state is the world and the
  publications that are due, in the order of their commits. A commit and its publication are two
  steps, with any others between them. Every step of the state machine of Process is an execution
  here, and after the publications that are due the index mirrors the database.
\<close>

section \<open>The interleaved process\<close>

text \<open>SQLite runs one writing transaction after the other, so that what a transaction reads and
  writes, and its commit, is one step. A publication may be made before earlier ones, unless one of
  them is about the same user or role: these come in the order of their commits. Every other
  goroutine leaves the tables that the index mirrors and its maps of users and roles as they
  are (\<open>steady\<close>), and the constraints of the database hold at all times.\<close>

inductive interleaved ::
  "Env \<Rightarrow> World \<times> Publication list \<Rightarrow> World \<times> Publication list \<Rightarrow> bool" for E where
  interleaved_commit: "commits_first E w p v \<Longrightarrow> interleaved E (w, ps) (v, ps @ [p])"
| interleaved_publish: "permutes_keys visit \<Longrightarrow> subject p \<notin> subject ` set ps \<Longrightarrow>
    interleaved E (w, ps @ p # qs) (publish E visit p w, ps @ qs)"
| interleaved_other: "steady w v \<Longrightarrow> (db_ok (W_db w) \<Longrightarrow> db_ok (W_db v)) \<Longrightarrow>
    interleaved E (w, ps) (v, ps)"

section \<open>Commits\<close>

lemma served_db: "served cid w w' \<Longrightarrow> db_ok (W_db w) \<Longrightarrow> db_ok (W_db w')"
  by (auto simp: served_def refused_def progress_def)

lemma guest_db: "guest_served E cid w w' \<Longrightarrow> db_ok (W_db w) \<Longrightarrow> db_ok (W_db w')"
  by (auto simp: guest_served_def signs_in_def intro: served_db)

lemma mirrored_index:
  assumes "mirrored E u" and "W_db u = W_db v" and "W_tick u = W_tick v" and "maps_of (W_index u) = maps_of ix"
  shows "mirrored E (set_index ix v)"
  using assms mirrors_maps [OF assms(4)] ids_in_use_maps [OF assms(4)] by (simp add: mirrored_def)

text \<open>What a handler leaves is the world of its commit, with the publication made in the index.\<close>

lemma halves_mirrored:
  assumes "halves pub w r h" and "r = Some (x, v)" and "mirrored E h" and "db_ok (W_db h)"
    and "W_db (pub x v) = W_db v" and "W_tick (pub x v) = W_tick v" and "maps_of (W_index (pub x v)) = maps_of ix"
  shows "mirrored E (set_index ix v) \<and> db_ok (W_db v)"
  using assms mirrored_index [of E "pub x v" v ix] by simp

definition puts_only :: "User \<Rightarrow> string \<Rightarrow> World \<Rightarrow> World" where
  "puts_only user token w = set_index (snd (index_AddUser user (W_index w))) w"

lemma puts_only_puts: "puts_user puts_only"
  by (simp add: puts_user_def puts_only_def index_AddUser_def user_put_def set_user_def)

lemma publish_tick:
  "W_tick (publish_user visit cid user w) = W_tick w"
  "W_tick (publish E visit (PublishNewRole role) w) = W_tick w"
  "W_tick (publish E visit (PublishRole role) w) = W_tick w"
  "W_tick (publish E visit (PublishRoleDelete rid) w) = W_tick w"
  by (simp_all add: publish_user_put relay_defs)

lemma commit_mirrored_half:
  assumes "commits_first E w p v" and "snowflakes E" and "commits E" and "db_ok (W_db w)" and "mirrored E w"
    and "maps_of ix = put_published p (maps_of (W_index w))"
  shows "mirrored E (set_index ix v) \<and> db_ok (W_db v)"
proof -
  note maps = publish_fields(3) assms(6) commits_first_index [OF assms(1)]
  note db = served_db [OF _ assms(4)]
  let ?visit = "\<lambda>ks. ks :: snowflake list"
  have user: "maps_of (W_index (publish_user ?visit cid user v)) = maps_of ix" if "p = PublishUser cid user" for cid user
    using publish_fields(3) [of E ?visit "PublishUser cid user" v] that by (simp add: maps)
  show ?thesis
    using assms(1)
  proof cases
    case (first_profile req cid user)
    show ?thesis
      by (rule halves_mirrored [OF halves_profile [where visit = ?visit] first_profile(2) FinalizeUserUpdate_mirrored [OF assms(2-5)]
            db [OF FinalizeUserUpdate_served]])
        (simp_all add: publish_user_put user first_profile(1))
  next
    case (first_role_add cid msg role)
    show ?thesis
      by (rule halves_mirrored [OF halves_role_add [where visit = ?visit] first_role_add(2)
            RoleAdd_mirrored [OF assms(2-5)] db [OF served_RoleAdd]])
        (simp_all only: maps publish_fields(1) publish_tick first_role_add(1))
  next
    case (first_role_update cid msg role)
    show ?thesis
      by (rule halves_mirrored [OF halves_role_update [where visit = ?visit] first_role_update(2)
            RoleUpdate_mirrored [OF assms(2-5)] db [OF served_RoleUpdate]])
        (simp_all only: maps publish_fields(1) publish_tick first_role_update(1))
  next
    case (first_role_delete cid msg rid)
    show ?thesis
      by (rule halves_mirrored [OF halves_role_delete [where visit = ?visit] first_role_delete(2)
            RoleDelete_mirrored [OF assms(2-5)] db [OF served_RoleDelete]])
        (simp_all only: maps publish_fields(1) publish_tick first_role_delete(1))
  next
    case (first_user_role_add uid rid cid user)
    show ?thesis
      by (rule halves_mirrored [OF halves_user_role [where visit = ?visit] first_user_role_add(2)
            change_user_role_mirrored [OF assms(2-5) open_tx.R_AddRoleToUser touches_writes(2) role_change_ids(1)]
            db [OF served_change_user_role]])
        (simp_all add: publish_user_put user first_user_role_add(1) time_frame.R_AddRoleToUser)
  next
    case (first_user_role_delete uid rid cid user)
    show ?thesis
      by (rule halves_mirrored [OF halves_user_role [where visit = ?visit] first_user_role_delete(2)
            change_user_role_mirrored [OF assms(2-5) open_tx.R_DeleteRoleFromUser touches_writes(3) role_change_ids(2)]
            db [OF served_change_user_role]])
        (simp_all add: publish_user_put user first_user_role_delete(1) time_frame.R_DeleteRoleFromUser)
  next
    case (first_register msg user token cid)
    have ends: "registering E cid msg fin w = fin user token v" for fin
      using halves_registering [of fin w E msg cid] by (simp add: first_register(2))
    have "db_ok (W_db v)"
      using guest_db [OF Register_guest assms(4), of E cid msg] publish_new_puts [of E cid]
      by (simp add: registering_handler ends puts_user_def)
    then have db: "db_ok (W_db (registering E cid msg puts_only w))"
      by (simp add: ends puts_only_def)
    show ?thesis
      by (rule halves_mirrored [OF halves_registering first_register(2)
            registering_mirrored [OF assms(2-5) puts_only_puts, of cid msg] db])
        (simp_all add: puts_only_def maps first_register(1), simp add: maps_of_def index_AddUser_def set_user_def)
  qed
qed

section \<open>The index and the publications that are due\<close>

text \<open>With the publications that are due put into its maps, in the order of their commits, the index
  is the mirror of the database.\<close>

definition caught_up :: "Env \<Rightarrow> World \<times> Publication list \<Rightarrow> bool" where
  "caught_up E s \<longleftrightarrow> (case s of (w, ps) \<Rightarrow> db_ok (W_db w) \<and>
     (\<forall>ix. maps_of ix = fold put_published ps (maps_of (W_index w)) \<longrightarrow> mirrored E (set_index ix w)))"

lemma caught_up_start: "mirrored E w \<Longrightarrow> db_ok (W_db w) \<Longrightarrow> caught_up E (w, [])"
  by (auto simp: caught_up_def intro: mirrored_index [of E w])

lemma caught_up_published:
  assumes "caught_up E (w, ps)"
  shows "mirrors (W_db w) (W_index (fold (publish E visit) ps w))"
proof -
  have "mirrored E (set_index (W_index (fold (publish E visit) ps w)) w)"
    using assms maps_published [of E visit ps w] by (simp add: caught_up_def)
  then show ?thesis by (simp add: mirrored_def)
qed

lemma steady_maps: "steady w v \<Longrightarrow> maps_of (W_index v) = maps_of (W_index w)"
  by (simp add: steady_def same_maps_def maps_of_def)

lemma steady_any_index: "steady w v \<Longrightarrow> steady (set_index ix w) (set_index ix v)"
  by (simp add: steady_def same_maps_def)

lemma interleaved_caught_up:
  assumes "interleaved E s s'" and "snowflakes E" and "commits E" and "caught_up E s"
  shows "caught_up E s'"
  using assms(1)
proof cases
  case (interleaved_commit w p v ps)
  let ?ix = "W_index (fold (publish E (\<lambda>ks. ks)) ps w)"
  have old: "db_ok (W_db w)" "mirrored E (set_index ?ix w)"
    using assms(4) maps_published [of E "\<lambda>ks. ks" ps w] by (simp_all add: caught_up_def interleaved_commit(1))
  have "mirrored E (set_index ix v) \<and> db_ok (W_db v)"
    if "maps_of ix = put_published p (fold put_published ps (maps_of (W_index w)))" for ix
    using commit_mirrored_half [OF commits_first_any_index [OF interleaved_commit(3)] assms(2,3) _ old(2), of ix] old that
    by (simp add: maps_published)
  moreover have "maps_of (W_index (publish E (\<lambda>ks. ks) p (fold (publish E (\<lambda>ks. ks)) ps w))) =
      put_published p (fold put_published ps (maps_of (W_index w)))"
    by (simp add: publish_fields maps_published)
  ultimately show ?thesis
    by (auto simp: caught_up_def interleaved_commit(2) commits_first_index [OF interleaved_commit(3)])
next
  case (interleaved_publish visit p ps w qs)
  let ?v = "publish E visit p w"
  have "steady (set_index ix w) (set_index ix ?v)" for ix
    by (simp add: steady_def same_maps_def publish_fields)
  moreover have "fold put_published (ps @ qs) (maps_of (W_index ?v)) =
      fold put_published (ps @ p # qs) (maps_of (W_index w))"
    using put_overtaking [OF interleaved_publish(4)] by (simp add: publish_fields)
  ultimately show ?thesis
    using assms(4) mirrored_steady [OF assms(2)]
    by (auto simp: caught_up_def interleaved_publish(1,2) publish_fields(1))
next
  case (interleaved_other w v ps)
  then show ?thesis
    using assms(4) mirrored_steady [OF assms(2) _ steady_any_index [OF interleaved_other(3)]]
    by (auto simp: caught_up_def steady_maps)
qed

section \<open>The steps of the process\<close>

text \<open>What can be reached with no publication due at the start and at the end.\<close>

definition reaches :: "Env \<Rightarrow> World \<Rightarrow> World \<Rightarrow> bool" where
  "reaches E w v \<longleftrightarrow>
     (db_ok (W_db w) \<longrightarrow> db_ok (W_db v) \<longrightarrow> (interleaved E)\<^sup>*\<^sup>* (w, []) (v, []))"

lemma reaches_steady: "steady w v \<Longrightarrow> reaches E w v"
  by (auto simp: reaches_def intro: interleaved_other)

lemma reaches_trans:
  assumes "reaches E w v" and "db_ok (W_db w) \<Longrightarrow> db_ok (W_db v)" and "reaches E v u"
  shows "reaches E w u"
  using assms unfolding reaches_def by (meson rtranclp_trans)

lemma halves_reaches:
  assumes "halves pub w r h" and "permutes_keys visit"
    and "\<And>x v. r = Some (x, v) \<Longrightarrow> \<exists>p. commits_first E w p v \<and> pub x v = publish E visit p v"
  shows "reaches E w h"
proof (cases r)
  case None
  with assms(1) show ?thesis by (simp add: reaches_steady)
next
  case (Some a)
  then obtain x v p where r: "r = Some (x, v)" and p: "commits_first E w p v" "pub x v = publish E visit p v"
    using assms(3) by (cases a) blast
  have "interleaved E (w, []) (v, [] @ [p])" by (rule interleaved_commit [OF p(1)])
  moreover have "interleaved E (v, [] @ p # []) (publish E visit p v, [] @ [])"
    by (rule interleaved_publish [OF assms(2)]) simp
  ultimately have "(interleaved E)\<^sup>*\<^sup>* (w, []) (publish E visit p v, [])" by simp
  with assms(1) r p(2) show ?thesis by (simp add: reaches_def)
qed

lemma reaches_handlers:
  assumes "permutes_keys visit"
  shows "reaches E w (FinalizeUserUpdateRequest E visit req cid w)"
    and "reaches E w (HandleRoleAddRequest E cid msg w)"
    and "reaches E w (HandleRoleUpdateRequest E cid msg w)"
    and "reaches E w (HandleRoleDeleteRequest E cid msg w)"
    and "reaches E w (HandleRegisterRequest E cid msg w)"
    and "reaches E w (HandleUserRoleAddRequest E visit cid msg w)"
    and "reaches E w (HandleUserRoleDeleteRequest E visit cid msg w)"
proof -
  have user: "\<exists>p. commits_first E w p v \<and> publish_user visit cid user v = publish E visit p v"
    if "commits_first E w (PublishUser cid user) v" for cid user v
    using that by (intro exI [of _ "PublishUser cid user"]) simp
  show "reaches E w (FinalizeUserUpdateRequest E visit req cid w)"
    by (rule halves_reaches [OF halves_profile assms]) (blast intro: user first_profile)
  show "reaches E w (HandleRoleAddRequest E cid msg w)"
    by (rule halves_reaches [OF halves_role_add assms]) (blast intro: first_role_add)
  show "reaches E w (HandleRoleUpdateRequest E cid msg w)"
    by (rule halves_reaches [OF halves_role_update assms]) (blast intro: first_role_update)
  show "reaches E w (HandleRoleDeleteRequest E cid msg w)"
    by (rule halves_reaches [OF halves_role_delete assms]) (blast intro: first_role_delete)
  have new: "\<exists>p. commits_first E w p v \<and> publish_new E cid user token v = publish E visit p v"
    if "commit_register E msg w = Some ((user, token), v)" for user token v
    by (rule exI [of _ "PublishNewUser cid user token"]) (simp add: first_register [OF that])
  show "reaches E w (HandleRegisterRequest E cid msg w)"
    unfolding registering_handler
    by (rule halves_reaches [OF halves_registering assms]) (auto simp: new)
  show "reaches E w (HandleUserRoleAddRequest E visit cid msg w)"
    unfolding HandleUserRoleAddRequest_def
    by (rule decoded_cases [of w], erule reaches_steady,
        rule halves_reaches [OF halves_user_role [OF open_tx.R_AddRoleToUser time_frame.R_AddRoleToUser] assms])
      (blast intro: user first_user_role_add)
  show "reaches E w (HandleUserRoleDeleteRequest E visit cid msg w)"
    unfolding HandleUserRoleDeleteRequest_def
    by (rule decoded_cases [of w], erule reaches_steady,
        rule halves_reaches [OF halves_user_role [OF open_tx.R_DeleteRoleFromUser time_frame.R_DeleteRoleFromUser] assms])
      (blast intro: user first_user_role_delete)
qed

lemma reaches_UserUpdate:
  assumes "permutes_keys visit"
  shows "reaches E w (HandleUserUpdateRequest E visit cid msg w)"
proof -
  have no: "reaches E w (refuse E failed e cid w tx)" if "holding w tx" for failed e tx
    by (rule reaches_steady [OF holding_refuse [OF that]])
  have finish: "reaches E w (if c then reserve_slot E ty d m cid (end_tx E False tx w)
      else FinalizeUserUpdateRequest E visit req cid (end_tx E False tx w))" if hold: "holding w tx" for c ty d m req tx
  proof -
    have v: "steady w (end_tx E False tx w)" "db_ok (W_db w) \<Longrightarrow> db_ok (W_db (end_tx E False tx w))"
      using hold by (auto simp: holding_def in_tx_def W_db_end_tx intro: steady_end_tx)
    then show ?thesis
      using reaches_steady [OF steady_reserve [OF v(1)]] reaches_trans [OF reaches_steady [OF v(1)] v(2) reaches_handlers(1) [OF assms]]
      by simp
  qed
  show ?thesis
    unfolding HandleUserUpdateRequest_def Let_def
    apply (rule decoded_cases [of w], erule reaches_steady)
    apply (rule call_holding [where P = "reaches E w", OF open_tx.R_GetUser acc.R_GetUser holding_begin], erule reaches_steady)
     apply (rule value_holding [where P = "reaches E w", OF user_perms_frames(1) acc_combined(1)], assumption,
        erule reaches_steady, erule no)
    apply (rule value_holding [where P = "reaches E w", OF user_perms_frames(1) acc_combined(1)], assumption,
        erule reaches_steady)
    apply (split if_split, intro conjI impI, erule no, erule finish)
    done
qed

lemma reaches_member:
  assumes "permutes_keys visit"
  shows "reaches E w (process_member E visit cid msg w)"
  using reaches_handlers [OF assms] reaches_UserUpdate [OF assms] reaches_steady [OF steady_messages(1)]
    reaches_steady [OF steady_messages(2)] reaches_steady [OF steady_messages(3)] reaches_steady [OF steady_messages(4)]
    reaches_steady [OF steady_message_send] reaches_steady [OF steady_reads(2)] reaches_steady [OF steady_reads(3)]
    reaches_steady [OF steady_reads(4)] reaches_steady [OF steady_reads(5)] reaches_steady [OF steady_simps(2) [OF steady_refl]]
  by (simp add: process_member_def Let_def)

lemma reaches_guest: "reaches E w (process_guest E cid msg w)"
  using reaches_steady [OF steady_login] reaches_handlers(5) [OF permutes_keys_id(1)]
    reaches_steady [OF steady_simps(2) [OF steady_refl]]
  by (simp add: process_guest_def Let_def)

lemma reaches_Process:
  assumes "permutes_keys visit"
  shows "reaches E w (Process E visit frame cid w)"
proof -
  have closing: "reaches E w (set_conn cid f w)" for f by (rule reaches_steady [OF steady_simps(6) [OF steady_refl]])
  then have noted: "reaches E w (note_request msg cid w)" for msg by (simp add: note_request_def)
  have "db_ok (W_db w) \<Longrightarrow> db_ok (W_db (note_request msg cid w))" for msg by (simp add: note_request_def)
  note go_on = reaches_trans [OF noted this]
  show ?thesis
    using go_on [OF _ reaches_member [OF assms]] go_on [OF _ reaches_guest] closing
    by (auto simp: Process_def Let_def split: option.split)
qed

lemma reaches_avatar:
  assumes "permutes_keys visit" and "steady w v" and "W_db v = W_db w"
  shows "reaches E w (HandleUserUpdateUpload E visit store_avatar req pd parts cid v)"
proof -
  let ?P = "\<lambda>u. steady w u \<and> W_db u = W_db w"
  let ?store = "\<lambda>raw content w. (case store_avatar (UserUpdateRequest_UserID req) (Env_now E (W_tick v)) content of
      Panic \<Rightarrow> (Panic, w) | _ \<Rightarrow> (Ok (), w))"
  have kept: "?P (snd (ReadFiles ?store None FileMetadata_zero parts (tick_world v)))"
    by (rule ReadFiles_keeps) (auto split: go_result.split intro: steady_intros assms(2) simp: assms(3))
  have final: "reaches E w (FinalizeUserUpdateRequest E visit req cid u)" if "?P u" for req u
    using that reaches_trans [OF reaches_steady _ reaches_handlers(1) [OF assms(1)], of w u] by simp
  obtain x u where read: "ReadFiles ?store None FileMetadata_zero parts (tick_world v) = (x, u)"
    by (rule prod.exhaust)
  have u: "?P u" using kept read by simp
  then have err: "?P (HandleError e cid u)" for e using steady_simps(2) by (simp add: HandleError_def)
  show ?thesis
    using u err final reaches_steady [OF steady_simps(5)]
    by (cases x) (simp_all add: HandleUserUpdateUpload_def Let_def read)
qed

lemma reaches_upload:
  assumes "permutes_keys visit"
  shows "reaches E w (snd (HandleGatewayUpload E visit store_file store_avatar slot parts w))"
proof -
  obtain p v where r: "PopPendingRequest slot w = (p, v)" by fastforce
  have v: "steady w v" "W_db v = W_db w"
    using steady_pop [of w slot] r by (auto simp: PopPendingRequest_def split: option.splits)
  have ended: "reaches E w (snd (upload_result v v'))" if "reaches E w v'" for v'
  proof -
    have "steady v' (snd (upload_result v v'))" by (simp add: upload_result_def steady_def same_maps_def)
    moreover have "W_db (snd (upload_result v v')) = W_db v'" by (simp add: upload_result_def)
    ultimately show ?thesis
      using that reaches_steady unfolding reaches_def by (metis rtranclp_trans)
  qed
  have message: "reaches E w (HandleMessageSendUpload E store_file m pd parts cid v)" for m pd cid
    by (rule reaches_steady [OF steady_trans [OF v(1) steady_message_upload]])
  show ?thesis
    unfolding HandleGatewayUpload_def r
    using reaches_steady [OF v(1)] ended message reaches_avatar [OF assms v]
    by (auto split: option.split RequestData.split)
qed

text \<open>Every step of the state machine is made of steps here: its handler commits and publishes at
  once.\<close>

lemma step_reaches: "step E w w' \<Longrightarrow> reaches E w w'"
proof (induction rule: step.induct)
  case (step_connect cid w visit token)
  have "steady w (open_connection E cid w)" by (simp add: open_connection_def steady_def same_maps_def)
  then show ?case by (rule reaches_steady [OF steady_trans [OF _ steady_introduction]])
next
  case (step_frame cid w visit frame)
  then show ?case by (blast intro: reaches_Process)
next
  case (step_upload visit store_file store_avatar slotID parts w r w')
  then show ?case by (metis reaches_upload snd_conv)
qed (blast intro: reaches_steady steady_task steady_refresh steady_push steady_drain steady_shut)+

lemma steps_interleaved:
  assumes "(step E)\<^sup>*\<^sup>* w w'" and "world_inv E w"
  shows "(interleaved E)\<^sup>*\<^sup>* (w, []) (w', [])"
proof -
  have "(interleaved E)\<^sup>*\<^sup>* (w, []) (w', []) \<and> world_inv E w'"
    using assms
  proof (induction rule: rtranclp_induct)
    case (step v u)
    then have "world_inv E v" "world_inv E u" using step_inv [OF step.hyps(2)] by simp_all
    then have "(interleaved E)\<^sup>*\<^sup>* (v, []) (u, [])"
      using step_reaches [OF step.hyps(2)] by (simp add: reaches_def world_inv_defs)
    with step \<open>world_inv E u\<close> show ?case by (meson rtranclp_trans)
  qed simp
  then show ?thesis ..
qed

end
