(* ===== verification/Index_Mirror_Properties.thy ===== *)
theory Index_Mirror_Properties
  imports Concurrent_Steps Gateway_Examples
begin

text \<open>
  The index from the start of the process on: \<^verbatim>\<open>Build\<close> makes it the mirror of the database, and
  it is so again whenever the publications that are due have been made.
\<close>

section \<open>The start\<close>

lemma GetSettings_rows:
  "GetSettings E tx = (Ok s, tx') \<Longrightarrow> DB_settings (Tx_db tx) = Some s"
  unfolding GetSettings_def
  by (auto dest!: Prepare_Ok with_code_Ok elim!: and_then_OkE simp: step_row_def
      split: option.splits if_splits)

lemma GetAllRoles_rows: "GetAllRoles E tx = (Ok rs, tx') \<Longrightarrow> rs = role_rows 0 (Tx_db tx)"
  unfolding GetAllRoles_def QueryRoles_def
  by (auto dest!: Prepare_Ok with_code_Ok elim!: and_then_OkE simp: step_rows_def split: if_splits)

lemma GetAllUsers_rows:
  assumes "GetAllUsers E tx = (Ok us, tx')" and "keys_ok (Tx_db tx)"
  shows "us = map (user_view (Tx_db tx)) (select_users 0 (Tx_db tx))"
proof -
  have "distinct (map UserRow_id (select_users 0 (Tx_db tx)))"
    using assms(2) unfolding select_users_def keys_ok_def by (simp add: distinct_map_filter)
  from group_users_rows [OF this, of None "[]"] show ?thesis
    using assms(1) unfolding GetAllUsers_def QueryUsers_def
    by (auto dest!: Prepare_Ok with_code_Ok elim!: and_then_OkE simp: step_rows_def user_rows_def split: if_splits)
qed

lemma same_maps_refl [simp]: "same_maps ix ix"
  by (simp add: same_maps_def)

lemma same_maps_trans: "same_maps ix1 ix2 \<Longrightarrow> same_maps ix2 ix3 \<Longrightarrow> same_maps ix1 ix3"
  by (simp add: same_maps_def)

lemma UpdateUserInfos_maps: "same_maps ix (UpdateUserInfos visit ix)"
proof -
  have worker: "same_maps ix (worker_step ids k v)" if "same_maps ix v" for ids k v
    using that by (auto simp: worker_step_def Let_def same_maps_def split: option.split)
  have "same_maps ix (fold (worker_step ids) ks v)" if "same_maps ix v" for ids ks v
    using that worker by (intro fold_keeps [where P = "same_maps ix"])
  then show ?thesis
    unfolding UpdateUserInfos_def Let_def
    by (intro fold_keeps [where P = "same_maps ix"] worker) simp_all
qed

lemma Build_maps:
  assumes "Build E visit ix tx = (Ok ix', tx')" and "keys_ok (Tx_db tx)"
  shows "DB_settings (Tx_db tx) = Some (Index_Settings ix')"
    and "get (Index_Roles ix') rid = role_row (Tx_db tx) rid"
    and "get (Index_Users ix') uid = map_option (index_user (Tx_db tx)) (user_row (Tx_db tx) uid)"
proof -
  obtain ix1 t where pop: "PopulateIndex E ix tx = (Ok ix1, t)"
    and sort: "SortUserList visit (UpdateUserInfos visit ix1) = Some ix'"
    using assms(1) unfolding Build_def by (auto elim!: and_then_OkE split: option.splits)
  obtain s t1 rs t2 cs t3 us t4 where
    q: "GetSettings E (Start tx) = (Ok s, t1)" "GetAllRoles E t1 = (Ok rs, t2)"
      "GetAllChannels E t2 = (Ok cs, t3)" "GetAllUsers E t3 = (Ok us, t4)"
    and ix1: "Index_Settings ix1 = s" "Index_Roles ix1 = fold (\<lambda>r. put (Role_ID r) r) rs []"
      "Index_Users ix1 = fold (\<lambda>u. put (User_ID u) (processUser u)) us []"
    using pop unfolding PopulateIndex_def by (auto elim!: or_panic_OkE)
  have db: "Tx_db t1 = Tx_db tx" "Tx_db t2 = Tx_db t1" "Tx_db t3 = Tx_db t2"
    using reads.R_GetSettings [of "Start tx" E] reads.R_GetAllRoles [of t1 E]
      reads.R_GetAllChannels [of t2 E] q by (simp_all add: same_tables_def)
  have "same_maps (UpdateUserInfos visit ix1) ix'"
    using sort unfolding SortUserList_def by (rule same_maps_UpdateUserList)
  then have same: "same_maps ix1 ix'"
    by (rule same_maps_trans [OF UpdateUserInfos_maps])
  show "DB_settings (Tx_db tx) = Some (Index_Settings ix')"
    using same GetSettings_rows [OF q(1)] ix1(1) by (simp add: same_maps_def)
  show "get (Index_Roles ix') rid = role_row (Tx_db tx) rid"
    using same GetAllRoles_rows [OF q(2)] populated_maps(1) [OF assms(2)] by (simp add: same_maps_def ix1 db)
  show "get (Index_Users ix') uid = map_option (index_user (Tx_db tx)) (user_row (Tx_db tx) uid)"
    using same GetAllUsers_rows [OF q(4)] populated_maps(3) [OF assms(2)] assms(2)
    by (simp add: same_maps_def ix1 db)
qed

lemma Build_ticks:
  assumes "Build E visit ix tx = (Ok ix', tx')"
  shows "Tx_tick tx \<le> Tx_tick tx'"
proof -
  obtain ix1 where "PopulateIndex E ix tx = (Ok ix1, tx')"
    using assms unfolding Build_def by (auto elim!: and_then_OkE split: option.splits)
  then obtain r1 t1 r2 t2 r3 t3 r4 t4 where calls:
      "GetSettings E (Start tx) = (r1, t1)" "GetAllRoles E t1 = (r2, t2)"
      "GetAllChannels E t2 = (r3, t3)" "GetAllUsers E t3 = (r4, t4)"
    and tx': "tx' = Commit E False t4"
    unfolding PopulateIndex_def by (auto elim!: or_panic_OkE)
  have "Tx_tick (Start tx) \<le> Tx_tick t1" "Tx_tick t1 \<le> Tx_tick t2" "Tx_tick t2 \<le> Tx_tick t3"
    "Tx_tick t3 \<le> Tx_tick t4"
    using acc.R_GetSettings [of "Start tx" E] acc.R_GetAllRoles [of t1 E]
      acc.R_GetAllChannels [of t2 E] acc.R_GetAllUsers [of t3 E] by (simp_all add: calls same_accounts_def)
  moreover have "Tx_tick tx \<le> Tx_tick (Start tx)" by (simp add: Start_def split: option.split)
  moreover have "Tx_tick t4 \<le> Tx_tick tx'" by (simp add: tx' Commit_def UpdateLastWrite_def Let_def split: option.split)
  ultimately show ?thesis by linarith
qed

lemma built_mirrors:
  assumes "Build E visit ix tx = (Ok ix', tx')" and "db_ok (Tx_db tx)"
  shows "mirrors (Tx_db tx) ix'"
proof -
  have maps: "get (Index_Roles ix') = role_row (Tx_db tx)"
    "get (Index_Users ix') = (\<lambda>uid. map_option (index_user (Tx_db tx)) (user_row (Tx_db tx) uid))"
    using Build_maps(2,3) [OF assms(1)] assms(2) by (auto simp: db_ok_def fun_eq_iff)
  have "live_user ix' (index_user (Tx_db tx) u) = index_user (Tx_db tx) u" for u
    by (rule live_index_user [OF _ assms(2)]) (simp add: maps)
  then show ?thesis
    using Build_maps(1) [OF assms(1)] assms(2)
    by (simp add: mirrors_def maps option.map_comp comp_def db_ok_def)
qed

lemma start_mirrored:
  assumes "snowflakes E" and "db_ok db" and "issued E t (user_ids db \<union> role_ids db)"
    and "StartGateway E visit (initial_world db t started) = Some w"
  shows "mirrored E w"
proof -
  obtain ix tx where b: "Build E visit Index_empty (begin_tx (initial_world db t started)) = (Ok ix, tx)"
    and w: "w = set_index ix (store_tx tx (initial_world db t started))"
    using assms(4) unfolding StartGateway_def
    by (auto simp: initial_world_def split: prod.splits go_result.splits)
  have tx0: "Tx_db (begin_tx (initial_world db t started)) = db" "Tx_tick (begin_tx (initial_world db t started)) = t"
    by (simp_all add: begin_tx_def NewTransaction_def initial_world_def)
  have world: "W_db w = db" "W_index w = ix" "t \<le> W_tick w"
    using Build_tables [OF b] Build_ticks [OF b] tx0
    by (simp_all add: w set_index_def store_tx_def begin_tx_def NewTransaction_def)
  have "mirrors db ix" using built_mirrors [OF b] assms(2) tx0 by simp
  moreover have "ids_in_use db ix \<subseteq> user_ids db \<union> role_ids db"
  proof -
    have "rid \<in> role_ids db" if "get (Index_Users ix) uid = Some u" "rid \<in> set (User_Roles u)" for rid uid u
    proof -
      have "get (Index_Users ix) uid = map_option (index_user db) (user_row db uid)"
        using Build_maps(3) [OF b] assms(2) tx0 by (simp add: db_ok_def)
      with that show ?thesis
        using roles_of_user_exist [OF assms(2)]
        by (fastforce simp: index_user_def user_view_def processUser_def)
    qed
    then show ?thesis unfolding ids_in_use_def by blast
  qed
  ultimately show ?thesis
    using world(3) issued_later [OF assms(1,3)] by (simp add: mirrored_def world)
qed

section \<open>An example\<close>

lemma commit_profile_reliable:
  assumes "reliable E" and "db_ok (W_db w)" and "Conn_userID (conn_of w cid) = me" and "me \<noteq> 0"
    and "user_row (W_db w) me \<noteq> None"
  shows "\<exists>user v. commit_profile E req cid w = Some (user, v) \<and>
    User_DisplayName user = UserUpdateRequest_DisplayName req \<and> db_ok (W_db v) \<and>
    W_conns v = W_conns w \<and> user_row (W_db v) me \<noteq> None"
proof -
  let ?set = "set_profile_columns (UserUpdateRequest_DisplayName req) (UserUpdateRequest_StatusMessage req)
      (UserUpdateRequest_ProfileMessage req) (UserUpdateRequest_ProfileColor req)
      (UserUpdateRequest_AvatarModified req)"
  let ?db = "update_user me ?set (W_db w)"
  obtain r where r: "user_row (W_db w) me = Some r" using assms(5) by blast
  have row: "user_row ?db me = Some (?set r)"
  proof -
    have "List.find (\<lambda>u. UserRow_id u = me) (map (\<lambda>u. if UserRow_id u = me then ?set u else u) us) =
        map_option ?set (List.find (\<lambda>u. UserRow_id u = me) us)" for us
      by (induction us) (simp_all add: set_profile_columns_def)
    with r show ?thesis by (simp add: user_row_def update_user_def)
  qed
  define tx where "tx = (next_tick (MarkAsWrite (Start (begin_tx w))))\<lparr>Tx_db := ?db\<rparr>"
  have begun: "Tx_commit (Start (begin_tx w)) = Some (W_db w)" "Tx_db (Start (begin_tx w)) = W_db w"
    using holding_begin [of w] by (simp_all add: holding_def in_tx_def begin_tx_def NewTransaction_def)
  have set: "SetUserProfile E me (UserUpdateRequest_DisplayName req) (UserUpdateRequest_StatusMessage req)
      (UserUpdateRequest_ProfileMessage req) (UserUpdateRequest_ProfileColor req)
      (UserUpdateRequest_AvatarModified req) (Start (begin_tx w)) = (Ok (), tx)"
    using assms(1) begun by (simp add: SetUserProfile_def Prepare_def Execute_def step_fails_def with_code_simps tx_def MarkAsWrite_def)
  have "extends_tx (Start (begin_tx w)) tx"
    using open_tx.R_SetUserProfile [of "Start (begin_tx w)" E me] by (metis set snd_conv)
  then have tx: "Tx_db tx = ?db" "tx_open tx" "in_tx w tx"
    using holding_begin [of w] by (simp_all add: tx_def holding_def extends_tx_def tx_open_def begun MarkAsWrite_def)
  have "keys_ok (Tx_db tx)" using tx(3) assms(2) by (simp add: in_tx_def db_ok_def)
  from GetUser_result [OF assms(1) tx(2) this assms(4)] have get: "GetUser E me tx = (Ok (user_view ?db (?set r)), next_tick tx)"
    by (simp add: tx(1) row)
  let ?v = "end_tx E False (next_tick tx) w"
  have v: "W_db ?v = ?db" "W_conns ?v = W_conns w"
    using tx assms(1) by (auto simp: end_tx_def store_tx_def Commit_def in_tx_def UpdateLastWrite_def Let_def)
  moreover have "db_ok ?db" using tx(1,3) assms(2) by (simp add: in_tx_def)
  moreover have "commit_profile E req cid w = Some (user_view ?db (?set r), ?v)"
    by (simp add: commit_profile_def assms(3) set get)
  ultimately show ?thesis using row by (simp add: user_view_def user_of_row_def set_profile_columns_def)
qed

definition two_tabs :: World where
  "two_tabs = example_world\<lparr>W_conns := map (\<lambda>cid. (cid, (new_connection ''s'')\<lparr>Conn_userID := 10,
     Conn_token := ''t''\<rparr>)) [0, 1]\<rparr>"

definition rename :: "string \<Rightarrow> UserUpdateRequest" where
  "rename name = \<lparr>UserUpdateRequest_UserID = 10, UserUpdateRequest_DisplayName = name,
     UserUpdateRequest_StatusMessage = [], UserUpdateRequest_ProfileMessage = [],
     UserUpdateRequest_ProfileColor = 0, UserUpdateRequest_AvatarModified = 0,
     UserUpdateRequest_SetName = True, UserUpdateRequest_SetProfile = False,
     UserUpdateRequest_SetAvatar = False\<rparr>"

lemma example_tabs:
  "W_db two_tabs = example_db" "W_index two_tabs = W_index example_world"
  "Conn_userID (conn_of two_tabs 0) = 10" "Conn_userID (conn_of two_tabs 1) = 10"
  "Authenticated (conn_of two_tabs 0)" "steady example_world two_tabs"
  "user_row (W_db two_tabs) 10 \<noteq> None"
  by (simp_all add: two_tabs_def example_start conn_of_def Authenticated_def steady_def same_maps_def user_row_def)

section \<open>The index and the database\<close>

text \<open>C5: The index in memory against the database while goroutines interleave: a handler commits its
  transaction first and publishes the change in the index later, as a step of its own, with any
  steps of other goroutines in between (\<^verbatim>\<open>interleaved\<close>). From the start of the process on, once the
  publications that are due have been made in the order of their commits, the index agrees with the
  database: its settings and its roles are those of the tables, and it has exactly the users of the
  tables, each as stored, except that it may still list, for a user, roles that were deleted. So
  whenever no publication is due, the index itself agrees. Publications about different users or
  roles may overtake each other; of two about the same one, the steps make the earlier first. The
  source does not enforce that, and \<open>Interleaving\<close> shows what comes of it. (It needs that the engine
  refuses no \<^verbatim>\<open>COMMIT\<close>, that snowflakes grow with time, and that the stored ids were issued before the
  start.)\<close>

theorem published_index_mirrors:
  assumes "snowflakes E" and "commits E" and "db_ok db" and "permutes_keys visit"
    and "\<forall>k \<in> user_ids db \<union> role_ids db. 0 < k \<and> k < Env_generate E t"
    and "StartGateway E visit (initial_world db t started) = Some w0"
    and "(interleaved E)\<^sup>*\<^sup>* (w0, []) (w, ps)"
  shows "mirrors (W_db w) (W_index (fold (publish E order) ps w))"
proof -
  have "caught_up E (w, ps)"
    using assms(7)
  proof (induction rule: rtranclp_induct)
    case base
    show ?case
      using start_mirrored [OF assms(1,3) _ assms(6)] StartGateway_inv [OF assms(3,6)] assms(5)
      by (intro caught_up_start) (simp_all add: issued_def world_inv_defs)
  next
    case (step s s')
    then show ?case using interleaved_caught_up [OF step.hyps(2) assms(1,2)] by blast
  qed
  then show ?thesis by (rule caught_up_published)
qed

text \<open>A profile was committed, and its publication is due.\<close>

theorem published_index_mirrors_witness:
  "\<exists>u v. commit_profile env0 (rename ''Ann'') 0 two_tabs = Some (u, v) \<and>
     mirrors (W_db v) (W_index (publish env0 rev (PublishUser 0 u) v))"
proof -
  from commit_profile_reliable [OF env0_reliable _ example_tabs(3) _ example_tabs(7), of "rename ''Ann''"]
  obtain u v where commit: "commit_profile env0 (rename ''Ann'') 0 two_tabs = Some (u, v)"
    by (auto simp: example_tabs example_ok)
  have "interleaved env0 (example_world, []) (two_tabs, [])"
    by (rule interleaved_other) (simp_all add: example_tabs example_ok)
  moreover have "interleaved env0 (two_tabs, []) (v, [] @ [PublishUser 0 u])"
    by (rule interleaved_commit [OF first_profile [OF commit]])
  ultimately have "(interleaved env0)\<^sup>*\<^sup>* (example_world, []) (v, [PublishUser 0 u])" by simp
  from published_index_mirrors [OF _ _ example_ok(1) permutes_keys_id(1) _ example_start(1) this, of rev] commit
  show ?thesis by (simp add: snowflakes_def commits_def strict_mono_def)
qed

text \<open>C7: Every execution of the process in which the handlers run one at a time (\<^verbatim>\<open>step\<close>) is an execution
  of the process whose goroutines interleave at the commits: every handler that writes users or
  roles is the half up to its commit and then the publication of what it read back, and everything
  else leaves the mirrored tables and maps as they are. So in such an execution the index agrees with
  the database after every step.\<close>

theorem process_refines_interleaving:
  assumes "db_ok db" and "StartGateway E visit (initial_world db t started) = Some w0"
    and "(step E)\<^sup>*\<^sup>* w0 w"
  shows "(interleaved E)\<^sup>*\<^sup>* (w0, []) (w, [])"
  by (rule steps_interleaved [OF assms(3) StartGateway_inv [OF assms(1,2)]])

theorem process_refines_interleaving_witness:
  "\<forall>frame. (interleaved env0)\<^sup>*\<^sup>* (example_world, []) (Process env0 (\<lambda>ks. ks) frame 0 example_logged_in, [])"
proof
  fix frame
  have "step env0 example_world example_connected"
    unfolding example_connected_def by (rule step_connect) (simp_all add: example_start keys_def)
  moreover have "step env0 example_connected example_logged_in"
    unfolding example_logged_in_def by (rule step_frame) (simp_all add: connected_fields new_connection_def)
  moreover have "step env0 example_logged_in (Process env0 (\<lambda>ks. ks) frame 0 example_logged_in)"
    by (rule step_frame) (simp_all add: example_logged_in_fields)
  ultimately have "(step env0)\<^sup>*\<^sup>* example_world (Process env0 (\<lambda>ks. ks) frame 0 example_logged_in)"
    by (meson converse_rtranclp_into_rtranclp rtranclp.rtrancl_refl)
  then show "(interleaved env0)\<^sup>*\<^sup>* (example_world, []) (Process env0 (\<lambda>ks. ks) frame 0 example_logged_in, [])"
    by (rule process_refines_interleaving [OF example_ok(1) example_start(1)])
qed

end
