(* ===== verification/Interleaving.thy ===== *)
theory Interleaving
  imports Index_Mirror_Properties
begin

text \<open>
  Two requests at the same time: a handler publishes the user that it wrote after the commit of its
  transaction, and nothing keeps two handlers from publishing in the other order, which the steps of
  Concurrent_Steps exclude for publications about the same user.
\<close>

section \<open>The two halves of an update\<close>

lemma commit_then_publish:
  "commit_profile E req cid w = Some (user, v) \<Longrightarrow>
     FinalizeUserUpdateRequest E visit req cid w = publish_user visit cid user v"
  unfolding commit_profile_def FinalizeUserUpdateRequest_def Let_def
  by (auto split: prod.splits go_result.splits)

lemma commit_profile_result:
  assumes "commits E" and "db_ok (W_db w)" and "commit_profile E req cid w = Some (user, v)"
    and "Conn_userID (conn_of w cid) \<noteq> 0"
  shows "\<exists>r \<in> set (DB_users (W_db v)). UserRow_id r = Conn_userID (conn_of w cid) \<and>
    user = user_view (W_db v) r \<and> differs_at (UserRow_id r) (W_db w) (W_db v) \<and> db_ok (W_db v) \<and>
    W_gw v = W_gw w \<and> W_conns v = W_conns w"
proof -
  let ?me = "Conn_userID (conn_of w cid)"
  obtain x tx1 tx2 where set: "SetUserProfile E ?me (UserUpdateRequest_DisplayName req)
      (UserUpdateRequest_StatusMessage req) (UserUpdateRequest_ProfileMessage req)
      (UserUpdateRequest_ProfileColor req) (UserUpdateRequest_AvatarModified req)
      (Start (begin_tx w)) = (Ok x, tx1)"
    and get: "GetUser E ?me tx1 = (Ok user, tx2)" and v: "v = end_tx E False tx2 w"
    using assms(3) unfolding commit_profile_def Let_def by (auto split: prod.splits go_result.splits)
  have "extends_tx (Start (begin_tx w)) tx1" "touches ?me (Start (begin_tx w)) tx1"
    using open_tx.R_SetUserProfile [of "Start (begin_tx w)" E ?me] touches_writes(1) [of ?me "Start (begin_tx w)" E]
    by (metis set snd_conv)+
  moreover have "extends_tx tx1 tx2" "touches ?me tx1 tx2"
    using open_tx.R_GetUser [of tx1 E ?me] touches_accounts [OF acc.R_GetUser [of tx1 E ?me]] get by simp_all
  ultimately have tx2: "changing w ?me tx2"
    using holding_changing [OF holding_begin, of w ?me]
    by (auto simp: changing_def extends_tx_def touches_def intro: differs_at_trans)
  have db: "Tx_db tx2 = Tx_db tx1" by (rule Tx_db_GetUser [OF get])
  have v': "W_db v = Tx_db tx2" using tx2 assms(1) by (simp add: v W_db_end_tx changing_def commits_def)
  have ok: "db_ok (Tx_db tx2)" using tx2 assms(2) by (simp add: changing_def in_tx_def)
  then have "keys_ok (Tx_db tx1)" by (simp add: db db_ok_def)
  from GetUser_returns [OF get this] obtain r where "r \<in> set (DB_users (Tx_db tx1))"
    "user = user_view (Tx_db tx1) r" "UserRow_id r = ?me" using assms(4) by metis
  then show ?thesis
    using tx2 ok v' db by (intro bexI [of _ r]) (auto simp: v changing_def end_tx_def store_tx_def)
qed

lemma published_user:
  assumes "user_put user (W_index w) ix" and "User_ID user = k"
  shows "get (Index_Users ix) k = Some (processUser user)" and "Index_Roles ix = Index_Roles (W_index w)"
  using assms by (simp_all add: user_put_def)

lemma processed_views: "processUser (user_view db u) = processUser (user_view db' u') \<longleftrightarrow>
    user_view db u = user_view db' u'"
  by (auto simp: processUser_def user_view_def user_of_row_def)

section \<open>The order of two publications\<close>

text \<open>What the two commits leave, as far as the publications depend on it.\<close>

lemma two_commits:
  assumes "commits E" and "db_ok (W_db w)" and "0 \<notin> user_ids (W_db w)"
    and "Conn_userID (conn_of w c1) = me" and "me \<noteq> 0" and "Conn_userID (conn_of w c2) = me"
    and "commit_profile E r1 c1 w = Some (u1, w1)" and "commit_profile E r2 c2 w1 = Some (u2, w2)"
  obtains a b where "a \<in> set (DB_users (W_db w1))" and "UserRow_id a = me" and "u1 = user_view (W_db w1) a"
    and "b \<in> set (DB_users (W_db w2))" and "UserRow_id b = me" and "u2 = user_view (W_db w2) b"
    and "differs_at me (W_db w) (W_db w1)" and "differs_at me (W_db w1) (W_db w2)"
    and "db_ok (W_db w1)" and "db_ok (W_db w2)" and "0 \<notin> user_ids (W_db w1)" and "W_index w2 = W_index w"
proof -
  have "Conn_userID (conn_of w c1) \<noteq> 0" using assms(4,5) by simp
  from commit_profile_result [OF assms(1,2,7) this] obtain a where a: "a \<in> set (DB_users (W_db w1))"
    "UserRow_id a = me" "u1 = user_view (W_db w1) a" "differs_at me (W_db w) (W_db w1)" "db_ok (W_db w1)"
    "W_gw w1 = W_gw w" "W_conns w1 = W_conns w" using assms(4) by metis
  have me: "Conn_userID (conn_of w1 c2) = me" using a(7) assms(6) by (simp add: conn_of_def)
  then have "Conn_userID (conn_of w1 c2) \<noteq> 0" using assms(5) by simp
  from commit_profile_result [OF assms(1) a(5) assms(8) this] obtain b where b: "b \<in> set (DB_users (W_db w2))"
    "UserRow_id b = me" "u2 = user_view (W_db w2) b" "differs_at me (W_db w1) (W_db w2)" "db_ok (W_db w2)"
    "W_gw w2 = W_gw w1" using me by metis
  have "0 \<notin> user_ids (W_db w1)" using a(4) assms(3) unfolding differs_at_def by blast
  with a b that show ?thesis by simp
qed

lemma overtaken_mirror:
  assumes "mirrors db ix" and "differs_at k db db1" and "db_ok db1" and "UserRow_id a = k"
    and "mirrors db2 ix'" and "b \<in> set (DB_users db2)" and "db_ok db2" and "UserRow_id b = k"
    and "get (Index_Users ix') k = Some (index_user db1 a)" and "Index_Roles ix' = Index_Roles ix"
  shows "user_view db1 a = user_view db2 b"
proof -
  have "role_row db1 = role_row db" using assms(2) by (simp add: differs_at_def role_row_def fun_eq_iff)
  then have "get (Index_Roles ix') rid = role_row db1 rid" for rid
    using assms(1) by (simp add: assms(10) mirrors_def)
  then have "live_user ix' (index_user db1 a) = index_user db1 a" by (rule live_index_user) (rule assms(3))
  moreover have "user_row db2 k = Some b" using user_row_unique [OF assms(7,6)] assms(8) by simp
  ultimately have "index_user db1 a = index_user db2 b"
    using assms(5,9) unfolding mirrors_def by (metis option.map(2) option.inject)
  then show ?thesis by (simp add: index_user_def processed_views)
qed

text \<open>C6: Two connections of one user (two tabs) update the profile, and both transactions commit
  before either handler publishes. If they publish in the order of their commits, the index is the
  mirror of the database again; if the second one overtakes, it is so only if the two updates left
  the same profile. Nothing in the source prevents the overtaking.\<close>

theorem publications_need_commit_order:
  assumes "commits E" and "db_ok (W_db w)" and "0 \<notin> user_ids (W_db w)" and "mirrors (W_db w) (W_index w)"
    and "Authenticated (conn_of w c1)" and "Conn_userID (conn_of w c2) = Conn_userID (conn_of w c1)"
    and "commit_profile E r1 c1 w = Some (u1, w1)" and "commit_profile E r2 c2 w1 = Some (u2, w2)"
  shows "mirrors (W_db w2) (W_index (publish_user visit c2 u2 (publish_user visit c1 u1 w2))) \<and>
    (mirrors (W_db w2) (W_index (publish_user visit c1 u1 (publish_user visit c2 u2 w2))) \<longleftrightarrow> u1 = u2)"
proof -
  let ?me = "Conn_userID (conn_of w c1)"
  let ?one = "publish_user visit c1 u1" and ?two = "publish_user visit c2 u2"
  have "?me \<noteq> 0" using assms(5) by (simp add: Authenticated_def)
  from two_commits [OF assms(1-3) refl this assms(6-8)] obtain a b where
    a: "a \<in> set (DB_users (W_db w1))" "UserRow_id a = ?me" "u1 = user_view (W_db w1) a" and
    b: "b \<in> set (DB_users (W_db w2))" "UserRow_id b = ?me" "u2 = user_view (W_db w2) b" and
    d: "differs_at ?me (W_db w) (W_db w1)" "differs_at ?me (W_db w1) (W_db w2)" and
    ok: "db_ok (W_db w1)" "db_ok (W_db w2)" and zero: "0 \<notin> user_ids (W_db w1)" and ix: "W_index w2 = W_index w"
    by metis
  have puts: "user_put u1 (W_index v) (W_index (?one v))" "user_put u2 (W_index v) (W_index (?two v))" for v
    by (rule publish_user_put)+
  have "mirrors (W_db w1) (W_index (?one w2))"
    using mirrors_put [OF assms(4) d(1) ok(1) assms(3) a(1)] a puts(1) [of w2] by (simp add: ix)
  then have ordered: "mirrors (W_db w2) (W_index (?two (?one w2)))"
    by (rule mirrors_put [OF _ d(2) ok(2) zero b(1)]) (use b puts(2) in simp_all)
  have "mirrors (W_db w2) (W_index (?two w2))"
    using mirrors_put [OF assms(4) differs_at_trans [OF d] ok(2) assms(3) b(1)] b puts(2) [of w2] by (simp add: ix)
  moreover have "0 \<notin> user_ids (W_db w2)" using d(2) zero unfolding differs_at_def by blast
  ultimately have same: "mirrors (W_db w2) (W_index (?one (?two w2)))" if "u1 = u2"
    using mirrors_put [OF _ differs_at_refl ok(2) _ b(1)] b puts(1) [of "?two w2"] that by metis
  have "u1 = u2" if "mirrors (W_db w2) (W_index (?one (?two w2)))"
    unfolding a(3) b(3)
  proof (rule overtaken_mirror [OF assms(4) d(1) ok(1) a(2) that b(1) ok(2) b(2)])
    show "get (Index_Users (W_index (?one (?two w2)))) ?me = Some (index_user (W_db w1) a)"
      using puts(1) [of "?two w2"] a by (simp add: user_put_def index_user_def)
    show "Index_Roles (W_index (?one (?two w2))) = Index_Roles (W_index w)"
      using puts(1) [of "?two w2"] puts(2) [of w2] by (simp add: user_put_def ix)
  qed
  with ordered same show ?thesis by blast
qed

section \<open>An example\<close>

theorem publications_need_commit_order_witness:
  "\<exists>u1 w1 u2 w2. commit_profile env0 (rename ''Ann'') 0 two_tabs = Some (u1, w1) \<and>
     commit_profile env0 (rename ''Anna'') 1 w1 = Some (u2, w2) \<and>
     mirrors (W_db w2) (W_index (publish_user (\<lambda>ks. ks) 1 u2 (publish_user (\<lambda>ks. ks) 0 u1 w2))) \<and>
     \<not> mirrors (W_db w2) (W_index (publish_user (\<lambda>ks. ks) 0 u1 (publish_user (\<lambda>ks. ks) 1 u2 w2)))"
proof -
  note w = example_tabs
  have "mirrored env0 example_world"
    by (rule start_mirrored [OF _ example_ok(1) _ example_start(1)])
      (simp_all add: snowflakes_def strict_mono_def issued_def)
  then have m: "mirrors (W_db two_tabs) (W_index two_tabs)" by (simp add: mirrored_def w example_start)
  have "user_row (W_db two_tabs) 10 \<noteq> None" by (simp add: w user_row_def)
  from commit_profile_reliable [OF env0_reliable _ w(3) _ this, of "rename ''Ann''"] obtain u1 w1 where
    one: "commit_profile env0 (rename ''Ann'') 0 two_tabs = Some (u1, w1)" "User_DisplayName u1 = ''Ann''"
      "db_ok (W_db w1)" "W_conns w1 = W_conns two_tabs" "user_row (W_db w1) 10 \<noteq> None"
    by (auto simp: w example_ok rename_def)
  have "Conn_userID (conn_of w1 1) = 10" using one(4) w(4) by (simp add: conn_of_def)
  from commit_profile_reliable [OF env0_reliable one(3) this _ one(5), of "rename ''Anna''"] obtain u2 w2 where
    two: "commit_profile env0 (rename ''Anna'') 1 w1 = Some (u2, w2)" "User_DisplayName u2 = ''Anna''"
    by (auto simp: rename_def)
  have "u1 \<noteq> u2" using one(2) two(2) by auto
  moreover have "commits env0" "0 \<notin> user_ids (W_db two_tabs)" by (simp_all add: commits_def w)
  moreover have "Conn_userID (conn_of two_tabs 1) = Conn_userID (conn_of two_tabs 0)"
    unfolding w(3,4) ..
  ultimately show ?thesis
    using publications_need_commit_order [OF _ _ _ m w(5) _ one(1) two(1)] one(1) two(1) example_ok(1)
    unfolding w(1) by blast
qed

end
