(* ===== verification/Routes.thy ===== *)
theory Routes
  imports Media_Properties
begin

text \<open>
  The HTTP server: the routes that network/server.go, network/api.go and network/media.go register,
  the upgrade of a request to the gateway, and the handler that a request reaches. The router
  (gorilla/mux), the upgrade (gorilla/websocket), the file server and the proxy are parameters.
\<close>

section \<open>Registering the routes\<close>

text \<open>The functions that are registered; \<open>SiteFiles\<close> and \<open>SiteProxy\<close> are the two that
  \<^verbatim>\<open>buildRouter\<close> writes inline, and \<open>RedirectToRoot\<close> is the one that \<^verbatim>\<open>buildAPIRouter\<close> writes twice.\<close>

datatype HandlerFunc =
    GatewayHandler
  | UploadHandler
  | RedirectToRoot
  | PreviewHandler
  | AttachmentHandler
  | ExternalHandler
  | AvatarHandler
  | SiteFiles string
  | SiteProxy string

datatype Route = HandleFunc string HandlerFunc | PathPrefix string HandlerFunc

definition buildAPIRouter :: "Route list \<Rightarrow> Route list" where
  "buildAPIRouter router = router @
     [HandleFunc ''/gateway'' GatewayHandler,
      HandleFunc ''/upload/{slot_id}'' UploadHandler,
      HandleFunc ''/login'' RedirectToRoot,
      HandleFunc ''/register'' RedirectToRoot]"

definition buildMediaRouter :: "Route list \<Rightarrow> Route list" where
  "buildMediaRouter router = router @
     [HandleFunc ''/previews/{message_id}/{preview_id}'' PreviewHandler,
      HandleFunc ''/attachments/{message_id}/{attachment_id}/{attachment_name}'' AttachmentHandler,
      HandleFunc ''/external/{message_id}/{embed_id}'' ExternalHandler,
      HandleFunc ''/avatars/{user_id}/{modified}'' AvatarHandler]"

definition distDir :: string where
  "distDir = ''/var/www/clack''"

text \<open>\<open>found\<close>: the folder of the site has an \<^verbatim>\<open>index.html\<close> when the server starts.\<close>

definition buildRouter :: "bool \<Rightarrow> Route list" where
  "buildRouter found = buildMediaRouter (buildAPIRouter []) @
     [PathPrefix ''/'' (if found then SiteFiles distDir else SiteProxy ''localhost:5173'')]"

section \<open>The router\<close>

text \<open>Whether a template matches a path, and the variables it finds there, is a parameter; routes are
  tried in the order of their registration.\<close>

type_synonym template = "string \<Rightarrow> string \<Rightarrow> (string \<times> string) list option"

fun route_match :: "template \<Rightarrow> string \<Rightarrow> Route \<Rightarrow> (HandlerFunc \<times> (string \<times> string) list) option" where
  "route_match matches path (HandleFunc t h) = map_option (\<lambda>vars. (h, vars)) (matches t path)"
| "route_match matches path (PathPrefix p h) =
     (if take (length p) path = p then Some (h, []) else None)"

fun dispatch :: "template \<Rightarrow> Route list \<Rightarrow> string \<Rightarrow> (HandlerFunc \<times> (string \<times> string) list) option" where
  "dispatch matches [] path = None"
| "dispatch matches (r # rs) path =
     (case route_match matches path r of None \<Rightarrow> dispatch matches rs path | Some c \<Rightarrow> Some c)"

text \<open>What the documentation of the router says of a template: it matches segment by segment, and a
  name in braces stands for one segment that is not empty.\<close>

definition slash :: char where
  "slash = CHR 0x2F"

fun segments :: "string \<Rightarrow> string list" where
  "segments [] = [[]]"
| "segments (c # s) = (if c = slash then [] # segments s
     else case segments s of [] \<Rightarrow> [[c]] | x # xs \<Rightarrow> (c # x) # xs)"

definition is_variable :: "string \<Rightarrow> bool" where
  "is_variable t \<longleftrightarrow> t \<noteq> [] \<and> hd t = CHR ''{''"

fun match_segments :: "string list \<Rightarrow> string list \<Rightarrow> (string \<times> string) list option" where
  "match_segments [] [] = Some []"
| "match_segments (t # ts) (s # ss) =
     (if is_variable t
      then if s = [] then None else map_option ((#) (butlast (tl t), s)) (match_segments ts ss)
      else if t = s then match_segments ts ss else None)"
| "match_segments _ _ = None"

definition mux_documented :: "template \<Rightarrow> bool" where
  "mux_documented matches \<longleftrightarrow> (\<forall>t path. matches t path = match_segments (segments t) (segments path))"

section \<open>The upgrade\<close>

record Upgrader =
  Upgrader_ReadBufferSize :: int
  Upgrader_WriteBufferSize :: int
  Upgrader_CheckOrigin :: "string \<Rightarrow> bool"
  Upgrader_Subprotocols :: "string list"

definition upgrader :: Upgrader where
  "upgrader = \<lparr>Upgrader_ReadBufferSize = 1024, Upgrader_WriteBufferSize = 1024,
     Upgrader_CheckOrigin = (\<lambda>_. True), Upgrader_Subprotocols = []\<rparr>"

text \<open>A request: its path, host, query, headers, the parts of its body, and for a websocket the
  frames that the client goes on to send.\<close>

record Request =
  Request_Path :: string
  Request_Host :: string
  Request_Query :: "string \<Rightarrow> string"
  Request_Header :: "string \<Rightarrow> string"
  Request_Parts :: "UploadPart list option"
  Request_Frames :: "((snowflake list \<Rightarrow> snowflake list) \<times> json option) list"

text \<open>\<^verbatim>\<open>Upgrade\<close> fails, or accepts with the subprotocol that it confirms to the client, if any.\<close>

type_synonym upgrade = "Upgrader \<Rightarrow> Request \<Rightarrow> string option option"

text \<open>The connection is served to its end in one go here; its steps among those of others are the
  relation \<open>step\<close>.\<close>

definition gatewayHandler ::
  "Env \<Rightarrow> (snowflake list \<Rightarrow> snowflake list) \<Rightarrow> upgrade \<Rightarrow> nat \<Rightarrow> Request \<Rightarrow> Upgrader \<Rightarrow> World \<Rightarrow>
   string option option \<times> Upgrader \<times> World" where
  "gatewayHandler E visit upgrade cid r u w =
     (let token = Request_Header r ''Sec-WebSocket-Protocol'';
          u = u\<lparr>Upgrader_Subprotocols := Upgrader_Subprotocols u @ [token]\<rparr>
      in case upgrade u r of
           None \<Rightarrow> (None, u, w)
         | Some answer \<Rightarrow> (Some answer, u, HandleGatewayConnection E visit token (Request_Frames r) cid w))"

section \<open>Serving a request\<close>

text \<open>\<^verbatim>\<open>http.Redirect(w, r, "/", http.StatusSeeOther)\<close>.\<close>

definition redirect_to_root :: "ResponseWriter \<Rightarrow> ResponseWriter" where
  "redirect_to_root rw =
     snd (write_body (''<a href='' @ [CHR 0x22, slash, CHR 0x22] @ ''>See Other</a>.'' @ [CHR 0x0A, CHR 0x0A])
       (WriteHeader 303 (header_Set ''Content-Type'' ''text/html; charset=utf-8''
         (header_Set ''Location'' ''/'' rw))))"

text \<open>What the process keeps for its routes.\<close>

record Server =
  Srv_upgrader :: Upgrader
  Srv_world :: World
  Srv_cache :: CacheStore
  Srv_disk :: Disk

text \<open>The outside of the server: its environment and the libraries that the handlers call. \<open>site_file\<close>,
  \<open>site_folder\<close> and \<open>site_proxy\<close> are \<^verbatim>\<open>http.ServeFile\<close>, \<^verbatim>\<open>http.FileServer\<close> and the reverse proxy.\<close>

record Outside =
  O_env :: Env
  O_visit :: "snowflake list \<Rightarrow> snowflake list"
  O_matches :: template
  O_upgrade :: upgrade
  O_serve :: serve
  O_site_file :: "string \<Rightarrow> Request \<Rightarrow> ResponseWriter \<Rightarrow> ResponseWriter"
  O_site_folder :: "string \<Rightarrow> Request \<Rightarrow> ResponseWriter \<Rightarrow> ResponseWriter"
  O_site_proxy :: "string \<Rightarrow> Request \<Rightarrow> ResponseWriter \<Rightarrow> ResponseWriter"
  O_store_file :: file_store
  O_store_avatar :: "snowflake \<Rightarrow> int \<Rightarrow> string \<Rightarrow> unit go_result"
  O_md5 :: "string \<Rightarrow> string"
  O_url_parts :: "string \<Rightarrow> (string \<times> string) option"
  O_net :: net
  O_error_text :: "serve_result \<Rightarrow> string"

definition serve_site :: "Outside \<Rightarrow> HandlerFunc \<Rightarrow> Request \<Rightarrow> ResponseWriter \<Rightarrow> ResponseWriter" where
  "serve_site X h r rw =
     (case h of
        SiteFiles dir \<Rightarrow>
          if Request_Path r = ''/'' then O_site_file X (dir @ ''/index.html'') r rw
          else O_site_folder X dir r rw
      | SiteProxy host \<Rightarrow> O_site_proxy X host (r\<lparr>Request_Host := host\<rparr>) rw
      | _ \<Rightarrow> rw)"

text \<open>\<^verbatim>\<open>mux.Vars(r)[k]\<close>.\<close>

definition Vars :: "(string \<times> string) list \<Rightarrow> string \<Rightarrow> string" where
  "Vars vars k = (case map_of vars k of None \<Rightarrow> [] | Some v \<Rightarrow> v)"

definition handle ::
  "Outside \<Rightarrow> HandlerFunc \<Rightarrow> (string \<Rightarrow> string) \<Rightarrow> nat \<Rightarrow> Request \<Rightarrow> Server \<times> ResponseWriter \<Rightarrow>
   Server \<times> ResponseWriter" where
  "handle X h vars cid r s_rw = (case s_rw of (s, rw) \<Rightarrow>
     (case h of
        GatewayHandler \<Rightarrow>
          (case gatewayHandler (O_env X) (O_visit X) (O_upgrade X) cid r (Srv_upgrader s) (Srv_world s) of
             (_, u, w) \<Rightarrow> (s\<lparr>Srv_upgrader := u, Srv_world := w\<rparr>, rw))
      | UploadHandler \<Rightarrow>
          (case uploadHandler (O_env X) (O_visit X) (O_store_file X) (O_store_avatar X) (vars ''slot_id'')
                  (Request_Parts r) (Srv_world s) rw of
             (w, rw) \<Rightarrow> (s\<lparr>Srv_world := w\<rparr>, rw))
      | RedirectToRoot \<Rightarrow> (s, redirect_to_root rw)
      | PreviewHandler \<Rightarrow>
          (s, previewHandler (O_serve X) (Srv_disk s) (vars ''message_id'') (vars ''preview_id'')
             (Request_Query r ''type'') rw)
      | AttachmentHandler \<Rightarrow>
          (case attachmentHandler (O_env X) (O_serve X) (Srv_disk s) (vars ''message_id'')
                  (vars ''attachment_id'') (vars ''attachment_name'') (Srv_world s) rw of
             (w, rw) \<Rightarrow> (s\<lparr>Srv_world := w\<rparr>, rw))
      | ExternalHandler \<Rightarrow>
          (case externalHandler (O_env X) (O_md5 X) (O_url_parts X) (O_net X) (O_error_text X)
                  (vars ''message_id'') (vars ''embed_id'') (Request_Query r ''url'')
                  (Request_Header r ''Range'') (Srv_cache s) (Srv_world s) rw of
             (c, w, rw) \<Rightarrow> (s\<lparr>Srv_cache := c, Srv_world := w\<rparr>, rw))
      | AvatarHandler \<Rightarrow>
          (s, avatarHandler (O_serve X) (Srv_disk s) (vars ''user_id'') (vars ''modified'')
             (Request_Query r ''type'') rw)
      | _ \<Rightarrow> (s, serve_site X h r rw)))"

text \<open>A path that no route matches would get the \<^verbatim>\<open>404 page not found\<close> of the router.\<close>

definition ServeHTTP ::
  "Outside \<Rightarrow> Route list \<Rightarrow> nat \<Rightarrow> Request \<Rightarrow> Server \<times> ResponseWriter \<Rightarrow> Server \<times> ResponseWriter" where
  "ServeHTTP X router cid r s_rw =
     (case dispatch (O_matches X) router (Request_Path r) of
        None \<Rightarrow> (fst s_rw, http_Error ''404 page not found'' 404 (snd s_rw))
      | Some (h, vars) \<Rightarrow> handle X h (Vars vars) cid r s_rw)"

end
