(* ===== verification/Routes_Properties.thy ===== *)
theory Routes_Properties
  imports Routes
begin

text \<open>
  Which handler each path reaches, what the routes can change, and what the shared upgrader tells
  its clients.
\<close>

section \<open>Which handler a path reaches\<close>

lemma segments_join: "s = tl (concat (map ((#) slash) (segments s)))"
proof (induction s)
  case (Cons c s)
  then show ?case by (cases "segments s") (auto simp: slash_def)
qed simp

lemma segments_nonempty: "segments s \<noteq> []"
  by (induction s) (auto split: list.split)

definition site_route :: "bool \<Rightarrow> string \<Rightarrow> (HandlerFunc \<times> (string \<times> string) list) option" where
  "site_route found path = (if path \<noteq> [] \<and> hd path = slash
     then Some (if found then SiteFiles distDir else SiteProxy ''localhost:5173'', []) else None)"

lemma template_segments:
  "segments ''/gateway'' = [[], ''gateway'']" "segments ''/login'' = [[], ''login'']"
  "segments ''/register'' = [[], ''register'']" "segments ''/upload/{slot_id}'' = [[], ''upload'', ''{slot_id}'']"
  "segments ''/previews/{message_id}/{preview_id}'' = [[], ''previews'', ''{message_id}'', ''{preview_id}'']"
  "segments ''/attachments/{message_id}/{attachment_id}/{attachment_name}'' =
     [[], ''attachments'', ''{message_id}'', ''{attachment_id}'', ''{attachment_name}'']"
  "segments ''/external/{message_id}/{embed_id}'' = [[], ''external'', ''{message_id}'', ''{embed_id}'']"
  "segments ''/avatars/{user_id}/{modified}'' = [[], ''avatars'', ''{user_id}'', ''{modified}'']"
  by (simp_all add: slash_def)

declare segments.simps [simp del]

lemma template_variables:
  "is_variable ''{slot_id}''" "is_variable ''{message_id}''" "is_variable ''{preview_id}''"
  "is_variable ''{attachment_id}''" "is_variable ''{attachment_name}''" "is_variable ''{embed_id}''"
  "is_variable ''{user_id}''" "is_variable ''{modified}''" "\<not> is_variable []"
  "\<not> is_variable ''gateway''" "\<not> is_variable ''login''" "\<not> is_variable ''register''"
  "\<not> is_variable ''upload''" "\<not> is_variable ''previews''" "\<not> is_variable ''attachments''"
  "\<not> is_variable ''external''" "\<not> is_variable ''avatars''"
  by (simp_all add: is_variable_def)

lemma up_to_five:
  obtains (none) "xs = []" | (one) a where "xs = [a]" | (two) a b where "xs = [a, b]"
  | (three) a b c where "xs = [a, b, c]" | (four) a b c d where "xs = [a, b, c, d]"
  | (five) a b c d e where "xs = [a, b, c, d, e]" | (more) a b c d e f ys where "xs = a # b # c # d # e # f # ys"
proof (cases xs)
  case (Cons a xs1)
  then show ?thesis
  proof (cases xs1)
    case (Cons b xs2)
    with \<open>xs = a # xs1\<close> show ?thesis
    proof (cases xs2)
      case (Cons c xs3)
      with \<open>xs = a # xs1\<close> \<open>xs1 = b # xs2\<close> show ?thesis
        using that(4-7) by (cases xs3 rule: remdups_adj.cases; cases "tl (tl xs3)") auto
    qed (use that in simp)
  qed (use that in simp)
qed (use that in simp)

text \<open>The handler of a path, by its segments; every path that is not one of the others is the site's.\<close>

definition expected_route :: "bool \<Rightarrow> string \<Rightarrow> (HandlerFunc \<times> (string \<times> string) list) option" where
  "expected_route found path = (case segments path of
      [a, b] \<Rightarrow> if a = [] \<and> b = ''gateway'' then Some (GatewayHandler, [])
        else if a = [] \<and> (b = ''login'' \<or> b = ''register'') then Some (RedirectToRoot, [])
        else site_route found path
    | [a, b, c] \<Rightarrow> if a = [] \<and> b = ''upload'' \<and> c \<noteq> [] then Some (UploadHandler, [(''slot_id'', c)])
        else site_route found path
    | [a, b, c, d] \<Rightarrow> if a = [] \<and> c \<noteq> [] \<and> d \<noteq> []
        then if b = ''previews'' then Some (PreviewHandler, [(''message_id'', c), (''preview_id'', d)])
          else if b = ''external'' then Some (ExternalHandler, [(''message_id'', c), (''embed_id'', d)])
          else if b = ''avatars'' then Some (AvatarHandler, [(''user_id'', c), (''modified'', d)])
          else site_route found path
        else site_route found path
    | [a, b, c, d, e] \<Rightarrow> if a = [] \<and> b = ''attachments'' \<and> c \<noteq> [] \<and> d \<noteq> [] \<and> e \<noteq> []
        then Some (AttachmentHandler, [(''message_id'', c), (''attachment_id'', d), (''attachment_name'', e)])
        else site_route found path
    | _ \<Rightarrow> site_route found path)"

lemma route_of:
  assumes "mux_documented m"
  shows "dispatch m (buildRouter found) path = expected_route found path"
proof -
  have m: "m t path = match_segments (segments t) (segments path)" for t
    using assms by (simp add: mux_documented_def)
  have last: "dispatch m [PathPrefix ''/'' (if found then SiteFiles distDir else SiteProxy ''localhost:5173'')] path =
      site_route found path"
    by (cases path) (auto simp: slash_def site_route_def)
  define last where "last = PathPrefix ''/'' (if found then SiteFiles distDir else SiteProxy ''localhost:5173'')"
  have last: "dispatch m [last] path = site_route found path"
    using last by (simp add: last_def)
  have "buildRouter found = buildMediaRouter (buildAPIRouter []) @ [last]"
    by (simp add: buildRouter_def last_def)
  note eval = this buildMediaRouter_def buildAPIRouter_def m template_segments template_variables expected_route_def
    last [simplified]
  show ?thesis
  proof (cases rule: up_to_five [of "segments path"])
    case none
    then show ?thesis using segments_nonempty by blast
  next
    case (four a b c d)
    then show ?thesis
      by (cases "a = [] \<and> c \<noteq> [] \<and> d \<noteq> []"; cases "b = ''previews''"; cases "b = ''external''"; cases "b = ''avatars''")
       (auto simp add: eval cong: if_cong)
  next
    case (five a b c d e)
    then show ?thesis
      by (cases "a = [] \<and> c \<noteq> [] \<and> d \<noteq> [] \<and> e \<noteq> []"; cases "b = ''attachments''") (auto simp add: eval cong: if_cong)
  next
    case (two a b)
    then show ?thesis
      by (cases "a = []"; cases "b = ''gateway''"; cases "b = ''login''"; cases "b = ''register''") (auto simp add: eval cong: if_cong)
  next
    case (three a b c)
    then show ?thesis
      by (cases "a = []"; cases "b = ''upload''"; cases "c = []") (auto simp add: eval cong: if_cong)
  qed (simp_all add: eval cong: if_cong)
qed

text \<open>What the handlers of the other routes leave of the world.\<close>

definition same_but_reads :: "World \<Rightarrow> World \<Rightarrow> bool" where
  "same_but_reads w w' \<longleftrightarrow> (\<exists>t. w' = w\<lparr>W_tick := t\<rparr>)"

lemma store_read: "store_tx (next_tick (begin_tx w)) w = w\<lparr>W_tick := Suc (W_tick w)\<rparr>"
  by (simp add: store_tx_def next_tick_def begin_tx_def NewTransaction_def)

lemma same_but_reads_simps [simp]:
  "same_but_reads w w" "same_but_reads w (store_tx (next_tick (begin_tx w)) w)"
  by (auto simp: same_but_reads_def store_read intro: exI [of _ "W_tick w"])

lemma attachmentHandler_reads:
  assumes "attachmentHandler E serve d m a name w rw = (w', rw')"
  shows "same_but_reads w w'"
proof (cases "ParseInt m = None \<or> ParseInt a = None")
  case True
  then show ?thesis using assms by (cases "ParseInt m"; cases "ParseInt a") (auto simp: attachmentHandler_def)
next
  case False
  then obtain mid aid where ids: "ParseInt m = Some mid" "ParseInt a = Some aid" by auto
  obtain r tx where r: "GetAttachment E mid aid name (begin_tx w) = (r, tx)" by fastforce
  then have "tx = next_tick (begin_tx w)" using GetAttachment_result by blast
  with r ids assms show ?thesis by (cases r) (auto simp: attachmentHandler_def)
qed

lemma externalHandler_reads:
  assumes "externalHandler E md5 url_parts net error_text m e url hdr cache w rw = (cache', w', rw')"
  shows "same_but_reads w w'"
proof (cases "ParseInt m = None \<or> ParseInt e = None \<or> url = []")
  case True
  then show ?thesis using assms by (cases "ParseInt m"; cases "ParseInt e") (auto simp: externalHandler_def)
next
  case False
  then obtain mid eid where ids: "ParseInt m = Some mid" "ParseInt e = Some eid" "url \<noteq> []" by auto
  obtain r tx where r: "IsURLAllowed E eid url (begin_tx w) = (r, tx)" by fastforce
  then have "tx = next_tick (begin_tx w)" using IsURLAllowed_result by blast
  with r ids assms show ?thesis
    by (cases r) (auto simp: externalHandler_def split: if_splits prod.splits)
qed

lemma handle_reads:
  assumes "handle X h vars cid r (s, rw) = (s', rw')" and "h \<noteq> GatewayHandler" and "h \<noteq> UploadHandler"
  shows "same_but_reads (Srv_world s) (Srv_world s')" and "Srv_upgrader s' = Srv_upgrader s"
    and "Srv_disk s' = Srv_disk s" and "h \<noteq> ExternalHandler \<Longrightarrow> Srv_cache s' = Srv_cache s"
  using assms
  by (auto simp: handle_def split: HandlerFunc.splits prod.splits
      dest: attachmentHandler_reads externalHandler_reads)

section \<open>Examples\<close>

definition example_offers :: "Request \<Rightarrow> string list" where
  "example_offers r = (let h = Request_Header r ''Sec-WebSocket-Protocol'' in
     if h = ''x, secret'' then [''x'', ''secret''] else [h])"

definition example_outside :: Outside where
  "example_outside = \<lparr>O_env = env0, O_visit = (\<lambda>ks. ks),
     O_matches = (\<lambda>t path. match_segments (segments t) (segments path)),
     O_upgrade = (\<lambda>u r. Some (List.find (\<lambda>p. p \<in> set (Upgrader_Subprotocols u)) (example_offers r))),
     O_serve = (\<lambda>f rw. rw\<lparr>RW_body := File_Content f\<rparr>), O_site_file = (\<lambda>_ _ rw. rw),
     O_site_folder = (\<lambda>_ _ rw. rw), O_site_proxy = (\<lambda>_ _ rw. rw),
     O_store_file = (\<lambda>_ _ _ _. Err Uncoded), O_store_avatar = (\<lambda>_ _ _. Ok ()), O_md5 = (\<lambda>s. s),
     O_url_parts = (\<lambda>_. None), O_net = (\<lambda>_ _ _. None), O_error_text = (\<lambda>_. [])\<rparr>"

definition example_request :: "string \<Rightarrow> string \<Rightarrow> Request" where
  "example_request path token = \<lparr>Request_Path = path, Request_Host = [], Request_Query = (\<lambda>_. []),
     Request_Header = (\<lambda>k. if k = ''Sec-WebSocket-Protocol'' then token else []),
     Request_Parts = None, Request_Frames = []\<rparr>"

definition example_server :: Server where
  "example_server = \<lparr>Srv_upgrader = upgrader, Srv_world = media_world,
     Srv_cache = (\<lambda>_. \<lparr>Entry_data = None, Entry_meta = NoMeta, Entry_data_opens = True,
       Entry_meta_opens = True, Entry_limit = 100\<rparr>), Srv_disk = \<lparr>Disk_files = [], Disk_creates = (\<lambda>_. True),
       Disk_room = 9, Disk_modified = (\<lambda>_. 0)\<rparr>\<rparr>"

section \<open>What the routes change\<close>

text \<open>C30: A request for any path but \<^verbatim>\<open>/gateway\<close> and \<^verbatim>\<open>/upload/...\<close> changes nothing on the server:
  not the tables, the index, the connections, the upgrader or the files, and the cache of remote
  files only for a path \<^verbatim>\<open>/external/...\<close>. (The clock of the model goes on.)\<close>

theorem only_two_routes_write:
  assumes "mux_documented (O_matches X)" and "Request_Path r \<noteq> ''/gateway''"
    and "take 8 (Request_Path r) \<noteq> ''/upload/''"
    and "ServeHTTP X (buildRouter found) cid r (s, rw) = (s', rw')"
  shows "(\<exists>t. Srv_world s' = (Srv_world s)\<lparr>W_tick := t\<rparr>) \<and> Srv_upgrader s' = Srv_upgrader s \<and>
    Srv_disk s' = Srv_disk s \<and> (Srv_cache s' = Srv_cache s \<or> take 10 (Request_Path r) = ''/external/'')"
proof -
  let ?path = "Request_Path r"
  have join: "?path = tl (concat (map ((#) slash) (segments ?path)))" by (rule segments_join)
  show ?thesis
  proof (cases "dispatch (O_matches X) (buildRouter found) ?path")
    case None
    then show ?thesis using assms(4) by (auto simp: ServeHTTP_def intro: exI [of _ "W_tick (Srv_world s)"])
  next
    case (Some call)
    obtain h vars where call: "call = (h, vars)" by (cases call)
    have h: "handle X h (Vars vars) cid r (s, rw) = (s', rw')"
      using assms(4) Some call by (simp add: ServeHTTP_def)
    have route: "Some (h, vars) = dispatch (O_matches X) (buildRouter found) ?path" using Some call by simp
    have "h = GatewayHandler \<Longrightarrow> segments ?path = [[], ''gateway'']"
      and "h = UploadHandler \<Longrightarrow> \<exists>slot. segments ?path = [[], ''upload'', slot]"
      and "h = ExternalHandler \<Longrightarrow> \<exists>c d. segments ?path = [[], ''external'', c, d]"
      using route unfolding route_of [OF assms(1)] expected_route_def site_route_def
      by (auto split: list.splits if_splits)
    then have paths: "h \<noteq> GatewayHandler" "h \<noteq> UploadHandler" "h = ExternalHandler \<Longrightarrow> take 10 ?path = ''/external/''"
      using join assms(2,3) by (auto simp: slash_def)
    show ?thesis
      using handle_reads [OF h paths(1,2)] paths(3) by (auto simp: same_but_reads_def)
  qed
qed

theorem only_two_routes_write_witness:
  "W_db (Srv_world (fst (ServeHTTP example_outside (buildRouter True) 0
     (example_request ''/attachments/4/2/notes.txt'' []) (example_server, blank_writer)))) = W_db media_world"
proof -
  let ?r = "example_request ''/attachments/4/2/notes.txt'' []"
  obtain s rw where *: "ServeHTTP example_outside (buildRouter True) 0 ?r (example_server, blank_writer) = (s, rw)"
    by (rule prod.exhaust)
  have "\<exists>t. Srv_world s = (Srv_world example_server)\<lparr>W_tick := t\<rparr>"
    using only_two_routes_write [OF _ _ _ *]
    by (simp add: mux_documented_def example_outside_def example_request_def)
  with * show ?thesis by (auto simp: example_server_def)
qed

section \<open>The tokens that the upgrader collects\<close>

text \<open>What the documentation says of \<^verbatim>\<open>Upgrade\<close>: it confirms a subprotocol that both the server lists
  and the client offers (\<open>offers\<close>), and none if there is none.\<close>

definition negotiates :: "upgrade \<Rightarrow> (Request \<Rightarrow> string list) \<Rightarrow> bool" where
  "negotiates upgrade offers \<longleftrightarrow> (\<forall>u r answer. upgrade u r = Some answer \<longrightarrow>
     (case answer of
        None \<Rightarrow> set (offers r) \<inter> set (Upgrader_Subprotocols u) = {}
      | Some p \<Rightarrow> p \<in> set (offers r) \<inter> set (Upgrader_Subprotocols u)))"

definition token_header :: "Request \<Rightarrow> string" where
  "token_header r = Request_Header r ''Sec-WebSocket-Protocol''"

text \<open>The requests for the gateway, in the order of their arrival, each with the number of its
  connection.\<close>

fun serve_upgrades ::
  "Env \<Rightarrow> (snowflake list \<Rightarrow> snowflake list) \<Rightarrow> upgrade \<Rightarrow> (nat \<times> Request) list \<Rightarrow> Upgrader \<times> World \<Rightarrow>
   Upgrader \<times> World" where
  "serve_upgrades E visit upgrade [] s = s"
| "serve_upgrades E visit upgrade ((cid, r) # rs) (u, w) =
     serve_upgrades E visit upgrade rs (snd (gatewayHandler E visit upgrade cid r u w))"

lemma gatewayHandler_subprotocols:
  "gatewayHandler E visit upgrade cid r u w = (answer, u', w') \<Longrightarrow>
     Upgrader_Subprotocols u' = Upgrader_Subprotocols u @ [token_header r]"
  by (auto simp: gatewayHandler_def Let_def token_header_def split: option.splits)

lemma serve_upgrades_subprotocols:
  "serve_upgrades E visit upgrade rs (u, w) = (u', w') \<Longrightarrow>
     Upgrader_Subprotocols u' = Upgrader_Subprotocols u @ map (\<lambda>(_, r). token_header r) rs"
proof (induction rs arbitrary: u w)
  case (Cons c rs)
  obtain cid r where c: "c = (cid, r)" by (cases c)
  obtain answer u1 w1 where g: "gatewayHandler E visit upgrade cid r u w = (answer, u1, w1)"
    by (metis surj_pair)
  with Cons c gatewayHandler_subprotocols [OF g] show ?case by simp
qed simp

text \<open>C31: The upgrader is shared by all requests and keeps every header \<^verbatim>\<open>Sec-WebSocket-Protocol\<close> that
  was ever sent to the gateway, also of requests whose upgrade failed. So a client that offers a
  text gets it confirmed exactly if it is such a header: as the header holds the token with which a
  client logs in, the answer tells anyone whether a token was used since the server started.\<close>

theorem upgrade_reveals_tokens:
  assumes "negotiates upgrade offers" and "serve_upgrades E visit upgrade earlier (upgrader, w) = (u, v)"
    and "gatewayHandler E visit upgrade cid r u v = (Some answer, u', v')"
  shows "Upgrader_Subprotocols u' = map (\<lambda>(_, r). token_header r) earlier @ [token_header r] \<and>
    (answer = None \<longleftrightarrow> set (offers r) \<inter> set (Upgrader_Subprotocols u') = {}) \<and>
    (answer = None \<or> the answer \<in> set (offers r) \<inter> set (Upgrader_Subprotocols u'))"
proof -
  have "Upgrader_Subprotocols u = map (\<lambda>(_, r). token_header r) earlier"
    using serve_upgrades_subprotocols [OF assms(2)] by (simp add: upgrader_def)
  then have "Upgrader_Subprotocols u' = map (\<lambda>(_, r). token_header r) earlier @ [token_header r]"
    using gatewayHandler_subprotocols [OF assms(3)] by simp
  moreover have "upgrade u' r = Some answer"
    using assms(3) by (auto simp: gatewayHandler_def Let_def split: option.splits)
  with assms(1) have "case answer of
        None \<Rightarrow> set (offers r) \<inter> set (Upgrader_Subprotocols u') = {}
      | Some p \<Rightarrow> p \<in> set (offers r) \<inter> set (Upgrader_Subprotocols u')"
    unfolding negotiates_def by blast
  ultimately show ?thesis by (cases answer) auto
qed

theorem upgrade_reveals_tokens_witness:
  "fst (case serve_upgrades env0 (\<lambda>ks. ks) (O_upgrade example_outside)
          [(0, example_request ''/gateway'' ''secret'')] (upgrader, media_world) of
        (u, v) \<Rightarrow> gatewayHandler env0 (\<lambda>ks. ks) (O_upgrade example_outside) 1
          (example_request ''/gateway'' ''x, secret'') u v) = Some (Some ''secret'')"
proof -
  let ?up = "O_upgrade example_outside" and ?r = "example_request ''/gateway'' ''x, secret''"
  obtain u v where e: "serve_upgrades env0 (\<lambda>ks. ks) ?up [(0, example_request ''/gateway'' ''secret'')]
      (upgrader, media_world) = (u, v)" by (rule prod.exhaust)
  obtain a u' v' where g: "gatewayHandler env0 (\<lambda>ks. ks) ?up 1 ?r u v = (a, u', v')"
    by (metis surj_pair)
  obtain answer where a: "a = Some answer"
    using g by (auto simp: gatewayHandler_def Let_def example_outside_def)
  have "negotiates ?up example_offers"
    by (auto simp: negotiates_def example_outside_def find_None_iff find_Some_iff split: option.split)
  from upgrade_reveals_tokens [OF this e g [unfolded a]] have "answer = Some ''secret''"
    by (cases answer) (auto simp: example_offers_def example_request_def token_header_def Let_def)
  with e g a show ?thesis by simp
qed

end
