(* ===== verification/Readers.thy ===== *)
theory Readers
  imports Process
begin

text \<open>
  The readers of common/utils.go over the readers of the standard library: \<^verbatim>\<open>PartReader\<close>, through which
  an upload is read, and \<^verbatim>\<open>DiskReader\<close>, through which a stored file is. A part of a body arrives in
  pieces of any length. What a \<^verbatim>\<open>PartReader\<close> yields in all, however it is read, is what \<open>ReadFiles\<close>
  gives to its callback.
\<close>

section \<open>Parts of a request\<close>

text \<open>\<^verbatim>\<open>Read\<close> into a buffer of \<open>n\<close> bytes: \<open>None\<close> is the end.\<close>

definition part_Read :: "nat \<Rightarrow> string list \<Rightarrow> string option \<times> string list" where
  "part_Read n part =
     (case part of
        [] \<Rightarrow> (None, [])
      | c # cs \<Rightarrow> (Some (take n c), if length c \<le> n then cs else drop n c # cs))"

text \<open>\<^verbatim>\<open>io.LimitReader\<close>.\<close>

record LimitedReader =
  LimitedReader_R :: "string list"
  LimitedReader_N :: int

definition LimitedReader_Read :: "nat \<Rightarrow> LimitedReader \<Rightarrow> string option \<times> LimitedReader" where
  "LimitedReader_Read n l =
     (if LimitedReader_N l \<le> 0 then (None, l)
      else
        let n = (if LimitedReader_N l < int n then nat (LimitedReader_N l) else n) in
        case part_Read n (LimitedReader_R l) of
          (None, R) \<Rightarrow> (None, l\<lparr>LimitedReader_R := R\<rparr>)
        | (Some bs, R) \<Rightarrow>
            (Some bs, l\<lparr>LimitedReader_R := R, LimitedReader_N := LimitedReader_N l - int (length bs)\<rparr>))"

record PartReader =
  PartReader_reader :: LimitedReader
  PartReader_size :: int

definition NewPartReader :: "string list \<Rightarrow> int \<Rightarrow> PartReader" where
  "NewPartReader part n = \<lparr>PartReader_reader = \<lparr>LimitedReader_R = part, LimitedReader_N = n\<rparr>,
     PartReader_size = n\<rparr>"

definition PartReader_Read :: "nat \<Rightarrow> PartReader \<Rightarrow> string option \<times> PartReader" where
  "PartReader_Read n r =
     (case LimitedReader_Read n (PartReader_reader r) of (bs, l) \<Rightarrow> (bs, r\<lparr>PartReader_reader := l\<rparr>))"

definition PartReader_Size :: "PartReader \<Rightarrow> int" where
  "PartReader_Size r = PartReader_size r"

section \<open>Files\<close>

text \<open>An open \<^verbatim>\<open>os.File\<close>: its bytes and position, whether it is open, and whether \<^verbatim>\<open>Stat\<close> works.\<close>

record os_File =
  File_bytes :: string
  File_at :: nat
  File_open :: bool
  File_stat_works :: bool

record DiskReader =
  DiskReader_File :: os_File

definition DiskReader_Read :: "nat \<Rightarrow> DiskReader \<Rightarrow> string option go_result \<times> DiskReader" where
  "DiskReader_Read n r =
     (let f = DiskReader_File r; bs = take n (drop (File_at f) (File_bytes f)) in
      if \<not> File_open f then (Err Uncoded, r)
      else if bs = [] \<and> 0 < n then (Ok None, r)
      else (Ok (Some bs), r\<lparr>DiskReader_File := f\<lparr>File_at := File_at f + length bs\<rparr>\<rparr>))"

text \<open>\<^verbatim>\<open>whence\<close> is 0 for the start, 1 for the position, and 2 for the end.\<close>

definition DiskReader_Seek :: "int \<Rightarrow> nat \<Rightarrow> DiskReader \<Rightarrow> int go_result \<times> DiskReader" where
  "DiskReader_Seek offset whence r =
     (let f = DiskReader_File r;
          at = offset + (if whence = 0 then 0 else if whence = 1 then int (File_at f)
            else int (length (File_bytes f)))
      in if \<not> File_open f \<or> 2 < whence \<or> at < 0 then (Err Uncoded, r)
         else (Ok at, r\<lparr>DiskReader_File := f\<lparr>File_at := nat at\<rparr>\<rparr>))"

definition DiskReader_Close :: "DiskReader \<Rightarrow> unit go_result \<times> DiskReader" where
  "DiskReader_Close r =
     (let f = DiskReader_File r in
      if File_open f then (Ok (), r\<lparr>DiskReader_File := f\<lparr>File_open := False\<rparr>\<rparr>) else (Err Uncoded, r))"

definition DiskReader_Size :: "DiskReader \<Rightarrow> int go_result" where
  "DiskReader_Size r =
     (if File_open (DiskReader_File r) \<and> File_stat_works (DiskReader_File r)
      then Ok (int (length (File_bytes (DiskReader_File r)))) else Panic)"

section \<open>Reading to the end\<close>

lemma LimitedReader_Read_Some:
  assumes "LimitedReader_Read n l = (Some bs, l')" and "0 < n" and "[] \<notin> set (LimitedReader_R l)"
  shows "take (nat (LimitedReader_N l)) (concat (LimitedReader_R l)) =
      bs @ take (nat (LimitedReader_N l')) (concat (LimitedReader_R l'))"
    and "nat (LimitedReader_N l') < nat (LimitedReader_N l)" and "[] \<notin> set (LimitedReader_R l')"
proof -
  define k where "k = (if LimitedReader_N l < int n then nat (LimitedReader_N l) else n)"
  have "0 < LimitedReader_N l" and part: "part_Read k (LimitedReader_R l) = (Some bs, LimitedReader_R l')"
    and N: "LimitedReader_N l' = LimitedReader_N l - int (length bs)"
    using assms(1) by (auto simp: LimitedReader_Read_def k_def Let_def split: if_splits prod.splits option.splits)
  then have k: "0 < k" "int k \<le> LimitedReader_N l" using assms(2) by (auto simp: k_def)
  obtain c cs where R: "LimitedReader_R l = c # cs" "bs = take k c"
    "LimitedReader_R l' = (if length c \<le> k then cs else drop k c # cs)"
    using part by (auto simp: part_Read_def split: list.splits)
  then have bs: "bs @ concat (LimitedReader_R l') = concat (LimitedReader_R l)" "bs \<noteq> []" "length bs \<le> k"
    using k(1) assms(3) by auto
  then have len: "0 < length bs" "int (length bs) \<le> LimitedReader_N l" using k(2) by auto
  show "[] \<notin> set (LimitedReader_R l')" using R assms(3) by auto
  show "nat (LimitedReader_N l') < nat (LimitedReader_N l)" using len unfolding N by arith
  have "nat (LimitedReader_N l) = length bs + nat (LimitedReader_N l')" using N len by linarith
  then show "take (nat (LimitedReader_N l)) (concat (LimitedReader_R l)) =
      bs @ take (nat (LimitedReader_N l')) (concat (LimitedReader_R l'))"
    unfolding bs(1) [symmetric] by simp
qed

lemma LimitedReader_Read_None:
  assumes "LimitedReader_Read n l = (None, l')"
  shows "take (nat (LimitedReader_N l)) (concat (LimitedReader_R l)) = []"
  using assms
  by (auto simp: LimitedReader_Read_def part_Read_def Let_def split: if_splits prod.splits option.splits list.splits)

text \<open>Reading with a buffer of \<open>n\<close> bytes until the end, as \<^verbatim>\<open>io.Copy\<close> does.\<close>

function read_all :: "nat \<Rightarrow> LimitedReader \<Rightarrow> string" where
  "read_all n l = (if n = 0 \<or> [] \<in> set (LimitedReader_R l) then []
     else case LimitedReader_Read n l of (None, _) \<Rightarrow> [] | (Some bs, l) \<Rightarrow> bs @ read_all n l)"
  by pat_completeness auto

termination
proof (relation "measure (\<lambda>(n, l). nat (LimitedReader_N l))", goal_cases)
  case (2 n l)
  then show ?case using LimitedReader_Read_Some(2) [of n l] by (simp del: nat_less_iff zless_nat_conj) metis
qed simp

declare read_all.simps [simp del]

text \<open>Whatever the buffer and the pieces are, a part is read up to the size that its metadata name.\<close>

lemma read_all_part:
  assumes "0 < n" and "[] \<notin> set part"
  shows "read_all n (PartReader_reader (NewPartReader part k)) = take (nat k) (concat part)"
proof -
  have all: "0 < n \<Longrightarrow> [] \<notin> set (LimitedReader_R l) \<Longrightarrow>
      read_all n l = take (nat (LimitedReader_N l)) (concat (LimitedReader_R l))" for n l
  proof (induction n l rule: read_all.induct)
    case (1 n l)
    obtain r l' where r: "LimitedReader_Read n l = (r, l')" by fastforce
    show ?case
    proof (cases r)
      case None
      with r 1 LimitedReader_Read_None [of n l l'] show ?thesis by (subst read_all.simps) simp
    next
      case (Some bs)
      with r have s: "LimitedReader_Read n l = (Some bs, l')" by simp
      note * = LimitedReader_Read_Some [OF s 1(2,3)]
      have "read_all n l' = take (nat (LimitedReader_N l')) (concat (LimitedReader_R l'))"
        using 1 s *(3) by simp
      with * 1(2,3) s show ?thesis by (subst read_all.simps) simp
    qed
  qed
  from all [of n "PartReader_reader (NewPartReader part k)"] assms show ?thesis
    by (simp add: NewPartReader_def)
qed

text \<open>A file that is read from its start in one go has the bytes that \<open>Size\<close> counts.\<close>

lemma DiskReader_reads_Size:
  assumes "DiskReader_Size r = Ok k" and "DiskReader_Seek 0 0 r = (Ok z, r')" and "0 < k"
  shows "fst (DiskReader_Read (nat k) r') = Ok (Some (File_bytes (DiskReader_File r)))"
  using assms
  by (auto simp: DiskReader_Size_def DiskReader_Seek_def DiskReader_Read_def Let_def split: if_splits)

end
