(* ===== verification/Relay_Permissions.thy ===== *)
theory Relay_Permissions
  imports Reachability
begin

text \<open>
  What the relay checks when it passes on the events of a channel: the permissions in the index,
  which are computed when a user is published and when the process starts.
\<close>

text \<open>The parts of the index that the check reads.\<close>

definition same_checks :: "World \<Rightarrow> World \<Rightarrow> bool" where
  "same_checks w v \<longleftrightarrow> Index_Users (W_index v) = Index_Users (W_index w) \<and>
     Index_UserInfos (W_index v) = Index_UserInfos (W_index w) \<and>
     Index_Channels (W_index v) = Index_Channels (W_index w)"

lemma same_checks_permissions:
  assumes "same_checks w v"
  shows "index_GetPermissionsByChannel (W_index v) = index_GetPermissionsByChannel (W_index w)"
proof -
  have parts: "index_GetPermissionsByUser (W_index v) = index_GetPermissionsByUser (W_index w)"
    "index_GetUser (W_index v) = index_GetUser (W_index w)"
    "index_GetChannel (W_index v) = index_GetChannel (W_index w)"
    using assms by (simp_all add: same_checks_def fun_eq_iff index_GetPermissionsByUser_def
        index_GetUser_def index_GetChannel_def)
  show ?thesis unfolding fun_eq_iff index_GetPermissionsByChannel_def parts by blast
qed

lemma same_checks_ends [simp, intro!]:
  "same_checks w (HandleError e cid w)" "same_checks w (refuse E failed e cid w tx)"
  "same_checks w (panic_tx cid tx w)" "same_checks w (leak_tx tx w)"
  by (simp_all add: same_checks_def HandleError_def refuse_def panic_tx_def panic_def leak_tx_def)

lemma same_checks_calls:
  assumes "\<And>x tx. same_checks w (f x tx)"
  shows "same_checks w (tx_call cid w r (\<lambda>e tx. refuse E failed e cid w tx) f)"
    and "same_checks w (tx_value cid w r f)"
proof -
  have call: "same_checks w (tx_call cid w r h f)" if "\<And>e tx. same_checks w (h e tx)" for h
    using that assms by (cases r; cases "fst r") auto
  show "same_checks w (tx_call cid w r (\<lambda>e tx. refuse E failed e cid w tx) f)"
    by (rule call) simp
  show "same_checks w (tx_value cid w r f)"
    unfolding tx_value_def using assms by (cases r; cases "fst r") auto
qed

lemma same_checks_roles:
  "same_checks w (OnRoleAdd role (set_index (index_AddRole role (W_index (end_tx E b tx w))) (end_tx E b tx w)))"
  "same_checks w (OnRoleUpdate role (set_index (index_UpdateRole role (W_index (end_tx E b tx w))) (end_tx E b tx w)))"
  "same_checks w (OnRoleDelete rid (set_index (index_DeleteRole rid (W_index (end_tx E b tx w))) (end_tx E b tx w)))"
  by (simp_all add: same_checks_def relay_defs set_index_def index_AddRole_def index_UpdateRole_def index_DeleteRole_def)

lemma same_checks_managed:
  "(\<And>tx. same_checks w (k tx)) \<Longrightarrow> same_checks w (with_manage_roles E cid w k)"
  unfolding with_manage_roles_def by (rule same_checks_calls(2)) simp

lemma same_checks_decoded: "(\<And>req. same_checks w (f req)) \<Longrightarrow> same_checks w (decoded cid w r f)"
  by (cases r) simp_all

lemma same_checks_requests:
  "same_checks w (HandleRoleAddRequest E cid msg w)" "same_checks w (HandleRoleUpdateRequest E cid msg w)"
  "same_checks w (HandleRoleDeleteRequest E cid msg w)"
  unfolding HandleRoleAddRequest_def HandleRoleUpdateRequest_def HandleRoleDeleteRequest_def Let_def
  by (intro same_checks_decoded same_checks_managed same_checks_calls(1) same_checks_roles)+

text \<open>C13: A request that adds, changes or deletes a role leaves the permissions that the relay checks as
  they were, for every user and channel, and so does the pass that rebuilds the user list after it:
  who loses a permission with a role goes on to receive the events of a channel until the user is
  published again or the process starts anew.\<close>

theorem relay_ignores_role_changes:
  "index_GetPermissionsByChannel (W_index (HandleRoleAddRequest E cid msg w)) =
     index_GetPermissionsByChannel (W_index w) \<and>
   index_GetPermissionsByChannel (W_index (HandleRoleUpdateRequest E cid msg w)) =
     index_GetPermissionsByChannel (W_index w) \<and>
   index_GetPermissionsByChannel (W_index (HandleRoleDeleteRequest E cid msg w)) =
     index_GetPermissionsByChannel (W_index w) \<and>
   (case refresh_user_list visit w of None \<Rightarrow> True
    | Some v \<Rightarrow> index_GetPermissionsByChannel (W_index v) = index_GetPermissionsByChannel (W_index w))"
proof -
  have "same_checks w v" if "refresh_user_list visit w = Some v" for v
    using that by (auto simp: refresh_user_list_def same_checks_def set_index_def UpdateUserList_def Let_def
        split: if_splits option.splits)
  then show ?thesis
    using same_checks_requests same_checks_permissions by (auto split: option.split)
qed

end
