(* ===== verification/Spec2Isabelle.thy ===== *)
theory Spec2Isabelle
  imports Index_Properties Gateway_Properties Delivery_Properties Session_Properties Sending_Properties Encoding_Properties Uploads Cache_Properties Media_Properties Embed_Properties Limiter Lifecycle Seeding_Account Index_Mirror_Properties Interleaving Routes_Properties Readers Relay_Permissions
begin

text \<open>
  A model of the Clack chat server (Go, under src/), and the properties that make it correct.

  \<^bold>\<open>The program.\<close> Clients talk JSON over websockets to the gateway (chat/gateway.go). A frame is
  decoded (chat/events.go) and given to a handler (chat/handlers.go), which works on the SQLite
  database through a transaction (storage/transactions.go), answers its own client, keeps the index
  of users and permissions in memory up to date (chat/index.go), and relays an event to the others
  (chat/relay.go). Messages with files, and new avatars, reserve an upload slot; the files then
  arrive over HTTP (network/api.go, network/media.go) and are stored with previews
  (storage/files.go, previews.go, ffmpeg.go, sandbox.go). Links in messages become embeds
  (chat/embed.go), whose pictures are served through a cache (common/cache/cache.go).

  \<^bold>\<open>Conventions.\<close> A struct is a record whose fields carry the name of the struct. A call returns a
  \<open>go_result\<close>: a value, an error, or a panic; state that it changes is passed and returned. What
  is read from outside (engine failures, ids, the clock, random texts, captchas) comes from the
  record \<open>Env\<close>, indexed by a tick, so that a theorem holds for every behaviour of it. Go maps are
  association lists (\<open>gomap\<close>), and where Go iterates over a map in an arbitrary order the order is an
  argument (\<open>visit\<close>). \<^verbatim>\<open>int\<close> and \<^verbatim>\<open>int64\<close> are integers, wrapped by \<open>i64\<close> where sums can
  overflow; permissions are 64-bit words. Texts are lists of bytes.
  The loops that are not structural have a measure, so no fuel is used; only the search for a user
  name in testing/fake.go may not end, and is \<open>None\<close> then.
\<close>

section \<open>The theories\<close>

text \<open>
  \<^item> \<open>Prelude\<close>, \<open>Models\<close>, \<open>Environment\<close>: results, overflow, common/models.go, and the outside.
  \<^item> \<open>Database\<close>, \<open>Transactions\<close>, \<open>Messages_Store\<close>, \<open>Permissions\<close>, \<open>Accounts\<close>: the tables of
    storage/sql/database_schema.sql with their keys and references (\<open>db_ok\<close>), one definition for
    each operation of storage/transactions.go, and lemmas that each keeps \<open>db_ok\<close>. A transaction
    holds the tables, the copy that a rollback restores, and whether it writes.
  \<^item> \<open>GoMaps\<close>, \<open>UserIndex\<close>, \<open>Access\<close>, \<open>UserLists\<close>, \<open>Index_Sync\<close>, \<open>Index_Properties\<close>: chat/index.go. The
    permissions of the index and of the store are the same words; the list of users is sorted,
    grouped and, as far as the hoists of the users are still hoisted roles, complete; moving one user gives what a rebuild gives, and the ranges that are
    reported as changed cover the changes. Maps with pending entries are an interface (a locale in
    \<open>GoMaps\<close>).
  \<^item> \<open>Snowflakes\<close>, \<open>Ingest\<close>, \<open>Events\<close>: ids as JSON, mentions and links in texts, events and the decoding
    of requests. \<open>Encoding\<close> is the JSON of every struct that the server sends, by the tags of its
    fields; \<open>Decoding\<close> is a reader by the same tags, with the contract of a writer and its reader as
    an interface (the locale \<open>round_trip\<close>) that every struct fulfils; \<open>Encoding_Properties\<close> shows that
    what was written can be read back.
  \<^item> \<open>Gateway\<close>, \<open>Handlers\<close>, \<open>Process\<close>: the connections, the relay, the captcha, every handler, the
    uploads, the background passes; \<open>step\<close> is one step of the process and \<open>reachable\<close> its worlds.
    A step is a whole handler, upload, pass or goroutine: what a handler starts with \<^verbatim>\<open>go\<close> is a task
    that a later step runs.
  \<^item> \<open>Serving\<close>, \<open>Handlers_Serving\<close>, \<open>Reachability\<close>, \<open>Authorization\<close>, \<open>Ranks\<close>: what serving a request
    can change, the invariant of reachable worlds, and who may do what. \<open>Gateway_Examples\<close> is a
    concrete run; \<open>Gateway_Properties\<close> and \<open>Authorization_Properties\<close> state the results.
  \<^item> \<open>Index_Mirror\<close>, \<open>Index_Mirror_Handlers\<close>, \<open>Publications\<close>, \<open>Concurrent_Steps\<close>,
    \<open>Index_Mirror_Properties\<close>: the index along every execution. \<open>mirrors\<close> is the agreement of the index with the tables, and \<open>steady\<close> what a step
    that writes neither users nor roles does; for every other handler, what it publishes is what it
    committed. A role that is deleted leaves the roles of the index but not the lists of the users
    that had it, and the infos (rank, group, permissions) of users are not part of the mirror.
    \<open>Publications\<close> takes the handlers that write users or roles apart at their commit, and
    \<open>interleaved\<close> of \<open>Concurrent_Steps\<close> has the commit and the publication as two steps, with others
    between them: the state there is the world and the publications that are due. Every step of the
    process is an execution of it.
    \<open>Interleaving\<close> shows that two publications about one user must come in the order of the commits.
    \<open>Relay_Permissions\<close> shows what follows for the relay.
  \<^item> \<open>Delivery\<close>, \<open>Delivery_Properties\<close>: which queues a relayed event enters, and that a queued event is
    written in its turn in every execution in which the web socket stays open: \<open>W_out\<close> is what was
    given to the sockets, \<open>W_wire\<close> what they took, and \<open>W_dead\<close> lists those that take no more. \<open>Sessions\<close>, \<open>Session_Properties\<close>: what logs a connection
    in, tokens, and captchas. \<open>Sending\<close>, \<open>Sending_Properties\<close>: a request to send a message from its
    guards to the stored row. \<open>Uploads\<close>: reserved slots.
  \<^item> \<open>Cache_Ranges\<close>, \<open>Http\<close>, \<open>Media_Cache\<close>, \<open>Cache_Integrity\<close>, \<open>Cache_Properties\<close>:
    common/cache/cache.go over an HTTP response writer and the responses of other servers. A list of
    ranges stands for the set of positions it covers; an entry is a true copy if the byte of
    each of these positions is stored.
  \<^item> \<open>Previews\<close>, \<open>Files\<close>, \<open>Files_Properties\<close>: the command lines of the preview programs, the jail, the
    data folder. \<open>Media\<close>, \<open>Media_Properties\<close>: the HTTP routes of network/media.go and the upload
    route of network/api.go. \<open>Routes\<close>, \<open>Routes_Properties\<close>: the table of routes of network/server.go
    and the handler that each path reaches, and the upgrade of a request to the gateway.
  \<^item> \<open>Text\<close>, \<open>Text_Properties\<close>, \<open>Readers\<close>: UTF-8, truncation, CRC-32 and the tables of
    common/emoji/emoji.go; the readers of common/utils.go.
  \<^item> \<open>Embeds\<close>, \<open>Embed_Previews\<close>, \<open>Embed_Properties\<close>: chat/embed.go, from the first request to the
    embed that is stored.
  \<^item> \<open>Limiter\<close>: the loops and wrappers of network/limiter.go. \<open>Lifecycle\<close>: the pool of connections in
    storage/database.go, and how main.go starts and stops the parts of the server. \<open>Seeding\<close>: testing/fake.go, with which
    \<^verbatim>\<open>main\<close> fills the database of a new data folder. \<open>Seeding_Account\<close> follows it to the account that
    it leaves: a round of the loop over the users reads the random sources at most fifty times, and
    what comes before the loop at most a hundred times.
\<close>

section \<open>Parameters\<close>

text \<open>
  Arguments of the definitions stand for code outside the repository: the SQLite engine, the
  snowflake library, the title-casing and file-type libraries, the HTML parser, the rate limiter,
  the router, the upgrade of the websocket library, the file server and the reverse proxy,
  the programs \<^verbatim>\<open>ffmpeg\<close>, \<^verbatim>\<open>ffprobe\<close> and \<^verbatim>\<open>nsjail\<close>, the library that invents texts (\<open>Faker\<close>),
  the captcha service and other web servers;
  and for hashes, random texts, the clock, files and sockets of the standard library. So are
  \<^verbatim>\<open>url.Parse\<close>, \<^verbatim>\<open>mime.ParseMediaType\<close>, \<^verbatim>\<open>unicode.IsPunct\<close>, \<^verbatim>\<open>http.ServeContent\<close> and the step of
  \<^verbatim>\<open>encoding/json\<close> from bytes to a document; what the code does with their results is modelled. Hypotheses
  about them are named: \<open>reliable\<close> (the engine does not fail), \<open>commits\<close> (it refuses no
  \<^verbatim>\<open>COMMIT\<close>), \<open>generates_increasing\<close> and \<open>snowflakes\<close> (new ids are beyond those issued before),
  \<open>permutes_keys\<close> (an order of iteration), \<open>honest\<close> (an origin that sends parts of one file),
  \<open>room_for\<close> (a disk with room), \<open>writer\<close> (the contract of \<^verbatim>\<open>io.Writer\<close>), \<open>pool_laws\<close> (a closed pool
  gives no connections), \<open>mux_documented\<close> (what a template of the router matches), \<open>negotiates\<close> (an
  upgrade confirms a subprotocol that both sides list).
\<close>

section \<open>Not modelled\<close>

text \<open>
  \<^item> Loggers, timing output, the context type and the address of a client (\<^verbatim>\<open>ClientIP\<close>, which the
    captcha check is given and does not use) have no effect on data; deadlines of requests are
    failures of the network, and the sleeping of the rate limits is left out.
  \<^item> The router redirects a path with empty or dotted segments before it matches; paths come cleaned.
  \<^item> Requests of different connections run at the same time in the program, on up to 16 database
    connections. SQLite isolates their transactions, and one that loses a race fails with an engine
    error, which \<open>Env\<close> covers; but a step of \<open>step\<close> is a whole request. That other goroutines
    may come between the commit of one and its change of the index is modelled in \<open>Concurrent_Steps\<close>.
    Two calls on one cache entry do not interleave inside an operation, nor do two methods of the
    index (\<^verbatim>\<open>UpdateUserList\<close> takes its lock twice, for reading and for writing).
  \<^item> A database connection that goes back to the pool inside a transaction (\<open>leak_tx\<close>) is counted, and
    the next request is given a fresh one. Whether a slice is \<^verbatim>\<open>nil\<close> is known by the field that holds
    it, not for every value. \<^verbatim>\<open>net/http\<close> refuses to write more than the declared length of a response.
  \<^item> The memory of the SQLite page cache, the size limits of frames, and what a client does with an
    event.
\<close>

end
